(* ===== verification/Prelude.thy ===== *)
theory Prelude
  imports Complex_Main "HOL-Library.Word" "HOL-Library.Sublist"
begin

text \<open>
  Shared vocabulary of the development: JavaScript strings as lists of UTF-16 code units,
  JavaScript numbers and values, the string operations of the ECMAScript library that the
  sources call, truthiness and the nullish operator, and the collections of facts that the
  component theories add to.  The last section has reachability and invariants of machines.
\<close>

named_theorems js_simps \<open>evaluation of JavaScript string and value operations\<close>
named_theorems handler_simps \<open>definitions of the request handlers of the API server\<close>

section \<open>Strings\<close>

text \<open>
  A JavaScript string is a sequence of 16-bit code units. \<open>js\<close> reads an ASCII literal.
\<close>

type_synonym jschar = "16 word"
type_synonym jsstr = "jschar list"

definition unit_of :: "char \<Rightarrow> jschar" where
  "unit_of c = word_of_nat (of_char c)"

definition js :: "string \<Rightarrow> jsstr" where
  "js s = map unit_of s"

lemma unat_unit_of: "unat (unit_of c) = of_char c"
proof -
  have "of_char c < (65536 :: nat)"
    using nat_of_char_less_256 [of c] by linarith
  then show ?thesis
    by (simp add: unit_of_def unat_of_nat)
qed

lemma unit_of_eq_iff [simp]: "unit_of c = unit_of d \<longleftrightarrow> c = d"
proof
  assume "unit_of c = unit_of d"
  then have "of_char c = (of_char d :: nat)"
    by (simp add: unat_unit_of [symmetric])
  then show "c = d"
    by simp
qed simp

lemma js_Nil [simp]: "js [] = []"
  by (simp add: js_def)

lemma js_eq_Nil [simp]: "js s = [] \<longleftrightarrow> s = []" "[] = js s \<longleftrightarrow> s = []"
  by (auto simp: js_def)

lemma length_js [simp]: "length (js s) = length s"
  by (simp add: js_def)

lemma js_append: "js (s @ t) = js s @ js t"
  by (simp add: js_def)

lemma inj_unit_of: "inj unit_of"
  by (rule injI) simp

lemma js_eq_iff [simp]: "js s = js t \<longleftrightarrow> s = t"
  by (simp add: js_def inj_map_eq_map inj_unit_of)

lemma js_Cons: "js (c # s) = unit_of c # js s"
  by (simp add: js_def)

text \<open>
  The white space that \<open>trim\<close> removes: the WhiteSpace and LineTerminator code points of
  ECMA-262, all of which are single code units. The byte order mark is one of them.
\<close>

definition byte_order_mark :: jschar where
  "byte_order_mark = 0xFEFF"

definition is_white :: "jschar \<Rightarrow> bool" where
  "is_white c \<longleftrightarrow>
     (9 \<le> unat c \<and> unat c \<le> 13) \<or> unat c = 32 \<or> unat c = 160 \<or> unat c = 5760 \<or>
     (8192 \<le> unat c \<and> unat c \<le> 8202) \<or> unat c = 8232 \<or> unat c = 8233 \<or>
     unat c = 8239 \<or> unat c = 8287 \<or> unat c = 12288 \<or> unat c = 65279"

definition trimStart :: "jsstr \<Rightarrow> jsstr" where
  "trimStart s = dropWhile is_white s"

definition trim :: "jsstr \<Rightarrow> jsstr" where
  "trim s = rev (dropWhile is_white (rev (trimStart s)))"

lemma byte_order_mark_white: "is_white byte_order_mark"
  by (simp add: is_white_def byte_order_mark_def)

lemma trimStart_eq_Nil [simp]: "trimStart s = [] \<longleftrightarrow> (\<forall>c \<in> set s. is_white c)"
  by (simp add: trimStart_def)

lemma trim_eq_Nil: "trim s = [] \<longleftrightarrow> (\<forall>c \<in> set s. is_white c)"
proof -
  have "trim s = [] \<longleftrightarrow> (\<forall>c \<in> set (trimStart s). is_white c)"
    by (simp add: trim_def)
  also have "\<dots> \<longleftrightarrow> (\<forall>c \<in> set s. is_white c)"
  proof
    assume *: "\<forall>c \<in> set (trimStart s). is_white c"
    show "\<forall>c \<in> set s. is_white c"
    proof (rule ccontr)
      assume "\<not> (\<forall>c \<in> set s. is_white c)"
      then have "trimStart s \<noteq> []" by simp
      then have "\<not> is_white (hd (trimStart s))"
        by (simp add: trimStart_def hd_dropWhile)
      with * \<open>trimStart s \<noteq> []\<close> show False by simp
    qed
  next
    assume "\<forall>c \<in> set s. is_white c"
    then show "\<forall>c \<in> set (trimStart s). is_white c"
      by (auto simp: trimStart_def dest: set_dropWhileD)
  qed
  finally show ?thesis .
qed

lemma trimStart_skip: "is_white c \<Longrightarrow> trimStart (c # s) = trimStart s"
  by (simp add: trimStart_def)

lemma trim_skip: "is_white c \<Longrightarrow> trim (c # s) = trim s"
  by (simp add: trim_def trimStart_skip)

text \<open>\<open>startsWith\<close>, \<open>endsWith\<close> and \<open>includes\<close> (here \<open>contains_str\<close>) are the library's prefix, suffix and sublist.\<close>

abbreviation startsWith :: "jsstr \<Rightarrow> jsstr \<Rightarrow> bool" where
  "startsWith s p \<equiv> prefix p s"

abbreviation endsWith :: "jsstr \<Rightarrow> jsstr \<Rightarrow> bool" where
  "endsWith s p \<equiv> suffix p s"

abbreviation contains_str :: "jsstr \<Rightarrow> jsstr \<Rightarrow> bool" where
  "contains_str s p \<equiv> sublist p s"

lemma prefix_js [simp]: "prefix (js s) (js t) \<longleftrightarrow> prefix s t"
proof
  assume "prefix (js s) (js t)"
  then obtain u where "map unit_of t = map unit_of s @ u"
    by (auto simp: js_def prefix_def)
  then obtain s' u' where "t = s' @ u'" "map unit_of s' = map unit_of s"
    by (auto simp: map_eq_append_conv)
  then show "prefix s t"
    by (auto simp: inj_map_eq_map inj_unit_of)
qed (auto simp: prefix_def js_append)

text \<open>\<open>s.split(sep, 1)[0]\<close>: the part before the first separator, the whole string if none.\<close>

definition before_sep :: "jschar \<Rightarrow> jsstr \<Rightarrow> jsstr" where
  "before_sep sep s = takeWhile (\<lambda>c. c \<noteq> sep) s"

section \<open>Numbers and values\<close>

text \<open>
  The finite numbers are rationals: the sources add and multiply small integers only, where
  doubles are exact. The sign of zero is not modelled.
\<close>

datatype jsnum = NaN | PosInf | NegInf | Fin rat

abbreviation jsint :: "int \<Rightarrow> jsnum" where
  "jsint n \<equiv> Fin (of_int n)"

fun num_ge :: "jsnum \<Rightarrow> rat \<Rightarrow> bool" where
  "num_ge NaN _ = False"
| "num_ge PosInf _ = True"
| "num_ge NegInf _ = False"
| "num_ge (Fin r) q = (q \<le> r)"

datatype jsval =
    Undefined
  | Null
  | Bool bool
  | Num jsnum
  | Str jsstr
  | Date int
  | Arr "jsval list"
  | Obj "(jsstr \<times> jsval) list"

text \<open>\<open>Math.round\<close> rounds half up; \<open>Math.floor\<close> is \<open>\<lfloor>_\<rfloor>\<close>.\<close>

fun math_round :: "jsnum \<Rightarrow> jsnum" where
  "math_round (Fin r) = jsint \<lfloor>r + 1 / 2\<rfloor>"
| "math_round n = n"

text \<open>The decimal digits of a natural number, as \<open>String\<close> and templates write integers.\<close>

fun digits_of :: "nat \<Rightarrow> jsstr" where
  "digits_of n = (if n < 10 then [word_of_nat (48 + n)]
     else digits_of (n div 10) @ [word_of_nat (48 + n mod 10)])"

declare digits_of.simps [simp del]

definition show_int :: "int \<Rightarrow> jsstr" where
  "show_int i = (if i < 0 then js ''-'' @ digits_of (nat (- i)) else digits_of (nat i))"

lemma length_digits_of_less: "n < 10 ^ Suc k \<Longrightarrow> length (digits_of n) \<le> Suc k"
proof (induction k arbitrary: n)
  case 0
  then show ?case by (simp add: digits_of.simps)
next
  case (Suc k)
  then have "n div 10 < 10 ^ Suc k" by (simp add: less_mult_imp_div_less)
  with Suc.IH show ?case by (subst digits_of.simps) auto
qed

lemma length_digits_of_ge: "10 ^ k \<le> n \<Longrightarrow> Suc k \<le> length (digits_of n)"
proof (induction k arbitrary: n)
  case 0
  then show ?case by (subst digits_of.simps) auto
next
  case (Suc k)
  have "10 * (1 :: nat) \<le> 10 * 10 ^ k" by (rule mult_le_mono2) simp
  with Suc.prems have "\<not> n < 10" by (simp only: power_Suc)
  moreover from Suc.prems have "10 ^ k \<le> n div 10"
    by (simp add: less_eq_div_iff_mult_less_eq algebra_simps)
  ultimately show ?case using Suc.IH [of "n div 10"] by (subst digits_of.simps) auto
qed

text \<open>Reading a property that an object does not have gives \<open>undefined\<close>.\<close>

fun field :: "jsval \<Rightarrow> jsstr \<Rightarrow> jsval" where
  "field (Obj kvs) k = (case map_of kvs k of Some v \<Rightarrow> v | None \<Rightarrow> Undefined)"
| "field _ k = Undefined"

fun truthy :: "jsval \<Rightarrow> bool" where
  "truthy Undefined = False"
| "truthy Null = False"
| "truthy (Bool b) = b"
| "truthy (Num n) = (n \<noteq> NaN \<and> n \<noteq> Fin 0)"
| "truthy (Str s) = (s \<noteq> [])"
| "truthy (Date _) = True"
| "truthy (Arr _) = True"
| "truthy (Obj _) = True"

definition nullish :: "jsval \<Rightarrow> bool" where
  "nullish v \<longleftrightarrow> v = Undefined \<or> v = Null"

text \<open>\<open>a ?? b\<close>, for a value and for an optional one.\<close>

definition coalesce :: "jsval \<Rightarrow> jsval \<Rightarrow> jsval" where
  "coalesce a b = (if nullish a then b else a)"

definition or_else :: "'a option \<Rightarrow> 'a \<Rightarrow> 'a" where
  "or_else a b = (case a of Some x \<Rightarrow> x | None \<Rightarrow> b)"

lemma or_else_simps [simp]: "or_else (Some x) b = x" "or_else None b = b"
  by (simp_all add: or_else_def)

lemma coalesce_simps [simp]:
  "coalesce Undefined b = b" "coalesce Null b = b"
  "coalesce (Str s) b = Str s" "coalesce (Num n) b = Num n" "coalesce (Bool x) b = Bool x"
  by (simp_all add: coalesce_def nullish_def)

text \<open>A nullable text column or field: \<open>null\<close> for \<open>None\<close>.\<close>

fun str_or_null :: "jsstr option \<Rightarrow> jsval" where
  "str_or_null None = Null"
| "str_or_null (Some s) = Str s"

fun num_or_null :: "jsnum option \<Rightarrow> jsval" where
  "num_or_null None = Null"
| "num_or_null (Some n) = Num n"

lemma str_or_null_eq [simp]:
  "str_or_null a = str_or_null b \<longleftrightarrow> a = b"
  by (cases a; cases b) simp_all

text \<open>Spreading \<open>{...a, ...b}\<close>: the later source wins, keys keep their first position.\<close>

fun put_key :: "('k \<times> 'v) list \<Rightarrow> 'k \<Rightarrow> 'v \<Rightarrow> ('k \<times> 'v) list" where
  "put_key [] k v = [(k, v)]"
| "put_key ((k', v') # kvs) k v =
     (if k' = k then (k, v) # kvs else (k', v') # put_key kvs k v)"

definition spread :: "('k \<times> 'v) list \<Rightarrow> ('k \<times> 'v) list \<Rightarrow> ('k \<times> 'v) list" where
  "spread a b = fold (\<lambda>(k, v) acc. put_key acc k v) b a"

lemma map_of_put_key [simp]: "map_of (put_key kvs k v) = (map_of kvs)(k \<mapsto> v)"
  by (induction kvs k v rule: put_key.induct) (auto simp: fun_eq_iff)

lemma spread_Nil [simp]: "spread a [] = a"
  by (simp add: spread_def)

lemma spread_Cons [simp]: "spread a ((k, v) # b) = spread (put_key a k v) b"
  by (simp add: spread_def)

lemma keys_put_key: "fst ` set (put_key kvs k v) = insert k (fst ` set kvs)"
  by (induction kvs k v rule: put_key.induct) auto

lemma distinct_put_key:
  "distinct (map fst kvs) \<Longrightarrow> distinct (map fst (put_key kvs k v))"
proof (induction kvs k v rule: put_key.induct)
  case (2 k' v' kvs k v)
  then show ?case
    using keys_put_key [of kvs k v] by (auto simp: image_iff)
qed simp

lemma map_of_spread: "distinct (map fst b) \<Longrightarrow> map_of (spread a b) = map_of a ++ map_of b"
proof (induction b arbitrary: a)
  case Nil
  then show ?case by simp
next
  case (Cons kv b)
  obtain k v where kv: "kv = (k, v)" by (cases kv)
  from Cons.prems kv have "k \<notin> fst ` set b" by simp
  then have "map_of b k = None" by (simp add: map_of_eq_None_iff)
  with Cons kv show ?case
    by (auto simp: map_add_def fun_eq_iff split: option.splits)
qed

section \<open>Machines and their invariants\<close>

text \<open>
  A machine is a set of initial states and a step relation; the components with state are such
  machines.  What holds initially and is kept by every step holds in every reachable state.
\<close>

inductive reach :: "('s \<Rightarrow> bool) \<Rightarrow> ('s \<Rightarrow> 's \<Rightarrow> bool) \<Rightarrow> 's \<Rightarrow> bool" for initially stepping where
  reach_start: "initially s \<Longrightarrow> reach initially stepping s"
| reach_step: "reach initially stepping s \<Longrightarrow> stepping s t \<Longrightarrow> reach initially stepping t"

lemma reach_weaken: "reach initially stepping s \<Longrightarrow> (\<And>s. initially s \<Longrightarrow> more s) \<Longrightarrow> reach more stepping s"
  by (induction rule: reach.induct) (auto intro: reach_start reach_step)

locale invariant_of =
  fixes initially :: "'s \<Rightarrow> bool" and stepping :: "'s \<Rightarrow> 's \<Rightarrow> bool" and inv :: "'s \<Rightarrow> bool"
  assumes holds_initially: "initially s \<Longrightarrow> inv s"
    and kept: "inv s \<Longrightarrow> stepping s t \<Longrightarrow> inv t"
begin

lemma holds: "reach initially stepping s \<Longrightarrow> inv s"
  by (induction rule: reach.induct) (auto intro: holds_initially kept)

end

end
