(* ===== verification/Registry_Db.thy ===== *)
theory Registry_Db
  imports Prelude
begin

text \<open>
  The registry database of the API server: the two tables of \<open>lib/db/src/schema\<close>, the
  statements that the route handlers build with the query builder, and asynchronous handler
  bodies as sequences of awaited statements.  PostgreSQL and the drizzle driver are not part of
  the sources: they are the argument \<open>db\<close> of everything that runs a statement, and the locale
  \<open>registry_db\<close> names what the handlers rely on.  The end of the theory interprets the
  locale on a table store with the columns, keys and defaults that the schema files declare.
\<close>

section \<open>Tables\<close>

text \<open>A timestamp is its number of milliseconds since the epoch, as a \<open>Date\<close> holds it.\<close>

type_synonym instant = int

record parcel_row =
  p_id :: jsstr
  p_titleNumber :: jsstr
  p_ownerName :: jsstr
  p_ownerPhone :: "jsstr option"
  p_ownerEmail :: "jsstr option"
  p_locationAddress :: jsstr
  p_state :: jsstr
  p_lga :: jsstr
  p_areaSqm :: jsstr
  p_parcelType :: jsstr
  p_status :: jsstr
  p_trustScore :: int
  p_latitude :: "jsnum option"
  p_longitude :: "jsnum option"
  p_createdAt :: instant
  p_updatedAt :: instant

record evidence_row =
  e_id :: jsstr
  e_parcelId :: jsstr
  e_documentType :: jsstr
  e_fileName :: jsstr
  e_notes :: "jsstr option"
  e_status :: jsstr
  e_uploadedAt :: instant

text \<open>The columns an insert gives a value; the others take the defaults of the schema.\<close>

record parcel_values =
  v_titleNumber :: jsstr
  v_ownerName :: jsstr
  v_ownerPhone :: "jsstr option"
  v_ownerEmail :: "jsstr option"
  v_locationAddress :: jsstr
  v_state :: jsstr
  v_lga :: jsstr
  v_areaSqm :: jsstr
  v_parcelType :: jsstr
  v_status :: jsstr
  v_trustScore :: int
  v_latitude :: "jsnum option"
  v_longitude :: "jsnum option"

record evidence_values =
  w_parcelId :: jsstr
  w_documentType :: jsstr
  w_fileName :: jsstr
  w_notes :: "jsstr option"
  w_status :: jsstr

text \<open>
  The partial objects given to \<open>set\<close>: \<open>None\<close> for a key that is absent, and for a nullable
  column \<open>Some None\<close> for a key whose value is \<open>null\<close>.
\<close>

record parcel_updates =
  u_ownerName :: "jsstr option"
  u_ownerPhone :: "jsstr option option"
  u_ownerEmail :: "jsstr option option"
  u_locationAddress :: "jsstr option"
  u_state :: "jsstr option"
  u_lga :: "jsstr option"
  u_areaSqm :: "jsstr option"
  u_parcelType :: "jsstr option"
  u_status :: "jsstr option"
  u_trustScore :: "int option"
  u_latitude :: "jsnum option option"
  u_longitude :: "jsnum option option"

record evidence_updates =
  x_status :: "jsstr option"
  x_notes :: "jsstr option option"

definition no_parcel_updates :: parcel_updates where
  "no_parcel_updates =
     \<lparr>u_ownerName = None, u_ownerPhone = None, u_ownerEmail = None, u_locationAddress = None,
      u_state = None, u_lga = None, u_areaSqm = None, u_parcelType = None, u_status = None,
      u_trustScore = None, u_latitude = None, u_longitude = None\<rparr>"

definition no_evidence_updates :: evidence_updates where
  "no_evidence_updates = \<lparr>x_status = None, x_notes = None\<rparr>"

text \<open>
  The row an update leaves: the given columns replaced (the area as the \<open>numeric(12,2)\<close>
  column stores it), \<open>updatedAt\<close> set by the column's \<open>$onUpdate\<close>.
\<close>

definition updated_parcel ::
    "(jsstr \<Rightarrow> jsstr) \<Rightarrow> instant \<Rightarrow> parcel_updates \<Rightarrow> parcel_row \<Rightarrow> parcel_row" where
  "updated_parcel numeric now u p = p\<lparr>
     p_ownerName := or_else (u_ownerName u) (p_ownerName p),
     p_ownerPhone := or_else (u_ownerPhone u) (p_ownerPhone p),
     p_ownerEmail := or_else (u_ownerEmail u) (p_ownerEmail p),
     p_locationAddress := or_else (u_locationAddress u) (p_locationAddress p),
     p_state := or_else (u_state u) (p_state p),
     p_lga := or_else (u_lga u) (p_lga p),
     p_areaSqm := or_else (map_option numeric (u_areaSqm u)) (p_areaSqm p),
     p_parcelType := or_else (u_parcelType u) (p_parcelType p),
     p_status := or_else (u_status u) (p_status p),
     p_trustScore := or_else (u_trustScore u) (p_trustScore p),
     p_latitude := or_else (u_latitude u) (p_latitude p),
     p_longitude := or_else (u_longitude u) (p_longitude p),
     p_updatedAt := now\<rparr>"

definition updated_evidence :: "evidence_updates \<Rightarrow> evidence_row \<Rightarrow> evidence_row" where
  "updated_evidence x e = e\<lparr>
     e_status := or_else (x_status x) (e_status e),
     e_notes := or_else (x_notes x) (e_notes e)\<rparr>"

text \<open>The row an insert leaves, with the defaulted key and times.\<close>

definition inserted_parcel ::
    "(jsstr \<Rightarrow> jsstr) \<Rightarrow> jsstr \<Rightarrow> instant \<Rightarrow> parcel_values \<Rightarrow> parcel_row" where
  "inserted_parcel numeric i now v =
     \<lparr>p_id = i, p_titleNumber = v_titleNumber v, p_ownerName = v_ownerName v,
      p_ownerPhone = v_ownerPhone v, p_ownerEmail = v_ownerEmail v,
      p_locationAddress = v_locationAddress v, p_state = v_state v, p_lga = v_lga v,
      p_areaSqm = numeric (v_areaSqm v), p_parcelType = v_parcelType v,
      p_status = v_status v, p_trustScore = v_trustScore v, p_latitude = v_latitude v,
      p_longitude = v_longitude v, p_createdAt = now, p_updatedAt = now\<rparr>"

definition inserted_evidence :: "jsstr \<Rightarrow> instant \<Rightarrow> evidence_values \<Rightarrow> evidence_row" where
  "inserted_evidence i now w =
     \<lparr>e_id = i, e_parcelId = w_parcelId w, e_documentType = w_documentType w,
      e_fileName = w_fileName w, e_notes = w_notes w, e_status = w_status w,
      e_uploadedAt = now\<rparr>"

lemma updated_parcel_simps [simp]:
  "p_id (updated_parcel n t u p) = p_id p"
  "p_titleNumber (updated_parcel n t u p) = p_titleNumber p"
  "p_status (updated_parcel n t u p) = or_else (u_status u) (p_status p)"
  "p_trustScore (updated_parcel n t u p) = or_else (u_trustScore u) (p_trustScore p)"
  "p_createdAt (updated_parcel n t u p) = p_createdAt p"
  by (simp_all add: updated_parcel_def)

lemma updated_evidence_simps [simp]:
  "e_id (updated_evidence x e) = e_id e"
  "e_parcelId (updated_evidence x e) = e_parcelId e"
  "e_status (updated_evidence x e) = or_else (x_status x) (e_status e)"
  by (simp_all add: updated_evidence_def)

lemma inserted_simps [simp]:
  "p_id (inserted_parcel n i t v) = i"
  "p_titleNumber (inserted_parcel n i t v) = v_titleNumber v"
  "p_status (inserted_parcel n i t v) = v_status v"
  "p_trustScore (inserted_parcel n i t v) = v_trustScore v"
  "e_id (inserted_evidence i t w) = i"
  "e_parcelId (inserted_evidence i t w) = w_parcelId w"
  "e_status (inserted_evidence i t w) = w_status w"
  by (simp_all add: inserted_parcel_def inserted_evidence_def)

section \<open>Statements\<close>

datatype parcel_column = TitleNumber | OwnerName | LocationAddress

datatype parcel_cond =
    StatusIs jsstr
  | TypeIs jsstr
  | StateIs jsstr
  | Ilike parcel_column jsstr
  | AnyOf "parcel_cond list"
  | CreatedInLast7Days

text \<open>Statements that return parcel rows, evidence rows, a count and a numeric as text.\<close>

datatype parcel_stmt =
    SelectParcels "parcel_cond list" jsnum jsnum
  | SelectParcel jsstr
  | InsertParcel parcel_values
  | UpdateParcel jsstr parcel_updates
  | DeleteParcel jsstr

datatype evidence_stmt =
    SelectEvidenceOf jsstr
  | InsertEvidence evidence_values
  | UpdateEvidence jsstr evidence_updates
  | DeleteEvidence jsstr

datatype count_stmt =
    CountParcels "parcel_cond list"
  | CountEvidenceStatus jsstr
  | CountEvidenceOf jsstr jsstr

datatype text_stmt = AverageTrust

section \<open>Handler bodies\<close>

text \<open>
  An \<open>async\<close> body: it returns, throws, or awaits a statement and goes on with its rows.
  The driver rejects a statement by a thrown error, which no handler of the sources catches.
\<close>

datatype thrown = DatabaseError | ResponseInvalid | TypeError

datatype 'a act =
    Return 'a
  | Throw thrown
  | AwaitParcels parcel_stmt "parcel_row list \<Rightarrow> 'a act"
  | AwaitEvidence evidence_stmt "evidence_row list \<Rightarrow> 'a act"
  | AwaitCount count_stmt "int option \<Rightarrow> 'a act"
  | AwaitText text_stmt "jsstr option \<Rightarrow> 'a act"

primrec and_then :: "'a act \<Rightarrow> ('a \<Rightarrow> 'b act) \<Rightarrow> 'b act" where
  "and_then (Return x) k = k x"
| "and_then (Throw e) k = Throw e"
| "and_then (AwaitParcels q f) k = AwaitParcels q (\<lambda>r. and_then (f r) k)"
| "and_then (AwaitEvidence q f) k = AwaitEvidence q (\<lambda>r. and_then (f r) k)"
| "and_then (AwaitCount q f) k = AwaitCount q (\<lambda>r. and_then (f r) k)"
| "and_then (AwaitText q f) k = AwaitText q (\<lambda>r. and_then (f r) k)"

lemma act_induct [case_names Return Throw AwaitParcels AwaitEvidence AwaitCount AwaitText]:
  assumes "\<And>x. P (Return x)" and "\<And>e. P (Throw e)"
    and "\<And>q f. (\<And>r. P (f r)) \<Longrightarrow> P (AwaitParcels q f)"
    and "\<And>q f. (\<And>r. P (f r)) \<Longrightarrow> P (AwaitEvidence q f)"
    and "\<And>q f. (\<And>r. P (f r)) \<Longrightarrow> P (AwaitCount q f)"
    and "\<And>q f. (\<And>r. P (f r)) \<Longrightarrow> P (AwaitText q f)"
  shows "P m"
  by (induction m) (auto intro: assms)

lemma and_then_Return [simp]: "and_then m Return = m"
  by (induction m) auto

lemma and_then_assoc: "and_then (and_then m f) g = and_then m (\<lambda>x. and_then (f x) g)"
  by (induction m) auto

text \<open>
  The database service: each statement yields its rows and the next state, or is rejected
  (\<open>None\<close>) with the state unchanged.
\<close>

record 's db_service =
  query_parcels :: "parcel_stmt \<Rightarrow> 's \<Rightarrow> (parcel_row list \<times> 's) option"
  query_evidence :: "evidence_stmt \<Rightarrow> 's \<Rightarrow> (evidence_row list \<times> 's) option"
  query_count :: "count_stmt \<Rightarrow> 's \<Rightarrow> (int option \<times> 's) option"
  query_text :: "text_stmt \<Rightarrow> 's \<Rightarrow> (jsstr option \<times> 's) option"

datatype 'a result = Done 'a | Raised thrown

primrec run :: "'s db_service \<Rightarrow> 'a act \<Rightarrow> 's \<Rightarrow> 'a result \<times> 's" where
  "run db (Return x) s = (Done x, s)"
| "run db (Throw e) s = (Raised e, s)"
| "run db (AwaitParcels q f) s =
     (case query_parcels db q s of None \<Rightarrow> (Raised DatabaseError, s) | Some (r, t) \<Rightarrow> run db (f r) t)"
| "run db (AwaitEvidence q f) s =
     (case query_evidence db q s of None \<Rightarrow> (Raised DatabaseError, s) | Some (r, t) \<Rightarrow> run db (f r) t)"
| "run db (AwaitCount q f) s =
     (case query_count db q s of None \<Rightarrow> (Raised DatabaseError, s) | Some (r, t) \<Rightarrow> run db (f r) t)"
| "run db (AwaitText q f) s =
     (case query_text db q s of None \<Rightarrow> (Raised DatabaseError, s) | Some (r, t) \<Rightarrow> run db (f r) t)"

lemma run_and_then:
  "run db (and_then m k) s =
     (case run db m s of (Done x, t) \<Rightarrow> run db (k x) t | (Raised e, t) \<Rightarrow> (Raised e, t))"
  by (induction m arbitrary: s) (auto split: option.splits prod.splits)

section \<open>What the handlers rely on\<close>

text \<open>
  The tables as finite maps from primary keys, in the spelling in which the database returns a key.  A \<open>uuid\<close>
  column finds a row under other spellings of its key too (upper case, braces); the laws are about
  requests that spell a key as it was handed out.  A condition of a \<open>where\<close> clause on one row;
  \<open>ilike\<close> is the pattern match of the database and \<open>recent\<close> its test against \<open>now()\<close>.
\<close>

fun column_text :: "parcel_column \<Rightarrow> parcel_row \<Rightarrow> jsstr" where
  "column_text TitleNumber p = p_titleNumber p"
| "column_text OwnerName p = p_ownerName p"
| "column_text LocationAddress p = p_locationAddress p"

fun cond_holds ::
    "(jsstr \<Rightarrow> jsstr \<Rightarrow> bool) \<Rightarrow> (instant \<Rightarrow> bool) \<Rightarrow> parcel_cond \<Rightarrow> parcel_row \<Rightarrow> bool" where
  "cond_holds ilike recent (StatusIs v) p = (p_status p = v)"
| "cond_holds ilike recent (TypeIs v) p = (p_parcelType p = v)"
| "cond_holds ilike recent (StateIs v) p = (p_state p = v)"
| "cond_holds ilike recent (Ilike c pat) p = ilike (column_text c p) pat"
| "cond_holds ilike recent (AnyOf cs) p = (\<exists>c \<in> set cs. cond_holds ilike recent c p)"
| "cond_holds ilike recent CreatedInLast7Days p = recent (p_createdAt p)"

definition all_hold ::
    "(jsstr \<Rightarrow> jsstr \<Rightarrow> bool) \<Rightarrow> (instant \<Rightarrow> bool) \<Rightarrow> parcel_cond list \<Rightarrow> parcel_row \<Rightarrow> bool" where
  "all_hold ilike recent cs p \<longleftrightarrow> (\<forall>c \<in> set cs. cond_holds ilike recent c p)"

definition evidence_of ::
    "(jsstr \<rightharpoonup> evidence_row) \<Rightarrow> jsstr \<Rightarrow> jsstr \<Rightarrow> jsstr set" where
  "evidence_of ev i st = {j. \<exists>e. ev j = Some e \<and> e_parcelId e = i \<and> e_status e = st}"

definition drop_evidence_of ::
    "jsstr \<Rightarrow> (jsstr \<rightharpoonup> evidence_row) \<Rightarrow> (jsstr \<rightharpoonup> evidence_row)" where
  "drop_evidence_of i ev =
     (\<lambda>j. case ev j of None \<Rightarrow> None | Some e \<Rightarrow> if e_parcelId e = i then None else Some e)"

definition newest_first :: "('r \<Rightarrow> instant) \<Rightarrow> 'r list \<Rightarrow> bool" where
  "newest_first time rs \<longleftrightarrow> sorted_wrt (\<lambda>a b. time b \<le> time a) rs"

locale registry_db =
  fixes db :: "'s db_service"
    and parcels :: "'s \<Rightarrow> (jsstr \<rightharpoonup> parcel_row)"
    and evidence :: "'s \<Rightarrow> (jsstr \<rightharpoonup> evidence_row)"
    and wf :: "'s \<Rightarrow> bool"
    and numeric :: "jsstr \<Rightarrow> jsstr"
    and ilike :: "jsstr \<Rightarrow> jsstr \<Rightarrow> bool"
    and recent :: "'s \<Rightarrow> instant \<Rightarrow> bool"
  assumes parcel_key: "wf s \<Longrightarrow> parcels s i = Some p \<Longrightarrow> p_id p = i"
    and evidence_key: "wf s \<Longrightarrow> evidence s j = Some e \<Longrightarrow> e_id e = j"
    and finite_parcels: "wf s \<Longrightarrow> finite (dom (parcels s))"
    and finite_evidence: "wf s \<Longrightarrow> finite (dom (evidence s))"
    and foreign_key: "wf s \<Longrightarrow> evidence s j = Some e \<Longrightarrow> parcels s (e_parcelId e) \<noteq> None"
    and unique_title: "wf s \<Longrightarrow> parcels s i = Some p \<Longrightarrow> parcels s k = Some q \<Longrightarrow>
      p_titleNumber p = p_titleNumber q \<Longrightarrow> i = k"
    and wf_parcels: "wf s \<Longrightarrow> query_parcels db qp s = Some (rp, t) \<Longrightarrow> wf t"
    and wf_evidence: "wf s \<Longrightarrow> query_evidence db qe s = Some (re, t) \<Longrightarrow> wf t"
    and wf_count: "wf s \<Longrightarrow> query_count db qc s = Some (rc, t) \<Longrightarrow> wf t"
    and wf_text: "wf s \<Longrightarrow> query_text db qt s = Some (rt, t) \<Longrightarrow> wf t"
    and select_parcel: "wf s \<Longrightarrow> query_parcels db (SelectParcel i) s = Some (r, t) \<Longrightarrow>
      r = (case parcels s i of None \<Rightarrow> [] | Some p \<Rightarrow> [p]) \<and>
      parcels t = parcels s \<and> evidence t = evidence s"
    and select_parcels: "wf s \<Longrightarrow>
      query_parcels db (SelectParcels cs (jsint (int n)) (jsint (int m))) s = Some (r, t) \<Longrightarrow>
      (\<exists>all. r = take n (drop m all) \<and> newest_first p_createdAt all \<and> distinct (map p_id all) \<and>
        set all = {p \<in> ran (parcels s). all_hold ilike (recent s) cs p}) \<and>
      parcels t = parcels s \<and> evidence t = evidence s \<and> recent t = recent s"
    and select_some_parcels: "wf s \<Longrightarrow> query_parcels db (SelectParcels cs l o') s = Some (r, t) \<Longrightarrow>
      set r \<subseteq> ran (parcels s) \<and> parcels t = parcels s \<and> evidence t = evidence s"
    and insert_parcel: "wf s \<Longrightarrow> query_parcels db (InsertParcel v) s = Some (r, t) \<Longrightarrow>
      \<exists>i now. parcels s i = None \<and> r = [inserted_parcel numeric i now v] \<and>
        parcels t = (parcels s)(i \<mapsto> inserted_parcel numeric i now v) \<and> evidence t = evidence s"
    and update_parcel: "wf s \<Longrightarrow> query_parcels db (UpdateParcel i u) s = Some (r, t) \<Longrightarrow>
      evidence t = evidence s \<and>
      (case parcels s i of
         None \<Rightarrow> r = [] \<and> parcels t = parcels s
       | Some p \<Rightarrow> \<exists>now. r = [updated_parcel numeric now u p] \<and>
           parcels t = (parcels s)(i \<mapsto> updated_parcel numeric now u p))"
    and delete_parcel: "wf s \<Longrightarrow> query_parcels db (DeleteParcel i) s = Some (r, t) \<Longrightarrow>
      r = (case parcels s i of None \<Rightarrow> [] | Some p \<Rightarrow> [p]) \<and>
      parcels t = (parcels s)(i := None) \<and> evidence t = drop_evidence_of i (evidence s)"
    and select_evidence: "wf s \<Longrightarrow> query_evidence db (SelectEvidenceOf i) s = Some (re, t) \<Longrightarrow>
      newest_first e_uploadedAt re \<and> distinct (map e_id re) \<and>
      set re = {e \<in> ran (evidence s). e_parcelId e = i} \<and>
      parcels t = parcels s \<and> evidence t = evidence s"
    and insert_evidence: "wf s \<Longrightarrow> query_evidence db (InsertEvidence w) s = Some (re, t) \<Longrightarrow>
      \<exists>j now. evidence s j = None \<and> re = [inserted_evidence j now w] \<and>
        evidence t = (evidence s)(j \<mapsto> inserted_evidence j now w) \<and> parcels t = parcels s"
    and update_evidence: "wf s \<Longrightarrow> query_evidence db (UpdateEvidence j x) s = Some (re, t) \<Longrightarrow>
      parcels t = parcels s \<and>
      (case evidence s j of
         None \<Rightarrow> re = [] \<and> evidence t = evidence s
       | Some e \<Rightarrow> re = [updated_evidence x e] \<and>
           evidence t = (evidence s)(j \<mapsto> updated_evidence x e))"
    and no_values_to_set: "query_evidence db (UpdateEvidence j no_evidence_updates) s = None"
    and delete_evidence: "wf s \<Longrightarrow> query_evidence db (DeleteEvidence j) s = Some (re, t) \<Longrightarrow>
      re = (case evidence s j of None \<Rightarrow> [] | Some e \<Rightarrow> [e]) \<and>
      evidence t = (evidence s)(j := None) \<and> parcels t = parcels s"
    and count_parcels: "wf s \<Longrightarrow> query_count db (CountParcels cs) s = Some (rc, t) \<Longrightarrow>
      rc = Some (int (card {p \<in> ran (parcels s). all_hold ilike (recent s) cs p})) \<and>
      parcels t = parcels s \<and> evidence t = evidence s \<and> recent t = recent s"
    and count_evidence_of: "wf s \<Longrightarrow> query_count db (CountEvidenceOf i st) s = Some (rc, t) \<Longrightarrow>
      rc = Some (int (card (evidence_of (evidence s) i st))) \<and>
      parcels t = parcels s \<and> evidence t = evidence s"
    and count_evidence_status: "wf s \<Longrightarrow> query_count db (CountEvidenceStatus st) s = Some (rc, t) \<Longrightarrow>
      rc = Some (int (card {j. \<exists>e. evidence s j = Some e \<and> e_status e = st})) \<and>
      parcels t = parcels s \<and> evidence t = evidence s"
    and average_trust: "wf s \<Longrightarrow> query_text db AverageTrust s = Some (rt, t) \<Longrightarrow>
      parcels t = parcels s \<and> evidence t = evidence s"
begin

lemmas wf_steps = wf_parcels wf_evidence wf_count wf_text

lemma run_wf: "wf s \<Longrightarrow> run db m s = (x, t) \<Longrightarrow> wf t"
  by (induction m arbitrary: s x t rule: act_induct)
    (fastforce split: option.splits prod.splits dest: wf_steps)+

lemma finite_evidence_of: "wf s \<Longrightarrow> finite (evidence_of (evidence s) i st)"
  by (rule finite_subset [OF _ finite_evidence]) (auto simp: evidence_of_def)

end

end
