(* ===== verification/Trust_Score.thy ===== *)
theory Trust_Score
  imports Registry_Db
begin

text \<open>
  The trust score of a parcel.  \<open>computeTrustScore\<close> of \<open>routes/parcels.ts\<close> and the formula
  inside \<open>recalcTrustScore\<close> of \<open>routes/evidence.ts\<close> are two copies of one computation; the
  arithmetic is on small integers, exact in doubles.
\<close>

definition computeTrustScore :: "jsstr \<Rightarrow> int option \<Rightarrow> int" where
  "computeTrustScore status evidenceCount =
     (let score = 10;
          score = (if status = js ''registered'' then score + 40 else score);
          score = (if status = js ''disputed'' then score - 10 else score);
          evCount = or_else evidenceCount 0;
          score = score + min (evCount * 12) 50
      in min 100 (max 0 score))"

definition recalculated_score :: "jsstr \<Rightarrow> int option \<Rightarrow> int" where
  "recalculated_score status count =
     (let evCount = or_else count 0;
          score = 10;
          score = (if status = js ''registered'' then score + 40 else score);
          score = (if status = js ''disputed'' then score - 10 else score);
          score = score + min (evCount * 12) 50
      in min 100 (max 0 score))"

lemma recalculated_score_eq: "recalculated_score = computeTrustScore"
  by (simp add: fun_eq_iff recalculated_score_def computeTrustScore_def Let_def)

lemma computeTrustScore_bounds: "0 \<le> computeTrustScore st n \<and> computeTrustScore st n \<le> 100"
  by (simp add: computeTrustScore_def Let_def)

lemma computeTrustScore_pending: "computeTrustScore (js ''pending'') (Some 0) = 10"
  by (simp add: computeTrustScore_def Let_def)

text \<open>The score without the clamp: a base by status and 12 points per document, 50 at most.\<close>

definition status_base :: "jsstr \<Rightarrow> int" where
  "status_base st = (if st = js ''registered'' then 50 else if st = js ''disputed'' then 0 else 10)"

lemma computeTrustScore_spec:
  "0 \<le> n \<Longrightarrow> computeTrustScore st (Some n) = status_base st + min (12 * n) 50"
  by (auto simp: computeTrustScore_def status_base_def Let_def min_def max_def)

lemma computeTrustScore_mono: "m \<le> n \<Longrightarrow> computeTrustScore st (Some m) \<le> computeTrustScore st (Some n)"
  by (auto simp: computeTrustScore_def Let_def min_def max_def)

section \<open>Scores that agree with the tables\<close>

definition verified :: jsstr where
  "verified = js ''verified''"

text \<open>Every parcel has the score of its status and its number of verified documents.\<close>

definition score_of :: "(jsstr \<rightharpoonup> evidence_row) \<Rightarrow> jsstr \<Rightarrow> jsstr \<Rightarrow> int" where
  "score_of ev i st = computeTrustScore st (Some (int (card (evidence_of ev i verified))))"

definition trust_consistent ::
    "(jsstr \<rightharpoonup> parcel_row) \<Rightarrow> (jsstr \<rightharpoonup> evidence_row) \<Rightarrow> bool" where
  "trust_consistent ps ev \<longleftrightarrow>
     (\<forall>i p. ps i = Some p \<longrightarrow> p_trustScore p = score_of ev i (p_status p))"

definition trust_bounded :: "(jsstr \<rightharpoonup> parcel_row) \<Rightarrow> bool" where
  "trust_bounded ps \<longleftrightarrow> (\<forall>i p. ps i = Some p \<longrightarrow> 0 \<le> p_trustScore p \<and> p_trustScore p \<le> 100)"

lemma trust_consistent_bounded: "trust_consistent ps ev \<Longrightarrow> trust_bounded ps"
  using computeTrustScore_bounds by (auto simp: trust_consistent_def trust_bounded_def score_of_def)

lemma trust_consistentD: "trust_consistent ps ev \<Longrightarrow> ps i = Some p \<Longrightarrow>
    p_trustScore p = score_of ev i (p_status p)"
  by (simp add: trust_consistent_def)

end
