(* ===== verification/Api_Base.thy ===== *)
theory Api_Base
  imports Trust_Score
begin

text \<open>
  What the route files of \<open>artifacts/api-server/src/routes\<close> share: requests and replies, the
  request validators and response schemas that they import from \<open>@workspace/api-zod\<close> (an
  argument here: most of the imported names are not exported by the checked-in package, see
  the theory \<open>Api_Zod\<close>), number and date formatting of the runtime, and the JSON shapes.
\<close>

section \<open>Requests, replies and the runtime\<close>

datatype reply =
    Json nat jsval
  | SendStatus nat

definition error_reply :: "nat \<Rightarrow> jsstr \<Rightarrow> reply" where
  "error_reply code msg = Json code (Obj [(js ''error'', Str msg)])"

text \<open>A matched route parameter is a string, or an array whose first element is used.\<close>

datatype route_param = OneParam jsstr | ManyParams jsstr "jsstr list"

fun raw_id :: "route_param \<Rightarrow> jsstr" where
  "raw_id (OneParam s) = s"
| "raw_id (ManyParams s _) = s"

text \<open>
  The fields the handlers read from validated data.  \<open>None\<close> is \<open>undefined\<close>; a field that may
  also be \<open>null\<close> has \<open>Some None\<close> for it.  The optional fields of a creation body are read
  through \<open>?? null\<close> only, which does not tell the two apart.
\<close>

record list_query =
  q_status :: "jsstr option"
  q_parcel_type :: "jsstr option"
  q_state :: "jsstr option"
  q_search :: "jsstr option"
  q_limit :: "jsnum option"
  q_offset :: "jsnum option"

record create_parcel_body =
  c_owner_name :: jsstr
  c_owner_phone :: "jsstr option"
  c_owner_email :: "jsstr option"
  c_location_address :: jsstr
  c_state :: jsstr
  c_lga :: jsstr
  c_area_sqm :: jsnum
  c_parcel_type :: jsstr
  c_latitude :: "jsnum option"
  c_longitude :: "jsnum option"

record update_parcel_body =
  d_owner_name :: "jsstr option"
  d_owner_phone :: "jsstr option option"
  d_owner_email :: "jsstr option option"
  d_location_address :: "jsstr option"
  d_state :: "jsstr option"
  d_lga :: "jsstr option"
  d_area_sqm :: "jsnum option"
  d_parcel_type :: "jsstr option"
  d_status :: "jsstr option"
  d_latitude :: "jsnum option option"
  d_longitude :: "jsnum option option"

record add_evidence_body =
  a_document_type :: jsstr
  a_file_name :: jsstr
  a_notes :: "jsstr option"

record update_evidence_body =
  b_status :: "jsstr option"
  b_notes :: "jsstr option option"

text \<open>
  The imported schemas: \<open>safeParse\<close> gives a message or the data, \<open>parse\<close> of a response
  schema gives the value to send or throws (\<open>None\<close>).
\<close>

record api_schemas =
  ListParcelsQueryParams :: "jsval \<Rightarrow> jsstr + list_query"
  ListParcelsResponse :: "jsval \<Rightarrow> jsval option"
  CreateParcelBody :: "jsval \<Rightarrow> jsstr + create_parcel_body"
  CreateParcelResponse :: "jsval \<Rightarrow> jsval option"
  GetParcelResponse :: "jsval \<Rightarrow> jsval option"
  UpdateParcelParams :: "jsval \<Rightarrow> jsstr + unit"
  UpdateParcelBody :: "jsval \<Rightarrow> jsstr + update_parcel_body"
  UpdateParcelResponse :: "jsval \<Rightarrow> jsval option"
  DeleteParcelParams :: "jsval \<Rightarrow> jsstr + unit"
  ListParcelEvidenceParams :: "jsval \<Rightarrow> jsstr + unit"
  ListParcelEvidenceResponse :: "jsval \<Rightarrow> jsval option"
  AddParcelEvidenceParams :: "jsval \<Rightarrow> jsstr + unit"
  AddParcelEvidenceBody :: "jsval \<Rightarrow> jsstr + add_evidence_body"
  AddParcelEvidenceResponse :: "jsval \<Rightarrow> jsval option"
  UpdateEvidenceParams :: "jsval \<Rightarrow> jsstr + unit"
  UpdateEvidenceBody :: "jsval \<Rightarrow> jsstr + update_evidence_body"
  UpdateEvidenceResponse :: "jsval \<Rightarrow> jsval option"
  DeleteEvidenceParams :: "jsval \<Rightarrow> jsstr + unit"
  GetDashboardStatsResponse :: "jsval \<Rightarrow> jsval option"
  HealthCheckResponse :: "jsval \<Rightarrow> jsval option"

text \<open>
  The runtime: number to string and back, ISO dates, the current year and the value that
  \<open>Math.random()\<close> draws for the request.
\<close>

record api_env =
  schemas :: api_schemas
  num_to_string :: "jsnum \<Rightarrow> jsstr"
  string_to_num :: "jsstr \<Rightarrow> jsnum"
  iso_string :: "instant \<Rightarrow> jsstr"
  full_year :: int
  random :: rat

definition id_object :: "jsstr \<Rightarrow> jsval" where
  "id_object i = Obj [(js ''id'', Str i)]"

definition evidence_id_object :: "jsstr \<Rightarrow> jsval" where
  "evidence_id_object i = Obj [(js ''evidenceId'', Str i)]"

text \<open>\<open>res.status(code).json(Schema.parse(v))\<close>\<close>

definition send_parsed :: "nat \<Rightarrow> (jsval \<Rightarrow> jsval option) \<Rightarrow> jsval \<Rightarrow> reply act" where
  "send_parsed code parse v =
     (case parse v of None \<Rightarrow> Throw ResponseInvalid | Some w \<Rightarrow> Return (Json code w))"

lemma run_send_parsed:
  "run db (send_parsed code parse v) s =
     (case parse v of None \<Rightarrow> (Raised ResponseInvalid, s) | Some w \<Rightarrow> (Done (Json code w), s))"
  by (simp add: send_parsed_def split: option.split)

text \<open>\<open>rows[0]\<close>, the destructured first row of a result.\<close>

fun first_row :: "'r list \<Rightarrow> 'r option" where
  "first_row [] = None"
| "first_row (r # _) = Some r"

section \<open>Response shapes\<close>

text \<open>The row object as the driver returns it, and the shape that five handlers build from it.\<close>

definition row_object :: "parcel_row \<Rightarrow> (jsstr \<times> jsval) list" where
  "row_object p =
     [(js ''id'', Str (p_id p)), (js ''titleNumber'', Str (p_titleNumber p)),
      (js ''ownerName'', Str (p_ownerName p)), (js ''ownerPhone'', str_or_null (p_ownerPhone p)),
      (js ''ownerEmail'', str_or_null (p_ownerEmail p)),
      (js ''locationAddress'', Str (p_locationAddress p)), (js ''state'', Str (p_state p)),
      (js ''lga'', Str (p_lga p)), (js ''areaSqm'', Str (p_areaSqm p)),
      (js ''parcelType'', Str (p_parcelType p)), (js ''status'', Str (p_status p)),
      (js ''trustScore'', Num (jsint (p_trustScore p))),
      (js ''latitude'', num_or_null (p_latitude p)), (js ''longitude'', num_or_null (p_longitude p)),
      (js ''createdAt'', Date (p_createdAt p)), (js ''updatedAt'', Date (p_updatedAt p))]"

definition parcel_shape :: "api_env \<Rightarrow> parcel_row \<Rightarrow> jsval" where
  "parcel_shape env p = Obj (spread (row_object p)
     [(js ''area_sqm'', Num (string_to_num env (p_areaSqm p))),
      (js ''title_number'', Str (p_titleNumber p)),
      (js ''owner_name'', Str (p_ownerName p)),
      (js ''owner_phone'', str_or_null (p_ownerPhone p)),
      (js ''owner_email'', str_or_null (p_ownerEmail p)),
      (js ''location_address'', Str (p_locationAddress p)),
      (js ''parcel_type'', Str (p_parcelType p)),
      (js ''trust_score'', Num (jsint (p_trustScore p))),
      (js ''latitude'', num_or_null (p_latitude p)),
      (js ''longitude'', num_or_null (p_longitude p)),
      (js ''created_at'', Str (iso_string env (p_createdAt p))),
      (js ''updated_at'', Str (iso_string env (p_updatedAt p)))])"

definition toEvidenceShape :: "api_env \<Rightarrow> evidence_row \<Rightarrow> jsval" where
  "toEvidenceShape env e = Obj
     [(js ''id'', Str (e_id e)), (js ''parcel_id'', Str (e_parcelId e)),
      (js ''document_type'', Str (e_documentType e)), (js ''file_name'', Str (e_fileName e)),
      (js ''notes'', str_or_null (e_notes e)), (js ''status'', Str (e_status e)),
      (js ''uploaded_at'', Str (iso_string env (e_uploadedAt e)))]"

lemma parcel_shape_fields:
  "field (parcel_shape env p) (js ''id'') = Str (p_id p)"
  "field (parcel_shape env p) (js ''status'') = Str (p_status p)"
  "field (parcel_shape env p) (js ''trust_score'') = Num (jsint (p_trustScore p))"
  "field (parcel_shape env p) (js ''title_number'') = Str (p_titleNumber p)"
  "field (parcel_shape env p) (js ''parcel_id'') = Undefined"
  "field (parcel_shape env p) (js ''tenant_id'') = Undefined"
  by (simp_all add: parcel_shape_def row_object_def)

section \<open>Results of single statements\<close>

text \<open>
  A request either completes, fails to validate its response, or is cut off by the database.
  In the last case the statements before the failing one stay applied.
\<close>

definition cut_off :: "'a result \<Rightarrow> bool" where
  "cut_off x \<longleftrightarrow> x = Raised DatabaseError"

lemma cut_off_simps [simp]:
  "\<not> cut_off (Done x)" "cut_off (Raised e) \<longleftrightarrow> e = DatabaseError"
  by (simp_all add: cut_off_def)

end
