(* ===== verification/Parcel_Routes.thy ===== *)
theory Parcel_Routes
  imports Api_Base
begin

text \<open>
  The five parcel handlers of \<open>artifacts/api-server/src/routes/parcels.ts\<close>, each as the
  sequence of statements it awaits, with its early returns, and their effect on the tables.
\<close>

section \<open>Handlers\<close>

text \<open>\<open>LV-NG-\<close>, the year and a random number of six digits.\<close>

definition title_rand :: "rat \<Rightarrow> int" where
  "title_rand r = \<lfloor>r * 900000\<rfloor> + 100000"

definition generateTitleNumber :: "int \<Rightarrow> rat \<Rightarrow> jsstr" where
  "generateTitleNumber year r =
     js ''LV-NG-'' @ show_int year @ js ''-'' @ show_int (title_rand r)"

definition search_pattern :: "jsstr \<Rightarrow> jsstr" where
  "search_pattern s = js ''%'' @ s @ js ''%''"

definition if_text :: "jsstr option \<Rightarrow> (jsstr \<Rightarrow> 'c) \<Rightarrow> 'c list" where
  "if_text v f = (case v of None \<Rightarrow> [] | Some s \<Rightarrow> if s = [] then [] else [f s])"

definition list_conditions :: "list_query \<Rightarrow> parcel_cond list" where
  "list_conditions q =
     if_text (q_status q) StatusIs @ if_text (q_parcel_type q) TypeIs @ if_text (q_state q) StateIs @
     if_text (q_search q) (\<lambda>s. AnyOf
       [Ilike TitleNumber (search_pattern s), Ilike OwnerName (search_pattern s),
        Ilike LocationAddress (search_pattern s)])"

text \<open>\<open>Number(limit)\<close> of a number is that number; the two queries of \<open>Promise.all\<close> in order.\<close>

definition list_parcels :: "api_env \<Rightarrow> jsval \<Rightarrow> reply act" where
  "list_parcels env query =
     (case ListParcelsQueryParams (schemas env) query of
        Inl msg \<Rightarrow> Return (error_reply 400 msg)
      | Inr q \<Rightarrow>
          let conds = list_conditions q;
              limit = or_else (q_limit q) (jsint 50);
              offset = or_else (q_offset q) (jsint 0)
          in AwaitParcels (SelectParcels conds limit offset) (\<lambda>items.
             AwaitCount (CountParcels conds) (\<lambda>count.
               send_parsed 200 (ListParcelsResponse (schemas env))
                 (Obj [(js ''items'', Arr (map (parcel_shape env) items)),
                       (js ''total'', Num (jsint (or_else count 0)))]))))"

definition created_values :: "api_env \<Rightarrow> create_parcel_body \<Rightarrow> parcel_values" where
  "created_values env d =
     \<lparr>v_titleNumber = generateTitleNumber (full_year env) (random env),
      v_ownerName = c_owner_name d, v_ownerPhone = c_owner_phone d,
      v_ownerEmail = c_owner_email d, v_locationAddress = c_location_address d,
      v_state = c_state d, v_lga = c_lga d, v_areaSqm = num_to_string env (c_area_sqm d),
      v_parcelType = c_parcel_type d, v_status = js ''pending'', v_trustScore = 10,
      v_latitude = c_latitude d, v_longitude = c_longitude d\<rparr>"

text \<open>
  The insert of a single row returns exactly one; without it reading \<open>parcel.areaSqm\<close> of
  \<open>undefined\<close> would throw.
\<close>

definition create_parcel :: "api_env \<Rightarrow> jsval \<Rightarrow> reply act" where
  "create_parcel env body =
     (case CreateParcelBody (schemas env) body of
        Inl msg \<Rightarrow> Return (error_reply 400 msg)
      | Inr d \<Rightarrow>
          AwaitParcels (InsertParcel (created_values env d)) (\<lambda>rows.
            case first_row rows of
              None \<Rightarrow> Throw TypeError
            | Some parcel \<Rightarrow>
                send_parsed 201 (CreateParcelResponse (schemas env)) (parcel_shape env parcel)))"

definition parcel_not_found :: reply where
  "parcel_not_found = error_reply 404 (js ''Parcel not found'')"

definition get_parcel :: "api_env \<Rightarrow> route_param \<Rightarrow> reply act" where
  "get_parcel env param =
     AwaitParcels (SelectParcel (raw_id param)) (\<lambda>rows.
       case first_row rows of
         None \<Rightarrow> Return parcel_not_found
       | Some parcel \<Rightarrow>
           send_parsed 200 (GetParcelResponse (schemas env)) (parcel_shape env parcel))"

text \<open>The update object: only the fields that the body provides.\<close>

definition provided_updates :: "api_env \<Rightarrow> update_parcel_body \<Rightarrow> parcel_updates" where
  "provided_updates env d =
     \<lparr>u_ownerName = d_owner_name d, u_ownerPhone = d_owner_phone d,
      u_ownerEmail = d_owner_email d, u_locationAddress = d_location_address d,
      u_state = d_state d, u_lga = d_lga d,
      u_areaSqm = map_option (num_to_string env) (d_area_sqm d),
      u_parcelType = d_parcel_type d, u_status = d_status d, u_trustScore = None,
      u_latitude = d_latitude d, u_longitude = d_longitude d\<rparr>"

definition write_parcel :: "api_env \<Rightarrow> jsstr \<Rightarrow> parcel_updates \<Rightarrow> reply act" where
  "write_parcel env rawId updates =
     AwaitParcels (UpdateParcel rawId updates) (\<lambda>rows.
       case first_row rows of
         None \<Rightarrow> Return parcel_not_found
       | Some updated \<Rightarrow>
           send_parsed 200 (UpdateParcelResponse (schemas env)) (parcel_shape env updated))"

definition update_parcel :: "api_env \<Rightarrow> route_param \<Rightarrow> jsval \<Rightarrow> reply act" where
  "update_parcel env param body =
     (let rawId = raw_id param in
      case UpdateParcelParams (schemas env) (id_object rawId) of
        Inl msg \<Rightarrow> Return (error_reply 400 msg)
      | Inr _ \<Rightarrow>
      (case UpdateParcelBody (schemas env) body of
         Inl msg \<Rightarrow> Return (error_reply 400 msg)
       | Inr d \<Rightarrow>
          let updates = provided_updates env d in
          if updates = no_parcel_updates then
            AwaitParcels (SelectParcel rawId) (\<lambda>rows.
              case first_row rows of
                None \<Rightarrow> Return parcel_not_found
              | Some existing \<Rightarrow>
                  send_parsed 200 (UpdateParcelResponse (schemas env)) (parcel_shape env existing))
          else
            (case d_status d of
               Some status \<Rightarrow>
                 if status \<noteq> [] then
                   AwaitCount (CountEvidenceOf rawId verified) (\<lambda>count.
                     write_parcel env rawId (updates\<lparr>u_trustScore :=
                       Some (computeTrustScore status (Some (or_else count 0)))\<rparr>))
                 else write_parcel env rawId updates
             | None \<Rightarrow> write_parcel env rawId updates)))"

definition delete_parcel :: "api_env \<Rightarrow> route_param \<Rightarrow> reply act" where
  "delete_parcel env param =
     (let rawId = raw_id param in
      case DeleteParcelParams (schemas env) (id_object rawId) of
        Inl msg \<Rightarrow> Return (error_reply 400 msg)
      | Inr _ \<Rightarrow>
          AwaitParcels (DeleteParcel rawId) (\<lambda>rows.
            case first_row rows of
              None \<Rightarrow> Return parcel_not_found
            | Some _ \<Rightarrow> Return (SendStatus 204)))"

section \<open>Title numbers\<close>

lemma title_rand_range:
  assumes "0 \<le> r" "r < 1"
  shows "100000 \<le> title_rand r \<and> title_rand r \<le> 999999"
proof -
  have "0 \<le> \<lfloor>r * 900000\<rfloor>" using assms(1) by simp
  moreover have "\<lfloor>r * 900000\<rfloor> < 900000"
    using assms(2) by (simp add: floor_less_iff)
  ultimately show ?thesis by (simp add: title_rand_def)
qed

lemma title_rand_digits:
  assumes "0 \<le> r" "r < 1"
  shows "length (show_int (title_rand r)) = 6"
proof -
  have "10 ^ 5 \<le> nat (title_rand r)" "nat (title_rand r) < 10 ^ Suc 5" "\<not> title_rand r < 0"
    using title_rand_range [OF assms] by auto
  then show ?thesis
    using length_digits_of_ge [of 5 "nat (title_rand r)"]
      length_digits_of_less [of "nat (title_rand r)" 5]
    by (simp add: show_int_def)
qed

end
