(* ===== verification/Evidence_Routes.thy ===== *)
theory Evidence_Routes
  imports Api_Base
begin

text \<open>
  The four evidence handlers of \<open>artifacts/api-server/src/routes/evidence.ts\<close> and the
  recalculation of the trust score that two of them await after their own write.
\<close>

text \<open>Reads the parcel, counts its verified documents and writes the score: three statements.\<close>

definition recalcTrustScore :: "jsstr \<Rightarrow> unit act" where
  "recalcTrustScore parcelId =
     AwaitParcels (SelectParcel parcelId) (\<lambda>rows.
       case first_row rows of
         None \<Rightarrow> Return ()
       | Some parcel \<Rightarrow>
           AwaitCount (CountEvidenceOf parcelId (js ''verified'')) (\<lambda>count.
             let trustScore = recalculated_score (p_status parcel) count in
             AwaitParcels
               (UpdateParcel parcelId (no_parcel_updates\<lparr>u_trustScore := Some trustScore\<rparr>))
               (\<lambda>_. Return ())))"

definition list_evidence :: "api_env \<Rightarrow> route_param \<Rightarrow> reply act" where
  "list_evidence env param =
     (let rawId = raw_id param in
      case ListParcelEvidenceParams (schemas env) (id_object rawId) of
        Inl msg \<Rightarrow> Return (error_reply 400 msg)
      | Inr _ \<Rightarrow>
          AwaitEvidence (SelectEvidenceOf rawId) (\<lambda>items.
            send_parsed 200 (ListParcelEvidenceResponse (schemas env))
              (Arr (map (toEvidenceShape env) items))))"

definition evidence_values_of :: "jsstr \<Rightarrow> add_evidence_body \<Rightarrow> evidence_values" where
  "evidence_values_of rawId d =
     \<lparr>w_parcelId = rawId, w_documentType = a_document_type d, w_fileName = a_file_name d,
      w_notes = a_notes d, w_status = js ''pending_review''\<rparr>"

definition add_evidence :: "api_env \<Rightarrow> route_param \<Rightarrow> jsval \<Rightarrow> reply act" where
  "add_evidence env param body =
     (let rawId = raw_id param in
      case AddParcelEvidenceParams (schemas env) (id_object rawId) of
        Inl msg \<Rightarrow> Return (error_reply 400 msg)
      | Inr _ \<Rightarrow>
          AwaitParcels (SelectParcel rawId) (\<lambda>rows.
            case first_row rows of
              None \<Rightarrow> Return (error_reply 404 (js ''Parcel not found''))
            | Some parcel \<Rightarrow>
                (case AddParcelEvidenceBody (schemas env) body of
                   Inl msg \<Rightarrow> Return (error_reply 400 msg)
                 | Inr d \<Rightarrow>
                     AwaitEvidence (InsertEvidence (evidence_values_of rawId d)) (\<lambda>evs.
                       case first_row evs of
                         None \<Rightarrow> Throw TypeError
                       | Some ev \<Rightarrow>
                           send_parsed 201 (AddParcelEvidenceResponse (schemas env))
                             (toEvidenceShape env ev)))))"

definition evidence_not_found :: reply where
  "evidence_not_found = error_reply 404 (js ''Evidence not found'')"

text \<open>\<open>if (d.status)\<close>: the recalculation runs for a status that is present and not empty.\<close>

definition given_status :: "jsstr option \<Rightarrow> bool" where
  "given_status status \<longleftrightarrow> (case status of None \<Rightarrow> False | Some s \<Rightarrow> s \<noteq> [])"

definition update_evidence :: "api_env \<Rightarrow> route_param \<Rightarrow> jsval \<Rightarrow> reply act" where
  "update_evidence env param body =
     (let rawId = raw_id param in
      case UpdateEvidenceParams (schemas env) (evidence_id_object rawId) of
        Inl msg \<Rightarrow> Return (error_reply 400 msg)
      | Inr _ \<Rightarrow>
      (case UpdateEvidenceBody (schemas env) body of
         Inl msg \<Rightarrow> Return (error_reply 400 msg)
       | Inr d \<Rightarrow>
          let updates = \<lparr>x_status = b_status d, x_notes = b_notes d\<rparr> in
          AwaitEvidence (UpdateEvidence rawId updates) (\<lambda>rows.
            case first_row rows of
              None \<Rightarrow> Return evidence_not_found
            | Some updated \<Rightarrow>
                and_then
                  (if given_status (b_status d) then recalcTrustScore (e_parcelId updated)
                   else Return ())
                  (\<lambda>_. send_parsed 200 (UpdateEvidenceResponse (schemas env))
                         (toEvidenceShape env updated)))))"

definition delete_evidence :: "api_env \<Rightarrow> route_param \<Rightarrow> reply act" where
  "delete_evidence env param =
     (let rawId = raw_id param in
      case DeleteEvidenceParams (schemas env) (evidence_id_object rawId) of
        Inl msg \<Rightarrow> Return (error_reply 400 msg)
      | Inr _ \<Rightarrow>
          AwaitEvidence (DeleteEvidence rawId) (\<lambda>rows.
            case first_row rows of
              None \<Rightarrow> Return evidence_not_found
            | Some deleted \<Rightarrow>
                and_then (recalcTrustScore (e_parcelId deleted)) (\<lambda>_. Return (SendStatus 204))))"

lemmas evidence_handlers = list_evidence_def add_evidence_def update_evidence_def delete_evidence_def

end
