(* ===== verification/Api_Server.thy ===== *)
theory Api_Server
  imports Parcel_Routes Evidence_Routes
begin

text \<open>
  The remaining routes of \<open>artifacts/api-server/src\<close>: the dashboard and health handlers, the
  order in which \<open>routes/index.ts\<close> mounts the routers, and the mount point of \<open>app.ts\<close>.
  Express itself (parsing of the URL, of the body and of percent escapes in parameters) is
  represented by the request record, whose path is already split into segments.
\<close>

section \<open>Dashboard and health\<close>

definition count_or_zero :: "int option \<Rightarrow> jsval" where
  "count_or_zero n = Num (jsint (or_else n 0))"

definition average_or_zero :: "api_env \<Rightarrow> jsstr option \<Rightarrow> jsval" where
  "average_or_zero env avg =
     Num (math_round (case avg of None \<Rightarrow> jsint 0 | Some s \<Rightarrow> string_to_num env s))"

text \<open>The eight queries of \<open>Promise.all\<close>, in the order of the array.\<close>

definition dashboard_stats :: "api_env \<Rightarrow> reply act" where
  "dashboard_stats env =
     AwaitCount (CountParcels []) (\<lambda>total.
     AwaitCount (CountParcels [StatusIs (js ''registered'')]) (\<lambda>registered.
     AwaitCount (CountParcels [StatusIs (js ''pending'')]) (\<lambda>pending.
     AwaitCount (CountParcels [StatusIs (js ''disputed'')]) (\<lambda>disputed.
     AwaitText AverageTrust (\<lambda>avgTrust.
     AwaitCount (CountParcels [CreatedInLast7Days]) (\<lambda>recent.
     AwaitCount (CountEvidenceStatus (js ''verified'')) (\<lambda>evVerified.
     AwaitCount (CountEvidenceStatus (js ''pending_review'')) (\<lambda>evPending.
       send_parsed 200 (GetDashboardStatsResponse (schemas env))
         (Obj [(js ''total_parcels'', count_or_zero total),
               (js ''registered_parcels'', count_or_zero registered),
               (js ''pending_parcels'', count_or_zero pending),
               (js ''disputed_parcels'', count_or_zero disputed),
               (js ''avg_trust_score'', average_or_zero env avgTrust),
               (js ''registrations_last_7_days'', count_or_zero recent),
               (js ''evidence_verified'', count_or_zero evVerified),
               (js ''evidence_pending'', count_or_zero evPending)])))))))))"

definition healthz :: "api_env \<Rightarrow> reply act" where
  "healthz env =
     send_parsed 200 (HealthCheckResponse (schemas env)) (Obj [(js ''status'', Str (js ''ok''))])"

section \<open>Dispatch\<close>

text \<open>
  \<open>GET\<close> stands for HEAD too, which Express gives to the same routes.  The path has its
  segments, without the empty one of a final slash.  A body is what the two body parsers leave
  in \<open>req.body\<close>, or the status with which they refuse the request.
\<close>

datatype http_method = GET | POST | PATCH | DELETE | OPTIONS | OtherMethod

datatype parsed_body = Body jsval | BadBody nat

record request =
  r_method :: http_method
  r_path :: "jsstr list"
  r_query :: jsval
  r_body :: parsed_body

text \<open>Literal segments are matched without regard to the case of ASCII letters.\<close>

definition ascii_lower :: "jschar \<Rightarrow> jschar" where
  "ascii_lower c = (if 65 \<le> c \<and> c \<le> 90 then c + 32 else c)"

definition segment :: "string \<Rightarrow> jsstr \<Rightarrow> bool" where
  "segment lit s \<longleftrightarrow> map ascii_lower s = map ascii_lower (js lit)"

text \<open>
  The routers, each with its routes in registration order; \<open>None\<close> is a request that no route
  of the router matches.  Parameters of these routes are single segments, so Express gives
  each as one string.
\<close>

definition health_router :: "api_env \<Rightarrow> http_method \<Rightarrow> jsstr list \<Rightarrow> reply act option" where
  "health_router env meth path =
     (case path of
        [s] \<Rightarrow> if meth = GET \<and> segment ''healthz'' s then Some (healthz env) else None
      | _ \<Rightarrow> None)"

definition dashboard_router :: "api_env \<Rightarrow> http_method \<Rightarrow> jsstr list \<Rightarrow> reply act option" where
  "dashboard_router env meth path =
     (case path of
        [s, s'] \<Rightarrow>
          if meth = GET \<and> segment ''dashboard'' s \<and> segment ''stats'' s'
          then Some (dashboard_stats env) else None
      | _ \<Rightarrow> None)"

definition parcels_router ::
    "api_env \<Rightarrow> http_method \<Rightarrow> jsval \<Rightarrow> jsval \<Rightarrow> jsstr list \<Rightarrow> reply act option" where
  "parcels_router env meth query body path =
     (case path of
        [s] \<Rightarrow>
          if segment ''parcels'' s then
            (case meth of
               GET \<Rightarrow> Some (list_parcels env query)
             | POST \<Rightarrow> Some (create_parcel env body)
             | _ \<Rightarrow> None)
          else None
      | [s, i] \<Rightarrow>
          if segment ''parcels'' s \<and> i \<noteq> [] then
            (case meth of
               GET \<Rightarrow> Some (get_parcel env (OneParam i))
             | PATCH \<Rightarrow> Some (update_parcel env (OneParam i) body)
             | DELETE \<Rightarrow> Some (delete_parcel env (OneParam i))
             | _ \<Rightarrow> None)
          else None
      | _ \<Rightarrow> None)"

definition evidence_router ::
    "api_env \<Rightarrow> http_method \<Rightarrow> jsval \<Rightarrow> jsstr list \<Rightarrow> reply act option" where
  "evidence_router env meth body path =
     (case path of
        [s, i] \<Rightarrow>
          if segment ''evidence'' s \<and> i \<noteq> [] then
            (case meth of
               PATCH \<Rightarrow> Some (update_evidence env (OneParam i) body)
             | DELETE \<Rightarrow> Some (delete_evidence env (OneParam i))
             | _ \<Rightarrow> None)
          else None
      | [s, i, s'] \<Rightarrow>
          if segment ''parcels'' s \<and> i \<noteq> [] \<and> segment ''evidence'' s' then
            (case meth of
               GET \<Rightarrow> Some (list_evidence env (OneParam i))
             | POST \<Rightarrow> Some (add_evidence env (OneParam i) body)
             | _ \<Rightarrow> None)
          else None
      | _ \<Rightarrow> None)"

fun first_match :: "(jsstr list \<Rightarrow> 'b option) list \<Rightarrow> jsstr list \<Rightarrow> 'b option" where
  "first_match [] path = None"
| "first_match (h # hs) path = (case h path of Some b \<Rightarrow> Some b | None \<Rightarrow> first_match hs path)"

text \<open>The mount order of \<open>routes/index.ts\<close>.\<close>

definition router :: "api_env \<Rightarrow> http_method \<Rightarrow> jsval \<Rightarrow> jsval \<Rightarrow> jsstr list \<Rightarrow> reply act option" where
  "router env meth query body =
     first_match
       [health_router env meth, dashboard_router env meth, parcels_router env meth query body,
        evidence_router env meth body]"

text \<open>
  The middleware chain: \<open>cors()\<close> answers OPTIONS, the body parsers come before the routers
  under \<open>/api\<close>, and a request that nothing handles gets the default 404.
\<close>

definition app :: "api_env \<Rightarrow> request \<Rightarrow> reply act" where
  "app env r =
     (if r_method r = OPTIONS then Return (SendStatus 204)
      else case r_body r of
        BadBody code \<Rightarrow> Return (SendStatus code)
      | Body body \<Rightarrow>
          (case r_path r of
             [] \<Rightarrow> Return (SendStatus 404)
           | s # path \<Rightarrow>
               if segment ''api'' s then
                 (case router env (r_method r) (r_query r) body path of
                    Some handler \<Rightarrow> handler
                  | None \<Rightarrow> Return (SendStatus 404))
               else Return (SendStatus 404)))"

end
