(* ===== verification/Db_Steps.thy ===== *)
theory Db_Steps
  imports Registry_Db
begin

text \<open>
  Handler bodies over the tables as finite maps: \<open>step\<close> executes the statement a body awaits,
  \<open>exec\<close> runs a body to its end.  Every service that meets \<open>registry_db\<close> refines this
  semantics (\<open>run_exec\<close>), so facts about handlers are proved here once; the interleaving of
  several requests is built from the same \<open>step\<close>.
\<close>

type_synonym parcel_map = "jsstr \<rightharpoonup> parcel_row"
type_synonym evidence_map = "jsstr \<rightharpoonup> evidence_row"
type_synonym 'a config = "'a act \<times> parcel_map \<times> evidence_map"

definition opt_list :: "'r option \<Rightarrow> 'r list" where
  "opt_list r = (case r of None \<Rightarrow> [] | Some x \<Rightarrow> [x])"

lemma opt_list_simps [simp]: "opt_list None = []" "opt_list (Some x) = [x]"
  by (simp_all add: opt_list_def)

inductive step :: "(jsstr \<Rightarrow> jsstr) \<Rightarrow> 'a config \<Rightarrow> 'a config \<Rightarrow> bool" for numeric where
  reject_parcels: "step numeric (AwaitParcels qp fp, ps, ev) (Throw DatabaseError, ps, ev)"
| reject_evidence: "step numeric (AwaitEvidence qe fe, ps, ev) (Throw DatabaseError, ps, ev)"
| reject_count: "step numeric (AwaitCount qc fc, ps, ev) (Throw DatabaseError, ps, ev)"
| reject_text: "step numeric (AwaitText qt ft, ps, ev) (Throw DatabaseError, ps, ev)"
| select_parcels: "set rs \<subseteq> ran ps \<Longrightarrow>
    step numeric (AwaitParcels (SelectParcels cs l m) fp, ps, ev) (fp rs, ps, ev)"
| select_parcel: "step numeric (AwaitParcels (SelectParcel i) fp, ps, ev) (fp (opt_list (ps i)), ps, ev)"
| insert_parcel: "ps i = None \<Longrightarrow> row = inserted_parcel numeric i now v \<Longrightarrow>
    step numeric (AwaitParcels (InsertParcel v) fp, ps, ev) (fp [row], ps(i \<mapsto> row), ev)"
| update_parcel: "ps i = Some p \<Longrightarrow> row = updated_parcel numeric now u p \<Longrightarrow>
    step numeric (AwaitParcels (UpdateParcel i u) fp, ps, ev) (fp [row], ps(i \<mapsto> row), ev)"
| update_no_parcel: "ps i = None \<Longrightarrow>
    step numeric (AwaitParcels (UpdateParcel i u) fp, ps, ev) (fp [], ps, ev)"
| delete_parcel: "step numeric (AwaitParcels (DeleteParcel i) fp, ps, ev)
    (fp (opt_list (ps i)), ps(i := None), drop_evidence_of i ev)"
| select_evidence: "set es = {e \<in> ran ev. e_parcelId e = i} \<Longrightarrow>
    step numeric (AwaitEvidence (SelectEvidenceOf i) fe, ps, ev) (fe es, ps, ev)"
| insert_evidence: "ev j = None \<Longrightarrow> ps (w_parcelId w) \<noteq> None \<Longrightarrow> erow = inserted_evidence j now w \<Longrightarrow>
    step numeric (AwaitEvidence (InsertEvidence w) fe, ps, ev) (fe [erow], ps, ev(j \<mapsto> erow))"
| update_evidence: "ev j = Some e \<Longrightarrow> x \<noteq> no_evidence_updates \<Longrightarrow> erow = updated_evidence x e \<Longrightarrow>
    step numeric (AwaitEvidence (UpdateEvidence j x) fe, ps, ev) (fe [erow], ps, ev(j \<mapsto> erow))"
| update_no_evidence: "ev j = None \<Longrightarrow> x \<noteq> no_evidence_updates \<Longrightarrow>
    step numeric (AwaitEvidence (UpdateEvidence j x) fe, ps, ev) (fe [], ps, ev)"
| delete_evidence: "step numeric (AwaitEvidence (DeleteEvidence j) fe, ps, ev)
    (fe (opt_list (ev j)), ps, ev(j := None))"
| count_parcels: "0 \<le> n \<Longrightarrow>
    step numeric (AwaitCount (CountParcels cs) fc, ps, ev) (fc (Some n), ps, ev)"
| count_evidence_status: "n = int (card {j. \<exists>e. ev j = Some e \<and> e_status e = st}) \<Longrightarrow>
    step numeric (AwaitCount (CountEvidenceStatus st) fc, ps, ev) (fc (Some n), ps, ev)"
| count_evidence_of: "n = int (card (evidence_of ev i st)) \<Longrightarrow>
    step numeric (AwaitCount (CountEvidenceOf i st) fc, ps, ev) (fc (Some n), ps, ev)"
| average_trust: "step numeric (AwaitText AverageTrust ft, ps, ev) (ft r, ps, ev)"

inductive_simps step_simps [simp]:
  "step numeric (Return r, ps, ev) c"
  "step numeric (Throw e, ps, ev) c"

inductive_simps step_parcels_simps:
  "step numeric (AwaitParcels (SelectParcels cs l m) fp, ps, ev) c"
  "step numeric (AwaitParcels (SelectParcel i) fp, ps, ev) c"
  "step numeric (AwaitParcels (InsertParcel v) fp, ps, ev) c"
  "step numeric (AwaitParcels (UpdateParcel i u) fp, ps, ev) c"
  "step numeric (AwaitParcels (DeleteParcel i) fp, ps, ev) c"

inductive_simps step_evidence_simps:
  "step numeric (AwaitEvidence (SelectEvidenceOf i) fe, ps, ev) c"
  "step numeric (AwaitEvidence (InsertEvidence w) fe, ps, ev) c"
  "step numeric (AwaitEvidence (UpdateEvidence j x) fe, ps, ev) c"
  "step numeric (AwaitEvidence (DeleteEvidence j) fe, ps, ev) c"

inductive_simps step_count_simps:
  "step numeric (AwaitCount (CountParcels cs) fc, ps, ev) c"
  "step numeric (AwaitCount (CountEvidenceStatus st) fc, ps, ev) c"
  "step numeric (AwaitCount (CountEvidenceOf i st) fc, ps, ev) c"
  "step numeric (AwaitText q ft, ps, ev) c"

lemmas any_step_simps = step_parcels_simps step_evidence_simps step_count_simps

inductive exec :: "(jsstr \<Rightarrow> jsstr) \<Rightarrow> 'a config \<Rightarrow> 'a result \<Rightarrow> parcel_map \<Rightarrow> evidence_map \<Rightarrow> bool"
  for numeric where
  exec_return: "exec numeric (Return r, ps, ev) (Done r) ps ev"
| exec_throw: "exec numeric (Throw e, ps, ev) (Raised e) ps ev"
| exec_more: "step numeric c d \<Longrightarrow> exec numeric d x ps' ev' \<Longrightarrow> exec numeric c x ps' ev'"

inductive_simps exec_Return [simp]: "exec numeric (Return r, ps, ev) x ps' ev'"
inductive_simps exec_Throw [simp]: "exec numeric (Throw e, ps, ev) x ps' ev'"

lemma exec_stepI:
  "step numeric (m, ps, ev) (m1, ps1, ev1) \<Longrightarrow> exec numeric (m1, ps1, ev1) x ps' ev' \<Longrightarrow>
    exec numeric (m, ps, ev) x ps' ev'"
  by (rule exec_more)

lemma exec_stepE:
  assumes "exec numeric (m, ps, ev) x ps' ev'" and "\<And>r. m \<noteq> Return r" and "\<And>e. m \<noteq> Throw e"
  obtains m1 ps1 ev1 where "step numeric (m, ps, ev) (m1, ps1, ev1)"
    and "exec numeric (m1, ps1, ev1) x ps' ev'"
  using assms(1) by cases (use assms in \<open>auto intro: that\<close>)

lemma exec_rejectI:
  "exec numeric (AwaitParcels qp fp, ps, ev) (Raised DatabaseError) ps ev"
  "exec numeric (AwaitEvidence qe fe, ps, ev) (Raised DatabaseError) ps ev"
  "exec numeric (AwaitCount qc fc, ps, ev) (Raised DatabaseError) ps ev"
  "exec numeric (AwaitText qt ft, ps, ev) (Raised DatabaseError) ps ev"
  by (auto intro: exec_stepI [OF step.reject_parcels] exec_stepI [OF step.reject_evidence]
      exec_stepI [OF step.reject_count] exec_stepI [OF step.reject_text])

lemmas exec_parcelsI =
  exec_stepI [OF step.select_parcels] exec_stepI [OF step.select_parcel]
  exec_stepI [OF step.insert_parcel [OF _ refl]] exec_stepI [OF step.update_parcel [OF _ refl]]
  exec_stepI [OF step.update_no_parcel] exec_stepI [OF step.delete_parcel]

lemmas exec_evidenceI =
  exec_stepI [OF step.select_evidence] exec_stepI [OF step.insert_evidence [OF _ _ refl]]
  exec_stepI [OF step.update_evidence [OF _ _ refl]] exec_stepI [OF step.update_no_evidence]
  exec_stepI [OF step.delete_evidence]

lemmas exec_countI =
  exec_stepI [OF step.count_parcels] exec_stepI [OF step.count_evidence_status [OF refl]]
  exec_stepI [OF step.count_evidence_of [OF refl]]

text \<open>How a body that awaits each kind of statement ends.\<close>

abbreviation rejected :: "'a result \<Rightarrow> parcel_map \<Rightarrow> evidence_map \<Rightarrow> parcel_map \<Rightarrow> evidence_map \<Rightarrow> bool" where
  "rejected x ps ev ps' ev' \<equiv> x = Raised DatabaseError \<and> ps' = ps \<and> ev' = ev"

lemma exec_parcels:
  "exec numeric (AwaitParcels (SelectParcels cs l m) f, ps, ev) x ps' ev' \<longleftrightarrow>
     rejected x ps ev ps' ev' \<or> (\<exists>rs. set rs \<subseteq> ran ps \<and> exec numeric (f rs, ps, ev) x ps' ev')"
  "exec numeric (AwaitParcels (SelectParcel i) f, ps, ev) x ps' ev' \<longleftrightarrow>
     rejected x ps ev ps' ev' \<or> exec numeric (f (opt_list (ps i)), ps, ev) x ps' ev'"
  "exec numeric (AwaitParcels (InsertParcel v) f, ps, ev) x ps' ev' \<longleftrightarrow>
     rejected x ps ev ps' ev' \<or> (\<exists>i now. ps i = None \<and>
       exec numeric (f [inserted_parcel numeric i now v], ps(i \<mapsto> inserted_parcel numeric i now v), ev) x ps' ev')"
  "exec numeric (AwaitParcels (UpdateParcel i u) f, ps, ev) x ps' ev' \<longleftrightarrow>
     rejected x ps ev ps' ev' \<or> ps i = None \<and> exec numeric (f [], ps, ev) x ps' ev' \<or>
     (\<exists>p now. ps i = Some p \<and>
       exec numeric (f [updated_parcel numeric now u p], ps(i \<mapsto> updated_parcel numeric now u p), ev) x ps' ev')"
  "exec numeric (AwaitParcels (DeleteParcel i) f, ps, ev) x ps' ev' \<longleftrightarrow>
     rejected x ps ev ps' ev' \<or>
     exec numeric (f (opt_list (ps i)), ps(i := None), drop_evidence_of i ev) x ps' ev'"
  by (rule iffI; (erule exec_stepE; auto simp: any_step_simps; fail)?;
      auto intro: exec_rejectI exec_parcelsI)+

lemma exec_evidence:
  "exec numeric (AwaitEvidence (SelectEvidenceOf i) f, ps, ev) x ps' ev' \<longleftrightarrow>
     rejected x ps ev ps' ev' \<or>
     (\<exists>es. set es = {e \<in> ran ev. e_parcelId e = i} \<and> exec numeric (f es, ps, ev) x ps' ev')"
  "exec numeric (AwaitEvidence (InsertEvidence w) f, ps, ev) x ps' ev' \<longleftrightarrow>
     rejected x ps ev ps' ev' \<or> (\<exists>j now. ev j = None \<and> ps (w_parcelId w) \<noteq> None \<and>
       exec numeric (f [inserted_evidence j now w], ps, ev(j \<mapsto> inserted_evidence j now w)) x ps' ev')"
  "exec numeric (AwaitEvidence (UpdateEvidence j y) f, ps, ev) x ps' ev' \<longleftrightarrow>
     rejected x ps ev ps' ev' \<or>
     y \<noteq> no_evidence_updates \<and> ev j = None \<and> exec numeric (f [], ps, ev) x ps' ev' \<or>
     y \<noteq> no_evidence_updates \<and> (\<exists>e. ev j = Some e \<and>
       exec numeric (f [updated_evidence y e], ps, ev(j \<mapsto> updated_evidence y e)) x ps' ev')"
  "exec numeric (AwaitEvidence (DeleteEvidence j) f, ps, ev) x ps' ev' \<longleftrightarrow>
     rejected x ps ev ps' ev' \<or> exec numeric (f (opt_list (ev j)), ps, ev(j := None)) x ps' ev'"
  by (rule iffI; (erule exec_stepE; auto simp: any_step_simps; fail)?;
      auto intro: exec_rejectI exec_evidenceI)+

lemma exec_counts:
  "exec numeric (AwaitCount (CountParcels cs) g, ps, ev) x ps' ev' \<longleftrightarrow>
     rejected x ps ev ps' ev' \<or> (\<exists>n \<ge> 0. exec numeric (g (Some n), ps, ev) x ps' ev')"
  "exec numeric (AwaitCount (CountEvidenceStatus st) g, ps, ev) x ps' ev' \<longleftrightarrow>
     rejected x ps ev ps' ev' \<or>
     exec numeric (g (Some (int (card {j. \<exists>e. ev j = Some e \<and> e_status e = st}))), ps, ev) x ps' ev'"
  "exec numeric (AwaitCount (CountEvidenceOf i st) g, ps, ev) x ps' ev' \<longleftrightarrow>
     rejected x ps ev ps' ev' \<or> exec numeric (g (Some (int (card (evidence_of ev i st)))), ps, ev) x ps' ev'"
  by (rule iffI; (erule exec_stepE; auto simp: any_step_simps; fail)?;
      auto intro: exec_rejectI exec_countI)+

lemma exec_average:
  "exec numeric (AwaitText AverageTrust h, ps, ev) x ps' ev' \<longleftrightarrow>
     rejected x ps ev ps' ev' \<or> (\<exists>r. exec numeric (h r, ps, ev) x ps' ev')"
  by (rule iffI; (erule exec_stepE; auto simp: any_step_simps; fail)?;
      auto intro: exec_rejectI exec_stepI [OF step.average_trust])

lemmas exec_simps = exec_parcels exec_evidence exec_counts exec_average

text \<open>Every run on a service that meets the laws is an execution over its two maps.\<close>

context registry_db
begin

lemma step_parcels:
  assumes "wf s" and "query_parcels db q s = Some (r, u)"
  shows "step numeric (AwaitParcels q f, parcels s, evidence s) (f r, parcels u, evidence u)"
proof (cases q)
  case (SelectParcels cs l m)
  then show ?thesis
    using select_some_parcels [of s cs l m r u] assms by (auto simp: step_parcels_simps)
next
  case (SelectParcel i)
  then show ?thesis
    using select_parcel [of s i r u] assms by (auto simp: step_parcels_simps opt_list_def)
next
  case (InsertParcel v)
  then show ?thesis
    using insert_parcel [of s v r u] assms by (auto simp: step_parcels_simps)
next
  case (UpdateParcel i v)
  then show ?thesis
    using update_parcel [of s i v r u] assms by (auto simp: step_parcels_simps split: option.splits)
next
  case (DeleteParcel i)
  then show ?thesis
    using delete_parcel [of s i r u] assms by (auto simp: step_parcels_simps opt_list_def)
qed

lemma step_evidence:
  assumes "wf s" and "query_evidence db q s = Some (r, u)"
  shows "step numeric (AwaitEvidence q f, parcels s, evidence s) (f r, parcels u, evidence u)"
proof (cases q)
  case (SelectEvidenceOf i)
  then show ?thesis
    using select_evidence [of s i r u] assms by (auto simp: step_evidence_simps)
next
  case (InsertEvidence w)
  with assms obtain j now where j: "evidence s j = None" "r = [inserted_evidence j now w]"
    "evidence u = (evidence s)(j \<mapsto> inserted_evidence j now w)" "parcels u = parcels s"
    using insert_evidence by blast
  moreover have "parcels u (e_parcelId (inserted_evidence j now w)) \<noteq> None"
    using j(3) by (intro foreign_key [OF wf_evidence [OF assms], of j]) simp
  ultimately show ?thesis
    using InsertEvidence by (auto simp: step_evidence_simps)
next
  case (UpdateEvidence j x)
  moreover have "x \<noteq> no_evidence_updates"
    using UpdateEvidence assms(2) no_values_to_set by auto
  ultimately show ?thesis
    using update_evidence [of s j x r u] assms
    by (auto simp: step_evidence_simps split: option.splits)
next
  case (DeleteEvidence j)
  then show ?thesis
    using delete_evidence [of s j r u] assms by (auto simp: step_evidence_simps opt_list_def)
qed

lemma step_count:
  assumes "wf s" and "query_count db q s = Some (r, u)"
  shows "step numeric (AwaitCount q f, parcels s, evidence s) (f r, parcels u, evidence u)"
proof (cases q)
  case (CountParcels cs)
  then show ?thesis
    using count_parcels [of s cs r u] assms by (auto simp: step_count_simps)
next
  case (CountEvidenceStatus st)
  then show ?thesis
    using count_evidence_status [of s st r u] assms by (auto simp: step_count_simps)
next
  case (CountEvidenceOf i st)
  then show ?thesis
    using count_evidence_of [of s i st r u] assms by (auto simp: step_count_simps)
qed

lemma step_text:
  assumes "wf s" and "query_text db q s = Some (r, u)"
  shows "step numeric (AwaitText q f, parcels s, evidence s) (f r, parcels u, evidence u)"
  using average_trust [of s r u] assms by (cases q) (auto simp: step_count_simps)

lemma exec_run:
  assumes "wf s" and "run db m s = (x, t)"
  shows "exec numeric (m, parcels s, evidence s) x (parcels t) (evidence t)"
  using assms
proof (induction m arbitrary: s rule: act_induct)
  case (Return r)
  then show ?case by simp
next
  case (Throw e)
  then show ?case by simp
next
  case (AwaitParcels q f)
  show ?case
  proof (cases "query_parcels db q s")
    case None
    then show ?thesis using AwaitParcels.prems by (auto intro: exec_rejectI)
  next
    case (Some rt)
    then obtain r u where q: "query_parcels db q s = Some (r, u)" by (cases rt) auto
    have w: "wf u" by (rule wf_parcels [OF AwaitParcels.prems(1) q])
    have "exec numeric (f r, parcels u, evidence u) x (parcels t) (evidence t)"
      using AwaitParcels q w by auto
    then show ?thesis
      by (rule exec_stepI [rotated]) (rule step_parcels [OF AwaitParcels.prems(1) q])
  qed
next
  case (AwaitEvidence q f)
  show ?case
  proof (cases "query_evidence db q s")
    case None
    then show ?thesis using AwaitEvidence.prems by (auto intro: exec_rejectI)
  next
    case (Some rt)
    then obtain r u where q: "query_evidence db q s = Some (r, u)" by (cases rt) auto
    have w: "wf u" by (rule wf_evidence [OF AwaitEvidence.prems(1) q])
    have "exec numeric (f r, parcels u, evidence u) x (parcels t) (evidence t)"
      using AwaitEvidence q w by auto
    then show ?thesis
      by (rule exec_stepI [rotated]) (rule step_evidence [OF AwaitEvidence.prems(1) q])
  qed
next
  case (AwaitCount q f)
  show ?case
  proof (cases "query_count db q s")
    case None
    then show ?thesis using AwaitCount.prems by (auto intro: exec_rejectI)
  next
    case (Some rt)
    then obtain r u where q: "query_count db q s = Some (r, u)" by (cases rt) auto
    have w: "wf u" by (rule wf_count [OF AwaitCount.prems(1) q])
    have "exec numeric (f r, parcels u, evidence u) x (parcels t) (evidence t)"
      using AwaitCount q w by auto
    then show ?thesis
      by (rule exec_stepI [rotated]) (rule step_count [OF AwaitCount.prems(1) q])
  qed
next
  case (AwaitText q f)
  show ?case
  proof (cases "query_text db q s")
    case None
    then show ?thesis using AwaitText.prems by (auto intro: exec_rejectI)
  next
    case (Some rt)
    then obtain r u where q: "query_text db q s = Some (r, u)" by (cases rt) auto
    have w: "wf u" by (rule wf_text [OF AwaitText.prems(1) q])
    have "exec numeric (f r, parcels u, evidence u) x (parcels t) (evidence t)"
      using AwaitText q w by auto
    then show ?thesis
      by (rule exec_stepI [rotated]) (rule step_text [OF AwaitText.prems(1) q])
  qed
qed

end

end
