(* ===== verification/Api_Effects.thy ===== *)
theory Api_Effects
  imports Api_Server Db_Steps
begin

text \<open>
  What every handler does to the two tables: one \<open>exec\<close> lemma per handler and, from them, the
  invariants that all requests keep.
\<close>

section \<open>Automation\<close>

lemma exec_send_parsed [simp]:
  "exec numeric (send_parsed code parse v, ps, ev) x ps' ev' \<longleftrightarrow>
     ps' = ps \<and> ev' = ev \<and>
     x = (case parse v of None \<Rightarrow> Raised ResponseInvalid | Some w \<Rightarrow> Done (Json code w))"
  by (auto simp: send_parsed_def split: option.split)

lemma first_row_opt_list [simp]: "first_row (opt_list r) = r"
  by (cases r) simp_all

definition referential :: "parcel_map \<Rightarrow> evidence_map \<Rightarrow> bool" where
  "referential ps ev \<longleftrightarrow> (\<forall>j e. ev j = Some e \<longrightarrow> ps (e_parcelId e) \<noteq> None)"

lemma referential_no_evidence: "referential ps ev \<Longrightarrow> ps i = None \<Longrightarrow> evidence_of ev i st = {}"
  by (fastforce simp: referential_def evidence_of_def)

context registry_db
begin

lemma references_resolve: "wf s \<Longrightarrow> referential (parcels s) (evidence s)"
  by (auto simp: referential_def dest: foreign_key)

end

text \<open>Schemas let no empty status through (the statuses of the contract are enumerations).\<close>

definition statuses_checked :: "api_schemas \<Rightarrow> bool" where
  "statuses_checked sch \<longleftrightarrow>
     (\<forall>v d. UpdateParcelBody sch v = Inr d \<longrightarrow> d_status d \<noteq> Some []) \<and>
     (\<forall>v d. UpdateEvidenceBody sch v = Inr d \<longrightarrow> b_status d \<noteq> Some [])"

section \<open>Writes and the score\<close>

lemma trust_insert_parcel:
  assumes "trust_consistent ps ev" "referential ps ev" "ps i = None"
    "p_trustScore p = computeTrustScore (p_status p) (Some 0)"
  shows "trust_consistent (ps(i \<mapsto> p)) ev"
  using assms referential_no_evidence [of ps ev i verified]
  by (auto simp: trust_consistent_def score_of_def)

lemma trust_update_parcel:
  assumes "trust_consistent ps ev" "p_trustScore q = score_of ev i (p_status q)"
  shows "trust_consistent (ps(i \<mapsto> q)) ev"
  using assms by (auto simp: trust_consistent_def)

lemma evidence_of_drop [simp]: "i \<noteq> k \<Longrightarrow> evidence_of (drop_evidence_of i ev) k st = evidence_of ev k st"
  by (auto simp: evidence_of_def drop_evidence_of_def split: option.splits if_splits)

lemma trust_delete_parcel:
  "trust_consistent ps ev \<Longrightarrow> trust_consistent (ps(i := None)) (drop_evidence_of i ev)"
  by (auto simp: trust_consistent_def score_of_def)

lemma evidence_of_upd:
  "(case ev j of None \<Rightarrow> True | Some e \<Rightarrow> e_parcelId e \<noteq> k) \<Longrightarrow>
   (case r of None \<Rightarrow> True | Some e \<Rightarrow> e_parcelId e \<noteq> k) \<Longrightarrow>
   evidence_of (ev(j := r)) k st = evidence_of ev k st"
  by (auto simp: evidence_of_def split: option.splits)

lemma evidence_of_same_status:
  "ev j = Some e \<Longrightarrow> e_parcelId e' = e_parcelId e \<Longrightarrow> e_status e' = e_status e \<Longrightarrow>
   evidence_of (ev(j \<mapsto> e')) k st = evidence_of ev k st"
  by (auto simp: evidence_of_def)

lemma evidence_of_insert_other:
  "ev j = None \<Longrightarrow> e_status e \<noteq> st \<Longrightarrow> evidence_of (ev(j \<mapsto> e)) k st = evidence_of ev k st"
  by (auto simp: evidence_of_def)

text \<open>All scores but that of one parcel: what holds between an evidence write and the recalculation.\<close>

definition consistent_except :: "jsstr \<Rightarrow> parcel_map \<Rightarrow> evidence_map \<Rightarrow> bool" where
  "consistent_except k ps ev \<longleftrightarrow>
     (\<forall>i p. i \<noteq> k \<longrightarrow> ps i = Some p \<longrightarrow> p_trustScore p = score_of ev i (p_status p))"

lemma consistent_except_write:
  "consistent_except k ps ev \<Longrightarrow> p_trustScore q = score_of ev k (p_status q) \<Longrightarrow>
    trust_consistent (ps(k \<mapsto> q)) ev"
  by (auto simp: consistent_except_def trust_consistent_def)

lemma consistent_except_absent:
  "consistent_except k ps ev \<Longrightarrow> ps k = None \<Longrightarrow> trust_consistent ps ev"
  unfolding consistent_except_def trust_consistent_def by (metis option.distinct(1))

lemma trust_change_evidence:
  assumes "trust_consistent ps ev" "ev j = Some e"
    and "case r of None \<Rightarrow> True | Some e' \<Rightarrow> e_parcelId e' = e_parcelId e"
  shows "consistent_except (e_parcelId e) ps (ev(j := r))"
  using assms
  by (auto simp: trust_consistent_def consistent_except_def score_of_def evidence_of_upd
      split: option.splits)

text \<open>The recalculation restores the score of its parcel, whatever it was.\<close>

lemma exec_recalcTrustScore:
  assumes "consistent_except k ps ev"
    and "exec numeric (and_then (recalcTrustScore k) (\<lambda>_. m), ps, ev) x ps' ev'"
    and m: "\<And>ps1. exec numeric (m, ps1, ev) x ps' ev' \<Longrightarrow> ps' = ps1 \<and> ev' = ev"
    and "\<not> cut_off x"
  shows "trust_consistent ps' ev'"
proof (cases "ps k")
  case None
  then have "exec numeric (m, ps, ev) x ps' ev'"
    using assms(2,4) by (auto simp: recalcTrustScore_def exec_simps)
  with m None show ?thesis
    using consistent_except_absent [OF assms(1)] by blast
next
  case (Some p)
  then obtain now where
    "exec numeric (m, ps(k \<mapsto> updated_parcel numeric now
       (no_parcel_updates\<lparr>u_trustScore := Some (score_of ev k (p_status p))\<rparr>) p), ev) x ps' ev'"
    using assms(2,4)
    by (auto simp: recalcTrustScore_def exec_simps score_of_def verified_def recalculated_score_eq)
  from m [OF this] show ?thesis
    using assms(1) by (auto intro!: consistent_except_write simp: no_parcel_updates_def or_else_def)
qed

section \<open>Handlers that only read\<close>

lemma exec_list_parcels:
  "exec numeric (list_parcels env query, ps, ev) x ps' ev' \<Longrightarrow> ps' = ps \<and> ev' = ev"
  by (auto simp: list_parcels_def exec_simps Let_def split: sum.splits)

lemma exec_get_parcel:
  "exec numeric (get_parcel env param, ps, ev) x ps' ev' \<Longrightarrow> ps' = ps \<and> ev' = ev"
  by (auto simp: get_parcel_def exec_simps split: option.splits)

lemma exec_list_evidence:
  "exec numeric (list_evidence env param, ps, ev) x ps' ev' \<Longrightarrow> ps' = ps \<and> ev' = ev"
  by (auto simp: list_evidence_def exec_simps Let_def split: sum.splits)

lemma exec_healthz:
  "exec numeric (healthz env, ps, ev) x ps' ev' \<Longrightarrow> ps' = ps \<and> ev' = ev"
  by (simp add: healthz_def)

lemma exec_dashboard_stats:
  "exec numeric (dashboard_stats env, ps, ev) x ps' ev' \<Longrightarrow> ps' = ps \<and> ev' = ev"
  by (simp add: dashboard_stats_def exec_simps) blast

lemmas exec_reads =
  exec_list_parcels exec_get_parcel exec_list_evidence exec_healthz exec_dashboard_stats

section \<open>Handlers that write\<close>

lemma exec_create_parcel:
  assumes "exec numeric (create_parcel env body, ps, ev) x ps' ev'"
    and "trust_consistent ps ev" "referential ps ev"
  shows "trust_consistent ps' ev'"
  using assms
  by (auto simp: create_parcel_def exec_simps created_values_def computeTrustScore_pending
      split: sum.splits intro!: trust_insert_parcel)

lemma exec_write_parcel:
  assumes "exec numeric (write_parcel env i u, ps, ev) x ps' ev'"
    and "trust_consistent ps ev"
    and "\<And>p. ps i = Some p \<Longrightarrow>
      or_else (u_trustScore u) (p_trustScore p) = score_of ev i (or_else (u_status u) (p_status p))"
  shows "trust_consistent ps' ev'"
  using assms
  by (auto simp: write_parcel_def exec_simps intro!: trust_update_parcel)

lemma exec_update_parcel:
  assumes "exec numeric (update_parcel env param body, ps, ev) x ps' ev'"
    and "trust_consistent ps ev" "statuses_checked (schemas env)"
  shows "trust_consistent ps' ev'"
proof -
  let ?i = "raw_id param"
  consider "ps' = ps" "ev' = ev"
    | d where "d_status d = None" "exec numeric (write_parcel env ?i (provided_updates env d), ps, ev) x ps' ev'"
    | d st where "d_status d = Some st"
      "exec numeric (write_parcel env ?i ((provided_updates env d)
         \<lparr>u_trustScore := Some (score_of ev ?i st)\<rparr>), ps, ev) x ps' ev'"
    using assms(1,3)
    by (fastforce simp: update_parcel_def exec_simps Let_def statuses_checked_def score_of_def
        split: sum.splits if_splits option.splits)
  then show ?thesis
  proof cases
    case 1
    then show ?thesis using assms(2) by simp
  next
    case 2
    then show ?thesis
      using assms(2) by (auto elim!: exec_write_parcel simp: provided_updates_def trust_consistentD)
  next
    case 3
    then show ?thesis
      using assms(2) by (auto elim!: exec_write_parcel simp: provided_updates_def)
  qed
qed

lemma exec_delete_parcel:
  assumes "exec numeric (delete_parcel env param, ps, ev) x ps' ev'" and "trust_consistent ps ev"
  shows "trust_consistent ps' ev'"
  using assms
  by (auto simp: delete_parcel_def exec_simps Let_def trust_delete_parcel
      split: sum.splits option.splits)

lemma exec_add_evidence:
  assumes "exec numeric (add_evidence env param body, ps, ev) x ps' ev'" and "trust_consistent ps ev"
  shows "trust_consistent ps' ev'"
proof -
  have "js ''pending_review'' \<noteq> verified" by (simp add: verified_def)
  then show ?thesis
    using assms
    by (auto simp: add_evidence_def exec_simps Let_def evidence_values_of_def trust_consistent_def
        score_of_def evidence_of_insert_other split: sum.splits option.splits)
qed

lemma exec_update_evidence_cases:
  assumes "exec numeric (update_evidence env param body, ps, ev) x ps' ev'" "\<not> cut_off x"
  obtains "ps' = ps" "ev' = ev"
  | d e e' m where "UpdateEvidenceBody (schemas env) body = Inr d" "ev (raw_id param) = Some e"
      "e' = updated_evidence \<lparr>x_status = b_status d, x_notes = b_notes d\<rparr> e"
      "m = send_parsed 200 (UpdateEvidenceResponse (schemas env)) (toEvidenceShape env e')"
      "exec numeric (and_then (if given_status (b_status d) then recalcTrustScore (e_parcelId e')
         else Return ()) (\<lambda>_. m), ps, ev(raw_id param \<mapsto> e')) x ps' ev'"
proof (cases "UpdateEvidenceParams (schemas env) (evidence_id_object (raw_id param))")
  case (Inl msg)
  then show thesis using assms that(1) by (simp add: update_evidence_def Let_def)
next
  case params: (Inr _)
  show thesis
  proof (cases "UpdateEvidenceBody (schemas env) body")
    case (Inl msg)
    then show thesis using assms that(1) params by (simp add: update_evidence_def Let_def)
  next
    case (Inr d)
    then show thesis
      using assms params that(1) that(2) [OF Inr _ refl refl]
      by (auto simp: update_evidence_def Let_def exec_simps simp del: exec_send_parsed)
  qed
qed

lemma exec_update_evidence:
  assumes x: "exec numeric (update_evidence env param body, ps, ev) x ps' ev'" "\<not> cut_off x"
    and c: "trust_consistent ps ev" "statuses_checked (schemas env)"
  shows "trust_consistent ps' ev'"
  using x
proof (cases rule: exec_update_evidence_cases)
  case 1
  then show ?thesis using c by simp
next
  case (2 d e e' m)
  show ?thesis
  proof (cases "given_status (b_status d)")
    case True
    from c(1) 2(2) have "consistent_except (e_parcelId e) ps (ev(raw_id param \<mapsto> e'))"
      by (rule trust_change_evidence) (simp add: 2(3))
    moreover from 2(5) True 2(3) have "exec numeric (and_then (recalcTrustScore (e_parcelId e)) (\<lambda>_. m),
        ps, ev(raw_id param \<mapsto> e')) x ps' ev'" by simp
    ultimately show ?thesis
      by (rule exec_recalcTrustScore [OF _ _ _ x(2)]) (auto simp: 2(4))
  next
    case False
    then have "b_status d = None"
      using c(2) 2(1) by (auto simp: given_status_def statuses_checked_def split: option.splits)
    then have "e_status e' = e_status e" "ps' = ps" "ev' = ev(raw_id param \<mapsto> e')"
      using 2(5) False by (simp_all add: 2(3,4))
    then show ?thesis
      using c(1) 2(2) by (simp add: 2(3) trust_consistent_def score_of_def evidence_of_same_status)
  qed
qed

lemma exec_delete_evidence:
  assumes x: "exec numeric (delete_evidence env param, ps, ev) x ps' ev'" "\<not> cut_off x"
    and c: "trust_consistent ps ev"
  shows "trust_consistent ps' ev'"
proof -
  let ?j = "raw_id param"
  consider "ps' = ps" "ev' = ev" | "ev ?j = None" "ps' = ps" "ev' = ev(?j := None)"
    | e where "ev ?j = Some e" "exec numeric (and_then (recalcTrustScore (e_parcelId e))
        (\<lambda>_. Return (SendStatus 204)), ps, ev(?j := None)) x ps' ev'"
    using x
    by (fastforce simp: delete_evidence_def exec_simps Let_def split: sum.splits option.splits)
  then show ?thesis
  proof cases
    case 1
    then show ?thesis using c by simp
  next
    case 2
    then have "ev' = ev" by auto
    then show ?thesis using c 2 by simp
  next
    case (3 e)
    from c 3(1) have "consistent_except (e_parcelId e) ps (ev(?j := None))"
      by (rule trust_change_evidence) simp
    from exec_recalcTrustScore [OF this 3(2) _ x(2)] show ?thesis by auto
  qed
qed

section \<open>The whole application\<close>

text \<open>The bodies that the routers and \<open>app\<close> choose from.\<close>

inductive handler :: "api_env \<Rightarrow> reply act \<Rightarrow> bool" for env where
  "handler env (Return (SendStatus code))"
| "handler env (healthz env)"
| "handler env (dashboard_stats env)"
| "handler env (list_parcels env q)"
| "handler env (create_parcel env b)"
| "handler env (get_parcel env (OneParam i))"
| "handler env (update_parcel env (OneParam i) b)"
| "handler env (delete_parcel env (OneParam i))"
| "handler env (list_evidence env (OneParam i))"
| "handler env (add_evidence env (OneParam i) b)"
| "handler env (update_evidence env (OneParam i) b)"
| "handler env (delete_evidence env (OneParam i))"

lemma parcels_router_handler: "parcels_router env meth q b path = Some h \<Longrightarrow> handler env h"
  by (auto simp: parcels_router_def intro: handler.intros
      split: list.splits if_splits http_method.splits)

lemma evidence_router_handler: "evidence_router env meth b path = Some h \<Longrightarrow> handler env h"
  by (auto simp: evidence_router_def intro: handler.intros
      split: list.splits if_splits http_method.splits)

lemma router_handler: "router env meth q b path = Some h \<Longrightarrow> handler env h"
  by (auto simp: router_def health_router_def dashboard_router_def
      dest: parcels_router_handler evidence_router_handler intro: handler.intros
      split: option.splits list.splits if_splits)

lemma app_handler: "handler env (app env r)"
  by (auto simp: app_def intro: handler.intros router_handler
      split: parsed_body.split list.split option.split)

lemma exec_app:
  assumes "exec numeric (app env r, ps, ev) x ps' ev'" "\<not> cut_off x"
    and c: "trust_consistent ps ev" "referential ps ev" "statuses_checked (schemas env)"
  shows "trust_consistent ps' ev'"
  using app_handler [of env r] assms(1)
proof cases
  case 1
  then show ?thesis using assms by simp
qed (use c assms(2) in \<open>auto dest: exec_reads exec_create_parcel exec_update_parcel
      exec_delete_parcel exec_add_evidence exec_update_evidence exec_delete_evidence\<close>)

end
