(* ===== verification/Registry_Tables.thy ===== *)
theory Registry_Tables
  imports Registry_Db
begin

text \<open>
  A store with the two tables as lists of rows, keyed, constrained and defaulted as the schema
  files of \<open>lib/db\<close> declare them, and its interpretation of \<open>registry_db\<close>.  The three things
  the schema leaves to the database stay arguments: the \<open>numeric(12,2)\<close> rendering, the
  \<open>ILIKE\<close> match and the generated keys.
\<close>

section \<open>Lists of rows with a key\<close>

definition row_at :: "('r \<Rightarrow> 'k) \<Rightarrow> 'r list \<Rightarrow> 'k \<Rightarrow> 'r option" where
  "row_at key rs k = find (\<lambda>r. key r = k) rs"

definition replace_row :: "('r \<Rightarrow> 'k) \<Rightarrow> 'k \<Rightarrow> ('r \<Rightarrow> 'r) \<Rightarrow> 'r list \<Rightarrow> 'r list" where
  "replace_row key k f rs = map (\<lambda>r. if key r = k then f r else r) rs"

definition remove_row :: "('r \<Rightarrow> 'k) \<Rightarrow> 'k \<Rightarrow> 'r list \<Rightarrow> 'r list" where
  "remove_row key k rs = filter (\<lambda>r. key r \<noteq> k) rs"

lemma row_at_Nil [simp]: "row_at key [] k = None"
  by (simp add: row_at_def)

lemma row_at_Cons [simp]: "row_at key (r # rs) k = (if key r = k then Some r else row_at key rs k)"
  by (simp add: row_at_def)

lemma row_at_key: "row_at key rs k = Some r \<Longrightarrow> key r = k"
  by (induction rs) (auto split: if_splits)

lemma row_at_set: "row_at key rs k = Some r \<Longrightarrow> r \<in> set rs"
  by (induction rs) (auto split: if_splits)

lemma row_at_eq_None: "row_at key rs k = None \<longleftrightarrow> k \<notin> key ` set rs"
  by (induction rs) auto

lemma row_at_mem: "distinct (map key rs) \<Longrightarrow> r \<in> set rs \<Longrightarrow> row_at key rs (key r) = Some r"
  by (induction rs) (auto simp: image_iff)

lemma row_at_append: "row_at key (rs @ [r]) k =
    (case row_at key rs k of None \<Rightarrow> if key r = k then Some r else None | Some x \<Rightarrow> Some x)"
  by (induction rs) auto

lemma row_at_append_fresh:
  "key r \<notin> key ` set rs \<Longrightarrow> row_at key (rs @ [r]) = (row_at key rs)(key r \<mapsto> r)"
  by (induction rs) (auto simp: fun_eq_iff)

lemma row_at_replace: "(\<And>r. key (f r) = key r) \<Longrightarrow>
    row_at key (replace_row key k f rs) =
      (case row_at key rs k of None \<Rightarrow> row_at key rs | Some r \<Rightarrow> (row_at key rs)(k \<mapsto> f r))"
  by (induction rs) (auto simp: replace_row_def fun_eq_iff split: option.splits)

lemma row_at_remove: "row_at key (remove_row key k rs) = (row_at key rs)(k := None)"
  by (induction rs) (auto simp: remove_row_def fun_eq_iff)

lemma filter_row_at: "distinct (map key rs) \<Longrightarrow>
    filter (\<lambda>r. key r = k) rs = (case row_at key rs k of None \<Rightarrow> [] | Some r \<Rightarrow> [r])"
proof (induction rs)
  case (Cons r rs)
  then have "key r \<notin> key ` set rs" by simp
  then have "filter (\<lambda>x. key x = key r) rs = []" by (auto simp: filter_empty_conv image_iff)
  with Cons show ?case by auto
qed simp

lemma dom_row_at: "dom (row_at key rs) = key ` set rs"
  using row_at_eq_None [of key rs] by (auto simp: dom_def)

lemma ran_row_at: "distinct (map key rs) \<Longrightarrow> ran (row_at key rs) = set rs"
  by (auto simp: ran_def intro: row_at_set dest: row_at_mem)

lemma map_key_replace [simp]:
  "(\<And>r. g (f r) = g r) \<Longrightarrow> map g (replace_row key k f rs) = map g rs"
  by (simp add: replace_row_def)

section \<open>The store\<close>

record tables =
  t_parcels :: "parcel_row list"
  t_evidence :: "evidence_row list"
  t_fresh :: nat
  t_clock :: instant

definition tables_wf :: "tables \<Rightarrow> bool" where
  "tables_wf ts \<longleftrightarrow>
     distinct (map p_id (t_parcels ts)) \<and> distinct (map p_titleNumber (t_parcels ts)) \<and>
     distinct (map e_id (t_evidence ts)) \<and>
     (\<forall>e \<in> set (t_evidence ts). e_parcelId e \<in> p_id ` set (t_parcels ts))"

definition table_parcels :: "tables \<Rightarrow> (jsstr \<rightharpoonup> parcel_row)" where
  "table_parcels ts = row_at p_id (t_parcels ts)"

definition table_evidence :: "tables \<Rightarrow> (jsstr \<rightharpoonup> evidence_row)" where
  "table_evidence ts = row_at e_id (t_evidence ts)"

definition table_recent :: "tables \<Rightarrow> instant \<Rightarrow> bool" where
  "table_recent ts at_time \<longleftrightarrow> t_clock ts - 7 * 24 * 60 * 60 * 1000 \<le> at_time"

fun nat_of_num :: "jsnum \<Rightarrow> nat option" where
  "nat_of_num (Fin r) = (if 0 \<le> r \<and> r = of_int \<lfloor>r\<rfloor> then Some (nat \<lfloor>r\<rfloor>) else None)"
| "nat_of_num _ = None"

lemma nat_of_num_jsint [simp]: "nat_of_num (jsint (int n)) = Some n"
  by simp

fun table_query_parcels ::
    "(jsstr \<Rightarrow> jsstr) \<Rightarrow> (jsstr \<Rightarrow> jsstr \<Rightarrow> bool) \<Rightarrow> (nat \<Rightarrow> jsstr) \<Rightarrow>
     parcel_stmt \<Rightarrow> tables \<Rightarrow> (parcel_row list \<times> tables) option" where
  "table_query_parcels numeric ilike new_key (SelectParcels cs limit offset) ts =
     (case (nat_of_num limit, nat_of_num offset) of
        (Some n, Some m) \<Rightarrow>
          Some (take n (drop m (sort_key (\<lambda>p. - p_createdAt p)
                  (filter (all_hold ilike (table_recent ts) cs) (t_parcels ts)))), ts)
      | _ \<Rightarrow> None)"
| "table_query_parcels numeric ilike new_key (SelectParcel i) ts =
     Some (filter (\<lambda>p. p_id p = i) (t_parcels ts), ts)"
| "table_query_parcels numeric ilike new_key (InsertParcel v) ts =
     (let row = inserted_parcel numeric (new_key (t_fresh ts)) (t_clock ts) v in
      if p_id row \<in> p_id ` set (t_parcels ts) \<or>
         p_titleNumber row \<in> p_titleNumber ` set (t_parcels ts)
      then None
      else Some ([row], ts\<lparr>t_parcels := t_parcels ts @ [row], t_fresh := Suc (t_fresh ts)\<rparr>))"
| "table_query_parcels numeric ilike new_key (UpdateParcel i u) ts =
     (let rows = replace_row p_id i (updated_parcel numeric (t_clock ts) u) (t_parcels ts) in
      Some (filter (\<lambda>p. p_id p = i) rows, ts\<lparr>t_parcels := rows\<rparr>))"
| "table_query_parcels numeric ilike new_key (DeleteParcel i) ts =
     Some (filter (\<lambda>p. p_id p = i) (t_parcels ts),
           ts\<lparr>t_parcels := remove_row p_id i (t_parcels ts),
              t_evidence := remove_row e_parcelId i (t_evidence ts)\<rparr>)"

fun table_query_evidence ::
    "(nat \<Rightarrow> jsstr) \<Rightarrow> evidence_stmt \<Rightarrow> tables \<Rightarrow> (evidence_row list \<times> tables) option" where
  "table_query_evidence new_key (SelectEvidenceOf i) ts =
     Some (sort_key (\<lambda>e. - e_uploadedAt e) (filter (\<lambda>e. e_parcelId e = i) (t_evidence ts)), ts)"
| "table_query_evidence new_key (InsertEvidence w) ts =
     (let row = inserted_evidence (new_key (t_fresh ts)) (t_clock ts) w in
      if e_id row \<in> e_id ` set (t_evidence ts) \<or> e_parcelId row \<notin> p_id ` set (t_parcels ts)
      then None
      else Some ([row], ts\<lparr>t_evidence := t_evidence ts @ [row], t_fresh := Suc (t_fresh ts)\<rparr>))"
| "table_query_evidence new_key (UpdateEvidence j x) ts =
     (if x = no_evidence_updates then None
      else let rows = replace_row e_id j (updated_evidence x) (t_evidence ts) in
        Some (filter (\<lambda>e. e_id e = j) rows, ts\<lparr>t_evidence := rows\<rparr>))"
| "table_query_evidence new_key (DeleteEvidence j) ts =
     Some (filter (\<lambda>e. e_id e = j) (t_evidence ts),
           ts\<lparr>t_evidence := remove_row e_id j (t_evidence ts)\<rparr>)"

fun table_query_count ::
    "(jsstr \<Rightarrow> jsstr \<Rightarrow> bool) \<Rightarrow> count_stmt \<Rightarrow> tables \<Rightarrow> (int option \<times> tables) option" where
  "table_query_count ilike (CountParcels cs) ts =
     Some (Some (int (length (filter (all_hold ilike (table_recent ts) cs) (t_parcels ts)))), ts)"
| "table_query_count ilike (CountEvidenceStatus st) ts =
     Some (Some (int (length (filter (\<lambda>e. e_status e = st) (t_evidence ts)))), ts)"
| "table_query_count ilike (CountEvidenceOf i st) ts =
     Some (Some (int (length (filter (\<lambda>e. e_parcelId e = i \<and> e_status e = st) (t_evidence ts)))), ts)"

fun table_query_text :: "(rat \<Rightarrow> jsstr) \<Rightarrow> text_stmt \<Rightarrow> tables \<Rightarrow> (jsstr option \<times> tables) option" where
  "table_query_text show_num AverageTrust ts =
     (let n = length (t_parcels ts); total = sum_list (map p_trustScore (t_parcels ts)) in
      Some (Some (show_num (if n = 0 then 0 else of_int total / of_nat n)), ts))"

definition table_service ::
    "(jsstr \<Rightarrow> jsstr) \<Rightarrow> (jsstr \<Rightarrow> jsstr \<Rightarrow> bool) \<Rightarrow> (nat \<Rightarrow> jsstr) \<Rightarrow> (rat \<Rightarrow> jsstr) \<Rightarrow> tables db_service" where
  "table_service numeric ilike new_key show_num =
     \<lparr>query_parcels = table_query_parcels numeric ilike new_key,
      query_evidence = table_query_evidence new_key,
      query_count = table_query_count ilike,
      query_text = table_query_text show_num\<rparr>"

lemma table_service_simps [simp]:
  "query_parcels (table_service numeric ilike new_key show_num) = table_query_parcels numeric ilike new_key"
  "query_evidence (table_service numeric ilike new_key show_num) = table_query_evidence new_key"
  "query_count (table_service numeric ilike new_key show_num) = table_query_count ilike"
  "query_text (table_service numeric ilike new_key show_num) = table_query_text show_num"
  by (simp_all add: table_service_def)

section \<open>The store keeps its constraints\<close>

lemma tables_wfD:
  assumes "tables_wf ts"
  shows "distinct (map p_id (t_parcels ts))" "distinct (map p_titleNumber (t_parcels ts))"
    "distinct (map e_id (t_evidence ts))"
    "e \<in> set (t_evidence ts) \<Longrightarrow> e_parcelId e \<in> p_id ` set (t_parcels ts)"
  using assms by (auto simp: tables_wf_def)

lemma distinct_map_filter_rows: "distinct (map key rs) \<Longrightarrow> distinct (map key (remove_row k c rs))"
  by (simp add: remove_row_def distinct_map_filter)

lemma set_remove_row: "set (remove_row key k rs) = {r \<in> set rs. key r \<noteq> k}"
  by (auto simp: remove_row_def)

lemma replace_row_keys:
  assumes "\<And>r. key (f r) = key r"
  shows "key ` set (replace_row key' k f rs) = key ` set rs"
proof -
  have "key (if key' r = k then f r else r) = key r" for r
    by (simp add: assms)
  then show ?thesis
    by (simp add: replace_row_def image_image del: if_image_distrib)
qed

lemma ball_replace_row:
  assumes "\<And>r. g (f r) = g r"
  shows "(\<forall>r \<in> set (replace_row key k f rs). P (g r)) \<longleftrightarrow> (\<forall>r \<in> set rs. P (g r))"
proof -
  have "g (if key r = k then f r else r) = g r" for r
    by (simp add: assms)
  then show ?thesis
    by (simp add: replace_row_def del: if_image_distrib)
qed

lemma table_parcels_wf:
  "tables_wf ts \<Longrightarrow> table_query_parcels numeric ilike new_key q ts = Some (r, ts') \<Longrightarrow> tables_wf ts'"
proof (cases q)
  case (InsertParcel v)
  assume "tables_wf ts" "table_query_parcels numeric ilike new_key q ts = Some (r, ts')"
  with InsertParcel show ?thesis
    by (auto simp: tables_wf_def Let_def split: if_splits)
next
  case (UpdateParcel i u)
  assume "tables_wf ts" "table_query_parcels numeric ilike new_key q ts = Some (r, ts')"
  with UpdateParcel show ?thesis
    by (auto simp: tables_wf_def Let_def replace_row_keys)
next
  case (DeleteParcel i)
  assume "tables_wf ts" "table_query_parcels numeric ilike new_key q ts = Some (r, ts')"
  with DeleteParcel show ?thesis
    by (force simp: tables_wf_def distinct_map_filter_rows set_remove_row)
qed (auto split: option.splits)

lemma table_evidence_wf:
  "tables_wf ts \<Longrightarrow> table_query_evidence new_key q ts = Some (r, ts') \<Longrightarrow> tables_wf ts'"
proof (cases q)
  case (InsertEvidence w)
  assume "tables_wf ts" "table_query_evidence new_key q ts = Some (r, ts')"
  with InsertEvidence show ?thesis
    by (auto simp: tables_wf_def Let_def split: if_splits)
next
  case (UpdateEvidence j x)
  assume "tables_wf ts" "table_query_evidence new_key q ts = Some (r, ts')"
  with UpdateEvidence show ?thesis
    by (auto simp: tables_wf_def Let_def simp del: set_map split: if_splits
        dest!: ball_replace_row [where g = e_parcelId and f = "updated_evidence x"
          and P = "\<lambda>i. i \<in> p_id ` set (t_parcels ts)", THEN iffD2, rotated, THEN bspec])
next
  case (DeleteEvidence j)
  assume "tables_wf ts" "table_query_evidence new_key q ts = Some (r, ts')"
  with DeleteEvidence show ?thesis
    by (auto simp: tables_wf_def distinct_map_filter_rows set_remove_row)
qed auto

lemma table_count_same: "table_query_count ilike q ts = Some (r, ts') \<Longrightarrow> ts' = ts"
  by (cases q) auto

lemma table_text_same: "table_query_text show_num q ts = Some (r, ts') \<Longrightarrow> ts' = ts"
  by (cases q) (auto simp: Let_def)

lemma newest_first_sort: "newest_first time (sort_key (\<lambda>r. - time r) rs)"
proof -
  have "sorted (map (\<lambda>r. - time r) (sort_key (\<lambda>r. - time r) rs))"
    by simp
  then show ?thesis
    unfolding newest_first_def by (simp add: sorted_map)
qed

lemma distinct_map_sort_key: "distinct (map key rs) \<Longrightarrow> distinct (map key (sort_key f rs))"
  by (simp add: distinct_map)

lemma evidence_of_rows:
  assumes "distinct (map e_id es)"
  shows "evidence_of (row_at e_id es) i st = e_id ` set (filter (\<lambda>e. e_parcelId e = i \<and> e_status e = st) es)"
  using assms by (auto simp: evidence_of_def dest: row_at_set row_at_key intro: row_at_mem)

lemma card_key_filter:
  assumes "distinct (map key rs)"
  shows "card (key ` set (filter P rs)) = length (filter P rs)"
proof -
  from assms have "distinct (map key (filter P rs))"
    by (rule distinct_map_filter)
  then show ?thesis
    using distinct_card by fastforce
qed

lemma drop_evidence_rows:
  assumes "distinct (map e_id es)"
  shows "row_at e_id (remove_row e_parcelId i es) = drop_evidence_of i (row_at e_id es)"
  using assms
proof (induction es)
  case (Cons e es)
  then have "row_at e_id es (e_id e) = None"
    by (simp add: row_at_eq_None)
  with Cons show ?case
    by (auto simp: remove_row_def drop_evidence_of_def fun_eq_iff)
qed (simp add: remove_row_def drop_evidence_of_def fun_eq_iff)

section \<open>Each statement meets its law\<close>

lemma table_same [simp]:
  "table_parcels (ts\<lparr>t_evidence := es\<rparr>) = table_parcels ts"
  "table_evidence (ts\<lparr>t_parcels := ps\<rparr>) = table_evidence ts"
  "table_parcels (ts\<lparr>t_fresh := n\<rparr>) = table_parcels ts"
  "table_evidence (ts\<lparr>t_fresh := n\<rparr>) = table_evidence ts"
  by (simp_all add: table_parcels_def table_evidence_def)

lemma table_titles_unique:
  assumes "tables_wf s" "table_parcels s i = Some p" "table_parcels s k = Some q"
    and "p_titleNumber p = p_titleNumber q"
  shows "i = k"
proof -
  have "p \<in> set (t_parcels s)" "q \<in> set (t_parcels s)" "p_id p = i" "p_id q = k"
    using assms(2,3) by (auto simp: table_parcels_def dest: row_at_set row_at_key)
  moreover have "inj_on p_titleNumber (set (t_parcels s))"
    using assms(1) by (auto dest!: tables_wfD(2) simp: distinct_map)
  ultimately show ?thesis
    using assms(4) by (auto dest: inj_onD)
qed

lemma table_foreign_key:
  "tables_wf s \<Longrightarrow> table_evidence s j = Some e \<Longrightarrow> table_parcels s (e_parcelId e) \<noteq> None"
  unfolding table_parcels_def table_evidence_def row_at_eq_None
  by (auto dest!: row_at_set tables_wfD(4))

lemma table_select_parcels:
  assumes "tables_wf s"
    and "table_query_parcels numeric ilike new_key (SelectParcels cs (jsint (int n)) (jsint (int m))) s = Some (r, t)"
  shows "(\<exists>all. r = take n (drop m all) \<and> newest_first p_createdAt all \<and> distinct (map p_id all) \<and>
      set all = {p \<in> ran (table_parcels s). all_hold ilike (table_recent s) cs p}) \<and> t = s"
proof -
  let ?all = "sort_key (\<lambda>p. - p_createdAt p) (filter (all_hold ilike (table_recent s) cs) (t_parcels s))"
  have d: "distinct (map p_id (t_parcels s))"
    using assms(1) by (rule tables_wfD)
  then have "set ?all = {p \<in> ran (table_parcels s). all_hold ilike (table_recent s) cs p}"
    by (auto simp: table_parcels_def ran_row_at)
  moreover have "distinct (map p_id ?all)"
    using d by (intro distinct_map_sort_key distinct_map_filter)
  moreover have "r = take n (drop m ?all)" "t = s"
    using assms(2) by auto
  ultimately show ?thesis
    using newest_first_sort by blast
qed

lemma table_select_some_parcels:
  assumes "tables_wf s"
    and "table_query_parcels numeric ilike new_key (SelectParcels cs l m) s = Some (r, t)"
  shows "set r \<subseteq> ran (table_parcels s) \<and> t = s"
proof -
  have "distinct (map p_id (t_parcels s))"
    using assms(1) by (rule tables_wfD)
  then have ran: "ran (table_parcels s) = set (t_parcels s)"
    by (simp add: table_parcels_def ran_row_at)
  obtain n k where "nat_of_num l = Some n" "nat_of_num m = Some k"
    using assms(2) by (cases "nat_of_num l"; cases "nat_of_num m") simp_all
  note query = assms(2) [unfolded table_query_parcels.simps this prod.case option.case option.inject prod.inject]
  then have r: "r = take n (drop k (sort_key (\<lambda>p. - p_createdAt p)
      (filter (all_hold ilike (table_recent s) cs) (t_parcels s))))" "t = s"
    by blast+
  have "set r \<subseteq> set (sort_key (\<lambda>p. - p_createdAt p) (filter (all_hold ilike (table_recent s) cs) (t_parcels s)))"
    unfolding r(1) using set_take_subset set_drop_subset by (rule subset_trans)
  then show ?thesis by (auto simp: ran r(2))
qed

lemma table_insert_parcel:
  assumes "table_query_parcels numeric ilike new_key (InsertParcel v) s = Some (r, t)"
  shows "\<exists>i now. table_parcels s i = None \<and> r = [inserted_parcel numeric i now v] \<and>
    table_parcels t = (table_parcels s)(i \<mapsto> inserted_parcel numeric i now v) \<and>
    table_evidence t = table_evidence s"
proof -
  let ?i = "new_key (t_fresh s)"
  let ?row = "inserted_parcel numeric ?i (t_clock s) v"
  have new: "?i \<notin> p_id ` set (t_parcels s)" and r: "r = [?row]"
    and t: "t = s\<lparr>t_parcels := t_parcels s @ [?row], t_fresh := Suc (t_fresh s)\<rparr>"
    using assms by (auto simp: Let_def split: if_splits)
  have "row_at p_id (t_parcels s @ [?row]) = (row_at p_id (t_parcels s))(?i \<mapsto> ?row)"
    using row_at_append_fresh [of p_id ?row "t_parcels s"] new by simp
  then show ?thesis
    using new r t by (auto simp: table_parcels_def table_evidence_def row_at_eq_None)
qed

lemma table_update_parcel:
  assumes "tables_wf s"
    and "table_query_parcels numeric ilike new_key (UpdateParcel i u) s = Some (r, t)"
  shows "table_evidence t = table_evidence s \<and>
    (case table_parcels s i of
       None \<Rightarrow> r = [] \<and> table_parcels t = table_parcels s
     | Some p \<Rightarrow> \<exists>now. r = [updated_parcel numeric now u p] \<and>
         table_parcels t = (table_parcels s)(i \<mapsto> updated_parcel numeric now u p))"
proof -
  let ?f = "updated_parcel numeric (t_clock s) u"
  let ?rows = "replace_row p_id i ?f (t_parcels s)"
  have r: "r = filter (\<lambda>p. p_id p = i) ?rows" and t: "t = s\<lparr>t_parcels := ?rows\<rparr>"
    using assms(2) by (simp_all add: Let_def)
  have "distinct (map p_id ?rows)"
    using tables_wfD(1) [OF assms(1)] by simp
  then have "r = (case row_at p_id ?rows i of None \<Rightarrow> [] | Some p \<Rightarrow> [p])"
    unfolding r by (rule filter_row_at)
  moreover have "row_at p_id ?rows = (case table_parcels s i of None \<Rightarrow> table_parcels s
      | Some p \<Rightarrow> (table_parcels s)(i \<mapsto> ?f p))"
    by (simp add: row_at_replace table_parcels_def split: option.splits)
  ultimately show ?thesis
    unfolding t by (auto simp: table_parcels_def split: option.splits)
qed

lemma table_update_evidence:
  assumes "tables_wf s" and "table_query_evidence new_key (UpdateEvidence j x) s = Some (r, t)"
  shows "table_parcels t = table_parcels s \<and>
    (case table_evidence s j of
       None \<Rightarrow> r = [] \<and> table_evidence t = table_evidence s
     | Some e \<Rightarrow> r = [updated_evidence x e] \<and>
         table_evidence t = (table_evidence s)(j \<mapsto> updated_evidence x e))"
proof -
  let ?rows = "replace_row e_id j (updated_evidence x) (t_evidence s)"
  have r: "r = filter (\<lambda>e. e_id e = j) ?rows" and t: "t = s\<lparr>t_evidence := ?rows\<rparr>"
    using assms(2) by (simp_all add: Let_def split: if_splits)
  have "distinct (map e_id ?rows)"
    using tables_wfD(3) [OF assms(1)] by simp
  then have "r = (case row_at e_id ?rows j of None \<Rightarrow> [] | Some e \<Rightarrow> [e])"
    unfolding r by (rule filter_row_at)
  moreover have "row_at e_id ?rows = (case table_evidence s j of None \<Rightarrow> table_evidence s
      | Some e \<Rightarrow> (table_evidence s)(j \<mapsto> updated_evidence x e))"
    by (simp add: row_at_replace table_evidence_def split: option.splits)
  ultimately show ?thesis
    unfolding t by (auto simp: table_evidence_def split: option.splits)
qed

lemma table_delete_parcel:
  assumes "tables_wf s"
    and "table_query_parcels numeric ilike new_key (DeleteParcel i) s = Some (r, t)"
  shows "r = (case table_parcels s i of None \<Rightarrow> [] | Some p \<Rightarrow> [p]) \<and>
    table_parcels t = (table_parcels s)(i := None) \<and>
    table_evidence t = drop_evidence_of i (table_evidence s)"
  using assms
  by (auto simp: table_parcels_def table_evidence_def filter_row_at row_at_remove
      drop_evidence_rows tables_wfD(1,3))

lemma table_insert_evidence:
  assumes "table_query_evidence new_key (InsertEvidence w) s = Some (r, t)"
  shows "\<exists>j now. table_evidence s j = None \<and> r = [inserted_evidence j now w] \<and>
    table_evidence t = (table_evidence s)(j \<mapsto> inserted_evidence j now w) \<and>
    table_parcels t = table_parcels s"
proof -
  let ?j = "new_key (t_fresh s)"
  let ?row = "inserted_evidence ?j (t_clock s) w"
  have new: "?j \<notin> e_id ` set (t_evidence s)" and r: "r = [?row]"
    and t: "t = s\<lparr>t_evidence := t_evidence s @ [?row], t_fresh := Suc (t_fresh s)\<rparr>"
    using assms by (auto simp: Let_def split: if_splits)
  have "row_at e_id (t_evidence s @ [?row]) = (row_at e_id (t_evidence s))(?j \<mapsto> ?row)"
    using row_at_append_fresh [of e_id ?row "t_evidence s"] new by simp
  then show ?thesis
    using new r t by (auto simp: table_parcels_def table_evidence_def row_at_eq_None)
qed

lemma table_select_evidence:
  assumes "tables_wf s" and "table_query_evidence new_key (SelectEvidenceOf i) s = Some (r, t)"
  shows "newest_first e_uploadedAt r \<and> distinct (map e_id r) \<and>
    set r = {e \<in> ran (table_evidence s). e_parcelId e = i} \<and> t = s"
  using assms tables_wfD(3) [OF assms(1)]
  by (auto simp: table_evidence_def ran_row_at newest_first_sort distinct_map_filter
      intro!: distinct_map_sort_key)

lemma table_count_parcels:
  assumes "tables_wf s" and "table_query_count ilike (CountParcels cs) s = Some (r, t)"
  shows "r = Some (int (card {p \<in> ran (table_parcels s). all_hold ilike (table_recent s) cs p})) \<and> t = s"
proof -
  have d: "distinct (map p_id (t_parcels s))"
    using assms(1) by (rule tables_wfD)
  then have "distinct (filter (all_hold ilike (table_recent s) cs) (t_parcels s))"
    by (simp add: distinct_map)
  from distinct_card [OF this] show ?thesis
    using assms(2) d by (auto simp: table_parcels_def ran_row_at)
qed

lemma table_count_status:
  assumes "tables_wf s" and "table_query_count ilike (CountEvidenceStatus st) s = Some (r, t)"
  shows "r = Some (int (card {j. \<exists>e. table_evidence s j = Some e \<and> e_status e = st})) \<and> t = s"
proof -
  have d: "distinct (map e_id (t_evidence s))"
    using assms(1) by (rule tables_wfD)
  then have "{j. \<exists>e. table_evidence s j = Some e \<and> e_status e = st} =
      e_id ` set (filter (\<lambda>e. e_status e = st) (t_evidence s))"
    by (auto simp: table_evidence_def dest: row_at_set row_at_key intro: row_at_mem)
  then show ?thesis
    using assms(2) card_key_filter [OF d] by auto
qed

lemma table_count_evidence_of:
  assumes "tables_wf s" and "table_query_count ilike (CountEvidenceOf i st) s = Some (r, t)"
  shows "r = Some (int (card (evidence_of (table_evidence s) i st))) \<and> t = s"
  using assms tables_wfD(3) [OF assms(1)]
  by (auto simp: table_evidence_def evidence_of_rows card_key_filter simp del: set_filter)

lemma table_select_parcel:
  assumes "tables_wf s" and "table_query_parcels numeric ilike new_key (SelectParcel i) s = Some (r, t)"
  shows "r = (case table_parcels s i of None \<Rightarrow> [] | Some p \<Rightarrow> [p]) \<and> t = s"
  using assms tables_wfD(1) [OF assms(1)] by (auto simp: table_parcels_def filter_row_at)

lemma table_delete_evidence:
  assumes "tables_wf s" and "table_query_evidence new_key (DeleteEvidence j) s = Some (r, t)"
  shows "r = (case table_evidence s j of None \<Rightarrow> [] | Some e \<Rightarrow> [e]) \<and>
    table_evidence t = (table_evidence s)(j := None) \<and> table_parcels t = table_parcels s"
  using assms tables_wfD(3) [OF assms(1)]
  by (auto simp: table_evidence_def filter_row_at row_at_remove)

interpretation tables: registry_db "table_service numeric ilike new_key show_num"
    table_parcels table_evidence tables_wf numeric ilike table_recent
  for numeric ilike new_key show_num
proof (unfold_locales, unfold table_service_simps, goal_cases)
  case 1 then show ?case by (auto simp: table_parcels_def dest: row_at_key)
next
  case 2 then show ?case by (auto simp: table_evidence_def dest: row_at_key)
next
  case 3 then show ?case by (simp add: table_parcels_def dom_row_at)
next
  case 4 then show ?case by (simp add: table_evidence_def dom_row_at)
next
  case 5 then show ?case by (rule table_foreign_key)
next
  case 6 then show ?case by (rule table_titles_unique)
next
  case 7 then show ?case by (rule table_parcels_wf)
next
  case 8 then show ?case by (rule table_evidence_wf)
next
  case 9 then show ?case by (auto dest: table_count_same)
next
  case 10 then show ?case by (auto dest: table_text_same)
next
  case 11 from table_select_parcel [OF this] show ?case by simp
next
  case 12 from table_select_parcels [OF this] show ?case by simp
next
  case 13 from table_select_some_parcels [OF this] show ?case by simp
next
  case 14 from table_insert_parcel [OF this(2)] show ?case .
next
  case 15 from table_update_parcel [OF this] show ?case .
next
  case 16 from table_delete_parcel [OF this] show ?case .
next
  case 17 from table_select_evidence [OF this] show ?case by simp
next
  case 18 from table_insert_evidence [OF this(2)] show ?case .
next
  case 19 from table_update_evidence [OF this] show ?case .
next
  case 20 show ?case by simp
next
  case 21 from table_delete_evidence [OF this] show ?case .
next
  case 22 from table_count_parcels [OF this] show ?case by simp
next
  case 23 from table_count_evidence_of [OF this] show ?case by simp
next
  case 24 from table_count_status [OF this] show ?case by simp
next
  case 25 then show ?case by (auto dest: table_text_same)
qed

end
