(* ===== verification/Api_Instances.thy ===== *)
theory Api_Instances
  imports Api_Effects Registry_Tables
begin

text \<open>
  A concrete instance of what the API model leaves open: validators that accept the bodies the
  handlers were written for, a runtime, and a table store with one parcel and two documents.
  The properties are evaluated here.
\<close>

definition str_field :: "jsval \<Rightarrow> string \<Rightarrow> jsstr option" where
  "str_field v k = (case field v (js k) of Str s \<Rightarrow> Some s | _ \<Rightarrow> None)"

definition num_field :: "jsval \<Rightarrow> string \<Rightarrow> jsnum option" where
  "num_field v k = (case field v (js k) of Num n \<Rightarrow> Some n | _ \<Rightarrow> None)"

definition null_str_field :: "jsval \<Rightarrow> string \<Rightarrow> jsstr option option" where
  "null_str_field v k =
     (case field v (js k) of Str s \<Rightarrow> Some (Some s) | Null \<Rightarrow> Some None | _ \<Rightarrow> None)"

definition null_num_field :: "jsval \<Rightarrow> string \<Rightarrow> jsnum option option" where
  "null_num_field v k =
     (case field v (js k) of Num n \<Rightarrow> Some (Some n) | Null \<Rightarrow> Some None | _ \<Rightarrow> None)"

definition enum_field :: "string list \<Rightarrow> jsval \<Rightarrow> string \<Rightarrow> jsstr option" where
  "enum_field vals v k =
     (case str_field v k of None \<Rightarrow> None
      | Some s \<Rightarrow> if s \<in> set (map js vals) then Some s else None)"

definition ref_create_body :: "jsval \<Rightarrow> jsstr + create_parcel_body" where
  "ref_create_body v =
     (case (str_field v ''owner_name'', str_field v ''location_address'', str_field v ''state'',
            str_field v ''lga'', num_field v ''area_sqm'', str_field v ''parcel_type'') of
        (Some own, Some addr, Some st, Some lga, Some area, Some ty) \<Rightarrow>
          Inr \<lparr>c_owner_name = own, c_owner_phone = str_field v ''owner_phone'',
               c_owner_email = str_field v ''owner_email'', c_location_address = addr,
               c_state = st, c_lga = lga, c_area_sqm = area, c_parcel_type = ty,
               c_latitude = num_field v ''latitude'', c_longitude = num_field v ''longitude''\<rparr>
      | _ \<Rightarrow> Inl (js ''Required''))"

definition parcel_statuses :: "string list" where
  "parcel_statuses = [''pending'', ''registered'', ''disputed'']"

definition evidence_statuses :: "string list" where
  "evidence_statuses = [''pending_review'', ''verified'', ''rejected'']"

definition ref_update_body :: "jsval \<Rightarrow> jsstr + update_parcel_body" where
  "ref_update_body v =
     Inr \<lparr>d_owner_name = str_field v ''owner_name'',
          d_owner_phone = null_str_field v ''owner_phone'',
          d_owner_email = null_str_field v ''owner_email'',
          d_location_address = str_field v ''location_address'', d_state = str_field v ''state'',
          d_lga = str_field v ''lga'', d_area_sqm = num_field v ''area_sqm'',
          d_parcel_type = str_field v ''parcel_type'',
          d_status = enum_field parcel_statuses v ''status'',
          d_latitude = null_num_field v ''latitude'',
          d_longitude = null_num_field v ''longitude''\<rparr>"

definition ref_add_evidence_body :: "jsval \<Rightarrow> jsstr + add_evidence_body" where
  "ref_add_evidence_body v =
     (case (str_field v ''document_type'', str_field v ''file_name'') of
        (Some ty, Some name) \<Rightarrow>
          Inr \<lparr>a_document_type = ty, a_file_name = name, a_notes = str_field v ''notes''\<rparr>
      | _ \<Rightarrow> Inl (js ''Required''))"

definition ref_update_evidence_body :: "jsval \<Rightarrow> jsstr + update_evidence_body" where
  "ref_update_evidence_body v =
     Inr \<lparr>b_status = enum_field evidence_statuses v ''status'', b_notes = null_str_field v ''notes''\<rparr>"

definition ref_list_query :: "jsval \<Rightarrow> jsstr + list_query" where
  "ref_list_query v =
     Inr \<lparr>q_status = str_field v ''status'', q_parcel_type = str_field v ''parcel_type'',
          q_state = str_field v ''state'', q_search = str_field v ''search'',
          q_limit = num_field v ''limit'', q_offset = num_field v ''offset''\<rparr>"

definition ref_schemas :: api_schemas where
  "ref_schemas =
     \<lparr>ListParcelsQueryParams = ref_list_query, ListParcelsResponse = Some,
      CreateParcelBody = ref_create_body, CreateParcelResponse = Some, GetParcelResponse = Some,
      UpdateParcelParams = (\<lambda>_. Inr ()), UpdateParcelBody = ref_update_body,
      UpdateParcelResponse = Some, DeleteParcelParams = (\<lambda>_. Inr ()),
      ListParcelEvidenceParams = (\<lambda>_. Inr ()), ListParcelEvidenceResponse = Some,
      AddParcelEvidenceParams = (\<lambda>_. Inr ()), AddParcelEvidenceBody = ref_add_evidence_body,
      AddParcelEvidenceResponse = Some, UpdateEvidenceParams = (\<lambda>_. Inr ()),
      UpdateEvidenceBody = ref_update_evidence_body, UpdateEvidenceResponse = Some,
      DeleteEvidenceParams = (\<lambda>_. Inr ()), GetDashboardStatsResponse = Some,
      HealthCheckResponse = Some\<rparr>"

fun ref_show_num :: "jsnum \<Rightarrow> jsstr" where
  "ref_show_num (Fin r) = show_int \<lfloor>r\<rfloor>"
| "ref_show_num PosInf = js ''Infinity''"
| "ref_show_num NegInf = js ''-Infinity''"
| "ref_show_num NaN = js ''NaN''"

definition ref_read_num :: "jsstr \<Rightarrow> jsnum" where
  "ref_read_num s =
     (if s \<noteq> [] \<and> (\<forall>c \<in> set s. 48 \<le> c \<and> c \<le> 57)
      then jsint (foldl (\<lambda>n c. n * 10 + (uint c - 48)) 0 s) else NaN)"

definition ref_env :: api_env where
  "ref_env = \<lparr>schemas = ref_schemas, num_to_string = ref_show_num, string_to_num = ref_read_num,
     iso_string = show_int, full_year = 2026, random = 1 / 4\<rparr>"

lemma ref_env_simps [simp]:
  "schemas ref_env = ref_schemas" "num_to_string ref_env = ref_show_num"
  "string_to_num ref_env = ref_read_num" "iso_string ref_env = show_int"
  "full_year ref_env = 2026" "random ref_env = 1 / 4"
  by (simp_all add: ref_env_def)

lemma ref_schemas_simps [simp]:
  "ListParcelsQueryParams ref_schemas = ref_list_query" "ListParcelsResponse ref_schemas = Some"
  "CreateParcelBody ref_schemas = ref_create_body" "CreateParcelResponse ref_schemas = Some"
  "GetParcelResponse ref_schemas = Some" "UpdateParcelParams ref_schemas v = Inr ()"
  "UpdateParcelBody ref_schemas = ref_update_body" "UpdateParcelResponse ref_schemas = Some"
  "DeleteParcelParams ref_schemas v = Inr ()" "ListParcelEvidenceParams ref_schemas v = Inr ()"
  "ListParcelEvidenceResponse ref_schemas = Some" "AddParcelEvidenceParams ref_schemas v = Inr ()"
  "AddParcelEvidenceBody ref_schemas = ref_add_evidence_body"
  "AddParcelEvidenceResponse ref_schemas = Some" "UpdateEvidenceParams ref_schemas v = Inr ()"
  "UpdateEvidenceBody ref_schemas = ref_update_evidence_body"
  "UpdateEvidenceResponse ref_schemas = Some" "DeleteEvidenceParams ref_schemas v = Inr ()"
  "GetDashboardStatsResponse ref_schemas = Some" "HealthCheckResponse ref_schemas = Some"
  by (simp_all add: ref_schemas_def)

abbreviation ref_db :: "tables db_service" where
  "ref_db \<equiv> table_service (\<lambda>s. s) (\<lambda>s pat. pat = js ''%'' @ s @ js ''%'')
     (\<lambda>n. js ''id-'' @ show_int (int n)) (\<lambda>r. show_int \<lfloor>r\<rfloor>)"

definition demo_parcel :: parcel_row where
  "demo_parcel =
     \<lparr>p_id = js ''p1'', p_titleNumber = js ''LV-NG-2026-123456'', p_ownerName = js ''Ada'',
      p_ownerPhone = None, p_ownerEmail = None, p_locationAddress = js ''1 Marina'',
      p_state = js ''Lagos'', p_lga = js ''Eti-Osa'', p_areaSqm = js ''500'',
      p_parcelType = js ''residential'', p_status = js ''registered'', p_trustScore = 62,
      p_latitude = None, p_longitude = None, p_createdAt = 5, p_updatedAt = 5\<rparr>"

definition demo_evidence :: "string \<Rightarrow> string \<Rightarrow> evidence_row" where
  "demo_evidence i st =
     \<lparr>e_id = js i, e_parcelId = js ''p1'', e_documentType = js ''deed'', e_fileName = js ''deed.pdf'',
      e_notes = None, e_status = js st, e_uploadedAt = 6\<rparr>"

definition demo_tables :: tables where
  "demo_tables =
     \<lparr>t_parcels = [demo_parcel],
      t_evidence = [demo_evidence ''e1'' ''verified'', demo_evidence ''e2'' ''pending_review''],
      t_fresh = 0, t_clock = 7\<rparr>"

lemma demo_tables_wf [simp]: "tables_wf demo_tables"
  by (simp add: tables_wf_def demo_tables_def demo_parcel_def demo_evidence_def)

lemma ref_statuses: "enum_field vals v k \<noteq> Some []" if "[] \<notin> set vals"
  using that by (auto simp: enum_field_def js_def split: option.splits)

lemma ref_statuses_checked [simp]: "statuses_checked ref_schemas"
  by (auto simp: statuses_checked_def ref_update_body_def ref_update_evidence_body_def
      ref_statuses parcel_statuses_def evidence_statuses_def)

lemma demo_row_simps [simp]:
  "p_id demo_parcel = js ''p1''" "p_status demo_parcel = js ''registered''"
  "p_trustScore demo_parcel = 62" "e_id (demo_evidence i st) = js i"
  "e_parcelId (demo_evidence i st) = js ''p1''" "e_status (demo_evidence i st) = js st"
  by (simp_all add: demo_parcel_def demo_evidence_def)

lemma demo_maps:
  "table_parcels demo_tables i = (if js ''p1'' = i then Some demo_parcel else None)"
  "table_evidence demo_tables i =
     (if js ''e1'' = i then Some (demo_evidence ''e1'' ''verified'')
      else if js ''e2'' = i then Some (demo_evidence ''e2'' ''pending_review'') else None)"
  by (simp_all add: table_parcels_def table_evidence_def demo_tables_def row_at_def)

lemma demo_evidence_of: "evidence_of (table_evidence demo_tables) (js ''p1'') verified = {js ''e1''}"
proof -
  have "js ''pending_review'' \<noteq> verified" "verified = js ''verified''" by (simp_all add: verified_def)
  then show ?thesis by (auto simp: demo_maps evidence_of_def)
qed

lemma demo_consistent [simp]:
  "trust_consistent (table_parcels demo_tables) (table_evidence demo_tables)"
  by (simp add: trust_consistent_def demo_maps score_of_def demo_evidence_of
      computeTrustScore_def Let_def)

definition verify_request :: request where
  "verify_request =
     \<lparr>r_method = PATCH, r_path = [js ''api'', js ''evidence'', js ''e2''], r_query = Undefined,
      r_body = Body (Obj [(js ''status'', Str (js ''verified''))])\<rparr>"


text \<open>How the demonstration request is dispatched and what the simplifier needs to run handlers.\<close>

lemma app_verify_request:
  "app ref_env verify_request =
     update_evidence ref_env (OneParam (js ''e2'')) (Obj [(js ''status'', Str (js ''verified''))])"
  by (simp add: app_def verify_request_def router_def health_router_def dashboard_router_def
      parcels_router_def evidence_router_def segment_def ascii_lower_def js_def)

lemmas demo_run = demo_tables_def replace_row_def remove_row_def no_evidence_updates_def
  no_parcel_updates_def given_status_def recalcTrustScore_def Let_def recalculated_score_def
  send_parsed_def str_field_def num_field_def enum_field_def null_str_field_def null_num_field_def
  evidence_statuses_def parcel_statuses_def ref_update_evidence_body_def ref_update_body_def
  ref_create_body_def ref_add_evidence_body_def ref_list_query_def

lemma demo_title:
  "generateTitleNumber 2026 (1 / 4) = js ''LV-NG-2026-325000''"
  "p_titleNumber demo_parcel = js ''LV-NG-2026-123456''" "show_int 0 = js ''0''"
  "js ''id-'' @ js ''0'' = js ''id-0''"
  by (simp_all add: generateTitleNumber_def title_rand_def show_int_def digits_of.simps js_def
      unit_of_def demo_parcel_def)

end
