(* ===== verification/Api_Properties.thy ===== *)
theory Api_Properties
  imports Api_Instances
begin

text \<open>
  The properties of the API server, for every database that meets the laws of \<open>registry_db\<close>;
  their witnesses run the handlers on the table store of \<open>Api_Instances\<close>.
\<close>

section \<open>Sequences of requests\<close>

fun serve_all ::
    "'s db_service \<Rightarrow> (api_env \<times> request) list \<Rightarrow> 's \<Rightarrow> reply result list \<times> 's" where
  "serve_all db [] s = ([], s)"
| "serve_all db ((env, r) # rs) s =
     (let (x, t) = run db (app env r) s; (xs, u) = serve_all db rs t in (x # xs, u))"

context registry_db
begin

lemma run_app_consistent:
  assumes "wf s" "run db (app env r) s = (x, t)" "\<not> cut_off x" "statuses_checked (schemas env)"
    and "trust_consistent (parcels s) (evidence s)"
  shows "trust_consistent (parcels t) (evidence t)"
  using exec_app [OF exec_run [OF assms(1,2)]] assms references_resolve by blast

lemma serve_all_consistent:
  assumes "wf s" "serve_all db rs s = (xs, t)" "\<forall>x \<in> set xs. \<not> cut_off x"
    and "\<forall>(env, r) \<in> set rs. statuses_checked (schemas env)"
    and "trust_consistent (parcels s) (evidence s)"
  shows "wf t \<and> trust_consistent (parcels t) (evidence t)"
  using assms
proof (induction rs arbitrary: s xs)
  case Nil
  then show ?case by simp
next
  case (Cons er rs)
  obtain env r where er: "er = (env, r)" by (cases er)
  obtain x u where x: "run db (app env r) s = (x, u)" by (cases "run db (app env r) s")
  obtain ys w where ys: "serve_all db rs u = (ys, w)" by (cases "serve_all db rs u")
  have eqs: "xs = x # ys" "w = t" using Cons.prems(2) er x ys by auto
  have "trust_consistent (parcels u) (evidence u)"
    using run_app_consistent [OF Cons.prems(1) x] Cons.prems er eqs by auto
  then show ?case
    using Cons.IH [OF run_wf [OF Cons.prems(1) x] ys [unfolded eqs]] Cons.prems er eqs by auto
qed

end

section \<open>Properties\<close>

lemma map_upd_same_iff [simp]: "m(k \<mapsto> a) = m(k \<mapsto> b) \<longleftrightarrow> a = b"
  by (metis fun_upd_same option.inject)

text \<open>C1: Requests served one after the other keep every trust score equal to the score of
  the parcel's status and its number of verified documents, whatever the requests are, as long
  as the database rejects none of their statements and the schemas let no empty status through.\<close>

theorem requests_keep_scores:
  assumes "registry_db db parcels evidence db_ok numeric ilike recent" and "db_ok s"
    and "trust_consistent (parcels s) (evidence s)"
    and "\<forall>(env, r) \<in> set rs. statuses_checked (schemas env)"
    and "serve_all db rs s = (xs, t)" and "\<forall>x \<in> set xs. \<not> cut_off x"
  shows "trust_consistent (parcels t) (evidence t)"
  using registry_db.serve_all_consistent [OF assms(1,2,5,6,4,3)] by simp

lemma requests_keep_scores_witness:
  "\<exists>xs t. serve_all ref_db [(ref_env, verify_request)] demo_tables = (xs, t) \<and>
     map p_trustScore (t_parcels t) = [74] \<and>
     trust_consistent (table_parcels t) (table_evidence t)"
proof -
  obtain v t where r: "serve_all ref_db [(ref_env, verify_request)] demo_tables =
      ([Done (Json 200 v)], t)" "map p_trustScore (t_parcels t) = [74]"
    by (simp add: app_verify_request update_evidence_def demo_run)
  have "trust_consistent (table_parcels t) (table_evidence t)"
    using requests_keep_scores [OF tables.registry_db_axioms demo_tables_wf demo_consistent
        _ r(1)] by simp
  with r show ?thesis by (intro exI conjI)
qed

text \<open>C18: A valid creation either is rejected by the database and changes nothing, or adds
  exactly one parcel under a new key, pending, with score 10, no change to other rows, and
  replies with status 201 and the shape of that row if the response schema accepts it.\<close>

theorem create_parcel_stores:
  assumes "registry_db db parcels evidence db_ok numeric ilike recent" and "db_ok s"
    and "CreateParcelBody (schemas env) body = Inr d"
    and "run db (create_parcel env body) s = (x, t)"
  shows "evidence t = evidence s \<and>
    (x = Raised DatabaseError \<and> parcels t = parcels s \<or>
     (\<exists>i now row. parcels s i = None \<and> row = inserted_parcel numeric i now (created_values env d) \<and>
        parcels t = (parcels s)(i \<mapsto> row) \<and> p_status row = js ''pending'' \<and> p_trustScore row = 10 \<and>
        x = (case CreateParcelResponse (schemas env) (parcel_shape env row) of
               None \<Rightarrow> Raised ResponseInvalid | Some w \<Rightarrow> Done (Json 201 w))))"
  using registry_db.exec_run [OF assms(1,2,4)] assms(3)
  by (auto simp: create_parcel_def exec_simps created_values_def)

definition demo_creation :: jsval where
  "demo_creation = Obj
     [(js ''owner_name'', Str (js ''Bola'')), (js ''location_address'', Str (js ''2 Broad St'')),
      (js ''state'', Str (js ''Lagos'')), (js ''lga'', Str (js ''Eti-Osa'')),
      (js ''area_sqm'', Num (jsint 120)), (js ''parcel_type'', Str (js ''residential''))]"

lemma create_parcel_stores_witness:
  "\<exists>x t i now. run ref_db (create_parcel ref_env demo_creation) demo_tables = (x, t) \<and>
     table_parcels demo_tables i = None \<and>
     (\<exists>d row. row = inserted_parcel (\<lambda>s. s) i now (created_values ref_env d) \<and>
        p_trustScore row = 10 \<and> table_parcels t = (table_parcels demo_tables)(i \<mapsto> row))"
proof -
  obtain d where d: "CreateParcelBody (schemas ref_env) demo_creation = Inr d"
    by (simp add: demo_creation_def demo_run)
  obtain x t where r: "run ref_db (create_parcel ref_env demo_creation) demo_tables = (x, t)"
    by (cases "run ref_db (create_parcel ref_env demo_creation) demo_tables")
  moreover have "x \<noteq> Raised DatabaseError"
    using r by (auto simp: create_parcel_def demo_creation_def demo_run created_values_def
        demo_title)
  ultimately show ?thesis
    using create_parcel_stores [OF tables.registry_db_axioms demo_tables_wf d r] by blast
qed

text \<open>A PATCH whose validated body provides no field changes nothing in the database, and
  replies 404 exactly when the parcel does not exist (and otherwise with the stored row).\<close>

theorem empty_patch_writes_nothing:
  assumes "registry_db db parcels evidence db_ok numeric ilike recent" and "db_ok s"
    and "UpdateParcelParams (schemas env) (id_object (raw_id param)) = Inr ()"
    and "UpdateParcelBody (schemas env) body = Inr d" and "provided_updates env d = no_parcel_updates"
    and "run db (update_parcel env param body) s = (x, t)"
  shows "parcels t = parcels s \<and> evidence t = evidence s \<and>
    (x = Raised DatabaseError \<or>
     x = (case parcels s (raw_id param) of
            None \<Rightarrow> Done parcel_not_found
          | Some p \<Rightarrow> (case UpdateParcelResponse (schemas env) (parcel_shape env p) of
              None \<Rightarrow> Raised ResponseInvalid | Some w \<Rightarrow> Done (Json 200 w))))"
  using registry_db.exec_run [OF assms(1,2,6)] assms(3-5)
  by (auto simp: update_parcel_def exec_simps split: option.splits)

lemma empty_patch_writes_nothing_witness:
  "\<exists>x t. run ref_db (update_parcel ref_env (OneParam (js ''p9'')) (Obj [])) demo_tables = (x, t) \<and>
     x = Done parcel_not_found \<and> table_parcels t = table_parcels demo_tables"
proof -
  let ?run = "run ref_db (update_parcel ref_env (OneParam (js ''p9'')) (Obj [])) demo_tables"
  obtain x t where r: "?run = (x, t)" by (cases ?run)
  obtain d where d: "UpdateParcelBody (schemas ref_env) (Obj []) = Inr d"
    "provided_updates ref_env d = no_parcel_updates"
    by (rule that [of "projr (ref_update_body (Obj []))"]) (simp_all add: demo_run provided_updates_def)
  have "x \<noteq> Raised DatabaseError"
    using r by (auto simp: update_parcel_def demo_run provided_updates_def)
  then show ?thesis
    using empty_patch_writes_nothing [OF tables.registry_db_axioms demo_tables_wf _ d r] r
    by (simp add: demo_maps)
qed

text \<open>A PATCH that sets a status leaves the parcel with that status and with the score of
  that status and of its verified documents; key, title number and creation time stay, and so do
  all other parcels and all evidence.  A parcel that does not exist gives 404.\<close>

theorem status_patch_rescores:
  assumes "registry_db db parcels evidence db_ok numeric ilike recent" and "db_ok s"
    and "UpdateParcelParams (schemas env) (id_object (raw_id param)) = Inr ()"
    and "UpdateParcelBody (schemas env) body = Inr d" and "d_status d = Some st" and "st \<noteq> []"
    and "run db (update_parcel env param body) s = (x, t)" and "\<not> cut_off x"
  shows "evidence t = evidence s \<and>
    (case parcels s (raw_id param) of
       None \<Rightarrow> parcels t = parcels s \<and> x = Done parcel_not_found
     | Some p \<Rightarrow> (\<exists>q. parcels t = (parcels s)(raw_id param \<mapsto> q) \<and> p_status q = st \<and>
         p_trustScore q = score_of (evidence s) (raw_id param) st \<and> p_id q = p_id p \<and>
         p_titleNumber q = p_titleNumber p \<and> p_createdAt q = p_createdAt p))"
proof -
  have n: "provided_updates env d \<noteq> no_parcel_updates"
    using assms(5) by (simp add: provided_updates_def no_parcel_updates_def)
  show ?thesis
    using registry_db.exec_run [OF assms(1,2,7)] assms(3-6,8) n
    by (auto simp: update_parcel_def write_parcel_def exec_simps score_of_def Let_def
        provided_updates_def split: option.splits)
qed

definition demo_dispute :: jsval where
  "demo_dispute = Obj [(js ''status'', Str (js ''disputed''))]"

lemma status_patch_rescores_witness:
  "\<exists>x t q. run ref_db (update_parcel ref_env (OneParam (js ''p1'')) demo_dispute) demo_tables = (x, t) \<and>
     table_parcels t (js ''p1'') = Some q \<and> p_status q = js ''disputed'' \<and> p_trustScore q = 12"
proof -
  let ?run = "run ref_db (update_parcel ref_env (OneParam (js ''p1'')) demo_dispute) demo_tables"
  obtain x t where r: "?run = (x, t)" by (cases ?run)
  obtain d where d: "UpdateParcelBody (schemas ref_env) demo_dispute = Inr d"
    "d_status d = Some (js ''disputed'')"
    by (simp add: demo_run demo_dispute_def)
  have "\<not> cut_off x"
    using r by (auto simp: update_parcel_def write_parcel_def demo_run demo_dispute_def
        provided_updates_def)
  then show ?thesis
    using status_patch_rescores [OF tables.registry_db_axioms demo_tables_wf _ d _ r] r
    by (auto simp: demo_maps score_of_def demo_evidence_of computeTrustScore_def Let_def)
qed

text \<open>C28: Deleting a parcel removes that parcel and exactly the documents that belong to it; the
  reply is 204 when it existed and 404 otherwise.\<close>

theorem delete_parcel_cascades:
  assumes "registry_db db parcels evidence db_ok numeric ilike recent" and "db_ok s"
    and "DeleteParcelParams (schemas env) (id_object (raw_id param)) = Inr ()"
    and "run db (delete_parcel env param) s = (x, t)" and "\<not> cut_off x"
  shows "parcels t = (parcels s)(raw_id param := None) \<and>
    (\<forall>j e. evidence t j = Some e \<longleftrightarrow> evidence s j = Some e \<and> e_parcelId e \<noteq> raw_id param) \<and>
    x = Done (if parcels s (raw_id param) = None then parcel_not_found else SendStatus 204)"
  using registry_db.exec_run [OF assms(1,2,4)] assms(3,5)
  by (auto simp: delete_parcel_def exec_simps drop_evidence_of_def
      split: option.splits if_splits)

lemma delete_parcel_cascades_witness:
  "\<exists>t. run ref_db (delete_parcel ref_env (OneParam (js ''p1''))) demo_tables = (Done (SendStatus 204), t) \<and>
     (\<forall>i. table_parcels t i = None) \<and> (\<forall>j. table_evidence t j = None)"
proof -
  let ?run = "run ref_db (delete_parcel ref_env (OneParam (js ''p1''))) demo_tables"
  obtain x t where r: "?run = (x, t)" by (cases ?run)
  have "\<not> cut_off x"
    using r by (auto simp: delete_parcel_def demo_run)
  from delete_parcel_cascades [OF tables.registry_db_axioms demo_tables_wf _ r this]
  have "x = Done (SendStatus 204)" "\<And>i. table_parcels t i = None"
    "\<And>j. table_evidence t j = None"
    by (auto simp: demo_maps simp flip: not_Some_eq split: if_splits)
  with r show ?thesis by auto
qed

text \<open>C40: Adding a document checks the parcel before the body: an unknown parcel gives 404 even
  for an invalid body, an invalid body for a known one gives 400, and a valid one adds exactly
  one document, pending review, that belongs to the parcel, with no change to any parcel.\<close>

theorem add_evidence_stores:
  assumes "registry_db db parcels evidence db_ok numeric ilike recent" and "db_ok s"
    and "AddParcelEvidenceParams (schemas env) (id_object (raw_id param)) = Inr ()"
    and "run db (add_evidence env param body) s = (x, t)" and "\<not> cut_off x"
  shows "parcels t = parcels s \<and>
    (case (parcels s (raw_id param), AddParcelEvidenceBody (schemas env) body) of
       (None, _) \<Rightarrow> x = Done parcel_not_found \<and> evidence t = evidence s
     | (Some _, Inl msg) \<Rightarrow> x = Done (error_reply 400 msg) \<and> evidence t = evidence s
     | (Some _, Inr d) \<Rightarrow> (\<exists>j e. evidence s j = None \<and> evidence t = (evidence s)(j \<mapsto> e) \<and>
         e_id e = j \<and> e_parcelId e = raw_id param \<and> e_status e = js ''pending_review'' \<and>
         x = (case AddParcelEvidenceResponse (schemas env) (toEvidenceShape env e) of
                None \<Rightarrow> Raised ResponseInvalid | Some w \<Rightarrow> Done (Json 201 w))))"
proof (cases "parcels s (raw_id param)")
  case None
  then show ?thesis
    using registry_db.exec_run [OF assms(1,2,4)] assms(3,5)
    by (auto simp: add_evidence_def exec_simps parcel_not_found_def Let_def)
next
  case p: (Some p)
  show ?thesis
  proof (cases "AddParcelEvidenceBody (schemas env) body")
    case (Inl msg)
    then show ?thesis
      using registry_db.exec_run [OF assms(1,2,4)] assms(3,5) p
      by (auto simp: add_evidence_def exec_simps Let_def)
  next
    case (Inr d)
    then obtain j now where "evidence s j = None" "parcels t = parcels s"
      "evidence t = (evidence s)(j \<mapsto> inserted_evidence j now (evidence_values_of (raw_id param) d))"
      "x = (case AddParcelEvidenceResponse (schemas env) (toEvidenceShape env
              (inserted_evidence j now (evidence_values_of (raw_id param) d))) of
              None \<Rightarrow> Raised ResponseInvalid | Some w \<Rightarrow> Done (Json 201 w))"
      using registry_db.exec_run [OF assms(1,2,4)] assms(3,5) p
      by (auto simp: add_evidence_def exec_simps Let_def)
    then show ?thesis
      using p Inr by (auto simp: evidence_values_of_def intro!: exI [of _ j])
  qed
qed

lemma add_evidence_stores_witness:
  "\<exists>t. run ref_db (add_evidence ref_env (OneParam (js ''p9'')) Null) demo_tables =
        (Done parcel_not_found, t) \<and> table_parcels t = table_parcels demo_tables"
proof -
  let ?run = "run ref_db (add_evidence ref_env (OneParam (js ''p9'')) Null) demo_tables"
  obtain x t where r: "?run = (x, t)" by (cases ?run)
  have "\<not> cut_off x"
    using r by (auto simp: add_evidence_def demo_run)
  from add_evidence_stores [OF tables.registry_db_axioms demo_tables_wf _ r this] r
  show ?thesis by (simp add: demo_maps)
qed

text \<open>C17: Changing the status of a document updates that document only and rewrites the score of
  its parcel from the new number of verified documents; all other parcels keep their rows, and
  the parcel itself keeps its status and title number.\<close>

theorem evidence_status_rescores:
  assumes "registry_db db parcels evidence db_ok numeric ilike recent" and "db_ok s"
    and "UpdateEvidenceParams (schemas env) (evidence_id_object (raw_id param)) = Inr ()"
    and "UpdateEvidenceBody (schemas env) body = Inr d" and "b_status d = Some st" and "st \<noteq> []"
    and "evidence s (raw_id param) = Some e"
    and "run db (update_evidence env param body) s = (x, t)" and "\<not> cut_off x"
  shows "(\<exists>e'. evidence t = (evidence s)(raw_id param \<mapsto> e') \<and> e_status e' = st \<and>
      e_parcelId e' = e_parcelId e) \<and>
    (\<exists>p q. parcels s (e_parcelId e) = Some p \<and> parcels t = (parcels s)(e_parcelId e \<mapsto> q) \<and>
      p_trustScore q = score_of (evidence t) (e_parcelId e) (p_status p) \<and>
      p_status q = p_status p \<and> p_titleNumber q = p_titleNumber p)"
proof -
  have fk: "parcels s (e_parcelId e) \<noteq> None"
    by (rule registry_db.foreign_key [OF assms(1,2,7)])
  show ?thesis
    using registry_db.exec_run [OF assms(1,2,8)] assms(3-7,9) fk
    by (auto simp: update_evidence_def recalcTrustScore_def exec_simps given_status_def Let_def
        no_evidence_updates_def no_parcel_updates_def score_of_def verified_def recalculated_score_eq)
qed

lemma evidence_status_rescores_witness:
  "\<exists>x t p. run ref_db (update_evidence ref_env (OneParam (js ''e2''))
        (Obj [(js ''status'', Str (js ''verified''))])) demo_tables = (x, t) \<and>
     table_parcels t (js ''p1'') = Some p \<and> p_trustScore p = 74"
proof -
  let ?body = "Obj [(js ''status'', Str (js ''verified''))]"
  let ?run = "run ref_db (update_evidence ref_env (OneParam (js ''e2'')) ?body) demo_tables"
  obtain x t where r: "?run = (x, t)" by (cases ?run)
  have "\<not> cut_off x"
    using r by (auto simp: update_evidence_def demo_run)
  moreover have "UpdateEvidenceBody (schemas ref_env) ?body = Inr (projr (ref_update_evidence_body ?body))"
    "b_status (projr (ref_update_evidence_body ?body)) = Some (js ''verified'')"
    "table_evidence demo_tables (raw_id (OneParam (js ''e2''))) = Some (demo_evidence ''e2'' ''pending_review'')"
    by (simp_all add: ref_update_evidence_body_def enum_field_def str_field_def
        evidence_statuses_def demo_maps)
  ultimately obtain q e' where q: "table_parcels t = (table_parcels demo_tables)(js ''p1'' \<mapsto> q)"
    "p_trustScore q = score_of (table_evidence t) (js ''p1'') (js ''registered'')"
    and e: "table_evidence t = (table_evidence demo_tables)(js ''e2'' \<mapsto> e')"
      "e_status e' = js ''verified''" "e_parcelId e' = js ''p1''"
    using evidence_status_rescores [OF tables.registry_db_axioms demo_tables_wf _ _ _ _ _ r,
        of "projr (ref_update_evidence_body ?body)" "js ''verified''"]
    by (auto simp: demo_maps)
  have "evidence_of (table_evidence t) (js ''p1'') verified = {js ''e1'', js ''e2''}"
    by (auto simp: e demo_maps evidence_of_def verified_def)
  then have "p_trustScore q = 74"
    by (simp add: q(2) score_of_def computeTrustScore_def Let_def)
  with r q(1) show ?thesis by auto
qed

text \<open>A PATCH on a document whose body provides neither status nor notes never succeeds: the
  update object is empty, the query builder refuses it, and the request fails unhandled instead
  of replying with the unchanged document, as the parcel PATCH does.\<close>

theorem empty_evidence_patch_fails:
  assumes "registry_db db parcels evidence db_ok numeric ilike recent" and "db_ok s"
    and "UpdateEvidenceParams (schemas env) (evidence_id_object (raw_id param)) = Inr ()"
    and "UpdateEvidenceBody (schemas env) body = Inr d" and "b_status d = None" and "b_notes d = None"
  shows "run db (update_evidence env param body) s = (Raised DatabaseError, s)"
  using assms(3-6) registry_db.no_values_to_set [OF assms(1)]
  by (simp add: update_evidence_def Let_def flip: no_evidence_updates_def)

lemma empty_evidence_patch_fails_witness:
  "run ref_db (update_evidence ref_env (OneParam (js ''e1'')) (Obj [])) demo_tables =
     (Raised DatabaseError, demo_tables)"
  by (rule empty_evidence_patch_fails [OF tables.registry_db_axioms demo_tables_wf,
        of _ _ _ "projr (ref_update_evidence_body (Obj []))"])
    (simp_all add: ref_update_evidence_body_def enum_field_def str_field_def null_str_field_def)

text \<open>Every generated title number is \<open>LV-NG-\<close>, the year, a dash and six digits.\<close>

theorem title_number_format:
  assumes "0 \<le> r" and "r < 1"
  shows "\<exists>n. generateTitleNumber year r = js ''LV-NG-'' @ show_int year @ js ''-'' @ show_int n \<and>
    100000 \<le> n \<and> n \<le> 999999 \<and> length (show_int n) = 6"
  using title_rand_range [OF assms] title_rand_digits [OF assms]
  by (auto simp: generateTitleNumber_def)

lemma title_number_format_witness:
  "\<exists>n. generateTitleNumber 2026 (1 / 4) = js ''LV-NG-'' @ show_int 2026 @ js ''-'' @ show_int n \<and>
    length (show_int n) = 6"
  using title_number_format [of "1 / 4" 2026] by auto

end
