(* ===== verification/Api_Queries.thy ===== *)
theory Api_Queries
  imports Api_Instances
begin

text \<open>
  Properties of the requests that read (the page of a list, the numbers of the dashboard), of
  the evidence routes and of the dispatch of requests to handlers.
\<close>

section \<open>The list query as a predicate\<close>

text \<open>A filter that is absent or empty does not restrict.\<close>

definition given :: "jsstr option \<Rightarrow> jsstr option" where
  "given v = (case v of None \<Rightarrow> None | Some s \<Rightarrow> if s = [] then None else Some s)"

definition query_matches :: "(jsstr \<Rightarrow> jsstr \<Rightarrow> bool) \<Rightarrow> list_query \<Rightarrow> parcel_row \<Rightarrow> bool" where
  "query_matches ilike q p \<longleftrightarrow>
     (\<forall>st. given (q_status q) = Some st \<longrightarrow> p_status p = st) \<and>
     (\<forall>ty. given (q_parcel_type q) = Some ty \<longrightarrow> p_parcelType p = ty) \<and>
     (\<forall>st. given (q_state q) = Some st \<longrightarrow> p_state p = st) \<and>
     (\<forall>w. given (q_search q) = Some w \<longrightarrow>
        ilike (p_titleNumber p) (search_pattern w) \<or> ilike (p_ownerName p) (search_pattern w) \<or>
        ilike (p_locationAddress p) (search_pattern w))"

lemma all_hold_append [simp]:
  "all_hold ilike recent (cs @ ds) p \<longleftrightarrow> all_hold ilike recent cs p \<and> all_hold ilike recent ds p"
  by (auto simp: all_hold_def)

lemma all_hold_if_text:
  "all_hold ilike recent (if_text v f) p \<longleftrightarrow>
     (\<forall>s. given v = Some s \<longrightarrow> cond_holds ilike recent (f s) p)"
  by (auto simp: all_hold_def if_text_def given_def split: option.splits)

lemma all_hold_list_conditions:
  "all_hold ilike recent (list_conditions q) p \<longleftrightarrow> query_matches ilike q p"
  by (auto simp: list_conditions_def all_hold_if_text query_matches_def)

lemma distinct_rows: "distinct (map p_id rows) \<Longrightarrow> distinct rows"
  by (simp add: distinct_map)

context registry_db
begin

lemma run_list_parcels:
  assumes "wf s" and "ListParcelsQueryParams (schemas env) query = Inr q"
    and "or_else (q_limit q) (jsint 50) = jsint (int n)"
    and "or_else (q_offset q) (jsint 0) = jsint (int m)"
    and "run db (list_parcels env query) s = (x, t)" and "x \<noteq> Raised DatabaseError"
  shows "\<exists>all. set all = {p \<in> ran (parcels s). query_matches ilike q p} \<and>
    distinct (map p_id all) \<and> newest_first p_createdAt all \<and>
    x = (case ListParcelsResponse (schemas env)
           (Obj [(js ''items'', Arr (map (parcel_shape env) (take n (drop m all)))),
                 (js ''total'', Num (jsint (int (length all))))]) of
         None \<Rightarrow> Raised ResponseInvalid | Some w \<Rightarrow> Done (Json 200 w))"
proof -
  let ?cs = "list_conditions q"
  let ?tail = "\<lambda>items. AwaitCount (CountParcels ?cs) (\<lambda>count.
      send_parsed 200 (ListParcelsResponse (schemas env))
        (Obj [(js ''items'', Arr (map (parcel_shape env) items)),
              (js ''total'', Num (jsint (or_else count 0)))]))"
  have "run db (AwaitParcels (SelectParcels ?cs (jsint (int n)) (jsint (int m))) ?tail) s = (x, t)"
    using assms(2-5) by (simp add: list_parcels_def Let_def)
  with assms(6) obtain r u where r: "query_parcels db (SelectParcels ?cs (jsint (int n)) (jsint (int m))) s = Some (r, u)"
    and x: "run db (?tail r) u = (x, t)"
    by (auto split: option.splits)
  from select_parcels [OF assms(1) r] obtain all where
    all: "r = take n (drop m all)" "newest_first p_createdAt all" "distinct (map p_id all)"
      "set all = {p \<in> ran (parcels s). all_hold ilike (recent s) ?cs p}"
    and same: "parcels u = parcels s" "recent u = recent s" by blast
  from x assms(6) obtain c v where c: "query_count db (CountParcels ?cs) u = Some (c, v)"
    by (auto split: option.splits)
  have "c = Some (int (card (set all)))"
    using count_parcels [OF wf_parcels [OF assms(1) r] c] by (simp add: same all(4))
  then have "c = Some (int (length all))"
    using distinct_card [OF distinct_rows [OF all(3)]] by simp
  then show ?thesis
    using x c all by (auto simp: run_send_parsed all_hold_list_conditions split: option.splits)
qed

end

text \<open>C27: A list request returns the page of the matching parcels, newest first, that limit and
  offset select, and as total the number of all matching parcels, each counted once.\<close>

theorem list_parcels_page:
  assumes "registry_db db parcels evidence db_ok numeric ilike recent" and "db_ok s"
    and "ListParcelsQueryParams (schemas env) query = Inr q"
    and "or_else (q_limit q) (jsint 50) = jsint (int n)"
    and "or_else (q_offset q) (jsint 0) = jsint (int m)"
    and "run db (list_parcels env query) s = (x, t)" and "x \<noteq> Raised DatabaseError"
  shows "\<exists>all. set all = {p \<in> ran (parcels s). query_matches ilike q p} \<and>
    distinct (map p_id all) \<and> newest_first p_createdAt all \<and>
    x = (case ListParcelsResponse (schemas env)
           (Obj [(js ''items'', Arr (map (parcel_shape env) (take n (drop m all)))),
                 (js ''total'', Num (jsint (int (length all))))]) of
         None \<Rightarrow> Raised ResponseInvalid | Some w \<Rightarrow> Done (Json 200 w))"
  using registry_db.run_list_parcels [OF assms] .

lemma list_parcels_page_witness:
  "\<exists>t all w. run ref_db (list_parcels ref_env (Obj [(js ''status'', Str (js ''registered''))])) demo_tables =
      (Done (Json 200 (Obj [(js ''items'', Arr w), (js ''total'', Num (jsint 1))])), t) \<and>
    set all = {demo_parcel} \<and> w = map (parcel_shape ref_env) all"
proof -
  let ?v = "Obj [(js ''status'', Str (js ''registered''))]"
  let ?run = "run ref_db (list_parcels ref_env ?v) demo_tables"
  obtain x t where r: "?run = (x, t)" by (cases ?run)
  have ne: "x \<noteq> Raised DatabaseError"
    using r by (auto simp: list_parcels_def demo_run nat_of_num.simps)
  let ?q = "projr (ref_list_query ?v)"
  have q: "ListParcelsQueryParams (schemas ref_env) ?v = Inr ?q"
    "or_else (q_limit ?q) (jsint 50) = jsint (int 50)" "or_else (q_offset ?q) (jsint 0) = jsint (int 0)"
    by (simp_all add: demo_run)
  from list_parcels_page [OF tables.registry_db_axioms demo_tables_wf q r ne]
  obtain all where a: "set all = {p \<in> ran (table_parcels demo_tables).
        query_matches (\<lambda>s pat. pat = js ''%'' @ s @ js ''%'') ?q p}" "distinct (map p_id all)"
    "x = Done (Json 200 (Obj [(js ''items'', Arr (map (parcel_shape ref_env) (take 50 (drop 0 all)))),
                 (js ''total'', Num (jsint (int (length all))))]))"
    by auto
  have s: "set all = {demo_parcel}"
    by (auto simp: a(1) ran_def demo_maps query_matches_def given_def ref_list_query_def
        str_field_def num_field_def split: if_splits)
  then have "length all = 1"
    using distinct_card [OF distinct_rows [OF a(2)]] by simp
  then show ?thesis using r a(3) s by auto
qed

section \<open>The dashboard\<close>

definition parcels_with :: "(jsstr \<rightharpoonup> parcel_row) \<Rightarrow> jsstr \<Rightarrow> int" where
  "parcels_with ps st = int (card {p \<in> ran ps. p_status p = st})"

definition evidence_with :: "(jsstr \<rightharpoonup> evidence_row) \<Rightarrow> jsstr \<Rightarrow> int" where
  "evidence_with ev st = int (card {j. \<exists>e. ev j = Some e \<and> e_status e = st})"

lemma all_hold_Nil [simp]: "all_hold ilike recent [] p"
  by (simp add: all_hold_def)

lemma all_hold_single [simp]: "all_hold ilike recent [c] p \<longleftrightarrow> cond_holds ilike recent c p"
  by (simp add: all_hold_def)

context registry_db
begin

text \<open>Counting leaves the state's tables and clock as they are.\<close>

definition same :: "'s \<Rightarrow> 's \<Rightarrow> bool" where
  "same s t \<longleftrightarrow> wf t \<and> parcels t = parcels s \<and> evidence t = evidence s"

lemma run_count_parcels:
  assumes "run db (AwaitCount (CountParcels cs) f) u = (x, t)" "same s u" "x \<noteq> Raised DatabaseError"
  obtains u' where "same s u'"
    "run db (f (Some (int (card {p \<in> ran (parcels s). all_hold ilike (recent u) cs p})))) u' = (x, t)"
proof -
  from assms obtain c u' where c: "query_count db (CountParcels cs) u = Some (c, u')"
    and r: "run db (f c) u' = (x, t)"
    by (auto split: option.splits)
  have "wf u" using assms(2) by (simp add: same_def)
  from count_parcels [OF this c] wf_count [OF this c] r show thesis
    using assms(2) that by (auto simp: same_def)
qed

lemma run_count_evidence:
  assumes "run db (AwaitCount (CountEvidenceStatus st) f) u = (x, t)" "same s u"
    "x \<noteq> Raised DatabaseError"
  obtains u' where "same s u'" "run db (f (Some (evidence_with (evidence s) st))) u' = (x, t)"
proof -
  from assms obtain c u' where c: "query_count db (CountEvidenceStatus st) u = Some (c, u')"
    and r: "run db (f c) u' = (x, t)"
    by (auto split: option.splits)
  have "wf u" using assms(2) by (simp add: same_def)
  from count_evidence_status [OF this c] wf_count [OF this c] r show thesis
    using assms(2) that by (auto simp: same_def evidence_with_def)
qed

lemma run_average:
  assumes "run db (AwaitText AverageTrust f) u = (x, t)" "same s u" "x \<noteq> Raised DatabaseError"
  obtains r u' where "same s u'" "run db (f r) u' = (x, t)"
proof -
  from assms obtain c u' where c: "query_text db AverageTrust u = Some (c, u')"
    and r: "run db (f c) u' = (x, t)"
    by (auto split: option.splits)
  have "wf u" using assms(2) by (simp add: same_def)
  from average_trust [OF this c] wf_text [OF this c] r show thesis
    using assms(2) that by (auto simp: same_def)
qed

lemma run_dashboard:
  assumes "wf s" and "run db (dashboard_stats env) s = (x, t)" and "x \<noteq> Raised DatabaseError"
  shows "\<exists>avg new. 0 \<le> new \<and> new \<le> int (card (ran (parcels s))) \<and> x =
    (case GetDashboardStatsResponse (schemas env)
       (Obj [(js ''total_parcels'', Num (jsint (int (card (ran (parcels s)))))),
             (js ''registered_parcels'', Num (jsint (parcels_with (parcels s) (js ''registered'')))),
             (js ''pending_parcels'', Num (jsint (parcels_with (parcels s) (js ''pending'')))),
             (js ''disputed_parcels'', Num (jsint (parcels_with (parcels s) (js ''disputed'')))),
             (js ''avg_trust_score'', average_or_zero env avg),
             (js ''registrations_last_7_days'', Num (jsint new)),
             (js ''evidence_verified'', Num (jsint (evidence_with (evidence s) (js ''verified'')))),
             (js ''evidence_pending'', Num (jsint (evidence_with (evidence s) (js ''pending_review''))))]) of
       None \<Rightarrow> Raised ResponseInvalid | Some w \<Rightarrow> Done (Json 200 w))"
proof -
  note ne = assms(3)
  have fin: "finite (ran (parcels s))" using finite_parcels [OF assms(1)] by (rule finite_ran)
  have "same s s" using assms(1) by (simp add: same_def)
  with assms(2) show ?thesis
    unfolding dashboard_stats_def
    apply -
    apply (erule (1) run_count_parcels [OF _ _ ne])
    apply (erule (1) run_count_parcels [OF _ _ ne])
    apply (erule (1) run_count_parcels [OF _ _ ne])
    apply (erule (1) run_count_parcels [OF _ _ ne])
    apply (erule (1) run_average [OF _ _ ne])
    apply (erule (1) run_count_parcels [OF _ _ ne])
    apply (erule (1) run_count_evidence [OF _ _ ne])
    apply (erule (1) run_count_evidence [OF _ _ ne])
    subgoal for _ _ _ _ avg u
      by (rule exI [of _ avg],
          rule exI [of _ "int (card {p \<in> ran (parcels s). all_hold ilike (recent u) [CreatedInLast7Days] p})"])
        (auto simp: run_send_parsed count_or_zero_def parcels_with_def card_mono [OF fin]
          split: option.splits)
    done
qed

lemma parcels_with_sum:
  assumes "wf s"
  shows "parcels_with (parcels s) (js ''registered'') + parcels_with (parcels s) (js ''pending'') +
    parcels_with (parcels s) (js ''disputed'') \<le> int (card (ran (parcels s)))"
proof -
  have fin: "finite (ran (parcels s))" using finite_parcels [OF assms] by (rule finite_ran)
  let ?A = "\<lambda>st. {p \<in> ran (parcels s). p_status p = st}"
  have "card (?A (js ''registered'') \<union> ?A (js ''pending'') \<union> ?A (js ''disputed'')) =
      card (?A (js ''registered'')) + card (?A (js ''pending'')) + card (?A (js ''disputed''))"
    using fin by (subst card_Un_disjoint, simp, simp, force, subst card_Un_disjoint) auto
  moreover have "card (?A (js ''registered'') \<union> ?A (js ''pending'') \<union> ?A (js ''disputed''))
      \<le> card (ran (parcels s))"
    using fin by (intro card_mono) auto
  ultimately show ?thesis by (simp add: parcels_with_def)
qed

end

text \<open>The dashboard reports the exact numbers of parcels and documents in the database; the
  three statuses together never exceed the total, nor do the registrations of the week.\<close>

theorem dashboard_reports_counts:
  assumes "registry_db db parcels evidence db_ok numeric ilike recent" and "db_ok s"
    and "run db (dashboard_stats env) s = (x, t)" and "x \<noteq> Raised DatabaseError"
  shows "(\<exists>avg new. 0 \<le> new \<and> new \<le> int (card (ran (parcels s))) \<and> x =
    (case GetDashboardStatsResponse (schemas env)
       (Obj [(js ''total_parcels'', Num (jsint (int (card (ran (parcels s)))))),
             (js ''registered_parcels'', Num (jsint (parcels_with (parcels s) (js ''registered'')))),
             (js ''pending_parcels'', Num (jsint (parcels_with (parcels s) (js ''pending'')))),
             (js ''disputed_parcels'', Num (jsint (parcels_with (parcels s) (js ''disputed'')))),
             (js ''avg_trust_score'', average_or_zero env avg),
             (js ''registrations_last_7_days'', Num (jsint new)),
             (js ''evidence_verified'', Num (jsint (evidence_with (evidence s) (js ''verified'')))),
             (js ''evidence_pending'', Num (jsint (evidence_with (evidence s) (js ''pending_review''))))]) of
       None \<Rightarrow> Raised ResponseInvalid | Some w \<Rightarrow> Done (Json 200 w))) \<and>
    parcels_with (parcels s) (js ''registered'') + parcels_with (parcels s) (js ''pending'') +
      parcels_with (parcels s) (js ''disputed'') \<le> int (card (ran (parcels s)))"
  using registry_db.run_dashboard [OF assms] registry_db.parcels_with_sum [OF assms(1,2)] by (rule conjI)

lemma dashboard_reports_counts_witness:
  "\<exists>w t. run ref_db (dashboard_stats ref_env) demo_tables = (Done (Json 200 w), t) \<and>
     field w (js ''total_parcels'') = Num (jsint 1)"
proof -
  obtain x t where r: "run ref_db (dashboard_stats ref_env) demo_tables = (x, t)"
    by (cases "run ref_db (dashboard_stats ref_env) demo_tables")
  have "x \<noteq> Raised DatabaseError"
    using r by (auto simp: dashboard_stats_def send_parsed_def Let_def)
  from dashboard_reports_counts [OF tables.registry_db_axioms demo_tables_wf r this]
  obtain w where "x = Done (Json 200 w)" and
    w: "field w (js ''total_parcels'') = Num (jsint (int (card (ran (table_parcels demo_tables)))))"
    by auto
  moreover have "ran (table_parcels demo_tables) = {demo_parcel}"
    by (auto simp: ran_def demo_maps split: if_splits)
  ultimately show ?thesis using r by auto
qed

section \<open>Dispatch\<close>

lemma first_match_Some:
  assumes "\<And>f g a b. f \<in> set hs \<Longrightarrow> g \<in> set hs \<Longrightarrow> f path = Some a \<Longrightarrow> g path = Some b \<Longrightarrow> a = b"
  shows "first_match hs path = Some b \<longleftrightarrow> (\<exists>f \<in> set hs. f path = Some b)"
  using assms
proof (induction hs)
  case Nil
  then show ?case by simp
next
  case (Cons h hs)
  have "first_match hs path = Some b \<longleftrightarrow> (\<exists>f \<in> set hs. f path = Some b)"
    by (rule Cons.IH) (meson Cons.prems list.set_intros(2))
  then show ?case
    using Cons.prems [of h] by (auto split: option.split)
qed

lemma segment_unique: "segment a s \<Longrightarrow> segment b s \<Longrightarrow> map ascii_lower (js a) = map ascii_lower (js b)"
  by (simp add: segment_def)

lemma literal_segments:
  "segment ''healthz'' s \<Longrightarrow> \<not> segment ''parcels'' s"
  "segment ''dashboard'' s \<Longrightarrow> \<not> segment ''parcels'' s"
  "segment ''dashboard'' s \<Longrightarrow> \<not> segment ''evidence'' s"
  "segment ''parcels'' s \<Longrightarrow> \<not> segment ''evidence'' s"
  using segment_unique [of "''healthz''" s "''parcels''"]
    segment_unique [of "''dashboard''" s "''parcels''"]
    segment_unique [of "''dashboard''" s "''evidence''"]
    segment_unique [of "''parcels''" s "''evidence''"]
  by (auto simp: js_def unit_of_def ascii_lower_def)

lemma routers_disjoint:
  "health_router env m p = Some a \<Longrightarrow> dashboard_router env m p = None"
  "health_router env m p = Some a \<Longrightarrow> parcels_router env m q b p = None"
  "health_router env m p = Some a \<Longrightarrow> evidence_router env m b p = None"
  "dashboard_router env m p = Some a \<Longrightarrow> parcels_router env m q b p = None"
  "dashboard_router env m p = Some a \<Longrightarrow> evidence_router env m b p = None"
  "parcels_router env m q b p = Some a \<Longrightarrow> evidence_router env m b p = None"
  by (auto simp: health_router_def dashboard_router_def parcels_router_def evidence_router_def
      dest: literal_segments split: list.splits if_splits)

text \<open>No request is matched by two routers, so the order in which \<open>routes/index.ts\<close> mounts
  them does not matter: any order gives every request the same handler.\<close>

theorem router_order_irrelevant:
  assumes "set hs = {health_router env m, dashboard_router env m, parcels_router env m q b,
                     evidence_router env m b}"
  shows "first_match hs path = router env m q b path"
proof -
  let ?rs = "[health_router env m, dashboard_router env m, parcels_router env m q b,
              evidence_router env m b]"
  have u: "f path = Some x \<Longrightarrow> g path = Some y \<Longrightarrow> x = y" if "f \<in> set ?rs" "g \<in> set ?rs" for f g x y
    using that by (auto simp: routers_disjoint)
  have "first_match hs path = Some h \<longleftrightarrow> first_match ?rs path = Some h" for h
    using first_match_Some [of hs path h] first_match_Some [of ?rs path h] u
    by (simp add: assms)
  then show ?thesis
    unfolding router_def by (metis not_Some_eq)
qed

lemma router_order_irrelevant_witness:
  "first_match [evidence_router ref_env GET Null, dashboard_router ref_env GET,
      parcels_router ref_env GET Null Null, health_router ref_env GET] [js ''healthz''] =
    Some (healthz ref_env)"
  by (subst router_order_irrelevant [where env = ref_env and m = GET and q = Null and b = Null])
    (auto simp: router_def health_router_def segment_def)

end
