(* ===== verification/Server_Concurrency.thy ===== *)
theory Server_Concurrency
  imports Api_Instances
begin

text \<open>
  Requests served concurrently: the Node process interleaves handler bodies at their awaits, so
  the pool of running bodies takes one database statement of any of them at a time, and new
  requests arrive at any moment.  The statements are the \<open>step\<close> relation of \<open>Db_Steps\<close>.
\<close>

type_synonym pool = "reply act list \<times> parcel_map \<times> evidence_map"

inductive pool_step :: "(jsstr \<Rightarrow> jsstr) \<Rightarrow> pool \<Rightarrow> pool \<Rightarrow> bool" for numeric where
  arrive: "pool_step numeric (bodies, ps, ev) (bodies @ [app env r], ps, ev)"
| proceed: "k < length bodies \<Longrightarrow> step numeric (bodies ! k, ps, ev) (m, ps', ev') \<Longrightarrow>
    pool_step numeric (bodies, ps, ev) (bodies[k := m], ps', ev')"

abbreviation reachable :: "(jsstr \<Rightarrow> jsstr) \<Rightarrow> parcel_map \<Rightarrow> evidence_map \<Rightarrow> pool \<Rightarrow> bool" where
  "reachable numeric ps0 ev0 \<equiv> reach (\<lambda>c. c = ([], ps0, ev0)) (pool_step numeric)"

lemma pool_start: "reachable numeric ps0 ev0 ([], ps0, ev0)"
  by (rule reach_start) (rule refl)

lemma pool_later: "reachable numeric ps0 ev0 c \<Longrightarrow> pool_step numeric c d \<Longrightarrow> reachable numeric ps0 ev0 d"
  by (rule reach_step)

inductive_cases pool_stepE: "pool_step numeric (bodies, ps, ev) d"
inductive_cases step_parcelsE: "step numeric (AwaitParcels q f, ps, ev) d"
inductive_cases step_evidenceE: "step numeric (AwaitEvidence q f, ps, ev) d"
inductive_cases step_countE: "step numeric (AwaitCount q f, ps, ev) d"
inductive_cases step_textE: "step numeric (AwaitText q f, ps, ev) d"

section \<open>Scores that a body may still write\<close>

definition score_range :: "int \<Rightarrow> bool" where
  "score_range n \<longleftrightarrow> 0 \<le> n \<and> n \<le> 100"

fun write_in_range :: "parcel_stmt \<Rightarrow> bool" where
  "write_in_range (InsertParcel v) = score_range (v_trustScore v)"
| "write_in_range (UpdateParcel i u) =
     (case u_trustScore u of None \<Rightarrow> True | Some n \<Rightarrow> score_range n)"
| "write_in_range _ = True"

primrec writes_in_range :: "'a act \<Rightarrow> bool" where
  "writes_in_range (Return x) = True"
| "writes_in_range (Throw e) = True"
| "writes_in_range (AwaitParcels q f) = (write_in_range q \<and> (\<forall>r. writes_in_range (f r)))"
| "writes_in_range (AwaitEvidence q f) = (\<forall>r. writes_in_range (f r))"
| "writes_in_range (AwaitCount q f) = (\<forall>r. writes_in_range (f r))"
| "writes_in_range (AwaitText q f) = (\<forall>r. writes_in_range (f r))"

lemma writes_and_then [intro]:
  "writes_in_range m \<Longrightarrow> (\<And>x. writes_in_range (k x)) \<Longrightarrow> writes_in_range (and_then m k)"
  by (induction m) auto

lemma writes_send_parsed [simp]: "writes_in_range (send_parsed code parse v)"
  by (simp add: send_parsed_def split: option.split)

lemma score_range_compute [simp]: "score_range (computeTrustScore st n)"
  using computeTrustScore_bounds by (simp add: score_range_def)

lemma writes_recalc [simp]: "writes_in_range (recalcTrustScore i)"
  by (simp add: recalcTrustScore_def recalculated_score_eq Let_def split: option.split)

lemma writes_write_parcel [simp]:
  "writes_in_range (write_parcel env i u) \<longleftrightarrow> write_in_range (UpdateParcel i u)"
  by (simp add: write_parcel_def split: option.split)

lemma writes_update_parcel [simp]: "writes_in_range (update_parcel env param body)"
  by (simp add: update_parcel_def Let_def provided_updates_def split: sum.split option.split)

lemma writes_update_evidence [simp]: "writes_in_range (update_evidence env param body)"
  by (auto simp: update_evidence_def Let_def split: sum.split option.split)

lemma writes_app: "writes_in_range (app env r)"
  using app_handler [of env r]
  by cases
    (auto simp: healthz_def dashboard_stats_def list_parcels_def create_parcel_def created_values_def
      get_parcel_def delete_parcel_def list_evidence_def add_evidence_def delete_evidence_def
      score_range_def Let_def split: sum.split option.split)

lemma step_writes: "step numeric (m, ps, ev) (m', ps', ev') \<Longrightarrow> writes_in_range m \<Longrightarrow> writes_in_range m'"
  by (induction "(m, ps, ev)" "(m', ps', ev')" rule: step.induct) auto

section \<open>Invariants of all schedules\<close>

definition keys_agree :: "parcel_map \<Rightarrow> evidence_map \<Rightarrow> bool" where
  "keys_agree ps ev \<longleftrightarrow> (\<forall>i p. ps i = Some p \<longrightarrow> p_id p = i) \<and> (\<forall>j e. ev j = Some e \<longrightarrow> e_id e = j)"

lemma step_bounded:
  "step numeric (m, ps, ev) (m', ps', ev') \<Longrightarrow> writes_in_range m \<Longrightarrow> trust_bounded ps \<Longrightarrow> trust_bounded ps'"
  by (induction "(m, ps, ev)" "(m', ps', ev')" rule: step.induct)
    (auto simp: trust_bounded_def score_range_def or_else_def split: option.splits if_splits)

lemma step_referential:
  "step numeric (m, ps, ev) (m', ps', ev') \<Longrightarrow> referential ps ev \<Longrightarrow> referential ps' ev'"
  by (induction "(m, ps, ev)" "(m', ps', ev')" rule: step.induct)
    (auto simp: referential_def drop_evidence_of_def split: option.splits if_splits)

lemma step_keys:
  "step numeric (m, ps, ev) (m', ps', ev') \<Longrightarrow> keys_agree ps ev \<Longrightarrow> keys_agree ps' ev'"
  by (induction "(m, ps, ev)" "(m', ps', ev')" rule: step.induct)
    (auto simp: keys_agree_def drop_evidence_of_def split: option.splits if_splits)

definition pool_inv :: "pool \<Rightarrow> bool" where
  "pool_inv c = (case c of (bodies, ps, ev) \<Rightarrow>
     (\<forall>m \<in> set bodies. writes_in_range m) \<and> trust_bounded ps \<and> referential ps ev \<and> keys_agree ps ev)"

lemma pool_step_inv: "pool_step numeric c d \<Longrightarrow> pool_inv c \<Longrightarrow> pool_inv d"
proof (induction rule: pool_step.induct)
  case (arrive bodies ps ev env r)
  then show ?case by (auto simp: pool_inv_def writes_app)
next
  case (proceed k bodies ps ev m ps' ev')
  then have "writes_in_range (bodies ! k)" by (simp add: pool_inv_def)
  with proceed show ?case
    by (auto simp: pool_inv_def dest!: set_update_subset_insert [THEN subsetD]
        intro: step_writes step_bounded step_referential step_keys)
qed

interpretation pool_machine:
  invariant_of "\<lambda>(bodies, ps, ev). bodies = [] \<and> trust_bounded ps \<and> referential ps ev \<and> keys_agree ps ev"
    "pool_step numeric" pool_inv for numeric
  by unfold_locales (clarsimp simp: pool_inv_def, rule pool_step_inv)

lemma reachable_inv:
  assumes "trust_bounded ps0" "referential ps0 ev0" "keys_agree ps0 ev0"
  shows "reachable numeric ps0 ev0 c \<Longrightarrow> pool_inv c"
  by (rule pool_machine.holds, erule reach_weaken) (simp add: assms)

text \<open>C3: However the requests interleave, and whichever statements the database rejects, every
  trust score stays between 0 and 100, every document belongs to a parcel that exists, and every
  row stays under its own key.\<close>

theorem interleaving_keeps_bounds:
  assumes "trust_bounded ps0" and "referential ps0 ev0" and "keys_agree ps0 ev0"
    and "reachable numeric ps0 ev0 (bodies, ps, ev)"
  shows "trust_bounded ps \<and> referential ps ev \<and> keys_agree ps ev"
  using reachable_inv [OF assms] by (simp add: pool_inv_def)

lemma interleaving_keeps_bounds_witness:
  "trust_bounded (table_parcels demo_tables) \<and>
   reachable (\<lambda>s. s) (table_parcels demo_tables) (table_evidence demo_tables)
     ([app ref_env verify_request], table_parcels demo_tables, table_evidence demo_tables)"
proof
  let ?P = "table_parcels demo_tables" and ?E = "table_evidence demo_tables"
  show r: "reachable (\<lambda>s. s) ?P ?E ([app ref_env verify_request], ?P, ?E)"
    using pool_later [OF pool_start arrive] by simp
  have "keys_agree ?P ?E"
    by (auto simp: keys_agree_def dest: tables.parcel_key [OF demo_tables_wf]
        tables.evidence_key [OF demo_tables_wf])
  with r show "trust_bounded ?P"
    using interleaving_keeps_bounds [OF trust_consistent_bounded [OF demo_consistent]
        registry_db.references_resolve [OF tables.registry_db_axioms demo_tables_wf]] by blast
qed

section \<open>A schedule that loses a recalculation\<close>

lemma exec_steps:
  "exec numeric (m, ps, ev) (Done r) ps' ev' \<Longrightarrow> (step numeric)\<^sup>*\<^sup>* (m, ps, ev) (Return r, ps', ev')"
proof (induction "(m, ps, ev)" "Done r :: 'a result" ps' ev' arbitrary: m ps ev rule: exec.induct)
  case (exec_more d ps' ev' m ps ev)
  obtain m1 ps1 ev1 where "d = (m1, ps1, ev1)" by (cases d)
  with exec_more show ?case by (auto intro: converse_rtranclp_into_rtranclp)
qed auto

text \<open>The bodies that are there go on, and no other request arrives.\<close>

abbreviation onward :: "(jsstr \<Rightarrow> jsstr) \<Rightarrow> pool \<Rightarrow> pool \<Rightarrow> bool" where
  "onward numeric c0 \<equiv> reach (\<lambda>c. c = c0) (\<lambda>c d. pool_step numeric c d \<and> length (fst d) = length (fst c))"

lemma onward_first:
  assumes "(step numeric)\<^sup>*\<^sup>* c d" and "c = (a, ps, ev)" and "onward numeric c0 ([a, b], ps, ev)"
  shows "\<exists>a' ps' ev'. d = (a', ps', ev') \<and> onward numeric c0 ([a', b], ps', ev')"
  using assms
proof (induction rule: rtranclp_induct)
  case (step d e)
  then obtain a' ps' ev' where d: "d = (a', ps', ev')" "onward numeric c0 ([a', b], ps', ev')"
    by blast
  obtain a2 ps2 ev2 where e: "e = (a2, ps2, ev2)" by (cases e)
  have "pool_step numeric ([a', b], ps', ev') ([a', b][0 := a2], ps2, ev2)"
    using step.hyps(2) d(1) e by (intro proceed) auto
  with d(2) e show ?case by (auto intro: reach_step)
qed auto

lemma onward_second:
  assumes "step numeric (b, ps, ev) (b', ps', ev')" and "onward numeric c0 ([a, b], ps, ev)"
  shows "onward numeric c0 ([a, b'], ps', ev')"
proof -
  have "pool_step numeric ([a, b], ps, ev) ([a, b][1 := b'], ps', ev')"
    using assms(1) by (intro proceed) auto
  with assms(2) show ?thesis by (auto intro: reach_step)
qed

definition dispute_request :: request where
  "dispute_request =
     \<lparr>r_method = PATCH, r_path = [js ''api'', js ''parcels'', js ''p1''], r_query = Undefined,
      r_body = Body (Obj [(js ''status'', Str (js ''disputed''))])\<rparr>"

lemma app_dispute_request:
  "app ref_env dispute_request =
     update_parcel ref_env (OneParam (js ''p1'')) (Obj [(js ''status'', Str (js ''disputed''))])"
  by (simp add: app_def dispute_request_def router_def health_router_def dashboard_router_def
      parcels_router_def evidence_router_def segment_def ascii_lower_def js_def)

lemma dispute_body:
  "\<exists>u k. app ref_env dispute_request = AwaitCount (CountEvidenceOf (js ''p1'') verified) k \<and>
     k (Some 1) = write_parcel ref_env (js ''p1'') u \<and>
     u_status u = Some (js ''disputed'') \<and> u_trustScore u = Some 12"
  by (simp add: app_dispute_request update_parcel_def provided_updates_def no_parcel_updates_def
      ref_update_body_def str_field_def num_field_def null_str_field_def null_num_field_def
      enum_field_def parcel_statuses_def computeTrustScore_def Let_def)
    (rule exI, rule conjI, rule refl, simp)

lemma exec_verify:
  "\<exists>v ps' ev' p. exec (\<lambda>s. s) (app ref_env verify_request, table_parcels demo_tables, table_evidence demo_tables)
     (Done (Json 200 v)) ps' ev' \<and> ps' (js ''p1'') = Some p \<and>
     evidence_of ev' (js ''p1'') verified = {js ''e1'', js ''e2''}"
proof -
  obtain v t where r: "run ref_db (app ref_env verify_request) demo_tables = (Done (Json 200 v), t)"
    and rows: "\<exists>p. t_parcels t = [p] \<and> p_id p = js ''p1''"
      "\<exists>e. t_evidence t = [demo_evidence ''e1'' ''verified'', e] \<and> e_id e = js ''e2'' \<and>
        e_parcelId e = js ''p1'' \<and> e_status e = verified"
    by (simp add: app_verify_request update_evidence_def demo_run verified_def)
  from rows obtain p e where "t_parcels t = [p]" "p_id p = js ''p1''"
    "t_evidence t = [demo_evidence ''e1'' ''verified'', e]" "e_id e = js ''e2''"
    "e_parcelId e = js ''p1''" "e_status e = verified" by blast
  then have "table_parcels t (js ''p1'') = Some p"
    "evidence_of (table_evidence t) (js ''p1'') verified = {js ''e1'', js ''e2''}"
    by (auto simp: table_parcels_def table_evidence_def row_at_def evidence_of_def verified_def)
  with registry_db.exec_run [OF tables.registry_db_axioms demo_tables_wf r] show ?thesis by blast
qed

text \<open>C4: Two overlapping PATCH requests can leave a stale score.  Nothing but these two requests runs, from
  tables whose scores all agree: the one that disputes the parcel counts its verified documents, the one that
  verifies another document completes with its recalculation, and then the first writes the score of its
  old count.  Both have answered 200, and the score does not agree with the tables.\<close>

theorem interleaving_leaves_stale_score:
  "\<exists>ps0 ev0 v1 v2 ps ev. trust_consistent ps0 ev0 \<and> referential ps0 ev0 \<and> statuses_checked (schemas ref_env) \<and>
     onward (\<lambda>s. s) ([app ref_env verify_request, app ref_env dispute_request], ps0, ev0)
       ([Return (Json 200 v1), Return (Json 200 v2)], ps, ev) \<and> \<not> trust_consistent ps ev"
proof -
  let ?P = "table_parcels demo_tables" and ?E = "table_evidence demo_tables"
  let ?reach = "onward (\<lambda>s. s) ([app ref_env verify_request, app ref_env dispute_request], ?P, ?E)"
  obtain u k where k: "app ref_env dispute_request = AwaitCount (CountEvidenceOf (js ''p1'') verified) k"
      "k (Some 1) = write_parcel ref_env (js ''p1'') u"
    and u: "u_status u = Some (js ''disputed'')" "u_trustScore u = Some 12"
    using dispute_body by blast
  obtain v1 ps' ev' p where x: "exec (\<lambda>s. s) (app ref_env verify_request, ?P, ?E) (Done (Json 200 v1)) ps' ev'"
    and p: "ps' (js ''p1'') = Some p"
    and ev': "evidence_of ev' (js ''p1'') verified = {js ''e1'', js ''e2''}"
    using exec_verify by blast
  have start: "?reach ([app ref_env verify_request, app ref_env dispute_request], ?P, ?E)"
    by (rule reach_start) (rule refl)
  have "step (\<lambda>s. s) (app ref_env dispute_request, ?P, ?E) (write_parcel ref_env (js ''p1'') u, ?P, ?E)"
    unfolding k(1) k(2) [symmetric] by (rule count_evidence_of) (simp add: demo_evidence_of)
  from onward_second [OF this start]
  have "?reach ([app ref_env verify_request, write_parcel ref_env (js ''p1'') u], ?P, ?E)" .
  from onward_first [OF exec_steps [OF x] refl this]
  have "?reach ([Return (Json 200 v1), write_parcel ref_env (js ''p1'') u], ps', ev')" by simp
  moreover let ?q = "updated_parcel (\<lambda>s. s) 8 u p"
  have "step (\<lambda>s. s) (write_parcel ref_env (js ''p1'') u, ps', ev')
      (Return (Json 200 (parcel_shape ref_env ?q)), ps'(js ''p1'' \<mapsto> ?q), ev')"
    using p by (auto simp: write_parcel_def step_parcels_simps send_parsed_def)
  ultimately have "?reach ([Return (Json 200 v1), Return (Json 200 (parcel_shape ref_env ?q))],
      ps'(js ''p1'' \<mapsto> ?q), ev')"
    by (rule onward_second [rotated])
  moreover have "\<not> trust_consistent (ps'(js ''p1'' \<mapsto> ?q)) ev'"
    using u ev' by (auto simp: trust_consistent_def score_of_def computeTrustScore_def Let_def)
  moreover have "referential ?P ?E"
    by (rule registry_db.references_resolve [OF tables.registry_db_axioms demo_tables_wf])
  moreover have "statuses_checked (schemas ref_env)" by simp
  ultimately show ?thesis using demo_consistent by blast
qed

end
