(* ===== verification/Custom_Fetch.thy ===== *)
theory Custom_Fetch
  imports Prelude
begin

text \<open>
  \<open>lib/api-client-react/src/custom-fetch.ts\<close>: the request function that every generated client
  call goes through.  The web platform (\<open>fetch\<close>, parsing of URLs, which of its classes exist),
  \<open>JSON.parse\<close> and the Unicode case table are fields of the record \<open>runtime\<close>; \<open>Headers\<close> is modelled as
  the map from lower-case names to values that its standard describes, for valid header names.
\<close>

section \<open>Headers\<close>

type_synonym headers = "jsstr \<rightharpoonup> jsstr"

definition lower_ascii :: "jschar \<Rightarrow> jschar" where
  "lower_ascii c = (if 65 \<le> c \<and> c \<le> 90 then c + 32 else c)"

text \<open>\<open>toLowerCase\<close> on a header value: header values are byte strings, Latin-1 code units.\<close>

definition lower_latin1 :: "jschar \<Rightarrow> jschar" where
  "lower_latin1 c =
     (if 65 \<le> c \<and> c \<le> 90 \<or> 192 \<le> c \<and> c \<le> 222 \<and> c \<noteq> 215 then c + 32 else c)"

definition http_white :: "jschar \<Rightarrow> bool" where
  "http_white c \<longleftrightarrow> c = 9 \<or> c = 10 \<or> c = 13 \<or> c = 32"

definition header_name :: "jsstr \<Rightarrow> jsstr" where
  "header_name s = map lower_ascii s"

definition header_value :: "jsstr \<Rightarrow> jsstr" where
  "header_value s = rev (dropWhile http_white (rev (dropWhile http_white s)))"

definition append_header :: "headers \<Rightarrow> jsstr \<times> jsstr \<Rightarrow> headers" where
  "append_header h kv =
     (let k = header_name (fst kv); v = header_value (snd kv) in
      case h k of None \<Rightarrow> h(k \<mapsto> v) | Some old \<Rightarrow> h(k \<mapsto> old @ js '', '' @ v))"

text \<open>A \<open>HeadersInit\<close>: a \<open>Headers\<close> object, a plain object or an array of pairs.\<close>

datatype headers_init =
    HeadersObject headers
  | HeaderPairs "(jsstr \<times> jsstr) list"
  | HeaderArray "(jsstr \<times> jsstr) list"

fun new_headers :: "headers_init \<Rightarrow> headers" where
  "new_headers (HeadersObject h) = h"
| "new_headers (HeaderPairs kvs) = foldl append_header Map.empty kvs"
| "new_headers (HeaderArray kvs) = foldl append_header Map.empty kvs"

definition mergeHeaders :: "headers_init option list \<Rightarrow> headers" where
  "mergeHeaders sources =
     foldl (\<lambda>h source. case source of None \<Rightarrow> h | Some s \<Rightarrow> h ++ new_headers s) Map.empty sources"

definition has_header :: "headers \<Rightarrow> string \<Rightarrow> bool" where
  "has_header h k \<longleftrightarrow> h (js k) \<noteq> None"

section \<open>Requests, responses and the runtime\<close>

record request_object =
  rq_url :: jsstr
  rq_method :: jsstr
  rq_headers :: headers

text \<open>The input of a fetch; a \<open>URL\<close> object is its serialization.\<close>

datatype fetch_input = TextInput jsstr | UrlInput jsstr | RequestInput request_object

datatype response_type = JsonType | TextType | BlobType | AutoType

text \<open>A body that is sent: a text, or a file or other blob with its type and size.\<close>

datatype init_body = TextBody jsstr | BlobBody jsstr nat

text \<open>\<open>CustomFetchOptions\<close>; \<open>o_rest\<close> holds the members that are passed on untouched.\<close>

record fetch_options =
  o_method :: "jsstr option"
  o_headers :: "headers_init option"
  o_body :: "init_body option"
  o_responseType :: "response_type option"
  o_rest :: "(jsstr \<times> jsval) list"

record fetch_call =
  call_input :: fetch_input
  call_method :: jsstr
  call_headers :: headers
  call_body :: "init_body option"
  call_rest :: "(jsstr \<times> jsval) list"

text \<open>
  \<open>rs_stream\<close> is the \<open>body\<close> property; \<open>rs_text\<close> is what reading the body as text gives, \<open>None\<close>
  when reading fails; \<open>rs_blob\<close> tells whether \<open>blob\<close> is a function.
\<close>

datatype body_stream = NullStream | UndefinedStream | SomeStream

record response =
  rs_status :: nat
  rs_statusText :: jsstr
  rs_headers :: headers
  rs_stream :: body_stream
  rs_text :: "jsstr option"
  rs_blob :: bool
  rs_url :: jsstr

record runtime =
  has_Request :: bool
  has_URL :: bool
  to_upper :: "jsstr \<Rightarrow> jsstr"
  parse_url :: "jsstr \<Rightarrow> jsstr option"
  json_parse :: "jsstr \<Rightarrow> jsval option"
  fetch :: "fetch_call \<Rightarrow> response option"

datatype payload = Value jsval | BlobPayload

record api_error =
  ae_message :: jsstr
  ae_status :: nat
  ae_statusText :: jsstr
  ae_data :: payload
  ae_headers :: headers
  ae_method :: jsstr
  ae_url :: jsstr

record parse_error =
  pe_message :: jsstr
  pe_status :: nat
  pe_statusText :: jsstr
  pe_headers :: headers
  pe_method :: jsstr
  pe_url :: jsstr
  pe_rawBody :: jsstr

datatype fetch_error =
    TypeErrorOf jsstr
  | FetchRejected
  | TokenRejected
  | BodyUnreadable
  | ApiErrorOf api_error
  | ResponseParseErrorOf parse_error

section \<open>Module configuration\<close>

text \<open>A token getter returns a token or null, or throws.\<close>

datatype token_getter = GivesToken "jsstr option" | ThrowsToken

record fetch_config =
  base_url :: "jsstr option"
  auth_getter :: "token_getter option"

definition strip_slashes :: "jsstr \<Rightarrow> jsstr" where
  "strip_slashes s = rev (dropWhile (\<lambda>c. c = 47) (rev s))"

definition setBaseUrl :: "jsstr option \<Rightarrow> fetch_config \<Rightarrow> fetch_config" where
  "setBaseUrl url cfg =
     cfg\<lparr>base_url := (case url of None \<Rightarrow> None
                     | Some u \<Rightarrow> if u = [] then None else Some (strip_slashes u))\<rparr>"

definition setAuthTokenGetter :: "token_getter option \<Rightarrow> fetch_config \<Rightarrow> fetch_config" where
  "setAuthTokenGetter getter cfg = cfg\<lparr>auth_getter := getter\<rparr>"

section \<open>Inputs\<close>

definition isRequest :: "runtime \<Rightarrow> fetch_input \<Rightarrow> bool" where
  "isRequest rt input \<longleftrightarrow>
     has_Request rt \<and> (case input of RequestInput _ \<Rightarrow> True | _ \<Rightarrow> False)"

definition isUrl :: "runtime \<Rightarrow> fetch_input \<Rightarrow> bool" where
  "isUrl rt input \<longleftrightarrow> has_URL rt \<and> (case input of UrlInput _ \<Rightarrow> True | _ \<Rightarrow> False)"

definition resolveMethod :: "runtime \<Rightarrow> fetch_input \<Rightarrow> jsstr option \<Rightarrow> jsstr" where
  "resolveMethod rt input explicitMethod =
     (if or_else explicitMethod [] \<noteq> [] then to_upper rt (or_else explicitMethod [])
      else case input of
        RequestInput r \<Rightarrow> if isRequest rt input then to_upper rt (rq_method r) else js ''GET''
      | _ \<Rightarrow> js ''GET'')"

text \<open>
  An object that is neither a string nor recognised as a \<open>URL\<close> is read as a request; a \<open>URL\<close>
  object has no \<open>url\<close> property, so where the class \<open>URL\<close> is missing this is \<open>None\<close>.
\<close>

definition resolveUrl :: "runtime \<Rightarrow> fetch_input \<Rightarrow> jsstr option" where
  "resolveUrl rt input =
     (case input of
        TextInput s \<Rightarrow> Some s
      | UrlInput s \<Rightarrow> if isUrl rt input then Some s else None
      | RequestInput r \<Rightarrow> Some (rq_url r))"

definition not_an_url :: fetch_error where
  "not_an_url = TypeErrorOf (js ''Invalid URL'')"

definition applyBaseUrl :: "runtime \<Rightarrow> fetch_config \<Rightarrow> fetch_input \<Rightarrow> fetch_error + fetch_input" where
  "applyBaseUrl rt cfg input =
     (let base = or_else (base_url cfg) [] in
      if base = [] then Inr input
      else case resolveUrl rt input of
        None \<Rightarrow> Inl (TypeErrorOf (js ''url is undefined''))
      | Some url \<Rightarrow>
          if \<not> startsWith url (js ''/'') then Inr input
          else let absolute = base @ url in
            (case input of
               TextInput _ \<Rightarrow> Inr (TextInput absolute)
             | UrlInput _ \<Rightarrow>
                 (case parse_url rt absolute of None \<Rightarrow> Inl not_an_url | Some u \<Rightarrow> Inr (UrlInput u))
             | RequestInput r \<Rightarrow>
                 if \<not> has_Request rt then Inl (TypeErrorOf (js ''Request is not defined''))
                 else (case parse_url rt absolute of None \<Rightarrow> Inl not_an_url
                  | Some u \<Rightarrow> Inr (RequestInput (r\<lparr>rq_url := u\<rparr>)))))"

section \<open>Bodies\<close>

definition getMediaType :: "headers \<Rightarrow> jsstr option" where
  "getMediaType h =
     (case h (js ''content-type'') of
        None \<Rightarrow> None
      | Some value \<Rightarrow> if value = [] then None else Some (map lower_latin1 (trim (before_sep 59 value))))"

definition isJsonMediaType :: "jsstr option \<Rightarrow> bool" where
  "isJsonMediaType mediaType \<longleftrightarrow>
     mediaType = Some (js ''application/json'') \<or>
     (case mediaType of None \<Rightarrow> False | Some m \<Rightarrow> endsWith m (js ''+json''))"

definition isTextMediaType :: "jsstr option \<Rightarrow> bool" where
  "isTextMediaType mediaType \<longleftrightarrow>
     (case mediaType of None \<Rightarrow> False
      | Some m \<Rightarrow> m \<noteq> [] \<and>
          (startsWith m (js ''text/'') \<or> m = js ''application/xml'' \<or> m = js ''text/xml'' \<or>
           endsWith m (js ''+xml'') \<or> m = js ''application/x-www-form-urlencoded''))"

definition NO_BODY_STATUS :: "nat set" where
  "NO_BODY_STATUS = {204, 205, 304}"

definition hasNoBody :: "response \<Rightarrow> jsstr \<Rightarrow> bool" where
  "hasNoBody rs meth \<longleftrightarrow>
     meth = js ''HEAD'' \<or> rs_status rs \<in> NO_BODY_STATUS \<or>
     rs_headers rs (js ''content-length'') = Some (js ''0'') \<or> rs_stream rs = NullStream"

definition stripBom :: "jsstr \<Rightarrow> jsstr" where
  "stripBom s = (case s of c # cs \<Rightarrow> if c = byte_order_mark then cs else s | [] \<Rightarrow> [])"

definition looksLikeJson :: "jsstr \<Rightarrow> bool" where
  "looksLikeJson s =
     (let trimmed = trimStart s in startsWith trimmed (js ''{'') \<or> startsWith trimmed (js ''[''))"

definition getStringField :: "payload \<Rightarrow> string \<Rightarrow> jsstr option" where
  "getStringField value key =
     (case value of
        Value v \<Rightarrow>
          (case field v (js key) of
             Str candidate \<Rightarrow> if trim candidate = [] then None else Some (trim candidate)
           | _ \<Rightarrow> None)
      | BlobPayload \<Rightarrow> None)"

definition ellipsis :: jschar where "ellipsis = 0x2026"
definition em_dash :: jschar where "em_dash = 0x2014"

definition truncate :: "jsstr \<Rightarrow> nat \<Rightarrow> jsstr" where
  "truncate s maxLength =
     (if length s > maxLength then take (maxLength - 1) s @ [ellipsis] else s)"

text \<open>\<open>a ?? b\<close> on optional strings.\<close>

definition first_given :: "'a option \<Rightarrow> 'a option \<Rightarrow> 'a option" where
  "first_given a b = (case a of Some x \<Rightarrow> Some x | None \<Rightarrow> b)"

definition status_line :: "response \<Rightarrow> jsstr" where
  "status_line rs = js ''HTTP '' @ show_int (int (rs_status rs)) @ js '' '' @ rs_statusText rs"

definition buildErrorMessage :: "response \<Rightarrow> payload \<Rightarrow> jsstr" where
  "buildErrorMessage rs data =
     (let prefix = status_line rs in
      case data of
        Value (Str s) \<Rightarrow>
          let text = trim s in if text \<noteq> [] then prefix @ js '': '' @ truncate text 300 else prefix
      | _ \<Rightarrow>
          let title = getStringField data ''title'';
              detail = getStringField data ''detail'';
              message = first_given (getStringField data ''message'')
                (first_given (getStringField data ''error_description'') (getStringField data ''error''))
          in case (title, detail, message) of
               (Some t, Some d, _) \<Rightarrow> prefix @ js '': '' @ t @ js '' '' @ [em_dash] @ js '' '' @ d
             | (_, Some d, _) \<Rightarrow> prefix @ js '': '' @ d
             | (_, _, Some m) \<Rightarrow> prefix @ js '': '' @ m
             | (Some t, _, _) \<Rightarrow> prefix @ js '': '' @ t
             | _ \<Rightarrow> prefix)"

section \<open>Errors\<close>

definition either_url :: "response \<Rightarrow> jsstr \<Rightarrow> jsstr" where
  "either_url rs url = (if rs_url rs \<noteq> [] then rs_url rs else url)"

definition new_ApiError :: "response \<Rightarrow> payload \<Rightarrow> jsstr \<Rightarrow> jsstr \<Rightarrow> fetch_error" where
  "new_ApiError rs data meth url = ApiErrorOf
     \<lparr>ae_message = buildErrorMessage rs data, ae_status = rs_status rs,
      ae_statusText = rs_statusText rs, ae_data = data, ae_headers = rs_headers rs,
      ae_method = meth, ae_url = either_url rs url\<rparr>"

definition new_ResponseParseError :: "response \<Rightarrow> jsstr \<Rightarrow> jsstr \<Rightarrow> jsstr \<Rightarrow> fetch_error" where
  "new_ResponseParseError rs rawBody meth url = ResponseParseErrorOf
     \<lparr>pe_message = js ''Failed to parse response from '' @ meth @ js '' '' @ either_url rs url @
        js '' ('' @ show_int (int (rs_status rs)) @ js '' '' @ rs_statusText rs @ js '') as JSON'',
      pe_status = rs_status rs, pe_statusText = rs_statusText rs, pe_headers = rs_headers rs,
      pe_method = meth, pe_url = either_url rs url, pe_rawBody = rawBody\<rparr>"

section \<open>Parsing a response\<close>

definition parseJsonBody :: "runtime \<Rightarrow> response \<Rightarrow> jsstr \<Rightarrow> jsstr \<Rightarrow> fetch_error + payload" where
  "parseJsonBody rt rs meth url =
     (case rs_text rs of
        None \<Rightarrow> Inl BodyUnreadable
      | Some raw \<Rightarrow>
          let normalized = stripBom raw in
          if trim normalized = [] then Inr (Value Null)
          else case json_parse rt normalized of
            None \<Rightarrow> Inl (new_ResponseParseError rs raw meth url)
          | Some v \<Rightarrow> Inr (Value v))"

text \<open>Reading the body as text, or as a blob where there is no \<open>blob\<close> function.\<close>

definition read_text :: "response \<Rightarrow> fetch_error + payload" where
  "read_text rs = (case rs_text rs of None \<Rightarrow> Inl BodyUnreadable | Some s \<Rightarrow> Inr (Value (Str s)))"

definition parseErrorBody :: "runtime \<Rightarrow> response \<Rightarrow> jsstr \<Rightarrow> fetch_error + payload" where
  "parseErrorBody rt rs meth =
     (if hasNoBody rs meth then Inr (Value Null)
      else let mediaType = getMediaType (rs_headers rs) in
        if or_else mediaType [] \<noteq> [] \<and> \<not> isJsonMediaType mediaType \<and> \<not> isTextMediaType mediaType
        then (if rs_blob rs then Inr BlobPayload else read_text rs)
        else case rs_text rs of
          None \<Rightarrow> Inl BodyUnreadable
        | Some raw \<Rightarrow>
            let normalized = stripBom raw in
            if trim normalized = [] then Inr (Value Null)
            else if isJsonMediaType mediaType \<or> looksLikeJson normalized then
              (case json_parse rt normalized of
                 Some v \<Rightarrow> Inr (Value v) | None \<Rightarrow> Inr (Value (Str raw)))
            else Inr (Value (Str raw)))"

definition inferResponseType :: "response \<Rightarrow> response_type" where
  "inferResponseType rs =
     (let mediaType = getMediaType (rs_headers rs) in
      if isJsonMediaType mediaType then JsonType
      else if isTextMediaType mediaType \<or> mediaType = None then TextType
      else BlobType)"

definition parseSuccessBody ::
    "runtime \<Rightarrow> response \<Rightarrow> response_type \<Rightarrow> jsstr \<Rightarrow> jsstr \<Rightarrow> fetch_error + payload" where
  "parseSuccessBody rt rs responseType meth url =
     (if hasNoBody rs meth then Inr (Value Null)
      else case (if responseType = AutoType then inferResponseType rs else responseType) of
        JsonType \<Rightarrow> parseJsonBody rt rs meth url
      | TextType \<Rightarrow>
          (case rs_text rs of None \<Rightarrow> Inl BodyUnreadable
           | Some text \<Rightarrow> Inr (Value (if text = [] then Null else Str text)))
      | BlobType \<Rightarrow>
          if rs_blob rs then Inr BlobPayload
          else Inl (TypeErrorOf (js ''Blob responses are not supported in this runtime. Use responseType \"json\" or \"text\" instead.''))
      | AutoType \<Rightarrow> Inr (Value Undefined))"

section \<open>The request function\<close>

definition DEFAULT_JSON_ACCEPT :: jsstr where
  "DEFAULT_JSON_ACCEPT = js ''application/json, application/problem+json''"

definition response_ok :: "response \<Rightarrow> bool" where
  "response_ok rs \<longleftrightarrow> 200 \<le> rs_status rs \<and> rs_status rs \<le> 299"

text \<open>The headers of the request before the token is attached.\<close>

definition request_headers :: "runtime \<Rightarrow> fetch_input \<Rightarrow> fetch_options \<Rightarrow> headers" where
  "request_headers rt input options =
     (let h = mergeHeaders
            [case input of RequestInput r \<Rightarrow>
                 if isRequest rt input then Some (HeadersObject (rq_headers r)) else None
               | _ \<Rightarrow> None,
             o_headers options];
          h = (case o_body options of
                 Some (TextBody s) \<Rightarrow>
                   if \<not> has_header h ''content-type'' \<and> looksLikeJson s
                   then h(js ''content-type'' \<mapsto> js ''application/json'') else h
               | _ \<Rightarrow> h)
      in if or_else (o_responseType options) AutoType = JsonType \<and> \<not> has_header h ''accept''
         then h(js ''accept'' \<mapsto> DEFAULT_JSON_ACCEPT) else h)"

definition attach_token :: "fetch_config \<Rightarrow> headers \<Rightarrow> fetch_error + headers" where
  "attach_token cfg h =
     (case auth_getter cfg of
        None \<Rightarrow> Inr h
      | Some getter \<Rightarrow>
          if has_header h ''authorization'' then Inr h
          else case getter of
            ThrowsToken \<Rightarrow> Inl TokenRejected
          | GivesToken token \<Rightarrow>
              if or_else token [] = [] then Inr h
              else Inr (h(js ''authorization'' \<mapsto> header_value (js ''Bearer '' @ or_else token []))))"

text \<open>The end of the function, for a response that has arrived.\<close>

definition settle ::
    "runtime \<Rightarrow> response_type \<Rightarrow> jsstr \<Rightarrow> jsstr \<Rightarrow> response \<Rightarrow> fetch_error + payload" where
  "settle rt responseType meth url rs =
     (if \<not> response_ok rs then
        (case parseErrorBody rt rs meth of
           Inl e \<Rightarrow> Inl e
         | Inr errorData \<Rightarrow> Inl (new_ApiError rs errorData meth url))
      else parseSuccessBody rt rs responseType meth url)"

text \<open>The call made, if any, and the outcome.\<close>

definition customFetch ::
    "runtime \<Rightarrow> fetch_config \<Rightarrow> fetch_input \<Rightarrow> fetch_options \<Rightarrow>
     fetch_call option \<times> (fetch_error + payload)" where
  "customFetch rt cfg input0 options =
     (case applyBaseUrl rt cfg input0 of
        Inl e \<Rightarrow> (None, Inl e)
      | Inr input \<Rightarrow>
          let responseType = or_else (o_responseType options) AutoType;
              meth = resolveMethod rt input (o_method options)
          in if o_body options \<noteq> None \<and> (meth = js ''GET'' \<or> meth = js ''HEAD'') then
               (None, Inl (TypeErrorOf (js ''customFetch: '' @ meth @ js '' requests cannot have a body.'')))
             else case attach_token cfg (request_headers rt input options) of
               Inl e \<Rightarrow> (None, Inl e)
             | Inr headers \<Rightarrow>
                 let url = or_else (resolveUrl rt input) (js ''undefined'');
                     call = \<lparr>call_input = input, call_method = meth, call_headers = headers,
                             call_body = o_body options, call_rest = o_rest options\<rparr>
                 in (Some call,
                     case fetch rt call of
                       None \<Rightarrow> Inl FetchRejected
                     | Some rs \<Rightarrow> settle rt responseType meth url rs))"

end
