(* ===== verification/Json_Text.thy ===== *)
theory Json_Text
  imports Prelude
begin

text \<open>
  \<open>JSON.stringify\<close> on strings, as ECMA-262 defines it (\<open>QuoteJSONString\<close>), and the reader of
  quoted strings that shows it is unambiguous: what follows a quoted string cannot be mistaken
  for a part of it.
\<close>

definition hex_digit :: "nat \<Rightarrow> jschar" where
  "hex_digit n = (if n < 10 then word_of_nat (48 + n) else word_of_nat (87 + n))"

definition hex4 :: "jschar \<Rightarrow> jsstr" where
  "hex4 c = (let n = unat c in
     [hex_digit (n div 4096), hex_digit (n div 256 mod 16), hex_digit (n div 16 mod 16), hex_digit (n mod 16)])"

definition unicode_escape :: "jschar \<Rightarrow> jsstr" where
  "unicode_escape c = 92 # 117 # hex4 c"

definition high_surrogate :: "jschar \<Rightarrow> bool" where
  "high_surrogate c \<longleftrightarrow> 0xD800 \<le> c \<and> c \<le> 0xDBFF"

definition low_surrogate :: "jschar \<Rightarrow> bool" where
  "low_surrogate c \<longleftrightarrow> 0xDC00 \<le> c \<and> c \<le> 0xDFFF"

text \<open>The escapes with a letter of their own.\<close>

definition short_escapes :: "(jschar \<times> jschar) list" where
  "short_escapes = [(8, 98), (9, 116), (10, 110), (12, 102), (13, 114), (34, 34), (92, 92)]"

fun json_escape :: "jsstr \<Rightarrow> jsstr" where
  "json_escape [] = []"
| "json_escape (c # cs) =
     (case map_of short_escapes c of
        Some e \<Rightarrow> 92 # e # json_escape cs
      | None \<Rightarrow>
          if c < 32 then unicode_escape c @ json_escape cs
          else if high_surrogate c then
            (case cs of
               d # ds \<Rightarrow>
                 if low_surrogate d then c # d # json_escape ds
                 else unicode_escape c @ json_escape cs
             | [] \<Rightarrow> unicode_escape c)
          else if low_surrogate c then unicode_escape c @ json_escape cs
          else c # json_escape cs)"

definition json_quote :: "jsstr \<Rightarrow> jsstr" where
  "json_quote s = 34 # json_escape s @ [34]"

section \<open>Reading a quoted string back\<close>

definition hex_value :: "jschar \<Rightarrow> nat" where
  "hex_value c = (if c < 58 then unat c - 48 else if c < 71 then unat c - 55 else unat c - 87)"

definition is_hex :: "jschar \<Rightarrow> bool" where
  "is_hex c \<longleftrightarrow> 48 \<le> c \<and> c \<le> 57 \<or> 65 \<le> c \<and> c \<le> 70 \<or> 97 \<le> c \<and> c \<le> 102"

definition read_hex4 :: "jschar \<Rightarrow> jschar \<Rightarrow> jschar \<Rightarrow> jschar \<Rightarrow> jschar" where
  "read_hex4 h1 h2 h3 h4 = word_of_nat
     (((hex_value h1 * 16 + hex_value h2) * 16 + hex_value h3) * 16 + hex_value h4)"

text \<open>A reader accepts the escape of a solidus too, and no control character.\<close>

fun read_escaped :: "jsstr \<Rightarrow> (jsstr \<times> jsstr) option" where
  "read_escaped [] = None"
| "read_escaped (c # cs) =
     (if c = 34 then Some ([], cs)
      else if c < 32 then None
      else if c = 92 then
        (case cs of
           [] \<Rightarrow> None
         | e # ds \<Rightarrow>
             if e = 117 then
               (case ds of
                  h1 # h2 # h3 # h4 # rest \<Rightarrow>
                    if list_all is_hex [h1, h2, h3, h4] then
                      (case read_escaped rest of
                         None \<Rightarrow> None
                       | Some (s, t) \<Rightarrow> Some (read_hex4 h1 h2 h3 h4 # s, t))
                    else None
                | _ \<Rightarrow> None)
             else
               (case map_of ((47, 47) # map (\<lambda>(a, b). (b, a)) short_escapes) e of
                  None \<Rightarrow> None
                | Some a \<Rightarrow> (case read_escaped ds of None \<Rightarrow> None | Some (s, t) \<Rightarrow> Some (a # s, t))))
      else (case read_escaped cs of None \<Rightarrow> None | Some (s, t) \<Rightarrow> Some (c # s, t)))"

lemma hex_value_digit: "n < 16 \<Longrightarrow> hex_value (hex_digit n) = n"
proof -
  assume n: "n < 16"
  have "unat (word_of_nat (48 + n) :: jschar) = 48 + n" "unat (word_of_nat (87 + n) :: jschar) = 87 + n"
    using n by (simp_all add: unat_of_nat del: of_nat_add)
  then show ?thesis
    by (auto simp: hex_value_def hex_digit_def word_less_nat_alt)
qed

lemma is_hex_digit: "n < 16 \<Longrightarrow> is_hex (hex_digit n)"
  by (simp add: is_hex_def hex_digit_def word_le_nat_alt unat_of_nat del: of_nat_add)

lemma is_hex4: "list_all is_hex (hex4 c)"
proof -
  have "unat c < 65536" using unsigned_less [of c] by simp
  then have "unat c div 4096 < 16" by (simp add: less_mult_imp_div_less)
  then show ?thesis by (simp add: hex4_def Let_def is_hex_digit)
qed

lemma hex4_value:
  assumes "n < 65536"
  shows "((hex_value (hex_digit (n div 4096)) * 16 + hex_value (hex_digit (n div 256 mod 16))) * 16 +
     hex_value (hex_digit (n div 16 mod 16))) * 16 + hex_value (hex_digit (n mod 16)) = n"
proof -
  have "n div 4096 < 16" using assms by (simp add: less_mult_imp_div_less)
  then have d: "hex_value (hex_digit (n div 4096)) = n div 256 div 16"
    by (simp add: hex_value_digit flip: div_mult2_eq)
  have m: "hex_value (hex_digit (k mod 16)) = k mod 16" for k
    by (simp add: hex_value_digit)
  have "n div 256 div 16 * 16 + n div 256 mod 16 = n div 256" by simp
  moreover have "n div 256 * 16 + n div 16 mod 16 = n div 16"
    using div_mult_mod_eq [of "n div 16" 16] by (simp add: div_mult2_eq [symmetric])
  moreover have "n div 16 * 16 + n mod 16 = n" by simp
  ultimately show ?thesis by (simp only: d m)
qed

lemma read_unicode_escape:
  "read_escaped (unicode_escape c @ rest) =
     (case read_escaped rest of None \<Rightarrow> None | Some (s, t) \<Rightarrow> Some (c # s, t))"
proof -
  have "unat c < 65536" using unsigned_less [of c] by simp
  from hex4_value [OF this]
  have "read_hex4 (hex_digit (unat c div 4096)) (hex_digit (unat c div 256 mod 16))
      (hex_digit (unat c div 16 mod 16)) (hex_digit (unat c mod 16)) = c"
    unfolding read_hex4_def by simp
  then obtain h1 h2 h3 h4 where "hex4 c = [h1, h2, h3, h4]" "read_hex4 h1 h2 h3 h4 = c"
    by (simp add: hex4_def Let_def)
  moreover from this is_hex4 [of c] have "list_all is_hex [h1, h2, h3, h4]" by simp
  ultimately show ?thesis
    by (simp add: unicode_escape_def split: option.split prod.split)
qed

text \<open>A character that is not escaped is read as itself.\<close>

lemma read_plain:
  "map_of short_escapes c = None \<Longrightarrow> \<not> c < 32 \<Longrightarrow>
   read_escaped (c # rest) = (case read_escaped rest of None \<Rightarrow> None | Some (s, t) \<Rightarrow> Some (c # s, t))"
  by (auto simp: short_escapes_def split: if_splits)

lemma surrogate_plain: "low_surrogate d \<Longrightarrow> map_of short_escapes d = None" "low_surrogate d \<Longrightarrow> \<not> d < 32"
  by (auto simp: short_escapes_def low_surrogate_def word_less_nat_alt word_le_nat_alt)

lemma read_short:
  "map_of short_escapes c = Some e \<Longrightarrow>
   read_escaped (92 # e # rest) = (case read_escaped rest of None \<Rightarrow> None | Some (s, t) \<Rightarrow> Some (c # s, t))"
  by (auto simp: short_escapes_def split: if_splits)

lemma read_end: "read_escaped (34 # rest) = Some ([], rest)"
  by simp

lemma read_json_escape: "read_escaped (json_escape s @ 34 # rest) = Some (s, rest)"
proof (induction s rule: json_escape.induct)
  case 1
  then show ?case by simp
next
  case (2 c cs)
  show ?case
  proof (cases "map_of short_escapes c")
    case (Some e)
    then show ?thesis using 2 read_short [OF Some] by (simp add: Some del: read_escaped.simps)
  next
    case None
    note plain = read_plain [OF None]
    show ?thesis
    proof (cases "c < 32 \<or> \<not> high_surrogate c")
      case True
      then show ?thesis
        using None 2 by (auto simp: read_unicode_escape plain simp del: read_escaped.simps)
    next
      case False
      then show ?thesis
        using None 2 by (cases cs)
          (auto simp: read_unicode_escape plain read_end read_plain surrogate_plain simp del: read_escaped.simps(2))
    qed
  qed
qed

lemma json_quote_cancel [simp]: "json_quote a @ x = json_quote b @ y \<longleftrightarrow> a = b \<and> x = y"
proof
  assume "json_quote a @ x = json_quote b @ y"
  then have "json_escape a @ 34 # x = json_escape b @ 34 # y" by (simp add: json_quote_def)
  then show "a = b \<and> x = y"
    using read_json_escape [of a x] read_json_escape [of b y]
    by (metis option.inject prod.inject)
qed simp

section \<open>Values\<close>

text \<open>
  \<open>JSON.stringify\<close> without a replacer or indentation; \<open>None\<close> is \<open>undefined\<close>.  How a number and a
  date are written is the argument.
\<close>

record json_format =
  number_text :: "rat \<Rightarrow> jsstr"
  date_text :: "int \<Rightarrow> jsstr"

fun comma_join :: "jsstr list \<Rightarrow> jsstr" where
  "comma_join [] = []"
| "comma_join [s] = s"
| "comma_join (s # t # ss) = s @ js '','' @ comma_join (t # ss)"

fun json_stringify :: "json_format \<Rightarrow> jsval \<Rightarrow> jsstr option" where
  "json_stringify fmt Undefined = None"
| "json_stringify fmt Null = Some (js ''null'')"
| "json_stringify fmt (Bool b) = Some (if b then js ''true'' else js ''false'')"
| "json_stringify fmt (Num n) = Some (case n of Fin r \<Rightarrow> number_text fmt r | _ \<Rightarrow> js ''null'')"
| "json_stringify fmt (Str s) = Some (json_quote s)"
| "json_stringify fmt (Date d) = Some (json_quote (date_text fmt d))"
| "json_stringify fmt (Arr vs) =
     Some (js ''['' @ comma_join (map (\<lambda>v. or_else (json_stringify fmt v) (js ''null'')) vs) @ js '']'')"
| "json_stringify fmt (Obj kvs) =
     Some (js ''{'' @ comma_join (concat (map (\<lambda>(k, v).
       case json_stringify fmt v of None \<Rightarrow> [] | Some s \<Rightarrow> [json_quote k @ js '':'' @ s]) kvs)) @ js ''}'')"

end
