(* ===== verification/Client_Runtime.thy ===== *)
theory Client_Runtime
  imports Custom_Fetch Json_Text
begin

text \<open>
  What the operations of \<open>lib/api-client-react/src/generated/api.ts\<close> have in common: the options
  object they pass to \<open>customFetch\<close>, the options of a query and of a mutation, \<open>withQueryKey\<close>,
  and the form encoding of \<open>URLSearchParams\<close>.  The hooks of react-query are arguments.
\<close>

section \<open>Requests\<close>

type_synonym client_request = "fetch_input \<times> fetch_options"

definition no_options :: fetch_options where
  "no_options = \<lparr>o_method = None, o_headers = None, o_body = None, o_responseType = None, o_rest = []\<rparr>"

text \<open>\<open>...headers\<close> copies own enumerable properties: the entries of a plain object, none of a
  \<open>Headers\<close> object, and of an array its pairs under their indices, which the constructor of
  \<open>Headers\<close> then turns into text.\<close>

fun spread_headers :: "headers_init option \<Rightarrow> (jsstr \<times> jsstr) list" where
  "spread_headers None = []"
| "spread_headers (Some (HeadersObject h)) = []"
| "spread_headers (Some (HeaderPairs kvs)) = kvs"
| "spread_headers (Some (HeaderArray kvs)) =
     map (\<lambda>(i, k, v). (show_int (int i), k @ js '','' @ v)) (enumerate 0 kvs)"

definition api_call :: "string \<Rightarrow> jsstr \<Rightarrow> fetch_options \<Rightarrow> client_request" where
  "api_call meth url options = (TextInput url, options\<lparr>o_method := Some (js meth)\<rparr>)"

definition api_send :: "string \<Rightarrow> string \<Rightarrow> init_body option \<Rightarrow> jsstr \<Rightarrow> fetch_options \<Rightarrow> client_request" where
  "api_send meth content_type body url options =
     (TextInput url, options\<lparr>
        o_method := Some (js meth),
        o_headers := Some (HeaderPairs
          (spread [(js ''Content-Type'', js content_type)] (spread_headers (o_headers options)))),
        o_body := body\<rparr>)"

definition json_body :: "json_format \<Rightarrow> jsval \<Rightarrow> init_body option" where
  "json_body fmt v = map_option TextBody (json_stringify fmt v)"

definition perform ::
    "runtime \<Rightarrow> fetch_config \<Rightarrow> client_request \<Rightarrow> fetch_call option \<times> (fetch_error + payload)" where
  "perform rt cfg rq = customFetch rt cfg (fst rq) (snd rq)"

section \<open>Queries and mutations\<close>

type_synonym query_key = "jsstr list"

record user_query =
  uq_key :: "query_key option"
  uq_fn :: "(jsval \<Rightarrow> client_request) option"
  uq_enabled :: "bool option"
  uq_rest :: "(jsstr \<times> jsval) list"

record query_options =
  qo_key :: query_key
  qo_fn :: "jsval \<Rightarrow> client_request"
  qo_enabled :: "bool option"
  qo_rest :: "(jsstr \<times> jsval) list"

definition no_query :: user_query where
  "no_query = \<lparr>uq_key = None, uq_fn = None, uq_enabled = None, uq_rest = []\<rparr>"

text \<open>\<open>{ signal, ...requestOptions }\<close>\<close>

definition with_signal :: "jsval \<Rightarrow> fetch_options \<Rightarrow> fetch_options" where
  "with_signal sig options = options\<lparr>o_rest := spread [(js ''signal'', sig)] (o_rest options)\<rparr>"

definition query_options_of ::
    "query_key \<Rightarrow> (fetch_options \<Rightarrow> client_request) \<Rightarrow> bool option \<Rightarrow> user_query \<Rightarrow> fetch_options \<Rightarrow>
     query_options" where
  "query_options_of key operation enabled query request =
     \<lparr>qo_key = or_else (uq_key query) key,
      qo_fn = or_else (uq_fn query) (\<lambda>sig. operation (with_signal sig request)),
      qo_enabled = (case uq_enabled query of None \<Rightarrow> enabled | Some b \<Rightarrow> Some b),
      qo_rest = uq_rest query\<rparr>"

text \<open>A query result is its properties; the key is put first and wins over one of the result.\<close>

type_synonym query_result = "(jsstr \<times> jsval) list"

definition withQueryKey :: "query_result \<Rightarrow> query_key \<Rightarrow> query_result" where
  "withQueryKey query key =
     (js ''queryKey'', Arr (map Str key)) # filter (\<lambda>kv. fst kv \<noteq> js ''queryKey'') query"

definition use_query_of :: "(query_options \<Rightarrow> query_result) \<Rightarrow> query_options \<Rightarrow> query_result" where
  "use_query_of useQuery opts = withQueryKey (useQuery opts) (qo_key opts)"

record 'v user_mutation =
  um_key :: "query_key option"
  um_fn :: "('v \<Rightarrow> client_request) option"
  um_rest :: "(jsstr \<times> jsval) list"

record 'v mutation_options =
  mo_key :: query_key
  mo_fn :: "'v \<Rightarrow> client_request"
  mo_rest :: "(jsstr \<times> jsval) list"

text \<open>The key of the caller if it is given, the name of the operation otherwise.\<close>

definition mutation_options_of ::
    "string \<Rightarrow> ('v \<Rightarrow> fetch_options \<Rightarrow> client_request) \<Rightarrow> 'v user_mutation \<Rightarrow> fetch_options \<Rightarrow>
     'v mutation_options" where
  "mutation_options_of name operation mutation request =
     \<lparr>mo_key = or_else (um_key mutation) [js name],
      mo_fn = or_else (um_fn mutation) (\<lambda>vars. operation vars request),
      mo_rest = um_rest mutation\<rparr>"

section \<open>Search parameters\<close>

text \<open>The code points of a string, lone surrogates replaced, and their UTF-8 bytes.\<close>

fun code_points :: "jsstr \<Rightarrow> nat list" where
  "code_points [] = []"
| "code_points (c # cs) =
     (if high_surrogate c then
        (case cs of
           d # ds \<Rightarrow>
             if low_surrogate d
             then (65536 + (unat c - 0xD800) * 1024 + (unat d - 0xDC00)) # code_points ds
             else 0xFFFD # code_points cs
         | [] \<Rightarrow> [0xFFFD])
      else if low_surrogate c then 0xFFFD # code_points cs
      else unat c # code_points cs)"

definition utf8_bytes :: "nat \<Rightarrow> nat list" where
  "utf8_bytes p =
     (if p < 0x80 then [p]
      else if p < 0x800 then [0xC0 + p div 64, 0x80 + p mod 64]
      else if p < 0x10000 then [0xE0 + p div 4096, 0x80 + p div 64 mod 64, 0x80 + p mod 64]
      else [0xF0 + p div 262144, 0x80 + p div 4096 mod 64, 0x80 + p div 64 mod 64, 0x80 + p mod 64])"

definition upper_hex :: "nat \<Rightarrow> jschar" where
  "upper_hex n = (if n < 10 then word_of_nat (48 + n) else word_of_nat (55 + n))"

definition form_byte :: "nat \<Rightarrow> jsstr" where
  "form_byte b =
     (if b = 32 then js ''+''
      else if 48 \<le> b \<and> b \<le> 57 \<or> 65 \<le> b \<and> b \<le> 90 \<or> 97 \<le> b \<and> b \<le> 122 \<or> b \<in> {42, 45, 46, 95}
      then [word_of_nat b]
      else [37, upper_hex (b div 16), upper_hex (b mod 16)])"

definition form_encode :: "jsstr \<Rightarrow> jsstr" where
  "form_encode s = concat (map form_byte (concat (map utf8_bytes (code_points s))))"

fun amp_join :: "jsstr list \<Rightarrow> jsstr" where
  "amp_join [] = []"
| "amp_join [s] = s"
| "amp_join (s # t # ss) = s @ js ''&'' @ amp_join (t # ss)"

definition search_params :: "(jsstr \<times> jsstr) list \<Rightarrow> jsstr" where
  "search_params kvs = amp_join (map (\<lambda>(k, v). form_encode k @ js ''='' @ form_encode v) kvs)"

text \<open>The parameters that are not \<open>undefined\<close>, appended to the path.\<close>

definition url_with_params :: "jsstr \<Rightarrow> (jsstr \<times> jsstr option) list \<Rightarrow> jsstr" where
  "url_with_params path params =
     (let stringifiedParams = search_params
        (concat (map (\<lambda>(k, v). case v of None \<Rightarrow> [] | Some s \<Rightarrow> [(k, s)]) params))
      in if stringifiedParams \<noteq> [] then path @ js ''?'' @ stringifiedParams else path)"

end
