(* ===== verification/Api_Client.thy ===== *)
theory Api_Client
  imports Client_Runtime
begin

text \<open>
  The 36 operations of \<open>lib/api-client-react/src/generated/api.ts\<close>, in the order of the file: for each the
  URL, the request, the key and options of its query or the options of its mutation, and the
  hook.  The hooks of react-query are the arguments \<open>useQuery\<close> and \<open>useMutation\<close>.
\<close>

section \<open>livenessCheck\<close>

definition getLivenessCheckUrl :: "jsstr" where
  "getLivenessCheckUrl = js ''/health/live''"

definition livenessCheck :: "fetch_options \<Rightarrow> client_request" where
  "livenessCheck options = api_call ''GET'' getLivenessCheckUrl options"

definition getLivenessCheckQueryKey :: "query_key" where
  "getLivenessCheckQueryKey = [js ''/health/live'']"

definition getLivenessCheckQueryOptions :: "user_query \<Rightarrow> fetch_options \<Rightarrow> query_options" where
  "getLivenessCheckQueryOptions query request =
     query_options_of getLivenessCheckQueryKey livenessCheck None query request"

definition useLivenessCheck ::
    "(query_options \<Rightarrow> query_result) \<Rightarrow> user_query \<Rightarrow> fetch_options \<Rightarrow> query_result" where
  "useLivenessCheck useQuery query request =
     use_query_of useQuery (getLivenessCheckQueryOptions query request)"

section \<open>readinessCheck\<close>

definition getReadinessCheckUrl :: "jsstr" where
  "getReadinessCheckUrl = js ''/health/ready''"

definition readinessCheck :: "fetch_options \<Rightarrow> client_request" where
  "readinessCheck options = api_call ''GET'' getReadinessCheckUrl options"

definition getReadinessCheckQueryKey :: "query_key" where
  "getReadinessCheckQueryKey = [js ''/health/ready'']"

definition getReadinessCheckQueryOptions :: "user_query \<Rightarrow> fetch_options \<Rightarrow> query_options" where
  "getReadinessCheckQueryOptions query request =
     query_options_of getReadinessCheckQueryKey readinessCheck None query request"

definition useReadinessCheck ::
    "(query_options \<Rightarrow> query_result) \<Rightarrow> user_query \<Rightarrow> fetch_options \<Rightarrow> query_result" where
  "useReadinessCheck useQuery query request =
     use_query_of useQuery (getReadinessCheckQueryOptions query request)"

section \<open>registerUser\<close>

definition getRegisterUserUrl :: "jsstr" where
  "getRegisterUserUrl = js ''/v1/auth/register''"

definition registerUser :: "json_format \<Rightarrow> jsval \<Rightarrow> fetch_options \<Rightarrow> client_request" where
  "registerUser fmt data options =
     api_send ''POST'' ''application/json'' (json_body fmt data) getRegisterUserUrl options"

definition getRegisterUserMutationOptions ::
    "json_format \<Rightarrow> jsval user_mutation \<Rightarrow> fetch_options \<Rightarrow> jsval mutation_options" where
  "getRegisterUserMutationOptions fmt mutation request =
     mutation_options_of ''registerUser'' (registerUser fmt) mutation request"

definition useRegisterUser ::
    "json_format \<Rightarrow> (jsval mutation_options \<Rightarrow> 'r) \<Rightarrow> jsval user_mutation \<Rightarrow> fetch_options \<Rightarrow> 'r" where
  "useRegisterUser fmt useMutation mutation request =
     useMutation (getRegisterUserMutationOptions fmt mutation request)"

section \<open>login\<close>

definition getLoginUrl :: "jsstr" where
  "getLoginUrl = js ''/v1/auth/login''"

definition login :: "json_format \<Rightarrow> jsval \<Rightarrow> fetch_options \<Rightarrow> client_request" where
  "login fmt data options =
     api_send ''POST'' ''application/json'' (json_body fmt data) getLoginUrl options"

definition getLoginMutationOptions ::
    "json_format \<Rightarrow> jsval user_mutation \<Rightarrow> fetch_options \<Rightarrow> jsval mutation_options" where
  "getLoginMutationOptions fmt mutation request =
     mutation_options_of ''login'' (login fmt) mutation request"

definition useLogin ::
    "json_format \<Rightarrow> (jsval mutation_options \<Rightarrow> 'r) \<Rightarrow> jsval user_mutation \<Rightarrow> fetch_options \<Rightarrow> 'r" where
  "useLogin fmt useMutation mutation request =
     useMutation (getLoginMutationOptions fmt mutation request)"

section \<open>acceptInvitation\<close>

definition getAcceptInvitationUrl :: "jsstr" where
  "getAcceptInvitationUrl = js ''/v1/auth/invitations/accept''"

definition acceptInvitation :: "json_format \<Rightarrow> jsval \<Rightarrow> fetch_options \<Rightarrow> client_request" where
  "acceptInvitation fmt data options =
     api_send ''POST'' ''application/json'' (json_body fmt data) getAcceptInvitationUrl options"

definition getAcceptInvitationMutationOptions ::
    "json_format \<Rightarrow> jsval user_mutation \<Rightarrow> fetch_options \<Rightarrow> jsval mutation_options" where
  "getAcceptInvitationMutationOptions fmt mutation request =
     mutation_options_of ''acceptInvitation'' (acceptInvitation fmt) mutation request"

definition useAcceptInvitation ::
    "json_format \<Rightarrow> (jsval mutation_options \<Rightarrow> 'r) \<Rightarrow> jsval user_mutation \<Rightarrow> fetch_options \<Rightarrow> 'r" where
  "useAcceptInvitation fmt useMutation mutation request =
     useMutation (getAcceptInvitationMutationOptions fmt mutation request)"

section \<open>acceptInvitationSupabase\<close>

definition getAcceptInvitationSupabaseUrl :: "jsstr" where
  "getAcceptInvitationSupabaseUrl = js ''/v1/auth/invitations/accept-supabase''"

definition acceptInvitationSupabase :: "json_format \<Rightarrow> jsval \<Rightarrow> fetch_options \<Rightarrow> client_request" where
  "acceptInvitationSupabase fmt data options =
     api_send ''POST'' ''application/json'' (json_body fmt data) getAcceptInvitationSupabaseUrl options"

definition getAcceptInvitationSupabaseMutationOptions ::
    "json_format \<Rightarrow> jsval user_mutation \<Rightarrow> fetch_options \<Rightarrow> jsval mutation_options" where
  "getAcceptInvitationSupabaseMutationOptions fmt mutation request =
     mutation_options_of ''acceptInvitationSupabase'' (acceptInvitationSupabase fmt) mutation request"

definition useAcceptInvitationSupabase ::
    "json_format \<Rightarrow> (jsval mutation_options \<Rightarrow> 'r) \<Rightarrow> jsval user_mutation \<Rightarrow> fetch_options \<Rightarrow> 'r" where
  "useAcceptInvitationSupabase fmt useMutation mutation request =
     useMutation (getAcceptInvitationSupabaseMutationOptions fmt mutation request)"

section \<open>refreshToken\<close>

definition getRefreshTokenUrl :: "jsstr" where
  "getRefreshTokenUrl = js ''/v1/auth/refresh''"

definition refreshToken :: "fetch_options \<Rightarrow> client_request" where
  "refreshToken options = api_call ''POST'' getRefreshTokenUrl options"

definition getRefreshTokenMutationOptions ::
    "unit user_mutation \<Rightarrow> fetch_options \<Rightarrow> unit mutation_options" where
  "getRefreshTokenMutationOptions mutation request =
     mutation_options_of ''refreshToken'' (\<lambda>_. refreshToken) mutation request"

definition useRefreshToken ::
    "(unit mutation_options \<Rightarrow> 'r) \<Rightarrow> unit user_mutation \<Rightarrow> fetch_options \<Rightarrow> 'r" where
  "useRefreshToken useMutation mutation request =
     useMutation (getRefreshTokenMutationOptions mutation request)"

section \<open>logout\<close>

definition getLogoutUrl :: "jsstr" where
  "getLogoutUrl = js ''/v1/auth/logout''"

definition logout :: "fetch_options \<Rightarrow> client_request" where
  "logout options = api_call ''POST'' getLogoutUrl options"

definition getLogoutMutationOptions ::
    "unit user_mutation \<Rightarrow> fetch_options \<Rightarrow> unit mutation_options" where
  "getLogoutMutationOptions mutation request =
     mutation_options_of ''logout'' (\<lambda>_. logout) mutation request"

definition useLogout ::
    "(unit mutation_options \<Rightarrow> 'r) \<Rightarrow> unit user_mutation \<Rightarrow> fetch_options \<Rightarrow> 'r" where
  "useLogout useMutation mutation request =
     useMutation (getLogoutMutationOptions mutation request)"

section \<open>getCurrentUser\<close>

definition getGetCurrentUserUrl :: "jsstr" where
  "getGetCurrentUserUrl = js ''/v1/auth/me''"

definition getCurrentUser :: "fetch_options \<Rightarrow> client_request" where
  "getCurrentUser options = api_call ''GET'' getGetCurrentUserUrl options"

definition getGetCurrentUserQueryKey :: "query_key" where
  "getGetCurrentUserQueryKey = [js ''/v1/auth/me'']"

definition getGetCurrentUserQueryOptions :: "user_query \<Rightarrow> fetch_options \<Rightarrow> query_options" where
  "getGetCurrentUserQueryOptions query request =
     query_options_of getGetCurrentUserQueryKey getCurrentUser None query request"

definition useGetCurrentUser ::
    "(query_options \<Rightarrow> query_result) \<Rightarrow> user_query \<Rightarrow> fetch_options \<Rightarrow> query_result" where
  "useGetCurrentUser useQuery query request =
     use_query_of useQuery (getGetCurrentUserQueryOptions query request)"

section \<open>getCurrentUserTenant\<close>

definition getGetCurrentUserTenantUrl :: "jsstr" where
  "getGetCurrentUserTenantUrl = js ''/v1/auth/me/tenant''"

definition getCurrentUserTenant :: "fetch_options \<Rightarrow> client_request" where
  "getCurrentUserTenant options = api_call ''GET'' getGetCurrentUserTenantUrl options"

definition getGetCurrentUserTenantQueryKey :: "query_key" where
  "getGetCurrentUserTenantQueryKey = [js ''/v1/auth/me/tenant'']"

definition getGetCurrentUserTenantQueryOptions :: "user_query \<Rightarrow> fetch_options \<Rightarrow> query_options" where
  "getGetCurrentUserTenantQueryOptions query request =
     query_options_of getGetCurrentUserTenantQueryKey getCurrentUserTenant None query request"

definition useGetCurrentUserTenant ::
    "(query_options \<Rightarrow> query_result) \<Rightarrow> user_query \<Rightarrow> fetch_options \<Rightarrow> query_result" where
  "useGetCurrentUserTenant useQuery query request =
     use_query_of useQuery (getGetCurrentUserTenantQueryOptions query request)"

section \<open>assignRole\<close>

definition getAssignRoleUrl :: "jsstr \<Rightarrow> jsstr" where
  "getAssignRoleUrl userId = js ''/v1/admin/users/'' @ userId @ js ''/roles''"

definition assignRole :: "json_format \<Rightarrow> jsstr \<Rightarrow> jsval \<Rightarrow> fetch_options \<Rightarrow> client_request" where
  "assignRole fmt userId data options =
     api_send ''POST'' ''application/json'' (json_body fmt data) (getAssignRoleUrl userId) options"

definition getAssignRoleMutationOptions ::
    "json_format \<Rightarrow> (jsstr \<times> jsval) user_mutation \<Rightarrow> fetch_options \<Rightarrow> (jsstr \<times> jsval) mutation_options" where
  "getAssignRoleMutationOptions fmt mutation request =
     mutation_options_of ''assignRole'' (\<lambda>(userId, data). assignRole fmt userId data) mutation request"

definition useAssignRole ::
    "json_format \<Rightarrow> ((jsstr \<times> jsval) mutation_options \<Rightarrow> 'r) \<Rightarrow> (jsstr \<times> jsval) user_mutation \<Rightarrow> fetch_options \<Rightarrow> 'r" where
  "useAssignRole fmt useMutation mutation request =
     useMutation (getAssignRoleMutationOptions fmt mutation request)"

section \<open>listInvitations\<close>

definition getListInvitationsUrl :: "jsstr" where
  "getListInvitationsUrl = js ''/v1/admin/invitations''"

definition listInvitations :: "fetch_options \<Rightarrow> client_request" where
  "listInvitations options = api_call ''GET'' getListInvitationsUrl options"

definition getListInvitationsQueryKey :: "query_key" where
  "getListInvitationsQueryKey = [js ''/v1/admin/invitations'']"

definition getListInvitationsQueryOptions :: "user_query \<Rightarrow> fetch_options \<Rightarrow> query_options" where
  "getListInvitationsQueryOptions query request =
     query_options_of getListInvitationsQueryKey listInvitations None query request"

definition useListInvitations ::
    "(query_options \<Rightarrow> query_result) \<Rightarrow> user_query \<Rightarrow> fetch_options \<Rightarrow> query_result" where
  "useListInvitations useQuery query request =
     use_query_of useQuery (getListInvitationsQueryOptions query request)"

section \<open>createInvitation\<close>

definition getCreateInvitationUrl :: "jsstr" where
  "getCreateInvitationUrl = js ''/v1/admin/invitations''"

definition createInvitation :: "json_format \<Rightarrow> jsval \<Rightarrow> fetch_options \<Rightarrow> client_request" where
  "createInvitation fmt data options =
     api_send ''POST'' ''application/json'' (json_body fmt data) getCreateInvitationUrl options"

definition getCreateInvitationMutationOptions ::
    "json_format \<Rightarrow> jsval user_mutation \<Rightarrow> fetch_options \<Rightarrow> jsval mutation_options" where
  "getCreateInvitationMutationOptions fmt mutation request =
     mutation_options_of ''createInvitation'' (createInvitation fmt) mutation request"

definition useCreateInvitation ::
    "json_format \<Rightarrow> (jsval mutation_options \<Rightarrow> 'r) \<Rightarrow> jsval user_mutation \<Rightarrow> fetch_options \<Rightarrow> 'r" where
  "useCreateInvitation fmt useMutation mutation request =
     useMutation (getCreateInvitationMutationOptions fmt mutation request)"

section \<open>revokeInvitation\<close>

definition getRevokeInvitationUrl :: "jsstr \<Rightarrow> jsstr" where
  "getRevokeInvitationUrl invitationId = js ''/v1/admin/invitations/'' @ invitationId @ js ''/revoke''"

definition revokeInvitation :: "jsstr \<Rightarrow> fetch_options \<Rightarrow> client_request" where
  "revokeInvitation invitationId options = api_call ''POST'' (getRevokeInvitationUrl invitationId) options"

definition getRevokeInvitationMutationOptions ::
    "jsstr user_mutation \<Rightarrow> fetch_options \<Rightarrow> jsstr mutation_options" where
  "getRevokeInvitationMutationOptions mutation request =
     mutation_options_of ''revokeInvitation'' revokeInvitation mutation request"

definition useRevokeInvitation ::
    "(jsstr mutation_options \<Rightarrow> 'r) \<Rightarrow> jsstr user_mutation \<Rightarrow> fetch_options \<Rightarrow> 'r" where
  "useRevokeInvitation useMutation mutation request =
     useMutation (getRevokeInvitationMutationOptions mutation request)"

section \<open>listTenants\<close>

definition getListTenantsUrl :: "jsstr" where
  "getListTenantsUrl = js ''/v1/admin/tenants''"

definition listTenants :: "fetch_options \<Rightarrow> client_request" where
  "listTenants options = api_call ''GET'' getListTenantsUrl options"

definition getListTenantsQueryKey :: "query_key" where
  "getListTenantsQueryKey = [js ''/v1/admin/tenants'']"

definition getListTenantsQueryOptions :: "user_query \<Rightarrow> fetch_options \<Rightarrow> query_options" where
  "getListTenantsQueryOptions query request =
     query_options_of getListTenantsQueryKey listTenants None query request"

definition useListTenants ::
    "(query_options \<Rightarrow> query_result) \<Rightarrow> user_query \<Rightarrow> fetch_options \<Rightarrow> query_result" where
  "useListTenants useQuery query request =
     use_query_of useQuery (getListTenantsQueryOptions query request)"

section \<open>getTenant\<close>

definition getGetTenantUrl :: "jsstr \<Rightarrow> jsstr" where
  "getGetTenantUrl tenantId = js ''/v1/admin/tenants/'' @ tenantId"

definition getTenant :: "jsstr \<Rightarrow> fetch_options \<Rightarrow> client_request" where
  "getTenant tenantId options = api_call ''GET'' (getGetTenantUrl tenantId) options"

definition getGetTenantQueryKey :: "jsstr \<Rightarrow> query_key" where
  "getGetTenantQueryKey tenantId = [js ''/v1/admin/tenants/'' @ tenantId]"

definition getGetTenantQueryOptions :: "jsstr \<Rightarrow> user_query \<Rightarrow> fetch_options \<Rightarrow> query_options" where
  "getGetTenantQueryOptions tenantId query request =
     query_options_of (getGetTenantQueryKey tenantId) (getTenant tenantId) (Some True) query request"

definition useGetTenant ::
    "(query_options \<Rightarrow> query_result) \<Rightarrow> jsstr \<Rightarrow> user_query \<Rightarrow> fetch_options \<Rightarrow> query_result" where
  "useGetTenant useQuery tenantId query request =
     use_query_of useQuery (getGetTenantQueryOptions tenantId query request)"

section \<open>suspendTenant\<close>

definition getSuspendTenantUrl :: "jsstr \<Rightarrow> jsstr" where
  "getSuspendTenantUrl tenantId = js ''/v1/admin/tenants/'' @ tenantId @ js ''/suspend''"

definition suspendTenant :: "json_format \<Rightarrow> jsstr \<Rightarrow> jsval \<Rightarrow> fetch_options \<Rightarrow> client_request" where
  "suspendTenant fmt tenantId data options =
     api_send ''POST'' ''application/json'' (json_body fmt data) (getSuspendTenantUrl tenantId) options"

definition getSuspendTenantMutationOptions ::
    "json_format \<Rightarrow> (jsstr \<times> jsval) user_mutation \<Rightarrow> fetch_options \<Rightarrow> (jsstr \<times> jsval) mutation_options" where
  "getSuspendTenantMutationOptions fmt mutation request =
     mutation_options_of ''suspendTenant'' (\<lambda>(tenantId, data). suspendTenant fmt tenantId data) mutation request"

definition useSuspendTenant ::
    "json_format \<Rightarrow> ((jsstr \<times> jsval) mutation_options \<Rightarrow> 'r) \<Rightarrow> (jsstr \<times> jsval) user_mutation \<Rightarrow> fetch_options \<Rightarrow> 'r" where
  "useSuspendTenant fmt useMutation mutation request =
     useMutation (getSuspendTenantMutationOptions fmt mutation request)"

section \<open>reactivateTenant\<close>

definition getReactivateTenantUrl :: "jsstr \<Rightarrow> jsstr" where
  "getReactivateTenantUrl tenantId = js ''/v1/admin/tenants/'' @ tenantId @ js ''/reactivate''"

definition reactivateTenant :: "jsstr \<Rightarrow> fetch_options \<Rightarrow> client_request" where
  "reactivateTenant tenantId options = api_call ''POST'' (getReactivateTenantUrl tenantId) options"

definition getReactivateTenantMutationOptions ::
    "jsstr user_mutation \<Rightarrow> fetch_options \<Rightarrow> jsstr mutation_options" where
  "getReactivateTenantMutationOptions mutation request =
     mutation_options_of ''reactivateTenant'' reactivateTenant mutation request"

definition useReactivateTenant ::
    "(jsstr mutation_options \<Rightarrow> 'r) \<Rightarrow> jsstr user_mutation \<Rightarrow> fetch_options \<Rightarrow> 'r" where
  "useReactivateTenant useMutation mutation request =
     useMutation (getReactivateTenantMutationOptions mutation request)"

section \<open>archiveTenant\<close>

definition getArchiveTenantUrl :: "jsstr \<Rightarrow> jsstr" where
  "getArchiveTenantUrl tenantId = js ''/v1/admin/tenants/'' @ tenantId @ js ''/archive''"

definition archiveTenant :: "jsstr \<Rightarrow> fetch_options \<Rightarrow> client_request" where
  "archiveTenant tenantId options = api_call ''POST'' (getArchiveTenantUrl tenantId) options"

definition getArchiveTenantMutationOptions ::
    "jsstr user_mutation \<Rightarrow> fetch_options \<Rightarrow> jsstr mutation_options" where
  "getArchiveTenantMutationOptions mutation request =
     mutation_options_of ''archiveTenant'' archiveTenant mutation request"

definition useArchiveTenant ::
    "(jsstr mutation_options \<Rightarrow> 'r) \<Rightarrow> jsstr user_mutation \<Rightarrow> fetch_options \<Rightarrow> 'r" where
  "useArchiveTenant useMutation mutation request =
     useMutation (getArchiveTenantMutationOptions mutation request)"

section \<open>listDelegations\<close>

definition getListDelegationsUrl :: "jsstr" where
  "getListDelegationsUrl = js ''/v1/admin/delegations''"

definition listDelegations :: "fetch_options \<Rightarrow> client_request" where
  "listDelegations options = api_call ''GET'' getListDelegationsUrl options"

definition getListDelegationsQueryKey :: "query_key" where
  "getListDelegationsQueryKey = [js ''/v1/admin/delegations'']"

definition getListDelegationsQueryOptions :: "user_query \<Rightarrow> fetch_options \<Rightarrow> query_options" where
  "getListDelegationsQueryOptions query request =
     query_options_of getListDelegationsQueryKey listDelegations None query request"

definition useListDelegations ::
    "(query_options \<Rightarrow> query_result) \<Rightarrow> user_query \<Rightarrow> fetch_options \<Rightarrow> query_result" where
  "useListDelegations useQuery query request =
     use_query_of useQuery (getListDelegationsQueryOptions query request)"

section \<open>createDelegation\<close>

definition getCreateDelegationUrl :: "jsstr" where
  "getCreateDelegationUrl = js ''/v1/admin/delegations''"

definition createDelegation :: "json_format \<Rightarrow> jsval \<Rightarrow> fetch_options \<Rightarrow> client_request" where
  "createDelegation fmt data options =
     api_send ''POST'' ''application/json'' (json_body fmt data) getCreateDelegationUrl options"

definition getCreateDelegationMutationOptions ::
    "json_format \<Rightarrow> jsval user_mutation \<Rightarrow> fetch_options \<Rightarrow> jsval mutation_options" where
  "getCreateDelegationMutationOptions fmt mutation request =
     mutation_options_of ''createDelegation'' (createDelegation fmt) mutation request"

definition useCreateDelegation ::
    "json_format \<Rightarrow> (jsval mutation_options \<Rightarrow> 'r) \<Rightarrow> jsval user_mutation \<Rightarrow> fetch_options \<Rightarrow> 'r" where
  "useCreateDelegation fmt useMutation mutation request =
     useMutation (getCreateDelegationMutationOptions fmt mutation request)"

section \<open>getDelegation\<close>

definition getGetDelegationUrl :: "jsstr \<Rightarrow> jsstr" where
  "getGetDelegationUrl delegationId = js ''/v1/admin/delegations/'' @ delegationId"

definition getDelegation :: "jsstr \<Rightarrow> fetch_options \<Rightarrow> client_request" where
  "getDelegation delegationId options = api_call ''GET'' (getGetDelegationUrl delegationId) options"

definition getGetDelegationQueryKey :: "jsstr \<Rightarrow> query_key" where
  "getGetDelegationQueryKey delegationId = [js ''/v1/admin/delegations/'' @ delegationId]"

definition getGetDelegationQueryOptions :: "jsstr \<Rightarrow> user_query \<Rightarrow> fetch_options \<Rightarrow> query_options" where
  "getGetDelegationQueryOptions delegationId query request =
     query_options_of (getGetDelegationQueryKey delegationId) (getDelegation delegationId) (Some True) query request"

definition useGetDelegation ::
    "(query_options \<Rightarrow> query_result) \<Rightarrow> jsstr \<Rightarrow> user_query \<Rightarrow> fetch_options \<Rightarrow> query_result" where
  "useGetDelegation useQuery delegationId query request =
     use_query_of useQuery (getGetDelegationQueryOptions delegationId query request)"

section \<open>revokeDelegation\<close>

definition getRevokeDelegationUrl :: "jsstr \<Rightarrow> jsstr" where
  "getRevokeDelegationUrl delegationId = js ''/v1/admin/delegations/'' @ delegationId @ js ''/revoke''"

definition revokeDelegation :: "jsstr \<Rightarrow> fetch_options \<Rightarrow> client_request" where
  "revokeDelegation delegationId options = api_call ''POST'' (getRevokeDelegationUrl delegationId) options"

definition getRevokeDelegationMutationOptions ::
    "jsstr user_mutation \<Rightarrow> fetch_options \<Rightarrow> jsstr mutation_options" where
  "getRevokeDelegationMutationOptions mutation request =
     mutation_options_of ''revokeDelegation'' revokeDelegation mutation request"

definition useRevokeDelegation ::
    "(jsstr mutation_options \<Rightarrow> 'r) \<Rightarrow> jsstr user_mutation \<Rightarrow> fetch_options \<Rightarrow> 'r" where
  "useRevokeDelegation useMutation mutation request =
     useMutation (getRevokeDelegationMutationOptions mutation request)"

section \<open>extendDelegation\<close>

definition getExtendDelegationUrl :: "jsstr \<Rightarrow> jsstr" where
  "getExtendDelegationUrl delegationId = js ''/v1/admin/delegations/'' @ delegationId @ js ''/extend''"

definition extendDelegation :: "json_format \<Rightarrow> jsstr \<Rightarrow> jsval \<Rightarrow> fetch_options \<Rightarrow> client_request" where
  "extendDelegation fmt delegationId data options =
     api_send ''POST'' ''application/json'' (json_body fmt data) (getExtendDelegationUrl delegationId) options"

definition getExtendDelegationMutationOptions ::
    "json_format \<Rightarrow> (jsstr \<times> jsval) user_mutation \<Rightarrow> fetch_options \<Rightarrow> (jsstr \<times> jsval) mutation_options" where
  "getExtendDelegationMutationOptions fmt mutation request =
     mutation_options_of ''extendDelegation'' (\<lambda>(delegationId, data). extendDelegation fmt delegationId data) mutation request"

definition useExtendDelegation ::
    "json_format \<Rightarrow> ((jsstr \<times> jsval) mutation_options \<Rightarrow> 'r) \<Rightarrow> (jsstr \<times> jsval) user_mutation \<Rightarrow> fetch_options \<Rightarrow> 'r" where
  "useExtendDelegation fmt useMutation mutation request =
     useMutation (getExtendDelegationMutationOptions fmt mutation request)"

section \<open>listParcels\<close>

definition getListParcelsUrl :: "jsstr" where
  "getListParcelsUrl = js ''/v1/parcels''"

definition listParcels :: "fetch_options \<Rightarrow> client_request" where
  "listParcels options = api_call ''GET'' getListParcelsUrl options"

definition getListParcelsQueryKey :: "query_key" where
  "getListParcelsQueryKey = [js ''/v1/parcels'']"

definition getListParcelsQueryOptions :: "user_query \<Rightarrow> fetch_options \<Rightarrow> query_options" where
  "getListParcelsQueryOptions query request =
     query_options_of getListParcelsQueryKey listParcels None query request"

definition useListParcels ::
    "(query_options \<Rightarrow> query_result) \<Rightarrow> user_query \<Rightarrow> fetch_options \<Rightarrow> query_result" where
  "useListParcels useQuery query request =
     use_query_of useQuery (getListParcelsQueryOptions query request)"

section \<open>createParcel\<close>

definition getCreateParcelUrl :: "jsstr" where
  "getCreateParcelUrl = js ''/v1/parcels''"

definition createParcel :: "json_format \<Rightarrow> jsval \<Rightarrow> fetch_options \<Rightarrow> client_request" where
  "createParcel fmt data options =
     api_send ''POST'' ''application/json'' (json_body fmt data) getCreateParcelUrl options"

definition getCreateParcelMutationOptions ::
    "json_format \<Rightarrow> jsval user_mutation \<Rightarrow> fetch_options \<Rightarrow> jsval mutation_options" where
  "getCreateParcelMutationOptions fmt mutation request =
     mutation_options_of ''createParcel'' (createParcel fmt) mutation request"

definition useCreateParcel ::
    "json_format \<Rightarrow> (jsval mutation_options \<Rightarrow> 'r) \<Rightarrow> jsval user_mutation \<Rightarrow> fetch_options \<Rightarrow> 'r" where
  "useCreateParcel fmt useMutation mutation request =
     useMutation (getCreateParcelMutationOptions fmt mutation request)"

section \<open>updateParcel\<close>

definition getUpdateParcelUrl :: "jsstr \<Rightarrow> jsstr" where
  "getUpdateParcelUrl parcelId = js ''/v1/parcels/'' @ parcelId"

definition updateParcel :: "json_format \<Rightarrow> jsstr \<Rightarrow> jsval \<Rightarrow> fetch_options \<Rightarrow> client_request" where
  "updateParcel fmt parcelId data options =
     api_send ''PATCH'' ''application/json'' (json_body fmt data) (getUpdateParcelUrl parcelId) options"

definition getUpdateParcelMutationOptions ::
    "json_format \<Rightarrow> (jsstr \<times> jsval) user_mutation \<Rightarrow> fetch_options \<Rightarrow> (jsstr \<times> jsval) mutation_options" where
  "getUpdateParcelMutationOptions fmt mutation request =
     mutation_options_of ''updateParcel'' (\<lambda>(parcelId, data). updateParcel fmt parcelId data) mutation request"

definition useUpdateParcel ::
    "json_format \<Rightarrow> ((jsstr \<times> jsval) mutation_options \<Rightarrow> 'r) \<Rightarrow> (jsstr \<times> jsval) user_mutation \<Rightarrow> fetch_options \<Rightarrow> 'r" where
  "useUpdateParcel fmt useMutation mutation request =
     useMutation (getUpdateParcelMutationOptions fmt mutation request)"

section \<open>getParcel\<close>

definition getGetParcelUrl :: "jsstr \<Rightarrow> jsstr" where
  "getGetParcelUrl parcelId = js ''/v1/parcels/'' @ parcelId"

definition getParcel :: "jsstr \<Rightarrow> fetch_options \<Rightarrow> client_request" where
  "getParcel parcelId options = api_call ''GET'' (getGetParcelUrl parcelId) options"

definition getGetParcelQueryKey :: "jsstr \<Rightarrow> query_key" where
  "getGetParcelQueryKey parcelId = [js ''/v1/parcels/'' @ parcelId]"

definition getGetParcelQueryOptions :: "jsstr \<Rightarrow> user_query \<Rightarrow> fetch_options \<Rightarrow> query_options" where
  "getGetParcelQueryOptions parcelId query request =
     query_options_of (getGetParcelQueryKey parcelId) (getParcel parcelId) (Some True) query request"

definition useGetParcel ::
    "(query_options \<Rightarrow> query_result) \<Rightarrow> jsstr \<Rightarrow> user_query \<Rightarrow> fetch_options \<Rightarrow> query_result" where
  "useGetParcel useQuery parcelId query request =
     use_query_of useQuery (getGetParcelQueryOptions parcelId query request)"

section \<open>archiveParcel\<close>

definition getArchiveParcelUrl :: "jsstr \<Rightarrow> jsstr" where
  "getArchiveParcelUrl parcelId = js ''/v1/parcels/'' @ parcelId @ js ''/archive''"

definition archiveParcel :: "jsstr \<Rightarrow> fetch_options \<Rightarrow> client_request" where
  "archiveParcel parcelId options = api_call ''POST'' (getArchiveParcelUrl parcelId) options"

definition getArchiveParcelMutationOptions ::
    "jsstr user_mutation \<Rightarrow> fetch_options \<Rightarrow> jsstr mutation_options" where
  "getArchiveParcelMutationOptions mutation request =
     mutation_options_of ''archiveParcel'' archiveParcel mutation request"

definition useArchiveParcel ::
    "(jsstr mutation_options \<Rightarrow> 'r) \<Rightarrow> jsstr user_mutation \<Rightarrow> fetch_options \<Rightarrow> 'r" where
  "useArchiveParcel useMutation mutation request =
     useMutation (getArchiveParcelMutationOptions mutation request)"

section \<open>setParcelGeometryReference\<close>

definition getSetParcelGeometryReferenceUrl :: "jsstr \<Rightarrow> jsstr" where
  "getSetParcelGeometryReferenceUrl parcelId = js ''/v1/parcels/'' @ parcelId @ js ''/geometry''"

definition setParcelGeometryReference :: "json_format \<Rightarrow> jsstr \<Rightarrow> jsval \<Rightarrow> fetch_options \<Rightarrow> client_request" where
  "setParcelGeometryReference fmt parcelId data options =
     api_send ''PUT'' ''application/json'' (json_body fmt data) (getSetParcelGeometryReferenceUrl parcelId) options"

definition getSetParcelGeometryReferenceMutationOptions ::
    "json_format \<Rightarrow> (jsstr \<times> jsval) user_mutation \<Rightarrow> fetch_options \<Rightarrow> (jsstr \<times> jsval) mutation_options" where
  "getSetParcelGeometryReferenceMutationOptions fmt mutation request =
     mutation_options_of ''setParcelGeometryReference'' (\<lambda>(parcelId, data). setParcelGeometryReference fmt parcelId data) mutation request"

definition useSetParcelGeometryReference ::
    "json_format \<Rightarrow> ((jsstr \<times> jsval) mutation_options \<Rightarrow> 'r) \<Rightarrow> (jsstr \<times> jsval) user_mutation \<Rightarrow> fetch_options \<Rightarrow> 'r" where
  "useSetParcelGeometryReference fmt useMutation mutation request =
     useMutation (getSetParcelGeometryReferenceMutationOptions fmt mutation request)"

section \<open>submitParcelGeometry\<close>

definition getSubmitParcelGeometryUrl :: "jsstr \<Rightarrow> jsstr" where
  "getSubmitParcelGeometryUrl parcelId = js ''/v1/spatial/parcels/'' @ parcelId @ js ''/geometry''"

definition submitParcelGeometry :: "json_format \<Rightarrow> jsstr \<Rightarrow> jsval \<Rightarrow> fetch_options \<Rightarrow> client_request" where
  "submitParcelGeometry fmt parcelId data options =
     api_send ''PUT'' ''application/json'' (json_body fmt data) (getSubmitParcelGeometryUrl parcelId) options"

definition getSubmitParcelGeometryMutationOptions ::
    "json_format \<Rightarrow> (jsstr \<times> jsval) user_mutation \<Rightarrow> fetch_options \<Rightarrow> (jsstr \<times> jsval) mutation_options" where
  "getSubmitParcelGeometryMutationOptions fmt mutation request =
     mutation_options_of ''submitParcelGeometry'' (\<lambda>(parcelId, data). submitParcelGeometry fmt parcelId data) mutation request"

definition useSubmitParcelGeometry ::
    "json_format \<Rightarrow> ((jsstr \<times> jsval) mutation_options \<Rightarrow> 'r) \<Rightarrow> (jsstr \<times> jsval) user_mutation \<Rightarrow> fetch_options \<Rightarrow> 'r" where
  "useSubmitParcelGeometry fmt useMutation mutation request =
     useMutation (getSubmitParcelGeometryMutationOptions fmt mutation request)"

section \<open>getActiveParcelGeometry\<close>

definition getGetActiveParcelGeometryUrl :: "jsstr \<Rightarrow> jsstr" where
  "getGetActiveParcelGeometryUrl parcelId = js ''/v1/spatial/parcels/'' @ parcelId @ js ''/geometry''"

definition getActiveParcelGeometry :: "jsstr \<Rightarrow> fetch_options \<Rightarrow> client_request" where
  "getActiveParcelGeometry parcelId options = api_call ''GET'' (getGetActiveParcelGeometryUrl parcelId) options"

definition getGetActiveParcelGeometryQueryKey :: "jsstr \<Rightarrow> query_key" where
  "getGetActiveParcelGeometryQueryKey parcelId = [js ''/v1/spatial/parcels/'' @ parcelId @ js ''/geometry'']"

definition getGetActiveParcelGeometryQueryOptions :: "jsstr \<Rightarrow> user_query \<Rightarrow> fetch_options \<Rightarrow> query_options" where
  "getGetActiveParcelGeometryQueryOptions parcelId query request =
     query_options_of (getGetActiveParcelGeometryQueryKey parcelId) (getActiveParcelGeometry parcelId) (Some True) query request"

definition useGetActiveParcelGeometry ::
    "(query_options \<Rightarrow> query_result) \<Rightarrow> jsstr \<Rightarrow> user_query \<Rightarrow> fetch_options \<Rightarrow> query_result" where
  "useGetActiveParcelGeometry useQuery parcelId query request =
     use_query_of useQuery (getGetActiveParcelGeometryQueryOptions parcelId query request)"

section \<open>uploadParcelEvidence\<close>

definition getUploadParcelEvidenceUrl :: "jsstr \<Rightarrow> (jsstr \<times> jsstr option) list \<Rightarrow> jsstr" where
  "getUploadParcelEvidenceUrl parcelId params = url_with_params (js ''/v1/parcels/'' @ parcelId @ js ''/evidence'') params"

definition uploadParcelEvidence ::
    "jsstr \<Rightarrow> init_body \<Rightarrow> (jsstr \<times> jsstr option) list \<Rightarrow> fetch_options \<Rightarrow> client_request" where
  "uploadParcelEvidence parcelId blob params options =
     api_send ''POST'' ''application/octet-stream'' (Some blob) (getUploadParcelEvidenceUrl parcelId params) options"

definition getUploadParcelEvidenceMutationOptions ::
    "(jsstr \<times> init_body \<times> (jsstr \<times> jsstr option) list) user_mutation \<Rightarrow> fetch_options \<Rightarrow> (jsstr \<times> init_body \<times> (jsstr \<times> jsstr option) list) mutation_options" where
  "getUploadParcelEvidenceMutationOptions mutation request =
     mutation_options_of ''uploadParcelEvidence'' (\<lambda>(parcelId, data, params). uploadParcelEvidence parcelId data params) mutation request"

definition useUploadParcelEvidence ::
    "((jsstr \<times> init_body \<times> (jsstr \<times> jsstr option) list) mutation_options \<Rightarrow> 'r) \<Rightarrow> (jsstr \<times> init_body \<times> (jsstr \<times> jsstr option) list) user_mutation \<Rightarrow> fetch_options \<Rightarrow> 'r" where
  "useUploadParcelEvidence useMutation mutation request =
     useMutation (getUploadParcelEvidenceMutationOptions mutation request)"

section \<open>listParcelEvidence\<close>

definition getListParcelEvidenceUrl :: "jsstr \<Rightarrow> jsstr" where
  "getListParcelEvidenceUrl parcelId = js ''/v1/parcels/'' @ parcelId @ js ''/evidence''"

definition listParcelEvidence :: "jsstr \<Rightarrow> fetch_options \<Rightarrow> client_request" where
  "listParcelEvidence parcelId options = api_call ''GET'' (getListParcelEvidenceUrl parcelId) options"

definition getListParcelEvidenceQueryKey :: "jsstr \<Rightarrow> query_key" where
  "getListParcelEvidenceQueryKey parcelId = [js ''/v1/parcels/'' @ parcelId @ js ''/evidence'']"

definition getListParcelEvidenceQueryOptions :: "jsstr \<Rightarrow> user_query \<Rightarrow> fetch_options \<Rightarrow> query_options" where
  "getListParcelEvidenceQueryOptions parcelId query request =
     query_options_of (getListParcelEvidenceQueryKey parcelId) (listParcelEvidence parcelId) (Some True) query request"

definition useListParcelEvidence ::
    "(query_options \<Rightarrow> query_result) \<Rightarrow> jsstr \<Rightarrow> user_query \<Rightarrow> fetch_options \<Rightarrow> query_result" where
  "useListParcelEvidence useQuery parcelId query request =
     use_query_of useQuery (getListParcelEvidenceQueryOptions parcelId query request)"

section \<open>recordEvidenceAttribution\<close>

definition getRecordEvidenceAttributionUrl :: "jsstr \<Rightarrow> jsstr" where
  "getRecordEvidenceAttributionUrl evidenceId = js ''/v1/evidence/'' @ evidenceId @ js ''/attributions''"

definition recordEvidenceAttribution :: "json_format \<Rightarrow> jsstr \<Rightarrow> jsval \<Rightarrow> fetch_options \<Rightarrow> client_request" where
  "recordEvidenceAttribution fmt evidenceId data options =
     api_send ''POST'' ''application/json'' (json_body fmt data) (getRecordEvidenceAttributionUrl evidenceId) options"

definition getRecordEvidenceAttributionMutationOptions ::
    "json_format \<Rightarrow> (jsstr \<times> jsval) user_mutation \<Rightarrow> fetch_options \<Rightarrow> (jsstr \<times> jsval) mutation_options" where
  "getRecordEvidenceAttributionMutationOptions fmt mutation request =
     mutation_options_of ''recordEvidenceAttribution'' (\<lambda>(evidenceId, data). recordEvidenceAttribution fmt evidenceId data) mutation request"

definition useRecordEvidenceAttribution ::
    "json_format \<Rightarrow> ((jsstr \<times> jsval) mutation_options \<Rightarrow> 'r) \<Rightarrow> (jsstr \<times> jsval) user_mutation \<Rightarrow> fetch_options \<Rightarrow> 'r" where
  "useRecordEvidenceAttribution fmt useMutation mutation request =
     useMutation (getRecordEvidenceAttributionMutationOptions fmt mutation request)"

section \<open>correctEvidenceAttribution\<close>

definition getCorrectEvidenceAttributionUrl :: "jsstr \<Rightarrow> jsstr" where
  "getCorrectEvidenceAttributionUrl attributionId = js ''/v1/evidence/attributions/'' @ attributionId @ js ''/corrections''"

definition correctEvidenceAttribution :: "json_format \<Rightarrow> jsstr \<Rightarrow> jsval \<Rightarrow> fetch_options \<Rightarrow> client_request" where
  "correctEvidenceAttribution fmt attributionId data options =
     api_send ''POST'' ''application/json'' (json_body fmt data) (getCorrectEvidenceAttributionUrl attributionId) options"

definition getCorrectEvidenceAttributionMutationOptions ::
    "json_format \<Rightarrow> (jsstr \<times> jsval) user_mutation \<Rightarrow> fetch_options \<Rightarrow> (jsstr \<times> jsval) mutation_options" where
  "getCorrectEvidenceAttributionMutationOptions fmt mutation request =
     mutation_options_of ''correctEvidenceAttribution'' (\<lambda>(attributionId, data). correctEvidenceAttribution fmt attributionId data) mutation request"

definition useCorrectEvidenceAttribution ::
    "json_format \<Rightarrow> ((jsstr \<times> jsval) mutation_options \<Rightarrow> 'r) \<Rightarrow> (jsstr \<times> jsval) user_mutation \<Rightarrow> fetch_options \<Rightarrow> 'r" where
  "useCorrectEvidenceAttribution fmt useMutation mutation request =
     useMutation (getCorrectEvidenceAttributionMutationOptions fmt mutation request)"

section \<open>All operations\<close>

text \<open>The operations with their path parameters, their methods and the paths of their URLs.\<close>

datatype operation =
    OpLivenessCheck
  | OpReadinessCheck
  | OpRegisterUser
  | OpLogin
  | OpAcceptInvitation
  | OpAcceptInvitationSupabase
  | OpRefreshToken
  | OpLogout
  | OpGetCurrentUser
  | OpGetCurrentUserTenant
  | OpAssignRole jsstr
  | OpListInvitations
  | OpCreateInvitation
  | OpRevokeInvitation jsstr
  | OpListTenants
  | OpGetTenant jsstr
  | OpSuspendTenant jsstr
  | OpReactivateTenant jsstr
  | OpArchiveTenant jsstr
  | OpListDelegations
  | OpCreateDelegation
  | OpGetDelegation jsstr
  | OpRevokeDelegation jsstr
  | OpExtendDelegation jsstr
  | OpListParcels
  | OpCreateParcel
  | OpUpdateParcel jsstr
  | OpGetParcel jsstr
  | OpArchiveParcel jsstr
  | OpSetParcelGeometryReference jsstr
  | OpSubmitParcelGeometry jsstr
  | OpGetActiveParcelGeometry jsstr
  | OpUploadParcelEvidence jsstr
  | OpListParcelEvidence jsstr
  | OpRecordEvidenceAttribution jsstr
  | OpCorrectEvidenceAttribution jsstr

fun operation_method :: "operation \<Rightarrow> string" where
  "operation_method OpLivenessCheck = ''GET''"
| "operation_method OpReadinessCheck = ''GET''"
| "operation_method OpRegisterUser = ''POST''"
| "operation_method OpLogin = ''POST''"
| "operation_method OpAcceptInvitation = ''POST''"
| "operation_method OpAcceptInvitationSupabase = ''POST''"
| "operation_method OpRefreshToken = ''POST''"
| "operation_method OpLogout = ''POST''"
| "operation_method OpGetCurrentUser = ''GET''"
| "operation_method OpGetCurrentUserTenant = ''GET''"
| "operation_method (OpAssignRole i) = ''POST''"
| "operation_method OpListInvitations = ''GET''"
| "operation_method OpCreateInvitation = ''POST''"
| "operation_method (OpRevokeInvitation i) = ''POST''"
| "operation_method OpListTenants = ''GET''"
| "operation_method (OpGetTenant i) = ''GET''"
| "operation_method (OpSuspendTenant i) = ''POST''"
| "operation_method (OpReactivateTenant i) = ''POST''"
| "operation_method (OpArchiveTenant i) = ''POST''"
| "operation_method OpListDelegations = ''GET''"
| "operation_method OpCreateDelegation = ''POST''"
| "operation_method (OpGetDelegation i) = ''GET''"
| "operation_method (OpRevokeDelegation i) = ''POST''"
| "operation_method (OpExtendDelegation i) = ''POST''"
| "operation_method OpListParcels = ''GET''"
| "operation_method OpCreateParcel = ''POST''"
| "operation_method (OpUpdateParcel i) = ''PATCH''"
| "operation_method (OpGetParcel i) = ''GET''"
| "operation_method (OpArchiveParcel i) = ''POST''"
| "operation_method (OpSetParcelGeometryReference i) = ''PUT''"
| "operation_method (OpSubmitParcelGeometry i) = ''PUT''"
| "operation_method (OpGetActiveParcelGeometry i) = ''GET''"
| "operation_method (OpUploadParcelEvidence i) = ''POST''"
| "operation_method (OpListParcelEvidence i) = ''GET''"
| "operation_method (OpRecordEvidenceAttribution i) = ''POST''"
| "operation_method (OpCorrectEvidenceAttribution i) = ''POST''"

fun operation_url :: "operation \<Rightarrow> jsstr" where
  "operation_url OpLivenessCheck = getLivenessCheckUrl"
| "operation_url OpReadinessCheck = getReadinessCheckUrl"
| "operation_url OpRegisterUser = getRegisterUserUrl"
| "operation_url OpLogin = getLoginUrl"
| "operation_url OpAcceptInvitation = getAcceptInvitationUrl"
| "operation_url OpAcceptInvitationSupabase = getAcceptInvitationSupabaseUrl"
| "operation_url OpRefreshToken = getRefreshTokenUrl"
| "operation_url OpLogout = getLogoutUrl"
| "operation_url OpGetCurrentUser = getGetCurrentUserUrl"
| "operation_url OpGetCurrentUserTenant = getGetCurrentUserTenantUrl"
| "operation_url (OpAssignRole i) = getAssignRoleUrl i"
| "operation_url OpListInvitations = getListInvitationsUrl"
| "operation_url OpCreateInvitation = getCreateInvitationUrl"
| "operation_url (OpRevokeInvitation i) = getRevokeInvitationUrl i"
| "operation_url OpListTenants = getListTenantsUrl"
| "operation_url (OpGetTenant i) = getGetTenantUrl i"
| "operation_url (OpSuspendTenant i) = getSuspendTenantUrl i"
| "operation_url (OpReactivateTenant i) = getReactivateTenantUrl i"
| "operation_url (OpArchiveTenant i) = getArchiveTenantUrl i"
| "operation_url OpListDelegations = getListDelegationsUrl"
| "operation_url OpCreateDelegation = getCreateDelegationUrl"
| "operation_url (OpGetDelegation i) = getGetDelegationUrl i"
| "operation_url (OpRevokeDelegation i) = getRevokeDelegationUrl i"
| "operation_url (OpExtendDelegation i) = getExtendDelegationUrl i"
| "operation_url OpListParcels = getListParcelsUrl"
| "operation_url OpCreateParcel = getCreateParcelUrl"
| "operation_url (OpUpdateParcel i) = getUpdateParcelUrl i"
| "operation_url (OpGetParcel i) = getGetParcelUrl i"
| "operation_url (OpArchiveParcel i) = getArchiveParcelUrl i"
| "operation_url (OpSetParcelGeometryReference i) = getSetParcelGeometryReferenceUrl i"
| "operation_url (OpSubmitParcelGeometry i) = getSubmitParcelGeometryUrl i"
| "operation_url (OpGetActiveParcelGeometry i) = getGetActiveParcelGeometryUrl i"
| "operation_url (OpUploadParcelEvidence i) = getUploadParcelEvidenceUrl i []"
| "operation_url (OpListParcelEvidence i) = getListParcelEvidenceUrl i"
| "operation_url (OpRecordEvidenceAttribution i) = getRecordEvidenceAttributionUrl i"
| "operation_url (OpCorrectEvidenceAttribution i) = getCorrectEvidenceAttributionUrl i"

text \<open>The literal and variable segments of each path.\<close>

fun operation_segments :: "operation \<Rightarrow> jsstr list" where
  "operation_segments OpLivenessCheck = [js ''health'', js ''live'']"
| "operation_segments OpReadinessCheck = [js ''health'', js ''ready'']"
| "operation_segments OpRegisterUser = [js ''v1'', js ''auth'', js ''register'']"
| "operation_segments OpLogin = [js ''v1'', js ''auth'', js ''login'']"
| "operation_segments OpAcceptInvitation = [js ''v1'', js ''auth'', js ''invitations'', js ''accept'']"
| "operation_segments OpAcceptInvitationSupabase = [js ''v1'', js ''auth'', js ''invitations'', js ''accept-supabase'']"
| "operation_segments OpRefreshToken = [js ''v1'', js ''auth'', js ''refresh'']"
| "operation_segments OpLogout = [js ''v1'', js ''auth'', js ''logout'']"
| "operation_segments OpGetCurrentUser = [js ''v1'', js ''auth'', js ''me'']"
| "operation_segments OpGetCurrentUserTenant = [js ''v1'', js ''auth'', js ''me'', js ''tenant'']"
| "operation_segments (OpAssignRole i) = [js ''v1'', js ''admin'', js ''users'', i, js ''roles'']"
| "operation_segments OpListInvitations = [js ''v1'', js ''admin'', js ''invitations'']"
| "operation_segments OpCreateInvitation = [js ''v1'', js ''admin'', js ''invitations'']"
| "operation_segments (OpRevokeInvitation i) = [js ''v1'', js ''admin'', js ''invitations'', i, js ''revoke'']"
| "operation_segments OpListTenants = [js ''v1'', js ''admin'', js ''tenants'']"
| "operation_segments (OpGetTenant i) = [js ''v1'', js ''admin'', js ''tenants'', i]"
| "operation_segments (OpSuspendTenant i) = [js ''v1'', js ''admin'', js ''tenants'', i, js ''suspend'']"
| "operation_segments (OpReactivateTenant i) = [js ''v1'', js ''admin'', js ''tenants'', i, js ''reactivate'']"
| "operation_segments (OpArchiveTenant i) = [js ''v1'', js ''admin'', js ''tenants'', i, js ''archive'']"
| "operation_segments OpListDelegations = [js ''v1'', js ''admin'', js ''delegations'']"
| "operation_segments OpCreateDelegation = [js ''v1'', js ''admin'', js ''delegations'']"
| "operation_segments (OpGetDelegation i) = [js ''v1'', js ''admin'', js ''delegations'', i]"
| "operation_segments (OpRevokeDelegation i) = [js ''v1'', js ''admin'', js ''delegations'', i, js ''revoke'']"
| "operation_segments (OpExtendDelegation i) = [js ''v1'', js ''admin'', js ''delegations'', i, js ''extend'']"
| "operation_segments OpListParcels = [js ''v1'', js ''parcels'']"
| "operation_segments OpCreateParcel = [js ''v1'', js ''parcels'']"
| "operation_segments (OpUpdateParcel i) = [js ''v1'', js ''parcels'', i]"
| "operation_segments (OpGetParcel i) = [js ''v1'', js ''parcels'', i]"
| "operation_segments (OpArchiveParcel i) = [js ''v1'', js ''parcels'', i, js ''archive'']"
| "operation_segments (OpSetParcelGeometryReference i) = [js ''v1'', js ''parcels'', i, js ''geometry'']"
| "operation_segments (OpSubmitParcelGeometry i) = [js ''v1'', js ''spatial'', js ''parcels'', i, js ''geometry'']"
| "operation_segments (OpGetActiveParcelGeometry i) = [js ''v1'', js ''spatial'', js ''parcels'', i, js ''geometry'']"
| "operation_segments (OpUploadParcelEvidence i) = [js ''v1'', js ''parcels'', i, js ''evidence'']"
| "operation_segments (OpListParcelEvidence i) = [js ''v1'', js ''parcels'', i, js ''evidence'']"
| "operation_segments (OpRecordEvidenceAttribution i) = [js ''v1'', js ''evidence'', i, js ''attributions'']"
| "operation_segments (OpCorrectEvidenceAttribution i) = [js ''v1'', js ''evidence'', js ''attributions'', i, js ''corrections'']"

fun operation_param :: "operation \<Rightarrow> jsstr option" where
  "operation_param OpLivenessCheck = None"
| "operation_param OpReadinessCheck = None"
| "operation_param OpRegisterUser = None"
| "operation_param OpLogin = None"
| "operation_param OpAcceptInvitation = None"
| "operation_param OpAcceptInvitationSupabase = None"
| "operation_param OpRefreshToken = None"
| "operation_param OpLogout = None"
| "operation_param OpGetCurrentUser = None"
| "operation_param OpGetCurrentUserTenant = None"
| "operation_param (OpAssignRole i) = Some i"
| "operation_param OpListInvitations = None"
| "operation_param OpCreateInvitation = None"
| "operation_param (OpRevokeInvitation i) = Some i"
| "operation_param OpListTenants = None"
| "operation_param (OpGetTenant i) = Some i"
| "operation_param (OpSuspendTenant i) = Some i"
| "operation_param (OpReactivateTenant i) = Some i"
| "operation_param (OpArchiveTenant i) = Some i"
| "operation_param OpListDelegations = None"
| "operation_param OpCreateDelegation = None"
| "operation_param (OpGetDelegation i) = Some i"
| "operation_param (OpRevokeDelegation i) = Some i"
| "operation_param (OpExtendDelegation i) = Some i"
| "operation_param OpListParcels = None"
| "operation_param OpCreateParcel = None"
| "operation_param (OpUpdateParcel i) = Some i"
| "operation_param (OpGetParcel i) = Some i"
| "operation_param (OpArchiveParcel i) = Some i"
| "operation_param (OpSetParcelGeometryReference i) = Some i"
| "operation_param (OpSubmitParcelGeometry i) = Some i"
| "operation_param (OpGetActiveParcelGeometry i) = Some i"
| "operation_param (OpUploadParcelEvidence i) = Some i"
| "operation_param (OpListParcelEvidence i) = Some i"
| "operation_param (OpRecordEvidenceAttribution i) = Some i"
| "operation_param (OpCorrectEvidenceAttribution i) = Some i"

text \<open>The request of an operation with a JSON value as its body.  The upload, which takes no JSON value, is
  called here with an empty file and without its query parameters; the call that the program makes,
  with the chosen file, \<open>filename\<close>, \<open>evidence_type\<close> and \<open>basis\<close>, is \<open>upload_request\<close> in
  \<open>Web_Parcel\<close>.\<close>

fun operation_request :: "json_format \<Rightarrow> operation \<Rightarrow> jsval \<Rightarrow> fetch_options \<Rightarrow> client_request" where
  "operation_request fmt OpLivenessCheck data options = livenessCheck options"
| "operation_request fmt OpReadinessCheck data options = readinessCheck options"
| "operation_request fmt OpRegisterUser data options = registerUser fmt data options"
| "operation_request fmt OpLogin data options = login fmt data options"
| "operation_request fmt OpAcceptInvitation data options = acceptInvitation fmt data options"
| "operation_request fmt OpAcceptInvitationSupabase data options = acceptInvitationSupabase fmt data options"
| "operation_request fmt OpRefreshToken data options = refreshToken options"
| "operation_request fmt OpLogout data options = logout options"
| "operation_request fmt OpGetCurrentUser data options = getCurrentUser options"
| "operation_request fmt OpGetCurrentUserTenant data options = getCurrentUserTenant options"
| "operation_request fmt (OpAssignRole i) data options = assignRole fmt i data options"
| "operation_request fmt OpListInvitations data options = listInvitations options"
| "operation_request fmt OpCreateInvitation data options = createInvitation fmt data options"
| "operation_request fmt (OpRevokeInvitation i) data options = revokeInvitation i options"
| "operation_request fmt OpListTenants data options = listTenants options"
| "operation_request fmt (OpGetTenant i) data options = getTenant i options"
| "operation_request fmt (OpSuspendTenant i) data options = suspendTenant fmt i data options"
| "operation_request fmt (OpReactivateTenant i) data options = reactivateTenant i options"
| "operation_request fmt (OpArchiveTenant i) data options = archiveTenant i options"
| "operation_request fmt OpListDelegations data options = listDelegations options"
| "operation_request fmt OpCreateDelegation data options = createDelegation fmt data options"
| "operation_request fmt (OpGetDelegation i) data options = getDelegation i options"
| "operation_request fmt (OpRevokeDelegation i) data options = revokeDelegation i options"
| "operation_request fmt (OpExtendDelegation i) data options = extendDelegation fmt i data options"
| "operation_request fmt OpListParcels data options = listParcels options"
| "operation_request fmt OpCreateParcel data options = createParcel fmt data options"
| "operation_request fmt (OpUpdateParcel i) data options = updateParcel fmt i data options"
| "operation_request fmt (OpGetParcel i) data options = getParcel i options"
| "operation_request fmt (OpArchiveParcel i) data options = archiveParcel i options"
| "operation_request fmt (OpSetParcelGeometryReference i) data options = setParcelGeometryReference fmt i data options"
| "operation_request fmt (OpSubmitParcelGeometry i) data options = submitParcelGeometry fmt i data options"
| "operation_request fmt (OpGetActiveParcelGeometry i) data options = getActiveParcelGeometry i options"
| "operation_request fmt (OpUploadParcelEvidence i) data options = uploadParcelEvidence i (BlobBody [] 0) [] options"
| "operation_request fmt (OpListParcelEvidence i) data options = listParcelEvidence i options"
| "operation_request fmt (OpRecordEvidenceAttribution i) data options = recordEvidenceAttribution fmt i data options"
| "operation_request fmt (OpCorrectEvidenceAttribution i) data options = correctEvidenceAttribution fmt i data options"

lemmas operation_defs =
  livenessCheck_def readinessCheck_def registerUser_def login_def acceptInvitation_def
  acceptInvitationSupabase_def refreshToken_def logout_def getCurrentUser_def
  getCurrentUserTenant_def assignRole_def listInvitations_def createInvitation_def
  revokeInvitation_def listTenants_def getTenant_def suspendTenant_def reactivateTenant_def
  archiveTenant_def listDelegations_def createDelegation_def getDelegation_def
  revokeDelegation_def extendDelegation_def listParcels_def createParcel_def updateParcel_def
  getParcel_def archiveParcel_def setParcelGeometryReference_def submitParcelGeometry_def
  getActiveParcelGeometry_def uploadParcelEvidence_def listParcelEvidence_def
  recordEvidenceAttribution_def correctEvidenceAttribution_def

lemmas url_defs =
  getLivenessCheckUrl_def getReadinessCheckUrl_def getRegisterUserUrl_def getLoginUrl_def
  getAcceptInvitationUrl_def getAcceptInvitationSupabaseUrl_def getRefreshTokenUrl_def
  getLogoutUrl_def getGetCurrentUserUrl_def getGetCurrentUserTenantUrl_def getAssignRoleUrl_def
  getListInvitationsUrl_def getCreateInvitationUrl_def getRevokeInvitationUrl_def
  getListTenantsUrl_def getGetTenantUrl_def getSuspendTenantUrl_def getReactivateTenantUrl_def
  getArchiveTenantUrl_def getListDelegationsUrl_def getCreateDelegationUrl_def
  getGetDelegationUrl_def getRevokeDelegationUrl_def getExtendDelegationUrl_def
  getListParcelsUrl_def getCreateParcelUrl_def getUpdateParcelUrl_def getGetParcelUrl_def
  getArchiveParcelUrl_def getSetParcelGeometryReferenceUrl_def getSubmitParcelGeometryUrl_def
  getGetActiveParcelGeometryUrl_def getUploadParcelEvidenceUrl_def getListParcelEvidenceUrl_def
  getRecordEvidenceAttributionUrl_def getCorrectEvidenceAttributionUrl_def

end
