(* ===== verification/Custom_Fetch_Properties.thy ===== *)
theory Custom_Fetch_Properties
  imports Custom_Fetch
begin

text \<open>
  What \<open>customFetch\<close> guarantees: the shape of every call it makes, the base URL, which outcomes a
  status leads to, and how response bodies and error messages are read.
\<close>

section \<open>Headers\<close>

lemma mergeHeaders_two:
  "mergeHeaders [a, b] =
     (case a of None \<Rightarrow> Map.empty | Some s \<Rightarrow> new_headers s) ++
     (case b of None \<Rightarrow> Map.empty | Some s \<Rightarrow> new_headers s)"
  by (simp add: mergeHeaders_def split: option.split)

lemma request_headers_keep:
  assumes "mergeHeaders
      [case input of RequestInput r \<Rightarrow>
           if isRequest rt input then Some (HeadersObject (rq_headers r)) else None | _ \<Rightarrow> None,
       o_headers options] k = Some v"
  shows "request_headers rt input options k = Some v"
  using assms
  by (auto simp: request_headers_def has_header_def Let_def
      split: option.splits init_body.splits)

lemma attach_token_keeps: "attach_token cfg h = Inr h' \<Longrightarrow> h k = Some v \<Longrightarrow> h' k = Some v"
  by (auto simp: attach_token_def has_header_def split: option.splits token_getter.splits if_splits)

section \<open>Calls\<close>

lemma customFetch_call:
  assumes "customFetch rt cfg input0 options = (Some call, r)"
  obtains input where "applyBaseUrl rt cfg input0 = Inr input" "call_input call = input"
    "call_method call = resolveMethod rt input (o_method options)"
    "call_body call = o_body options" "call_rest call = o_rest options"
    "attach_token cfg (request_headers rt input options) = Inr (call_headers call)"
    "o_body options = None \<or> call_method call \<notin> {js ''GET'', js ''HEAD''}"
    "r = (case fetch rt call of None \<Rightarrow> Inl FetchRejected
          | Some rs \<Rightarrow> settle rt (or_else (o_responseType options) AutoType)
                         (resolveMethod rt input (o_method options))
                         (or_else (resolveUrl rt input) (js ''undefined'')) rs)"
  using assms
  by (auto simp: customFetch_def Let_def split: sum.splits if_splits)

definition sources_of :: "runtime \<Rightarrow> fetch_input \<Rightarrow> fetch_options \<Rightarrow> headers_init option list" where
  "sources_of rt input options =
     [case input of RequestInput r \<Rightarrow>
          if isRequest rt input then Some (HeadersObject (rq_headers r)) else None | _ \<Rightarrow> None,
      o_headers options]"

text \<open>The method and the headers a call should have, written out: the method of the options, or else of a
  request object, or else GET; and for each name the header of the options or else of the request object,
  then the defaults that the function adds, then the token.\<close>

definition chosen_method :: "runtime \<Rightarrow> fetch_input \<Rightarrow> fetch_options \<Rightarrow> jsstr" where
  "chosen_method rt input options =
     (case (o_method options, input) of
        (Some (c # cs), _) \<Rightarrow> to_upper rt (c # cs)
      | (_, RequestInput q) \<Rightarrow> if has_Request rt then to_upper rt (rq_method q) else js ''GET''
      | _ \<Rightarrow> js ''GET'')"

definition json_text :: "fetch_options \<Rightarrow> bool" where
  "json_text options = (case o_body options of Some (TextBody s) \<Rightarrow> looksLikeJson s | _ \<Rightarrow> False)"

definition bearer_of :: "fetch_config \<Rightarrow> jsstr option" where
  "bearer_of cfg =
     (case auth_getter cfg of
        Some (GivesToken (Some t)) \<Rightarrow> if t = [] then None else Some (header_value (js ''Bearer '' @ t))
      | _ \<Rightarrow> None)"

definition default_header :: "fetch_config \<Rightarrow> fetch_options \<Rightarrow> jsstr \<Rightarrow> jsstr option" where
  "default_header cfg options k =
     (if k = js ''content-type'' \<and> json_text options then Some (js ''application/json'')
      else if k = js ''accept'' \<and> o_responseType options = Some JsonType then Some DEFAULT_JSON_ACCEPT
      else if k = js ''authorization'' then bearer_of cfg
      else None)"

lemma resolveMethod_chosen: "resolveMethod rt input (o_method options) = chosen_method rt input options"
  by (auto simp: resolveMethod_def chosen_method_def isRequest_def or_else_def
      split: option.split list.split fetch_input.split)

lemma header_names_differ: "js ''content-type'' \<noteq> js ''accept''" "js ''content-type'' \<noteq> js ''authorization''"
  "js ''accept'' \<noteq> js ''authorization''"
  by (simp_all add: js_eq_iff)

lemma request_headers_at:
  "request_headers rt input options k =
     (case mergeHeaders (sources_of rt input options) k of Some v \<Rightarrow> Some v
      | None \<Rightarrow> if k = js ''content-type'' \<and> json_text options then Some (js ''application/json'')
          else if k = js ''accept'' \<and> o_responseType options = Some JsonType then Some DEFAULT_JSON_ACCEPT
          else None)"
  using header_names_differ
  by (auto simp: request_headers_def sources_of_def [symmetric] has_header_def json_text_def or_else_def Let_def
      split: option.split init_body.split)

lemma attach_token_at:
  assumes "attach_token cfg h = Inr h'"
  shows "h' k = (case h k of Some v \<Rightarrow> Some v | None \<Rightarrow> if k = js ''authorization'' then bearer_of cfg else None)"
  using assms
  by (auto simp: attach_token_def bearer_of_def has_header_def or_else_def
      split: option.splits token_getter.splits if_splits)


text \<open>A runtime in which every request is answered by one response, to evaluate calls.\<close>

definition echo_runtime :: "response option \<Rightarrow> runtime" where
  "echo_runtime rs =
     \<lparr>has_Request = True, has_URL = True, to_upper = (\<lambda>s. s), parse_url = Some,
      json_parse = (\<lambda>s. if s = js ''{}'' then Some (Obj []) else None), fetch = (\<lambda>_. rs)\<rparr>"

lemma echo_runtime_simps [simp]:
  "has_Request (echo_runtime rs)" "has_URL (echo_runtime rs)" "to_upper (echo_runtime rs) s = s"
  "parse_url (echo_runtime rs) = Some" "fetch (echo_runtime rs) call = rs"
  "json_parse (echo_runtime rs) s = (if s = js ''{}'' then Some (Obj []) else None)"
  by (simp_all add: echo_runtime_def)

definition json_post :: fetch_options where
  "json_post =
     \<lparr>o_method = Some (js ''POST''), o_headers = Some (HeaderPairs [(js ''X-Trace'', js '' 7 '')]),
      o_body = Some (TextBody (js ''{}'')), o_responseType = Some JsonType, o_rest = []\<rparr>"

definition token_config :: fetch_config where
  "token_config = \<lparr>base_url = Some (js ''https://api''), auth_getter = Some (GivesToken (Some (js ''t'')))\<rparr>"

definition plain_response :: "nat \<Rightarrow> string \<Rightarrow> string \<Rightarrow> response" where
  "plain_response code ty body =
     \<lparr>rs_status = code, rs_statusText = js ''Text'', rs_headers = [js ''content-type'' \<mapsto> js ty],
      rs_stream = SomeStream, rs_text = Some (js body), rs_blob = True, rs_url = []\<rparr>"

lemma demo_call:
  "\<exists>call. customFetch (echo_runtime rs) token_config (TextInput (js ''/parcels'')) json_post =
     (Some call, case rs of None \<Rightarrow> Inl FetchRejected
        | Some p \<Rightarrow> settle (echo_runtime rs) JsonType (js ''POST'') (js ''https://api/parcels'') p) \<and>
     call_input call = TextInput (js ''https://api/parcels'')"
proof -
  have "js ''https://api'' @ js ''/parcels'' = js ''https://api/parcels''" by (simp add: js_def)
  then show ?thesis
    by (simp add: customFetch_def token_config_def json_post_def applyBaseUrl_def
        resolveUrl_def resolveMethod_def attach_token_def Let_def)
qed


section \<open>The base URL\<close>

lemma strip_slashes_end: "\<not> suffix (js ''/'') (strip_slashes s)"
proof -
  have "strip_slashes s = [] \<or> last (strip_slashes s) \<noteq> 47"
    using hd_dropWhile [of "\<lambda>c. c = 47" "rev s"] by (auto simp: strip_slashes_def last_rev)
  then show ?thesis
    by (auto simp: suffix_def js_def unit_of_def)
qed

lemma strip_slashes_append: "\<exists>n. s = strip_slashes s @ replicate n 47"
proof -
  have "takeWhile (\<lambda>c. c = 47) (rev s) = replicate (length (takeWhile (\<lambda>c. c = 47) (rev s))) 47"
    by (metis (mono_tags, lifting) replicate_length_same set_takeWhileD)
  then have "rev s = replicate (length (takeWhile (\<lambda>c. c = 47) (rev s))) 47 @ dropWhile (\<lambda>c. c = 47) (rev s)"
    by (metis takeWhile_dropWhile_id)
  then have "s = strip_slashes s @ replicate (length (takeWhile (\<lambda>c. c = 47) (rev s))) 47"
    by (metis rev_append rev_replicate rev_rev_ident strip_slashes_def)
  then show ?thesis by blast
qed

text \<open>A base URL is kept without its trailing slashes and nothing else, and is put before
  exactly the inputs that start with a slash, so the two are joined by that one slash; a null,
  empty or all-slash base leaves every input as it is.\<close>

theorem base_url_joined:
  "\<exists>base n. u = base @ replicate n 47 \<and> \<not> endsWith base (js ''/'') \<and>
     applyBaseUrl rt (setBaseUrl (Some u) cfg) (TextInput path) =
       Inr (TextInput (if startsWith path (js ''/'') then base @ path else path)) \<and>
     applyBaseUrl rt (setBaseUrl None cfg) (TextInput path) = Inr (TextInput path)"
proof -
  obtain n where n: "u = strip_slashes u @ replicate n 47" using strip_slashes_append by blast
  have e: "strip_slashes [] = []" by (simp add: strip_slashes_def)
  have "applyBaseUrl rt (setBaseUrl (Some u) cfg) (TextInput path) =
      Inr (TextInput (if startsWith path (js ''/'') then strip_slashes u @ path else path))"
    by (auto simp: applyBaseUrl_def setBaseUrl_def resolveUrl_def e Let_def)
  moreover have "applyBaseUrl rt (setBaseUrl None cfg) (TextInput path) = Inr (TextInput path)"
    by (simp add: applyBaseUrl_def setBaseUrl_def)
  ultimately show ?thesis
    using n strip_slashes_end by blast
qed

section \<open>Outcomes\<close>

text \<open>What a response that has arrived comes to, as far as its status and its body decide it.\<close>

definition fails_with_status ::
    "runtime \<Rightarrow> response \<Rightarrow> jsstr \<Rightarrow> fetch_error + payload \<Rightarrow> bool" where
  "fails_with_status rt rs meth r \<longleftrightarrow>
     (\<exists>e. r = Inl (ApiErrorOf e) \<and> ae_status e = rs_status rs \<and> ae_method e = meth \<and>
        ae_headers e = rs_headers rs \<and> parseErrorBody rt rs meth = Inr (ae_data e) \<and>
        ae_message e = buildErrorMessage rs (ae_data e))"

definition fails_to_parse :: "runtime \<Rightarrow> response \<Rightarrow> jsstr \<Rightarrow> fetch_error + payload \<Rightarrow> bool" where
  "fails_to_parse rt rs meth r \<longleftrightarrow>
     (\<exists>e. r = Inl (ResponseParseErrorOf e) \<and> pe_status e = rs_status rs \<and> pe_method e = meth \<and>
        rs_text rs = Some (pe_rawBody e) \<and> json_parse rt (stripBom (pe_rawBody e)) = None)"

lemma settle_error:
  assumes "\<not> response_ok rs"
  shows "fails_with_status rt rs meth (settle rt ty meth url rs) \<or>
    settle rt ty meth url rs = Inl BodyUnreadable \<and> rs_text rs = None \<and> \<not> hasNoBody rs meth"
proof (cases "parseErrorBody rt rs meth")
  case (Inl e)
  then have "e = BodyUnreadable \<and> rs_text rs = None \<and> \<not> hasNoBody rs meth"
    by (auto simp: parseErrorBody_def read_text_def Let_def split: option.splits if_splits)
  with Inl assms show ?thesis by (simp add: settle_def)
next
  case (Inr d)
  with assms show ?thesis by (simp add: settle_def fails_with_status_def new_ApiError_def)
qed

lemma inferred_not_auto: "inferResponseType rs \<noteq> AutoType"
  by (simp add: inferResponseType_def Let_def)

lemma settle_success:
  assumes "response_ok rs"
  shows "(\<exists>v. settle rt ty meth url rs = Inr v \<and> (hasNoBody rs meth \<longrightarrow> v = Value Null)) \<or>
    \<not> hasNoBody rs meth \<and>
      (fails_to_parse rt rs meth (settle rt ty meth url rs) \<or>
       settle rt ty meth url rs = Inl BodyUnreadable \<and> rs_text rs = None \<or>
       (\<exists>m. settle rt ty meth url rs = Inl (TypeErrorOf m)) \<and> \<not> rs_blob rs)"
  using assms
  by (auto simp: settle_def parseSuccessBody_def parseJsonBody_def fails_to_parse_def new_ResponseParseError_def Let_def
      split: option.splits response_type.splits if_splits)

text \<open>C30: Once a response has arrived, its status and its body decide the outcome.  Outside 200 to 299 the
  call fails with an error that carries this status, the method, the headers, the data of the body and the
  message built from them; the one exception is a body that ought to be there and cannot be read.  From
  200 to 299 it gives a value, null when there is no body; or it fails because the body is no JSON,
  with an error that carries the status and the text, because it cannot be read, or because the runtime has
  no blobs.\<close>

theorem outcome_by_status:
  assumes "customFetch rt cfg input options = (Some call, r)" and "fetch rt call = Some rs"
  shows "(if response_ok rs then
      (\<exists>v. r = Inr v \<and> (hasNoBody rs (call_method call) \<longrightarrow> v = Value Null)) \<or>
      \<not> hasNoBody rs (call_method call) \<and>
        (fails_to_parse rt rs (call_method call) r \<or> r = Inl BodyUnreadable \<and> rs_text rs = None \<or>
         (\<exists>m. r = Inl (TypeErrorOf m)) \<and> \<not> rs_blob rs)
    else
      fails_with_status rt rs (call_method call) r \<or>
      r = Inl BodyUnreadable \<and> rs_text rs = None \<and> \<not> hasNoBody rs (call_method call))"
  using assms(1)
proof (rule customFetch_call)
  fix i
  assume m: "call_method call = resolveMethod rt i (o_method options)"
    and r: "r = (case fetch rt call of None \<Rightarrow> Inl FetchRejected
          | Some rs \<Rightarrow> settle rt (or_else (o_responseType options) AutoType)
                         (resolveMethod rt i (o_method options))
                         (or_else (resolveUrl rt i) (js ''undefined'')) rs)"
  then have "r = settle rt (or_else (o_responseType options) AutoType) (call_method call)
      (or_else (resolveUrl rt i) (js ''undefined'')) rs"
    using assms(2) by simp
  then show ?thesis
    using settle_success settle_error by (cases "response_ok rs") simp_all
qed

lemma outcome_by_status_witness:
  "\<exists>call e. customFetch (echo_runtime (Some (plain_response 404 ''application/json'' ''{}''))) token_config
        (TextInput (js ''/parcels'')) json_post = (Some call, Inl (ApiErrorOf e)) \<and> ae_status e = 404"
proof -
  let ?rs = "plain_response 404 ''application/json'' ''{}''"
  obtain call r where c: "customFetch (echo_runtime (Some ?rs)) token_config
      (TextInput (js ''/parcels'')) json_post = (Some call, r)" using demo_call by blast
  have "fetch (echo_runtime (Some ?rs)) call = Some ?rs" by simp
  from outcome_by_status [OF c this]
  have "fails_with_status (echo_runtime (Some ?rs)) ?rs (call_method call) r"
    by (simp add: response_ok_def plain_response_def)
  then show ?thesis using c by (auto simp: fails_with_status_def plain_response_def)
qed

section \<open>Bodies and messages\<close>

lemma trim_append_white:
  assumes "\<forall>c \<in> set a. is_white c" "\<forall>c \<in> set b. is_white c"
    and "m = [] \<or> \<not> is_white (hd m) \<and> \<not> is_white (last m)"
  shows "trim (a @ m @ b) = m"
proof (cases "m = []")
  case True
  then show ?thesis using assms by (auto simp: trim_eq_Nil)
next
  case False
  have skip: "\<forall>c \<in> set ys. is_white c \<Longrightarrow> dropWhile is_white (ys @ xs) = dropWhile is_white xs" for xs ys
    by (induction ys) auto
  have a: "dropWhile is_white (a @ xs) = dropWhile is_white xs"
    and b: "dropWhile is_white (rev b @ xs) = dropWhile is_white xs" for xs
    using skip [of a] skip [of "rev b"] assms(1,2) by (simp_all add: set_rev)
  have "dropWhile is_white (m @ b) = m @ b"
    using False assms(3) by (simp add: dropWhile_eq_self_iff)
  moreover have "dropWhile is_white (rev m) = rev m"
    using False assms(3) by (simp add: dropWhile_eq_self_iff hd_rev)
  ultimately show ?thesis by (simp add: trim_def trimStart_def a b)
qed

lemma before_sep_append: "sep \<notin> set a \<Longrightarrow> before_sep sep (a @ sep # b) = a"
  by (simp add: before_sep_def takeWhile_append)

lemma before_sep_none: "sep \<notin> set a \<Longrightarrow> before_sep sep a = a"
  by (simp add: before_sep_def takeWhile_eq_all_conv) metis

text \<open>The media type is read from the content type without its parameters, without blanks
  around it and in lower case, so a JSON type is recognised however it is written.\<close>

theorem media_type_normalised:
  assumes "h (js ''content-type'') = Some (a @ m @ b @ p)" and "p = [] \<or> hd p = 59"
    and "\<forall>c \<in> set a. is_white c" and "\<forall>c \<in> set b. is_white c" and "59 \<notin> set m"
    and "m \<noteq> []" and "\<not> is_white (hd m)" and "\<not> is_white (last m)"
  shows "getMediaType h = Some (map lower_latin1 m) \<and>
    (map lower_latin1 m = js ''application/json'' \<longrightarrow> isJsonMediaType (getMediaType h))"
proof -
  have "\<not> is_white 59" by (simp add: is_white_def)
  then have n: "59 \<notin> set (a @ m @ b)" using assms by auto
  have "before_sep 59 ((a @ m @ b) @ p) = a @ m @ b"
    using assms(2) before_sep_append [OF n] before_sep_none [OF n] by (cases p) auto
  then have "trim (before_sep 59 (a @ m @ b @ p)) = m"
    using trim_append_white [OF assms(3,4), of m] assms(7,8) by simp
  then have "getMediaType h = Some (map lower_latin1 m)"
    using assms(1,6) by (simp add: getMediaType_def)
  then show ?thesis by (simp add: isJsonMediaType_def)
qed

lemma media_type_normalised_witness:
  "isJsonMediaType (getMediaType [js ''content-type'' \<mapsto> js ''Application/JSON ; charset=utf-8''])"
proof -
  have "js ''Application/JSON ; charset=utf-8'' =
      [] @ js ''Application/JSON'' @ js '' '' @ js ''; charset=utf-8''"
    by (simp add: js_def)
  then have "[js ''content-type'' \<mapsto> js ''Application/JSON ; charset=utf-8''] (js ''content-type'') =
      Some ([] @ js ''Application/JSON'' @ js '' '' @ js ''; charset=utf-8'')" by simp
  from media_type_normalised [of "[js ''content-type'' \<mapsto> js ''Application/JSON ; charset=utf-8'']"
      "[]" "js ''Application/JSON''" "js '' ''" "js ''; charset=utf-8''", OF this, THEN conjunct2, THEN mp]
  show ?thesis
    by this (simp_all add: js_def unit_of_def is_white_def lower_latin1_def)
qed

text \<open>A byte order mark before a JSON body changes neither whether the body is accepted nor
  the value it gives, in any runtime and for every response type that reads JSON.\<close>

theorem bom_ignored:
  assumes "\<not> startsWith s [byte_order_mark]" and "ty = JsonType"
  shows "parseSuccessBody rt (rs\<lparr>rs_text := Some (byte_order_mark # s)\<rparr>) ty m u = Inr v \<longleftrightarrow>
    parseSuccessBody rt (rs\<lparr>rs_text := Some s\<rparr>) ty m u = Inr v"
proof -
  have "stripBom s = s" using assms(1) by (cases s) (auto simp: stripBom_def)
  moreover have "stripBom (byte_order_mark # s) = s" by (simp add: stripBom_def)
  ultimately show ?thesis
    using assms(2)
    by (auto simp: parseSuccessBody_def parseJsonBody_def hasNoBody_def new_ResponseParseError_def
        Let_def split: option.splits)
qed

lemma bom_ignored_witness:
  "parseSuccessBody (echo_runtime None) ((plain_response 200 ''application/json'' ''x'')
     \<lparr>rs_text := Some (byte_order_mark # js ''{}'')\<rparr>) JsonType (js ''GET'') u = Inr (Value (Obj []))"
  by (subst bom_ignored)
    (auto simp: byte_order_mark_def js_def unit_of_def parseSuccessBody_def hasNoBody_def
      plain_response_def NO_BODY_STATUS_def parseJsonBody_def stripBom_def trim_eq_Nil is_white_def
      prefix_def Let_def)

lemma length_truncate: "0 < n \<Longrightarrow> length (truncate s n) \<le> n"
  by (simp add: truncate_def)

lemma buildErrorMessage_fields:
  assumes "\<nexists>s. data = Value (Str s)"
  shows "\<exists>rest. buildErrorMessage rs data = status_line rs @ rest"
proof -
  define t d m where "t = getStringField data ''title''" and "d = getStringField data ''detail''"
    and "m = first_given (getStringField data ''message'')
      (first_given (getStringField data ''error_description'') (getStringField data ''error''))"
  have "buildErrorMessage rs data =
      (case (t, d, m) of
         (Some t, Some d, _) \<Rightarrow> status_line rs @ js '': '' @ t @ js '' '' @ [em_dash] @ js '' '' @ d
       | (_, Some d, _) \<Rightarrow> status_line rs @ js '': '' @ d
       | (_, _, Some m) \<Rightarrow> status_line rs @ js '': '' @ m
       | (Some t, _, _) \<Rightarrow> status_line rs @ js '': '' @ t
       | _ \<Rightarrow> status_line rs)"
    using assms unfolding buildErrorMessage_def t_def d_def m_def Let_def
    by (cases data; (cases "case data of Value v \<Rightarrow> v | _ \<Rightarrow> Null")?) simp_all
  then show ?thesis
    by (cases t; cases d; cases m) simp_all
qed

text \<open>An error message always starts with the status line; a text body adds at most 302
  code units to it, whatever the size of the body, and a blank one adds nothing.\<close>

theorem error_message_bounded:
  "startsWith (buildErrorMessage rs data) (status_line rs) \<and>
   (\<forall>s. data = Value (Str s) \<longrightarrow>
      length (buildErrorMessage rs data) \<le> length (status_line rs) + 302 \<and>
      (trim s = [] \<longrightarrow> buildErrorMessage rs data = status_line rs))"
proof (cases "\<exists>s. data = Value (Str s)")
  case True
  then obtain s where "data = Value (Str s)" by blast
  then show ?thesis
    using length_truncate [of 300 "trim s"] by (auto simp: buildErrorMessage_def Let_def)
next
  case False
  then have "\<exists>rest. buildErrorMessage rs data = status_line rs @ rest"
    by (rule buildErrorMessage_fields)
  with False show ?thesis by auto
qed

lemma error_message_bounded_witness:
  "length (buildErrorMessage (plain_response 500 ''text/plain'' ''x'') (Value (Str (js ''oops''))))
    \<le> length (status_line (plain_response 500 ''text/plain'' ''x'')) + 302"
  using error_message_bounded by simp

end
