(* ===== verification/Client_Properties.thy ===== *)
theory Client_Properties
  imports Api_Client Custom_Fetch_Properties
begin

text \<open>
  Properties of the generated client: which URLs identify an operation, what its requests look
  like when \<open>customFetch\<close> makes them, and where the generated code loses headers or mixes paths.
\<close>

section \<open>URLs\<close>

definition path_of_segments :: "jsstr list \<Rightarrow> jsstr" where
  "path_of_segments segs = concat (map (\<lambda>s. 47 # s) segs)"

lemma path_head: "path_of_segments segs = [] \<or> hd (path_of_segments segs) = 47"
  by (cases segs) (auto simp: path_of_segments_def)

lemma slash_free_cancel:
  fixes s t x y :: jsstr
  assumes "47 \<notin> set s" "47 \<notin> set t" "x = [] \<or> hd x = 47" "y = [] \<or> hd y = 47" "s @ x = t @ y"
  shows "s = t \<and> x = y"
proof -
  have *: "takeWhile (\<lambda>c. c \<noteq> 47) (u @ z) = u" if "47 \<notin> set u" "z = [] \<or> hd z = 47" for u z :: jsstr
  proof -
    have "takeWhile (\<lambda>c. c \<noteq> 47) (u @ z) = u @ takeWhile (\<lambda>c. c \<noteq> 47) z"
      using that(1) by (intro takeWhile_append2) metis
    then show ?thesis using that(2) by (cases z) simp_all
  qed
  have "s = t" using * [OF assms(1,3)] * [OF assms(2,4)] assms(5) by metis
  then show ?thesis using assms(5) by simp
qed

lemma path_of_segments_inj:
  "\<forall>s \<in> set as. 47 \<notin> set s \<Longrightarrow> \<forall>s \<in> set bs. 47 \<notin> set s \<Longrightarrow>
   path_of_segments as = path_of_segments bs \<Longrightarrow> as = bs"
proof (induction as arbitrary: bs)
  case Nil
  then show ?case by (cases bs) (simp_all add: path_of_segments_def)
next
  case (Cons a as)
  then obtain b bs' where bs: "bs = b # bs'" by (cases bs) (auto simp: path_of_segments_def)
  have "a @ path_of_segments as = b @ path_of_segments bs'"
    using Cons.prems(3) bs by (simp add: path_of_segments_def)
  then have "a = b \<and> path_of_segments as = path_of_segments bs'"
    using Cons.prems(1,2) bs by (intro slash_free_cancel path_head) auto
  moreover from this have "as = bs'"
    using Cons.prems(1,2) bs by (intro Cons.IH) auto
  ultimately show ?case using bs by simp
qed

lemma operation_url_segments: "operation_url op = path_of_segments (operation_segments op)"
  by (cases op) (simp_all add: url_defs url_with_params_def search_params_def path_of_segments_def
      js_def unit_of_def)

definition plain_param :: "operation \<Rightarrow> bool" where
  "plain_param op \<longleftrightarrow> (case operation_param op of None \<Rightarrow> True | Some i \<Rightarrow> 47 \<notin> set i)"

lemma segments_plain: "plain_param op \<Longrightarrow> \<forall>s \<in> set (operation_segments op). 47 \<notin> set s"
  by (cases op) (auto simp: plain_param_def js_def unit_of_def)

lemma operation_by_segments:
  "operation_method a = operation_method b \<Longrightarrow> operation_segments a = operation_segments b \<Longrightarrow> a = b"
  by (cases a; cases b; simp)

lemma operation_request_simps [simp]:
  "fst (operation_request fmt op data options) = TextInput (operation_url op)"
  "o_method (snd (operation_request fmt op data options)) = Some (js (operation_method op))"
  "o_responseType (snd (operation_request fmt op data options)) = o_responseType options"
  by (cases op; simp add: operation_defs api_call_def api_send_def)+

definition demo_format :: json_format where
  "demo_format = \<lparr>number_text = (\<lambda>q. show_int \<lfloor>q\<rfloor>), date_text = show_int\<rparr>"

text \<open>The input and method of a request identify the operation and its path parameter, as
  long as parameters contain no slash: no two operations of the client go to the same place.\<close>

theorem requests_identify_operations:
  assumes "plain_param a" and "plain_param b"
    and "fst (operation_request fmt a v o1) = fst (operation_request fmt b w o2)"
    and "o_method (snd (operation_request fmt a v o1)) = o_method (snd (operation_request fmt b w o2))"
  shows "a = b"
proof -
  have m: "operation_method a = operation_method b" and u: "operation_url a = operation_url b"
    using assms(3,4) by simp_all
  have "operation_segments a = operation_segments b"
    using path_of_segments_inj [OF segments_plain [OF assms(1)] segments_plain [OF assms(2)]] u
    by (simp add: operation_url_segments)
  with m show ?thesis by (rule operation_by_segments)
qed

lemma requests_identify_operations_witness:
  "fst (operation_request demo_format (OpGetParcel (js ''p1'')) Null no_options) \<noteq>
   fst (operation_request demo_format (OpListParcelEvidence (js ''p1'')) Null no_options)"
proof
  let ?a = "OpGetParcel (js ''p1'')" and ?b = "OpListParcelEvidence (js ''p1'')"
  assume same: "fst (operation_request demo_format ?a Null no_options) =
    fst (operation_request demo_format ?b Null no_options)"
  have plain: "plain_param ?a" "plain_param ?b" by (simp_all add: plain_param_def js_def unit_of_def)
  have "o_method (snd (operation_request demo_format ?a Null no_options)) =
      o_method (snd (operation_request demo_format ?b Null no_options))"
    unfolding operation_request_simps by simp
  then have "?a = ?b" by (rule requests_identify_operations [OF plain same])
  then show False by simp
qed

text \<open>Path parameters are not encoded: reading a parcel whose key ends in \<open>/evidence\<close> is the very
  request that lists the evidence of another parcel.\<close>

theorem unencoded_parameter_changes_operation:
  "operation_request fmt (OpGetParcel (i @ js ''/evidence'')) v options =
   operation_request fmt (OpListParcelEvidence i) w options"
  by (simp add: operation_defs url_defs)

section \<open>Requests\<close>

lemma get_body: "operation_method op = ''GET'' \<Longrightarrow>
    o_body (snd (operation_request fmt op data options)) = o_body options"
  by (cases op; simp add: operation_defs api_call_def)

lemma operation_method_cases: "operation_method op \<in> {''GET'', ''POST'', ''PUT'', ''PATCH''}"
  by (cases op; simp)

lemma resolve_plain_method:
  "to_upper rt (js m) = js m \<Longrightarrow> m \<noteq> [] \<Longrightarrow> resolveMethod rt i (Some (js m)) = js m"
  by (cases m) (simp_all add: resolveMethod_def js_def)

lemma attach_token_result:
  "auth_getter cfg \<noteq> Some ThrowsToken \<Longrightarrow> \<exists>h'. attach_token cfg h = Inr h'"
  by (cases "auth_getter cfg"; cases "the (auth_getter cfg)") (simp_all add: attach_token_def)

text \<open>The call of an operation, and how its response is settled.\<close>

lemma operation_performs:
  assumes "\<And>m. m \<in> {''GET'', ''POST'', ''PUT'', ''PATCH''} \<Longrightarrow> to_upper rt (js m) = js m"
    and "auth_getter cfg \<noteq> Some ThrowsToken" and "o_body options = None"
  shows "\<exists>call. perform rt cfg (operation_request fmt op data options) =
      (Some call, case fetch rt call of
         None \<Rightarrow> Inl FetchRejected
       | Some rs \<Rightarrow> settle rt (or_else (o_responseType options) AutoType) (js (operation_method op))
                      (or_else (base_url cfg) [] @ operation_url op) rs) \<and>
    call_method call = js (operation_method op) \<and>
    call_input call = TextInput (or_else (base_url cfg) [] @ operation_url op)"
proof -
  let ?opts = "snd (operation_request fmt op data options)"
  have slash: "startsWith (operation_url op) (js ''/'')"
    by (simp add: operation_url_segments path_of_segments_def)
      (cases op; simp add: js_def unit_of_def)
  have base: "applyBaseUrl rt cfg (TextInput (operation_url op)) =
      Inr (TextInput (or_else (base_url cfg) [] @ operation_url op))"
    using slash by (auto simp: applyBaseUrl_def resolveUrl_def Let_def)
  have meth: "resolveMethod rt i (Some (js (operation_method op))) = js (operation_method op)" for i
    using operation_method_cases [of op] by (intro resolve_plain_method assms(1)) auto
  have body: "o_body ?opts = None \<or> js (operation_method op) \<notin> {js ''GET'', js ''HEAD''}"
    using get_body [of op] assms(3) operation_method_cases [of op] by auto
  obtain h where h: "attach_token cfg (request_headers rt
      (TextInput (or_else (base_url cfg) [] @ operation_url op)) ?opts) = Inr h"
    using attach_token_result [OF assms(2)] by blast
  show ?thesis
    using base meth body h by (auto simp: perform_def customFetch_def resolveUrl_def Let_def)
qed

text \<open>C31: Every operation called without a body of the caller's own, in a runtime whose
  \<open>toUpperCase\<close> leaves upper-case ASCII alone and with a token getter that does not throw, reaches
  \<open>fetch\<close>, with the operation's method and its URL under the configured base.\<close>

theorem operations_reach_fetch:
  assumes "\<And>m. m \<in> {''GET'', ''POST'', ''PUT'', ''PATCH''} \<Longrightarrow> to_upper rt (js m) = js m"
    and "auth_getter cfg \<noteq> Some ThrowsToken" and "o_body options = None"
  shows "\<exists>call r. perform rt cfg (operation_request fmt op data options) = (Some call, r) \<and>
    call_method call = js (operation_method op) \<and>
    call_input call = TextInput (or_else (base_url cfg) [] @ operation_url op)"
  using operation_performs [OF assms] by blast

lemma operations_reach_fetch_witness:
  "\<exists>call r. perform (echo_runtime None) token_config
       (operation_request demo_format OpListParcels Null no_options) = (Some call, r) \<and>
     call_method call = js ''GET'' \<and>
     call_input call = TextInput (js ''https://api'' @ js ''/v1/parcels'')"
proof -
  have "\<exists>call r. perform (echo_runtime None) token_config
       (operation_request demo_format OpListParcels Null no_options) = (Some call, r) \<and>
     call_method call = js (operation_method OpListParcels) \<and>
     call_input call = TextInput (or_else (base_url token_config) [] @ operation_url OpListParcels)"
    by (rule operations_reach_fetch) (auto simp: token_config_def no_options_def echo_runtime_def)
  then show ?thesis by (simp add: token_config_def url_defs)
qed

text \<open>Operations with a body lose or mangle headers that are not a plain object with the exact
  key \<open>Content-Type\<close>: a \<open>Headers\<close> object contributes nothing at all, and a lower-case
  \<open>content-type\<close> is combined with the default instead of replacing it.\<close>

theorem body_operations_mangle_headers:
  "createParcel fmt data (options\<lparr>o_headers := Some (HeadersObject h)\<rparr>) =
     createParcel fmt data (options\<lparr>o_headers := None\<rparr>) \<and>
   mergeHeaders [o_headers (snd (createParcel fmt data
       (options\<lparr>o_headers := Some (HeaderPairs [(js ''content-type'', js ''text/plain'')])\<rparr>)))]
     (js ''content-type'') = Some (js ''application/json, text/plain'')"
  by (simp add: createParcel_def api_send_def mergeHeaders_def append_header_def header_name_def
      header_value_def js_def lower_ascii_def unit_of_def http_white_def Let_def)

end
