(* ===== verification/Toast_Store.thy ===== *)
theory Toast_Store
  imports Prelude
begin

text \<open>
  \<open>artifacts/landvault-web/src/hooks/use-toast.ts\<close>: the module-level toast store with its
  reducer, removal timers and listeners, and the hook that subscribes a component to it.  Timers
  are pairs of a toast and a due time; React is represented by the moments at which it renders a
  component and runs its effect.
\<close>

section \<open>Toasts and actions\<close>

text \<open>A function that is told when a toast opens or closes: the one that \<open>toast\<close> adds, which dismisses
  the toast of its key, or one of the caller, by its identity.\<close>

datatype open_handler = DismissOnClose jsstr | CallersHandler nat

text \<open>A toast: its key, the \<open>open\<close> flag and the \<open>onOpenChange\<close> function when present, and the
  remaining properties.\<close>

record toaster_toast =
  tt_id :: jsstr
  tt_open :: "bool option"
  tt_onOpenChange :: "open_handler option"
  tt_props :: "(jsstr \<times> jsval) list"

record toast_patch =
  tp_id :: "jsstr option"
  tp_open :: "bool option"
  tp_onOpenChange :: "open_handler option"
  tp_props :: "(jsstr \<times> jsval) list"

datatype action =
    ADD_TOAST toaster_toast
  | UPDATE_TOAST toast_patch
  | DISMISS_TOAST "jsstr option"
  | REMOVE_TOAST "jsstr option"

definition TOAST_LIMIT :: nat where "TOAST_LIMIT = 1"
definition TOAST_REMOVE_DELAY :: nat where "TOAST_REMOVE_DELAY = 1000000"
definition MAX_SAFE_INTEGER :: int where "MAX_SAFE_INTEGER = 9007199254740991"

text \<open>Timers by toast, with the time at which they are due.\<close>

type_synonym timeouts = "jsstr \<rightharpoonup> nat"

datatype phase = Absent | Rendered | Subscribed

record hook =
  h_phase :: phase
  h_state :: "toaster_toast list"

record toast_store =
  s_count :: int
  s_toasts :: "toaster_toast list"
  s_timeouts :: timeouts
  s_now :: nat
  s_listeners :: "nat list"
  s_hooks :: "nat \<Rightarrow> hook"

definition genId :: "toast_store \<Rightarrow> jsstr \<times> toast_store" where
  "genId s = (let c = (s_count s + 1) mod MAX_SAFE_INTEGER in (show_int c, s\<lparr>s_count := c\<rparr>))"

definition addToRemoveQueue :: "nat \<Rightarrow> jsstr \<Rightarrow> timeouts \<Rightarrow> timeouts" where
  "addToRemoveQueue now toastId timeouts =
     (if timeouts toastId \<noteq> None then timeouts
      else timeouts(toastId \<mapsto> now + TOAST_REMOVE_DELAY))"

section \<open>The reducer\<close>

definition apply_patch :: "toast_patch \<Rightarrow> toaster_toast \<Rightarrow> toaster_toast" where
  "apply_patch u t =
     \<lparr>tt_id = or_else (tp_id u) (tt_id t),
      tt_open = (case tp_open u of None \<Rightarrow> tt_open t | Some b \<Rightarrow> Some b),
      tt_onOpenChange = (case tp_onOpenChange u of None \<Rightarrow> tt_onOpenChange t | Some f \<Rightarrow> Some f),
      tt_props = spread (tt_props t) (tp_props u)\<rparr>"

fun reducer :: "toaster_toast list \<Rightarrow> action \<Rightarrow> toaster_toast list" where
  "reducer toasts (ADD_TOAST t) = take TOAST_LIMIT (t # toasts)"
| "reducer toasts (UPDATE_TOAST u) =
     map (\<lambda>t. if Some (tt_id t) = tp_id u then apply_patch u t else t) toasts"
| "reducer toasts (DISMISS_TOAST toastId) =
     map (\<lambda>t. if Some (tt_id t) = toastId \<or> toastId = None then t\<lparr>tt_open := Some False\<rparr> else t) toasts"
| "reducer toasts (REMOVE_TOAST toastId) =
     (case toastId of None \<Rightarrow> [] | Some i \<Rightarrow> filter (\<lambda>t. tt_id t \<noteq> i) toasts)"

text \<open>The side effects of the reducer: a dismissal queues the removal, of all toasts when the key
  is missing or empty.\<close>

definition queue_all :: "nat \<Rightarrow> toaster_toast list \<Rightarrow> timeouts \<Rightarrow> timeouts" where
  "queue_all now toasts timeouts = fold (\<lambda>t. addToRemoveQueue now (tt_id t)) toasts timeouts"

fun queue_removals :: "nat \<Rightarrow> toaster_toast list \<Rightarrow> action \<Rightarrow> timeouts \<Rightarrow> timeouts" where
  "queue_removals now toasts (DISMISS_TOAST toastId) timeouts =
     (if or_else toastId [] \<noteq> [] then addToRemoveQueue now (or_else toastId []) timeouts
      else queue_all now toasts timeouts)"
| "queue_removals now toasts _ timeouts = timeouts"

definition dispatch :: "action \<Rightarrow> toast_store \<Rightarrow> toast_store" where
  "dispatch a s =
     (let memory = reducer (s_toasts s) a in
      s\<lparr>s_toasts := memory,
        s_timeouts := queue_removals (s_now s) (s_toasts s) a (s_timeouts s),
        s_hooks := (\<lambda>h. if h \<in> set (s_listeners s) then (s_hooks s h)\<lparr>h_state := memory\<rparr>
                        else s_hooks s h)\<rparr>)"

section \<open>The functions of the module\<close>

definition toast :: "(jsstr \<times> jsval) list \<Rightarrow> toast_store \<Rightarrow> jsstr \<times> toast_store" where
  "toast props s =
     (let (i, s1) = genId s in
      (i, dispatch (ADD_TOAST \<lparr>tt_id = i, tt_open = Some True,
         tt_onOpenChange = Some (DismissOnClose i), tt_props = props\<rparr>) s1))"

definition update ::
    "jsstr \<Rightarrow> bool option \<Rightarrow> open_handler option \<Rightarrow> (jsstr \<times> jsval) list \<Rightarrow> toast_store \<Rightarrow> toast_store" where
  "update i is_open f props =
     dispatch (UPDATE_TOAST \<lparr>tp_id = Some i, tp_open = is_open, tp_onOpenChange = f, tp_props = props\<rparr>)"

definition dismiss :: "jsstr option \<Rightarrow> toast_store \<Rightarrow> toast_store" where
  "dismiss toastId = dispatch (DISMISS_TOAST toastId)"

text \<open>The function that \<open>toast\<close> adds: closing dismisses the toast of its key.  What a function of the
  caller does is the caller's own calls.\<close>

definition onOpenChange :: "jsstr \<Rightarrow> bool \<Rightarrow> toast_store \<Rightarrow> toast_store" where
  "onOpenChange i is_open s = (if \<not> is_open then dismiss (Some i) s else s)"

definition fire_timeout :: "jsstr \<Rightarrow> toast_store \<Rightarrow> toast_store" where
  "fire_timeout i s = dispatch (REMOVE_TOAST (Some i)) (s\<lparr>s_timeouts := (s_timeouts s)(i := None)\<rparr>)"

text \<open>The hook: \<open>useState(memoryState)\<close> at the first render, the effect that subscribes, its
  cleanup and repetition when the state changed, and the cleanup at unmounting.\<close>

definition render_hook :: "nat \<Rightarrow> toast_store \<Rightarrow> toast_store" where
  "render_hook h s =
     s\<lparr>s_hooks := (s_hooks s)(h := \<lparr>h_phase = Rendered, h_state = s_toasts s\<rparr>)\<rparr>"

definition subscribe_hook :: "nat \<Rightarrow> toast_store \<Rightarrow> toast_store" where
  "subscribe_hook h s =
     s\<lparr>s_listeners := s_listeners s @ [h],
       s_hooks := (s_hooks s)(h := (s_hooks s h)\<lparr>h_phase := Subscribed\<rparr>)\<rparr>"

definition cleanup_hook :: "nat \<Rightarrow> toast_store \<Rightarrow> toast_store" where
  "cleanup_hook h s =
     s\<lparr>s_listeners := remove1 h (s_listeners s),
       s_hooks := (s_hooks s)(h := (s_hooks s h)\<lparr>h_phase := Absent\<rparr>)\<rparr>"

definition initial_store :: toast_store where
  "initial_store =
     \<lparr>s_count = 0, s_toasts = [], s_timeouts = Map.empty, s_now = 0, s_listeners = [],
      s_hooks = (\<lambda>_. \<lparr>h_phase = Absent, h_state = []\<rparr>)\<rparr>"

section \<open>The store in time\<close>

text \<open>A step of the page: a call of the module's functions, a shown toast that reports that it has
  opened or closed, the passing of time (which stops at a
  timer that is due until that timer has run), a timer, or a moment in the life of a hook.\<close>

inductive store_step :: "toast_store \<Rightarrow> toast_store \<Rightarrow> bool" where
  call_toast: "store_step s (snd (toast props s))"
| call_update: "store_step s (update i is_open f props s)"
| call_dismiss: "store_step s (dismiss toastId s)"
| open_change: "t \<in> set (h_state (s_hooks s h)) \<Longrightarrow> tt_onOpenChange t = Some (DismissOnClose i) \<Longrightarrow>
    store_step s (onOpenChange i is_open s)"
| wait: "(\<forall>i due. s_timeouts s i = Some due \<longrightarrow> s_now s < due) \<Longrightarrow>
    store_step s (s\<lparr>s_now := Suc (s_now s)\<rparr>)"
| timer: "s_timeouts s i = Some due \<Longrightarrow> due \<le> s_now s \<Longrightarrow> store_step s (fire_timeout i s)"
| mount: "h_phase (s_hooks s h) = Absent \<Longrightarrow> store_step s (render_hook h s)"
| effect: "h_phase (s_hooks s h) = Rendered \<Longrightarrow> store_step s (subscribe_hook h s)"
| effect_again: "h_phase (s_hooks s h) = Subscribed \<Longrightarrow>
    store_step s (subscribe_hook h (cleanup_hook h s))"
| unmount: "h_phase (s_hooks s h) = Subscribed \<Longrightarrow> store_step s (cleanup_hook h s)"

abbreviation reachable_store :: "toast_store \<Rightarrow> bool" where
  "reachable_store \<equiv> reach (\<lambda>s. s = initial_store) store_step"

lemma store_start: "reachable_store initial_store"
  by (rule reach_start) (rule refl)

lemma store_later: "reachable_store s \<Longrightarrow> store_step s t \<Longrightarrow> reachable_store t"
  by (rule reach_step)

section \<open>Invariants\<close>

lemma dispatch_simps [simp]:
  "s_count (dispatch a s) = s_count s" "s_now (dispatch a s) = s_now s"
  "s_toasts (dispatch a s) = reducer (s_toasts s) a" "s_listeners (dispatch a s) = s_listeners s"
  "s_timeouts (dispatch a s) = queue_removals (s_now s) (s_toasts s) a (s_timeouts s)"
  "h_phase (s_hooks (dispatch a s) h) = h_phase (s_hooks s h)"
  "h_state (s_hooks (dispatch a s) h) =
     (if h \<in> set (s_listeners s) then reducer (s_toasts s) a else h_state (s_hooks s h))"
  by (simp_all add: dispatch_def Let_def)

lemma length_reducer: "length ts \<le> TOAST_LIMIT \<Longrightarrow> length (reducer ts a) \<le> TOAST_LIMIT"
  by (cases a) (auto simp: TOAST_LIMIT_def split: option.split
      intro: order_trans [OF length_filter_le])

lemma add_keeps: "timeouts i = Some due \<Longrightarrow> addToRemoveQueue now j timeouts i = Some due"
  by (auto simp: addToRemoveQueue_def)

lemma add_due: "addToRemoveQueue now j timeouts i = Some due \<Longrightarrow>
    timeouts i = Some due \<or> due = now + TOAST_REMOVE_DELAY"
  by (auto simp: addToRemoveQueue_def split: if_splits)

lemma add_has: "\<exists>due. addToRemoveQueue now i timeouts i = Some due"
  by (auto simp: addToRemoveQueue_def)

lemma queue_all_keeps: "timeouts i = Some due \<Longrightarrow> queue_all now ts timeouts i = Some due"
  unfolding queue_all_def by (induction ts arbitrary: timeouts) (auto intro: add_keeps)

lemma queue_all_due:
  "queue_all now ts timeouts i = Some due \<Longrightarrow> timeouts i = Some due \<or> due = now + TOAST_REMOVE_DELAY"
  unfolding queue_all_def by (induction ts arbitrary: timeouts) (auto dest!: add_due)

lemma queue_all_has: "t \<in> set ts \<Longrightarrow> \<exists>due. queue_all now ts timeouts (tt_id t) = Some due"
proof (induction ts arbitrary: timeouts)
  case Nil
  then show ?case by simp
next
  case (Cons u ts)
  show ?case
  proof (cases "t = u")
    case True
    obtain due where "addToRemoveQueue now (tt_id u) timeouts (tt_id u) = Some due"
      using add_has by blast
    from queue_all_keeps [of "addToRemoveQueue now (tt_id u) timeouts", OF this] True show ?thesis by (auto simp: queue_all_def)
  next
    case False
    then have "t \<in> set ts" using Cons.prems by simp
    from Cons.IH [OF this] show ?thesis by (simp add: queue_all_def)
  qed
qed

lemma queue_removals_due:
  "queue_removals now ts a timeouts i = Some due \<Longrightarrow>
     timeouts i = Some due \<or> due = now + TOAST_REMOVE_DELAY"
  by (cases a) (auto dest: add_due queue_all_due split: if_splits)

definition store_inv :: "toast_store \<Rightarrow> bool" where
  "store_inv s \<longleftrightarrow>
     length (s_toasts s) \<le> TOAST_LIMIT \<and> 0 \<le> s_count s \<and> s_count s < MAX_SAFE_INTEGER \<and>
     distinct (s_listeners s) \<and> (\<forall>h. h \<in> set (s_listeners s) \<longleftrightarrow> h_phase (s_hooks s h) = Subscribed) \<and>
     (\<forall>i due. s_timeouts s i = Some due \<longrightarrow> s_now s \<le> due \<and> due \<le> s_now s + TOAST_REMOVE_DELAY)"

lemma store_inv_dispatch: "store_inv s \<Longrightarrow> store_inv (dispatch a s)"
  by (auto simp: store_inv_def length_reducer dest!: queue_removals_due)

lemma store_inv_genId: "store_inv s \<Longrightarrow> store_inv (snd (genId s))"
  by (simp add: store_inv_def genId_def Let_def MAX_SAFE_INTEGER_def)

lemma store_step_inv: "store_step s t \<Longrightarrow> store_inv s \<Longrightarrow> store_inv t"
proof (induction rule: store_step.induct)
  case (call_toast s props)
  then show ?case
    using store_inv_genId [of s] by (auto simp: toast_def intro: store_inv_dispatch split: prod.split)
next
  case (wait s)
  then show ?case by (fastforce simp: store_inv_def Suc_le_eq)
next
  case (timer s i due)
  then have "store_inv (s\<lparr>s_timeouts := (s_timeouts s)(i := None)\<rparr>)" by (simp add: store_inv_def)
  then show ?case unfolding fire_timeout_def by (rule store_inv_dispatch)
qed (auto simp: update_def dismiss_def onOpenChange_def store_inv_dispatch,
    auto simp: store_inv_def render_hook_def subscribe_hook_def cleanup_hook_def distinct_remove1)

interpretation toast_machine: invariant_of "\<lambda>s. s = initial_store" store_step store_inv
  by unfold_locales (simp add: store_inv_def initial_store_def MAX_SAFE_INTEGER_def, rule store_step_inv)

lemmas reachable_store_inv = toast_machine.holds

section \<open>Properties\<close>

text \<open>C34: In every reachable state of the page at most one toast is shown, the listeners are
  exactly the subscribed hooks, each once, and no pending removal is overdue or more than the
  delay away.\<close>

theorem toast_store_invariant:
  assumes "reachable_store s"
  shows "length (s_toasts s) \<le> 1 \<and> distinct (s_listeners s) \<and>
    (\<forall>h. h \<in> set (s_listeners s) \<longleftrightarrow> h_phase (s_hooks s h) = Subscribed) \<and>
    (\<forall>i due. s_timeouts s i = Some due \<longrightarrow>
       s_now s \<le> due \<and> due \<le> s_now s + TOAST_REMOVE_DELAY)"
  using reachable_store_inv [OF assms] by (simp add: store_inv_def TOAST_LIMIT_def)

lemma toast_store_invariant_witness:
  "\<exists>s. reachable_store s \<and> length (s_toasts s) \<le> 1 \<and> s_toasts s \<noteq> []"
proof -
  have "reachable_store (snd (toast [] initial_store))"
    by (rule store_later [OF store_start call_toast])
  moreover from toast_store_invariant [OF this]
  have "length (s_toasts (snd (toast [] initial_store))) \<le> 1" by simp
  moreover have "s_toasts (snd (toast [] initial_store)) \<noteq> []"
    by (simp add: toast_def genId_def Let_def TOAST_LIMIT_def)
  ultimately show ?thesis by blast
qed

text \<open>Dismissing a toast by its key closes it, leaves every other toast alone and has its
  removal pending within the delay; when that timer runs the toast is gone.\<close>

theorem dismissal_removes:
  assumes "reachable_store s" and "i \<noteq> []" and "s' = dismiss (Some i) s"
  shows "(\<forall>t \<in> set (s_toasts s'). tt_id t = i \<longrightarrow> tt_open t = Some False) \<and>
    filter (\<lambda>t. tt_id t \<noteq> i) (s_toasts s') = filter (\<lambda>t. tt_id t \<noteq> i) (s_toasts s) \<and>
    (\<exists>due. s_timeouts s' i = Some due \<and> due \<le> s_now s + TOAST_REMOVE_DELAY) \<and>
    (\<forall>t \<in> set (s_toasts (fire_timeout i s')). tt_id t \<noteq> i)"
proof -
  have inv: "store_inv s'"
    using store_inv_dispatch [OF reachable_store_inv [OF assms(1)]] assms(3) by (simp add: dismiss_def)
  obtain due where due: "s_timeouts s' i = Some due"
    using add_has [of "s_now s" i] assms(2,3) by (auto simp: dismiss_def)
  have s': "s_toasts s' = map (\<lambda>t. if tt_id t = i then t\<lparr>tt_open := Some False\<rparr> else t) (s_toasts s)"
    "s_now s' = s_now s"
    using assms(3) by (simp_all add: dismiss_def)
  have "filter (\<lambda>t. tt_id t \<noteq> i) (map (\<lambda>t. if tt_id t = i then t\<lparr>tt_open := Some False\<rparr> else t) ts)
      = filter (\<lambda>t. tt_id t \<noteq> i) ts" for ts
    by (induction ts) auto
  then have f: "filter (\<lambda>t. tt_id t \<noteq> i) (s_toasts s') = filter (\<lambda>t. tt_id t \<noteq> i) (s_toasts s)"
    unfolding s'(1) .
  have c: "\<forall>t \<in> set (s_toasts s'). tt_id t = i \<longrightarrow> tt_open t = Some False"
    unfolding s'(1) by (simp del: if_image_distrib)
  have d: "due \<le> s_now s + TOAST_REMOVE_DELAY"
    using inv due s'(2) by (simp add: store_inv_def)
  have g: "\<forall>t \<in> set (s_toasts (fire_timeout i s')). tt_id t \<noteq> i"
    by (simp add: fire_timeout_def)
  show ?thesis
    by (intro conjI exI [of _ due] f c d g due)
qed

lemma dismissal_removes_witness:
  "\<exists>t. s_toasts (snd (toast [] initial_store)) = [t] \<and>
     (\<forall>u \<in> set (s_toasts (fire_timeout (tt_id t) (dismiss (Some (tt_id t)) (snd (toast [] initial_store))))).
        tt_id u \<noteq> tt_id t)"
proof -
  let ?s = "snd (toast [] initial_store)"
  obtain t where t: "s_toasts ?s = [t]" "tt_id t = show_int 1"
    by (simp add: toast_def genId_def initial_store_def Let_def TOAST_LIMIT_def MAX_SAFE_INTEGER_def)
  then have "tt_id t \<noteq> []" by (simp add: show_int_def digits_of.simps)
  from dismissal_removes [OF store_later [OF store_start call_toast] this refl] t show ?thesis by blast
qed

text \<open>A hook subscribes in an effect after it has rendered a snapshot, and does not look at
  the store again: a toast shown in between is missed, so a subscribed component may show no
  toast while the store holds an open one.\<close>

theorem subscription_misses_toast:
  "\<exists>s h t. reachable_store s \<and> h_phase (s_hooks s h) = Subscribed \<and> h_state (s_hooks s h) = [] \<and>
     s_toasts s = [t] \<and> tt_open t = Some True"
proof -
  let ?s1 = "render_hook 0 initial_store"
  let ?s2 = "snd (toast [] ?s1)"
  let ?s3 = "subscribe_hook 0 ?s2"
  have "store_step initial_store ?s1" by (rule mount) (simp add: initial_store_def)
  moreover have "store_step ?s1 ?s2" by (rule call_toast)
  moreover have "store_step ?s2 ?s3"
    by (rule effect) (simp add: toast_def genId_def render_hook_def Let_def)
  ultimately have "reachable_store ?s3" using store_start store_later by blast
  moreover have "h_phase (s_hooks ?s3 0) = Subscribed" by (simp add: subscribe_hook_def)
  moreover have "h_state (s_hooks ?s3 0) = []"
    by (simp add: subscribe_hook_def toast_def genId_def render_hook_def initial_store_def Let_def)
  moreover have "\<exists>t. s_toasts ?s3 = [t] \<and> tt_open t = Some True"
    by (simp add: subscribe_hook_def toast_def genId_def render_hook_def initial_store_def
        TOAST_LIMIT_def Let_def)
  ultimately show ?thesis by blast
qed

end
