(* ===== verification/Mockup_Plugin.thy ===== *)
theory Mockup_Plugin
  imports Json_Text
begin

text \<open>
  \<open>artifacts/mockup-sandbox/mockupPreviewPlugin.ts\<close>: the generated module, the file filters and
  the refresh state machine with its in-flight and queued flags.  The disk is the list of mockup
  files that the glob finds (paths under \<open>src/components/mockups\<close>); reading it, creating the directory
  and writing the generated file may fail.
\<close>

section \<open>The generated module\<close>

record discovered_component =
  globKey :: jsstr
  importPath :: jsstr

text \<open>For a file below \<open>src/\<close> (outside \<open>src/.generated\<close>, where the glob finds nothing).\<close>

definition component_of :: "jsstr \<Rightarrow> discovered_component" where
  "component_of f =
     \<lparr>globKey = js ''./'' @ drop (length ''src/'') f, importPath = js ''../'' @ drop (length ''src/'') f\<rparr>"

definition newline :: jsstr where "newline = [10]"

definition entry_line :: "discovered_component \<Rightarrow> jsstr" where
  "entry_line c = js ''  '' @ json_quote (globKey c) @ js '': () => import('' @ json_quote (importPath c) @ js '')''"

fun join :: "jsstr \<Rightarrow> jsstr list \<Rightarrow> jsstr" where
  "join sep [] = []"
| "join sep [s] = s"
| "join sep (s # t # ss) = s @ sep @ join sep (t # ss)"

definition generateSource :: "discovered_component list \<Rightarrow> jsstr" where
  "generateSource components =
     (let entries = join (js '','' @ newline) (map entry_line components) in
      join newline
        [js ''// This file is auto-generated by mockupPreviewPlugin.ts.'',
         js ''type ModuleMap = Record<string, () => Promise<Record<string, unknown>>>;'',
         js ''export const modules: ModuleMap = {'',
         entries,
         js ''};'',
         []])"

text \<open>The text determines the components.\<close>

lemma entry_line_cancel: "entry_line c @ x = entry_line d @ y \<longleftrightarrow> c = d \<and> x = y"
  by (auto simp: entry_line_def)

lemma entry_line_not_Nil [simp]: "entry_line c @ x \<noteq> []" "entry_line c \<noteq> []"
  by (simp_all add: entry_line_def json_quote_def)

lemma join_Cons: "join sep (s # ss) = s @ (if ss = [] then [] else sep @ join sep ss)"
  by (cases ss) simp_all

lemma join_entries_inj:
  "join (js '','' @ newline) (map entry_line cs) = join (js '','' @ newline) (map entry_line ds) \<Longrightarrow> cs = ds"
proof (induction cs arbitrary: ds)
  case Nil
  then show ?case by (cases ds) (auto simp: join_Cons)
next
  case (Cons c cs)
  then obtain d ds' where ds: "ds = d # ds'"
    by (cases ds) (auto simp: join_Cons)
  with Cons.prems have "c = d"
    and "(if cs = [] then [] else (js '','' @ newline) @ join (js '','' @ newline) (map entry_line cs)) =
      (if ds' = [] then [] else (js '','' @ newline) @ join (js '','' @ newline) (map entry_line ds'))"
    by (auto simp: join_Cons entry_line_cancel)
  moreover from this(2) have "cs = ds'"
    using Cons.IH [of ds'] by (auto split: if_splits)
  ultimately show ?case using ds by simp
qed

lemma generateSource_inj: "generateSource cs = generateSource ds \<longleftrightarrow> cs = ds"
  by (auto simp: generateSource_def Let_def dest: join_entries_inj)

section \<open>File filters\<close>

text \<open>Absolute paths are lists of segments; \<open>path.relative\<close> of the POSIX path module.\<close>

fun relative :: "jsstr list \<Rightarrow> jsstr list \<Rightarrow> jsstr list" where
  "relative (a # as) (b # bs) = (if a = b then relative as bs else map (\<lambda>_. js ''..'') (a # as) @ b # bs)"
| "relative as bs = map (\<lambda>_. js ''..'') as @ bs"

definition path_text :: "jsstr list \<Rightarrow> jsstr" where
  "path_text segs = join (js ''/'') segs"

definition isMockupFile :: "jsstr list \<Rightarrow> jsstr list \<Rightarrow> bool" where
  "isMockupFile mockupsDir file =
     (let rel = path_text (relative mockupsDir file) in
      \<not> startsWith rel (js ''..'') \<and> endsWith rel (js ''.tsx''))"

definition isPreviewTarget :: "jsstr list \<Rightarrow> bool" where
  "isPreviewTarget segs \<longleftrightarrow> (\<forall>segment \<in> set segs. \<not> startsWith segment (js ''_''))"

definition handles_add :: "jsstr list \<Rightarrow> jsstr list \<Rightarrow> bool" where
  "handles_add mockupsDir file \<longleftrightarrow>
     isMockupFile mockupsDir file \<and> isPreviewTarget (relative mockupsDir file)"

definition shouldAutoRescan :: "jsstr \<Rightarrow> bool" where
  "shouldAutoRescan pathname \<longleftrightarrow>
     contains_str pathname (js ''/components/mockups/'') \<or>
     contains_str pathname (js ''/.generated/mockup-components'')"

lemma relative_inside [simp]: "relative dir (dir @ rest) = rest"
  by (induction dir) auto

section \<open>The refresh state machine\<close>

text \<open>
  \<open>scanned\<close> is the result of the running glob once it has read the disk; \<open>generated\<close> is the
  content of the generated file.
\<close>

record plugin =
  disk :: "jsstr list"
  refreshInFlight :: bool
  refreshQueued :: bool
  scanned :: "jsstr list option"
  currentSource :: jsstr
  generated :: "jsstr option"

definition source_of :: "jsstr list \<Rightarrow> jsstr" where
  "source_of files = generateSource (map component_of files)"

text \<open>The call up to its first await: queue behind a running refresh, or start one.\<close>

definition begin_refresh :: "plugin \<Rightarrow> plugin" where
  "begin_refresh p =
     (if refreshInFlight p then p\<lparr>refreshQueued := True\<rparr>
      else p\<lparr>refreshInFlight := True, scanned := None\<rparr>)"

text \<open>After the \<open>finally\<close>: a queued request starts the follow-up.\<close>

definition follow_up :: "plugin \<Rightarrow> plugin" where
  "follow_up p = (if refreshQueued p then begin_refresh (p\<lparr>refreshQueued := False\<rparr>) else p)"

text \<open>The rest of the call, when the glob has resolved; the write of a changed source succeeds or
  throws.  The two throwing cases skip the follow-up.\<close>

definition finish_refresh :: "jsstr list \<Rightarrow> plugin \<Rightarrow> plugin" where
  "finish_refresh files p =
     (let newSource = source_of files;
          p1 = (if newSource \<noteq> currentSource p
                then p\<lparr>currentSource := newSource, generated := Some newSource\<rparr> else p)
      in follow_up (p1\<lparr>refreshInFlight := False, scanned := None\<rparr>))"

definition glob_fails :: "plugin \<Rightarrow> plugin" where
  "glob_fails p = p\<lparr>refreshInFlight := False, scanned := None\<rparr>"

definition write_fails :: "jsstr list \<Rightarrow> plugin \<Rightarrow> plugin" where
  "write_fails files p = p\<lparr>currentSource := source_of files, refreshInFlight := False, scanned := None\<rparr>"

text \<open>
  A change of the disk is followed by a call of \<open>refresh\<close> (the watcher, or the start of the
  server); \<open>notice\<close> says that this call has not come yet.
\<close>

type_synonym plugin_state = "plugin \<times> bool"

inductive plugin_step :: "bool \<Rightarrow> plugin_state \<Rightarrow> plugin_state \<Rightarrow> bool" for failing where
  change: "plugin_step failing (p, notice) (p\<lparr>disk := files\<rparr>, True)"
| call: "plugin_step failing (p, notice) (begin_refresh p, False)"
| scan: "refreshInFlight p \<Longrightarrow> scanned p = None \<Longrightarrow>
    plugin_step failing (p, notice) (p\<lparr>scanned := Some (disk p)\<rparr>, notice)"
| finish: "refreshInFlight p \<Longrightarrow> scanned p = Some files \<Longrightarrow>
    plugin_step failing (p, notice) (finish_refresh files p, notice)"
| glob_error: "failing \<Longrightarrow> refreshInFlight p \<Longrightarrow> scanned p = None \<Longrightarrow>
    plugin_step failing (p, notice) (glob_fails p, notice)"
| write_error: "failing \<Longrightarrow> refreshInFlight p \<Longrightarrow> scanned p = Some files \<Longrightarrow>
    source_of files \<noteq> currentSource p \<Longrightarrow>
    plugin_step failing (p, notice) (write_fails files p, notice)"

definition initial_plugin :: "jsstr list \<Rightarrow> plugin" where
  "initial_plugin files =
     \<lparr>disk = files, refreshInFlight = False, refreshQueued = False, scanned = None,
      currentSource = [], generated = None\<rparr>"

abbreviation plugin_reachable :: "bool \<Rightarrow> plugin_state \<Rightarrow> bool" where
  "plugin_reachable failing \<equiv> reach (\<lambda>c. \<exists>files. c = (initial_plugin files, True)) (plugin_step failing)"

lemma plugin_start: "plugin_reachable failing (initial_plugin files, True)"
  by (rule reach_start) blast

lemma plugin_later: "plugin_reachable failing c \<Longrightarrow> plugin_step failing c d \<Longrightarrow> plugin_reachable failing d"
  by (rule reach_step)

text \<open>Without failures: the file always holds the current source, requests are only queued behind a
  running refresh, and once every change has been noticed the running or queued refresh sees it.\<close>

definition plugin_inv :: "plugin_state \<Rightarrow> bool" where
  "plugin_inv c = (case c of (p, notice) \<Rightarrow>
     (refreshQueued p \<longrightarrow> refreshInFlight p) \<and>
     (currentSource p = [] \<and> generated p = None \<or> generated p = Some (currentSource p)) \<and>
     (\<not> notice \<longrightarrow> refreshInFlight p \<longrightarrow> \<not> refreshQueued p \<longrightarrow>
        scanned p = None \<or> scanned p = Some (disk p)) \<and>
     (\<not> notice \<longrightarrow> \<not> refreshInFlight p \<longrightarrow> currentSource p = source_of (disk p)))"

lemma source_not_Nil [simp]: "source_of files \<noteq> []" "[] \<noteq> source_of files"
  by (simp_all add: source_of_def generateSource_def Let_def)

lemma plugin_step_inv: "plugin_step False c d \<Longrightarrow> plugin_inv c \<Longrightarrow> plugin_inv d"
  by (induction rule: plugin_step.induct)
    (auto simp: plugin_inv_def begin_refresh_def finish_refresh_def follow_up_def Let_def)

interpretation plugin_machine:
  invariant_of "\<lambda>c. \<exists>files. c = (initial_plugin files, True)" "plugin_step False" plugin_inv
  by unfold_locales (clarsimp simp: plugin_inv_def initial_plugin_def, rule plugin_step_inv)

lemmas plugin_reachable_inv = plugin_machine.holds

section \<open>Hooks of the plugin\<close>

definition MOCKUPS_DIR :: "jsstr list" where
  "MOCKUPS_DIR = [js ''src'', js ''components'', js ''mockups'']"

definition GENERATED_MODULE :: "jsstr list" where
  "GENERATED_MODULE = [js ''src'', js ''.generated'', js ''mockup-components.ts'']"

definition getMockupsAbsDir :: "jsstr list \<Rightarrow> jsstr list" where
  "getMockupsAbsDir rt = rt @ MOCKUPS_DIR"

definition getGeneratedModuleAbsPath :: "jsstr list \<Rightarrow> jsstr list" where
  "getGeneratedModuleAbsPath rt = rt @ GENERATED_MODULE"

text \<open>\<open>fast-glob\<close> is the argument: the pattern, the directory it searches and the patterns it ignores.\<close>

type_synonym glob = "jsstr \<Rightarrow> jsstr list \<Rightarrow> jsstr list \<Rightarrow> jsstr list"

definition discoverComponents :: "glob \<Rightarrow> jsstr list \<Rightarrow> discovered_component list" where
  "discoverComponents glob rt =
     map component_of
       (glob (path_text MOCKUPS_DIR @ js ''/**/*.tsx'') rt [js ''**/_*/**'', js ''**/_*.tsx''])"

text \<open>What reaches the plugin: the configuration, the start of a build or of the server, the watcher, the
  end of a response, and the end of watching.  A path is the list of its segments.\<close>

datatype plugin_event =
    ConfigResolved "jsstr list"
  | BuildStart
  | ConfigureServer
  | FileAdded "jsstr list"
  | FileRemoved "jsstr list"
  | ResponseEnds nat jsstr
  | CloseWatcher

record plugin_host =
  host_root :: "jsstr list"
  watching :: bool

text \<open>The host's state after an event, and whether \<open>refresh\<close> is called.  Events of the watcher come only
  while it watches, responses only after the server was configured.\<close>

fun on_event :: "plugin_event \<Rightarrow> plugin_host \<Rightarrow> plugin_host \<times> bool" where
  "on_event (ConfigResolved rt) h = (h\<lparr>host_root := rt\<rparr>, False)"
| "on_event BuildStart h = (h, True)"
| "on_event ConfigureServer h = (h\<lparr>watching := True\<rparr>, True)"
| "on_event (FileAdded file) h = (h, handles_add (getMockupsAbsDir (host_root h)) file)"
| "on_event (FileRemoved file) h = (h, isMockupFile (getMockupsAbsDir (host_root h)) file)"
| "on_event (ResponseEnds statusCode pathname) h = (h, statusCode = 404 \<and> shouldAutoRescan pathname)"
| "on_event CloseWatcher h = (h\<lparr>watching := False\<rparr>, False)"

lemma endsWith_join:
  assumes "ss \<noteq> []" and "suffix t (last ss)"
  shows "suffix t (join sep ss)"
  using assms
by (induction sep ss rule: join.induct) (auto simp: suffix_append)

lemma relative_outside: "\<not> prefix dir f \<Longrightarrow> \<exists>rest. relative dir f = js ''..'' # rest"
  by (induction dir f rule: relative.induct) (auto split: if_splits simp: neq_Nil_conv)

text \<open>The watcher misses no component: when a file is added or removed that the glob would find (a
  \<open>.tsx\<close> file below the directory of the mockups with no segment that starts with an underscore),
  \<open>refresh\<close> is called; a file outside the directory causes no call.\<close>

theorem watched_files_refresh:
  assumes "segs \<noteq> []" and "suffix (js ''.tsx'') (last segs)" and "\<forall>s \<in> set segs. \<not> prefix (js ''_'') s"
    and "\<not> prefix (js ''..'') (path_text segs)"
    and "dir = getMockupsAbsDir (host_root h)" and "\<not> prefix dir outside"
  shows "snd (on_event (FileAdded (dir @ segs)) h) \<and> snd (on_event (FileRemoved (dir @ segs)) h) \<and>
    \<not> snd (on_event (FileAdded outside) h) \<and> \<not> snd (on_event (FileRemoved outside) h)"
proof -
  have "isMockupFile dir (dir @ segs)"
    using assms(4) endsWith_join [OF assms(1,2), of "js ''/''"] by (simp add: isMockupFile_def path_text_def Let_def)
  moreover from this assms(3) have "handles_add dir (dir @ segs)" by (simp add: handles_add_def isPreviewTarget_def)
  moreover have "\<not> isMockupFile dir outside"
    using relative_outside [OF assms(6)] by (auto simp: isMockupFile_def path_text_def join_Cons)
  ultimately show ?thesis by (simp add: assms(5) handles_add_def)
qed

section \<open>Properties\<close>

lemma component_of_inj:
  "startsWith f (js ''src/'') \<Longrightarrow> startsWith g (js ''src/'') \<Longrightarrow> component_of f = component_of g \<longleftrightarrow> f = g"
  by (auto simp: component_of_def prefix_def)

text \<open>Two lists of files below \<open>src/\<close> give the same generated text only if they are equal, so
  comparing texts (as \<open>refresh\<close> does) detects every change of the discovered components.\<close>

theorem source_determines_files:
  assumes "\<forall>f \<in> set fs. startsWith f (js ''src/'')" and "\<forall>g \<in> set gs. startsWith g (js ''src/'')"
  shows "source_of fs = source_of gs \<longleftrightarrow> fs = gs"
proof -
  have "inj_on component_of (set fs \<union> set gs)"
    using assms by (auto simp: inj_on_def component_of_inj)
  then have "map component_of fs = map component_of gs \<longleftrightarrow> fs = gs"
    by (auto simp: inj_on_map_eq_map)
  then show ?thesis by (simp add: source_of_def generateSource_inj)
qed

lemma source_determines_files_witness:
  "source_of [js ''src/a.tsx''] \<noteq> source_of [js ''src/a.tsx'', js ''src/b.tsx'']"
  by (subst source_determines_files) (auto simp: js_def prefix_def)

text \<open>As long as nothing fails, whenever no refresh is running and the last change of the disk
  has been noticed, the generated file is up to date, however calls and scans interleaved; and a
  request is never left queued without a refresh running.\<close>

theorem refresh_catches_up:
  assumes "plugin_reachable False (p, notice)"
  shows "(refreshQueued p \<longrightarrow> refreshInFlight p) \<and>
    (\<not> notice \<longrightarrow> \<not> refreshInFlight p \<longrightarrow> generated p = Some (source_of (disk p)))"
  using plugin_reachable_inv [OF assms] by (auto simp: plugin_inv_def)

lemma finish_scanned: "finish_refresh files (p\<lparr>scanned := x\<rparr>) = finish_refresh files p"
  by (simp add: finish_refresh_def Let_def)

lemma plugin_run:
  assumes "plugin_reachable failing (p, notice)" and "\<not> refreshInFlight p" and "\<not> refreshQueued p"
  shows "plugin_reachable failing (finish_refresh (disk p) (begin_refresh p), False)"
proof -
  have "plugin_reachable failing (begin_refresh p, False)"
    by (rule plugin_later [OF assms(1) call])
  from plugin_later [OF this scan]
  have "plugin_reachable failing ((begin_refresh p)\<lparr>scanned := Some (disk p)\<rparr>, False)"
    using assms(2) by (simp add: begin_refresh_def)
  from plugin_later [OF this finish [where files = "disk p"]] show ?thesis
    using assms(2) by (simp add: finish_scanned) (simp add: begin_refresh_def)
qed

lemma refresh_catches_up_witness:
  "\<exists>p. plugin_reachable False (p, False) \<and> \<not> refreshInFlight p \<and>
     generated p = Some (source_of [js ''src/components/mockups/A.tsx''])"
proof -
  let ?p = "initial_plugin [js ''src/components/mockups/A.tsx'']"
  let ?q = "finish_refresh (disk ?p) (begin_refresh ?p)"
  have r: "plugin_reachable False (?q, False)"
    by (rule plugin_run [OF plugin_start]) (simp_all add: initial_plugin_def)
  have q: "\<not> refreshInFlight ?q" "disk ?q = [js ''src/components/mockups/A.tsx'']"
    by (simp_all add: initial_plugin_def begin_refresh_def finish_refresh_def follow_up_def Let_def)
  from refresh_catches_up [OF r] q r show ?thesis by auto
qed

text \<open>If the glob throws while a request is queued, the request is lost: the state is idle
  with the queued flag still set, every change has been noticed, and the file is stale.\<close>

theorem failed_scan_loses_request:
  "\<exists>p. plugin_reachable True (p, False) \<and> \<not> refreshInFlight p \<and> refreshQueued p \<and>
     generated p \<noteq> Some (source_of (disk p))"
proof -
  let ?p = "initial_plugin []"
  have "plugin_reachable True (begin_refresh ?p, False)"
    by (rule plugin_later [OF plugin_start call])
  then have "plugin_reachable True (begin_refresh (begin_refresh ?p), False)"
    by (rule plugin_later [OF _ call])
  from plugin_later [OF this glob_error] have "plugin_reachable True (glob_fails (begin_refresh (begin_refresh ?p)), False)"
    by (simp add: begin_refresh_def initial_plugin_def)
  moreover have "\<not> refreshInFlight (glob_fails (begin_refresh (begin_refresh ?p)))"
    "refreshQueued (glob_fails (begin_refresh (begin_refresh ?p)))"
    "generated (glob_fails (begin_refresh (begin_refresh ?p))) = None"
    by (simp_all add: glob_fails_def begin_refresh_def initial_plugin_def)
  ultimately show ?thesis by (metis option.distinct(1))
qed

text \<open>If writing the generated file throws, the new source is remembered as written: the next
  refresh of the same files writes nothing, so the file stays missing or stale.\<close>

theorem failed_write_sticks:
  assumes "plugin_reachable True (p, notice)" and "refreshInFlight p" and "scanned p = Some files"
    and "source_of files \<noteq> currentSource p" and "q = write_fails files p"
  shows "plugin_reachable True (q, notice) \<and> generated q = generated p \<and>
    generated (finish_refresh files (begin_refresh q)) = generated p"
  using plugin_later [OF assms(1) write_error [OF TrueI assms(2-4)]] assms(5)
  by (simp add: write_fails_def finish_refresh_def begin_refresh_def follow_up_def Let_def)

lemma failed_write_sticks_witness:
  "\<exists>q. plugin_reachable True (q, False) \<and> \<not> refreshInFlight q \<and> generated q = None \<and>
     generated (finish_refresh (disk q) (begin_refresh q)) = None"
proof -
  let ?p = "(begin_refresh (initial_plugin []))\<lparr>scanned := Some []\<rparr>"
  have "plugin_reachable True (begin_refresh (initial_plugin []), False)"
    by (rule plugin_later [OF plugin_start call])
  from plugin_later [OF this scan] have "plugin_reachable True (?p, False)"
    by (simp add: begin_refresh_def initial_plugin_def)
  from failed_write_sticks [OF this _ _ _ refl, of "[]"]
  have w: "plugin_reachable True (write_fails [] ?p, False)"
    "generated (write_fails [] ?p) = None"
    "generated (finish_refresh [] (begin_refresh (write_fails [] ?p))) = None"
    by (simp_all add: begin_refresh_def initial_plugin_def)
  moreover have "\<not> refreshInFlight (write_fails [] ?p)" "disk (write_fails [] ?p) = []"
    by (simp_all add: write_fails_def begin_refresh_def initial_plugin_def)
  ultimately show ?thesis by auto
qed

end
