(* ===== verification/Mockup_App.thy ===== *)
theory Mockup_App
  imports Mockup_Plugin
begin

text \<open>
  The preview application \<open>artifacts/mockup-sandbox/src/App.tsx\<close>: the component shown for a
  module, the path of a preview, and the loading of previews as a step relation in which a
  changed path and the module loads it starts interleave.
\<close>

section \<open>Choosing the component of a module\<close>

text \<open>An export is a function or another value; a module lists its exports in the order of
  \<open>Object.values\<close>.\<close>

datatype export = Function nat | NoFunction jsval

fun truthy_export :: "export \<Rightarrow> bool" where
  "truthy_export (Function _) = True"
| "truthy_export (NoFunction v) = truthy v"

definition is_function :: "export \<Rightarrow> bool" where
  "is_function e = (case e of Function _ \<Rightarrow> True | NoFunction _ \<Rightarrow> False)"

type_synonym exports = "(jsstr \<times> export) list"

definition exported :: "exports \<Rightarrow> jsstr \<Rightarrow> export option" where
  "exported md name = (case map_of md name of
     Some e \<Rightarrow> if truthy_export e then Some e else None
   | None \<Rightarrow> None)"

definition resolveComponent :: "exports \<Rightarrow> jsstr \<Rightarrow> export option" where
  "resolveComponent md name =
     (let fns = filter is_function (map snd md) in
      case exported md (js ''default'') of Some e \<Rightarrow> Some e
      | None \<Rightarrow> (case exported md (js ''Preview'') of Some e \<Rightarrow> Some e
      | None \<Rightarrow> (case exported md name of Some e \<Rightarrow> Some e
      | None \<Rightarrow> if fns = [] then None else Some (last fns))))"

text \<open>\<open>path.split("/").pop()\<close>\<close>

definition last_segment :: "jsstr \<Rightarrow> jsstr" where
  "last_segment path = rev (takeWhile (\<lambda>c. c \<noteq> 47) (rev path))"

section \<open>Preview paths\<close>

definition getBasePath :: "jsstr \<Rightarrow> jsstr" where
  "getBasePath BASE_URL = (if endsWith BASE_URL (js ''/'') then butlast BASE_URL else BASE_URL)"

definition getPreviewExamplePath :: "jsstr \<Rightarrow> jsstr" where
  "getPreviewExamplePath BASE_URL = getBasePath BASE_URL @ js ''/preview/ComponentName''"

text \<open>The dot of a regular expression matches every code unit but the line terminators.\<close>

definition line_terminator :: "jschar \<Rightarrow> bool" where
  "line_terminator c \<longleftrightarrow> c = 10 \<or> c = 13 \<or> c = 0x2028 \<or> c = 0x2029"

definition match_preview :: "jsstr \<Rightarrow> jsstr option" where
  "match_preview local_path =
     (let rest = drop 9 local_path in
      if startsWith local_path (js ''/preview/'') \<and> rest \<noteq> [] \<and> (\<forall>c \<in> set rest. \<not> line_terminator c)
      then Some rest else None)"

definition getPreviewPath :: "jsstr \<Rightarrow> jsstr \<Rightarrow> jsstr option" where
  "getPreviewPath BASE_URL pathname =
     (let basePath = getBasePath BASE_URL;
          rest = drop (length basePath) pathname;
          local_path = (if basePath \<noteq> [] \<and> startsWith pathname basePath
            then (if rest = [] then js ''/'' else rest) else pathname)
      in match_preview local_path)"

section \<open>Loading a preview\<close>

text \<open>What the loader of a module gives: its exports, an \<open>Error\<close> with a message, or another
  thrown value as \<open>String\<close> writes it.\<close>

datatype load = Loaded exports | FailedWith jsstr | FailedOther jsstr

type_synonym modules = "jsstr \<rightharpoonup> load"

definition preview_key :: "jsstr \<Rightarrow> jsstr" where
  "preview_key componentPath = js ''./components/mockups/'' @ componentPath @ js ''.tsx''"

definition missing_text :: "jsstr \<Rightarrow> jsstr" where
  "missing_text componentPath = js ''No component found at '' @ componentPath @ js ''.tsx''"

definition no_component_text :: "jsstr \<Rightarrow> jsstr" where
  "no_component_text componentPath =
     js ''No exported React component found in '' @ componentPath @ js ''.tsx'' @ newline @ newline @
     js ''Make sure the file has at least one exported function component.''"

definition load_error_text :: "jsstr \<Rightarrow> jsstr" where
  "load_error_text message = js ''Failed to load preview.'' @ newline @ message"

text \<open>A run of the effect is pending while its module loads; its flag is \<open>cancelled\<close>.  \<open>prop\<close> is
  the path of the last render, \<open>effect_path\<close> that of the last run of the effect.\<close>

record preview =
  prop_path :: jsstr
  effect_path :: jsstr
  component :: "export option"
  error_text :: "jsstr option"
  pending :: "(jsstr \<times> bool) list"

definition initial_preview :: "jsstr \<Rightarrow> preview" where
  "initial_preview path =
     \<lparr>prop_path = path, effect_path = path, component = None, error_text = None, pending = []\<rparr>"

text \<open>The cleanup of the previous run and the next run of the effect up to its await.\<close>

definition cancel_runs :: "preview \<Rightarrow> preview" where
  "cancel_runs p = p\<lparr>pending := map (\<lambda>(path, _). (path, True)) (pending p)\<rparr>"

definition run_effect :: "modules \<Rightarrow> preview \<Rightarrow> preview" where
  "run_effect modules p =
     (let componentPath = prop_path p;
          q = p\<lparr>effect_path := componentPath, component := None, error_text := None\<rparr>
      in case modules (preview_key componentPath) of
           None \<Rightarrow> q\<lparr>error_text := Some (missing_text componentPath)\<rparr>
         | Some _ \<Rightarrow> q\<lparr>pending := pending q @ [(componentPath, False)]\<rparr>)"

definition loaded :: "jsstr \<Rightarrow> load \<Rightarrow> preview \<Rightarrow> preview" where
  "loaded componentPath result p =
     (case result of
        Loaded md \<Rightarrow> (case resolveComponent md (last_segment componentPath) of
            None \<Rightarrow> p\<lparr>error_text := Some (no_component_text componentPath)\<rparr>
          | Some chosen \<Rightarrow> p\<lparr>component := Some chosen\<rparr>)
      | FailedWith message \<Rightarrow> p\<lparr>error_text := Some (load_error_text message)\<rparr>
      | FailedOther text \<Rightarrow> p\<lparr>error_text := Some (load_error_text text)\<rparr>)"

text \<open>The loader of the pending run \<open>i\<close> settles.\<close>

definition settle_run :: "modules \<Rightarrow> nat \<Rightarrow> preview \<Rightarrow> preview" where
  "settle_run modules i p =
     (let (componentPath, cancelled) = pending p ! i;
          q = p\<lparr>pending := take i (pending p) @ drop (Suc i) (pending p)\<rparr>
      in if cancelled then q
         else case modules (preview_key componentPath) of
             None \<Rightarrow> q
           | Some result \<Rightarrow> loaded componentPath result q)"

datatype view = ErrorText jsstr | Blank | Shows export | Gallery jsstr

definition render_preview :: "preview \<Rightarrow> view" where
  "render_preview p =
     (if or_else (error_text p) [] \<noteq> [] then ErrorText (or_else (error_text p) [])
      else case component p of None \<Rightarrow> Blank | Some c \<Rightarrow> Shows c)"

inductive preview_step :: "modules \<Rightarrow> preview \<Rightarrow> preview \<Rightarrow> bool" for modules where
  rerender: "prop_path p = effect_path p \<Longrightarrow> preview_step modules p (p\<lparr>prop_path := path\<rparr>)"
| effect: "prop_path p \<noteq> effect_path p \<Longrightarrow> preview_step modules p (run_effect modules (cancel_runs p))"
| settled: "i < length (pending p) \<Longrightarrow> preview_step modules p (settle_run modules i p)"

abbreviation preview_reachable :: "modules \<Rightarrow> preview \<Rightarrow> bool" where
  "preview_reachable modules \<equiv>
     reach (\<lambda>p. \<exists>path. p = run_effect modules (initial_preview path)) (preview_step modules)"

lemma preview_start: "preview_reachable modules (run_effect modules (initial_preview path))"
  by (rule reach_start) blast

lemma preview_later: "preview_reachable modules p \<Longrightarrow> preview_step modules p q \<Longrightarrow> preview_reachable modules q"
  by (rule reach_step)

text \<open>The page: a preview or the gallery, by the path.\<close>

definition app_view :: "jsstr \<Rightarrow> jsstr \<Rightarrow> (jsstr \<Rightarrow> preview) \<Rightarrow> view" where
  "app_view BASE_URL pathname preview_of =
     (case getPreviewPath BASE_URL pathname of
        Some previewPath \<Rightarrow> render_preview (preview_of previewPath)
      | None \<Rightarrow> Gallery (getPreviewExamplePath BASE_URL))"

section \<open>What a path shows\<close>

definition preview_result :: "modules \<Rightarrow> jsstr \<Rightarrow> jsstr + export" where
  "preview_result modules path =
     (case modules (preview_key path) of
        None \<Rightarrow> Inl (missing_text path)
      | Some (Loaded md) \<Rightarrow> (case resolveComponent md (last_segment path) of
            None \<Rightarrow> Inl (no_component_text path)
          | Some chosen \<Rightarrow> Inr chosen)
      | Some (FailedWith message) \<Rightarrow> Inl (load_error_text message)
      | Some (FailedOther text) \<Rightarrow> Inl (load_error_text text))"

definition final_view :: "modules \<Rightarrow> jsstr \<Rightarrow> view" where
  "final_view modules path = (case preview_result modules path of Inl e \<Rightarrow> ErrorText e | Inr c \<Rightarrow> Shows c)"

definition live_runs :: "preview \<Rightarrow> (jsstr \<times> bool) list" where
  "live_runs p = filter (\<lambda>r. \<not> snd r) (pending p)"

definition has_settled :: "modules \<Rightarrow> preview \<Rightarrow> bool" where
  "has_settled modules p \<longleftrightarrow> (component p, error_text p) =
     (case preview_result modules (effect_path p) of Inl e \<Rightarrow> (None, Some e) | Inr c \<Rightarrow> (Some c, None))"

definition preview_inv :: "modules \<Rightarrow> preview \<Rightarrow> bool" where
  "preview_inv modules p \<longleftrightarrow>
     live_runs p = [] \<and> has_settled modules p \<or>
     live_runs p = [(effect_path p, False)] \<and> component p = None \<and> error_text p = None \<and>
       modules (preview_key (effect_path p)) \<noteq> None"

lemma preview_texts_not_Nil [simp]:
  "missing_text path \<noteq> []" "no_component_text path \<noteq> []" "load_error_text message \<noteq> []"
  by (simp_all add: missing_text_def no_component_text_def load_error_text_def)

lemma preview_result_not_Nil: "preview_result modules path \<noteq> Inl []"
  by (simp add: preview_result_def split: option.split load.split)

lemma live_runs_cancelled [simp]: "live_runs (cancel_runs p) = []"
  by (simp add: live_runs_def cancel_runs_def filter_map o_def case_prod_beta)

lemma run_effect_inv: "live_runs p = [] \<Longrightarrow> preview_inv modules (run_effect modules p)"
  by (cases "modules (preview_key (prop_path p))")
    (auto simp: preview_inv_def run_effect_def has_settled_def preview_result_def live_runs_def Let_def)

lemma filter_nth_split:
  "i < length xs \<Longrightarrow> filter P xs =
     filter P (take i xs) @ (if P (xs ! i) then [xs ! i] else []) @ filter P (drop (Suc i) xs)"
  by (subst id_take_nth_drop [of i xs]) simp_all

lemma loaded_settles:
  "modules (preview_key (effect_path p)) = Some result \<Longrightarrow> component p = None \<Longrightarrow> error_text p = None \<Longrightarrow>
   has_settled modules (loaded (effect_path p) result p)"
  by (auto simp: has_settled_def loaded_def preview_result_def split: load.split option.split)

lemma loaded_simps [simp]:
  "pending (loaded path result p) = pending p" "effect_path (loaded path result p) = effect_path p"
  "prop_path (loaded path result p) = prop_path p"
  by (auto simp: loaded_def split: load.split option.split)

lemma settle_run_inv:
  assumes i: "i < length (pending p)" and inv: "preview_inv modules p"
  shows "preview_inv modules (settle_run modules i p)"
proof -
  obtain path cancelled where run: "pending p ! i = (path, cancelled)" by fastforce
  let ?q = "p\<lparr>pending := take i (pending p) @ drop (Suc i) (pending p)\<rparr>"
  have live: "live_runs p = filter (\<lambda>r. \<not> snd r) (take i (pending p)) @
      (if cancelled then [] else [(path, cancelled)]) @ filter (\<lambda>r. \<not> snd r) (drop (Suc i) (pending p))"
    unfolding live_runs_def by (subst filter_nth_split [OF i]) (simp add: run)
  show ?thesis
  proof (cases cancelled)
    case True
    then have "settle_run modules i p = ?q" by (simp add: settle_run_def run)
    moreover have "live_runs ?q = live_runs p" using live True by (simp add: live_runs_def)
    ultimately show ?thesis using inv by (simp add: preview_inv_def has_settled_def)
  next
    case False
    with live inv have p: "path = effect_path p" "live_runs ?q = []" "component p = None" "error_text p = None"
      and m: "modules (preview_key (effect_path p)) \<noteq> None"
      by (auto simp: preview_inv_def live_runs_def append_eq_Cons_conv)
    from m obtain result where result: "modules (preview_key (effect_path p)) = Some result" by auto
    have "settle_run modules i p = loaded (effect_path ?q) result ?q"
      using False p(1) result by (simp add: settle_run_def run)
    moreover have "has_settled modules (loaded (effect_path ?q) result ?q)"
      by (rule loaded_settles) (simp_all add: result p)
    ultimately show ?thesis using p(2) by (simp add: preview_inv_def live_runs_def)
  qed
qed

lemma preview_step_inv: "preview_step modules p q \<Longrightarrow> preview_inv modules p \<Longrightarrow> preview_inv modules q"
proof (induction rule: preview_step.induct)
  case (rerender p path)
  then show ?case by (simp add: preview_inv_def has_settled_def live_runs_def)
next
  case (effect p)
  show ?case by (rule run_effect_inv) simp
next
  case (settled i p)
  then show ?case by (rule settle_run_inv)
qed

interpretation preview_machine:
  invariant_of "\<lambda>p. \<exists>path. p = run_effect modules (initial_preview path)" "preview_step modules" "preview_inv modules"
  for modules
proof unfold_locales
  fix p
  assume "\<exists>path. p = run_effect modules (initial_preview path)"
  then obtain path where "p = run_effect modules (initial_preview path)" by blast
  then show "preview_inv modules p"
    by (simp add: run_effect_inv initial_preview_def live_runs_def)
qed (blast intro: preview_step_inv)

lemmas preview_reachable_inv = preview_machine.holds

lemma render_settled: "has_settled modules p \<Longrightarrow> render_preview p = final_view modules (effect_path p)"
  using preview_result_not_Nil [of modules "effect_path p"]
  by (auto simp: has_settled_def render_preview_def final_view_def split: sum.splits)

section \<open>Properties\<close>

text \<open>C35: However path changes and module loads interleave, once the effect of the last path has
  run the page is blank or shows exactly what that path denotes, never the component of an
  earlier path; and it is not blank once no uncancelled load is pending.\<close>

theorem preview_shows_current:
  assumes "preview_reachable modules p" and "prop_path p = effect_path p"
  shows "render_preview p \<in> {Blank, final_view modules (prop_path p)} \<and>
    ((\<forall>r \<in> set (pending p). snd r) \<longrightarrow> render_preview p = final_view modules (prop_path p))"
proof -
  have "live_runs p = [] \<and> has_settled modules p \<or>
      live_runs p \<noteq> [] \<and> component p = None \<and> error_text p = None"
    using preview_reachable_inv [OF assms(1)] by (auto simp: preview_inv_def)
  then show ?thesis
  proof
    assume "live_runs p = [] \<and> has_settled modules p"
    then show ?thesis using render_settled assms(2) by simp
  next
    assume p: "live_runs p \<noteq> [] \<and> component p = None \<and> error_text p = None"
    then have "render_preview p = Blank" by (simp add: render_preview_def)
    moreover have "\<not> (\<forall>r \<in> set (pending p). snd r)" using p by (auto simp: live_runs_def filter_empty_conv)
    ultimately show ?thesis by blast
  qed
qed

lemma preview_shows_current_witness:
  "\<exists>p. preview_reachable [preview_key (js ''A'') \<mapsto> Loaded [(js ''default'', Function 7)]] p \<and>
     render_preview p = Shows (Function 7)"
proof -
  let ?m = "[preview_key (js ''A'') \<mapsto> Loaded [(js ''default'', Function 7)]]"
  let ?p = "run_effect ?m (initial_preview (js ''A''))"
  have pending: "pending ?p = [(js ''A'', False)]"
    by (simp add: run_effect_def initial_preview_def Let_def)
  have "preview_reachable ?m (settle_run ?m 0 ?p)"
    by (rule preview_later [OF preview_start settled]) (simp add: pending)
  moreover have path: "prop_path (settle_run ?m 0 ?p) = js ''A''" "effect_path (settle_run ?m 0 ?p) = js ''A''"
    "pending (settle_run ?m 0 ?p) = []"
    by (simp_all add: settle_run_def run_effect_def initial_preview_def Let_def)
  ultimately have "render_preview (settle_run ?m 0 ?p) = final_view ?m (js ''A'')"
    using preview_shows_current [of ?m "settle_run ?m 0 ?p"] by simp
  also have "\<dots> = Shows (Function 7)"
    by (simp add: final_view_def preview_result_def resolveComponent_def exported_def Let_def)
  finally show ?thesis using \<open>preview_reachable ?m (settle_run ?m 0 ?p)\<close> by blast
qed

text \<open>C36: For every deployment base, the path of a preview under it is read back as the component
  name, and the example that the gallery shows is such a path.\<close>

theorem preview_path_roundtrip:
  assumes "name \<noteq> []" and "\<forall>c \<in> set name. \<not> line_terminator c"
  shows "getPreviewPath BASE_URL (getBasePath BASE_URL @ js ''/preview/'' @ name) = Some name \<and>
    getPreviewPath BASE_URL (getPreviewExamplePath BASE_URL) = Some (js ''ComponentName'')"
proof -
  have preview: "match_preview (js ''/preview/'' @ n) = Some n"
    if "n \<noteq> []" "\<forall>c \<in> set n. \<not> line_terminator c" for n
    using that by (simp add: match_preview_def)
  have path: "getPreviewPath BASE_URL (getBasePath BASE_URL @ js ''/preview/'' @ n) = Some n"
    if "n \<noteq> []" "\<forall>c \<in> set n. \<not> line_terminator c" for n
    using preview [OF that] by (auto simp: getPreviewPath_def Let_def)
  have "getPreviewExamplePath BASE_URL = getBasePath BASE_URL @ js ''/preview/'' @ js ''ComponentName''"
    by (simp add: getPreviewExamplePath_def js_def)
  then show ?thesis
    using path [OF assms] path [of "js ''ComponentName''"] by (simp add: js_def line_terminator_def unit_of_def)
qed

lemma preview_path_roundtrip_witness:
  "getPreviewPath (js ''/sandbox/'') (getBasePath (js ''/sandbox/'') @ js ''/preview/'' @ js ''a/B'') = Some (js ''a/B'')"
  using preview_path_roundtrip [of "js ''a/B''" "js ''/sandbox/''"]
  by (simp add: js_def line_terminator_def unit_of_def)

text \<open>Every mockup file that the plugin discovers is found under its path: the key it puts in
  the generated module is the key that the preview of that path looks up.\<close>

theorem discovered_key_is_previewed:
  "globKey (component_of (js ''src/components/mockups/'' @ path @ js ''.tsx'')) = preview_key path"
  by (simp add: component_of_def preview_key_def js_def)

end
