(* ===== verification/Web_Auth.thy ===== *)
theory Web_Auth
  imports Client_Properties
begin

text \<open>
  Authentication in \<open>artifacts/landvault-web/src\<close>: the settings checked at start-up
  (\<open>lib/supabase-client.ts\<close>, \<open>lib/api-base-url.ts\<close>), the token getter and the provider of
  \<open>lib/auth-context.tsx\<close>, the gate \<open>components/require-auth.tsx\<close>, the sign-in form and
  \<open>isAccessDeniedError\<close>.  Supabase is the sequence of its sessions and the messages it sends.
\<close>

section \<open>Start-up\<close>

definition supabase_settings :: "jsstr option \<Rightarrow> jsstr option \<Rightarrow> jsstr + jsstr \<times> jsstr" where
  "supabase_settings url anonKey =
     (if or_else url [] = [] \<or> or_else anonKey [] = [] then
        Inl (js ''VITE_SUPABASE_URL and VITE_SUPABASE_ANON_KEY are required (see .env.example). '' @
             js ''Only the public anon key belongs here '' @ [em_dash] @ js '' never a service-role key.'')
      else Inr (or_else url [], or_else anonKey []))"

definition api_base_settings :: "jsstr option \<Rightarrow> fetch_config \<Rightarrow> jsstr + fetch_config" where
  "api_base_settings apiBaseUrl cfg =
     (if or_else apiBaseUrl [] = [] then
        Inl (js ''VITE_API_BASE_URL is required (see .env.example) '' @ [em_dash] @
             js '' without it, API requests '' @
             js ''resolve against this app's own origin instead of the FastAPI backend.'')
      else Inr (setBaseUrl apiBaseUrl cfg))"

section \<open>Sessions\<close>

record user = email :: "jsstr option"

record session =
  access_token :: jsstr
  session_user :: user

text \<open>The getter reads the session that Supabase holds when a request is made.\<close>

definition session_getter :: "session option \<Rightarrow> token_getter" where
  "session_getter s = GivesToken (map_option access_token s)"

definition web_config :: "session option \<Rightarrow> fetch_config \<Rightarrow> fetch_config" where
  "web_config s cfg = setAuthTokenGetter (Some (session_getter s)) cfg"

section \<open>The provider\<close>

text \<open>Supabase answers \<open>getSession\<close> once, or fails to, and sends a message for every change of
  its session; it may also repeat the current one.\<close>

datatype message = ReadResult "session option" | StateChange "session option"

datatype read_phase = Reading | Answered | ReadFailed

record auth =
  session_state :: "session option"
  isLoading :: bool
  subscribed :: bool
  read :: read_phase
  messages :: "message list"
  held :: "session option"

text \<open>The first render and its effect.\<close>

definition initial_auth :: "session option \<Rightarrow> auth" where
  "initial_auth s =
     \<lparr>session_state = None, isLoading = True, subscribed = True, read = Reading, messages = [], held = s\<rparr>"

fun receive :: "message \<Rightarrow> auth \<Rightarrow> auth" where
  "receive (ReadResult s) a = a\<lparr>session_state := s, isLoading := False\<rparr>"
| "receive (StateChange s) a = (if subscribed a then a\<lparr>session_state := s\<rparr> else a)"

definition take_message :: "nat \<Rightarrow> auth \<Rightarrow> auth" where
  "take_message i a =
     receive (messages a ! i) (a\<lparr>messages := take i (messages a) @ drop (Suc i) (messages a)\<rparr>)"

text \<open>
  \<open>orderly\<close>: messages arrive in the order in which they were sent and the read does not fail.
\<close>

inductive auth_step :: "bool \<Rightarrow> auth \<Rightarrow> auth \<Rightarrow> bool" for orderly where
  changes: "auth_step orderly a (a\<lparr>held := s, messages := messages a @ [StateChange s]\<rparr>)"
| repeats: "auth_step orderly a (a\<lparr>messages := messages a @ [StateChange (held a)]\<rparr>)"
| answers: "read a = Reading \<Longrightarrow>
    auth_step orderly a (a\<lparr>read := Answered, messages := messages a @ [ReadResult (held a)]\<rparr>)"
| fails: "\<not> orderly \<Longrightarrow> read a = Reading \<Longrightarrow> auth_step orderly a (a\<lparr>read := ReadFailed\<rparr>)"
| arrives: "i < length (messages a) \<Longrightarrow> (orderly \<longrightarrow> i = 0) \<Longrightarrow> auth_step orderly a (take_message i a)"
| unmounts: "auth_step orderly a (a\<lparr>subscribed := False\<rparr>)"

abbreviation auth_reachable :: "bool \<Rightarrow> auth \<Rightarrow> bool" where
  "auth_reachable orderly \<equiv> reach (\<lambda>a. \<exists>s. a = initial_auth s) (auth_step orderly)"

lemma auth_start: "auth_reachable orderly (initial_auth s)"
  by (rule reach_start) blast

lemma auth_later: "auth_reachable orderly a \<Longrightarrow> auth_step orderly a b \<Longrightarrow> auth_reachable orderly b"
  by (rule reach_step)

section \<open>The gate and the form\<close>

datatype gate = Spinner | RedirectTo jsstr | Children

definition RequireAuth :: "auth \<Rightarrow> gate" where
  "RequireAuth a =
     (if isLoading a then Spinner
      else case session_state a of None \<Rightarrow> RedirectTo (js ''/sign-in'') | Some _ \<Rightarrow> Children)"

text \<open>The answer to a sign-in: accepted, refused with a message, or a rejected promise.\<close>

datatype sign_in_answer = Accepted | Refused jsstr | Rejected

record sign_in_form =
  form_email :: jsstr
  form_password :: jsstr
  form_error :: "jsstr option"
  isSubmitting :: bool
  goes_to :: "jsstr option"

definition signInWithPassword :: "(jsstr \<Rightarrow> jsstr \<Rightarrow> sign_in_answer) \<Rightarrow> jsstr \<Rightarrow> jsstr \<Rightarrow> jsstr option option" where
  "signInWithPassword supabase mail password =
     (case supabase mail password of
        Accepted \<Rightarrow> Some None | Refused message \<Rightarrow> Some (Some message) | Rejected \<Rightarrow> None)"

definition begin_submit :: "sign_in_form \<Rightarrow> sign_in_form" where
  "begin_submit f = f\<lparr>form_error := None, isSubmitting := True\<rparr>"

text \<open>After the await, which a rejected promise never gets past.\<close>

definition end_submit :: "jsstr option option \<Rightarrow> sign_in_form \<Rightarrow> sign_in_form" where
  "end_submit answer f =
     (case answer of
        None \<Rightarrow> f
      | Some signInError \<Rightarrow>
          let g = f\<lparr>isSubmitting := False\<rparr> in
          if or_else signInError [] \<noteq> [] then g\<lparr>form_error := signInError\<rparr>
          else g\<lparr>goes_to := Some (js ''/'')\<rparr>)"

definition handleSubmit :: "(jsstr \<Rightarrow> jsstr \<Rightarrow> sign_in_answer) \<Rightarrow> sign_in_form \<Rightarrow> sign_in_form" where
  "handleSubmit supabase f =
     end_submit (signInWithPassword supabase (form_email f) (form_password f)) (begin_submit f)"

definition isAccessDeniedError :: "fetch_error \<Rightarrow> bool" where
  "isAccessDeniedError error = (case error of ApiErrorOf e \<Rightarrow> ae_status e = 403 | _ \<Rightarrow> False)"

section \<open>Invariants\<close>

fun message_session :: "message \<Rightarrow> session option" where
  "message_session (ReadResult s) = s"
| "message_session (StateChange s) = s"

fun is_read_result :: "message \<Rightarrow> bool" where
  "is_read_result (ReadResult _) = True"
| "is_read_result (StateChange _) = False"

text \<open>What the provider will end with once the messages under way have arrived.\<close>

definition auth_inv :: "auth \<Rightarrow> bool" where
  "auth_inv a \<longleftrightarrow>
     (isLoading a \<longleftrightarrow> read a = Reading \<or> (\<exists>m \<in> set (messages a). is_read_result m)) \<and>
     (\<forall>m \<in> set (messages a). is_read_result m \<longrightarrow> read a = Answered) \<and>
     length (filter is_read_result (messages a)) \<le> 1 \<and> read a \<noteq> ReadFailed \<and>
     (messages a \<noteq> [] \<longrightarrow> message_session (last (messages a)) = held a) \<and>
     (messages a = [] \<and> read a = Answered \<and> subscribed a \<longrightarrow> session_state a = held a)"

lemma receive_simps [simp]:
  "messages (receive m a) = messages a" "held (receive m a) = held a" "read (receive m a) = read a"
  "subscribed (receive m a) = subscribed a"
  "isLoading (receive m a) = (isLoading a \<and> \<not> is_read_result m)"
  by (cases m; simp)+

lemma receive_session: "subscribed a \<Longrightarrow> session_state (receive m a) = message_session m"
  by (cases m) simp_all

lemma take_first_inv:
  assumes "messages a \<noteq> []" and "auth_inv a"
  shows "auth_inv (take_message 0 a)"
proof -
  obtain m ms where m: "messages a = m # ms" using assms(1) by (cases "messages a") simp_all
  then have t: "take_message 0 a = receive m (a\<lparr>messages := ms\<rparr>)" by (simp add: take_message_def)
  show ?thesis
    using assms(2) receive_session [of "a\<lparr>messages := ms\<rparr>" m]
    by (auto simp: auth_inv_def m t filter_empty_conv split: if_splits)
qed

lemma auth_step_inv: "auth_step True a b \<Longrightarrow> auth_inv a \<Longrightarrow> auth_inv b"
proof (induction rule: auth_step.induct)
  case (changes a s)
  then show ?case by (auto simp: auth_inv_def)
next
  case (repeats a)
  then show ?case by (auto simp: auth_inv_def)
next
  case (answers a)
  then show ?case by (auto simp: auth_inv_def filter_empty_conv)
next
  case (fails a)
  then show ?case by simp
next
  case (arrives i a)
  then show ?case using take_first_inv [of a] by auto
next
  case (unmounts a)
  then show ?case by (auto simp: auth_inv_def)
qed

interpretation auth_machine: invariant_of "\<lambda>a. \<exists>s. a = initial_auth s" "auth_step True" auth_inv
  by unfold_locales (clarsimp simp: auth_inv_def initial_auth_def, rule auth_step_inv)

lemmas auth_reachable_inv = auth_machine.holds

definition loads_until_read :: "auth \<Rightarrow> bool" where
  "loads_until_read a \<longleftrightarrow> (read a = ReadFailed \<longrightarrow> isLoading a) \<and>
     (read a \<noteq> Answered \<longrightarrow> isLoading a \<and> \<not> (\<exists>m \<in> set (messages a). is_read_result m))"

lemma auth_step_loads: "auth_step orderly a b \<Longrightarrow> loads_until_read a \<Longrightarrow> loads_until_read b"
  by (induction rule: auth_step.induct)
    (auto simp: loads_until_read_def take_message_def dest: in_set_takeD in_set_dropD)

interpretation loading_machine: invariant_of "\<lambda>a. \<exists>s. a = initial_auth s" "auth_step orderly" loads_until_read
  for orderly
  by unfold_locales (clarsimp simp: loads_until_read_def initial_auth_def, rule auth_step_loads)

lemmas failed_read_loads = loading_machine.holds [unfolded loads_until_read_def]

section \<open>Properties\<close>

text \<open>C33: As long as messages arrive in order and the first read succeeds, once nothing is under way
  the gate follows the session that Supabase holds, whatever sign-ins, sign-outs and refreshes
  happened; until the first read has been answered it shows neither the page nor a redirect.\<close>

theorem gate_follows_supabase:
  assumes "auth_reachable True a" and "subscribed a"
  shows "(messages a = [] \<and> read a = Answered \<longrightarrow>
      RequireAuth a = (if held a = None then RedirectTo (js ''/sign-in'') else Children)) \<and>
    (read a = Reading \<longrightarrow> RequireAuth a = Spinner)"
  using auth_reachable_inv [OF assms(1)] assms(2)
  by (auto simp: auth_inv_def RequireAuth_def split: option.split)

lemma auth_run_read: "auth_reachable orderly (take_message 0 ((initial_auth s)\<lparr>read := Answered, messages := [ReadResult s]\<rparr>))"
proof -
  have "auth_reachable orderly ((initial_auth s)\<lparr>read := Answered, messages := [ReadResult s]\<rparr>)"
    using auth_later [OF auth_start answers] by (simp add: initial_auth_def)
  from auth_later [OF this arrives [of 0]] show ?thesis by simp
qed

lemma gate_follows_supabase_witness:
  "\<exists>a. auth_reachable True a \<and> held a = Some \<lparr>access_token = js ''t'', session_user = \<lparr>email = None\<rparr>\<rparr> \<and>
     RequireAuth a = Children"
proof -
  let ?s = "Some \<lparr>access_token = js ''t'', session_user = \<lparr>email = None\<rparr>\<rparr>"
  let ?a = "take_message 0 ((initial_auth ?s)\<lparr>read := Answered, messages := [ReadResult ?s]\<rparr>)"
  have r: "auth_reachable True ?a" by (rule auth_run_read)
  have "subscribed ?a" "messages ?a = []" "read ?a = Answered" "held ?a = ?s"
    by (simp_all add: take_message_def initial_auth_def)
  with gate_follows_supabase [OF r] r show ?thesis by auto
qed

text \<open>If the answer to the first read arrives after a message about a newer session, it
  overwrites it: everything is delivered, Supabase holds a session, and the gate redirects to
  the sign-in page.\<close>

theorem late_answer_signs_out:
  "\<exists>a s. auth_reachable False a \<and> subscribed a \<and> messages a = [] \<and> read a = Answered \<and>
     held a = Some s \<and> RequireAuth a = RedirectTo (js ''/sign-in'')"
proof -
  let ?s = "\<lparr>access_token = js ''t'', session_user = \<lparr>email = None\<rparr>\<rparr>"
  let ?a0 = "initial_auth None"
  let ?a1 = "?a0\<lparr>read := Answered, messages := [ReadResult None]\<rparr>"
  let ?a2 = "?a1\<lparr>held := Some ?s, messages := [ReadResult None, StateChange (Some ?s)]\<rparr>"
  have "auth_reachable False ?a1" using auth_later [OF auth_start answers, of None] by (simp add: initial_auth_def)
  from auth_later [OF this changes [where s = "Some ?s"]] have "auth_reachable False ?a2"
    by (simp add: initial_auth_def)
  from auth_later [OF this arrives [of 1]] have "auth_reachable False (take_message 1 ?a2)" by simp
  from auth_later [OF this arrives [of 0]] have "auth_reachable False (take_message 0 (take_message 1 ?a2))"
    by (simp add: take_message_def)
  moreover have "subscribed (take_message 0 (take_message 1 ?a2))" "messages (take_message 0 (take_message 1 ?a2)) = []"
    "read (take_message 0 (take_message 1 ?a2)) = Answered" "held (take_message 0 (take_message 1 ?a2)) = Some ?s"
    "RequireAuth (take_message 0 (take_message 1 ?a2)) = RedirectTo (js ''/sign-in'')"
    by (simp_all add: take_message_def initial_auth_def RequireAuth_def)
  ultimately show ?thesis by blast
qed

text \<open>If the first read fails, the gate shows its spinner in every later state, also after the
  user has signed in.\<close>

theorem failed_read_never_ends_loading:
  assumes "auth_reachable False a" and "read a = ReadFailed"
  shows "RequireAuth a = Spinner"
  using failed_read_loads [OF assms(1)] assms(2) by (simp add: RequireAuth_def)

lemma failed_read_never_ends_loading_witness:
  "\<exists>a s. auth_reachable False a \<and> session_state a = Some s \<and> RequireAuth a = Spinner"
proof -
  let ?s = "\<lparr>access_token = js ''t'', session_user = \<lparr>email = None\<rparr>\<rparr>"
  let ?a1 = "(initial_auth None)\<lparr>read := ReadFailed\<rparr>"
  let ?a2 = "?a1\<lparr>held := Some ?s, messages := [StateChange (Some ?s)]\<rparr>"
  have "auth_reachable False ?a1" using auth_later [OF auth_start fails, of False None] by (simp add: initial_auth_def)
  from auth_later [OF this changes [where s = "Some ?s"]] have "auth_reachable False ?a2"
    by (simp add: initial_auth_def)
  from auth_later [OF this arrives [of 0]] have r: "auth_reachable False (take_message 0 ?a2)" by simp
  have "read (take_message 0 ?a2) = ReadFailed" "session_state (take_message 0 ?a2) = Some ?s"
    by (simp_all add: take_message_def initial_auth_def)
  with failed_read_never_ends_loading [OF r] r show ?thesis by blast
qed

lemma request_headers_authorization:
  "request_headers rt input options (js ''authorization'') =
   mergeHeaders (sources_of rt input options) (js ''authorization'')"
  by (auto simp: request_headers_def sources_of_def Let_def split: option.split init_body.split)

text \<open>C38: With the getter that the web application registers, a request whose caller gives no
  authorization header carries the access token of the session that Supabase holds at that
  moment, and no authorization header when there is none.\<close>

theorem requests_carry_session_token:
  assumes "customFetch rt (web_config s cfg) input options = (Some call, r)"
    and "mergeHeaders (sources_of rt (call_input call) options) (js ''authorization'') = None"
  shows "call_headers call (js ''authorization'') =
    (if or_else (map_option access_token s) [] = [] then None
     else Some (header_value (js ''Bearer '' @ or_else (map_option access_token s) [])))"
  using assms(1)
proof (rule customFetch_call)
  fix i
  assume i: "call_input call = i"
    and h: "attach_token (web_config s cfg) (request_headers rt i options) = Inr (call_headers call)"
  have "request_headers rt i options (js ''authorization'') = None"
    using assms(2) by (simp only: request_headers_authorization i)
  moreover from this have "call_headers call =
      (if or_else (map_option access_token s) [] = [] then request_headers rt i options
       else (request_headers rt i options)
         (js ''authorization'' \<mapsto> header_value (js ''Bearer '' @ or_else (map_option access_token s) [])))"
    using h by (simp add: attach_token_def has_header_def web_config_def session_getter_def
        setAuthTokenGetter_def split: if_splits)
  ultimately show ?thesis by (cases "or_else (map_option access_token s) [] = []") (simp_all only: if_True if_False fun_upd_same simp_thms)
qed

lemma customFetch_calls:
  assumes "applyBaseUrl rt cfg i0 = Inr i" and "o_body options = None"
    and "auth_getter cfg \<noteq> Some ThrowsToken"
  obtains call r where "customFetch rt cfg i0 options = (Some call, r)" "call_input call = i"
proof -
  obtain h where "attach_token cfg (request_headers rt i options) = Inr h"
    using attach_token_result [OF assms(3)] by blast
  then show ?thesis using that assms by (simp add: customFetch_def Let_def)
qed

lemma requests_carry_session_token_witness:
  "\<exists>call r. customFetch (echo_runtime None)
      (web_config (Some \<lparr>access_token = js ''abc'', session_user = \<lparr>email = None\<rparr>\<rparr>) token_config)
      (TextInput (js ''/v1/parcels'')) no_options = (Some call, r) \<and>
     call_headers call (js ''authorization'') = Some (header_value (js ''Bearer '' @ js ''abc''))"
proof -
  let ?cfg = "web_config (Some \<lparr>access_token = js ''abc'', session_user = \<lparr>email = None\<rparr>\<rparr>) token_config"
  obtain call r where c: "customFetch (echo_runtime None) ?cfg (TextInput (js ''/v1/parcels'')) no_options =
      (Some call, r)" and i: "call_input call = TextInput (js ''https://api'' @ js ''/v1/parcels'')"
    by (rule customFetch_calls) (auto simp: token_config_def no_options_def applyBaseUrl_def web_config_def
        resolveUrl_def session_getter_def setAuthTokenGetter_def js_def prefix_def)
  have "mergeHeaders (sources_of (echo_runtime None) (call_input call) no_options) (js ''authorization'') = None"
    by (simp add: i sources_of_def mergeHeaders_two no_options_def)
  from requests_carry_session_token [OF c this] c show ?thesis by auto
qed

text \<open>The start-up check of the API base lets no missing base through, but a base of slashes
  only passes it and leaves every request on the page's own origin, which is what the check is
  meant to exclude; every other base is put before the request paths.\<close>

theorem api_base_check:
  assumes "api_base_settings u cfg = Inr cfg'" and "startsWith path (js ''/'')"
  shows "\<exists>s b. u = Some s \<and> s \<noteq> [] \<and>
    applyBaseUrl rt cfg' (TextInput path) = Inr (TextInput (b @ path)) \<and>
    (b = [] \<longleftrightarrow> (\<forall>c \<in> set s. c = 47)) \<and> prefix b s"
proof -
  from assms(1) obtain s where s: "u = Some s" "s \<noteq> []" "cfg' = setBaseUrl (Some s) cfg"
    by (cases u) (auto simp: api_base_settings_def split: if_splits)
  obtain n where n: "s = strip_slashes s @ replicate n 47" using strip_slashes_append by blast
  have "strip_slashes s = [] \<longleftrightarrow> (\<forall>c \<in> set s. c = 47)" by (simp add: strip_slashes_def)
  moreover have "prefix (strip_slashes s) s" by (metis n prefixI)
  moreover have "applyBaseUrl rt cfg' (TextInput path) = Inr (TextInput (strip_slashes s @ path))"
    using assms(2) s by (simp add: applyBaseUrl_def setBaseUrl_def resolveUrl_def Let_def)
  ultimately show ?thesis using s by blast
qed

lemma api_base_check_witness:
  "applyBaseUrl (echo_runtime None) (setBaseUrl (Some (js ''/'')) token_config) (TextInput (js ''/v1/parcels'')) =
     Inr (TextInput (js ''/v1/parcels''))"
proof -
  have "api_base_settings (Some (js ''/'')) token_config = Inr (setBaseUrl (Some (js ''/'')) token_config)"
    by (simp add: api_base_settings_def)
  from api_base_check [OF this, of "js ''/v1/parcels''" "echo_runtime None"] show ?thesis
    by (auto simp: js_def unit_of_def)
qed

end
