(* ===== verification/Web_Router.thy ===== *)
theory Web_Router
  imports Web_Auth
begin

text \<open>
  The frame of \<open>artifacts/landvault-web/src\<close>: the routes of \<open>App.tsx\<close>, the error boundary of
  \<open>components/error-boundary.tsx\<close> and the navigation of \<open>components/layout/sidebar.tsx\<close>.  The
  pattern matcher of wouter is an argument; \<open>wouter_laws\<close> states what its documentation promises
  about the patterns that the routes use.
\<close>

section \<open>Error boundary\<close>

record js_error =
  error_name :: jsstr
  error_message :: jsstr

text \<open>What a render may throw: an \<open>Error\<close>, a value that \<open>JSON.stringify\<close> accepts, or one that it
  refuses, as \<open>String\<close> writes it.\<close>

datatype thrown_value = AnError js_error | AValue jsval | Unserializable jsstr

definition new_Error :: "jsstr \<Rightarrow> js_error" where
  "new_Error message = \<lparr>error_name = js ''Error'', error_message = message\<rparr>"

fun toError :: "json_format \<Rightarrow> thrown_value \<Rightarrow> js_error" where
  "toError fmt (AnError e) = e"
| "toError fmt (AValue (Str s)) = new_Error s"
| "toError fmt (AValue v) = new_Error (or_else (json_stringify fmt v) [])"
| "toError fmt (Unserializable text) = new_Error text"

text \<open>The text of the default fallback in development builds.\<close>

definition fallback_text :: "bool \<Rightarrow> js_error \<Rightarrow> jsstr option" where
  "fallback_text DEV e =
     (if DEV then Some (if error_message e \<noteq> [] then error_message e else error_name e) else None)"

record boundary =
  boundary_error :: "js_error option"
  resetKey :: "jsstr option"

definition new_boundary :: "jsstr option \<Rightarrow> boundary" where
  "new_boundary key = \<lparr>boundary_error = None, resetKey = key\<rparr>"

definition catches :: "json_format \<Rightarrow> thrown_value \<Rightarrow> boundary \<Rightarrow> boundary" where
  "catches fmt v b = b\<lparr>boundary_error := Some (toError fmt v)\<rparr>"

definition resetError :: "boundary \<Rightarrow> boundary" where
  "resetError b = b\<lparr>boundary_error := None\<rparr>"

text \<open>An update with new properties, and \<open>componentDidUpdate\<close>.\<close>

definition did_update :: "boundary \<Rightarrow> jsstr option \<Rightarrow> boundary" where
  "did_update b key =
     (let b1 = b\<lparr>resetKey := key\<rparr> in
      if boundary_error b1 \<noteq> None \<and> resetKey b \<noteq> key then resetError b1 else b1)"

section \<open>Routes\<close>

datatype page =
    SignInPage
  | VerifyPage
  | DashboardPage
  | RegistryPage
  | NewParcelPage
  | ParcelDetailPage "jsstr option"
  | NotFoundPage

datatype screen = Page page | Waiting | Redirects jsstr | Fallback js_error

type_synonym matcher = "jsstr \<Rightarrow> jsstr \<Rightarrow> jsstr list option"

text \<open>\<open>ParcelDetail\<close> reads its parameter with \<open>useRoute\<close>.\<close>

definition detail_id :: "matcher \<Rightarrow> jsstr \<Rightarrow> jsstr option" where
  "detail_id m location =
     (case m (js ''/parcels/:id'') location of Some (i # _) \<Rightarrow> Some i | _ \<Rightarrow> None)"

record route =
  route_path :: "jsstr option"
  governed :: bool
  route_page :: page

definition app_routes :: "matcher \<Rightarrow> jsstr \<Rightarrow> route list" where
  "app_routes m location =
     [\<lparr>route_path = Some (js ''/sign-in''), governed = False, route_page = SignInPage\<rparr>,
      \<lparr>route_path = Some (js ''/verify''), governed = False, route_page = VerifyPage\<rparr>,
      \<lparr>route_path = Some (js ''/''), governed = True, route_page = DashboardPage\<rparr>,
      \<lparr>route_path = Some (js ''/parcels''), governed = True, route_page = RegistryPage\<rparr>,
      \<lparr>route_path = Some (js ''/parcels/new''), governed = True, route_page = NewParcelPage\<rparr>,
      \<lparr>route_path = Some (js ''/parcels/:id''), governed = True,
        route_page = ParcelDetailPage (detail_id m location)\<rparr>,
      \<lparr>route_path = None, governed = False, route_page = NotFoundPage\<rparr>]"

text \<open>\<open>Switch\<close> renders the first route that matches; a route without a path always does.\<close>

definition route_matches :: "matcher \<Rightarrow> jsstr \<Rightarrow> route \<Rightarrow> bool" where
  "route_matches m location r =
     (case route_path r of None \<Rightarrow> True | Some p \<Rightarrow> m p location \<noteq> None)"

definition switch :: "matcher \<Rightarrow> jsstr \<Rightarrow> route list \<Rightarrow> route option" where
  "switch m location rs = find (route_matches m location) rs"

definition gated :: "auth \<Rightarrow> page \<Rightarrow> screen" where
  "gated a pg = (case RequireAuth a of
     Spinner \<Rightarrow> Waiting | RedirectTo to \<Rightarrow> Redirects to | Children \<Rightarrow> Page pg)"

definition Router :: "matcher \<Rightarrow> auth \<Rightarrow> boundary \<Rightarrow> jsstr \<Rightarrow> screen" where
  "Router m a b location =
     (case boundary_error b of
        Some e \<Rightarrow> Fallback e
      | None \<Rightarrow> (case switch m location (app_routes m location) of
            None \<Rightarrow> Page NotFoundPage
          | Some r \<Rightarrow> if governed r then gated a (route_page r) else Page (route_page r)))"

definition app_base :: "jsstr \<Rightarrow> jsstr" where
  "app_base BASE_URL = (if endsWith BASE_URL (js ''/'') then butlast BASE_URL else BASE_URL)"

section \<open>Navigation\<close>

record nav_item =
  href :: jsstr
  label :: jsstr

definition NAV_ITEMS :: "nav_item list" where
  "NAV_ITEMS =
     [\<lparr>href = js ''/'', label = js ''Dashboard''\<rparr>,
      \<lparr>href = js ''/parcels'', label = js ''Registry''\<rparr>,
      \<lparr>href = js ''/parcels/new'', label = js ''Register Parcel''\<rparr>,
      \<lparr>href = js ''/verify'', label = js ''Public Verify''\<rparr>]"

definition isActive :: "jsstr \<Rightarrow> nav_item \<Rightarrow> bool" where
  "isActive location item \<longleftrightarrow>
     location = href item \<or> href item \<noteq> js ''/'' \<and> startsWith location (href item)"

text \<open>What the sidebar shows: its links with the active ones marked, and the user.\<close>

record sidebar =
  nav_links :: "(nav_item \<times> bool) list"
  avatar :: jsstr
  user_text :: jsstr

definition Sidebar :: "runtime \<Rightarrow> jsstr \<Rightarrow> user option \<Rightarrow> sidebar" where
  "Sidebar rt location u =
     (let mail = Option.bind u email in
      \<lparr>nav_links = map (\<lambda>item. (item, isActive location item)) NAV_ITEMS,
       avatar = to_upper rt (take 1 (or_else mail (js ''?''))),
       user_text = or_else mail (js ''Unknown'')\<rparr>)"

section \<open>The matcher\<close>

definition lower_text :: "jsstr \<Rightarrow> jsstr" where
  "lower_text s = map lower_ascii s"

definition literal_paths :: "jsstr list" where
  "literal_paths = [js ''/sign-in'', js ''/verify'', js ''/'', js ''/parcels'', js ''/parcels/new'']"

text \<open>Patterns match in any case, with or without a slash at the end; a parameter stands for one
  segment.\<close>

definition wouter_laws :: "matcher \<Rightarrow> bool" where
  "wouter_laws m \<longleftrightarrow>
     (\<forall>p \<in> set literal_paths. m p p = Some []) \<and>
     (\<forall>p \<in> set literal_paths. \<forall>q. startsWith q (js ''/'') \<longrightarrow> m p q \<noteq> None \<longrightarrow> lower_text q \<in> {p, p @ js ''/''}) \<and>
     (\<forall>i. i \<noteq> [] \<longrightarrow> 47 \<notin> set i \<longrightarrow> m (js ''/parcels/:id'') (js ''/parcels/'' @ i) = Some [i])"

definition plain_matcher :: matcher where
  "plain_matcher p q =
     (if p = js ''/parcels/:id'' then
        (if startsWith q (js ''/parcels/'') \<and> drop 9 q \<noteq> [] \<and> 47 \<notin> set (drop 9 q) then Some [drop 9 q] else None)
      else if q = p then Some [] else None)"

lemma lower_text_js: "lower_text (js s) = map (\<lambda>c. lower_ascii (unit_of c)) s"
  by (simp add: lower_text_def js_def)

lemma lower_literal: "p \<in> set literal_paths \<Longrightarrow> lower_text p = p"
  by (auto simp: literal_paths_def lower_text_def js_def lower_ascii_def unit_of_def)

lemma plain_matcher_laws: "wouter_laws plain_matcher"
proof -
  have "js ''/parcels/:id'' \<notin> set literal_paths" by (simp add: literal_paths_def)
  then show ?thesis
    using lower_literal by (auto simp: wouter_laws_def plain_matcher_def)
qed

section \<open>Properties\<close>

definition page_at :: "matcher \<Rightarrow> jsstr \<Rightarrow> page" where
  "page_at m location =
     (case switch m location (app_routes m location) of Some r \<Rightarrow> route_page r | None \<Rightarrow> NotFoundPage)"

lemma governed_route:
  "switch m location (app_routes m location) = Some r \<Longrightarrow>
   governed r \<or> route_page r \<in> {SignInPage, VerifyPage, NotFoundPage}"
  by (auto simp: switch_def app_routes_def split: if_splits)

text \<open>C39: Whatever the location and the matcher, a page other than sign-in, verification and
  not-found is shown only when the provider has finished loading and has a session.\<close>

theorem governed_pages_need_session:
  assumes "Router m a b location = Page pg" and "pg \<notin> {SignInPage, VerifyPage, NotFoundPage}"
  shows "\<not> isLoading a \<and> session_state a \<noteq> None"
  using assms governed_route [of m location]
  by (auto simp: Router_def gated_def RequireAuth_def split: option.splits if_splits)

lemma governed_pages_need_session_witness:
  "Router plain_matcher (initial_auth None) (new_boundary None) (js ''/parcels'') \<noteq> Page RegistryPage"
  using governed_pages_need_session [of plain_matcher "initial_auth None" "new_boundary None" "js ''/parcels''" RegistryPage]
  by (auto simp: initial_auth_def)

lemma no_literal_match:
  "wouter_laws m \<Longrightarrow> p \<in> set literal_paths \<Longrightarrow> startsWith q (js ''/'') \<Longrightarrow>
   lower_text q \<noteq> p \<Longrightarrow> lower_text q \<noteq> p @ js ''/'' \<Longrightarrow> m p q = None"
  by (rule ccontr) (auto simp: wouter_laws_def)

lemma literal_match: "wouter_laws m \<Longrightarrow> p \<in> set literal_paths \<Longrightarrow> m p p = Some []"
  by (simp add: wouter_laws_def)

lemma literal_slash: "p \<in> set literal_paths \<Longrightarrow> startsWith p (js ''/'')"
  by (auto simp: literal_paths_def)

lemma literal_other:
  "wouter_laws m \<Longrightarrow> p \<in> set literal_paths \<Longrightarrow> q \<in> set literal_paths \<Longrightarrow> p \<noteq> q \<Longrightarrow> m p q = None"
  by (rule no_literal_match)
    (auto simp: lower_literal literal_slash literal_paths_def js_append [symmetric] simp del: js_eq_iff
      simp flip: js_append, simp_all)

lemma lower_ascii_slash: "lower_ascii c = 47 \<longleftrightarrow> c = 47" "47 = lower_ascii c \<longleftrightarrow> 47 = c"
  by (auto simp: lower_ascii_def unat_arith_simps word_less_nat_alt word_le_nat_alt split: if_splits)

lemma parcel_not_literal:
  assumes "x \<noteq> []" and "47 \<notin> set x" and "x \<noteq> js ''new''" and "p \<in> set literal_paths"
  shows "js ''/parcels/'' @ x \<noteq> p \<and> js ''/parcels/'' @ x \<noteq> p @ js ''/''"
proof -
  have new: "js ''/parcels/new'' = js ''/parcels/'' @ js ''new''" by (simp flip: js_append)
  have "x \<noteq> js ''new'' @ js ''/''" using assms(2) by (auto simp: js_def unit_of_def)
  then have "js ''/parcels/'' @ x \<notin> {js ''/parcels/new'', js ''/parcels/new'' @ js ''/''}"
    using assms(3) by (simp add: new)
  moreover have "js ''/parcels/'' @ x \<notin> {q, q @ js ''/''}"
    if "q \<in> {js ''/sign-in'', js ''/verify'', js ''/'', js ''/parcels''}" for q
    using that assms(1) by (auto simp: js_def)
  ultimately show ?thesis using assms(4) by (auto simp: literal_paths_def)
qed

lemma route_matches_simps:
  "route_matches m location \<lparr>route_path = Some p, governed = g, route_page = pg\<rparr> \<longleftrightarrow> m p location \<noteq> None"
  "route_matches m location \<lparr>route_path = None, governed = g, route_page = pg\<rparr>"
  by (simp_all add: route_matches_def)

lemma literal_member [simp]:
  "js ''/sign-in'' \<in> set literal_paths" "js ''/verify'' \<in> set literal_paths" "js ''/'' \<in> set literal_paths"
  "js ''/parcels'' \<in> set literal_paths" "js ''/parcels/new'' \<in> set literal_paths"
  by (simp_all add: literal_paths_def)

lemma page_at_literal:
  assumes "wouter_laws m"
  shows "page_at m (js ''/sign-in'') = SignInPage" "page_at m (js ''/verify'') = VerifyPage"
    "page_at m (js ''/'') = DashboardPage" "page_at m (js ''/parcels'') = RegistryPage"
    "page_at m (js ''/parcels/new'') = NewParcelPage"
proof -
  note other = literal_other [OF assms] and same = literal_match [OF assms]
  show "page_at m (js ''/sign-in'') = SignInPage"
    by (simp add: page_at_def switch_def app_routes_def route_matches_simps same)
  show "page_at m (js ''/verify'') = VerifyPage"
    by (simp add: page_at_def switch_def app_routes_def route_matches_simps same other)
  show "page_at m (js ''/'') = DashboardPage"
    by (simp add: page_at_def switch_def app_routes_def route_matches_simps same other)
  show "page_at m (js ''/parcels'') = RegistryPage"
    by (simp add: page_at_def switch_def app_routes_def route_matches_simps same other)
  show "page_at m (js ''/parcels/new'') = NewParcelPage"
    by (simp add: page_at_def switch_def app_routes_def route_matches_simps same other)
qed

lemma page_at_parcel:
  assumes "wouter_laws m" and "i \<noteq> []" and "47 \<notin> set i" and "lower_text i \<noteq> js ''new''"
  shows "page_at m (js ''/parcels/'' @ i) = ParcelDetailPage (Some i)"
proof -
  have slash: "47 \<notin> set (lower_text i)"
    using assms(3) by (induction i) (auto simp: lower_text_def lower_ascii_slash)
  have parcels: "js ''/parcels/'' = js ''/parcels'' @ js ''/''" by (simp flip: js_append)
  have "lower_text (js ''/parcels'') = js ''/parcels''" "lower_text (js ''/'') = js ''/''"
    by (simp_all add: lower_literal)
  then have low: "lower_text (js ''/parcels/'' @ i) = js ''/parcels/'' @ lower_text i"
    by (simp add: lower_text_def parcels)
  have "lower_text i \<noteq> []" using assms(2) by (simp add: lower_text_def)
  note other = parcel_not_literal [OF this slash assms(4)]
  have start: "startsWith (js ''/parcels/'' @ i) (js ''/'')"
    using prefix_order.trans [of "js ''/''" "js ''/parcels/''"] by simp
  have "m p (js ''/parcels/'' @ i) = None" if "p \<in> set literal_paths" for p
    using other [OF that] by (intro no_literal_match [OF assms(1) that start]) (simp_all add: low)
  moreover have "m (js ''/parcels/:id'') (js ''/parcels/'' @ i) = Some [i]"
    using assms(1-3) unfolding wouter_laws_def by blast
  ultimately show ?thesis
    by (simp add: page_at_def switch_def app_routes_def route_matches_simps detail_id_def)
qed

text \<open>Every link of the navigation and every parcel link leads to its page: the routes are
  reached in spite of their order, \<open>/parcels/new\<close> is the form and not a parcel, and any other
  single segment below \<open>/parcels/\<close> is the detail page of that parcel.\<close>

theorem links_reach_their_pages:
  assumes "wouter_laws m" and "i \<noteq> []" and "47 \<notin> set i" and "lower_text i \<noteq> js ''new''"
  shows "map (page_at m \<circ> href) NAV_ITEMS = [DashboardPage, RegistryPage, NewParcelPage, VerifyPage] \<and>
    page_at m (js ''/sign-in'') = SignInPage \<and>
    page_at m (js ''/parcels/'' @ i) = ParcelDetailPage (Some i)"
  using page_at_literal [OF assms(1)] page_at_parcel [OF assms] by (simp add: NAV_ITEMS_def)

lemma links_reach_their_pages_witness:
  "page_at plain_matcher (js ''/parcels/'' @ js ''p-1'') = ParcelDetailPage (Some (js ''p-1''))"
  using links_reach_their_pages [OF plain_matcher_laws, of "js ''p-1''"]
  by (simp add: js_def unit_of_def lower_text_def lower_ascii_def)

lemma did_update_simps:
  "boundary_error (did_update b k) = (if resetKey b = k then boundary_error b else None)"
  "resetKey (did_update b k) = k"
  by (simp_all add: did_update_def resetError_def Let_def)

text \<open>A caught error is shown through any number of updates with the same key and is gone after
  the first update with another one: with the location as its key, the boundary recovers exactly
  when the user navigates; the root boundary, which has no key, never does.\<close>

theorem navigation_clears_error:
  "boundary_error (foldl did_update (catches fmt v (new_boundary key)) ks) =
     (if set ks \<subseteq> {key} then Some (toError fmt v) else None)"
proof (induction ks rule: rev_induct)
  case Nil
  then show ?case by (simp add: catches_def)
next
  case (snoc k ks)
  let ?b = "foldl did_update (catches fmt v (new_boundary key)) ks"
  have "resetKey ?b = (if ks = [] then key else last ks)"
    by (cases ks rule: rev_cases) (simp_all add: catches_def new_boundary_def did_update_simps)
  then have "set ks \<subseteq> {key} \<Longrightarrow> resetKey ?b = key" by (metis last_in_set singletonD subsetD)
  with snoc show ?case by (auto simp: did_update_simps)
qed

text \<open>At most two links of the sidebar are marked active, and two exactly at locations below
  \<open>/parcels/new\<close>, where the registry link is marked beside the link of the page.\<close>

theorem sidebar_marks:
  "length (filter snd (nav_links (Sidebar rt location u))) =
     (if startsWith location (js ''/parcels/new'') then 2
      else if location = js ''/'' \<or> startsWith location (js ''/parcels'') \<or> startsWith location (js ''/verify'') then 1
      else 0)"
proof -
  have new: "startsWith location (js ''/parcels/new'') \<Longrightarrow> startsWith location (js ''/parcels'')"
    by (rule prefix_order.trans [of _ "js ''/parcels/new''"]) simp_all
  have verify: "startsWith location (js ''/parcels'') \<Longrightarrow> \<not> startsWith location (js ''/verify'')"
    by (auto simp: js_def prefix_def unit_of_def)
  show ?thesis
    using new verify by (auto simp: Sidebar_def NAV_ITEMS_def isActive_def Let_def)
qed

end
