(* ===== verification/Web_Registry.thy ===== *)
theory Web_Registry
  imports Web_Router
begin

text \<open>
  The pages of \<open>artifacts/landvault-web/src/pages\<close> that list parcels: the dashboard, the registry
  with its filters and the public verification, with the parcel and status types of the client
  (\<open>generated/api.schemas.ts\<close>) and the status badge.  What a page shows is a view value; the
  functions of the browser that depend on the locale are arguments.
\<close>

section \<open>Data\<close>

datatype ParcelStatus = ACTIVE | ARCHIVED
datatype EvidenceType = SURVEY_PLAN | TITLE_DOCUMENT | IDENTITY_DOCUMENT | OTHER
datatype EvidenceStatus = RECEIVED | HASHED | SEALED

fun parcel_status_text :: "ParcelStatus \<Rightarrow> jsstr" where
  "parcel_status_text ACTIVE = js ''ACTIVE''"
| "parcel_status_text ARCHIVED = js ''ARCHIVED''"

fun evidence_type_text :: "EvidenceType \<Rightarrow> jsstr" where
  "evidence_type_text SURVEY_PLAN = js ''SURVEY_PLAN''"
| "evidence_type_text TITLE_DOCUMENT = js ''TITLE_DOCUMENT''"
| "evidence_type_text IDENTITY_DOCUMENT = js ''IDENTITY_DOCUMENT''"
| "evidence_type_text OTHER = js ''OTHER''"

fun evidence_status_text :: "EvidenceStatus \<Rightarrow> jsstr" where
  "evidence_status_text RECEIVED = js ''RECEIVED''"
| "evidence_status_text HASHED = js ''HASHED''"
| "evidence_status_text SEALED = js ''SEALED''"

text \<open>The fields of \<open>Parcel\<close> that the pages read; a field that is absent or null is \<open>None\<close>.\<close>

record parcel =
  parcel_id :: jsstr
  pc_status :: ParcelStatus
  parcel_number :: "jsstr option"
  address :: "jsstr option"
  pc_state :: "jsstr option"
  lga :: "jsstr option"
  property_type :: "jsstr option"
  size_sqm :: "jsnum option"
  current_owner_name :: "jsstr option"
  current_owner_contact :: "jsstr option"
  created_at :: jsstr
  updated_at :: jsstr

text \<open>\<open>toLowerCase\<close>, \<open>toUpperCase\<close>, \<open>toLocaleString\<close> of a number and the formatting of a date,
  which throws for an invalid one.\<close>

record page_env =
  lower :: "jsstr \<Rightarrow> jsstr"
  upper :: "jsstr \<Rightarrow> jsstr"
  number_locale :: "jsnum \<Rightarrow> jsstr"
  format_date :: "jsstr \<Rightarrow> string \<Rightarrow> jsstr option"

text \<open>The state of a query as the pages use it.\<close>

record 'a query_state =
  query_data :: "'a option"
  query_loading :: bool
  query_failed :: bool

section \<open>Status badge\<close>

fun replace_first :: "jschar \<Rightarrow> jschar \<Rightarrow> jsstr \<Rightarrow> jsstr" where
  "replace_first c d [] = []"
| "replace_first c d (x # xs) = (if x = c then d # xs else x # replace_first c d xs)"

definition capitalised :: "page_env \<Rightarrow> jsstr \<Rightarrow> jsstr" where
  "capitalised env s = upper env (take 1 s) @ drop 1 s"

datatype tone = Neutral | Green | Slate | Amber

definition badge_tone :: "jsstr \<Rightarrow> tone" where
  "badge_tone status =
     (if status = js ''ACTIVE'' then Green
      else if status = js ''ARCHIVED'' then Slate
      else if status = js ''RECEIVED'' then Amber
      else if status = js ''HASHED'' then Green
      else Neutral)"

definition StatusBadge :: "page_env \<Rightarrow> jsstr \<Rightarrow> jsstr \<times> tone" where
  "StatusBadge env status = (capitalised env (replace_first 95 32 status), badge_tone status)"

section \<open>Rows\<close>

definition dash :: "jsstr option \<Rightarrow> jsstr" where
  "dash s = or_else s [em_dash]"

definition comma :: jsstr where "comma = js '', ''"

definition size_text :: "page_env \<Rightarrow> parcel \<Rightarrow> jsstr" where
  "size_text env p = (case size_sqm p of Some n \<Rightarrow> number_locale env n @ js '' sqm'' | None \<Rightarrow> [em_dash])"

definition number_text_of :: "parcel \<Rightarrow> jsstr" where
  "number_text_of p = or_else (parcel_number p) (js ''Unallocated'')"

definition parcel_link :: "parcel \<Rightarrow> jsstr" where
  "parcel_link p = js ''/parcels/'' @ parcel_id p"

record parcel_row_view =
  row_link :: jsstr
  row_number :: jsstr
  row_owner :: jsstr
  row_place :: jsstr
  row_size :: jsstr
  row_type :: jsstr
  row_badge :: "jsstr \<times> tone"
  row_registered :: jsstr

datatype 'a listing = Skeleton nat | LoadFailed | Listed 'a | NothingFound

section \<open>Dashboard\<close>

text \<open>The place of a dashboard row follows the owner after a middle dot.\<close>

definition dashboard_row :: "page_env \<Rightarrow> parcel \<Rightarrow> parcel_row_view" where
  "dashboard_row env p =
     \<lparr>row_link = parcel_link p, row_number = number_text_of p, row_owner = dash (current_owner_name p),
      row_place = dash (address p) @ comma @ dash (lga p) @ comma @ dash (pc_state p),
      row_size = size_text env p, row_type = dash (property_type p),
      row_badge = StatusBadge env (parcel_status_text (pc_status p)), row_registered = []\<rparr>"

definition Dashboard :: "page_env \<Rightarrow> parcel list query_state \<Rightarrow> parcel_row_view list listing" where
  "Dashboard env q =
     (if query_loading q then Skeleton 3
      else if query_failed q then LoadFailed
      else case query_data q of
          Some recentParcels \<Rightarrow>
            if recentParcels \<noteq> [] then Listed (map (dashboard_row env) (take 5 recentParcels)) else NothingFound
        | None \<Rightarrow> NothingFound)"

section \<open>Registry\<close>

definition STATES :: "jsstr list" where
  "STATES = map js
     [''Lagos'', ''Abuja (FCT)'', ''Rivers'', ''Kano'', ''Ogun'', ''Oyo'', ''Delta'', ''Edo'', ''Kaduna'',
      ''Anambra'', ''Enugu'', ''Imo'', ''Cross River'', ''Akwa Ibom'', ''Plateau'']"

fun space_join :: "jsstr list \<Rightarrow> jsstr" where
  "space_join [] = []"
| "space_join [s] = s"
| "space_join (s # t # ss) = s @ js '' '' @ space_join (t # ss)"

definition search_fields :: "parcel \<Rightarrow> jsstr list" where
  "search_fields p =
     filter (\<lambda>s. s \<noteq> [])
       (map (\<lambda>a. or_else a []) [parcel_number p, current_owner_name p, address p])"

definition matchesFilters :: "page_env \<Rightarrow> parcel \<Rightarrow> jsstr \<Rightarrow> jsstr \<Rightarrow> jsstr \<Rightarrow> bool" where
  "matchesFilters env p search status st =
     (if status \<noteq> js ''all'' \<and> parcel_status_text (pc_status p) \<noteq> status then False
      else if st \<noteq> js ''all'' \<and> pc_state p \<noteq> Some st then False
      else if search \<noteq> [] then contains_str (lower env (space_join (search_fields p))) (lower env search)
      else True)"

record filters =
  searchInput :: jsstr
  status_filter :: jsstr
  state_filter :: jsstr

definition no_filters :: filters where
  "no_filters = \<lparr>searchInput = [], status_filter = js ''all'', state_filter = js ''all''\<rparr>"

definition filtered :: "page_env \<Rightarrow> filters \<Rightarrow> parcel list option \<Rightarrow> parcel list" where
  "filtered env f data = (case data of
     None \<Rightarrow> []
   | Some ps \<Rightarrow> filter (\<lambda>p. matchesFilters env p (searchInput f) (status_filter f) (state_filter f)) ps)"

text \<open>The choices of the status filter.\<close>

definition status_options :: "page_env \<Rightarrow> (jsstr \<times> jsstr) list" where
  "status_options env =
     (js ''all'', js ''All Statuses'') #
     map (\<lambda>s. (s, upper env (take 1 s) @ lower env (drop 1 s))) [js ''ACTIVE'', js ''ARCHIVED'']"

definition state_options :: "(jsstr \<times> jsstr) list" where
  "state_options = (js ''all'', js ''All States'') # map (\<lambda>s. (s, s)) STATES"

definition registry_row :: "page_env \<Rightarrow> parcel \<Rightarrow> parcel_row_view option" where
  "registry_row env p =
     map_option (\<lambda>registered.
       \<lparr>row_link = parcel_link p, row_number = number_text_of p, row_owner = dash (current_owner_name p),
        row_place = dash (lga p) @ comma @ dash (pc_state p), row_size = size_text env p,
        row_type = dash (property_type p), row_badge = StatusBadge env (parcel_status_text (pc_status p)),
        row_registered = js ''Reg: '' @ registered\<rparr>)
      (format_date env (created_at p) ''MMM d, yyyy'')"

text \<open>All rows, unless the date of one makes the render throw.\<close>

fun all_rows :: "('p \<Rightarrow> 'r option) \<Rightarrow> 'p list \<Rightarrow> 'r list option" where
  "all_rows f [] = Some []"
| "all_rows f (p # ps) =
     (case f p of None \<Rightarrow> None | Some r \<Rightarrow> map_option (\<lambda>rs. r # rs) (all_rows f ps))"

record registry_view =
  table :: "parcel_row_view list listing"
  footer :: "jsstr option"

definition registry_footer :: "page_env \<Rightarrow> filters \<Rightarrow> parcel list option \<Rightarrow> jsstr option" where
  "registry_footer env f data =
     map_option (\<lambda>ps. js ''Showing '' @ show_int (int (length (filtered env f data))) @ js '' of '' @
       show_int (int (length ps)) @ js '' parcels'') data"

definition ParcelsRegistry :: "page_env \<Rightarrow> filters \<Rightarrow> parcel list query_state \<Rightarrow> registry_view option" where
  "ParcelsRegistry env f q =
     (let footer_text = registry_footer env f (query_data q);
          rows = filtered env f (query_data q)
      in if query_loading q then Some \<lparr>table = Skeleton 5, footer = footer_text\<rparr>
         else if query_failed q then Some \<lparr>table = LoadFailed, footer = footer_text\<rparr>
         else if rows \<noteq> [] then
           map_option (\<lambda>rs. \<lparr>table = Listed rs, footer = footer_text\<rparr>) (all_rows (registry_row env) rows)
         else Some \<lparr>table = NothingFound, footer = footer_text\<rparr>)"

section \<open>Verification\<close>

record verify_state =
  verifyInput :: jsstr
  searchedNumber :: "jsstr option"

definition initial_verify :: verify_state where
  "initial_verify = \<lparr>verifyInput = [], searchedNumber = None\<rparr>"

definition handleSearch :: "verify_state \<Rightarrow> verify_state" where
  "handleSearch v =
     (if trim (verifyInput v) \<noteq> [] then v\<lparr>searchedNumber := Some (trim (verifyInput v))\<rparr> else v)"

text \<open>The query of the page, disabled until something has been searched.\<close>

definition verify_query :: "verify_state \<Rightarrow> user_query" where
  "verify_query v =
     no_query\<lparr>uq_enabled := Some (or_else (searchedNumber v) [] \<noteq> []), uq_key := Some getListParcelsQueryKey\<rparr>"

definition found_parcel :: "page_env \<Rightarrow> verify_state \<Rightarrow> parcel list option \<Rightarrow> parcel option" where
  "found_parcel env v allParcels =
     (if or_else (searchedNumber v) [] = [] then None
      else case allParcels of
          None \<Rightarrow> None
        | Some ps \<Rightarrow>
            let needle = lower env (trim (or_else (searchedNumber v) []))
            in find (\<lambda>p. map_option (lower env) (parcel_number p) = Some needle) ps)"

definition verify_not_found :: "page_env \<Rightarrow> verify_state \<Rightarrow> parcel list option \<Rightarrow> bool" where
  "verify_not_found env v allParcels \<longleftrightarrow>
     or_else (searchedNumber v) [] \<noteq> [] \<and> allParcels \<noteq> None \<and> found_parcel env v allParcels = None"

record record_view =
  record_number :: "jsstr option"
  record_badge :: "jsstr \<times> tone"
  record_owner :: jsstr
  record_place :: "jsstr \<times> jsstr"
  record_size :: jsstr
  record_type :: jsstr
  record_submitted :: jsstr

definition record_of :: "page_env \<Rightarrow> parcel \<Rightarrow> record_view option" where
  "record_of env p =
     map_option (\<lambda>submitted.
       \<lparr>record_number = parcel_number p, record_badge = StatusBadge env (parcel_status_text (pc_status p)),
        record_owner = dash (current_owner_name p),
        record_place = (dash (address p), dash (lga p) @ comma @ dash (pc_state p) @ js '' State''),
        record_size = size_text env p, record_type = dash (property_type p),
        record_submitted = submitted\<rparr>)
      (format_date env (created_at p) ''MMMM do, yyyy'')"

record verify_view =
  shows_error :: bool
  shows_spinner :: bool
  shows_not_found :: "jsstr option"
  shows_record :: "record_view option"

definition Verify :: "page_env \<Rightarrow> verify_state \<Rightarrow> parcel list query_state \<Rightarrow> verify_view option" where
  "Verify env v q =
     (let parcel = found_parcel env v (query_data q);
          view = \<lparr>shows_error = query_failed q, shows_spinner = query_loading q,
            shows_not_found = (if verify_not_found env v (query_data q) then searchedNumber v else None),
            shows_record = None\<rparr>
      in case parcel of
           None \<Rightarrow> Some view
         | Some p \<Rightarrow> map_option (\<lambda>r. view\<lparr>shows_record := Some r\<rparr>) (record_of env p))"

section \<open>Texts\<close>

lemma dropWhile_idem_rev:
  "dropWhile w t = t \<Longrightarrow> dropWhile w (rev (dropWhile w (rev t))) = rev (dropWhile w (rev t))"
proof (cases "rev (dropWhile w (rev t))")
  case (Cons c u)
  assume t: "dropWhile w t = t"
  have "t = rev (dropWhile w (rev t)) @ rev (takeWhile w (rev t))"
    by (metis rev_append rev_rev_ident takeWhile_dropWhile_id)
  then have "hd t = c" using Cons by (metis append_Cons list.sel(1))
  moreover have "t \<noteq> []" using Cons by auto
  ultimately have "\<not> w c" using t hd_dropWhile [of w t] by simp
  then show ?thesis using Cons by simp
next
  case Nil
  then show ?thesis by (simp only: dropWhile.simps)
qed

lemma trim_trim [simp]: "trim (trim s) = trim s"
proof -
  let ?t = "trimStart s"
  have "dropWhile is_white ?t = ?t" by (simp add: trimStart_def)
  from dropWhile_idem_rev [OF this] have "trimStart (trim s) = trim s"
    by (simp add: trim_def trimStart_def)
  then show ?thesis by (simp add: trim_def)
qed

lemma sublist_space_join: "t \<in> set ts \<Longrightarrow> sublist t (space_join ts)"
proof (induction ts rule: space_join.induct)
  case (3 s u us)
  show ?case
  proof (cases "t = s")
    case True
    then show ?thesis by simp
  next
    case False
    then have "sublist t (space_join (u # us))" using 3 by simp
    then have "sublist t ((s @ js '' '') @ space_join (u # us))" by (rule sublist_order.order.trans) (rule suffix_imp_sublist, rule suffixI, simp)
    then show ?thesis by simp
  qed
qed simp_all

lemma all_rows_Some: "all_rows f ps = Some rs \<longleftrightarrow> map f ps = map Some rs"
proof (induction ps arbitrary: rs)
  case Nil
  then show ?case by auto
next
  case (Cons p ps)
  then show ?case by (cases rs) (auto split: option.splits)
qed

lemma all_rows_None: "all_rows f ps = None \<longleftrightarrow> (\<exists>p \<in> set ps. f p = None)"
  by (induction ps) (auto split: option.splits)

section \<open>Properties\<close>

text \<open>A search on the verification page ignores the white space around the number; once the
  list has arrived it gives exactly one of two verdicts, found when some parcel has the number up
  to case and not found otherwise; without the list it gives none, and the list is requested
  exactly when something has been searched.\<close>

theorem verify_verdict:
  assumes "trim s \<noteq> []" and "v = handleSearch (v0\<lparr>verifyInput := s\<rparr>)"
  shows "searchedNumber v = Some (trim s) \<and>
    qo_enabled (getListParcelsQueryOptions (verify_query v) request) = Some True \<and>
    (found_parcel env v (Some ps) \<noteq> None \<longleftrightarrow>
       (\<exists>p \<in> set ps. map_option (lower env) (parcel_number p) = Some (lower env (trim s)))) \<and>
    (verify_not_found env v (Some ps) \<longleftrightarrow> found_parcel env v (Some ps) = None) \<and>
    found_parcel env v None = None \<and> \<not> verify_not_found env v None"
  using assms
  by (auto simp: handleSearch_def found_parcel_def verify_not_found_def verify_query_def find_None_iff
      getListParcelsQueryOptions_def query_options_of_def Let_def)

definition demo_env :: page_env where
  "demo_env = \<lparr>lower = map lower_ascii, upper = (\<lambda>s. s), number_locale = (\<lambda>_. []),
     format_date = (\<lambda>s _. if s = [] then None else Some s)\<rparr>"

definition demo_parcel :: parcel where
  "demo_parcel =
     \<lparr>parcel_id = js ''p1'', pc_status = ACTIVE, parcel_number = Some (js ''LV-1''), address = None,
      pc_state = Some (js ''Lagos''), lga = None, property_type = None, size_sqm = None,
      current_owner_name = Some (js ''Ada''), current_owner_contact = None,
      created_at = js ''2024-01-01'', updated_at = js ''2024-01-01''\<rparr>"

lemma verify_verdict_witness:
  "found_parcel demo_env (handleSearch (initial_verify\<lparr>verifyInput := js '' lv-1''\<rparr>)) (Some [demo_parcel]) \<noteq> None"
proof -
  have t: "trim (js '' lv-1'') = js ''lv-1''"
    by (simp add: trim_def trimStart_def js_def unit_of_def is_white_def)
  then have "trim (js '' lv-1'') \<noteq> []" by simp
  from verify_verdict [OF this refl, of initial_verify no_options demo_env "[demo_parcel]"] show ?thesis
    by (simp add: t demo_env_def demo_parcel_def) (simp add: js_def unit_of_def lower_ascii_def)
qed

text \<open>A registry search finds every parcel that contains the text, up to case, in its number, its
  owner or its address, if status and state agree with the filters; longer texts only narrow the
  result.\<close>

theorem registry_search:
  assumes "lower env = map f" and "p \<in> set ps"
    and "status_filter fs \<in> {js ''all'', parcel_status_text (pc_status p)}"
    and "state_filter fs = js ''all'' \<or> pc_state p = Some (state_filter fs)"
  shows "((\<exists>t \<in> set (search_fields p). contains_str (lower env t) (lower env (searchInput fs))) \<longrightarrow>
      p \<in> set (filtered env fs (Some ps))) \<and>
    (contains_str longer (searchInput fs) \<longrightarrow>
      p \<in> set (filtered env (fs\<lparr>searchInput := longer\<rparr>) (Some ps)) \<longrightarrow>
      p \<in> set (filtered env fs (Some ps)))"
proof -
  have mem: "p \<in> set (filtered env (fs\<lparr>searchInput := s\<rparr>) (Some ps)) \<longleftrightarrow>
      s = [] \<or> contains_str (map f (space_join (search_fields p))) (map f s)" for s
    using assms by (auto simp: filtered_def matchesFilters_def)
  have "fs = fs\<lparr>searchInput := searchInput fs\<rparr>" by simp
  with mem [of "searchInput fs"]
  have here: "p \<in> set (filtered env fs (Some ps)) \<longleftrightarrow>
      searchInput fs = [] \<or> contains_str (map f (space_join (search_fields p))) (map f (searchInput fs))"
    by simp
  have joined: "sublist (map f t) (map f (space_join (search_fields p)))" if "t \<in> set (search_fields p)" for t
    using sublist_space_join [OF that] by (rule map_mono_sublist)
  show ?thesis
  proof (intro conjI impI)
    assume "\<exists>t \<in> set (search_fields p). contains_str (lower env t) (lower env (searchInput fs))"
    then obtain t where t: "t \<in> set (search_fields p)" "sublist (map f (searchInput fs)) (map f t)"
      using assms(1) by auto
    from sublist_order.order.trans [OF t(2) joined [OF t(1)]] show "p \<in> set (filtered env fs (Some ps))"
      by (simp add: here)
  next
    assume s: "contains_str longer (searchInput fs)"
      and l: "p \<in> set (filtered env (fs\<lparr>searchInput := longer\<rparr>) (Some ps))"
    from l have "longer = [] \<or> sublist (map f longer) (map f (space_join (search_fields p)))"
      by (simp only: mem)
    moreover have "sublist (map f (searchInput fs)) (map f longer)" using s by (rule map_mono_sublist)
    ultimately show "p \<in> set (filtered env fs (Some ps))"
      using s here sublist_order.order.trans by (metis sublist_Nil_right)
  qed
qed

lemma registry_search_witness:
  "demo_parcel \<in> set (filtered demo_env (no_filters\<lparr>searchInput := js ''ada''\<rparr>) (Some [demo_parcel]))"
proof -
  let ?fs = "no_filters\<lparr>searchInput := js ''ada''\<rparr>"
  have low: "lower demo_env = map lower_ascii" by (simp add: demo_env_def)
  have ada: "js ''Ada'' \<in> set (search_fields demo_parcel)" by (simp add: search_fields_def demo_parcel_def)
  have "map lower_ascii (js ''Ada'') = map lower_ascii (js ''ada'')"
    by (simp add: js_def unit_of_def lower_ascii_def)
  then have "\<exists>t \<in> set (search_fields demo_parcel). contains_str (lower demo_env t) (lower demo_env (searchInput ?fs))"
    using ada by (intro bexI [of _ "js ''Ada''"]) (simp_all add: low)
  moreover have "status_filter ?fs \<in> {js ''all'', parcel_status_text (pc_status demo_parcel)}"
    "state_filter ?fs = js ''all'' \<or> pc_state demo_parcel = Some (state_filter ?fs)"
    by (simp_all add: no_filters_def)
  ultimately show ?thesis
    using registry_search [OF low, of demo_parcel "[demo_parcel]" ?fs "[]"] by (simp only: list.set insert_iff simp_thms)
qed

lemma registry_row_link: "registry_row env p = Some r \<Longrightarrow> row_link r = js ''/parcels/'' @ parcel_id p"
  by (auto simp: registry_row_def parcel_link_def)

text \<open>The registry table lists exactly the matching parcels in the order of the list, each
  linked to its own detail page, under a footer that counts them; only an invalid date of a
  listed parcel makes the page throw.\<close>

theorem registry_rows:
  assumes "wouter_laws m" and "\<forall>p \<in> set ps. parcel_id p \<noteq> [] \<and> 47 \<notin> set (parcel_id p) \<and> lower_text (parcel_id p) \<noteq> js ''new''"
    and "q = \<lparr>query_data = Some ps, query_loading = False, query_failed = False\<rparr>"
    and "filtered env fs (Some ps) \<noteq> []"
  shows "(ParcelsRegistry env fs q = None \<longleftrightarrow>
      (\<exists>p \<in> set (filtered env fs (Some ps)). format_date env (created_at p) ''MMM d, yyyy'' = None)) \<and>
    (\<forall>v. ParcelsRegistry env fs q = Some v \<longrightarrow>
      (\<exists>rs. table v = Listed rs \<and>
        map (page_at m \<circ> row_link) rs = map (ParcelDetailPage \<circ> Some \<circ> parcel_id) (filtered env fs (Some ps))) \<and>
      footer v = Some (js ''Showing '' @ show_int (int (length (filtered env fs (Some ps)))) @ js '' of '' @
        show_int (int (length ps)) @ js '' parcels''))"
proof -
  let ?rows = "filtered env fs (Some ps)"
  have view: "ParcelsRegistry env fs q =
      map_option (\<lambda>rs. \<lparr>table = Listed rs, footer = registry_footer env fs (Some ps)\<rparr>)
        (all_rows (registry_row env) ?rows)"
    using assms(3,4) by (simp add: ParcelsRegistry_def Let_def)
  have throws: "registry_row env p = None \<longleftrightarrow> format_date env (created_at p) ''MMM d, yyyy'' = None" for p
    by (simp add: registry_row_def)
  have links: "map (page_at m \<circ> row_link) rs = map (ParcelDetailPage \<circ> Some \<circ> parcel_id) ?rows"
    if "all_rows (registry_row env) ?rows = Some rs" for rs
  proof (rule nth_equalityI)
    have rs: "map (registry_row env) ?rows = map Some rs" using that by (simp add: all_rows_Some)
    then have len: "length rs = length ?rows" by (metis length_map)
    then show "length (map (page_at m \<circ> row_link) rs) = length (map (ParcelDetailPage \<circ> Some \<circ> parcel_id) ?rows)"
      by simp
    fix i assume i: "i < length (map (page_at m \<circ> row_link) rs)"
    then have "registry_row env (?rows ! i) = Some (rs ! i)"
      using rs len by (metis length_map nth_map)
    then have "row_link (rs ! i) = js ''/parcels/'' @ parcel_id (?rows ! i)"
      by (rule registry_row_link)
    moreover have "?rows ! i \<in> set ps"
      using i len nth_mem [of i ?rows] by (auto simp: filtered_def)
    ultimately show "map (page_at m \<circ> row_link) rs ! i = map (ParcelDetailPage \<circ> Some \<circ> parcel_id) ?rows ! i"
      using i len page_at_parcel [OF assms(1)] assms(2) by simp
  qed
  show ?thesis
    using links by (auto simp: view all_rows_None throws registry_footer_def)
qed

lemma registry_rows_witness:
  "\<exists>v rs. ParcelsRegistry demo_env no_filters
       \<lparr>query_data = Some [demo_parcel], query_loading = False, query_failed = False\<rparr> = Some v \<and>
     table v = Listed rs \<and> map (page_at plain_matcher \<circ> row_link) rs = [ParcelDetailPage (Some (js ''p1''))]"
proof -
  have f: "filtered demo_env no_filters (Some [demo_parcel]) = [demo_parcel]"
    by (simp add: filtered_def matchesFilters_def no_filters_def)
  have k: "parcel_id demo_parcel \<noteq> []" "47 \<notin> set (parcel_id demo_parcel)"
    "lower_text (parcel_id demo_parcel) \<noteq> js ''new''" "created_at demo_parcel \<noteq> []"
    by (simp_all add: demo_parcel_def) (simp_all add: js_def unit_of_def lower_text_def)
  have d: "format_date demo_env (created_at demo_parcel) ''MMM d, yyyy'' \<noteq> None"
    using k(4) by (simp add: demo_env_def)
  let ?q = "\<lparr>query_data = Some [demo_parcel], query_loading = False, query_failed = False\<rparr>"
  have ids: "\<forall>p \<in> set [demo_parcel]. parcel_id p \<noteq> [] \<and> 47 \<notin> set (parcel_id p) \<and> lower_text (parcel_id p) \<noteq> js ''new''"
    using k by simp
  have some: "filtered demo_env no_filters (Some [demo_parcel]) \<noteq> []" by (simp add: f)
  note rows = registry_rows [OF plain_matcher_laws ids refl some]
  have "ParcelsRegistry demo_env no_filters ?q \<noteq> None" using rows d by (simp add: f)
  then obtain v where v: "ParcelsRegistry demo_env no_filters ?q = Some v" by blast
  have i: "parcel_id demo_parcel = js ''p1''" by (simp add: demo_parcel_def)
  from rows v show ?thesis by (auto simp: f i)
qed

end
