(* ===== verification/Web_Parcel.thy ===== *)
theory Web_Parcel
  imports Web_Registry
begin

text \<open>
  The pages of one parcel in \<open>artifacts/landvault-web/src/pages/parcels\<close>: the detail page with its
  archive button and evidence card (\<open>detail.tsx\<close>) and the registration form (\<open>new.tsx\<close>).
\<close>

section \<open>Shared by the two pages\<close>

text \<open>A message to the user: its kind, its title and its description.\<close>

datatype notice = SuccessNote jsstr "jsstr option" | ErrorNote jsstr "jsstr option"

text \<open>What a page does to its surroundings: the query cache, the location, the messages and the
  queries it marks as stale.\<close>

record surroundings =
  cached_parcel :: "query_key \<Rightarrow> parcel option"
  stale_keys :: "query_key list"
  went_to :: "jsstr option"
  toasts_raised :: "notice list"

definition notify :: "notice \<Rightarrow> surroundings \<Rightarrow> surroundings" where
  "notify n w = w\<lparr>toasts_raised := toasts_raised w @ [n]\<rparr>"

definition invalidate :: "query_key \<Rightarrow> surroundings \<Rightarrow> surroundings" where
  "invalidate k w = w\<lparr>stale_keys := k # stale_keys w\<rparr>"

definition set_cached :: "query_key \<Rightarrow> parcel \<Rightarrow> surroundings \<Rightarrow> surroundings" where
  "set_cached k p w = w\<lparr>cached_parcel := (cached_parcel w)(k := Some p)\<rparr>"

section \<open>Detail page\<close>

definition detail_query :: "jsstr option \<Rightarrow> user_query" where
  "detail_query i =
     no_query\<lparr>uq_enabled := Some (or_else i [] \<noteq> []),
       uq_key := Some (getGetParcelQueryKey (or_else i (js ''undefined'')))\<rparr>"

text \<open>\<open>handleArchive\<close>, and the callbacks of the mutation.\<close>

definition handleArchive :: "jsstr option \<Rightarrow> client_request option" where
  "handleArchive i = (if or_else i [] = [] then None else Some (archiveParcel (or_else i []) no_options))"

definition archive_succeeds :: "jsstr \<Rightarrow> parcel \<Rightarrow> surroundings \<Rightarrow> surroundings" where
  "archive_succeeds i updatedParcel w =
     set_cached (getGetParcelQueryKey i) updatedParcel (notify (SuccessNote (js ''Parcel archived'') None) w)"

definition archive_fails :: "surroundings \<Rightarrow> surroundings" where
  "archive_fails w = notify (ErrorNote (js ''Failed to archive parcel'') None) w"

text \<open>The button is shown for active parcels only; its flag says that it is disabled.\<close>

definition archive_button :: "bool \<Rightarrow> parcel \<Rightarrow> bool option" where
  "archive_button isPending p = (if pc_status p = ACTIVE then Some isPending else None)"

record detail_view =
  detail_title :: jsstr
  detail_badge :: "jsstr \<times> tone"
  detail_place :: jsstr
  detail_archive :: "bool option"
  detail_owner :: jsstr
  detail_contact :: jsstr
  detail_size :: jsstr
  detail_type :: jsstr
  detail_registered :: jsstr
  detail_log :: "(jsstr \<times> jsstr) list"

definition audit_log :: "page_env \<Rightarrow> parcel \<Rightarrow> (jsstr \<times> jsstr) list option" where
  "audit_log env p =
     (case format_date env (created_at p) ''PPp'' of
        None \<Rightarrow> None
      | Some created \<Rightarrow>
          if updated_at p = created_at p then Some [(js ''Record Created'', created)]
          else map_option (\<lambda>updated. [(js ''Record Created'', created), (js ''Record Updated'', updated)])
                 (format_date env (updated_at p) ''PPp''))"

definition detail_of :: "page_env \<Rightarrow> bool \<Rightarrow> parcel \<Rightarrow> detail_view option" where
  "detail_of env isPending p =
     (case (format_date env (created_at p) ''PPP 'at' p'', audit_log env p) of
        (Some registered, Some entries) \<Rightarrow> Some
          \<lparr>detail_title = number_text_of p,
           detail_badge = StatusBadge env (parcel_status_text (pc_status p)),
           detail_place = dash (address p) @ comma @ dash (lga p) @ comma @ dash (pc_state p),
           detail_archive = archive_button isPending p,
           detail_owner = dash (current_owner_name p),
           detail_contact = (let c = or_else (current_owner_contact p) [] in if c = [] then [em_dash] else c),
           detail_size = size_text env p, detail_type = dash (property_type p),
           detail_registered = registered, detail_log = entries\<rparr>
      | _ \<Rightarrow> None)"

datatype detail_screen = DetailLoading | DetailFailed | DetailMissing | DetailShown detail_view

text \<open>No screen when the render throws.\<close>

definition ParcelDetail :: "page_env \<Rightarrow> bool \<Rightarrow> parcel query_state \<Rightarrow> detail_screen option" where
  "ParcelDetail env isPending q =
     (if query_loading q then Some DetailLoading
      else if query_failed q then Some DetailFailed
      else case query_data q of
          None \<Rightarrow> Some DetailMissing
        | Some p \<Rightarrow> map_option DetailShown (detail_of env isPending p))"

section \<open>Evidence card\<close>

record evidence =
  evidence_id :: jsstr
  ev_filename :: jsstr
  ev_basis :: jsstr
  ev_type :: EvidenceType
  ev_status :: EvidenceStatus
  ev_created_at :: jsstr

record chosen_file =
  file_name :: jsstr
  file_type :: jsstr
  file_size :: nat

definition MAX_UPLOAD_BYTES :: nat where
  "MAX_UPLOAD_BYTES = 10 * 1024 * 1024"

record card =
  dialog_open :: bool
  picked_file :: "chosen_file option"
  evidenceType :: EvidenceType
  basis :: jsstr
  uploading :: bool

definition initial_card :: card where
  "initial_card = \<lparr>dialog_open = False, picked_file = None, evidenceType = SURVEY_PLAN, basis = [], uploading = False\<rparr>"

definition too_large :: "card \<Rightarrow> bool" where
  "too_large c = (case picked_file c of None \<Rightarrow> False | Some f \<Rightarrow> file_size f > MAX_UPLOAD_BYTES)"

definition upload_enabled :: "card \<Rightarrow> bool" where
  "upload_enabled c \<longleftrightarrow> picked_file c \<noteq> None \<and> \<not> too_large c \<and> basis c \<noteq> [] \<and> \<not> uploading c"

text \<open>The request of the mutation, or the error it throws without a file.\<close>

definition upload_request :: "jsstr \<Rightarrow> card \<Rightarrow> jsstr + client_request" where
  "upload_request parcelId c =
     (case picked_file c of
        None \<Rightarrow> Inl (js ''no file selected'')
      | Some f \<Rightarrow> Inr (uploadParcelEvidence parcelId (BlobBody (file_type f) (file_size f))
          [(js ''filename'', Some (file_name f)), (js ''evidence_type'', Some (evidence_type_text (evidenceType c))),
           (js ''basis'', Some (basis c))]
          (no_options\<lparr>o_headers := Some (HeaderPairs [(js ''Content-Type'', file_type f)])\<rparr>)))"

definition upload_succeeds :: "card \<Rightarrow> card" where
  "upload_succeeds c =
     c\<lparr>uploading := False, dialog_open := False, picked_file := None, basis := [], evidenceType := SURVEY_PLAN\<rparr>"

definition upload_done :: "jsstr \<Rightarrow> surroundings \<Rightarrow> surroundings" where
  "upload_done parcelId w =
     invalidate (getListParcelEvidenceQueryKey parcelId) (notify (SuccessNote (js ''Evidence uploaded'') None) w)"

definition upload_failed :: "surroundings \<Rightarrow> surroundings" where
  "upload_failed w = notify (ErrorNote (js ''Failed to upload evidence'') None) w"

fun replace_all :: "jschar \<Rightarrow> jschar \<Rightarrow> jsstr \<Rightarrow> jsstr" where
  "replace_all c d s = map (\<lambda>x. if x = c then d else x) s"

text \<open>The word characters of a regular expression, and upper case after a word boundary.\<close>

definition word_char :: "jschar \<Rightarrow> bool" where
  "word_char c \<longleftrightarrow> 48 \<le> c \<and> c \<le> 57 \<or> 65 \<le> c \<and> c \<le> 90 \<or> c = 95 \<or> 97 \<le> c \<and> c \<le> 122"

fun upper_words :: "page_env \<Rightarrow> bool \<Rightarrow> jsstr \<Rightarrow> jsstr" where
  "upper_words env inside [] = []"
| "upper_words env inside (c # s) =
     (if word_char c \<and> \<not> inside then upper env [c] else [c]) @ upper_words env (word_char c) s"

definition type_option :: "page_env \<Rightarrow> EvidenceType \<Rightarrow> jsstr \<times> jsstr" where
  "type_option env t =
     (evidence_type_text t, upper_words env False (replace_all 95 32 (evidence_type_text t)))"

record evidence_row_view =
  er_filename :: jsstr
  er_badge :: "jsstr \<times> tone"
  er_type :: jsstr
  er_uploaded :: jsstr
  er_basis :: "jsstr option"

definition evidence_row_of :: "page_env \<Rightarrow> evidence \<Rightarrow> evidence_row_view option" where
  "evidence_row_of env e =
     map_option (\<lambda>uploaded.
       \<lparr>er_filename = ev_filename e, er_badge = StatusBadge env (evidence_status_text (ev_status e)),
        er_type = lower env (replace_all 95 32 (evidence_type_text (ev_type e))),
        er_uploaded = uploaded, er_basis = (if ev_basis e = [] then None else Some (ev_basis e))\<rparr>)
      (format_date env (ev_created_at e) ''MMM d, yyyy'')"

definition EvidenceCard :: "page_env \<Rightarrow> evidence list query_state \<Rightarrow> evidence_row_view list listing option" where
  "EvidenceCard env q =
     (if query_loading q then Some (Skeleton 1)
      else if query_failed q then Some LoadFailed
      else case query_data q of
          Some (e # es) \<Rightarrow> map_option Listed (all_rows (evidence_row_of env) (e # es))
        | _ \<Rightarrow> Some NothingFound)"

text \<open>The events of the card, with the requests made so far and those not yet answered.\<close>

record card_world =
  the_card :: card
  sent :: "client_request list"
  in_flight :: nat

definition initial_world :: card_world where
  "initial_world = \<lparr>the_card = initial_card, sent = [], in_flight = 0\<rparr>"

definition click_upload :: "jsstr \<Rightarrow> card_world \<Rightarrow> card_world" where
  "click_upload parcelId w =
     (if upload_enabled (the_card w) then
        case upload_request parcelId (the_card w) of
          Inl _ \<Rightarrow> w
        | Inr rq \<Rightarrow> w\<lparr>the_card := (the_card w)\<lparr>uploading := True\<rparr>, sent := sent w @ [rq], in_flight := Suc (in_flight w)\<rparr>
      else w)"

inductive card_step :: "jsstr \<Rightarrow> card_world \<Rightarrow> card_world \<Rightarrow> bool" for parcelId where
  open_or_close: "card_step parcelId w (w\<lparr>the_card := (the_card w)\<lparr>dialog_open := b\<rparr>\<rparr>)"
| choose_file: "card_step parcelId w (w\<lparr>the_card := (the_card w)\<lparr>picked_file := f\<rparr>\<rparr>)"
| choose_type: "card_step parcelId w (w\<lparr>the_card := (the_card w)\<lparr>evidenceType := t\<rparr>\<rparr>)"
| write_basis: "card_step parcelId w (w\<lparr>the_card := (the_card w)\<lparr>basis := s\<rparr>\<rparr>)"
| click: "card_step parcelId w (click_upload parcelId w)"
| success: "in_flight w > 0 \<Longrightarrow>
    card_step parcelId w (w\<lparr>the_card := upload_succeeds (the_card w), in_flight := in_flight w - 1\<rparr>)"
| failure: "in_flight w > 0 \<Longrightarrow>
    card_step parcelId w (w\<lparr>the_card := (the_card w)\<lparr>uploading := False\<rparr>, in_flight := in_flight w - 1\<rparr>)"

abbreviation card_reachable :: "jsstr \<Rightarrow> card_world \<Rightarrow> bool" where
  "card_reachable parcelId \<equiv> reach (\<lambda>w. w = initial_world) (card_step parcelId)"

lemma card_start: "card_reachable parcelId initial_world"
  by (rule reach_start) (rule refl)

lemma card_later: "card_reachable parcelId w \<Longrightarrow> card_step parcelId w v \<Longrightarrow> card_reachable parcelId v"
  by (rule reach_step)

section \<open>Registration form\<close>

text \<open>The values of the form as the inputs hold them, all texts; the default area, the number \<open>0\<close> of the
  source, is the text that the input shows, which \<open>Number\<close> reads as the same number.\<close>

record new_parcel_form =
  nf_owner :: jsstr
  nf_contact :: jsstr
  nf_address :: jsstr
  nf_state :: jsstr
  nf_lga :: jsstr
  nf_size :: jsstr
  nf_type :: jsstr

definition defaultValues :: new_parcel_form where
  "defaultValues =
     \<lparr>nf_owner = [], nf_contact = [], nf_address = [], nf_state = [], nf_lga = [], nf_size = js ''0'',
      nf_type = js ''residential''\<rparr>"

definition PROPERTY_TYPES :: "jsstr list" where
  "PROPERTY_TYPES = map js [''residential'', ''commercial'', ''agricultural'', ''industrial'']"

definition min_one :: "string \<Rightarrow> string \<Rightarrow> jsstr \<Rightarrow> (jsstr \<times> jsstr) list" where
  "min_one key message s = (if length s < 1 then [(js key, js message)] else [])"

text \<open>\<open>z.coerce.number().min(1, ...)\<close>: the conversion is \<open>Number\<close>; a value that is not a number
  has the message of the schema library.\<close>

definition check_size :: "(jsstr \<Rightarrow> jsnum) \<Rightarrow> jsstr \<Rightarrow> jsstr \<Rightarrow> (jsstr \<times> jsstr) list" where
  "check_size to_number nan_message s =
     (if to_number s = NaN then [(js ''size_sqm'', nan_message)]
      else if \<not> num_ge (to_number s) 1 then [(js ''size_sqm'', js ''Area must be greater than 0'')]
      else [])"

definition form_errors :: "(jsstr \<Rightarrow> jsnum) \<Rightarrow> jsstr \<Rightarrow> new_parcel_form \<Rightarrow> (jsstr \<times> jsstr) list" where
  "form_errors to_number nan_message f =
     min_one ''current_owner_name'' ''Owner name is required'' (nf_owner f) @
     min_one ''address'' ''Address is required'' (nf_address f) @
     min_one ''state'' ''State is required'' (nf_state f) @
     min_one ''lga'' ''LGA is required'' (nf_lga f) @
     check_size to_number nan_message (nf_size f) @
     min_one ''property_type'' ''Land use type is required'' (nf_type f)"

definition form_data :: "(jsstr \<Rightarrow> jsnum) \<Rightarrow> new_parcel_form \<Rightarrow> jsval" where
  "form_data to_number f =
     Obj [(js ''current_owner_name'', Str (nf_owner f)),
          (js ''current_owner_contact'', Str (nf_contact f)),
          (js ''address'', Str (nf_address f)),
          (js ''state'', Str (nf_state f)),
          (js ''lga'', Str (nf_lga f)),
          (js ''size_sqm'', Num (to_number (nf_size f))),
          (js ''property_type'', Str (nf_type f))]"

text \<open>\<open>form.handleSubmit(onSubmit)\<close>: the request, unless there are errors to show.\<close>

definition submit_form ::
    "(jsstr \<Rightarrow> jsnum) \<Rightarrow> jsstr \<Rightarrow> json_format \<Rightarrow> new_parcel_form \<Rightarrow> (jsstr \<times> jsstr) list + client_request" where
  "submit_form to_number nan_message fmt f =
     (let errors = form_errors to_number nan_message f in
      if errors \<noteq> [] then Inl errors else Inr (createParcel fmt (form_data to_number f) no_options))"

definition create_succeeds :: "parcel \<Rightarrow> surroundings \<Rightarrow> surroundings" where
  "create_succeeds newParcel w =
     (let n = or_else (parcel_number newParcel) [];
          description = (if n = [] then None else Some (js ''Parcel Number: '' @ n))
      in (invalidate getListParcelsQueryKey
           (notify (SuccessNote (js ''Parcel registered successfully'') description) w))
         \<lparr>went_to := Some (js ''/parcels/'' @ parcel_id newParcel)\<rparr>)"

definition create_fails :: "surroundings \<Rightarrow> surroundings" where
  "create_fails w =
     notify (ErrorNote (js ''Failed to register parcel'') (Some (js ''Please check the form and try again.''))) w"

section \<open>Properties\<close>

text \<open>What a good upload is, read off the request itself: it posts a file of at most ten megabytes to the
  evidence of the parcel, with the file's own type as its content type and a name, a kind and a
  non-empty description as its parameters.\<close>

definition good_upload :: "jsstr \<Rightarrow> client_request \<Rightarrow> bool" where
  "good_upload parcelId rq \<longleftrightarrow>
     (\<exists>name kind descr ty size.
        fst rq = TextInput (getUploadParcelEvidenceUrl parcelId
          [(js ''filename'', Some name), (js ''evidence_type'', Some (evidence_type_text kind)), (js ''basis'', Some descr)]) \<and>
        descr \<noteq> [] \<and> o_method (snd rq) = Some (js ''POST'') \<and>
        o_body (snd rq) = Some (BlobBody ty size) \<and> size \<le> MAX_UPLOAD_BYTES \<and>
        mergeHeaders [o_headers (snd rq)] (js ''content-type'') = Some (header_value ty))"

lemma content_type_name: "header_name (js ''Content-Type'') = js ''content-type''"
  by (simp add: header_name_def js_def lower_ascii_def unit_of_def)

lemma upload_content_type:
  "mergeHeaders [o_headers (snd (uploadParcelEvidence parcelId b params
       (no_options\<lparr>o_headers := Some (HeaderPairs [(js ''Content-Type'', t)])\<rparr>)))] (js ''content-type'') =
   Some (header_value t)"
  by (simp add: uploadParcelEvidence_def api_send_def mergeHeaders_def append_header_def
      content_type_name Let_def)

lemma upload_parts:
  "fst (uploadParcelEvidence parcelId b params options) = TextInput (getUploadParcelEvidenceUrl parcelId params)"
  "o_method (snd (uploadParcelEvidence parcelId b params options)) = Some (js ''POST'')"
  "o_body (snd (uploadParcelEvidence parcelId b params options)) = Some b"
  by (simp_all add: uploadParcelEvidence_def api_send_def)

lemma enabled_upload_good:
  assumes "upload_enabled c" and "upload_request parcelId c = Inr rq"
  shows "good_upload parcelId rq"
proof -
  obtain f where f: "picked_file c = Some f" "file_size f \<le> MAX_UPLOAD_BYTES" "basis c \<noteq> []"
    using assms(1) by (auto simp: upload_enabled_def too_large_def)
  then have "rq = uploadParcelEvidence parcelId (BlobBody (file_type f) (file_size f))
      [(js ''filename'', Some (file_name f)), (js ''evidence_type'', Some (evidence_type_text (evidenceType c))),
       (js ''basis'', Some (basis c))]
      (no_options\<lparr>o_headers := Some (HeaderPairs [(js ''Content-Type'', file_type f)])\<rparr>)"
    using assms(2) by (simp add: upload_request_def)
  with f show ?thesis unfolding good_upload_def
    by (intro exI [of _ "file_name f"] exI [of _ "evidenceType c"] exI [of _ "basis c"]
        exI [of _ "file_type f"] exI [of _ "file_size f"]) (simp add: upload_parts upload_content_type)
qed

definition world_inv :: "jsstr \<Rightarrow> card_world \<Rightarrow> bool" where
  "world_inv parcelId w \<longleftrightarrow>
     in_flight w = (if uploading (the_card w) then 1 else 0) \<and> (\<forall>rq \<in> set (sent w). good_upload parcelId rq)"

lemma click_upload_inv: "world_inv parcelId w \<Longrightarrow> world_inv parcelId (click_upload parcelId w)"
  using enabled_upload_good [of "the_card w" parcelId]
  by (auto simp: world_inv_def click_upload_def upload_enabled_def split: sum.split)

lemma card_step_inv: "card_step parcelId w v \<Longrightarrow> world_inv parcelId w \<Longrightarrow> world_inv parcelId v"
proof (induction rule: card_step.induct)
  case (click w)
  then show ?case by (rule click_upload_inv)
qed (auto simp: world_inv_def upload_succeeds_def split: if_splits)

interpretation card_machine: invariant_of "\<lambda>w. w = initial_world" "card_step parcelId" "world_inv parcelId" for parcelId
  by unfold_locales (simp add: world_inv_def initial_world_def initial_card_def, rule card_step_inv)

lemmas card_reachable_inv = card_machine.holds

text \<open>C32: However the dialog is used, at most one upload is under way, and every request that was sent
  posts a file of at most ten megabytes to the evidence of the parcel, with the type of that file as its content
  type and with a name, a kind and a non-empty description in its URL.\<close>

theorem uploads_are_good:
  assumes "card_reachable parcelId w" and "rq \<in> set (sent w)"
  shows "good_upload parcelId rq \<and> in_flight w \<le> 1"
  using card_reachable_inv [OF assms(1)] assms(2) by (auto simp: world_inv_def)

definition demo_file :: chosen_file where
  "demo_file = \<lparr>file_name = js ''deed.pdf'', file_type = js ''application/pdf'', file_size = 1000\<rparr>"

lemma uploads_are_good_witness:
  "\<exists>w rq. card_reachable (js ''p1'') w \<and> sent w = [rq] \<and> good_upload (js ''p1'') rq"
proof -
  let ?c = "initial_card\<lparr>picked_file := Some demo_file, basis := js ''deed''\<rparr>"
  let ?w = "initial_world\<lparr>the_card := ?c\<rparr>"
  have "card_reachable (js ''p1'') ?w"
    using card_later [OF card_later [OF card_start choose_file [of _ _ "Some demo_file"]] write_basis [of _ _ "js ''deed''"]]
    by (simp add: initial_world_def)
  from card_later [OF this click] have r: "card_reachable (js ''p1'') (click_upload (js ''p1'') ?w)" .
  obtain rq where "upload_request (js ''p1'') ?c = Inr rq" by (simp add: upload_request_def)
  then have s: "sent (click_upload (js ''p1'') ?w) = [rq]"
    by (simp add: click_upload_def initial_world_def initial_card_def upload_enabled_def too_large_def
        demo_file_def MAX_UPLOAD_BYTES_def)
  then have "rq \<in> set (sent (click_upload (js ''p1'') ?w))" by simp
  from uploads_are_good [OF r this] r s show ?thesis by blast
qed

text \<open>Archiving sends the archive operation of the parcel; when it succeeds, the page of that
  parcel reads the updated parcel from the cache and, this being archived, has no archive button
  any more, while a failure leaves every cached parcel as it was.\<close>

theorem archiving_removes_button:
  assumes "i \<noteq> []" and "pc_status p = ARCHIVED"
    and "q = \<lparr>query_data = cached_parcel (archive_succeeds i p w) (getGetParcelQueryKey i),
            query_loading = False, query_failed = False\<rparr>"
  shows "handleArchive (Some i) = Some (operation_request fmt (OpArchiveParcel i) Null no_options) \<and>
    query_data q = Some p \<and>
    (\<forall>v. ParcelDetail env isPending q = Some (DetailShown v) \<longrightarrow> detail_archive v = None) \<and>
    cached_parcel (archive_fails w) = cached_parcel w"
  using assms
  by (auto simp: handleArchive_def archive_succeeds_def set_cached_def archive_fails_def notify_def
      ParcelDetail_def detail_of_def archive_button_def split: option.splits prod.splits)

lemma archiving_removes_button_witness:
  "\<exists>v. ParcelDetail demo_env False
      \<lparr>query_data = cached_parcel (archive_succeeds (js ''p1'') (demo_parcel\<lparr>pc_status := ARCHIVED\<rparr>)
          \<lparr>cached_parcel = (\<lambda>_. None), stale_keys = [], went_to = None, toasts_raised = []\<rparr>)
          (getGetParcelQueryKey (js ''p1'')), query_loading = False, query_failed = False\<rparr> =
      Some (DetailShown v) \<and> detail_archive v = None"
proof -
  let ?p = "demo_parcel\<lparr>pc_status := ARCHIVED\<rparr>"
  let ?w = "\<lparr>cached_parcel = (\<lambda>_. None), stale_keys = [], went_to = None, toasts_raised = []\<rparr>"
  let ?q = "\<lparr>query_data = cached_parcel (archive_succeeds (js ''p1'') ?p ?w) (getGetParcelQueryKey (js ''p1'')),
      query_loading = False, query_failed = False\<rparr>"
  have "js ''p1'' \<noteq> []" "pc_status ?p = ARCHIVED" by simp_all
  note archived = archiving_removes_button [OF this refl, of demo_format w demo_env False for w]
  have "query_data ?q = Some ?p" using archived by simp
  then have "\<exists>v. ParcelDetail demo_env False ?q = Some (DetailShown v)"
    by (simp add: ParcelDetail_def detail_of_def audit_log_def demo_env_def demo_parcel_def)
  then show ?thesis using archived by blast
qed

text \<open>The form is submitted exactly when every required text is given and the area is at least
  one; so an area between zero and one is refused, with a message that asks for more than zero.\<close>

theorem form_submission:
  "((\<exists>rq. submit_form to_number nan_message fmt f = Inr rq) \<longleftrightarrow>
      nf_owner f \<noteq> [] \<and> nf_address f \<noteq> [] \<and> nf_state f \<noteq> [] \<and> nf_lga f \<noteq> [] \<and> nf_type f \<noteq> [] \<and>
      num_ge (to_number (nf_size f)) 1) \<and>
   check_size (\<lambda>_. Fin (1 / 2)) nan_message s = [(js ''size_sqm'', js ''Area must be greater than 0'')]"
proof -
  have size: "check_size to_number nan_message (nf_size f) = [] \<longleftrightarrow> num_ge (to_number (nf_size f)) 1"
    by (auto simp: check_size_def)
  have texts: "min_one k m s = [] \<longleftrightarrow> s \<noteq> []" for k m s
    by (cases s) (simp_all add: min_one_def)
  have "(\<exists>rq. submit_form to_number nan_message fmt f = Inr rq) \<longleftrightarrow> form_errors to_number nan_message f = []"
    by (simp add: submit_form_def Let_def)
  moreover have "check_size (\<lambda>_. Fin (1 / 2)) nan_message s = [(js ''size_sqm'', js ''Area must be greater than 0'')]"
    by (simp add: check_size_def)
  ultimately show ?thesis by (auto simp: form_errors_def size texts)
qed

text \<open>After a registration the list of parcels is marked stale and the location leads to the detail
  page of the new parcel.\<close>

theorem registration_opens_parcel:
  assumes "wouter_laws m" and "parcel_id p \<noteq> []" and "47 \<notin> set (parcel_id p)"
    and "lower_text (parcel_id p) \<noteq> js ''new''"
  shows "getListParcelsQueryKey \<in> set (stale_keys (create_succeeds p w)) \<and>
    map_option (page_at m) (went_to (create_succeeds p w)) = Some (ParcelDetailPage (Some (parcel_id p)))"
  using page_at_parcel [OF assms] by (simp add: create_succeeds_def invalidate_def Let_def)

lemma registration_opens_parcel_witness:
  "map_option (page_at plain_matcher) (went_to (create_succeeds demo_parcel
      \<lparr>cached_parcel = (\<lambda>_. None), stale_keys = [], went_to = None, toasts_raised = []\<rparr>)) =
   Some (ParcelDetailPage (Some (js ''p1'')))"
proof -
  have i: "parcel_id demo_parcel = js ''p1''" by (simp add: demo_parcel_def)
  have "parcel_id demo_parcel \<noteq> []" "47 \<notin> set (parcel_id demo_parcel)"
    "lower_text (parcel_id demo_parcel) \<noteq> js ''new''"
    by (simp_all add: i) (simp_all add: js_def unit_of_def lower_text_def)
  from registration_opens_parcel [OF plain_matcher_laws this] show ?thesis by (simp add: i)
qed

end
