(* ===== verification/Zod_Schema.thy ===== *)
theory Zod_Schema
  imports Prelude
begin

text \<open>
  The part of the schema library (zod 3) that the generated sources use: schemas and TypeScript
  types as data, what a type says of a value, the type of a schema, and the interface of the
  parser as a locale.  The library itself is not in the repository: \<open>safe_parse\<close> is a parameter,
  and a parser written from its documentation shows that the laws can be met.
\<close>

section \<open>Schemas and types\<close>

datatype zod =
    ZString
  | ZCoerceString "nat option" "nat option"
  | ZNumber
  | ZBoolean
  | ZNull
  | ZUnknown
  | ZVoid
  | ZEnum "jsstr list"
  | ZArray zod
  | ZRecord zod
  | ZUnion zod zod
  | ZObject "(jsstr \<times> zod) list"
  | ZOptional zod
  | ZDefault jsval zod

text \<open>
  Object types: the flag of the type tells whether it has an index signature of \<open>unknown\<close>, the flag
  of a field whether the field is optional.
\<close>

datatype ts =
    TString
  | TNumber
  | TBoolean
  | TNull
  | TUnknown
  | TVoid
  | TEnum "jsstr list"
  | TArray ts
  | TRecord ts
  | TUnion ts ts
  | TObject bool "(jsstr \<times> bool \<times> ts) list"

fun has_type :: "ts \<Rightarrow> jsval \<Rightarrow> bool" and has_fields :: "(jsstr \<times> bool \<times> ts) list \<Rightarrow> jsval \<Rightarrow> bool" where
  "has_type TString v = (case v of Str _ \<Rightarrow> True | _ \<Rightarrow> False)"
| "has_type TNumber v = (case v of Num _ \<Rightarrow> True | _ \<Rightarrow> False)"
| "has_type TBoolean v = (case v of Bool _ \<Rightarrow> True | _ \<Rightarrow> False)"
| "has_type TNull v = (v = Null)"
| "has_type TUnknown v = True"
| "has_type TVoid v = (v = Undefined)"
| "has_type (TEnum ss) v = (case v of Str s \<Rightarrow> s \<in> set ss | _ \<Rightarrow> False)"
| "has_type (TArray t) v = (case v of Arr vs \<Rightarrow> list_all (has_type t) vs | _ \<Rightarrow> False)"
| "has_type (TRecord t) v = (case v of Obj kvs \<Rightarrow> list_all (\<lambda>kv. has_type t (snd kv)) kvs | _ \<Rightarrow> False)"
| "has_type (TUnion t u) v = (has_type t v \<or> has_type u v)"
| "has_type (TObject _ fs) v = (case v of Obj _ \<Rightarrow> has_fields fs v | _ \<Rightarrow> False)"
| "has_fields [] v = True"
| "has_fields ((k, opt, t) # fs) v =
     ((opt \<and> field v k = Undefined \<or> has_type t (field v k)) \<and> has_fields fs v)"

lemma has_fieldsD:
  "has_fields fs v \<Longrightarrow> (k, opt, t) \<in> set fs \<Longrightarrow> opt \<and> field v k = Undefined \<or> has_type t (field v k)"
  by (induction fs) auto

text \<open>The type of the values that a schema gives, and the type of the values it is meant to read.\<close>

fun infer :: "zod \<Rightarrow> ts" and infer_fields :: "(jsstr \<times> zod) list \<Rightarrow> (jsstr \<times> bool \<times> ts) list" where
  "infer ZString = TString"
| "infer (ZCoerceString _ _) = TString"
| "infer ZNumber = TNumber"
| "infer ZBoolean = TBoolean"
| "infer ZNull = TNull"
| "infer ZUnknown = TUnknown"
| "infer ZVoid = TVoid"
| "infer (ZEnum ss) = TEnum ss"
| "infer (ZArray z) = TArray (infer z)"
| "infer (ZRecord z) = TRecord (infer z)"
| "infer (ZUnion y z) = TUnion (infer y) (infer z)"
| "infer (ZObject fs) = TObject False (infer_fields fs)"
| "infer (ZOptional z) = TUnion TVoid (infer z)"
| "infer (ZDefault d z) = infer z"
| "infer_fields [] = []"
| "infer_fields ((k, z) # fs) =
     (case z of ZOptional y \<Rightarrow> (k, True, infer y) | _ \<Rightarrow> (k, False, infer z)) # infer_fields fs"

fun input :: "zod \<Rightarrow> ts" and input_fields :: "(jsstr \<times> zod) list \<Rightarrow> (jsstr \<times> bool \<times> ts) list" where
  "input ZString = TString"
| "input (ZCoerceString _ _) = TString"
| "input ZNumber = TNumber"
| "input ZBoolean = TBoolean"
| "input ZNull = TNull"
| "input ZUnknown = TUnknown"
| "input ZVoid = TVoid"
| "input (ZEnum ss) = TEnum ss"
| "input (ZArray z) = TArray (input z)"
| "input (ZRecord z) = TRecord (input z)"
| "input (ZUnion y z) = TUnion (input y) (input z)"
| "input (ZObject fs) = TObject False (input_fields fs)"
| "input (ZOptional z) = TUnion TVoid (input z)"
| "input (ZDefault d z) = TUnion TVoid (input z)"
| "input_fields [] = []"
| "input_fields ((k, z) # fs) =
     (case z of ZOptional y \<Rightarrow> (k, True, input y) | ZDefault d y \<Rightarrow> (k, True, input y)
      | _ \<Rightarrow> (k, False, input z)) # input_fields fs"

text \<open>Values without \<open>NaN\<close>, as all values of JSON texts are.\<close>

fun nan_free :: "jsval \<Rightarrow> bool" where
  "nan_free (Num n) = (n \<noteq> NaN)"
| "nan_free (Arr vs) = list_all nan_free vs"
| "nan_free (Obj kvs) = list_all (\<lambda>kv. nan_free (snd kv)) kvs"
| "nan_free _ = True"

lemma nan_free_field [simp]: "nan_free v \<Longrightarrow> nan_free (field v k)"
  by (cases v) (force simp: list_all_iff dest: map_of_SomeD split: option.split)+

text \<open>Schemas whose objects name every field once and whose defaults are values of their own type,
  and schemas without checks of lengths.\<close>

fun proper :: "zod \<Rightarrow> bool" and proper_fields :: "(jsstr \<times> zod) list \<Rightarrow> bool" where
  "proper (ZArray z) = proper z"
| "proper (ZRecord z) = proper z"
| "proper (ZUnion y z) = (proper y \<and> proper z)"
| "proper (ZObject fs) = proper_fields fs"
| "proper (ZOptional z) = proper z"
| "proper (ZDefault d z) = (has_type (input z) d \<and> nan_free d \<and> proper z)"
| "proper _ = True"
| "proper_fields [] = True"
| "proper_fields ((k, z) # fs) = (proper z \<and> k \<notin> fst ` set fs \<and> proper_fields fs)"

fun no_checks :: "zod \<Rightarrow> bool" and no_field_checks :: "(jsstr \<times> zod) list \<Rightarrow> bool" where
  "no_checks (ZCoerceString lo hi) = (lo = None \<and> hi = None)"
| "no_checks (ZArray z) = no_checks z"
| "no_checks (ZRecord z) = no_checks z"
| "no_checks (ZUnion y z) = (no_checks y \<and> no_checks z)"
| "no_checks (ZObject fs) = no_field_checks fs"
| "no_checks (ZOptional z) = no_checks z"
| "no_checks (ZDefault d z) = no_checks z"
| "no_checks _ = True"
| "no_field_checks [] = True"
| "no_field_checks ((k, z) # fs) = (no_checks z \<and> no_field_checks fs)"

text \<open>Schemas that convert nothing: what they accept has their input type.\<close>

fun exact :: "zod \<Rightarrow> bool" and exact_fields :: "(jsstr \<times> zod) list \<Rightarrow> bool" where
  "exact (ZCoerceString _ _) = False"
| "exact (ZArray z) = exact z"
| "exact (ZRecord z) = exact z"
| "exact (ZUnion y z) = (exact y \<and> exact z)"
| "exact (ZObject fs) = exact_fields fs"
| "exact (ZOptional z) = exact z"
| "exact (ZDefault d z) = exact z"
| "exact _ = True"
| "exact_fields [] = True"
| "exact_fields ((k, z) # fs) = (exact z \<and> exact_fields fs)"

section \<open>Parser interface\<close>

definition length_ok :: "nat option \<Rightarrow> nat option \<Rightarrow> nat \<Rightarrow> bool" where
  "length_ok lo hi n \<longleftrightarrow> (\<forall>l \<in> set_option lo. l \<le> n) \<and> (\<forall>h \<in> set_option hi. n \<le> h)"

locale zod_library =
  fixes safe_parse :: "zod \<Rightarrow> jsval \<Rightarrow> jsval option"
  assumes parsed_type: "safe_parse z v = Some w \<Longrightarrow> proper z \<Longrightarrow> has_type (infer z) w"
    and reads_input: "has_type (input z) v \<Longrightarrow> nan_free v \<Longrightarrow> proper z \<Longrightarrow> no_checks z \<Longrightarrow> safe_parse z v \<noteq> None"
    and reads_only_input: "safe_parse z v = Some w \<Longrightarrow> exact z \<Longrightarrow> has_type (input z) v"
    and reads_fields: "safe_parse (ZObject fs) v = Some w \<Longrightarrow> (k, z) \<in> set fs \<Longrightarrow> safe_parse z (field v k) \<noteq> None"
    and reads_elements: "safe_parse (ZArray z) (Arr vs) = Some w \<Longrightarrow> v \<in> set vs \<Longrightarrow> safe_parse z v \<noteq> None"
    and fields_suffice: "(\<And>k z. (k, z) \<in> set fs \<Longrightarrow> safe_parse z (field (Obj kvs) k) \<noteq> None) \<Longrightarrow>
      safe_parse (ZObject fs) (Obj kvs) \<noteq> None"
    and lengths: "safe_parse (ZCoerceString lo hi) (Str s) \<noteq> None \<longleftrightarrow> length_ok lo hi (length s)"
    and arrays_only: "safe_parse (ZArray z) v = Some w \<Longrightarrow> \<exists>vs. v = Arr vs"
    and strips: "safe_parse (ZObject fs) v = Some w \<Longrightarrow> k \<notin> fst ` set fs \<Longrightarrow> field w k = Undefined"
    and string_as_is: "safe_parse ZString v = Some w \<Longrightarrow> w = v"
begin

lemma string_only: "safe_parse ZString v \<noteq> None \<Longrightarrow> \<exists>s. v = Str s"
  using parsed_type [of ZString v] string_as_is [of v]
  by (cases v) fastforce+

lemma missing_string_fails:
  assumes "(k, ZString) \<in> set fs" and "field v k = Undefined"
  shows "safe_parse (ZObject fs) v = None"
proof (rule ccontr)
  assume "safe_parse (ZObject fs) v \<noteq> None"
  then obtain w where "safe_parse (ZObject fs) v = Some w" by blast
  from reads_fields [OF this assms(1)] have "safe_parse ZString Undefined \<noteq> None" by (simp add: assms(2))
  then show False using string_only by blast
qed

lemma bad_element_fails:
  "v \<in> set vs \<Longrightarrow> safe_parse z v = None \<Longrightarrow> safe_parse (ZArray z) (Arr vs) = None"
  using reads_elements [of z vs] by (cases "safe_parse (ZArray z) (Arr vs)") auto

end

section \<open>A parser that meets the interface\<close>

fun those_fields :: "(jsstr \<times> jsval option) list \<Rightarrow> (jsstr \<times> jsval) list option" where
  "those_fields [] = Some []"
| "those_fields ((k, None) # r) = None"
| "those_fields ((k, Some v) # r) = map_option ((#) (k, v)) (those_fields r)"

definition has_key :: "jsval \<Rightarrow> jsstr \<Rightarrow> bool" where
  "has_key v k \<longleftrightarrow> (case v of Obj kvs \<Rightarrow> k \<in> fst ` set kvs | _ \<Rightarrow> False)"

definition coerced :: "(jsval \<Rightarrow> jsstr) \<Rightarrow> jsval \<Rightarrow> jsstr" where
  "coerced tostr v = (case v of Str s \<Rightarrow> s | _ \<Rightarrow> tostr v)"

text \<open>\<open>tostr\<close> is the conversion \<open>String\<close>.  Objects lose the fields that the schema does not name.\<close>

fun zparse :: "(jsval \<Rightarrow> jsstr) \<Rightarrow> zod \<Rightarrow> jsval \<Rightarrow> jsval option"
  and zparse_fields :: "(jsval \<Rightarrow> jsstr) \<Rightarrow> (jsstr \<times> zod) list \<Rightarrow> jsval \<Rightarrow> (jsstr \<times> jsval) list option" where
  "zparse tostr ZString v = (case v of Str _ \<Rightarrow> Some v | _ \<Rightarrow> None)"
| "zparse tostr (ZCoerceString lo hi) v =
     (let s = coerced tostr v in if length_ok lo hi (length s) then Some (Str s) else None)"
| "zparse tostr ZNumber v = (case v of Num n \<Rightarrow> if n = NaN then None else Some v | _ \<Rightarrow> None)"
| "zparse tostr ZBoolean v = (case v of Bool _ \<Rightarrow> Some v | _ \<Rightarrow> None)"
| "zparse tostr ZNull v = (if v = Null then Some v else None)"
| "zparse tostr ZUnknown v = Some v"
| "zparse tostr ZVoid v = (if v = Undefined then Some v else None)"
| "zparse tostr (ZEnum ss) v = (case v of Str s \<Rightarrow> if s \<in> set ss then Some v else None | _ \<Rightarrow> None)"
| "zparse tostr (ZArray z) v = (case v of Arr vs \<Rightarrow> map_option Arr (those (map (zparse tostr z) vs)) | _ \<Rightarrow> None)"
| "zparse tostr (ZRecord z) v =
     (case v of Obj kvs \<Rightarrow> map_option Obj (those_fields (map (\<lambda>kv. (fst kv, zparse tostr z (snd kv))) kvs)) | _ \<Rightarrow> None)"
| "zparse tostr (ZUnion y z) v = (case zparse tostr y v of Some w \<Rightarrow> Some w | None \<Rightarrow> zparse tostr z v)"
| "zparse tostr (ZObject fs) v = (case v of Obj _ \<Rightarrow> map_option Obj (zparse_fields tostr fs v) | _ \<Rightarrow> None)"
| "zparse tostr (ZOptional z) v = (if v = Undefined then Some v else zparse tostr z v)"
| "zparse tostr (ZDefault d z) v = zparse tostr z (if v = Undefined then d else v)"
| "zparse_fields tostr [] v = Some []"
| "zparse_fields tostr ((k, z) # fs) v =
     (case zparse tostr z (field v k) of
        None \<Rightarrow> None
      | Some w \<Rightarrow> map_option (\<lambda>r. if w = Undefined \<and> \<not> has_key v k then r else (k, w) # r)
                  (zparse_fields tostr fs v))"

lemma zparse_fieldsD:
  "zparse_fields tostr fs v = Some r \<Longrightarrow> (k, z) \<in> set fs \<Longrightarrow> zparse tostr z (field v k) \<noteq> None"
  by (induction fs arbitrary: r) (auto split: option.splits)

lemma zparse_fields_some:
  "(\<And>k z. (k, z) \<in> set fs \<Longrightarrow> zparse tostr z (field v k) \<noteq> None) \<Longrightarrow> zparse_fields tostr fs v \<noteq> None"
proof (induction fs)
  case (Cons kz fs)
  obtain k z where kz: "kz = (k, z)" by (cases kz)
  from Cons.prems [of k z] obtain w where "zparse tostr z (field v k) = Some w" by (auto simp: kz)
  moreover have "zparse_fields tostr fs v \<noteq> None" by (rule Cons.IH) (simp add: Cons.prems)
  ultimately show ?case by (auto simp: kz)
qed simp

lemma zparse_fields_keys: "zparse_fields tostr fs v = Some r \<Longrightarrow> fst ` set r \<subseteq> fst ` set fs"
proof (induction fs arbitrary: r)
  case (Cons kz fs)
  then obtain k z where kz: "kz = (k, z)" by (cases kz)
  from Cons.prems obtain r' where r': "zparse_fields tostr fs v = Some r'" "fst ` set r \<subseteq> insert k (fst ` set r')"
    by (auto simp: kz split: option.splits if_splits)
  then show ?case using Cons.IH [OF r'(1)] by (auto simp: kz)
qed simp

text \<open>A field of the result is what its own schema gives.\<close>

lemma zparse_fields_field:
  assumes "zparse_fields tostr ((k, z) # fs) v = Some r" and "k \<notin> fst ` set fs"
  shows "Some (field (Obj r) k) = zparse tostr z (field v k) \<and>
    (\<exists>r'. zparse_fields tostr fs v = Some r' \<and> (\<forall>k'. k' \<noteq> k \<longrightarrow> field (Obj r) k' = field (Obj r') k'))"
proof -
  obtain w r' where w: "zparse tostr z (field v k) = Some w" "zparse_fields tostr fs v = Some r'"
    "r = (if w = Undefined \<and> \<not> has_key v k then r' else (k, w) # r')"
    using assms(1) by (auto split: option.splits)
  have "map_of r' k = None"
    using zparse_fields_keys [OF w(2)] assms(2) by (auto simp: map_of_eq_None_iff)
  then show ?thesis using w by auto
qed

lemma those_all: "those xs = Some ys \<Longrightarrow> y \<in> set ys \<Longrightarrow> Some y \<in> set xs"
  by (induction xs arbitrary: ys) (auto split: option.splits)

lemma those_none: "None \<in> set xs \<Longrightarrow> those xs = None"
  by (induction xs) (auto split: option.splits)

lemma those_some: "None \<notin> set xs \<Longrightarrow> those xs \<noteq> None"
proof (induction xs)
  case (Cons a xs)
  then show ?case by (cases a) auto
qed simp

lemma those_fields_all: "those_fields xs = Some ys \<Longrightarrow> (k, y) \<in> set ys \<Longrightarrow> (k, Some y) \<in> set xs"
  by (induction xs arbitrary: ys rule: those_fields.induct) auto

lemma those_fields_some: "None \<notin> snd ` set xs \<Longrightarrow> those_fields xs \<noteq> None"
  by (induction xs rule: those_fields.induct) auto

lemma those_fields_none: "None \<in> snd ` set xs \<Longrightarrow> those_fields xs = None"
  by (induction xs rule: those_fields.induct) auto

lemma has_fields_cong:
  "(\<And>k. k \<in> fst ` set fs \<Longrightarrow> field v k = field u k) \<Longrightarrow> has_fields fs v = has_fields fs u"
  by (induction fs) auto

lemma map_fst_infer_fields: "map fst (infer_fields fs) = map fst fs"
  by (induction fs) (auto split: zod.splits)

lemma fst_infer_fields: "fst ` set (infer_fields fs) = fst ` set fs"
  using map_fst_infer_fields [of fs] by (metis list.set_map)

lemma infer_field_head:
  "has_fields (infer_fields ((k, z) # fs)) v \<longleftrightarrow>
     has_type (infer z) (field v k) \<and> has_fields (infer_fields fs) v"
  by (cases z) auto

lemma input_field_head:
  "has_fields (input_fields ((k, z) # fs)) v \<longleftrightarrow>
     has_type (input z) (field v k) \<and> has_fields (input_fields fs) v"
  by (cases z) auto

lemma zparse_typed:
  "zparse tostr z v = Some w \<Longrightarrow> proper z \<Longrightarrow> has_type (infer z) w"
  "zparse_fields tostr fs v = Some r \<Longrightarrow> proper_fields fs \<Longrightarrow> has_fields (infer_fields fs) (Obj r)"
proof (induction tostr z v and tostr fs v arbitrary: w and r rule: zparse_zparse_fields.induct)
  case (9 tostr z v)
  then show ?case by (fastforce simp: list_all_iff dest: those_all split: jsval.splits)
next
  case (10 tostr z v)
  then show ?case by (fastforce simp: list_all_iff dest: those_fields_all split: jsval.splits)
next
  case (16 tostr k z fs v)
  from 16(4) have p: "proper z" "k \<notin> fst ` set fs" "proper_fields fs" by auto
  from zparse_fields_field [OF 16(3) p(2)] obtain r' where
    f: "zparse tostr z (field v k) = Some (field (Obj r) k)" "zparse_fields tostr fs v = Some r'"
    "\<And>k'. k' \<noteq> k \<Longrightarrow> field (Obj r) k' = field (Obj r') k'" by metis
  have "has_fields (infer_fields fs) (Obj r')" using 16(2) [OF f(1) f(2) p(3)] .
  then have "has_fields (infer_fields fs) (Obj r)"
    using f(3) p(2) has_fields_cong [of "infer_fields fs" "Obj r" "Obj r'"] fst_infer_fields by metis
  moreover have "has_type (infer z) (field (Obj r) k)" using 16(1) [OF f(1) p(1)] .
  ultimately show ?case by (simp only: infer_field_head)
qed (auto simp: Let_def split: jsval.splits option.splits if_splits)

lemma zparse_reads:
  "has_type (input z) v \<Longrightarrow> nan_free v \<Longrightarrow> proper z \<Longrightarrow> no_checks z \<Longrightarrow> zparse tostr z v \<noteq> None"
  "has_fields (input_fields fs) v \<Longrightarrow> nan_free v \<Longrightarrow> proper_fields fs \<Longrightarrow> no_field_checks fs \<Longrightarrow>
     zparse_fields tostr fs v \<noteq> None"
proof (induction tostr z v and tostr fs v rule: zparse_zparse_fields.induct)
  case (9 tostr z v)
  then obtain vs where v: "v = Arr vs" by (auto split: jsval.splits)
  with 9 have "None \<notin> set (map (zparse tostr z) vs)"
    by (fastforce simp: list_all_iff image_iff)
  from those_some [OF this] show ?case by (auto simp: v)
next
  case (10 tostr z v)
  then obtain kvs where v: "v = Obj kvs" by (auto split: jsval.splits)
  with 10 have "None \<notin> snd ` set (map (\<lambda>kv. (fst kv, zparse tostr z (snd kv))) kvs)"
    by (fastforce simp: list_all_iff image_iff)
  from those_fields_some [OF this] show ?case by (auto simp: v)
next
  case (16 tostr k z fs v)
  then have h: "has_type (input z) (field v k)" "has_fields (input_fields fs) v"
    by (simp_all only: input_field_head)
  with 16 have "zparse tostr z (field v k) \<noteq> None" by simp
  then obtain w where w: "zparse tostr z (field v k) = Some w" by blast
  moreover have "zparse_fields tostr fs v \<noteq> None" using 16 h w by simp
  ultimately show ?case by simp
qed (auto simp: length_ok_def Let_def split: jsval.splits option.splits if_splits)

lemma zparse_exact:
  "zparse tostr z v = Some w \<Longrightarrow> exact z \<Longrightarrow> has_type (input z) v"
  "zparse_fields tostr fs v = Some r \<Longrightarrow> exact_fields fs \<Longrightarrow> has_fields (input_fields fs) v"
proof (induction tostr z v and tostr fs v arbitrary: w and r rule: zparse_zparse_fields.induct)
  case (9 tostr z v)
  from 9(2) obtain vs where v: "v = Arr vs" "those (map (zparse tostr z) vs) \<noteq> None"
    by (auto split: jsval.splits)
  have "has_type (input z) u" if u: "u \<in> set vs" for u
  proof -
    have "zparse tostr z u \<noteq> None"
      using v(2) those_none [of "map (zparse tostr z) vs"] u by (force simp: image_iff)
    then show ?thesis using 9(1) [OF v(1) u] 9(3) by auto
  qed
  then show ?case by (simp add: v(1) list_all_iff)
next
  case (10 tostr z v)
  from 10(2) obtain kvs r where v: "v = Obj kvs"
    "those_fields (map (\<lambda>kv. (fst kv, zparse tostr z (snd kv))) kvs) = Some r"
    by (auto split: jsval.splits)
  have "has_type (input z) (snd kv)" if kv: "kv \<in> set kvs" for kv
  proof -
    have "zparse tostr z (snd kv) \<noteq> None"
      using v(2) those_fields_none [of "map (\<lambda>kv. (fst kv, zparse tostr z (snd kv))) kvs"] kv
      by (force simp: image_iff)
    then show ?thesis using 10(1) [OF v(1) kv] 10(3) by auto
  qed
  then show ?case by (simp add: v(1) list_all_iff)
next
  case (16 tostr k z fs v)
  from 16(3) obtain w where "zparse tostr z (field v k) = Some w" "\<exists>r. zparse_fields tostr fs v = Some r"
    by (auto split: option.splits)
  with 16 show ?case by (auto simp only: input_field_head exact_fields.simps)
qed (auto simp: Let_def split: jsval.splits option.splits if_splits)

interpretation parser: zod_library "zparse tostr" for tostr :: "jsval \<Rightarrow> jsstr"
proof unfold_locales
  fix z v w
  show "zparse tostr z v = Some w \<Longrightarrow> proper z \<Longrightarrow> has_type (infer z) w"
    by (rule zparse_typed)
  show "has_type (input z) v \<Longrightarrow> nan_free v \<Longrightarrow> proper z \<Longrightarrow> no_checks z \<Longrightarrow> zparse tostr z v \<noteq> None"
    by (rule zparse_reads)
  show "zparse tostr z v = Some w \<Longrightarrow> exact z \<Longrightarrow> has_type (input z) v"
    by (rule zparse_exact)
  show "zparse tostr (ZObject fs) v = Some w \<Longrightarrow> (k, z) \<in> set fs \<Longrightarrow> zparse tostr z (field v k) \<noteq> None" for fs k
    using zparse_fieldsD [of tostr fs v _ k z] by (auto split: jsval.splits)
  show "zparse tostr (ZArray z) (Arr vs) = Some w \<Longrightarrow> v \<in> set vs \<Longrightarrow> zparse tostr z v \<noteq> None" for vs
    using those_none [of "map (zparse tostr z) vs"] by (force simp: image_iff)
  show "(\<And>k z. (k, z) \<in> set fs \<Longrightarrow> zparse tostr z (field (Obj kvs) k) \<noteq> None) \<Longrightarrow>
      zparse tostr (ZObject fs) (Obj kvs) \<noteq> None" for fs kvs
    using zparse_fields_some [of fs tostr "Obj kvs"] by auto
  show "zparse tostr (ZCoerceString lo hi) (Str s) \<noteq> None \<longleftrightarrow> length_ok lo hi (length s)" for lo hi s
    by (simp add: coerced_def)
  show "zparse tostr (ZArray z) v = Some w \<Longrightarrow> \<exists>vs. v = Arr vs"
    by (auto split: jsval.splits)
  show "zparse tostr (ZObject fs) v = Some w \<Longrightarrow> k \<notin> fst ` set fs \<Longrightarrow> field w k = Undefined" for fs k
  proof -
    assume p: "zparse tostr (ZObject fs) v = Some w" and k: "k \<notin> fst ` set fs"
    then obtain r where "zparse_fields tostr fs v = Some r" "w = Obj r" by (auto split: jsval.splits)
    with zparse_fields_keys [OF this(1)] k have "map_of r k = None" "w = Obj r"
      by (auto simp: map_of_eq_None_iff)
    then show "field w k = Undefined" by simp
  qed
  show "zparse tostr ZString v = Some w \<Longrightarrow> w = v"
    by (auto split: jsval.splits)
qed

end
