(* ===== verification/Api_Zod.thy ===== *)
theory Api_Zod
  imports Zod_Schema
begin

text \<open>
  The schemas of \<open>lib/api-zod/src/generated/api.ts\<close>, in the order of the file.  Descriptions, which
  do not take part in parsing, are left out.
\<close>

definition LivenessCheckResponse :: zod where
  "LivenessCheckResponse = ZRecord ZString"

definition ReadinessCheckResponse :: zod where
  "ReadinessCheckResponse = ZRecord ZString"

definition RegisterUserBody :: zod where
  "RegisterUserBody = ZObject
    [(js ''email'', ZString),
     (js ''password'', ZString),
     (js ''full_name'', ZString),
     (js ''country'', ZOptional (ZUnion ZString ZNull))]"

definition RegisterUserResponse :: zod where
  "RegisterUserResponse = ZObject
    [(js ''access_token'', ZString),
     (js ''token_type'', ZString),
     (js ''expires_in'', ZNumber),
     (js ''user'', ZRecord ZUnknown)]"

definition LoginBody :: zod where
  "LoginBody = ZObject
    [(js ''email'', ZString),
     (js ''password'', ZString)]"

definition LoginResponse :: zod where
  "LoginResponse = ZObject
    [(js ''access_token'', ZString),
     (js ''token_type'', ZString),
     (js ''expires_in'', ZNumber),
     (js ''user'', ZRecord ZUnknown)]"

definition AcceptInvitationBody :: zod where
  "AcceptInvitationBody = ZObject
    [(js ''token'', ZString),
     (js ''password'', ZString),
     (js ''full_name'', ZString),
     (js ''country'', ZOptional (ZUnion ZString ZNull))]"

definition AcceptInvitationResponse :: zod where
  "AcceptInvitationResponse = ZObject
    [(js ''access_token'', ZString),
     (js ''token_type'', ZString),
     (js ''expires_in'', ZNumber),
     (js ''user'', ZRecord ZUnknown)]"

definition AcceptInvitationSupabaseBody :: zod where
  "AcceptInvitationSupabaseBody = ZObject
    [(js ''token'', ZString),
     (js ''full_name'', ZString),
     (js ''country'', ZOptional (ZUnion ZString ZNull))]"

definition AcceptInvitationSupabaseResponse :: zod where
  "AcceptInvitationSupabaseResponse = ZObject
    [(js ''user'', ZObject
        [(js ''user_id'', ZString),
         (js ''email'', ZString),
         (js ''full_name'', ZString),
         (js ''country'', ZString),
         (js ''tenant_id'', ZString),
         (js ''roles'', ZArray ZString),
         (js ''account_status'', ZString)])]"

definition RefreshTokenHeader :: zod where
  "RefreshTokenHeader = ZObject
    [(js ''x-refresh-token'', ZOptional (ZUnion ZString ZNull))]"

definition RefreshTokenResponse :: zod where
  "RefreshTokenResponse = ZObject
    [(js ''access_token'', ZString),
     (js ''token_type'', ZString),
     (js ''expires_in'', ZNumber),
     (js ''user'', ZRecord ZUnknown)]"

definition LogoutResponse :: zod where
  "LogoutResponse = ZVoid"

definition GetCurrentUserResponse :: zod where
  "GetCurrentUserResponse = ZObject
    [(js ''user_id'', ZString),
     (js ''email'', ZOptional (ZUnion ZString ZNull)),
     (js ''country'', ZOptional (ZUnion ZString ZNull)),
     (js ''tenant_id'', ZOptional (ZUnion ZString ZNull)),
     (js ''organization_id'', ZOptional (ZUnion ZString ZNull)),
     (js ''roles'', ZArray ZString)]"

definition GetCurrentUserTenantResponse :: zod where
  "GetCurrentUserTenantResponse = ZObject
    [(js ''tenant_id'', ZString),
     (js ''name'', ZString),
     (js ''status'', ZString),
     (js ''owner_user_id'', ZOptional (ZUnion ZString ZNull)),
     (js ''suspension_reason'', ZOptional (ZUnion ZString ZNull)),
     (js ''created_at'', ZString),
     (js ''updated_at'', ZString)]"

definition AssignRoleParams :: zod where
  "AssignRoleParams = ZObject
    [(js ''user_id'', ZCoerceString None None)]"

definition AssignRoleBody :: zod where
  "AssignRoleBody = ZObject
    [(js ''role'', ZString)]"

definition AssignRoleResponse :: zod where
  "AssignRoleResponse = ZObject
    [(js ''user_id'', ZString),
     (js ''email'', ZString),
     (js ''full_name'', ZString),
     (js ''country'', ZString),
     (js ''tenant_id'', ZString),
     (js ''roles'', ZArray ZString),
     (js ''account_status'', ZString)]"

definition ListInvitationsResponseItem :: zod where
  "ListInvitationsResponseItem = ZObject
    [(js ''invitation_id'', ZString),
     (js ''email'', ZString),
     (js ''role'', ZString),
     (js ''status'', ZString),
     (js ''expires_at'', ZString),
     (js ''created_at'', ZString)]"

definition ListInvitationsResponse :: zod where
  "ListInvitationsResponse = ZArray ListInvitationsResponseItem"

definition CreateInvitationBody :: zod where
  "CreateInvitationBody = ZObject
    [(js ''email'', ZString),
     (js ''role'', ZString)]"

definition CreateInvitationResponse :: zod where
  "CreateInvitationResponse = ZObject
    [(js ''invitation_id'', ZString),
     (js ''email'', ZString),
     (js ''role'', ZString),
     (js ''expires_at'', ZString),
     (js ''token'', ZString)]"

definition RevokeInvitationParams :: zod where
  "RevokeInvitationParams = ZObject
    [(js ''invitation_id'', ZCoerceString None None)]"

definition RevokeInvitationResponse :: zod where
  "RevokeInvitationResponse = ZObject
    [(js ''invitation_id'', ZString),
     (js ''email'', ZString),
     (js ''role'', ZString),
     (js ''status'', ZString),
     (js ''expires_at'', ZString),
     (js ''created_at'', ZString)]"

definition ListTenantsResponseItem :: zod where
  "ListTenantsResponseItem = ZObject
    [(js ''tenant_id'', ZString),
     (js ''name'', ZString),
     (js ''status'', ZString),
     (js ''owner_user_id'', ZOptional (ZUnion ZString ZNull)),
     (js ''suspension_reason'', ZOptional (ZUnion ZString ZNull)),
     (js ''created_at'', ZString),
     (js ''updated_at'', ZString)]"

definition ListTenantsResponse :: zod where
  "ListTenantsResponse = ZArray ListTenantsResponseItem"

definition GetTenantParams :: zod where
  "GetTenantParams = ZObject
    [(js ''tenant_id'', ZCoerceString None None)]"

definition GetTenantResponse :: zod where
  "GetTenantResponse = ZObject
    [(js ''tenant_id'', ZString),
     (js ''name'', ZString),
     (js ''status'', ZString),
     (js ''owner_user_id'', ZOptional (ZUnion ZString ZNull)),
     (js ''suspension_reason'', ZOptional (ZUnion ZString ZNull)),
     (js ''created_at'', ZString),
     (js ''updated_at'', ZString)]"

definition SuspendTenantParams :: zod where
  "SuspendTenantParams = ZObject
    [(js ''tenant_id'', ZCoerceString None None)]"

definition SuspendTenantBody :: zod where
  "SuspendTenantBody = ZObject
    [(js ''reason'', ZString)]"

definition SuspendTenantResponse :: zod where
  "SuspendTenantResponse = ZObject
    [(js ''tenant_id'', ZString),
     (js ''name'', ZString),
     (js ''status'', ZString),
     (js ''owner_user_id'', ZOptional (ZUnion ZString ZNull)),
     (js ''suspension_reason'', ZOptional (ZUnion ZString ZNull)),
     (js ''created_at'', ZString),
     (js ''updated_at'', ZString)]"

definition ReactivateTenantParams :: zod where
  "ReactivateTenantParams = ZObject
    [(js ''tenant_id'', ZCoerceString None None)]"

definition ReactivateTenantResponse :: zod where
  "ReactivateTenantResponse = ZObject
    [(js ''tenant_id'', ZString),
     (js ''name'', ZString),
     (js ''status'', ZString),
     (js ''owner_user_id'', ZOptional (ZUnion ZString ZNull)),
     (js ''suspension_reason'', ZOptional (ZUnion ZString ZNull)),
     (js ''created_at'', ZString),
     (js ''updated_at'', ZString)]"

definition ArchiveTenantParams :: zod where
  "ArchiveTenantParams = ZObject
    [(js ''tenant_id'', ZCoerceString None None)]"

definition ArchiveTenantResponse :: zod where
  "ArchiveTenantResponse = ZObject
    [(js ''tenant_id'', ZString),
     (js ''name'', ZString),
     (js ''status'', ZString),
     (js ''owner_user_id'', ZOptional (ZUnion ZString ZNull)),
     (js ''suspension_reason'', ZOptional (ZUnion ZString ZNull)),
     (js ''created_at'', ZString),
     (js ''updated_at'', ZString)]"

definition ListDelegationsResponseItem :: zod where
  "ListDelegationsResponseItem = ZObject
    [(js ''delegation_id'', ZString),
     (js ''tenant_id'', ZString),
     (js ''delegator_user_id'', ZString),
     (js ''delegate_user_id'', ZString),
     (js ''delegated_roles'', ZArray ZString),
     (js ''scope'', ZString),
     (js ''status'', ZString),
     (js ''expires_at'', ZOptional (ZUnion ZString ZNull)),
     (js ''created_at'', ZString),
     (js ''updated_at'', ZString),
     (js ''revoked_at'', ZOptional (ZUnion ZString ZNull)),
     (js ''revoked_by'', ZOptional (ZUnion ZString ZNull)),
     (js ''effective'', ZBoolean),
     (js ''ineffective_reason'', ZOptional (ZUnion ZString ZNull))]"

definition ListDelegationsResponse :: zod where
  "ListDelegationsResponse = ZArray ListDelegationsResponseItem"

definition createDelegationBodyScopeDefault :: jsstr where "createDelegationBodyScopeDefault = js ''tenant_governance''"

definition CreateDelegationBody :: zod where
  "CreateDelegationBody = ZObject
    [(js ''delegate_user_id'', ZString),
     (js ''delegated_roles'', ZArray ZString),
     (js ''scope'', ZDefault (Str createDelegationBodyScopeDefault) ZString),
     (js ''expires_at'', ZOptional (ZUnion ZString ZNull))]"

definition CreateDelegationResponse :: zod where
  "CreateDelegationResponse = ZObject
    [(js ''delegation_id'', ZString),
     (js ''tenant_id'', ZString),
     (js ''delegator_user_id'', ZString),
     (js ''delegate_user_id'', ZString),
     (js ''delegated_roles'', ZArray ZString),
     (js ''scope'', ZString),
     (js ''status'', ZString),
     (js ''expires_at'', ZOptional (ZUnion ZString ZNull)),
     (js ''created_at'', ZString),
     (js ''updated_at'', ZString),
     (js ''revoked_at'', ZOptional (ZUnion ZString ZNull)),
     (js ''revoked_by'', ZOptional (ZUnion ZString ZNull))]"

definition GetDelegationParams :: zod where
  "GetDelegationParams = ZObject
    [(js ''delegation_id'', ZCoerceString None None)]"

definition GetDelegationResponse :: zod where
  "GetDelegationResponse = ZObject
    [(js ''delegation_id'', ZString),
     (js ''tenant_id'', ZString),
     (js ''delegator_user_id'', ZString),
     (js ''delegate_user_id'', ZString),
     (js ''delegated_roles'', ZArray ZString),
     (js ''scope'', ZString),
     (js ''status'', ZString),
     (js ''expires_at'', ZOptional (ZUnion ZString ZNull)),
     (js ''created_at'', ZString),
     (js ''updated_at'', ZString),
     (js ''revoked_at'', ZOptional (ZUnion ZString ZNull)),
     (js ''revoked_by'', ZOptional (ZUnion ZString ZNull)),
     (js ''effective'', ZBoolean),
     (js ''ineffective_reason'', ZOptional (ZUnion ZString ZNull))]"

definition RevokeDelegationParams :: zod where
  "RevokeDelegationParams = ZObject
    [(js ''delegation_id'', ZCoerceString None None)]"

definition RevokeDelegationResponse :: zod where
  "RevokeDelegationResponse = ZObject
    [(js ''delegation_id'', ZString),
     (js ''tenant_id'', ZString),
     (js ''delegator_user_id'', ZString),
     (js ''delegate_user_id'', ZString),
     (js ''delegated_roles'', ZArray ZString),
     (js ''scope'', ZString),
     (js ''status'', ZString),
     (js ''expires_at'', ZOptional (ZUnion ZString ZNull)),
     (js ''created_at'', ZString),
     (js ''updated_at'', ZString),
     (js ''revoked_at'', ZOptional (ZUnion ZString ZNull)),
     (js ''revoked_by'', ZOptional (ZUnion ZString ZNull))]"

definition ExtendDelegationParams :: zod where
  "ExtendDelegationParams = ZObject
    [(js ''delegation_id'', ZCoerceString None None)]"

definition ExtendDelegationBody :: zod where
  "ExtendDelegationBody = ZObject
    [(js ''expires_at'', ZOptional (ZUnion ZString ZNull))]"

definition ExtendDelegationResponse :: zod where
  "ExtendDelegationResponse = ZObject
    [(js ''delegation_id'', ZString),
     (js ''tenant_id'', ZString),
     (js ''delegator_user_id'', ZString),
     (js ''delegate_user_id'', ZString),
     (js ''delegated_roles'', ZArray ZString),
     (js ''scope'', ZString),
     (js ''status'', ZString),
     (js ''expires_at'', ZOptional (ZUnion ZString ZNull)),
     (js ''created_at'', ZString),
     (js ''updated_at'', ZString),
     (js ''revoked_at'', ZOptional (ZUnion ZString ZNull)),
     (js ''revoked_by'', ZOptional (ZUnion ZString ZNull))]"

definition ListParcelsResponseItem :: zod where
  "ListParcelsResponseItem = ZObject
    [(js ''parcel_id'', ZString),
     (js ''tenant_id'', ZString),
     (js ''country_code'', ZString),
     (js ''origin'', ZString),
     (js ''created_by'', ZString),
     (js ''status'', ZEnum [js ''ACTIVE'', js ''ARCHIVED'']),
     (js ''parcel_number'', ZOptional (ZUnion ZString ZNull)),
     (js ''title'', ZOptional (ZUnion ZString ZNull)),
     (js ''address'', ZOptional (ZUnion ZString ZNull)),
     (js ''state'', ZOptional (ZUnion ZString ZNull)),
     (js ''lga'', ZOptional (ZUnion ZString ZNull)),
     (js ''ward'', ZOptional (ZUnion ZString ZNull)),
     (js ''community'', ZOptional (ZUnion ZString ZNull)),
     (js ''property_type'', ZOptional (ZUnion ZString ZNull)),
     (js ''size_sqm'', ZOptional (ZUnion ZNumber ZNull)),
     (js ''ownership_type'', ZOptional (ZUnion ZString ZNull)),
     (js ''current_owner_name'', ZOptional (ZUnion ZString ZNull)),
     (js ''current_owner_contact'', ZOptional (ZUnion ZString ZNull)),
     (js ''created_at'', ZString),
     (js ''updated_at'', ZString),
     (js ''archived_at'', ZOptional (ZUnion ZString ZNull)),
     (js ''geometry_reference'', ZOptional (ZUnion ZString ZNull))]"

definition ListParcelsResponse :: zod where
  "ListParcelsResponse = ZArray ListParcelsResponseItem"

definition CreateParcelBody :: zod where
  "CreateParcelBody = ZObject
    [(js ''country_code'', ZOptional (ZUnion ZString ZNull)),
     (js ''title'', ZOptional (ZUnion ZString ZNull)),
     (js ''address'', ZOptional (ZUnion ZString ZNull)),
     (js ''state'', ZOptional (ZUnion ZString ZNull)),
     (js ''lga'', ZOptional (ZUnion ZString ZNull)),
     (js ''ward'', ZOptional (ZUnion ZString ZNull)),
     (js ''community'', ZOptional (ZUnion ZString ZNull)),
     (js ''property_type'', ZOptional (ZUnion ZString ZNull)),
     (js ''size_sqm'', ZOptional (ZUnion ZNumber ZNull)),
     (js ''ownership_type'', ZOptional (ZUnion ZString ZNull)),
     (js ''current_owner_name'', ZOptional (ZUnion ZString ZNull)),
     (js ''current_owner_contact'', ZOptional (ZUnion ZString ZNull))]"

definition CreateParcelResponse :: zod where
  "CreateParcelResponse = ZObject
    [(js ''parcel_id'', ZString),
     (js ''tenant_id'', ZString),
     (js ''country_code'', ZString),
     (js ''origin'', ZString),
     (js ''created_by'', ZString),
     (js ''status'', ZEnum [js ''ACTIVE'', js ''ARCHIVED'']),
     (js ''parcel_number'', ZOptional (ZUnion ZString ZNull)),
     (js ''title'', ZOptional (ZUnion ZString ZNull)),
     (js ''address'', ZOptional (ZUnion ZString ZNull)),
     (js ''state'', ZOptional (ZUnion ZString ZNull)),
     (js ''lga'', ZOptional (ZUnion ZString ZNull)),
     (js ''ward'', ZOptional (ZUnion ZString ZNull)),
     (js ''community'', ZOptional (ZUnion ZString ZNull)),
     (js ''property_type'', ZOptional (ZUnion ZString ZNull)),
     (js ''size_sqm'', ZOptional (ZUnion ZNumber ZNull)),
     (js ''ownership_type'', ZOptional (ZUnion ZString ZNull)),
     (js ''current_owner_name'', ZOptional (ZUnion ZString ZNull)),
     (js ''current_owner_contact'', ZOptional (ZUnion ZString ZNull)),
     (js ''created_at'', ZString),
     (js ''updated_at'', ZString),
     (js ''archived_at'', ZOptional (ZUnion ZString ZNull)),
     (js ''geometry_reference'', ZOptional (ZUnion ZString ZNull))]"

definition UpdateParcelParams :: zod where
  "UpdateParcelParams = ZObject
    [(js ''parcel_id'', ZCoerceString None None)]"

definition UpdateParcelBody :: zod where
  "UpdateParcelBody = ZObject
    [(js ''title'', ZOptional (ZUnion ZString ZNull)),
     (js ''address'', ZOptional (ZUnion ZString ZNull)),
     (js ''state'', ZOptional (ZUnion ZString ZNull)),
     (js ''lga'', ZOptional (ZUnion ZString ZNull)),
     (js ''ward'', ZOptional (ZUnion ZString ZNull)),
     (js ''community'', ZOptional (ZUnion ZString ZNull)),
     (js ''property_type'', ZOptional (ZUnion ZString ZNull)),
     (js ''size_sqm'', ZOptional (ZUnion ZNumber ZNull)),
     (js ''ownership_type'', ZOptional (ZUnion ZString ZNull)),
     (js ''current_owner_name'', ZOptional (ZUnion ZString ZNull)),
     (js ''current_owner_contact'', ZOptional (ZUnion ZString ZNull))]"

definition UpdateParcelResponse :: zod where
  "UpdateParcelResponse = ZObject
    [(js ''parcel_id'', ZString),
     (js ''tenant_id'', ZString),
     (js ''country_code'', ZString),
     (js ''origin'', ZString),
     (js ''created_by'', ZString),
     (js ''status'', ZEnum [js ''ACTIVE'', js ''ARCHIVED'']),
     (js ''parcel_number'', ZOptional (ZUnion ZString ZNull)),
     (js ''title'', ZOptional (ZUnion ZString ZNull)),
     (js ''address'', ZOptional (ZUnion ZString ZNull)),
     (js ''state'', ZOptional (ZUnion ZString ZNull)),
     (js ''lga'', ZOptional (ZUnion ZString ZNull)),
     (js ''ward'', ZOptional (ZUnion ZString ZNull)),
     (js ''community'', ZOptional (ZUnion ZString ZNull)),
     (js ''property_type'', ZOptional (ZUnion ZString ZNull)),
     (js ''size_sqm'', ZOptional (ZUnion ZNumber ZNull)),
     (js ''ownership_type'', ZOptional (ZUnion ZString ZNull)),
     (js ''current_owner_name'', ZOptional (ZUnion ZString ZNull)),
     (js ''current_owner_contact'', ZOptional (ZUnion ZString ZNull)),
     (js ''created_at'', ZString),
     (js ''updated_at'', ZString),
     (js ''archived_at'', ZOptional (ZUnion ZString ZNull)),
     (js ''geometry_reference'', ZOptional (ZUnion ZString ZNull))]"

definition GetParcelParams :: zod where
  "GetParcelParams = ZObject
    [(js ''parcel_id'', ZCoerceString None None)]"

definition GetParcelResponse :: zod where
  "GetParcelResponse = ZObject
    [(js ''parcel_id'', ZString),
     (js ''tenant_id'', ZString),
     (js ''country_code'', ZString),
     (js ''origin'', ZString),
     (js ''created_by'', ZString),
     (js ''status'', ZEnum [js ''ACTIVE'', js ''ARCHIVED'']),
     (js ''parcel_number'', ZOptional (ZUnion ZString ZNull)),
     (js ''title'', ZOptional (ZUnion ZString ZNull)),
     (js ''address'', ZOptional (ZUnion ZString ZNull)),
     (js ''state'', ZOptional (ZUnion ZString ZNull)),
     (js ''lga'', ZOptional (ZUnion ZString ZNull)),
     (js ''ward'', ZOptional (ZUnion ZString ZNull)),
     (js ''community'', ZOptional (ZUnion ZString ZNull)),
     (js ''property_type'', ZOptional (ZUnion ZString ZNull)),
     (js ''size_sqm'', ZOptional (ZUnion ZNumber ZNull)),
     (js ''ownership_type'', ZOptional (ZUnion ZString ZNull)),
     (js ''current_owner_name'', ZOptional (ZUnion ZString ZNull)),
     (js ''current_owner_contact'', ZOptional (ZUnion ZString ZNull)),
     (js ''created_at'', ZString),
     (js ''updated_at'', ZString),
     (js ''archived_at'', ZOptional (ZUnion ZString ZNull)),
     (js ''geometry_reference'', ZOptional (ZUnion ZString ZNull))]"

definition ArchiveParcelParams :: zod where
  "ArchiveParcelParams = ZObject
    [(js ''parcel_id'', ZCoerceString None None)]"

definition ArchiveParcelResponse :: zod where
  "ArchiveParcelResponse = ZObject
    [(js ''parcel_id'', ZString),
     (js ''tenant_id'', ZString),
     (js ''country_code'', ZString),
     (js ''origin'', ZString),
     (js ''created_by'', ZString),
     (js ''status'', ZEnum [js ''ACTIVE'', js ''ARCHIVED'']),
     (js ''parcel_number'', ZOptional (ZUnion ZString ZNull)),
     (js ''title'', ZOptional (ZUnion ZString ZNull)),
     (js ''address'', ZOptional (ZUnion ZString ZNull)),
     (js ''state'', ZOptional (ZUnion ZString ZNull)),
     (js ''lga'', ZOptional (ZUnion ZString ZNull)),
     (js ''ward'', ZOptional (ZUnion ZString ZNull)),
     (js ''community'', ZOptional (ZUnion ZString ZNull)),
     (js ''property_type'', ZOptional (ZUnion ZString ZNull)),
     (js ''size_sqm'', ZOptional (ZUnion ZNumber ZNull)),
     (js ''ownership_type'', ZOptional (ZUnion ZString ZNull)),
     (js ''current_owner_name'', ZOptional (ZUnion ZString ZNull)),
     (js ''current_owner_contact'', ZOptional (ZUnion ZString ZNull)),
     (js ''created_at'', ZString),
     (js ''updated_at'', ZString),
     (js ''archived_at'', ZOptional (ZUnion ZString ZNull)),
     (js ''geometry_reference'', ZOptional (ZUnion ZString ZNull))]"

definition SetParcelGeometryReferenceParams :: zod where
  "SetParcelGeometryReferenceParams = ZObject
    [(js ''parcel_id'', ZCoerceString None None)]"

definition SetParcelGeometryReferenceBody :: zod where
  "SetParcelGeometryReferenceBody = ZObject
    [(js ''geometry_reference'', ZOptional (ZUnion ZString ZNull))]"

definition SetParcelGeometryReferenceResponse :: zod where
  "SetParcelGeometryReferenceResponse = ZObject
    [(js ''parcel_id'', ZString),
     (js ''tenant_id'', ZString),
     (js ''country_code'', ZString),
     (js ''origin'', ZString),
     (js ''created_by'', ZString),
     (js ''status'', ZEnum [js ''ACTIVE'', js ''ARCHIVED'']),
     (js ''parcel_number'', ZOptional (ZUnion ZString ZNull)),
     (js ''title'', ZOptional (ZUnion ZString ZNull)),
     (js ''address'', ZOptional (ZUnion ZString ZNull)),
     (js ''state'', ZOptional (ZUnion ZString ZNull)),
     (js ''lga'', ZOptional (ZUnion ZString ZNull)),
     (js ''ward'', ZOptional (ZUnion ZString ZNull)),
     (js ''community'', ZOptional (ZUnion ZString ZNull)),
     (js ''property_type'', ZOptional (ZUnion ZString ZNull)),
     (js ''size_sqm'', ZOptional (ZUnion ZNumber ZNull)),
     (js ''ownership_type'', ZOptional (ZUnion ZString ZNull)),
     (js ''current_owner_name'', ZOptional (ZUnion ZString ZNull)),
     (js ''current_owner_contact'', ZOptional (ZUnion ZString ZNull)),
     (js ''created_at'', ZString),
     (js ''updated_at'', ZString),
     (js ''archived_at'', ZOptional (ZUnion ZString ZNull)),
     (js ''geometry_reference'', ZOptional (ZUnion ZString ZNull))]"

definition SubmitParcelGeometryParams :: zod where
  "SubmitParcelGeometryParams = ZObject
    [(js ''parcel_id'', ZCoerceString None None)]"

definition SubmitParcelGeometryBody :: zod where
  "SubmitParcelGeometryBody = ZObject
    [(js ''boundary'', ZString)]"

definition SubmitParcelGeometryResponse :: zod where
  "SubmitParcelGeometryResponse = ZObject
    [(js ''geometry_id'', ZString),
     (js ''tenant_id'', ZString),
     (js ''parcel_id'', ZString),
     (js ''boundary'', ZString),
     (js ''srid'', ZNumber),
     (js ''status'', ZEnum [js ''ACTIVE'', js ''SUPERSEDED'']),
     (js ''created_by'', ZString),
     (js ''created_at'', ZString),
     (js ''superseded_at'', ZOptional (ZUnion ZString ZNull))]"

definition GetActiveParcelGeometryParams :: zod where
  "GetActiveParcelGeometryParams = ZObject
    [(js ''parcel_id'', ZCoerceString None None)]"

definition GetActiveParcelGeometryResponse :: zod where
  "GetActiveParcelGeometryResponse = ZObject
    [(js ''geometry_id'', ZString),
     (js ''tenant_id'', ZString),
     (js ''parcel_id'', ZString),
     (js ''boundary'', ZString),
     (js ''srid'', ZNumber),
     (js ''status'', ZEnum [js ''ACTIVE'', js ''SUPERSEDED'']),
     (js ''created_by'', ZString),
     (js ''created_at'', ZString),
     (js ''superseded_at'', ZOptional (ZUnion ZString ZNull))]"

definition UploadParcelEvidenceParams :: zod where
  "UploadParcelEvidenceParams = ZObject
    [(js ''parcel_id'', ZCoerceString None None)]"

definition uploadParcelEvidenceQueryFilenameMax :: nat where "uploadParcelEvidenceQueryFilenameMax = 255"

definition uploadParcelEvidenceQueryBasisMax :: nat where "uploadParcelEvidenceQueryBasisMax = 500"

definition UploadParcelEvidenceQueryParams :: zod where
  "UploadParcelEvidenceQueryParams = ZObject
    [(js ''filename'', ZCoerceString (Some 1) (Some uploadParcelEvidenceQueryFilenameMax)),
     (js ''evidence_type'', ZEnum [js ''SURVEY_PLAN'', js ''TITLE_DOCUMENT'', js ''IDENTITY_DOCUMENT'', js ''OTHER'']),
     (js ''basis'', ZCoerceString (Some 1) (Some uploadParcelEvidenceQueryBasisMax))]"

definition UploadParcelEvidenceResponse :: zod where
  "UploadParcelEvidenceResponse = ZObject
    [(js ''evidence_id'', ZString),
     (js ''parcel_id'', ZString),
     (js ''uploaded_by'', ZString),
     (js ''filename'', ZString),
     (js ''mime_type'', ZString),
     (js ''size_bytes'', ZNumber),
     (js ''basis'', ZString),
     (js ''evidence_type'', ZEnum [js ''SURVEY_PLAN'', js ''TITLE_DOCUMENT'', js ''IDENTITY_DOCUMENT'', js ''OTHER'']),
     (js ''status'', ZEnum [js ''RECEIVED'', js ''HASHED'', js ''SEALED'']),
     (js ''sha256'', ZOptional (ZUnion ZString ZNull)),
     (js ''created_at'', ZString)]"

definition ListParcelEvidenceParams :: zod where
  "ListParcelEvidenceParams = ZObject
    [(js ''parcel_id'', ZCoerceString None None)]"

definition ListParcelEvidenceResponseItem :: zod where
  "ListParcelEvidenceResponseItem = ZObject
    [(js ''evidence_id'', ZString),
     (js ''parcel_id'', ZString),
     (js ''uploaded_by'', ZString),
     (js ''filename'', ZString),
     (js ''mime_type'', ZString),
     (js ''size_bytes'', ZNumber),
     (js ''basis'', ZString),
     (js ''evidence_type'', ZEnum [js ''SURVEY_PLAN'', js ''TITLE_DOCUMENT'', js ''IDENTITY_DOCUMENT'', js ''OTHER'']),
     (js ''status'', ZEnum [js ''RECEIVED'', js ''HASHED'', js ''SEALED'']),
     (js ''sha256'', ZOptional (ZUnion ZString ZNull)),
     (js ''created_at'', ZString)]"

definition ListParcelEvidenceResponse :: zod where
  "ListParcelEvidenceResponse = ZArray ListParcelEvidenceResponseItem"

definition RecordEvidenceAttributionParams :: zod where
  "RecordEvidenceAttributionParams = ZObject
    [(js ''evidence_id'', ZCoerceString None None)]"

definition RecordEvidenceAttributionBody :: zod where
  "RecordEvidenceAttributionBody = ZObject
    [(js ''attribution_role'', ZEnum [js ''ORIGINATED_BY'', js ''REVIEWED_BY'', js ''COMMISSIONED_BY'']),
     (js ''actor_reference_kind'', ZEnum [js ''INTERNAL_PRINCIPAL'', js ''EXTERNAL_NAMED'', js ''HISTORICAL_ASSERTED'', js ''UNKNOWN'']),
     (js ''actor_type'', ZEnum [js ''INDIVIDUAL'', js ''ORGANIZATION'', js ''UNKNOWN'']),
     (js ''basis'', ZString),
     (js ''actor_principal_id'', ZOptional (ZUnion ZString ZNull)),
     (js ''actor_name'', ZOptional (ZUnion ZString ZNull)),
     (js ''actor_organization_name'', ZOptional (ZUnion ZString ZNull)),
     (js ''review_method'', ZOptional (ZUnion ZString ZNull))]"

definition RecordEvidenceAttributionResponse :: zod where
  "RecordEvidenceAttributionResponse = ZObject
    [(js ''attribution_id'', ZString),
     (js ''evidence_id'', ZString),
     (js ''attribution_role'', ZEnum [js ''ORIGINATED_BY'', js ''REVIEWED_BY'', js ''COMMISSIONED_BY'']),
     (js ''actor_reference_kind'', ZEnum [js ''INTERNAL_PRINCIPAL'', js ''EXTERNAL_NAMED'', js ''HISTORICAL_ASSERTED'', js ''UNKNOWN'']),
     (js ''actor_principal_id'', ZUnion ZString ZNull),
     (js ''actor_name'', ZUnion ZString ZNull),
     (js ''actor_organization_name'', ZUnion ZString ZNull),
     (js ''actor_type'', ZEnum [js ''INDIVIDUAL'', js ''ORGANIZATION'', js ''UNKNOWN'']),
     (js ''basis'', ZString),
     (js ''review_method'', ZUnion ZString ZNull),
     (js ''recorded_by'', ZString),
     (js ''recorded_at'', ZString),
     (js ''supersedes_id'', ZUnion ZString ZNull),
     (js ''is_active'', ZBoolean)]"

definition CorrectEvidenceAttributionParams :: zod where
  "CorrectEvidenceAttributionParams = ZObject
    [(js ''attribution_id'', ZCoerceString None None)]"

definition CorrectEvidenceAttributionBody :: zod where
  "CorrectEvidenceAttributionBody = ZObject
    [(js ''attribution_role'', ZEnum [js ''ORIGINATED_BY'', js ''REVIEWED_BY'', js ''COMMISSIONED_BY'']),
     (js ''actor_reference_kind'', ZEnum [js ''INTERNAL_PRINCIPAL'', js ''EXTERNAL_NAMED'', js ''HISTORICAL_ASSERTED'', js ''UNKNOWN'']),
     (js ''actor_type'', ZEnum [js ''INDIVIDUAL'', js ''ORGANIZATION'', js ''UNKNOWN'']),
     (js ''basis'', ZString),
     (js ''actor_principal_id'', ZOptional (ZUnion ZString ZNull)),
     (js ''actor_name'', ZOptional (ZUnion ZString ZNull)),
     (js ''actor_organization_name'', ZOptional (ZUnion ZString ZNull)),
     (js ''review_method'', ZOptional (ZUnion ZString ZNull))]"

definition CorrectEvidenceAttributionResponse :: zod where
  "CorrectEvidenceAttributionResponse = ZObject
    [(js ''attribution_id'', ZString),
     (js ''evidence_id'', ZString),
     (js ''attribution_role'', ZEnum [js ''ORIGINATED_BY'', js ''REVIEWED_BY'', js ''COMMISSIONED_BY'']),
     (js ''actor_reference_kind'', ZEnum [js ''INTERNAL_PRINCIPAL'', js ''EXTERNAL_NAMED'', js ''HISTORICAL_ASSERTED'', js ''UNKNOWN'']),
     (js ''actor_principal_id'', ZUnion ZString ZNull),
     (js ''actor_name'', ZUnion ZString ZNull),
     (js ''actor_organization_name'', ZUnion ZString ZNull),
     (js ''actor_type'', ZEnum [js ''INDIVIDUAL'', js ''ORGANIZATION'', js ''UNKNOWN'']),
     (js ''basis'', ZString),
     (js ''review_method'', ZUnion ZString ZNull),
     (js ''recorded_by'', ZString),
     (js ''recorded_at'', ZString),
     (js ''supersedes_id'', ZUnion ZString ZNull),
     (js ''is_active'', ZBoolean)]"

lemmas schema_defs =
  LivenessCheckResponse_def ReadinessCheckResponse_def RegisterUserBody_def
  RegisterUserResponse_def LoginBody_def LoginResponse_def AcceptInvitationBody_def
  AcceptInvitationResponse_def AcceptInvitationSupabaseBody_def
  AcceptInvitationSupabaseResponse_def RefreshTokenHeader_def RefreshTokenResponse_def
  LogoutResponse_def GetCurrentUserResponse_def GetCurrentUserTenantResponse_def
  AssignRoleParams_def AssignRoleBody_def AssignRoleResponse_def ListInvitationsResponseItem_def
  ListInvitationsResponse_def CreateInvitationBody_def CreateInvitationResponse_def
  RevokeInvitationParams_def RevokeInvitationResponse_def ListTenantsResponseItem_def
  ListTenantsResponse_def GetTenantParams_def GetTenantResponse_def SuspendTenantParams_def
  SuspendTenantBody_def SuspendTenantResponse_def ReactivateTenantParams_def
  ReactivateTenantResponse_def ArchiveTenantParams_def ArchiveTenantResponse_def
  ListDelegationsResponseItem_def ListDelegationsResponse_def
  createDelegationBodyScopeDefault_def CreateDelegationBody_def CreateDelegationResponse_def
  GetDelegationParams_def GetDelegationResponse_def RevokeDelegationParams_def
  RevokeDelegationResponse_def ExtendDelegationParams_def ExtendDelegationBody_def
  ExtendDelegationResponse_def ListParcelsResponseItem_def ListParcelsResponse_def
  CreateParcelBody_def CreateParcelResponse_def UpdateParcelParams_def UpdateParcelBody_def
  UpdateParcelResponse_def GetParcelParams_def GetParcelResponse_def ArchiveParcelParams_def
  ArchiveParcelResponse_def SetParcelGeometryReferenceParams_def
  SetParcelGeometryReferenceBody_def SetParcelGeometryReferenceResponse_def
  SubmitParcelGeometryParams_def SubmitParcelGeometryBody_def SubmitParcelGeometryResponse_def
  GetActiveParcelGeometryParams_def GetActiveParcelGeometryResponse_def
  UploadParcelEvidenceParams_def uploadParcelEvidenceQueryFilenameMax_def
  uploadParcelEvidenceQueryBasisMax_def UploadParcelEvidenceQueryParams_def
  UploadParcelEvidenceResponse_def ListParcelEvidenceParams_def
  ListParcelEvidenceResponseItem_def ListParcelEvidenceResponse_def
  RecordEvidenceAttributionParams_def RecordEvidenceAttributionBody_def
  RecordEvidenceAttributionResponse_def CorrectEvidenceAttributionParams_def
  CorrectEvidenceAttributionBody_def CorrectEvidenceAttributionResponse_def

text \<open>The names that the package exports.\<close>

definition api_zod_exports :: "string list" where
  "api_zod_exports =
     [''LivenessCheckResponse'', ''ReadinessCheckResponse'', ''RegisterUserBody'',
      ''RegisterUserResponse'', ''LoginBody'', ''LoginResponse'', ''AcceptInvitationBody'',
      ''AcceptInvitationResponse'', ''AcceptInvitationSupabaseBody'',
      ''AcceptInvitationSupabaseResponse'', ''RefreshTokenHeader'', ''RefreshTokenResponse'',
      ''LogoutResponse'', ''GetCurrentUserResponse'', ''GetCurrentUserTenantResponse'',
      ''AssignRoleParams'', ''AssignRoleBody'', ''AssignRoleResponse'',
      ''ListInvitationsResponseItem'', ''ListInvitationsResponse'', ''CreateInvitationBody'',
      ''CreateInvitationResponse'', ''RevokeInvitationParams'', ''RevokeInvitationResponse'',
      ''ListTenantsResponseItem'', ''ListTenantsResponse'', ''GetTenantParams'',
      ''GetTenantResponse'', ''SuspendTenantParams'', ''SuspendTenantBody'',
      ''SuspendTenantResponse'', ''ReactivateTenantParams'', ''ReactivateTenantResponse'',
      ''ArchiveTenantParams'', ''ArchiveTenantResponse'', ''ListDelegationsResponseItem'',
      ''ListDelegationsResponse'', ''createDelegationBodyScopeDefault'',
      ''CreateDelegationBody'', ''CreateDelegationResponse'', ''GetDelegationParams'',
      ''GetDelegationResponse'', ''RevokeDelegationParams'', ''RevokeDelegationResponse'',
      ''ExtendDelegationParams'', ''ExtendDelegationBody'', ''ExtendDelegationResponse'',
      ''ListParcelsResponseItem'', ''ListParcelsResponse'', ''CreateParcelBody'',
      ''CreateParcelResponse'', ''UpdateParcelParams'', ''UpdateParcelBody'',
      ''UpdateParcelResponse'', ''GetParcelParams'', ''GetParcelResponse'',
      ''ArchiveParcelParams'', ''ArchiveParcelResponse'', ''SetParcelGeometryReferenceParams'',
      ''SetParcelGeometryReferenceBody'', ''SetParcelGeometryReferenceResponse'',
      ''SubmitParcelGeometryParams'', ''SubmitParcelGeometryBody'',
      ''SubmitParcelGeometryResponse'', ''GetActiveParcelGeometryParams'',
      ''GetActiveParcelGeometryResponse'', ''UploadParcelEvidenceParams'',
      ''uploadParcelEvidenceQueryFilenameMax'', ''uploadParcelEvidenceQueryBasisMax'',
      ''UploadParcelEvidenceQueryParams'', ''UploadParcelEvidenceResponse'',
      ''ListParcelEvidenceParams'', ''ListParcelEvidenceResponseItem'',
      ''ListParcelEvidenceResponse'', ''RecordEvidenceAttributionParams'',
      ''RecordEvidenceAttributionBody'', ''RecordEvidenceAttributionResponse'',
      ''CorrectEvidenceAttributionParams'', ''CorrectEvidenceAttributionBody'',
      ''CorrectEvidenceAttributionResponse'']"

end
