(* ===== verification/Client_Types.thy ===== *)
theory Client_Types
  imports Zod_Schema Api_Client
begin

text \<open>
  The TypeScript types of \<open>lib/api-client-react/src/generated/api.schemas.ts\<close> (a name is suffixed by
  \<open>_type\<close>; a type stands after those it uses), and the types that the operations of
  \<open>generated/api.ts\<close> give to their requests and responses.
\<close>

definition AcceptInvitationRequest_type :: ts where
  "AcceptInvitationRequest_type = TObject False
    [(js ''token'', False, TString),
     (js ''password'', False, TString),
     (js ''full_name'', False, TString),
     (js ''country'', True, TUnion TString TNull)]"

definition AcceptInvitationSupabaseRequest_type :: ts where
  "AcceptInvitationSupabaseRequest_type = TObject False
    [(js ''token'', False, TString),
     (js ''full_name'', False, TString),
     (js ''country'', True, TUnion TString TNull)]"

definition ActorReferenceKind_type :: ts where
  "ActorReferenceKind_type = TEnum [js ''INTERNAL_PRINCIPAL'', js ''EXTERNAL_NAMED'', js ''HISTORICAL_ASSERTED'', js ''UNKNOWN'']"

definition ActorType_type :: ts where
  "ActorType_type = TEnum [js ''INDIVIDUAL'', js ''ORGANIZATION'', js ''UNKNOWN'']"

definition AssignRoleRequest_type :: ts where
  "AssignRoleRequest_type = TObject False
    [(js ''role'', False, TString)]"

definition AttributionRole_type :: ts where
  "AttributionRole_type = TEnum [js ''ORIGINATED_BY'', js ''REVIEWED_BY'', js ''COMMISSIONED_BY'']"

definition AttributionResponse_type :: ts where
  "AttributionResponse_type = TObject False
    [(js ''attribution_id'', False, TString),
     (js ''evidence_id'', False, TString),
     (js ''attribution_role'', False, AttributionRole_type),
     (js ''actor_reference_kind'', False, ActorReferenceKind_type),
     (js ''actor_principal_id'', False, TUnion TString TNull),
     (js ''actor_name'', False, TUnion TString TNull),
     (js ''actor_organization_name'', False, TUnion TString TNull),
     (js ''actor_type'', False, ActorType_type),
     (js ''basis'', False, TString),
     (js ''review_method'', False, TUnion TString TNull),
     (js ''recorded_by'', False, TString),
     (js ''recorded_at'', False, TString),
     (js ''supersedes_id'', False, TUnion TString TNull),
     (js ''is_active'', False, TBoolean)]"

definition CorrectAttributionRequest_type :: ts where
  "CorrectAttributionRequest_type = TObject False
    [(js ''attribution_role'', False, AttributionRole_type),
     (js ''actor_reference_kind'', False, ActorReferenceKind_type),
     (js ''actor_type'', False, ActorType_type),
     (js ''basis'', False, TString),
     (js ''actor_principal_id'', True, TUnion TString TNull),
     (js ''actor_name'', True, TUnion TString TNull),
     (js ''actor_organization_name'', True, TUnion TString TNull),
     (js ''review_method'', True, TUnion TString TNull)]"

definition CreateDelegationRequest_type :: ts where
  "CreateDelegationRequest_type = TObject False
    [(js ''delegate_user_id'', False, TString),
     (js ''delegated_roles'', False, TArray TString),
     (js ''scope'', True, TString),
     (js ''expires_at'', True, TUnion TString TNull)]"

definition CreateInvitationRequest_type :: ts where
  "CreateInvitationRequest_type = TObject False
    [(js ''email'', False, TString),
     (js ''role'', False, TString)]"

definition CreateParcelRequest_type :: ts where
  "CreateParcelRequest_type = TObject False
    [(js ''country_code'', True, TUnion TString TNull),
     (js ''title'', True, TUnion TString TNull),
     (js ''address'', True, TUnion TString TNull),
     (js ''state'', True, TUnion TString TNull),
     (js ''lga'', True, TUnion TString TNull),
     (js ''ward'', True, TUnion TString TNull),
     (js ''community'', True, TUnion TString TNull),
     (js ''property_type'', True, TUnion TString TNull),
     (js ''size_sqm'', True, TUnion TNumber TNull),
     (js ''ownership_type'', True, TUnion TString TNull),
     (js ''current_owner_name'', True, TUnion TString TNull),
     (js ''current_owner_contact'', True, TUnion TString TNull)]"

definition DelegationSummaryEffectiveResponse_type :: ts where
  "DelegationSummaryEffectiveResponse_type = TObject False
    [(js ''delegation_id'', False, TString),
     (js ''tenant_id'', False, TString),
     (js ''delegator_user_id'', False, TString),
     (js ''delegate_user_id'', False, TString),
     (js ''delegated_roles'', False, TArray TString),
     (js ''scope'', False, TString),
     (js ''status'', False, TString),
     (js ''expires_at'', True, TUnion TString TNull),
     (js ''created_at'', False, TString),
     (js ''updated_at'', False, TString),
     (js ''revoked_at'', True, TUnion TString TNull),
     (js ''revoked_by'', True, TUnion TString TNull),
     (js ''effective'', False, TBoolean),
     (js ''ineffective_reason'', True, TUnion TString TNull)]"

definition DelegationSummaryResponse_type :: ts where
  "DelegationSummaryResponse_type = TObject False
    [(js ''delegation_id'', False, TString),
     (js ''tenant_id'', False, TString),
     (js ''delegator_user_id'', False, TString),
     (js ''delegate_user_id'', False, TString),
     (js ''delegated_roles'', False, TArray TString),
     (js ''scope'', False, TString),
     (js ''status'', False, TString),
     (js ''expires_at'', True, TUnion TString TNull),
     (js ''created_at'', False, TString),
     (js ''updated_at'', False, TString),
     (js ''revoked_at'', True, TUnion TString TNull),
     (js ''revoked_by'', True, TUnion TString TNull)]"

definition EvidenceType_type :: ts where
  "EvidenceType_type = TEnum [js ''SURVEY_PLAN'', js ''TITLE_DOCUMENT'', js ''IDENTITY_DOCUMENT'', js ''OTHER'']"

definition EvidenceStatus_type :: ts where
  "EvidenceStatus_type = TEnum [js ''RECEIVED'', js ''HASHED'', js ''SEALED'']"

definition EvidenceResponse_type :: ts where
  "EvidenceResponse_type = TObject False
    [(js ''evidence_id'', False, TString),
     (js ''parcel_id'', False, TString),
     (js ''uploaded_by'', False, TString),
     (js ''filename'', False, TString),
     (js ''mime_type'', False, TString),
     (js ''size_bytes'', False, TNumber),
     (js ''basis'', False, TString),
     (js ''evidence_type'', False, EvidenceType_type),
     (js ''status'', False, EvidenceStatus_type),
     (js ''sha256'', True, TUnion TString TNull),
     (js ''created_at'', False, TString)]"

definition ExtendDelegationRequest_type :: ts where
  "ExtendDelegationRequest_type = TObject False
    [(js ''expires_at'', True, TUnion TString TNull)]"

definition GeometryStatus_type :: ts where
  "GeometryStatus_type = TEnum [js ''ACTIVE'', js ''SUPERSEDED'']"

definition GeometryResponse_type :: ts where
  "GeometryResponse_type = TObject False
    [(js ''geometry_id'', False, TString),
     (js ''tenant_id'', False, TString),
     (js ''parcel_id'', False, TString),
     (js ''boundary'', False, TString),
     (js ''srid'', False, TNumber),
     (js ''status'', False, GeometryStatus_type),
     (js ''created_by'', False, TString),
     (js ''created_at'', False, TString),
     (js ''superseded_at'', True, TUnion TString TNull)]"

definition ValidationErrorCtx_type :: ts where
  "ValidationErrorCtx_type = TRecord TUnknown"

definition ValidationError_type :: ts where
  "ValidationError_type = TObject False
    [(js ''loc'', False, TArray (TUnion TString TNumber)),
     (js ''msg'', False, TString),
     (js ''type'', False, TString),
     (js ''input'', True, TUnknown),
     (js ''ctx'', True, ValidationErrorCtx_type)]"

definition HTTPValidationError_type :: ts where
  "HTTPValidationError_type = TObject False
    [(js ''detail'', True, TArray ValidationError_type)]"

definition InvitationCreatedResponse_type :: ts where
  "InvitationCreatedResponse_type = TObject False
    [(js ''invitation_id'', False, TString),
     (js ''email'', False, TString),
     (js ''role'', False, TString),
     (js ''expires_at'', False, TString),
     (js ''token'', False, TString)]"

definition InvitationSummaryResponse_type :: ts where
  "InvitationSummaryResponse_type = TObject False
    [(js ''invitation_id'', False, TString),
     (js ''email'', False, TString),
     (js ''role'', False, TString),
     (js ''status'', False, TString),
     (js ''expires_at'', False, TString),
     (js ''created_at'', False, TString)]"

definition LoginRequest_type :: ts where
  "LoginRequest_type = TObject False
    [(js ''email'', False, TString),
     (js ''password'', False, TString)]"

definition ParcelStatus_type :: ts where
  "ParcelStatus_type = TEnum [js ''ACTIVE'', js ''ARCHIVED'']"

definition Parcel_type :: ts where
  "Parcel_type = TObject False
    [(js ''parcel_id'', False, TString),
     (js ''tenant_id'', False, TString),
     (js ''country_code'', False, TString),
     (js ''origin'', False, TString),
     (js ''created_by'', False, TString),
     (js ''status'', False, ParcelStatus_type),
     (js ''parcel_number'', True, TUnion TString TNull),
     (js ''title'', True, TUnion TString TNull),
     (js ''address'', True, TUnion TString TNull),
     (js ''state'', True, TUnion TString TNull),
     (js ''lga'', True, TUnion TString TNull),
     (js ''ward'', True, TUnion TString TNull),
     (js ''community'', True, TUnion TString TNull),
     (js ''property_type'', True, TUnion TString TNull),
     (js ''size_sqm'', True, TUnion TNumber TNull),
     (js ''ownership_type'', True, TUnion TString TNull),
     (js ''current_owner_name'', True, TUnion TString TNull),
     (js ''current_owner_contact'', True, TUnion TString TNull),
     (js ''created_at'', False, TString),
     (js ''updated_at'', False, TString),
     (js ''archived_at'', True, TUnion TString TNull),
     (js ''geometry_reference'', True, TUnion TString TNull)]"

definition RecordAttributionRequest_type :: ts where
  "RecordAttributionRequest_type = TObject False
    [(js ''attribution_role'', False, AttributionRole_type),
     (js ''actor_reference_kind'', False, ActorReferenceKind_type),
     (js ''actor_type'', False, ActorType_type),
     (js ''basis'', False, TString),
     (js ''actor_principal_id'', True, TUnion TString TNull),
     (js ''actor_name'', True, TUnion TString TNull),
     (js ''actor_organization_name'', True, TUnion TString TNull),
     (js ''review_method'', True, TUnion TString TNull)]"

definition RegisterRequest_type :: ts where
  "RegisterRequest_type = TObject False
    [(js ''email'', False, TString),
     (js ''password'', False, TString),
     (js ''full_name'', False, TString),
     (js ''country'', True, TUnion TString TNull)]"

definition RoleAssignmentResponse_type :: ts where
  "RoleAssignmentResponse_type = TObject True
    [(js ''user_id'', False, TString),
     (js ''email'', False, TString),
     (js ''full_name'', False, TString),
     (js ''country'', False, TString),
     (js ''tenant_id'', False, TString),
     (js ''roles'', False, TArray TString),
     (js ''account_status'', False, TString)]"

definition SetGeometryReferenceRequest_type :: ts where
  "SetGeometryReferenceRequest_type = TObject False
    [(js ''geometry_reference'', True, TUnion TString TNull)]"

definition SubmitGeometryRequest_type :: ts where
  "SubmitGeometryRequest_type = TObject False
    [(js ''boundary'', False, TString)]"

definition UserView_type :: ts where
  "UserView_type = TObject True
    [(js ''user_id'', False, TString),
     (js ''email'', False, TString),
     (js ''full_name'', False, TString),
     (js ''country'', False, TString),
     (js ''tenant_id'', False, TString),
     (js ''roles'', False, TArray TString),
     (js ''account_status'', False, TString)]"

definition SupabaseInvitationAcceptedResponse_type :: ts where
  "SupabaseInvitationAcceptedResponse_type = TObject False
    [(js ''user'', False, UserView_type)]"

definition SuspendTenantRequest_type :: ts where
  "SuspendTenantRequest_type = TObject False
    [(js ''reason'', False, TString)]"

definition TenantSummaryResponse_type :: ts where
  "TenantSummaryResponse_type = TObject False
    [(js ''tenant_id'', False, TString),
     (js ''name'', False, TString),
     (js ''status'', False, TString),
     (js ''owner_user_id'', True, TUnion TString TNull),
     (js ''suspension_reason'', True, TUnion TString TNull),
     (js ''created_at'', False, TString),
     (js ''updated_at'', False, TString)]"

definition TokenResponseUser_type :: ts where
  "TokenResponseUser_type = TRecord TUnknown"

definition TokenResponse_type :: ts where
  "TokenResponse_type = TObject False
    [(js ''access_token'', False, TString),
     (js ''token_type'', False, TString),
     (js ''expires_in'', False, TNumber),
     (js ''user'', False, TokenResponseUser_type)]"

definition UpdateParcelRequest_type :: ts where
  "UpdateParcelRequest_type = TObject False
    [(js ''title'', True, TUnion TString TNull),
     (js ''address'', True, TUnion TString TNull),
     (js ''state'', True, TUnion TString TNull),
     (js ''lga'', True, TUnion TString TNull),
     (js ''ward'', True, TUnion TString TNull),
     (js ''community'', True, TUnion TString TNull),
     (js ''property_type'', True, TUnion TString TNull),
     (js ''size_sqm'', True, TUnion TNumber TNull),
     (js ''ownership_type'', True, TUnion TString TNull),
     (js ''current_owner_name'', True, TUnion TString TNull),
     (js ''current_owner_contact'', True, TUnion TString TNull)]"

definition UserContextResponse_type :: ts where
  "UserContextResponse_type = TObject False
    [(js ''user_id'', False, TString),
     (js ''email'', True, TUnion TString TNull),
     (js ''country'', True, TUnion TString TNull),
     (js ''tenant_id'', True, TUnion TString TNull),
     (js ''organization_id'', True, TUnion TString TNull),
     (js ''roles'', False, TArray TString)]"

definition LivenessCheck200_type :: ts where
  "LivenessCheck200_type = TRecord TString"

definition ReadinessCheck200_type :: ts where
  "ReadinessCheck200_type = TRecord TString"

definition UploadParcelEvidenceParams_type :: ts where
  "UploadParcelEvidenceParams_type = TObject False
    [(js ''filename'', False, TString),
     (js ''evidence_type'', False, EvidenceType_type),
     (js ''basis'', False, TString)]"

lemmas type_defs =
  AcceptInvitationRequest_type_def AcceptInvitationSupabaseRequest_type_def
  ActorReferenceKind_type_def ActorType_type_def AssignRoleRequest_type_def
  AttributionRole_type_def AttributionResponse_type_def CorrectAttributionRequest_type_def
  CreateDelegationRequest_type_def CreateInvitationRequest_type_def CreateParcelRequest_type_def
  DelegationSummaryEffectiveResponse_type_def DelegationSummaryResponse_type_def
  EvidenceType_type_def EvidenceStatus_type_def EvidenceResponse_type_def
  ExtendDelegationRequest_type_def GeometryStatus_type_def GeometryResponse_type_def
  ValidationErrorCtx_type_def ValidationError_type_def HTTPValidationError_type_def
  InvitationCreatedResponse_type_def InvitationSummaryResponse_type_def LoginRequest_type_def
  ParcelStatus_type_def Parcel_type_def RecordAttributionRequest_type_def
  RegisterRequest_type_def RoleAssignmentResponse_type_def SetGeometryReferenceRequest_type_def
  SubmitGeometryRequest_type_def UserView_type_def SupabaseInvitationAcceptedResponse_type_def
  SuspendTenantRequest_type_def TenantSummaryResponse_type_def TokenResponseUser_type_def
  TokenResponse_type_def UpdateParcelRequest_type_def UserContextResponse_type_def
  LivenessCheck200_type_def ReadinessCheck200_type_def UploadParcelEvidenceParams_type_def

text \<open>The type argument of \<open>customFetch\<close> in each operation, and the type of its body.\<close>

fun result_type :: "operation \<Rightarrow> ts" where
  "result_type OpLivenessCheck = LivenessCheck200_type"
| "result_type OpReadinessCheck = ReadinessCheck200_type"
| "result_type OpRegisterUser = TokenResponse_type"
| "result_type OpLogin = TokenResponse_type"
| "result_type OpAcceptInvitation = TokenResponse_type"
| "result_type OpAcceptInvitationSupabase = SupabaseInvitationAcceptedResponse_type"
| "result_type OpRefreshToken = TokenResponse_type"
| "result_type OpLogout = TVoid"
| "result_type OpGetCurrentUser = UserContextResponse_type"
| "result_type OpGetCurrentUserTenant = TenantSummaryResponse_type"
| "result_type (OpAssignRole _) = RoleAssignmentResponse_type"
| "result_type OpListInvitations = TArray InvitationSummaryResponse_type"
| "result_type OpCreateInvitation = InvitationCreatedResponse_type"
| "result_type (OpRevokeInvitation _) = InvitationSummaryResponse_type"
| "result_type OpListTenants = TArray TenantSummaryResponse_type"
| "result_type (OpGetTenant _) = TenantSummaryResponse_type"
| "result_type (OpSuspendTenant _) = TenantSummaryResponse_type"
| "result_type (OpReactivateTenant _) = TenantSummaryResponse_type"
| "result_type (OpArchiveTenant _) = TenantSummaryResponse_type"
| "result_type OpListDelegations = TArray DelegationSummaryEffectiveResponse_type"
| "result_type OpCreateDelegation = DelegationSummaryResponse_type"
| "result_type (OpGetDelegation _) = DelegationSummaryEffectiveResponse_type"
| "result_type (OpRevokeDelegation _) = DelegationSummaryResponse_type"
| "result_type (OpExtendDelegation _) = DelegationSummaryResponse_type"
| "result_type OpListParcels = TArray Parcel_type"
| "result_type OpCreateParcel = Parcel_type"
| "result_type (OpUpdateParcel _) = Parcel_type"
| "result_type (OpGetParcel _) = Parcel_type"
| "result_type (OpArchiveParcel _) = Parcel_type"
| "result_type (OpSetParcelGeometryReference _) = Parcel_type"
| "result_type (OpSubmitParcelGeometry _) = GeometryResponse_type"
| "result_type (OpGetActiveParcelGeometry _) = GeometryResponse_type"
| "result_type (OpUploadParcelEvidence _) = EvidenceResponse_type"
| "result_type (OpListParcelEvidence _) = TArray EvidenceResponse_type"
| "result_type (OpRecordEvidenceAttribution _) = AttributionResponse_type"
| "result_type (OpCorrectEvidenceAttribution _) = AttributionResponse_type"

fun body_type :: "operation \<Rightarrow> ts option" where
  "body_type OpLivenessCheck = None"
| "body_type OpReadinessCheck = None"
| "body_type OpRegisterUser = Some RegisterRequest_type"
| "body_type OpLogin = Some LoginRequest_type"
| "body_type OpAcceptInvitation = Some AcceptInvitationRequest_type"
| "body_type OpAcceptInvitationSupabase = Some AcceptInvitationSupabaseRequest_type"
| "body_type OpRefreshToken = None"
| "body_type OpLogout = None"
| "body_type OpGetCurrentUser = None"
| "body_type OpGetCurrentUserTenant = None"
| "body_type (OpAssignRole _) = Some AssignRoleRequest_type"
| "body_type OpListInvitations = None"
| "body_type OpCreateInvitation = Some CreateInvitationRequest_type"
| "body_type (OpRevokeInvitation _) = None"
| "body_type OpListTenants = None"
| "body_type (OpGetTenant _) = None"
| "body_type (OpSuspendTenant _) = Some SuspendTenantRequest_type"
| "body_type (OpReactivateTenant _) = None"
| "body_type (OpArchiveTenant _) = None"
| "body_type OpListDelegations = None"
| "body_type OpCreateDelegation = Some CreateDelegationRequest_type"
| "body_type (OpGetDelegation _) = None"
| "body_type (OpRevokeDelegation _) = None"
| "body_type (OpExtendDelegation _) = Some ExtendDelegationRequest_type"
| "body_type OpListParcels = None"
| "body_type OpCreateParcel = Some CreateParcelRequest_type"
| "body_type (OpUpdateParcel _) = Some UpdateParcelRequest_type"
| "body_type (OpGetParcel _) = None"
| "body_type (OpArchiveParcel _) = None"
| "body_type (OpSetParcelGeometryReference _) = Some SetGeometryReferenceRequest_type"
| "body_type (OpSubmitParcelGeometry _) = Some SubmitGeometryRequest_type"
| "body_type (OpGetActiveParcelGeometry _) = None"
| "body_type (OpUploadParcelEvidence _) = None"
| "body_type (OpListParcelEvidence _) = None"
| "body_type (OpRecordEvidenceAttribution _) = Some RecordAttributionRequest_type"
| "body_type (OpCorrectEvidenceAttribution _) = Some CorrectAttributionRequest_type"

end
