(* ===== verification/Schema_Properties.thy ===== *)
theory Schema_Properties
  imports Api_Zod Client_Types Api_Queries Api_Properties
begin

text \<open>
  The generated schemas against the generated types, operation by operation, and against what the
  server sends and imports.
\<close>

section \<open>Schemas of the operations\<close>

text \<open>The generator names the schemas after the operation: its response, its body, its path.\<close>

fun response_schema :: "operation \<Rightarrow> zod" where
  "response_schema OpLivenessCheck = LivenessCheckResponse"
| "response_schema OpReadinessCheck = ReadinessCheckResponse"
| "response_schema OpRegisterUser = RegisterUserResponse"
| "response_schema OpLogin = LoginResponse"
| "response_schema OpAcceptInvitation = AcceptInvitationResponse"
| "response_schema OpAcceptInvitationSupabase = AcceptInvitationSupabaseResponse"
| "response_schema OpRefreshToken = RefreshTokenResponse"
| "response_schema OpLogout = LogoutResponse"
| "response_schema OpGetCurrentUser = GetCurrentUserResponse"
| "response_schema OpGetCurrentUserTenant = GetCurrentUserTenantResponse"
| "response_schema (OpAssignRole _) = AssignRoleResponse"
| "response_schema OpListInvitations = ListInvitationsResponse"
| "response_schema OpCreateInvitation = CreateInvitationResponse"
| "response_schema (OpRevokeInvitation _) = RevokeInvitationResponse"
| "response_schema OpListTenants = ListTenantsResponse"
| "response_schema (OpGetTenant _) = GetTenantResponse"
| "response_schema (OpSuspendTenant _) = SuspendTenantResponse"
| "response_schema (OpReactivateTenant _) = ReactivateTenantResponse"
| "response_schema (OpArchiveTenant _) = ArchiveTenantResponse"
| "response_schema OpListDelegations = ListDelegationsResponse"
| "response_schema OpCreateDelegation = CreateDelegationResponse"
| "response_schema (OpGetDelegation _) = GetDelegationResponse"
| "response_schema (OpRevokeDelegation _) = RevokeDelegationResponse"
| "response_schema (OpExtendDelegation _) = ExtendDelegationResponse"
| "response_schema OpListParcels = Api_Zod.ListParcelsResponse"
| "response_schema OpCreateParcel = Api_Zod.CreateParcelResponse"
| "response_schema (OpUpdateParcel _) = Api_Zod.UpdateParcelResponse"
| "response_schema (OpGetParcel _) = Api_Zod.GetParcelResponse"
| "response_schema (OpArchiveParcel _) = ArchiveParcelResponse"
| "response_schema (OpSetParcelGeometryReference _) = SetParcelGeometryReferenceResponse"
| "response_schema (OpSubmitParcelGeometry _) = SubmitParcelGeometryResponse"
| "response_schema (OpGetActiveParcelGeometry _) = GetActiveParcelGeometryResponse"
| "response_schema (OpUploadParcelEvidence _) = UploadParcelEvidenceResponse"
| "response_schema (OpListParcelEvidence _) = Api_Zod.ListParcelEvidenceResponse"
| "response_schema (OpRecordEvidenceAttribution _) = RecordEvidenceAttributionResponse"
| "response_schema (OpCorrectEvidenceAttribution _) = CorrectEvidenceAttributionResponse"

fun request_schema :: "operation \<Rightarrow> zod option" where
  "request_schema OpLivenessCheck = None"
| "request_schema OpReadinessCheck = None"
| "request_schema OpRegisterUser = Some RegisterUserBody"
| "request_schema OpLogin = Some LoginBody"
| "request_schema OpAcceptInvitation = Some AcceptInvitationBody"
| "request_schema OpAcceptInvitationSupabase = Some AcceptInvitationSupabaseBody"
| "request_schema OpRefreshToken = None"
| "request_schema OpLogout = None"
| "request_schema OpGetCurrentUser = None"
| "request_schema OpGetCurrentUserTenant = None"
| "request_schema (OpAssignRole _) = Some AssignRoleBody"
| "request_schema OpListInvitations = None"
| "request_schema OpCreateInvitation = Some CreateInvitationBody"
| "request_schema (OpRevokeInvitation _) = None"
| "request_schema OpListTenants = None"
| "request_schema (OpGetTenant _) = None"
| "request_schema (OpSuspendTenant _) = Some SuspendTenantBody"
| "request_schema (OpReactivateTenant _) = None"
| "request_schema (OpArchiveTenant _) = None"
| "request_schema OpListDelegations = None"
| "request_schema OpCreateDelegation = Some CreateDelegationBody"
| "request_schema (OpGetDelegation _) = None"
| "request_schema (OpRevokeDelegation _) = None"
| "request_schema (OpExtendDelegation _) = Some ExtendDelegationBody"
| "request_schema OpListParcels = None"
| "request_schema OpCreateParcel = Some Api_Zod.CreateParcelBody"
| "request_schema (OpUpdateParcel _) = Some Api_Zod.UpdateParcelBody"
| "request_schema (OpGetParcel _) = None"
| "request_schema (OpArchiveParcel _) = None"
| "request_schema (OpSetParcelGeometryReference _) = Some SetParcelGeometryReferenceBody"
| "request_schema (OpSubmitParcelGeometry _) = Some SubmitParcelGeometryBody"
| "request_schema (OpGetActiveParcelGeometry _) = None"
| "request_schema (OpUploadParcelEvidence _) = None"
| "request_schema (OpListParcelEvidence _) = None"
| "request_schema (OpRecordEvidenceAttribution _) = Some RecordEvidenceAttributionBody"
| "request_schema (OpCorrectEvidenceAttribution _) = Some CorrectEvidenceAttributionBody"

fun path_schema :: "operation \<Rightarrow> zod option" where
  "path_schema OpLivenessCheck = None"
| "path_schema OpReadinessCheck = None"
| "path_schema OpRegisterUser = None"
| "path_schema OpLogin = None"
| "path_schema OpAcceptInvitation = None"
| "path_schema OpAcceptInvitationSupabase = None"
| "path_schema OpRefreshToken = None"
| "path_schema OpLogout = None"
| "path_schema OpGetCurrentUser = None"
| "path_schema OpGetCurrentUserTenant = None"
| "path_schema (OpAssignRole _) = Some AssignRoleParams"
| "path_schema OpListInvitations = None"
| "path_schema OpCreateInvitation = None"
| "path_schema (OpRevokeInvitation _) = Some RevokeInvitationParams"
| "path_schema OpListTenants = None"
| "path_schema (OpGetTenant _) = Some GetTenantParams"
| "path_schema (OpSuspendTenant _) = Some SuspendTenantParams"
| "path_schema (OpReactivateTenant _) = Some ReactivateTenantParams"
| "path_schema (OpArchiveTenant _) = Some ArchiveTenantParams"
| "path_schema OpListDelegations = None"
| "path_schema OpCreateDelegation = None"
| "path_schema (OpGetDelegation _) = Some GetDelegationParams"
| "path_schema (OpRevokeDelegation _) = Some RevokeDelegationParams"
| "path_schema (OpExtendDelegation _) = Some ExtendDelegationParams"
| "path_schema OpListParcels = None"
| "path_schema OpCreateParcel = None"
| "path_schema (OpUpdateParcel _) = Some Api_Zod.UpdateParcelParams"
| "path_schema (OpGetParcel _) = Some GetParcelParams"
| "path_schema (OpArchiveParcel _) = Some ArchiveParcelParams"
| "path_schema (OpSetParcelGeometryReference _) = Some SetParcelGeometryReferenceParams"
| "path_schema (OpSubmitParcelGeometry _) = Some SubmitParcelGeometryParams"
| "path_schema (OpGetActiveParcelGeometry _) = Some GetActiveParcelGeometryParams"
| "path_schema (OpUploadParcelEvidence _) = Some UploadParcelEvidenceParams"
| "path_schema (OpListParcelEvidence _) = Some Api_Zod.ListParcelEvidenceParams"
| "path_schema (OpRecordEvidenceAttribution _) = Some RecordEvidenceAttributionParams"
| "path_schema (OpCorrectEvidenceAttribution _) = Some CorrectEvidenceAttributionParams"

section \<open>Types of the schemas\<close>

text \<open>A type without the flags of its index signatures.\<close>

fun closed :: "ts \<Rightarrow> ts" and closed_fields :: "(jsstr \<times> bool \<times> ts) list \<Rightarrow> (jsstr \<times> bool \<times> ts) list" where
  "closed (TArray t) = TArray (closed t)"
| "closed (TRecord t) = TRecord (closed t)"
| "closed (TUnion t u) = TUnion (closed t) (closed u)"
| "closed (TObject _ fs) = TObject False (closed_fields fs)"
| "closed_fields [] = []"
| "closed_fields ((k, opt, t) # fs) = (k, opt, closed t) # closed_fields fs"
| "closed t = t"


lemma closed_has_type:
  "has_type (closed t) v = has_type t v"
  "has_fields (closed_fields fs) v = has_fields fs v"
  by (induction t v and fs v rule: has_type_has_fields.induct)
     (auto simp: list_all_iff split: jsval.splits)

lemma response_types_closed: "infer (response_schema op) = closed (result_type op)"
  by (cases op) (simp_all add: schema_defs type_defs)

lemma response_schemas_proper: "proper (response_schema op)"
  by (cases op) (simp_all add: schema_defs)

lemma response_inputs_closed: "input (response_schema op) = closed (result_type op)"
  by (cases op) (simp_all add: schema_defs type_defs)

lemma response_schemas_plain: "no_checks (response_schema op)"
  by (cases op) (simp_all add: schema_defs)

lemma response_schemas_exact: "exact (response_schema op)"
  by (cases op) (simp_all add: schema_defs)

lemma body_inputs_closed: "map_option input (request_schema op) = map_option closed (body_type op)"
  by (cases op) (simp_all add: schema_defs type_defs)

lemma body_schemas_proper: "request_schema op = Some z \<Longrightarrow> proper z \<and> no_checks z"
  by (cases op) (auto simp: schema_defs)

lemma refl_typed: "has_type (closed t) v \<Longrightarrow> has_type t v"
  by (simp add: closed_has_type)

text \<open>C20: For every operation the generated response schema decides the type that the generated client
  promises for the response: it accepts a value (without \<open>NaN\<close>, which no JSON text holds) exactly when
  the value has that type, and what it gives has the type too, whatever parser meets the laws of the
  schema library.\<close>

theorem responses_have_promised_type:
  assumes "zod_library safe_parse" and "nan_free v"
  shows "(safe_parse (response_schema op) v \<noteq> None \<longleftrightarrow> has_type (result_type op) v) \<and>
    (\<forall>w. safe_parse (response_schema op) v = Some w \<longrightarrow> has_type (result_type op) w)"
proof -
  have "safe_parse (response_schema op) v \<noteq> None" if "has_type (result_type op) v"
    using zod_library.reads_input [OF assms(1), of "response_schema op" v] assms(2) that
    by (simp add: response_inputs_closed response_schemas_proper response_schemas_plain closed_has_type)
  moreover have "has_type (result_type op) v \<and> has_type (result_type op) w"
    if "safe_parse (response_schema op) v = Some w" for w
    using zod_library.parsed_type [OF assms(1) that] zod_library.reads_only_input [OF assms(1) that]
    by (simp add: response_types_closed response_inputs_closed response_schemas_proper
        response_schemas_exact closed_has_type)
  ultimately show ?thesis by auto
qed

text \<open>A body that has the type the generated client asks for is accepted by the generated schema
  of the same operation; and the two sides agree on which operations take a body.\<close>

theorem typed_bodies_accepted:
  assumes "zod_library safe_parse"
  shows "(request_schema op = None \<longleftrightarrow> body_type op = None) \<and>
    (\<forall>z t. request_schema op = Some z \<and> body_type op = Some t \<and> has_type t v \<and> nan_free v \<longrightarrow>
       safe_parse z v \<noteq> None)"
proof -
  have "safe_parse z v \<noteq> None"
    if "request_schema op = Some z" "body_type op = Some t" "has_type t v" "nan_free v" for z t
    using that body_inputs_closed [of op] body_schemas_proper [OF that(1)] zod_library.reads_input [OF assms, of z v]
    by (simp add: closed_has_type)
  then show ?thesis using body_inputs_closed [of op] by (metis map_option_is_None)
qed

text \<open>Witnesses: an empty list of parcels, and a login.\<close>

lemma responses_have_promised_type_witness:
  "zparse (\<lambda>_. []) (response_schema OpListParcels) (Arr []) \<noteq> None \<and>
   zparse (\<lambda>_. []) (response_schema (OpGetParcel [])) (Obj []) = None"
  using responses_have_promised_type [OF parser.zod_library_axioms [of "\<lambda>_. []"], of "Arr []" OpListParcels]
    responses_have_promised_type [OF parser.zod_library_axioms [of "\<lambda>_. []"], of "Obj []" "OpGetParcel []"]
  by (simp add: type_defs)

lemma typed_bodies_accepted_witness:
  "zparse (\<lambda>_. []) LoginBody (Obj [(js ''email'', Str (js ''a@b'')), (js ''password'', Str (js ''x''))]) \<noteq> None"
  using typed_bodies_accepted [OF parser.zod_library_axioms [of "\<lambda>_. []"], of OpLogin
      "Obj [(js ''email'', Str (js ''a@b'')), (js ''password'', Str (js ''x''))]"]
  by (simp add: LoginRequest_type_def)

section \<open>What the server imports and sends\<close>

definition parcels_imports :: "string list" where
  "parcels_imports =
     [''CreateParcelBody'', ''CreateParcelResponse'', ''GetParcelParams'', ''GetParcelResponse'',
      ''UpdateParcelParams'', ''UpdateParcelBody'', ''UpdateParcelResponse'', ''DeleteParcelParams'',
      ''ListParcelsQueryParams'', ''ListParcelsResponse'']"

definition evidence_imports :: "string list" where
  "evidence_imports =
     [''ListParcelEvidenceParams'', ''ListParcelEvidenceResponse'', ''AddParcelEvidenceParams'',
      ''AddParcelEvidenceBody'', ''AddParcelEvidenceResponse'', ''UpdateEvidenceParams'',
      ''UpdateEvidenceBody'', ''UpdateEvidenceResponse'', ''DeleteEvidenceParams'']"

definition dashboard_imports :: "string list" where
  "dashboard_imports = [''GetDashboardStatsResponse'']"

definition health_imports :: "string list" where
  "health_imports = [''HealthCheckResponse'']"

text \<open>Eleven of the names that the route files import from the schema package are not exported by
  it; every handler of the evidence, dashboard and health routes other than the list of evidence
  uses one of them.\<close>

theorem missing_exports:
  "filter (\<lambda>n. n \<notin> set api_zod_exports)
     (parcels_imports @ evidence_imports @ dashboard_imports @ health_imports) =
   [''DeleteParcelParams'', ''ListParcelsQueryParams'', ''AddParcelEvidenceParams'', ''AddParcelEvidenceBody'',
    ''AddParcelEvidenceResponse'', ''UpdateEvidenceParams'', ''UpdateEvidenceBody'', ''UpdateEvidenceResponse'',
    ''DeleteEvidenceParams'', ''GetDashboardStatsResponse'', ''HealthCheckResponse'']"
  by (simp add: parcels_imports_def evidence_imports_def dashboard_imports_def health_imports_def
      api_zod_exports_def)

text \<open>The environments whose schemas of the responses with parcels are the exported ones, read by some parser.
  Their other schemas are left open: some are not exported at all, and what a response schema refuses does
  not depend on them.\<close>

definition exported_responses :: "(zod \<Rightarrow> jsval \<Rightarrow> jsval option) \<Rightarrow> api_schemas \<Rightarrow> bool" where
  "exported_responses safe_parse sc \<longleftrightarrow>
     api_schemas.ListParcelsResponse sc = safe_parse Api_Zod.ListParcelsResponse \<and>
     api_schemas.CreateParcelResponse sc = safe_parse Api_Zod.CreateParcelResponse \<and>
     api_schemas.GetParcelResponse sc = safe_parse Api_Zod.GetParcelResponse \<and>
     api_schemas.UpdateParcelResponse sc = safe_parse Api_Zod.UpdateParcelResponse"

lemma exported_refuse_shape:
  assumes "zod_library safe_parse"
  shows "safe_parse Api_Zod.GetParcelResponse (parcel_shape env p) = None"
    "safe_parse Api_Zod.CreateParcelResponse (parcel_shape env p) = None"
    "safe_parse Api_Zod.UpdateParcelResponse (parcel_shape env p) = None"
  unfolding Api_Zod.GetParcelResponse_def Api_Zod.CreateParcelResponse_def Api_Zod.UpdateParcelResponse_def
  by (rule zod_library.missing_string_fails [OF assms, of "js ''parcel_id''"], simp_all add: parcel_shape_fields)+

lemma exported_refuse_page:
  assumes "zod_library safe_parse"
  shows "safe_parse Api_Zod.ListParcelsResponse (Obj fs) = None"
  using zod_library.arrays_only [OF assms, of _ "Obj fs"]
  by (fastforce simp: Api_Zod.ListParcelsResponse_def)

text \<open>The handlers with such schemas, one by one.\<close>

lemma exec_list_refused:
  assumes "zod_library safe_parse" and "exported_responses safe_parse (schemas env)"
    and "exec numeric (list_parcels env query, ps, ev) x ps' ev'"
  shows "ps' = ps \<and> (x = Raised DatabaseError \<or>
    x = (case ListParcelsQueryParams (schemas env) query of
           Inl msg \<Rightarrow> Done (error_reply 400 msg) | Inr _ \<Rightarrow> Raised ResponseInvalid))"
  using assms(2,3)
  by (auto simp: list_parcels_def exec_simps exported_responses_def exported_refuse_page [OF assms(1)] Let_def
      split: sum.splits)

lemma exec_get_refused:
  assumes "zod_library safe_parse" and "exported_responses safe_parse (schemas env)"
    and "exec numeric (get_parcel env param, ps, ev) x ps' ev'"
  shows "ps' = ps \<and> (x = Raised DatabaseError \<or>
    x = (case ps (raw_id param) of None \<Rightarrow> Done parcel_not_found | Some _ \<Rightarrow> Raised ResponseInvalid))"
  using assms(2,3)
  by (auto simp: get_parcel_def exec_simps exported_responses_def exported_refuse_shape [OF assms(1)]
      split: option.splits)

lemma exec_create_refused:
  assumes "zod_library safe_parse" and "exported_responses safe_parse (schemas env)"
    and "exec numeric (create_parcel env body, ps, ev) x ps' ev'"
  shows "case api_schemas.CreateParcelBody (schemas env) body of
      Inl msg \<Rightarrow> x = Done (error_reply 400 msg) \<and> ps' = ps
    | Inr _ \<Rightarrow> x = Raised DatabaseError \<and> ps' = ps \<or>
        x = Raised ResponseInvalid \<and> (\<exists>i row. ps i = None \<and> ps' = ps(i \<mapsto> row))"
  using assms(2,3)
  by (auto simp: create_parcel_def exec_simps exported_responses_def exported_refuse_shape [OF assms(1)]
      split: sum.splits)

definition no_parcel :: "reply result \<Rightarrow> bool" where
  "no_parcel x \<longleftrightarrow>
     (\<exists>msg. x = Done (error_reply 400 msg)) \<or> x = Done parcel_not_found \<or>
     x = Raised ResponseInvalid \<or> x = Raised DatabaseError"

lemma no_parcel_cases [simp]:
  "no_parcel (Done (error_reply 400 msg))" "no_parcel (Done parcel_not_found)"
  "no_parcel (Raised ResponseInvalid)" "no_parcel (Raised DatabaseError)"
  by (auto simp: no_parcel_def)

lemma exec_write_refused:
  assumes "zod_library safe_parse" and "exported_responses safe_parse (schemas env)"
    and "exec numeric (write_parcel env i u, ps, ev) x ps' ev'"
  shows "no_parcel x"
  using assms(2,3)
  by (auto simp: write_parcel_def exec_simps exported_responses_def no_parcel_def
      exported_refuse_shape [OF assms(1)] split: option.splits)

lemma exec_update_refused:
  assumes "zod_library safe_parse" and "exported_responses safe_parse (schemas env)"
    and "exec numeric (update_parcel env param body, ps, ev) x ps' ev'"
  shows "no_parcel x"
proof -
  have e: "UpdateParcelResponse (schemas env) (parcel_shape env p) = None" for p
    using assms(2) exported_refuse_shape(3) [OF assms(1)] by (simp add: exported_responses_def)
  show ?thesis
    using assms(3)
    by (auto simp: update_parcel_def exec_simps Let_def e split: option.splits sum.splits if_splits
        dest: exec_write_refused [OF assms(1,2)])
qed


definition exported_env :: api_env where
  "exported_env = ref_env\<lparr>schemas := ref_schemas
     \<lparr>ListParcelsResponse := zparse (\<lambda>_. []) Api_Zod.ListParcelsResponse,
      CreateParcelResponse := zparse (\<lambda>_. []) Api_Zod.CreateParcelResponse,
      GetParcelResponse := zparse (\<lambda>_. []) Api_Zod.GetParcelResponse,
      UpdateParcelResponse := zparse (\<lambda>_. []) Api_Zod.UpdateParcelResponse\<rparr>\<rparr>"


end
