(* ===== verification/Upload_Schema.thy ===== *)
theory Upload_Schema
  imports Web_Parcel Schema_Properties
begin

text \<open>
  The upload dialog (\<open>pages/parcels/detail.tsx\<close>) against the generated schema of the upload's query
  parameters (\<open>lib/api-zod\<close>).
\<close>

definition upload_query :: "card \<Rightarrow> chosen_file \<Rightarrow> jsval" where
  "upload_query c f =
     Obj [(js ''filename'', Str (file_name f)), (js ''evidence_type'', Str (evidence_type_text (evidenceType c))),
          (js ''basis'', Str (basis c))]"

text \<open>For a file that the dialog lets through, the schema of the upload accepts the query exactly when the
  file has a name of at most 255 characters and the description has at most 500; the dialog checks
  neither, so it sends uploads that the schema refuses.\<close>

theorem dialog_misses_lengths:
  assumes "zod_library safe_parse" and "upload_enabled c" and "picked_file c = Some f"
  shows "(safe_parse UploadParcelEvidenceQueryParams (upload_query c f) \<noteq> None \<longleftrightarrow>
      1 \<le> length (file_name f) \<and> length (file_name f) \<le> 255 \<and> length (basis c) \<le> 500) \<and>
    upload_enabled (c\<lparr>basis := replicate 501 97\<rparr>)"
proof -
  let ?type = "ZEnum [js ''SURVEY_PLAN'', js ''TITLE_DOCUMENT'', js ''IDENTITY_DOCUMENT'', js ''OTHER'']"
  let ?name = "ZCoerceString (Some 1) (Some uploadParcelEvidenceQueryFilenameMax)"
  let ?basis = "ZCoerceString (Some 1) (Some uploadParcelEvidenceQueryBasisMax)"
  have enum: "safe_parse ?type (Str (evidence_type_text (evidenceType c))) \<noteq> None"
    by (rule zod_library.reads_input [OF assms(1)]) (cases "evidenceType c", simp_all)
  have field_values: "field (upload_query c f) (js ''filename'') = Str (file_name f)"
    "field (upload_query c f) (js ''evidence_type'') = Str (evidence_type_text (evidenceType c))"
    "field (upload_query c f) (js ''basis'') = Str (basis c)"
    by (simp_all add: upload_query_def)
  have "safe_parse UploadParcelEvidenceQueryParams (upload_query c f) \<noteq> None \<longleftrightarrow>
      safe_parse ?name (Str (file_name f)) \<noteq> None \<and> safe_parse ?basis (Str (basis c)) \<noteq> None"
    (is "?l \<longleftrightarrow> ?r")
  proof
    assume ?l
    then obtain w where "safe_parse UploadParcelEvidenceQueryParams (upload_query c f) = Some w" by blast
    from zod_library.reads_fields [OF assms(1) this [unfolded UploadParcelEvidenceQueryParams_def]]
    show ?r using field_values by (metis list.set_intros)
  next
    assume r: ?r
    show ?l
      unfolding UploadParcelEvidenceQueryParams_def upload_query_def
      by (rule zod_library.fields_suffice [OF assms(1)])
         (use r enum field_values in \<open>auto simp: upload_query_def\<close>)
  qed
  also have "?r \<longleftrightarrow> length_ok (Some 1) (Some uploadParcelEvidenceQueryFilenameMax) (length (file_name f)) \<and>
      length_ok (Some 1) (Some uploadParcelEvidenceQueryBasisMax) (length (basis c))"
    by (simp only: zod_library.lengths [OF assms(1)])
  also have "\<dots> \<longleftrightarrow> 1 \<le> length (file_name f) \<and> length (file_name f) \<le> 255 \<and> length (basis c) \<le> 500"
    using assms(2)
    by (auto simp: length_ok_def upload_enabled_def Suc_le_eq uploadParcelEvidenceQueryFilenameMax_def
        uploadParcelEvidenceQueryBasisMax_def)
  finally have "?l \<longleftrightarrow> 1 \<le> length (file_name f) \<and> length (file_name f) \<le> 255 \<and> length (basis c) \<le> 500" .
  moreover have "upload_enabled (c\<lparr>basis := replicate 501 97\<rparr>)"
    using assms(2) by (simp add: upload_enabled_def too_large_def)
  ultimately show ?thesis by blast
qed

lemma dialog_misses_lengths_witness:
  "zparse (\<lambda>_. []) UploadParcelEvidenceQueryParams
     (upload_query (initial_card\<lparr>picked_file := Some demo_file, basis := js ''deed''\<rparr>) demo_file) \<noteq> None"
proof -
  let ?c = "initial_card\<lparr>picked_file := Some demo_file, basis := js ''deed''\<rparr>"
  have "upload_enabled ?c" "picked_file ?c = Some demo_file"
    by (simp_all add: upload_enabled_def too_large_def initial_card_def demo_file_def MAX_UPLOAD_BYTES_def)
  from dialog_misses_lengths [OF parser.zod_library_axioms [of "\<lambda>_. []"] this]
  show ?thesis by (simp add: demo_file_def)
qed

end
