(* ===== verification/Api_Registry.thy ===== *)
theory Api_Registry
  imports Api_Properties
begin

text \<open>
  The API server against an abstract registry in which trust scores are not stored at all: parcels
  without score and time of the last write, and their documents.  A request is one step of the
  registry, although the handler writes the documents and the score in separate statements.
\<close>

section \<open>The abstract registry\<close>

definition bare :: "parcel_row \<Rightarrow> parcel_row" where
  "bare p = p\<lparr>p_trustScore := 0, p_updatedAt := 0\<rparr>"

definition bare_map :: "parcel_map \<Rightarrow> parcel_map" where
  "bare_map ps = (\<lambda>i. map_option bare (ps i))"

type_synonym registry = "parcel_map \<times> evidence_map"

text \<open>
  What a request of each method may do: register a pending parcel or submit a document for review,
  amend a parcel or review a document, remove a parcel with its documents or withdraw a document.
\<close>

inductive registry_step :: "http_method \<Rightarrow> registry \<Rightarrow> registry \<Rightarrow> bool" where
  unchanged: "registry_step meth R R"
| register: "P i = None \<Longrightarrow> p_id p = i \<Longrightarrow> p_status p = js ''pending'' \<Longrightarrow>
    registry_step POST (P, E) (P(i \<mapsto> p), E)"
| submit: "E j = None \<Longrightarrow> P (e_parcelId e) \<noteq> None \<Longrightarrow> e_id e = j \<Longrightarrow> e_status e = js ''pending_review'' \<Longrightarrow>
    registry_step POST (P, E) (P, E(j \<mapsto> e))"
| amend: "P i = Some p \<Longrightarrow> p_id q = p_id p \<Longrightarrow> p_titleNumber q = p_titleNumber p \<Longrightarrow> p_createdAt q = p_createdAt p \<Longrightarrow>
    registry_step PATCH (P, E) (P(i \<mapsto> q), E)"
| review: "E j = Some e \<Longrightarrow> registry_step PATCH (P, E) (P, E(j \<mapsto> e\<lparr>e_status := st, e_notes := n\<rparr>))"
| remove: "P i \<noteq> None \<Longrightarrow> registry_step DELETE (P, E) (P(i := None), drop_evidence_of i E)"
| withdraw: "E j \<noteq> None \<Longrightarrow> registry_step DELETE (P, E) (P, E(j := None))"

text \<open>The tables represent a registry when they hold its parcels and documents and every score is the one
  that status and documents determine.\<close>

definition represents :: "parcel_map \<Rightarrow> evidence_map \<Rightarrow> registry \<Rightarrow> bool" where
  "represents ps ev R \<longleftrightarrow> R = (bare_map ps, ev) \<and> trust_consistent ps ev"

section \<open>Handlers as steps\<close>

lemma bare_simps [simp]:
  "p_id (bare p) = p_id p" "p_titleNumber (bare p) = p_titleNumber p" "p_status (bare p) = p_status p"
  "p_createdAt (bare p) = p_createdAt p"
  by (simp_all add: bare_def)

lemma bare_map_upd [simp]: "bare_map (ps(i \<mapsto> p)) = (bare_map ps)(i \<mapsto> bare p)"
  and bare_map_del [simp]: "bare_map (ps(i := None)) = (bare_map ps)(i := None)"
  and bare_map_None [simp]: "bare_map ps i = None \<longleftrightarrow> ps i = None"
  by (auto simp: bare_map_def fun_eq_iff)

lemma bare_map_Some: "ps i = Some p \<Longrightarrow> bare_map ps i = Some (bare p)"
  by (simp add: bare_map_def)

lemma bare_map_not_None [simp]: "(\<exists>q. bare_map ps i = Some q) \<longleftrightarrow> (\<exists>p. ps i = Some p)"
  by (auto simp: bare_map_def)

lemma bare_score_write:
  "ps i = Some p \<Longrightarrow>
    bare_map (ps(i \<mapsto> updated_parcel numeric now (no_parcel_updates\<lparr>u_trustScore := Some n\<rparr>) p)) = bare_map ps"
  by (auto simp: bare_map_def fun_eq_iff bare_def updated_parcel_def no_parcel_updates_def)

lemma drop_absent: "referential ps ev \<Longrightarrow> ps i = None \<Longrightarrow> drop_evidence_of i ev = ev"
  by (force simp: drop_evidence_of_def referential_def fun_eq_iff split: option.split)

lemma recalc_invisible:
  assumes "exec numeric (and_then (recalcTrustScore k) (\<lambda>_. m), ps, ev) x ps' ev'" and "\<not> cut_off x"
    and "\<And>ps1. exec numeric (m, ps1, ev) x ps' ev' \<Longrightarrow> ps' = ps1 \<and> ev' = ev"
  shows "bare_map ps' = bare_map ps \<and> ev' = ev"
proof (cases "ps k")
  case None
  then have "exec numeric (m, ps, ev) x ps' ev'"
    using assms(1,2) by (auto simp: recalcTrustScore_def exec_simps)
  then show ?thesis using assms(3) by blast
next
  case (Some p)
  then obtain now n where "exec numeric (m, ps(k \<mapsto> updated_parcel numeric now
       (no_parcel_updates\<lparr>u_trustScore := Some n\<rparr>) p), ev) x ps' ev'"
    using assms(1,2) by (auto simp: recalcTrustScore_def exec_simps)
  from assms(3) [OF this] show ?thesis using bare_score_write [of ps k p] Some by simp
qed

abbreviation stepped :: "http_method \<Rightarrow> parcel_map \<Rightarrow> evidence_map \<Rightarrow> parcel_map \<Rightarrow> evidence_map \<Rightarrow> bool" where
  "stepped meth ps ev ps' ev' \<equiv> registry_step meth (bare_map ps, ev) (bare_map ps', ev')"

lemma step_create_parcel:
  assumes "exec numeric (create_parcel env body, ps, ev) x ps' ev'"
  shows "stepped POST ps ev ps' ev'"
proof -
  consider "ps' = ps" "ev' = ev"
    | i now d where "ps i = None" "ps' = ps(i \<mapsto> inserted_parcel numeric i now (created_values env d))" "ev' = ev"
    using assms by (auto simp: create_parcel_def exec_simps split: sum.splits)
  then show ?thesis
  proof cases
    case 1
    then show ?thesis by (simp add: unchanged)
  next
    case 2
    then show ?thesis by (simp add: register created_values_def)
  qed
qed

lemma step_write_parcel:
  assumes "exec numeric (write_parcel env i u, ps, ev) x ps' ev'"
  shows "stepped PATCH ps ev ps' ev'"
proof -
  consider "ps' = ps" "ev' = ev"
    | p now where "ps i = Some p" "ps' = ps(i \<mapsto> updated_parcel numeric now u p)" "ev' = ev"
    using assms by (auto simp: write_parcel_def exec_simps)
  then show ?thesis
  proof cases
    case 1
    then show ?thesis by (simp add: unchanged)
  next
    case 2
    then show ?thesis using amend [of "bare_map ps" i "bare p"] bare_map_Some [of ps i p] by simp
  qed
qed

lemma step_update_parcel:
  assumes "exec numeric (update_parcel env param body, ps, ev) x ps' ev'"
  shows "stepped PATCH ps ev ps' ev'"
proof -
  consider "ps' = ps" "ev' = ev" | u where "exec numeric (write_parcel env (raw_id param) u, ps, ev) x ps' ev'"
    using assms
    by (fastforce simp: update_parcel_def exec_simps Let_def split: sum.splits if_splits option.splits)
  then show ?thesis by cases (auto intro: unchanged step_write_parcel)
qed

lemma step_delete_parcel:
  "exec numeric (delete_parcel env param, ps, ev) x ps' ev' \<Longrightarrow> referential ps ev \<Longrightarrow> stepped DELETE ps ev ps' ev'"
  by (cases "ps (raw_id param)"; cases "DeleteParcelParams (schemas env) (id_object (raw_id param))")
     (auto simp: delete_parcel_def exec_simps Let_def drop_absent fun_upd_idem unchanged remove)

lemma step_add_evidence:
  "exec numeric (add_evidence env param body, ps, ev) x ps' ev' \<Longrightarrow> stepped POST ps ev ps' ev'"
  by (auto simp: add_evidence_def exec_simps Let_def evidence_values_of_def
      split: sum.splits option.splits intro: unchanged intro!: submit)

lemma reviewed: "updated_evidence y e = e\<lparr>e_status := or_else (x_status y) (e_status e), e_notes := or_else (x_notes y) (e_notes e)\<rparr>"
  by (simp add: updated_evidence_def)

lemma step_update_evidence:
  assumes x: "exec numeric (update_evidence env param body, ps, ev) x ps' ev'" "\<not> cut_off x"
  shows "stepped PATCH ps ev ps' ev'"
  using x
proof (cases rule: exec_update_evidence_cases)
  case 1
  then show ?thesis by (simp add: unchanged)
next
  case (2 d e e' m)
  have "bare_map ps' = bare_map ps \<and> ev' = ev(raw_id param \<mapsto> e')"
  proof (cases "given_status (b_status d)")
    case True
    with 2(5) have "exec numeric (and_then (recalcTrustScore (e_parcelId e')) (\<lambda>_. m), ps, ev(raw_id param \<mapsto> e')) x ps' ev'"
      by simp
    from recalc_invisible [OF this x(2)] show ?thesis by (simp add: 2(4))
  next
    case False
    then show ?thesis using 2(5) by (simp add: 2(4))
  qed
  moreover have "registry_step PATCH (bare_map ps, ev) (bare_map ps, ev(raw_id param \<mapsto> e'))"
    unfolding 2(3) reviewed by (rule review [of _ _ e]) (rule 2(2))
  ultimately show ?thesis by simp
qed

lemma step_delete_evidence:
  assumes x: "exec numeric (delete_evidence env param, ps, ev) x ps' ev'" "\<not> cut_off x"
  shows "stepped DELETE ps ev ps' ev'"
proof -
  let ?j = "raw_id param"
  consider "ps' = ps" "ev' = ev" | "ev ?j = None" "ps' = ps" "ev' = ev(?j := None)"
    | e where "ev ?j = Some e" "exec numeric (and_then (recalcTrustScore (e_parcelId e))
        (\<lambda>_. Return (SendStatus 204)), ps, ev(?j := None)) x ps' ev'"
    using x
    by (fastforce simp: delete_evidence_def exec_simps Let_def split: sum.splits option.splits)
  then show ?thesis
  proof cases
    case 1
    then show ?thesis by (simp add: unchanged)
  next
    case 2
    then show ?thesis by (simp add: unchanged fun_upd_idem)
  next
    case (3 e)
    have "bare_map ps' = bare_map ps \<and> ev' = ev(?j := None)"
      using recalc_invisible [OF 3(2) x(2)] by simp
    then show ?thesis using withdraw [of ev ?j "bare_map ps"] 3(1) by simp
  qed
qed

section \<open>Methods\<close>

inductive handler_of :: "api_env \<Rightarrow> http_method \<Rightarrow> reply act \<Rightarrow> bool" for env where
  "handler_of env meth (Return (SendStatus code))"
| "handler_of env GET (healthz env)"
| "handler_of env GET (dashboard_stats env)"
| "handler_of env GET (list_parcels env q)"
| "handler_of env POST (create_parcel env b)"
| "handler_of env GET (get_parcel env (OneParam i))"
| "handler_of env PATCH (update_parcel env (OneParam i) b)"
| "handler_of env DELETE (delete_parcel env (OneParam i))"
| "handler_of env GET (list_evidence env (OneParam i))"
| "handler_of env POST (add_evidence env (OneParam i) b)"
| "handler_of env PATCH (update_evidence env (OneParam i) b)"
| "handler_of env DELETE (delete_evidence env (OneParam i))"

lemma parcels_router_method: "parcels_router env meth q b path = Some h \<Longrightarrow> handler_of env meth h"
  by (auto simp: parcels_router_def intro: handler_of.intros
      split: list.splits if_splits http_method.splits)

lemma evidence_router_method: "evidence_router env meth b path = Some h \<Longrightarrow> handler_of env meth h"
  by (auto simp: evidence_router_def intro: handler_of.intros
      split: list.splits if_splits http_method.splits)

lemma router_method: "router env meth q b path = Some h \<Longrightarrow> handler_of env meth h"
  by (auto simp: router_def health_router_def dashboard_router_def
      dest: parcels_router_method evidence_router_method intro: handler_of.intros
      split: option.splits list.splits if_splits)

lemma app_method: "handler_of env (r_method r) (app env r)"
  by (auto simp: app_def intro: handler_of.intros router_method
      split: parsed_body.split list.split option.split)

lemma app_steps:
  assumes "exec numeric (app env r, ps, ev) x ps' ev'" "\<not> cut_off x" and "referential ps ev"
  shows "stepped (r_method r) ps ev ps' ev'"
  using app_method [of env r] assms(1)
proof cases
  case 1
  then show ?thesis using assms(1) by (simp add: unchanged)
qed (use assms(2,3) in \<open>auto simp: unchanged dest: exec_reads step_create_parcel step_update_parcel
      step_delete_parcel step_add_evidence step_update_evidence step_delete_evidence\<close>)

section \<open>Refinement\<close>

text \<open>C2: The server refines the registry without scores: when the tables represent a registry, any request
  that is not cut off by the database makes one step of the registry allowed for its method, and
  afterwards the tables represent the registry after the step, scores included.\<close>

theorem server_refines_registry:
  assumes "registry_db db parcels evidence db_ok numeric ilike recent" and "db_ok s"
    and "statuses_checked (schemas env)" and "represents (parcels s) (evidence s) R"
    and "run db (app env r) s = (x, t)" and "\<not> cut_off x"
  shows "\<exists>R'. registry_step (r_method r) R R' \<and> represents (parcels t) (evidence t) R'"
proof -
  have e: "exec numeric (app env r, parcels s, evidence s) x (parcels t) (evidence t)"
    by (rule registry_db.exec_run [OF assms(1,2,5)])
  have ref: "referential (parcels s) (evidence s)"
    by (rule registry_db.references_resolve [OF assms(1,2)])
  have R: "R = (bare_map (parcels s), evidence s)" "trust_consistent (parcels s) (evidence s)"
    using assms(4) by (simp_all add: represents_def)
  have "registry_step (r_method r) R (bare_map (parcels t), evidence t)"
    unfolding R(1) by (rule app_steps [OF e assms(6) ref])
  moreover have "represents (parcels t) (evidence t) (bare_map (parcels t), evidence t)"
    using exec_app [OF e assms(6) R(2) ref assms(3)] by (simp add: represents_def)
  ultimately show ?thesis by blast
qed

text \<open>The witness verifies a document: the registry steps to the document's new status, and the score that
  the tables hold afterwards is the one of that registry.\<close>

lemma server_refines_registry_witness:
  "\<exists>x t R'. run ref_db (app ref_env verify_request) demo_tables = (x, t) \<and> \<not> cut_off x \<and>
     registry_step PATCH (bare_map (table_parcels demo_tables), table_evidence demo_tables) R' \<and>
     represents (table_parcels t) (table_evidence t) R'"
proof -
  obtain x t where r: "run ref_db (app ref_env verify_request) demo_tables = (x, t)"
    by (cases "run ref_db (app ref_env verify_request) demo_tables")
  have m: "r_method verify_request = PATCH" by (simp add: verify_request_def)
  have x: "\<not> cut_off x"
    using r by (auto simp: app_verify_request update_evidence_def demo_run)
  have "represents (table_parcels demo_tables) (table_evidence demo_tables)
      (bare_map (table_parcels demo_tables), table_evidence demo_tables)"
    by (simp add: represents_def)
  from server_refines_registry [OF tables.registry_db_axioms demo_tables_wf _ this r x] r m x show ?thesis
    by auto
qed

end
