(* ===== verification/Store_Refinements.thy ===== *)
theory Store_Refinements
  imports Toast_Store Mockup_Plugin
begin

text \<open>
  Two state machines against simpler ones: the toast store (\<open>hooks/use-toast.ts\<close>) against a single slot,
  and the refresh of the preview plugin (\<open>mockupPreviewPlugin.ts\<close>) against its own end: left alone, it
  comes to rest.
\<close>

section \<open>The toast store as a slot\<close>

text \<open>The specification: at most one toast; a new one takes its place, and the operations on a key
  concern it only if the key is its own (or is missing).\<close>

fun slot_step :: "action \<Rightarrow> toaster_toast option \<Rightarrow> toaster_toast option" where
  "slot_step (ADD_TOAST t) _ = Some t"
| "slot_step _ None = None"
| "slot_step (UPDATE_TOAST u) (Some t) = Some (if tp_id u = Some (tt_id t) then apply_patch u t else t)"
| "slot_step (DISMISS_TOAST i) (Some t) =
     Some (if i = None \<or> i = Some (tt_id t) then t\<lparr>tt_open := Some False\<rparr> else t)"
| "slot_step (REMOVE_TOAST i) (Some t) = (if i = None \<or> i = Some (tt_id t) then None else Some t)"

definition slot_of :: "toaster_toast list \<Rightarrow> toaster_toast option" where
  "slot_of toasts = (case toasts of [] \<Rightarrow> None | t # _ \<Rightarrow> Some t)"

lemma short_list_cases:
  assumes "length xs \<le> 1"
  obtains "xs = []" | x where "xs = [x]"
  using assms by (cases xs) auto

lemma reducer_refines:
  assumes "length toasts \<le> 1"
  shows "slot_of (reducer toasts a) = slot_step a (slot_of toasts)"
  using assms
  by (cases a; cases rule: short_list_cases [OF assms])
     (auto simp: slot_of_def TOAST_LIMIT_def split: option.split)

text \<open>The page, seen from outside: the slot and the keys whose removal is pending.\<close>

definition slot :: "toast_store \<Rightarrow> toaster_toast option" where
  "slot s = slot_of (s_toasts s)"

definition page :: "toast_store \<Rightarrow> toaster_toast option \<times> jsstr set" where
  "page s = (slot s, dom (s_timeouts s))"

text \<open>What one event may do to it: show a new open toast that can be closed, in the place of the old
  one; edit the toast, which keeps its key; close it, with its removal pending; ask for the removal of
  a key; or carry out a removal that is pending, which takes away the toast of that key and no
  other.\<close>

inductive slot_moves :: "toaster_toast option \<times> jsstr set \<Rightarrow> toaster_toast option \<times> jsstr set \<Rightarrow> bool" where
  keeps: "slot_moves (x, p) (x, p)"
| shows_toast: "tt_open t = Some True \<Longrightarrow> tt_onOpenChange t = Some (DismissOnClose (tt_id t)) \<Longrightarrow>
    slot_moves (x, p) (Some t, p)"
| edits: "tp_id u = Some (tt_id t) \<Longrightarrow> slot_moves (Some t, p) (Some (apply_patch u t), p)"
| closes: "slot_moves (Some t, p) (Some (t\<lparr>tt_open := Some False\<rparr>), insert (tt_id t) p)"
| asks: "slot_moves (x, p) (x, insert i p)"
| removes: "i \<in> p \<Longrightarrow> slot_moves (x, p) (slot_step (REMOVE_TOAST (Some i)) x, p - {i})"

lemma dom_addToRemoveQueue [simp]: "dom (addToRemoveQueue now i m) = insert i (dom m)"
  by (auto simp: addToRemoveQueue_def)

lemma dispatch_slot:
  assumes "length (s_toasts s) \<le> 1"
  shows "slot (dispatch a s) = slot_step a (slot s)"
  using reducer_refines [OF assms] by (simp add: slot_def)

lemma dismiss_moves:
  assumes "length (s_toasts s) \<le> 1"
  shows "slot_moves (page s) (page (dismiss toastId s))"
proof (cases rule: short_list_cases [OF assms])
  case 1
  then show ?thesis
    by (auto simp: page_def slot_def slot_of_def dismiss_def queue_all_def intro: keeps asks)
next
  case (2 t)
  consider (own) "toastId = None \<or> toastId = Some (tt_id t)"
    | (empty) "toastId = Some []" "tt_id t \<noteq> []" | (other) i where "toastId = Some i" "i \<noteq> tt_id t" "i \<noteq> []"
    by (cases toastId) fastforce+
  then show ?thesis
  proof cases
    case own
    then show ?thesis using 2 closes [of t "dom (s_timeouts s)"]
      by (auto simp: page_def slot_def slot_of_def dismiss_def queue_all_def)
  qed (use 2 asks in \<open>auto simp: page_def slot_def slot_of_def dismiss_def queue_all_def\<close>)
qed

lemma step_moves:
  assumes "store_step s t" and "length (s_toasts s) \<le> 1"
  shows "slot_moves (page s) (page t)"
  using assms(1)
proof cases
  case (call_toast props)
  then show ?thesis
    by (simp add: page_def slot_def slot_of_def toast_def genId_def Let_def TOAST_LIMIT_def shows_toast)
next
  case (call_update i is_open f props)
  show ?thesis
  proof (cases rule: short_list_cases [OF assms(2)])
    case 1
    then show ?thesis unfolding call_update by (simp add: page_def slot_def slot_of_def update_def keeps)
  next
    case (2 t)
    then show ?thesis unfolding call_update
      by (auto simp: page_def slot_def slot_of_def update_def intro: keeps edits)
  qed
next
  case (timer i due)
  have "slot t = slot_step (REMOVE_TOAST (Some i)) (slot s)"
    unfolding timer fire_timeout_def using assms(2) by (subst dispatch_slot) (simp_all add: slot_def)
  moreover have "dom (s_timeouts t) = dom (s_timeouts s) - {i}"
    unfolding timer fire_timeout_def by simp
  moreover have "i \<in> dom (s_timeouts s)" using timer by blast
  ultimately show ?thesis by (simp add: page_def removes)
qed (use assms(2) in \<open>auto simp: onOpenChange_def dismiss_moves keeps\<close>,
    auto simp: page_def slot_def render_hook_def subscribe_hook_def cleanup_hook_def keeps)

text \<open>C23: In every reachable state the list of toasts is a slot.  An action does to the list what it does
  to the slot; a new toast takes the place of the old one, open, under a new key, with the given
  properties and a function that dismisses it, and nothing else is pending; every step of the page
  is a move of the slot: it shows an open toast, edits or closes the one shown, asks for a removal, or
  carries out a pending removal, which takes away no toast but the one of its key.  And a
  subscribed component that follows a dispatch shows exactly the slot.\<close>

theorem toasts_refine_slot:
  assumes "reachable_store s"
  shows "slot (dispatch a s) = slot_step a (slot s) \<and>
    page (snd (toast props s)) =
      (Some \<lparr>tt_id = fst (toast props s), tt_open = Some True,
         tt_onOpenChange = Some (DismissOnClose (fst (toast props s))), tt_props = props\<rparr>,
       snd (page s)) \<and>
    (\<forall>t. store_step s t \<longrightarrow> slot_moves (page s) (page t)) \<and>
    (\<forall>h \<in> set (s_listeners s). slot_of (h_state (s_hooks (dispatch a s) h)) = slot_step a (slot s))"
proof -
  have len: "length (s_toasts s) \<le> 1"
    using reachable_store_inv [OF assms] by (simp add: store_inv_def TOAST_LIMIT_def)
  have new: "page (snd (toast props s)) =
      (Some \<lparr>tt_id = fst (toast props s), tt_open = Some True,
         tt_onOpenChange = Some (DismissOnClose (fst (toast props s))), tt_props = props\<rparr>, snd (page s))"
    by (simp add: page_def slot_def slot_of_def toast_def genId_def Let_def TOAST_LIMIT_def)
  show ?thesis
    using dispatch_slot [OF len] new step_moves [OF _ len] reducer_refines [OF len] by (simp add: slot_def)
qed

lemma toasts_refine_slot_witness:
  "slot (dispatch (DISMISS_TOAST None) (snd (toast [] initial_store))) =
     Some \<lparr>tt_id = show_int 1, tt_open = Some False,
       tt_onOpenChange = Some (DismissOnClose (show_int 1)), tt_props = []\<rparr>"
proof -
  have "slot (snd (toast [] initial_store)) = Some \<lparr>tt_id = show_int 1, tt_open = Some True,
      tt_onOpenChange = Some (DismissOnClose (show_int 1)), tt_props = []\<rparr>"
    by (simp add: slot_def slot_of_def toast_def genId_def initial_store_def Let_def TOAST_LIMIT_def MAX_SAFE_INTEGER_def)
  then show ?thesis using toasts_refine_slot [OF store_later [OF store_start call_toast]] by simp
qed

section \<open>The refresh comes to rest\<close>

text \<open>The next step of a refresh under way, when the disk is left alone and nothing fails.\<close>

definition proceed :: "plugin \<Rightarrow> plugin" where
  "proceed p =
     (if refreshInFlight p then
        case scanned p of
          None \<Rightarrow> p\<lparr>scanned := Some (disk p)\<rparr>
        | Some files \<Rightarrow> finish_refresh files p
      else p)"

text \<open>What is left to do: the steps of the running refresh, and two more for a queued one.\<close>

definition to_do :: "plugin \<Rightarrow> nat" where
  "to_do p =
     (if refreshInFlight p then (if scanned p = None then 2 else 1) + (if refreshQueued p then 2 else 0) else 0)"

lemma proceed_decreases: "refreshInFlight p \<Longrightarrow> to_do (proceed p) < to_do p"
  by (auto simp: proceed_def to_do_def finish_refresh_def follow_up_def begin_refresh_def Let_def split: option.split)

lemma proceed_disk [simp]: "disk (proceed p) = disk p"
  by (auto simp: proceed_def finish_refresh_def follow_up_def begin_refresh_def Let_def split: option.split)

lemma proceed_reachable:
  assumes "plugin_reachable False (p, notice)"
  shows "plugin_reachable False (proceed p, notice)"
proof (cases "refreshInFlight p")
  case True
  show ?thesis
  proof (cases "scanned p")
    case None
    then show ?thesis using plugin_later [OF assms scan] True by (simp add: proceed_def)
  next
    case (Some files)
    then show ?thesis using plugin_later [OF assms finish] True by (simp add: proceed_def)
  qed
qed (simp add: proceed_def assms)

lemma proceed_idle: "\<not> refreshInFlight p \<Longrightarrow> proceed p = p"
  by (simp add: proceed_def)

lemma proceed_settles: "to_do p \<le> n \<Longrightarrow> \<not> refreshInFlight ((proceed ^^ n) p)"
proof (induction n arbitrary: p)
  case 0
  then show ?case by (auto simp: to_do_def split: if_splits)
next
  case (Suc n)
  have "to_do (proceed p) \<le> n"
  proof (cases "refreshInFlight p")
    case True
    then show ?thesis using proceed_decreases [OF True] Suc.prems by simp
  next
    case False
    then show ?thesis using proceed_idle [OF False] by (simp add: to_do_def)
  qed
  then show ?case using Suc.IH by (simp add: funpow_swap1)
qed

text \<open>C26: Left alone, and with nothing failing, the refresh comes to rest after at most four steps from every
  reachable state, and then the generated file lists the components on the disk.\<close>

theorem refresh_settles:
  assumes "plugin_reachable False (p, False)"
  shows "\<not> refreshInFlight ((proceed ^^ 4) p) \<and> \<not> refreshQueued ((proceed ^^ 4) p) \<and>
    generated ((proceed ^^ 4) p) = Some (source_of (disk p))"
proof -
  have "plugin_reachable False ((proceed ^^ n) p, False) \<and> disk ((proceed ^^ n) p) = disk p" for n
    by (induction n) (auto simp: assms proceed_reachable)
  then have r: "plugin_inv ((proceed ^^ 4) p, False)" "disk ((proceed ^^ 4) p) = disk p"
    using plugin_reachable_inv by blast+
  have "\<not> refreshInFlight ((proceed ^^ 4) p)"
    by (rule proceed_settles) (simp add: to_do_def)
  then show ?thesis using r by (auto simp: plugin_inv_def)
qed

lemma refresh_settles_witness:
  "\<exists>p. plugin_reachable False (p, False) \<and> refreshQueued p \<and> generated p = None \<and>
     generated ((proceed ^^ 4) p) = Some (source_of [])"
proof -
  let ?p = "begin_refresh (begin_refresh (initial_plugin []))"
  have r: "plugin_reachable False (?p, False)"
    by (rule plugin_later [OF plugin_later [OF plugin_start call] call])
  have "refreshQueued ?p" "generated ?p = None" "disk ?p = []"
    by (simp_all add: begin_refresh_def initial_plugin_def)
  with refresh_settles [OF r] r show ?thesis by auto
qed

end
