(* ===== verification/Ui_Sidebar.thy ===== *)
theory Ui_Sidebar
  imports Prelude
begin

text \<open>
  The collapsible sidebar of \<open>components/ui/sidebar.tsx\<close> with its media-query hook
  \<open>hooks/use-mobile.tsx\<close>: the provider's state between renders, the toggling by button and
  keyboard, the cookie, and what is shown.  The state keeps what the last render closed over
  (\<open>r_open\<close>, \<open>r_isMobile\<close>) beside the current values, because the callbacks read the former.
\<close>

section \<open>Mobile hook\<close>

definition MOBILE_BREAKPOINT :: nat where
  "MOBILE_BREAKPOINT = 768"

definition narrow :: "nat \<Rightarrow> bool" where
  "narrow innerWidth \<longleftrightarrow> innerWidth < MOBILE_BREAKPOINT"

text \<open>The state of the hook: undefined before its effect has run, then the answer of the last check.\<close>

definition useIsMobile :: "bool option \<Rightarrow> bool" where
  "useIsMobile isMobile = or_else isMobile False"

section \<open>Provider\<close>

definition SIDEBAR_COOKIE_MAX_AGE :: int where
  "SIDEBAR_COOKIE_MAX_AGE = 60 * 60 * 24 * 7"

definition bool_text :: "bool \<Rightarrow> jsstr" where
  "bool_text b = js (if b then ''true'' else ''false'')"

definition cookie_text :: "bool \<Rightarrow> jsstr" where
  "cookie_text openState =
     js ''sidebar_state='' @ bool_text openState @ js ''; path=/; max-age='' @ show_int SIDEBAR_COOKIE_MAX_AGE"

record provider_props =
  defaultOpen :: bool
  openProp :: "bool option"
  has_setOpenProp :: bool

record provider =
  s_open :: bool
  s_openMobile :: bool
  s_isMobile :: "bool option"
  r_open :: bool
  r_isMobile :: bool
  reported :: "bool list"
  cookies :: "jsstr list"

definition new_provider :: "provider_props \<Rightarrow> provider" where
  "new_provider pr =
     \<lparr>s_open = defaultOpen pr, s_openMobile = False, s_isMobile = None,
      r_open = or_else (openProp pr) (defaultOpen pr), r_isMobile = False, reported = [], cookies = []\<rparr>"

text \<open>A render with these properties: the callbacks now close over the values of this render.\<close>

definition render_provider :: "provider_props \<Rightarrow> provider \<Rightarrow> provider" where
  "render_provider pr p = p\<lparr>r_open := or_else (openProp pr) (s_open p), r_isMobile := useIsMobile (s_isMobile p)\<rparr>"

datatype open_arg = OpenValue bool | OpenFunction "bool \<Rightarrow> bool"

definition setOpen :: "provider_props \<Rightarrow> open_arg \<Rightarrow> provider \<Rightarrow> provider" where
  "setOpen pr v p =
     (let openState = (case v of OpenFunction f \<Rightarrow> f (r_open p) | OpenValue b \<Rightarrow> b);
          p' = (if has_setOpenProp pr then p\<lparr>reported := reported p @ [openState]\<rparr> else p\<lparr>s_open := openState\<rparr>)
      in p'\<lparr>cookies := cookies p @ [cookie_text openState]\<rparr>)"

definition toggleSidebar :: "provider_props \<Rightarrow> provider \<Rightarrow> provider" where
  "toggleSidebar pr p =
     (if r_isMobile p then p\<lparr>s_openMobile := \<not> s_openMobile p\<rparr> else setOpen pr (OpenFunction Not) p)"

record key_event =
  ke_key :: jsstr
  ke_meta :: bool
  ke_ctrl :: bool

text \<open>The new state, and whether the default action of the key was prevented.\<close>

definition handleKeyDown :: "provider_props \<Rightarrow> key_event \<Rightarrow> provider \<Rightarrow> provider \<times> bool" where
  "handleKeyDown pr e p =
     (if ke_key e = js ''b'' \<and> (ke_meta e \<or> ke_ctrl e) then (toggleSidebar pr p, True) else (p, False))"

definition check_width :: "nat \<Rightarrow> provider \<Rightarrow> provider" where
  "check_width innerWidth p = p\<lparr>s_isMobile := Some (narrow innerWidth)\<rparr>"

section \<open>What is shown\<close>

datatype collapsible = Offcanvas | IconOnly | NotCollapsible
datatype sidebar_variant = Floating | Inset | PlainSidebar

definition state_text :: "bool \<Rightarrow> jsstr" where
  "state_text is_open = js (if is_open then ''expanded'' else ''collapsed'')"

definition collapsible_text :: "collapsible \<Rightarrow> jsstr" where
  "collapsible_text c = js (case c of Offcanvas \<Rightarrow> ''offcanvas'' | IconOnly \<Rightarrow> ''icon'' | NotCollapsible \<Rightarrow> ''none'')"

text \<open>A fixed column, a sheet over the page with its open flag, or a column with the two data attributes
  that the style sheets read.\<close>

datatype sidebar_shape = FixedColumn | MobileSheet bool | DesktopColumn jsstr jsstr

definition ui_Sidebar :: "collapsible \<Rightarrow> provider \<Rightarrow> sidebar_shape" where
  "ui_Sidebar c p =
     (if c = NotCollapsible then FixedColumn
      else if r_isMobile p then MobileSheet (s_openMobile p)
      else DesktopColumn (state_text (r_open p)) (if r_open p then [] else collapsible_text c))"

text \<open>The tooltip of a menu button: none without a text, else the text and whether it is hidden.\<close>

definition menu_tooltip :: "jsstr option \<Rightarrow> provider \<Rightarrow> (jsstr \<times> bool) option" where
  "menu_tooltip tooltip p =
     (let t = or_else tooltip [] in
      if t = [] then None else Some (t, state_text (r_open p) \<noteq> js ''collapsed'' \<or> r_isMobile p))"

definition skeleton_width :: "rat \<Rightarrow> jsstr" where
  "skeleton_width rand = show_int (\<lfloor>rand * 40\<rfloor> + 50) @ js ''%''"

section \<open>Steps\<close>

text \<open>
  The page around the provider: the width of the window, and the change event that the media query
  has raised but not yet delivered.  A resize raises it when the answer of the query changes.
\<close>

record sidebar_page =
  page_width :: nat
  width_event :: bool
  provided :: provider

inductive page_step :: "provider_props \<Rightarrow> sidebar_page \<Rightarrow> sidebar_page \<Rightarrow> bool" for pr where
  mount_effect: "s_isMobile (provided s) = None \<Longrightarrow>
    page_step pr s (s\<lparr>provided := check_width (page_width s) (provided s)\<rparr>)"
| resize: "page_step pr s
    (s\<lparr>page_width := w, width_event := width_event s \<or> (narrow w \<noteq> narrow (page_width s))\<rparr>)"
| deliver: "width_event s \<Longrightarrow> s_isMobile (provided s) \<noteq> None \<Longrightarrow>
    page_step pr s (s\<lparr>width_event := False, provided := check_width (page_width s) (provided s)\<rparr>)"
| rerender: "page_step pr s (s\<lparr>provided := render_provider pr (provided s)\<rparr>)"
| trigger: "page_step pr s (s\<lparr>provided := toggleSidebar pr (provided s)\<rparr>)"
| keydown: "page_step pr s (s\<lparr>provided := fst (handleKeyDown pr e (provided s))\<rparr>)"
| sheet_change: "page_step pr s (s\<lparr>provided := (provided s)\<lparr>s_openMobile := b\<rparr>\<rparr>)"
| set_open: "page_step pr s (s\<lparr>provided := setOpen pr (OpenValue b) (provided s)\<rparr>)"

definition fresh_page :: "provider_props \<Rightarrow> nat \<Rightarrow> sidebar_page" where
  "fresh_page pr w = \<lparr>page_width = w, width_event = False, provided = new_provider pr\<rparr>"

abbreviation page_reachable :: "provider_props \<Rightarrow> sidebar_page \<Rightarrow> bool" where
  "page_reachable pr \<equiv> reach (\<lambda>s. \<exists>w. s = fresh_page pr w) (page_step pr)"

lemma page_start: "page_reachable pr (fresh_page pr w)"
  by (rule reach_start) blast

lemma page_later: "page_reachable pr s \<Longrightarrow> page_step pr s t \<Longrightarrow> page_reachable pr t"
  by (rule reach_step)

section \<open>Properties\<close>

lemma cookie_text_eq [simp]: "cookie_text a = cookie_text b \<longleftrightarrow> a = b"
  by (cases a; cases b) (simp_all add: cookie_text_def bool_text_def js_def)

lemma setOpen_simps [simp]:
  "s_isMobile (setOpen pr v p) = s_isMobile p" "s_openMobile (setOpen pr v p) = s_openMobile p"
  "r_open (setOpen pr v p) = r_open p" "r_isMobile (setOpen pr v p) = r_isMobile p"
  by (simp_all add: setOpen_def Let_def)

lemma toggle_simps [simp]:
  "s_isMobile (toggleSidebar pr p) = s_isMobile p" "r_open (toggleSidebar pr p) = r_open p"
  "r_isMobile (toggleSidebar pr p) = r_isMobile p"
  by (simp_all add: toggleSidebar_def)

text \<open>The last cookie tells the own state, if nobody else controls it; and the last reported value
  otherwise.\<close>

definition cookie_agrees :: "provider_props \<Rightarrow> provider \<Rightarrow> bool" where
  "cookie_agrees pr p \<longleftrightarrow>
     (if has_setOpenProp pr then cookies p = map cookie_text (reported p) \<and> s_open p = defaultOpen pr
      else reported p = [] \<and>
        (if cookies p = [] then s_open p = defaultOpen pr else last (cookies p) = cookie_text (s_open p)))"

lemma setOpen_cookie: "cookie_agrees pr p \<Longrightarrow> cookie_agrees pr (setOpen pr v p)"
  by (auto simp: cookie_agrees_def setOpen_def Let_def split: open_arg.split)

lemma toggle_cookie: "cookie_agrees pr p \<Longrightarrow> cookie_agrees pr (toggleSidebar pr p)"
  using setOpen_cookie [of pr p] by (auto simp: toggleSidebar_def) (auto simp: cookie_agrees_def)

text \<open>The hook knows on which side of the breakpoint the window is, unless an event is still under way.\<close>

definition page_inv :: "provider_props \<Rightarrow> sidebar_page \<Rightarrow> bool" where
  "page_inv pr s \<longleftrightarrow> cookie_agrees pr (provided s) \<and>
     (s_isMobile (provided s) \<noteq> None \<and> \<not> width_event s \<longrightarrow>
        s_isMobile (provided s) = Some (narrow (page_width s)))"

lemma page_step_inv: "page_step pr s t \<Longrightarrow> page_inv pr s \<Longrightarrow> page_inv pr t"
proof (induction rule: page_step.induct)
  case (trigger s)
  then show ?case by (auto simp: page_inv_def toggle_cookie)
next
  case (keydown s e)
  then show ?case by (auto simp: page_inv_def toggle_cookie handleKeyDown_def)
next
  case (set_open s b)
  then show ?case by (auto simp: page_inv_def setOpen_cookie)
qed (auto simp: page_inv_def check_width_def render_provider_def cookie_agrees_def split: if_splits)

interpretation sidebar_machine: invariant_of "\<lambda>s. \<exists>w. s = fresh_page pr w" "page_step pr" "page_inv pr" for pr
  by unfold_locales (clarsimp simp: page_inv_def cookie_agrees_def new_provider_def fresh_page_def,
    rule page_step_inv)

lemmas page_reachable_inv = sidebar_machine.holds

text \<open>However the sidebar is used, the last cookie written agrees with the state of the provider
  (or with the last value reported to its owner), and once the media query has no event under way
  the sheet is used exactly in windows below 768 pixels after the next render.\<close>

theorem sidebar_follows_window:
  assumes "page_reachable pr s" and "s_isMobile (provided s) \<noteq> None" and "\<not> width_event s"
    and "c \<noteq> NotCollapsible"
  shows "cookie_agrees pr (provided s) \<and>
    ((\<exists>b. ui_Sidebar c (render_provider pr (provided s)) = MobileSheet b) \<longleftrightarrow> page_width s < 768)"
  using page_reachable_inv [OF assms(1)] assms(2-4)
  by (auto simp: page_inv_def ui_Sidebar_def render_provider_def useIsMobile_def narrow_def MOBILE_BREAKPOINT_def)

definition plain_props :: provider_props where
  "plain_props = \<lparr>defaultOpen = True, openProp = None, has_setOpenProp = False\<rparr>"

lemma sidebar_follows_window_witness:
  "\<exists>s b. page_reachable plain_props s \<and>
     ui_Sidebar Offcanvas (render_provider plain_props (provided s)) = MobileSheet b"
proof -
  let ?s = "fresh_page plain_props 500"
  let ?t = "?s\<lparr>provided := check_width 500 (new_provider plain_props)\<rparr>"
  have "page_step plain_props ?s ?t"
    using mount_effect [of ?s plain_props] by (simp add: new_provider_def fresh_page_def)
  then have r: "page_reachable plain_props ?t" by (rule page_later [OF page_start])
  have "s_isMobile (provided ?t) \<noteq> None" "\<not> width_event ?t" "Offcanvas \<noteq> NotCollapsible"
    by (simp_all add: check_width_def fresh_page_def)
  from sidebar_follows_window [OF r this] r show ?thesis by (auto simp: fresh_page_def)
qed

text \<open>A toggle changes what is shown after the next render, on the desktop and on a mobile alike, and
  a second toggle after that render changes it back; but two toggles before a render cancel out only
  on a mobile: on the desktop both compute the same value, and the sidebar ends up toggled.\<close>

theorem toggling_twice:
  assumes "openProp pr = None" and "\<not> has_setOpenProp pr" and "q = render_provider pr p" and "c \<noteq> NotCollapsible"
  shows "ui_Sidebar c (render_provider pr (toggleSidebar pr q)) \<noteq> ui_Sidebar c q \<and>
    ui_Sidebar c (render_provider pr (toggleSidebar pr (render_provider pr (toggleSidebar pr q)))) = ui_Sidebar c q \<and>
    (ui_Sidebar c (render_provider pr (toggleSidebar pr (toggleSidebar pr q))) = ui_Sidebar c q \<longleftrightarrow> r_isMobile q)"
  using assms
  by (auto simp: ui_Sidebar_def render_provider_def toggleSidebar_def setOpen_def Let_def state_text_def
      split: if_splits)

lemma toggling_twice_witness:
  "\<exists>q. \<not> r_isMobile q \<and>
     ui_Sidebar Offcanvas (render_provider plain_props (toggleSidebar plain_props (toggleSidebar plain_props q))) \<noteq>
     ui_Sidebar Offcanvas q"
proof -
  let ?q = "render_provider plain_props (new_provider plain_props)"
  have "openProp plain_props = None" "\<not> has_setOpenProp plain_props" "Offcanvas \<noteq> NotCollapsible"
    by (simp_all add: plain_props_def)
  note twice = toggling_twice [OF this(1,2) refl this(3), of "new_provider plain_props"]
  have "\<not> r_isMobile ?q"
    by (simp add: render_provider_def new_provider_def useIsMobile_def)
  with twice show ?thesis by blast
qed

text \<open>A skeleton is between 50 and 89 per cent wide.\<close>

theorem skeleton_width_bounds:
  assumes "0 \<le> rand" and "rand < 1"
  shows "\<exists>n. skeleton_width rand = show_int n @ js ''%'' \<and> 50 \<le> n \<and> n \<le> 89"
proof -
  have "0 \<le> \<lfloor>rand * 40\<rfloor>" using assms(1) by simp
  moreover have "\<lfloor>rand * 40\<rfloor> < 40" using assms(2) by (simp add: floor_less_iff)
  ultimately show ?thesis by (auto simp: skeleton_width_def)
qed

lemma skeleton_width_bounds_witness: "\<exists>n. skeleton_width (1 / 2) = show_int n @ js ''%'' \<and> 50 \<le> n \<and> n \<le> 89"
  using skeleton_width_bounds [of "1 / 2"] by simp

end
