(* ===== verification/Ui_Carousel.thy ===== *)
theory Ui_Carousel
  imports Prelude
begin

text \<open>
  The carousel of \<open>components/ui/carousel.tsx\<close>: its axis, its buttons and keys, and the effect that
  follows the events of the scroll library.  The library (embla) is not in the repository: its handle
  is what can be scrolled and the list of handlers per event; \<open>on\<close> adds a handler, \<open>off\<close> removes it.
\<close>

section \<open>Axis\<close>

datatype orientation = Horizontal | Vertical
datatype axis = X | Y

text \<open>Default \<open>horizontal\<close>; the axis of the caller's options is overwritten.\<close>

definition given_orientation :: "orientation option \<Rightarrow> orientation" where
  "given_orientation orientation = or_else orientation Horizontal"

definition carousel_axis :: "axis option \<Rightarrow> orientation option \<Rightarrow> axis" where
  "carousel_axis opts_axis orientation = (if given_orientation orientation = Horizontal then X else Y)"

definition content_class :: "orientation option \<Rightarrow> jsstr" where
  "content_class orientation =
     js (if given_orientation orientation = Horizontal then ''-ml-4'' else ''-mt-4 flex-col'')"

section \<open>State and effect\<close>

datatype embla_event = Select | ReInit

text \<open>A handler is named by the run of the component that registered it.\<close>

record embla =
  can_prev :: bool
  can_next :: bool
  handlers :: "embla_event \<Rightarrow> nat list"

definition api_on :: "embla_event \<Rightarrow> nat \<Rightarrow> embla \<Rightarrow> embla" where
  "api_on e h api = api\<lparr>handlers := (handlers api)(e := handlers api e @ [h])\<rparr>"

definition api_off :: "embla_event \<Rightarrow> nat \<Rightarrow> embla \<Rightarrow> embla" where
  "api_off e h api = api\<lparr>handlers := (handlers api)(e := removeAll h (handlers api e))\<rparr>"

record carousel =
  canScrollPrev :: bool
  canScrollNext :: bool
  attached :: bool
  outer_api :: bool


definition initial_carousel :: carousel where
  "initial_carousel =
     \<lparr>canScrollPrev = False, canScrollNext = False, attached = False, outer_api = False\<rparr>"

definition onSelect :: "embla option \<Rightarrow> carousel \<Rightarrow> carousel" where
  "onSelect api c =
     (case api of
        None \<Rightarrow> c
      | Some a \<Rightarrow> c\<lparr>canScrollPrev := can_prev a, canScrollNext := can_next a\<rparr>)"

text \<open>The effect that hands the handle to the owner, and the one that follows its events.\<close>

definition hand_out :: "embla option \<Rightarrow> bool \<Rightarrow> carousel \<Rightarrow> carousel" where
  "hand_out api has_setApi c = (if api = None \<or> \<not> has_setApi then c else c\<lparr>outer_api := True\<rparr>)"

definition attach :: "nat \<Rightarrow> embla option \<Rightarrow> carousel \<Rightarrow> carousel \<times> embla option" where
  "attach me api c =
     (case api of
        None \<Rightarrow> (c, None)
      | Some a \<Rightarrow> ((onSelect api c)\<lparr>attached := True\<rparr>, Some (api_on Select me (api_on ReInit me a))))"

definition detach :: "nat \<Rightarrow> embla option \<Rightarrow> carousel \<Rightarrow> carousel \<times> embla option" where
  "detach me api c = (c\<lparr>attached := False\<rparr>, map_option (api_off Select me) api)"

section \<open>Buttons and keys\<close>

datatype scroll = ScrollPrev | ScrollNext

text \<open>The call on the handle, if there is one; a button is \<open>(disabled, call)\<close>.\<close>

definition scrollPrev :: "embla option \<Rightarrow> scroll option" where
  "scrollPrev api = map_option (\<lambda>_. ScrollPrev) api"

definition scrollNext :: "embla option \<Rightarrow> scroll option" where
  "scrollNext api = map_option (\<lambda>_. ScrollNext) api"

definition CarouselPrevious :: "embla option \<Rightarrow> carousel \<Rightarrow> bool \<times> scroll option" where
  "CarouselPrevious api c = (\<not> canScrollPrev c, scrollPrev api)"

definition CarouselNext :: "embla option \<Rightarrow> carousel \<Rightarrow> bool \<times> scroll option" where
  "CarouselNext api c = (\<not> canScrollNext c, scrollNext api)"

definition carousel_key :: "embla option \<Rightarrow> jsstr \<Rightarrow> scroll option \<times> bool" where
  "carousel_key api key =
     (if key = js ''ArrowLeft'' then (scrollPrev api, True)
      else if key = js ''ArrowRight'' then (scrollNext api, True)
      else (None, False))"

section \<open>Steps\<close>

text \<open>
  The handle appears once the library has started; it moves and re-initialises itself, each time
  calling the handlers of the event; React detaches and attaches the effect again (as it does in
  strict mode, or when the handle is replaced).  \<open>runs\<close> counts the runs of the effect on the handle.
\<close>

record stage =
  handle :: "embla option"
  shown_carousel :: carousel
  runs :: nat

definition raise_event :: "nat \<Rightarrow> embla_event \<Rightarrow> bool \<Rightarrow> bool \<Rightarrow> stage \<Rightarrow> stage" where
  "raise_event me e p n s =
     (case handle s of
        None \<Rightarrow> s
      | Some a \<Rightarrow>
          let a' = a\<lparr>can_prev := p, can_next := n\<rparr>
          in s\<lparr>handle := Some a',
              shown_carousel := fold (\<lambda>h c. if h = me then onSelect (Some a') c else c) (handlers a e) (shown_carousel s)\<rparr>)"

inductive stage_step :: "nat \<Rightarrow> stage \<Rightarrow> stage \<Rightarrow> bool" for me where
  started: "handle s = None \<or> \<not> attached (shown_carousel s) \<Longrightarrow>
    stage_step me s (s\<lparr>handle := Some \<lparr>can_prev = p, can_next = n, handlers = (\<lambda>_. [])\<rparr>, runs := 0\<rparr>)"
| run_effect: "\<not> attached (shown_carousel s) \<Longrightarrow> attach me (handle s) (shown_carousel s) = (c, a) \<Longrightarrow>
    stage_step me s (s\<lparr>handle := a, shown_carousel := c, runs := runs s + (if a = None then 0 else 1)\<rparr>)"
| clean_effect: "attached (shown_carousel s) \<Longrightarrow> detach me (handle s) (shown_carousel s) = (c, a) \<Longrightarrow>
    stage_step me s (s\<lparr>handle := a, shown_carousel := c\<rparr>)"
| event: "stage_step me s (raise_event me e p n s)"

definition empty_stage :: stage where
  "empty_stage = \<lparr>handle = None, shown_carousel = initial_carousel, runs = 0\<rparr>"

abbreviation stage_reachable :: "nat \<Rightarrow> stage \<Rightarrow> bool" where
  "stage_reachable me \<equiv> reach (\<lambda>s. s = empty_stage) (stage_step me)"

lemma stage_start: "stage_reachable me empty_stage"
  by (rule reach_start) (rule refl)

lemma stage_later: "stage_reachable me s \<Longrightarrow> stage_step me s t \<Longrightarrow> stage_reachable me t"
  by (rule reach_step)

section \<open>Properties\<close>

text \<open>While the effect is attached, the buttons know what the handle can do; one handler follows its
  selections, and as many follow its re-initialisations as the effect has had runs.\<close>

definition stage_inv :: "nat \<Rightarrow> stage \<Rightarrow> bool" where
  "stage_inv me s \<longleftrightarrow>
     (case handle s of
        None \<Rightarrow> \<not> attached (shown_carousel s) \<and> runs s = 0
      | Some a \<Rightarrow>
          handlers a ReInit = replicate (runs s) me \<and>
          handlers a Select = (if attached (shown_carousel s) then [me] else []) \<and>
          (attached (shown_carousel s) \<longrightarrow> 0 < runs s \<and>
             canScrollPrev (shown_carousel s) = can_prev a \<and> canScrollNext (shown_carousel s) = can_next a))"

lemma onSelect_simps [simp]:
  "attached (onSelect api c) = attached c"
  "canScrollPrev (onSelect (Some a) c) = can_prev a" "canScrollNext (onSelect (Some a) c) = can_next a"
  by (simp_all add: onSelect_def split: option.split)

lemma onSelect_again: "(onSelect (Some a) ^^ n) c = (if n = 0 then c else onSelect (Some a) c)"
  by (induction n) (auto simp: onSelect_def)

lemma event_inv:
  assumes "stage_inv me s"
  shows "stage_inv me (raise_event me e p n s)"
proof (cases "handle s")
  case None
  then show ?thesis using assms by (simp add: raise_event_def)
next
  case (Some a)
  then show ?thesis using assms
    by (cases e) (auto simp: raise_event_def stage_inv_def Let_def onSelect_again split: if_splits)
qed

lemma stage_step_inv: "stage_step me s t \<Longrightarrow> stage_inv me s \<Longrightarrow> stage_inv me t"
proof (induction rule: stage_step.induct)
  case (event s e p n)
  then show ?case by (rule event_inv)
next
  case (run_effect s c a)
  then show ?case
    by (auto simp: stage_inv_def attach_def api_on_def replicate_append_same split: option.splits)
next
  case (clean_effect s c a)
  then show ?case by (auto simp: stage_inv_def detach_def api_off_def split: option.splits)
qed (auto simp: stage_inv_def)

interpretation carousel_machine: invariant_of "\<lambda>s. s = empty_stage" "stage_step me" "stage_inv me" for me
  by unfold_locales (simp add: stage_inv_def empty_stage_def initial_carousel_def, rule stage_step_inv)

lemmas stage_reachable_inv = carousel_machine.holds

text \<open>In every reachable state of an attached carousel a button is disabled exactly when the library
  cannot scroll its way; but every run of the effect leaves a handler of \<open>reInit\<close> behind, so after the
  effect is cleaned up the handle still holds as many as there were runs, while that of \<open>select\<close> is gone.\<close>

theorem carousel_follows_handle:
  assumes "stage_reachable me s" and "handle s = Some a"
  shows "(attached (shown_carousel s) \<longrightarrow>
      CarouselPrevious (Some a) (shown_carousel s) = (\<not> can_prev a, Some ScrollPrev) \<and>
      CarouselNext (Some a) (shown_carousel s) = (\<not> can_next a, Some ScrollNext)) \<and>
    length (handlers a ReInit) = runs s \<and>
    (\<not> attached (shown_carousel s) \<longrightarrow> handlers a Select = [])"
  using stage_reachable_inv [OF assms(1)] assms(2)
  by (auto simp: stage_inv_def CarouselPrevious_def CarouselNext_def scrollPrev_def scrollNext_def)

definition demo_handle :: embla where
  "demo_handle = \<lparr>can_prev = False, can_next = True, handlers = (\<lambda>_. [])\<rparr>"

lemma carousel_follows_handle_witness:
  "\<exists>s a. stage_reachable 1 s \<and> handle s = Some a \<and> \<not> attached (shown_carousel s) \<and>
     length (handlers a ReInit) = 1 \<and> handlers a Select = []"
proof -
  let ?s0 = empty_stage
  let ?s1 = "?s0\<lparr>handle := Some demo_handle\<rparr>"
  obtain c2 a2 where e: "attach 1 (handle ?s1) (shown_carousel ?s1) = (c2, a2)"
    by (cases "attach 1 (handle ?s1) (shown_carousel ?s1)")
  let ?s2 = "?s1\<lparr>handle := a2, shown_carousel := c2, runs := 1\<rparr>"
  obtain c3 a3 where d: "detach 1 (handle ?s2) (shown_carousel ?s2) = (c3, a3)"
    by (cases "detach 1 (handle ?s2) (shown_carousel ?s2)")
  let ?s3 = "?s2\<lparr>handle := a3, shown_carousel := c3\<rparr>"
  have a2: "a2 \<noteq> None" "attached c2" using e by (auto simp: attach_def)
  have r1: "stage_reachable 1 ?s1"
    using stage_later [OF stage_start started [of ?s0 _ False True]]
    by (simp add: demo_handle_def empty_stage_def)
  have "stage_step 1 ?s1 ?s2"
    using run_effect [OF _ e] a2 by (simp add: initial_carousel_def empty_stage_def)
  then have r2: "stage_reachable 1 ?s2" using stage_later [OF r1] by blast
  have "stage_step 1 ?s2 ?s3" using clean_effect [OF _ d] a2 by simp
  then have r3: "stage_reachable 1 ?s3" using stage_later [OF r2] by blast
  obtain a where a: "handle ?s3 = Some a" using d a2 by (auto simp: detach_def)
  have "\<not> attached (shown_carousel ?s3)" "runs ?s3 = 1" using d by (auto simp: detach_def)
  with carousel_follows_handle [OF r3 a] r3 a show ?thesis by metis
qed

lemma axis_ignores_options: "carousel_axis a orientation = carousel_axis None orientation"
  by (simp add: carousel_axis_def)

end
