(* ===== verification/Ui_Chart.thy ===== *)
theory Ui_Chart
  imports Prelude
begin

text \<open>
  The chart helpers of \<open>components/ui/chart.tsx\<close>: the style sheet of a chart's colours, the lookup of
  the configuration of a data item, and the contents of tooltip and legend.  The drawing library is not
  in the repository; it hands over the items as objects.  \<open>txt\<close> is the conversion of a value in a template.
\<close>

section \<open>Configuration\<close>

record chart_item =
  ci_label :: jsval
  ci_icon :: "jsstr option"
  ci_color :: "jsstr option"
  ci_theme :: "(jsstr \<times> jsstr) list option"

type_synonym chart_config = "(jsstr \<times> chart_item) list"

definition no_item :: chart_item where
  "no_item = \<lparr>ci_label = Undefined, ci_icon = None, ci_color = None, ci_theme = None\<rparr>"

text \<open>
  The names every object inherits: \<open>in\<close> finds them, and reading one gives a function, which has none of
  the fields of an item.
\<close>

definition inherited :: "jsstr list" where
  "inherited = map js
     [''constructor'', ''hasOwnProperty'', ''isPrototypeOf'', ''propertyIsEnumerable'', ''toLocaleString'',
      ''toString'', ''valueOf'', ''__proto__'', ''__defineGetter__'', ''__defineSetter__'',
      ''__lookupGetter__'', ''__lookupSetter__'']"

definition config_has :: "chart_config \<Rightarrow> jsstr \<Rightarrow> bool" where
  "config_has config k \<longleftrightarrow> k \<in> fst ` set config \<or> k \<in> set inherited"

definition config_get :: "chart_config \<Rightarrow> jsstr \<Rightarrow> chart_item option" where
  "config_get config k =
     (case map_of config k of
        Some i \<Rightarrow> Some i
      | None \<Rightarrow> if k \<in> set inherited then Some no_item else None)"

definition or_text :: "jsstr option \<Rightarrow> jsstr option \<Rightarrow> jsstr option" where
  "or_text a b = (if or_else a [] = [] then b else a)"

section \<open>Style sheet\<close>

definition THEMES :: "(jsstr \<times> jsstr) list" where
  "THEMES = [(js ''light'', []), (js ''dark'', js ''.dark'')]"

definition newline :: jsstr where
  "newline = [10]"

fun join_lines :: "jsstr list \<Rightarrow> jsstr" where
  "join_lines [] = []"
| "join_lines [s] = s"
| "join_lines (s # ss) = s @ newline @ join_lines ss"

definition colorConfig :: "chart_config \<Rightarrow> chart_config" where
  "colorConfig config = filter (\<lambda>(_, i). ci_theme i \<noteq> None \<or> or_else (ci_color i) [] \<noteq> []) config"

definition item_color :: "jsstr \<Rightarrow> chart_item \<Rightarrow> jsstr option" where
  "item_color theme i = or_text (Option.bind (ci_theme i) (\<lambda>t. map_of t theme)) (ci_color i)"

definition declaration_of :: "jsstr \<Rightarrow> jsstr \<Rightarrow> jsstr" where
  "declaration_of key color = js ''  --color-'' @ key @ js '': '' @ color @ js '';''"

text \<open>An item without a colour in the theme gives \<open>null\<close>, which \<open>join\<close> writes as nothing.\<close>

definition color_line :: "jsstr \<Rightarrow> jsstr \<times> chart_item \<Rightarrow> jsstr" where
  "color_line theme e =
     (let color = or_else (item_color theme (snd e)) [] in
      if color = [] then [] else declaration_of (fst e) color)"

definition theme_rule :: "jsstr \<Rightarrow> chart_config \<Rightarrow> jsstr \<times> jsstr \<Rightarrow> jsstr" where
  "theme_rule chart_id colors t =
     newline @ snd t @ js '' [data-chart='' @ chart_id @ js ''] {'' @ newline @
     join_lines (map (color_line (fst t)) colors) @ newline @ js ''}'' @ newline"

definition ChartStyle :: "jsstr \<Rightarrow> chart_config \<Rightarrow> jsstr option" where
  "ChartStyle chart_id config =
     (if colorConfig config = [] then None
      else Some (join_lines (map (theme_rule chart_id (colorConfig config)) THEMES)))"

definition chart_id_of :: "jsstr option \<Rightarrow> jsstr \<Rightarrow> jsstr" where
  "chart_id_of given_id uniqueId =
     js ''chart-'' @ (if or_else given_id [] = [] then filter (\<lambda>c. c \<noteq> 58) uniqueId else or_else given_id [])"

section \<open>Lookup\<close>

definition is_object :: "jsval \<Rightarrow> bool" where
  "is_object v \<longleftrightarrow> (case v of Obj _ \<Rightarrow> True | Arr _ \<Rightarrow> True | Date _ \<Rightarrow> True | _ \<Rightarrow> False)"

definition text_field :: "jsval \<Rightarrow> jsstr \<Rightarrow> jsstr option" where
  "text_field v k = (case field v k of Str s \<Rightarrow> Some s | _ \<Rightarrow> None)"

definition getPayloadConfigFromPayload :: "chart_config \<Rightarrow> jsval \<Rightarrow> jsstr \<Rightarrow> chart_item option" where
  "getPayloadConfigFromPayload config payload key =
     (if \<not> is_object payload then None
      else
        let payloadPayload = field payload (js ''payload'');
            configLabelKey =
              (case text_field payload key of
                 Some s \<Rightarrow> s
               | None \<Rightarrow>
                   (case (if is_object payloadPayload then text_field payloadPayload key else None) of
                      Some s \<Rightarrow> s
                    | None \<Rightarrow> key))
        in config_get config (if config_has config configLabelKey then configLabelKey else key))"

section \<open>Tooltip\<close>

datatype indicator = Line | Dot | Dashed

record tooltip_props =
  tp_active :: bool
  tp_payload :: "jsval list option"
  tp_indicator :: indicator
  tp_hideLabel :: bool
  tp_hideIndicator :: bool
  tp_label :: jsval
  tp_labelFormatter :: "(jsval \<Rightarrow> jsval) option"
  tp_formatter :: "(jsval \<Rightarrow> jsval \<Rightarrow> nat \<Rightarrow> jsval) option"
  tp_color :: "jsstr option"
  tp_nameKey :: "jsstr option"
  tp_labelKey :: "jsstr option"

definition js_or :: "jsval \<Rightarrow> jsval \<Rightarrow> jsval" where
  "js_or a b = (if truthy a then a else b)"

definition opt_text :: "jsstr option \<Rightarrow> jsval" where
  "opt_text t = (case t of None \<Rightarrow> Undefined | Some s \<Rightarrow> Str s)"

definition label_of_item :: "chart_item option \<Rightarrow> jsval" where
  "label_of_item i = (case i of None \<Rightarrow> Undefined | Some i \<Rightarrow> ci_label i)"

definition shown_items :: "jsval list option \<Rightarrow> jsval list" where
  "shown_items payload = filter (\<lambda>item. field item (js ''type'') \<noteq> Str (js ''none'')) (or_else payload [])"

definition tooltip_label :: "(jsval \<Rightarrow> jsstr) \<Rightarrow> chart_config \<Rightarrow> tooltip_props \<Rightarrow> jsval option" where
  "tooltip_label txt config tp =
     (case or_else (tp_payload tp) [] of
        [] \<Rightarrow> None
      | item # _ \<Rightarrow>
          if tp_hideLabel tp then None
          else
            let key = txt (js_or (opt_text (tp_labelKey tp)) (js_or (field item (js ''dataKey''))
                       (js_or (field item (js ''name'')) (Str (js ''value'')))));
                itemConfig = getPayloadConfigFromPayload config item key;
                value = (case tp_label tp of
                    Str s \<Rightarrow> if or_else (tp_labelKey tp) [] = []
                              then js_or (label_of_item (config_get config s)) (Str s)
                              else label_of_item itemConfig
                  | _ \<Rightarrow> label_of_item itemConfig)
            in case tp_labelFormatter tp of
                 Some f \<Rightarrow> Some (f value)
               | None \<Rightarrow> if truthy value then Some value else None)"

text \<open>What stands for the value of an item: the formatted text; a falsy number, which React writes as it
  is; or nothing.\<close>

datatype shown_value = Formatted jsval | BareValue jsval | NoValue

definition value_shown :: "jsval \<Rightarrow> shown_value" where
  "value_shown v =
     (if truthy v then Formatted v else case v of Num _ \<Rightarrow> BareValue v | _ \<Rightarrow> NoValue)"

datatype marker = IconMarker jsstr | ColorMarker jsval | NoMarker

datatype tooltip_row =
    CustomRow jsval
  | ItemRow marker "jsval option" jsval shown_value

definition name_key :: "(jsval \<Rightarrow> jsstr) \<Rightarrow> jsstr option \<Rightarrow> jsval \<Rightarrow> jsval \<Rightarrow> jsstr" where
  "name_key txt nameKey a b = txt (js_or (opt_text nameKey) (js_or a (js_or b (Str (js ''value'')))))"

definition item_marker :: "chart_item option \<Rightarrow> bool \<Rightarrow> jsval \<Rightarrow> marker" where
  "item_marker itemConfig hideIndicator indicatorColor =
     (case Option.bind itemConfig ci_icon of
        Some c \<Rightarrow> IconMarker c
      | None \<Rightarrow> if hideIndicator then NoMarker else ColorMarker indicatorColor)"

definition plain_row ::
    "(jsval \<Rightarrow> jsstr) \<Rightarrow> chart_config \<Rightarrow> tooltip_props \<Rightarrow> bool \<Rightarrow> jsval \<Rightarrow> jsval \<Rightarrow> chart_item option \<Rightarrow> tooltip_row" where
  "plain_row txt config tp nestLabel item indicatorColor itemConfig =
     ItemRow (item_marker itemConfig (tp_hideIndicator tp) indicatorColor)
       (if nestLabel then tooltip_label txt config tp else None)
       (js_or (label_of_item itemConfig) (field item (js ''name'')))
       (value_shown (field item (js ''value'')))"

text \<open>The row of an item at its position; \<open>None\<close> when reading its colour throws.\<close>

definition tooltip_row_of ::
    "(jsval \<Rightarrow> jsstr) \<Rightarrow> chart_config \<Rightarrow> tooltip_props \<Rightarrow> bool \<Rightarrow> nat \<times> jsval \<Rightarrow> tooltip_row option" where
  "tooltip_row_of txt config tp nestLabel ji =
     (let item = snd ji;
          key = name_key txt (tp_nameKey tp) (field item (js ''name'')) (field item (js ''dataKey''));
          itemConfig = getPayloadConfigFromPayload config item key;
          payload = field item (js ''payload'');
          itemValue = field item (js ''value'');
          itemName = field item (js ''name'')
      in if \<not> truthy (opt_text (tp_color tp)) \<and> nullish payload then None
         else
           let indicatorColor =
                 js_or (opt_text (tp_color tp)) (js_or (field payload (js ''fill'')) (field item (js ''color'')))
           in Some (case tp_formatter tp of
                Some f \<Rightarrow>
                  if itemValue \<noteq> Undefined \<and> truthy itemName then CustomRow (f itemValue itemName (fst ji))
                  else plain_row txt config tp nestLabel item indicatorColor itemConfig
              | None \<Rightarrow> plain_row txt config tp nestLabel item indicatorColor itemConfig))"

text \<open>The label above the rows and the rows; \<open>None\<close> inside when the render throws, because an item has
  no payload and no colour is given.\<close>

definition ChartTooltipContent ::
    "(jsval \<Rightarrow> jsstr) \<Rightarrow> chart_config \<Rightarrow> tooltip_props \<Rightarrow> (jsval option \<times> tooltip_row list) option option" where
  "ChartTooltipContent txt config tp =
     (if \<not> tp_active tp \<or> or_else (tp_payload tp) [] = [] then Some None
      else
        let nestLabel = length (or_else (tp_payload tp) []) = 1 \<and> tp_indicator tp \<noteq> Dot
        in map_option (\<lambda>rows. Some (if nestLabel then None else tooltip_label txt config tp, rows))
             (those (map (tooltip_row_of txt config tp nestLabel) (enumerate 0 (shown_items (tp_payload tp))))))"

section \<open>Legend\<close>

record legend_entry =
  le_marker :: marker
  le_label :: jsval

definition legend_entry_of :: "(jsval \<Rightarrow> jsstr) \<Rightarrow> chart_config \<Rightarrow> bool \<Rightarrow> jsstr option \<Rightarrow> jsval \<Rightarrow> legend_entry" where
  "legend_entry_of txt config hideIcon nameKey item =
     (let key = txt (js_or (opt_text nameKey) (js_or (field item (js ''dataKey'')) (Str (js ''value''))));
          itemConfig = getPayloadConfigFromPayload config item key
      in \<lparr>le_marker = (case Option.bind itemConfig ci_icon of
              Some c \<Rightarrow> if hideIcon then ColorMarker (field item (js ''color'')) else IconMarker c
            | None \<Rightarrow> ColorMarker (field item (js ''color''))),
          le_label = label_of_item itemConfig\<rparr>)"

definition ChartLegendContent ::
    "(jsval \<Rightarrow> jsstr) \<Rightarrow> chart_config \<Rightarrow> bool \<Rightarrow> jsstr option \<Rightarrow> jsval list option \<Rightarrow> legend_entry list option" where
  "ChartLegendContent txt config hideIcon nameKey payload =
     (if or_else payload [] = [] then None
      else Some (map (legend_entry_of txt config hideIcon nameKey) (shown_items payload)))"

section \<open>Properties\<close>

lemma join_lines_part: "s \<in> set ss \<Longrightarrow> contains_str (join_lines ss) s"
proof (induction ss rule: join_lines.induct)
  case (3 s' v va)
  show ?case
  proof (cases "s = s'")
    case True
    then show ?thesis by simp
  next
    case False
    then have "contains_str (join_lines (v # va)) s" using 3 by auto
    then show ?thesis by (simp add: sublist_append)
  qed
qed auto

lemma part_of_text: "contains_str t s \<Longrightarrow> contains_str (a @ t @ b) s"
  by (simp add: sublist_append)

lemma contains_trans: "contains_str t s \<Longrightarrow> contains_str u t \<Longrightarrow> contains_str u s"
  by (rule sublist_order.order.trans)

text \<open>If an item of the configuration has a colour in a theme, the chart has a style sheet, and the rule
  of that theme for this chart declares the variable of the item with this colour.\<close>

theorem style_declares_colors:
  assumes "(key, i) \<in> set config" and "t \<in> set THEMES" and "item_color (fst t) i = Some color" and "color \<noteq> []"
  shows "\<exists>css. ChartStyle chart_id config = Some css \<and>
    contains_str css (theme_rule chart_id (colorConfig config) t) \<and>
    contains_str (theme_rule chart_id (colorConfig config) t) (declaration_of key color)"
proof -
  have "ci_theme i \<noteq> None \<or> or_else (ci_color i) [] \<noteq> []"
    using assms(3,4) by (cases "ci_theme i") (auto simp: item_color_def or_text_def split: if_splits)
  then have c: "(key, i) \<in> set (colorConfig config)" using assms(1) by (simp add: colorConfig_def)
  have "color_line (fst t) (key, i) = declaration_of key color"
    using assms(3,4) by (simp add: color_line_def)
  with c have "declaration_of key color \<in> set (map (color_line (fst t)) (colorConfig config))"
    by (metis image_eqI list.set_map)
  from join_lines_part [OF this] have "contains_str (theme_rule chart_id (colorConfig config) t) (declaration_of key color)"
    unfolding theme_rule_def by (simp add: sublist_append)
  moreover have "theme_rule chart_id (colorConfig config) t \<in> set (map (theme_rule chart_id (colorConfig config)) THEMES)"
    using assms(2) by simp
  moreover have "colorConfig config \<noteq> []" using c by auto
  ultimately show ?thesis using join_lines_part by (auto simp: ChartStyle_def)
qed

lemma style_declares_colors_witness:
  "\<exists>css. ChartStyle (js ''chart-1'') [(js ''parcels'', no_item\<lparr>ci_color := Some (js ''red'')\<rparr>)] = Some css \<and>
     contains_str css (js ''  --color-parcels: red;'')"
proof -
  let ?i = "no_item\<lparr>ci_color := Some (js ''red'')\<rparr>"
  let ?c = "[(js ''parcels'', ?i)]"
  let ?t = "(js ''dark'', js ''.dark'')"
  have "(js ''parcels'', ?i) \<in> set ?c" "?t \<in> set THEMES" "item_color (fst ?t) ?i = Some (js ''red'')" "js ''red'' \<noteq> []"
    by (simp_all add: THEMES_def item_color_def or_text_def no_item_def)
  from style_declares_colors [OF this] obtain css where
    css: "ChartStyle (js ''chart-1'') ?c = Some css"
    "contains_str css (theme_rule (js ''chart-1'') (colorConfig ?c) ?t)"
    "contains_str (theme_rule (js ''chart-1'') (colorConfig ?c) ?t) (declaration_of (js ''parcels'') (js ''red''))"
    by blast
  have d: "declaration_of (js ''parcels'') (js ''red'') = js ''  --color-parcels: red;''"
    by (simp add: declaration_of_def js_append [symmetric])
  have "contains_str css (declaration_of (js ''parcels'') (js ''red''))"
    using css(3) css(2) by (rule contains_trans)
  then show ?thesis using css(1) unfolding d by (intro exI conjI)
qed

lemma those_nth: "those xs = Some ys \<Longrightarrow> length ys = length xs \<and> (\<forall>j < length xs. xs ! j = Some (ys ! j))"
proof (induction xs arbitrary: ys)
  case (Cons x xs)
  then obtain y zs where ys: "ys = y # zs" "x = Some y" "those xs = Some zs"
    by (auto split: option.splits)
  with Cons.IH [OF ys(3)] show ?case by (simp add: All_less_Suc2)
qed simp

lemma name_key_given: "k \<noteq> [] \<Longrightarrow> name_key txt (Some k) a b = txt (Str k)"
  by (simp add: name_key_def js_or_def opt_text_def)

lemma row_label:
  assumes "tooltip_row_of txt config tp nest (j, item) = Some row"
    and "tp_nameKey tp = Some k" and "k \<noteq> []" and "tp_formatter tp = None"
    and "truthy (le_label (legend_entry_of txt config hideIcon (Some k) item))"
  shows "\<exists>m nested v. row = ItemRow m nested (le_label (legend_entry_of txt config hideIcon (Some k) item)) v"
proof -
  have key: "txt (js_or (opt_text (Some k)) (js_or (field item (js ''dataKey'')) (Str (js ''value'')))) = txt (Str k)"
    using assms(3) by (simp add: js_or_def opt_text_def)
  have "le_label (legend_entry_of txt config hideIcon (Some k) item) =
      label_of_item (getPayloadConfigFromPayload config item (txt (Str k)))"
    unfolding legend_entry_of_def Let_def key by simp
  with assms show ?thesis
    by (auto simp: tooltip_row_of_def Let_def name_key_given plain_row_def js_or_def split: if_splits)
qed

text \<open>With a common name key, tooltip and legend list the same items in the same order, and a row of the
  tooltip carries the label of the legend wherever the legend has one.\<close>

theorem legend_matches_tooltip:
  assumes "tp_nameKey tp = Some k" and "k \<noteq> []" and "tp_formatter tp = None"
    and "ChartTooltipContent txt config tp = Some (Some (title, rows))"
    and "ChartLegendContent txt config hideIcon (Some k) (tp_payload tp) = Some entries"
  shows "length rows = length entries \<and>
    (\<forall>j < length rows. truthy (le_label (entries ! j)) \<longrightarrow>
       (\<exists>m nested v. rows ! j = ItemRow m nested (le_label (entries ! j)) v))"
proof -
  let ?items = "shown_items (tp_payload tp)"
  let ?nest = "length (or_else (tp_payload tp) []) = 1 \<and> tp_indicator tp \<noteq> Dot"
  have "those (map (tooltip_row_of txt config tp ?nest) (enumerate 0 ?items)) = Some rows"
    using assms(4) by (auto simp: ChartTooltipContent_def Let_def split: if_splits)
  from those_nth [OF this] have len: "length rows = length ?items"
    and row: "\<And>j. j < length ?items \<Longrightarrow> tooltip_row_of txt config tp ?nest (j, ?items ! j) = Some (rows ! j)"
    by (simp_all add: nth_enumerate_eq)
  have entries: "entries = map (legend_entry_of txt config hideIcon (Some k)) ?items"
    using assms(5) by (auto simp: ChartLegendContent_def split: if_splits)
  have "\<exists>m nested v. rows ! j = ItemRow m nested (le_label (entries ! j)) v"
    if "j < length rows" "truthy (le_label (entries ! j))" for j
    using row_label [OF row assms(1-3)] that by (simp add: len entries)
  then show ?thesis by (simp add: len entries)
qed

definition demo_tooltip :: tooltip_props where
  "demo_tooltip =
     \<lparr>tp_active = True,
      tp_payload = Some [Obj [(js ''kind'', Str (js ''active'')), (js ''value'', Num (Fin 3)),
                              (js ''payload'', Obj [])]],
      tp_indicator = Dot, tp_hideLabel = True, tp_hideIndicator = False, tp_label = Undefined,
      tp_labelFormatter = None, tp_formatter = None, tp_color = None, tp_nameKey = Some (js ''kind''),
      tp_labelKey = None\<rparr>"

definition demo_text :: "jsval \<Rightarrow> jsstr" where
  "demo_text v = (case v of Str s \<Rightarrow> s | _ \<Rightarrow> [])"

lemma legend_matches_tooltip_witness:
  "\<exists>m nested v title. ChartTooltipContent demo_text [(js ''active'', no_item\<lparr>ci_label := Str (js ''Active'')\<rparr>)] demo_tooltip =
     Some (Some (title, [ItemRow m nested (Str (js ''Active'')) v]))"
proof -
  let ?config = "[(js ''active'', no_item\<lparr>ci_label := Str (js ''Active'')\<rparr>)]"
  obtain title rows where r: "ChartTooltipContent demo_text ?config demo_tooltip = Some (Some (title, rows))"
    "length rows = 1"
    by (simp add: ChartTooltipContent_def demo_tooltip_def shown_items_def tooltip_row_of_def Let_def nullish_def)
  obtain entries where e: "ChartLegendContent demo_text ?config False (Some (js ''kind'')) (tp_payload demo_tooltip) = Some entries"
    "le_label (entries ! 0) = Str (js ''Active'')"
    by (simp add: ChartLegendContent_def demo_tooltip_def shown_items_def legend_entry_of_def Let_def
        js_or_def opt_text_def demo_text_def getPayloadConfigFromPayload_def is_object_def text_field_def
        config_has_def config_get_def label_of_item_def)
  have "tp_nameKey demo_tooltip = Some (js ''kind'')" "js ''kind'' \<noteq> []" "tp_formatter demo_tooltip = None"
    by (simp_all add: demo_tooltip_def)
  from legend_matches_tooltip [OF this r(1) e(1)] e(2) r(2)
  have "\<exists>m nested v. rows ! 0 = ItemRow m nested (Str (js ''Active'')) v" by simp
  moreover have "rows = [rows ! 0]" using r(2) by (cases rows) auto
  ultimately show ?thesis using r(1) by metis
qed

text \<open>A number that is zero is written without the formatting of the other values.\<close>

lemma zero_unformatted: "value_shown (Num (Fin 0)) = BareValue (Num (Fin 0))"
  by (simp add: value_shown_def)

end
