(* ===== verification/Ui_Form.thy ===== *)
theory Ui_Form
  imports Web_Parcel
begin

text \<open>
  The form parts of \<open>components/ui/form.tsx\<close>, the error list of \<open>components/ui/field.tsx\<close>, and the
  registration form with them.  The form library
  is not in the repository: \<open>getFieldState\<close> is an argument that gives the error message of a field.
\<close>

section \<open>Parts of a form field\<close>

record form_field =
  ff_id :: jsstr
  ff_name :: jsstr
  formItemId :: jsstr
  formDescriptionId :: jsstr
  formMessageId :: jsstr
  ff_error :: "jsstr option option"

text \<open>The two contexts, each missing outside its component; an error may come without a message.\<close>

definition useFormField ::
    "(jsstr \<Rightarrow> jsstr option option) \<Rightarrow> jsstr option \<Rightarrow> jsstr option \<Rightarrow> jsstr + form_field" where
  "useFormField getFieldState fieldContext itemContext =
     (case fieldContext of
        None \<Rightarrow> Inl (js ''useFormField should be used within <FormField>'')
      | Some name \<Rightarrow>
          (case itemContext of
             None \<Rightarrow> Inl (js ''useFormField should be used within <FormItem>'')
           | Some i \<Rightarrow> Inr
               \<lparr>ff_id = i, ff_name = name, formItemId = i @ js ''-form-item'',
                formDescriptionId = i @ js ''-form-item-description'',
                formMessageId = i @ js ''-form-item-message'', ff_error = getFieldState name\<rparr>))"

text \<open>The label: its target, and whether it is marked.\<close>

definition FormLabel :: "form_field \<Rightarrow> jsstr \<times> bool" where
  "FormLabel f = (formItemId f, ff_error f \<noteq> None)"

record form_control =
  fc_id :: jsstr
  fc_describedby :: jsstr
  fc_invalid :: bool

definition FormControl :: "form_field \<Rightarrow> form_control" where
  "FormControl f =
     \<lparr>fc_id = formItemId f,
      fc_describedby =
        (if ff_error f = None then formDescriptionId f else formDescriptionId f @ js '' '' @ formMessageId f),
      fc_invalid = (ff_error f \<noteq> None)\<rparr>"

definition FormDescription :: "form_field \<Rightarrow> jsstr" where
  "FormDescription f = formDescriptionId f"

text \<open>The message: its id and its text, if there is one; without an error the children stand for it.\<close>

definition FormMessage :: "form_field \<Rightarrow> jsstr \<Rightarrow> (jsstr \<times> jsstr) option" where
  "FormMessage f children =
     (let body = (case ff_error f of None \<Rightarrow> children | Some message \<Rightarrow> or_else message [])
      in if body = [] then None else Some (formMessageId f, body))"

section \<open>Error list\<close>

datatype error_content = GivenContent jsstr | SingleMessage jsstr | MessageList "jsstr list"

text \<open>An error of the list may be missing, and so may its message.\<close>

definition messages_of :: "jsstr option option list \<Rightarrow> jsstr list" where
  "messages_of errors =
     filter (\<lambda>m. m \<noteq> []) (map (\<lambda>e. case e of Some (Some m) \<Rightarrow> m | _ \<Rightarrow> []) errors)"

definition FieldError :: "jsstr \<Rightarrow> jsstr option option list option \<Rightarrow> error_content option" where
  "FieldError children errors =
     (if children \<noteq> [] then Some (GivenContent children)
      else case errors of
          None \<Rightarrow> None
        | Some es \<Rightarrow>
            (case es of
               [Some (Some m)] \<Rightarrow> if m = [] then Some (MessageList (messages_of es)) else Some (SingleMessage m)
             | _ \<Rightarrow> Some (MessageList (messages_of es))))"

lemma FieldError_list_cases:
  obtains "es = []" | "es = [None]" | "es = [Some None]" | m where "es = [Some (Some m)]" | a b r where "es = a # b # r"
  by (cases es; cases "hd es"; cases "tl es"; cases "the (hd es)") auto

text \<open>Given a list of errors, the component always shows an alert with exactly the messages of the
  list, in order; so a list without any message is shown as an empty alert.\<close>

theorem field_errors_shown:
  "(FieldError [] (Some es) = Some (MessageList (messages_of es)) \<or>
    (\<exists>m. messages_of es = [m] \<and> FieldError [] (Some es) = Some (SingleMessage m))) \<and>
   FieldError [] (Some []) = Some (MessageList []) \<and>
   FieldError [] None = None"
proof (cases "\<exists>m. es = [Some (Some m)] \<and> m \<noteq> []")
  case True
  then show ?thesis by (auto simp: FieldError_def messages_of_def)
next
  case False
  then have "FieldError [] (Some es) = Some (MessageList (messages_of es))"
    by (cases es rule: FieldError_list_cases) (auto simp: FieldError_def split: option.split)
  then show ?thesis by (simp add: FieldError_def messages_of_def)
qed

section \<open>Registration form\<close>

text \<open>The error of a field of the registration form: the first one that the schema reports for it.\<close>

definition registration_state :: "(jsstr \<times> jsstr) list \<Rightarrow> jsstr \<Rightarrow> jsstr option option" where
  "registration_state errors name = map_option Some (map_of errors name)"

definition registration_field :: "(jsstr \<times> jsstr) list \<Rightarrow> jsstr \<Rightarrow> jsstr \<Rightarrow> jsstr + form_field" where
  "registration_field errors name item_id = useFormField (registration_state errors) (Some name) (Some item_id)"

lemma form_error_messages:
  "(k, m) \<in> set (form_errors to_number nan_message f) \<Longrightarrow> nan_message \<noteq> [] \<Longrightarrow> m \<noteq> []"
proof -
  have texts: "(k, m) \<in> set (min_one key message s) \<Longrightarrow> message \<noteq> [] \<Longrightarrow> m \<noteq> []" for key message s
    by (simp add: min_one_def split: if_splits)
  have size: "(k, m) \<in> set (check_size to_number nan_message s) \<Longrightarrow> nan_message \<noteq> [] \<Longrightarrow> m \<noteq> []" for s
    by (simp add: check_size_def split: if_splits)
  assume "(k, m) \<in> set (form_errors to_number nan_message f)" and n: "nan_message \<noteq> []"
  then show "m \<noteq> []"
    unfolding form_errors_def set_append Un_iff
    by (elim disjE) ((erule texts, simp) | (erule size, rule n))+
qed

text \<open>After a refused submission, a control of the registration form is marked as invalid exactly when
  the schema reports an error for its field; then the message of that error is shown under the id that
  the control is described by, and the label is marked and leads to the control.\<close>

theorem refused_fields_marked:
  assumes "submit_form to_number nan_message fmt f = Inl errors" and "nan_message \<noteq> []"
    and "registration_field errors name i = Inr fld"
  shows "(fc_invalid (FormControl fld) \<longleftrightarrow> name \<in> fst ` set errors) \<and>
    FormLabel fld = (fc_id (FormControl fld), fc_invalid (FormControl fld)) \<and>
    (name \<in> fst ` set errors \<longrightarrow>
       (\<exists>m. (name, m) \<in> set errors \<and> FormMessage fld children = Some (formMessageId fld, m) \<and>
          suffix (formMessageId fld) (fc_describedby (FormControl fld))))"
proof -
  have errors: "errors = form_errors to_number nan_message f"
    using assms(1) by (auto simp: submit_form_def Let_def split: if_splits)
  have state: "ff_error fld = map_option Some (map_of errors name)"
    using assms(3) by (auto simp: registration_field_def useFormField_def registration_state_def)
  have shown: "\<exists>m. (name, m) \<in> set errors \<and> FormMessage fld children = Some (formMessageId fld, m) \<and>
      suffix (formMessageId fld) (fc_describedby (FormControl fld))" if "name \<in> fst ` set errors"
  proof -
    obtain m where m: "map_of errors name = Some m"
      using \<open>name \<in> fst ` set errors\<close> by (cases "map_of errors name") (simp_all add: map_of_eq_None_iff)
    then have "(name, m) \<in> set errors" by (rule map_of_SomeD)
    moreover from this have "(name, m) \<in> set (form_errors to_number nan_message f)" by (simp only: errors)
    then have "m \<noteq> []" using assms(2) by (rule form_error_messages)
    then have "FormMessage fld children = Some (formMessageId fld, m)"
      by (simp add: FormMessage_def Let_def state m)
    moreover have "suffix (formMessageId fld) (fc_describedby (FormControl fld))"
      by (simp add: FormControl_def state m suffix_append)
    ultimately show ?thesis by (intro exI conjI)
  qed
  have "fc_invalid (FormControl fld) \<longleftrightarrow> name \<in> fst ` set errors"
    by (simp add: FormControl_def state map_of_eq_None_iff)
  moreover have "FormLabel fld = (fc_id (FormControl fld), fc_invalid (FormControl fld))"
    by (simp add: FormLabel_def FormControl_def)
  ultimately show ?thesis using shown by (intro conjI impI)
qed

lemma refused_fields_marked_witness:
  "\<exists>errors fld. submit_form (\<lambda>_. Fin 5) (js ''Expected number'') demo_format defaultValues = Inl errors \<and>
     registration_field errors (js ''state'') (js '':r1:'') = Inr fld \<and> fc_invalid (FormControl fld)"
proof -
  let ?n = "js ''Expected number''"
  obtain errors where e: "submit_form (\<lambda>_. Fin 5) ?n demo_format defaultValues = Inl errors"
    "js ''state'' \<in> fst ` set errors"
    by (simp add: submit_form_def Let_def form_errors_def min_one_def defaultValues_def check_size_def)
  obtain fld where f: "registration_field errors (js ''state'') (js '':r1:'') = Inr fld"
    by (simp add: registration_field_def useFormField_def)
  have "?n \<noteq> []" by simp
  from refused_fields_marked [OF e(1) this f] e f show ?thesis by blast
qed

end
