(* ===== verification/Startup.thy ===== *)
theory Startup
  imports Prelude
begin

text \<open>
  What runs before and around the programs: the checks of the environment in
  \<open>api-server/src/index.ts\<close>, \<open>lib/db/src/index.ts\<close> and the two \<open>vite.config.ts\<close>, the settings of the
  logger (\<open>api-server/src/lib/logger.ts\<close>) and what \<open>app.ts\<close> logs of a request.  \<open>to_number\<close> is the
  conversion \<open>Number\<close> of a text; the server library, Vite and the database driver are outside.
\<close>

section \<open>Environment checks\<close>

type_synonym environment = "jsstr \<Rightarrow> jsstr option"

definition absent_text :: "jsstr \<Rightarrow> jsstr" where
  "absent_text name = name @ js '' environment variable is required but was not provided.''"

definition variable :: "environment \<Rightarrow> string \<Rightarrow> jsstr + jsstr" where
  "variable env name =
     (let v = or_else (env (js name)) [] in if v = [] then Inl (absent_text (js name)) else Inr v)"

fun positive :: "jsnum \<Rightarrow> bool" where
  "positive NaN = False"
| "positive PosInf = True"
| "positive NegInf = False"
| "positive (Fin r) = (0 < r)"

definition port_of :: "(jsstr \<Rightarrow> jsnum) \<Rightarrow> environment \<Rightarrow> jsstr + jsnum" where
  "port_of to_number env =
     (case variable env ''PORT'' of
        Inl e \<Rightarrow> Inl e
      | Inr rawPort \<Rightarrow>
          let port = to_number rawPort
          in if \<not> positive port then Inl (js ''Invalid PORT value: \"'' @ rawPort @ js ''\"'') else Inr port)"

section \<open>API server\<close>

text \<open>The connection string, or the error that loading \<open>lib/db\<close> throws.\<close>

definition database_url :: "environment \<Rightarrow> jsstr + jsstr" where
  "database_url env =
     (let url = or_else (env (js ''DATABASE_URL'')) [] in
      if url = [] then Inl (js ''DATABASE_URL must be set. Did you forget to provision a database?'') else Inr url)"

text \<open>\<open>index.ts\<close> imports the application, and with it \<open>lib/db\<close>, before its own checks run: the error, or the
  connection string and the port that are used.\<close>

definition start_server :: "(jsstr \<Rightarrow> jsnum) \<Rightarrow> environment \<Rightarrow> jsstr + jsstr \<times> jsnum" where
  "start_server to_number env =
     (case database_url env of
        Inl e \<Rightarrow> Inl e
      | Inr url \<Rightarrow>
          (case port_of to_number env of
             Inl e \<Rightarrow> Inl e
           | Inr port \<Rightarrow> Inr (url, port)))"

datatype server_event = LogError jsstr | LogInfo jsstr jsnum | ExitProcess nat

definition listening :: "jsnum \<Rightarrow> bool \<Rightarrow> server_event list" where
  "listening port err =
     (if err then [LogError (js ''Error listening on port''), ExitProcess 1]
      else [LogInfo (js ''Server listening'') port])"

section \<open>Logging\<close>

record logger_settings =
  log_level :: jsstr
  log_redact :: "jsstr list"
  log_pretty :: bool

definition logger :: "environment \<Rightarrow> logger_settings" where
  "logger env =
     \<lparr>log_level = or_else (env (js ''LOG_LEVEL'')) (js ''info''),
      log_redact = [js ''req.headers.authorization'', js ''req.headers.cookie'', js ''res.headers['' @ [39] @ js ''set-cookie'' @ [39] @ js '']''],
      log_pretty = (env (js ''NODE_ENV'') \<noteq> Some (js ''production''))\<rparr>"

record logged_request =
  lr_id :: jsval
  lr_method :: jsstr
  lr_url :: "jsstr option"

definition log_request :: "jsval \<Rightarrow> jsstr \<Rightarrow> jsstr option \<Rightarrow> logged_request" where
  "log_request i meth url = \<lparr>lr_id = i, lr_method = meth, lr_url = map_option (before_sep 63) url\<rparr>"

section \<open>Vite configurations\<close>

text \<open>Absolute paths as segments; \<open>path.resolve\<close> from a directory (the parent of the root is the root).\<close>

fun resolve :: "string list \<Rightarrow> string list \<Rightarrow> string list" where
  "resolve dir [] = dir"
| "resolve dir (seg # segs) = resolve (if seg = ''..'' then butlast dir else dir @ [seg]) segs"

text \<open>A plugin by the call that makes it, with the \<open>root\<close> it is given.\<close>

type_synonym vite_plugin = "string \<times> string list option"

record dev_server =
  ds_port :: jsnum
  ds_strictPort :: bool
  ds_host :: string
  ds_allowedHosts :: bool
  ds_fs_strict :: bool

record preview_server =
  ps_port :: jsnum
  ps_host :: string
  ps_allowedHosts :: bool

record vite_config =
  vc_base :: jsstr
  vc_plugins :: "vite_plugin list"
  vc_alias :: "(string \<times> string list) list"
  vc_dedupe :: "string list"
  vc_root :: "string list"
  vc_outDir :: "string list"
  vc_emptyOutDir :: bool
  vc_server :: dev_server
  vc_preview :: preview_server

definition on_replit :: "environment \<Rightarrow> bool" where
  "on_replit env \<longleftrightarrow> env (js ''NODE_ENV'') \<noteq> Some (js ''production'') \<and> env (js ''REPL_ID'') \<noteq> None"

definition cartographer :: "string list \<Rightarrow> vite_plugin" where
  "cartographer dirname = (''cartographer'', Some (resolve dirname [''..'']))"

definition checked_settings :: "(jsstr \<Rightarrow> jsnum) \<Rightarrow> environment \<Rightarrow> jsstr + jsnum \<times> jsstr" where
  "checked_settings to_number env =
     (case port_of to_number env of
        Inl e \<Rightarrow> Inl e
      | Inr port \<Rightarrow>
          (case variable env ''BASE_PATH'' of
             Inl e \<Rightarrow> Inl e
           | Inr basePath \<Rightarrow> Inr (port, basePath)))"

definition web_vite_config :: "(jsstr \<Rightarrow> jsnum) \<Rightarrow> string list \<Rightarrow> environment \<Rightarrow> jsstr + vite_config" where
  "web_vite_config to_number dirname env =
     (case checked_settings to_number env of
        Inl e \<Rightarrow> Inl e
      | Inr (port, basePath) \<Rightarrow> Inr
          \<lparr>vc_base = basePath,
           vc_plugins = [(''react'', None), (''tailwindcss'', None), (''runtimeErrorOverlay'', None)] @
             (if on_replit env then [cartographer dirname, (''devBanner'', None)] else []),
           vc_alias = [(''@'', resolve dirname [''src'']),
             (''@assets'', resolve dirname [''..'', ''..'', ''attached_assets''])],
           vc_dedupe = [''react'', ''react-dom''],
           vc_root = resolve dirname [],
           vc_outDir = resolve dirname [''dist'', ''public''],
           vc_emptyOutDir = True,
           vc_server = \<lparr>ds_port = port, ds_strictPort = True, ds_host = ''0.0.0.0'', ds_allowedHosts = True, ds_fs_strict = True\<rparr>,
           vc_preview = \<lparr>ps_port = port, ps_host = ''0.0.0.0'', ps_allowedHosts = True\<rparr>\<rparr>)"

definition mockup_vite_config :: "(jsstr \<Rightarrow> jsnum) \<Rightarrow> string list \<Rightarrow> environment \<Rightarrow> jsstr + vite_config" where
  "mockup_vite_config to_number dirname env =
     (case checked_settings to_number env of
        Inl e \<Rightarrow> Inl e
      | Inr (port, basePath) \<Rightarrow> Inr
          \<lparr>vc_base = basePath,
           vc_plugins = [(''mockupPreviewPlugin'', None), (''react'', None), (''tailwindcss'', None), (''runtimeErrorOverlay'', None)] @
             (if on_replit env then [cartographer dirname] else []),
           vc_alias = [(''@'', resolve dirname [''src''])],
           vc_dedupe = [],
           vc_root = resolve dirname [],
           vc_outDir = resolve dirname [''dist''],
           vc_emptyOutDir = True,
           vc_server = \<lparr>ds_port = port, ds_strictPort = False, ds_host = ''0.0.0.0'', ds_allowedHosts = True, ds_fs_strict = True\<rparr>,
           vc_preview = \<lparr>ps_port = port, ps_host = ''0.0.0.0'', ps_allowedHosts = True\<rparr>\<rparr>)"

section \<open>Properties\<close>

lemma variable_Inr: "variable env name = Inr v \<longleftrightarrow> v \<noteq> [] \<and> env (js name) = Some v"
  by (cases "env (js name)") (auto simp: variable_def Let_def)

lemma port_of_Inr:
  "port_of to_number env = Inr p \<longleftrightarrow>
     (\<exists>v. env (js ''PORT'') = Some v \<and> v \<noteq> [] \<and> to_number v = p \<and> positive p)"
  by (cases "env (js ''PORT'')") (auto simp: port_of_def variable_def Let_def)

text \<open>The server starts exactly when a connection string and a port are given and the port reads as a
  positive number; without a connection string that is what it reports, whatever the port; and a
  positive number that is no port, like 70000 or infinity, is let through.\<close>

theorem server_start_checked:
  "(start_server to_number env = Inr (url, p) \<longleftrightarrow>
      env (js ''DATABASE_URL'') = Some url \<and> url \<noteq> [] \<and>
      (\<exists>v. env (js ''PORT'') = Some v \<and> v \<noteq> [] \<and> to_number v = p \<and> (p = PosInf \<or> (\<exists>r. 0 < r \<and> p = Fin r)))) \<and>
   start_server to_number (env(js ''DATABASE_URL'' := None)) =
     Inl (js ''DATABASE_URL must be set. Did you forget to provision a database?'')"
proof -
  have "positive p \<longleftrightarrow> p = PosInf \<or> (\<exists>r. 0 < r \<and> p = Fin r)" by (cases p) auto
  moreover have "start_server to_number env = Inr (url, p) \<longleftrightarrow>
      env (js ''DATABASE_URL'') = Some url \<and> url \<noteq> [] \<and> port_of to_number env = Inr p"
    by (cases "env (js ''DATABASE_URL'')"; cases "port_of to_number env")
       (auto simp: start_server_def database_url_def Let_def)
  moreover have "start_server to_number (env(js ''DATABASE_URL'' := None)) =
      Inl (js ''DATABASE_URL must be set. Did you forget to provision a database?'')"
    by (simp add: start_server_def database_url_def)
  ultimately show ?thesis by (simp add: port_of_Inr)
qed

text \<open>Both sites start from the same environments, with the port and base they were given; what they build
  and what \<open>@\<close> means stays inside their own directory, and on Replit alone further plugins are loaded.\<close>

theorem sites_configured:
  assumes "web_vite_config to_number dirname env = Inr w"
  obtains m where "mockup_vite_config to_number dirname env = Inr m"
    and "vc_base m = vc_base w" and "ds_port (vc_server m) = ds_port (vc_server w)"
    and "ps_port (vc_preview w) = ds_port (vc_server w)" and "ps_port (vc_preview m) = ds_port (vc_server m)"
    and "prefix dirname (vc_outDir w)" and "prefix dirname (vc_outDir m)"
    and "vc_outDir w \<noteq> vc_root w" and "vc_outDir m \<noteq> vc_root m"
    and "map_of (vc_alias m) ''@'' = Some (vc_root w @ [''src''])" and "map_of (vc_alias w) ''@'' = map_of (vc_alias m) ''@''"
    and "(''cartographer'', Some (butlast dirname)) \<in> set (vc_plugins w) \<longleftrightarrow> on_replit env"
proof -
  obtain port base where c: "checked_settings to_number env = Inr (port, base)"
    using assms by (auto simp: web_vite_config_def split: sum.splits)
  then obtain m where m: "mockup_vite_config to_number dirname env = Inr m" by (simp add: mockup_vite_config_def)
  show thesis
    using that [OF m] assms m c
    by (auto simp: web_vite_config_def mockup_vite_config_def cartographer_def)
qed

text \<open>What is logged of a request's URL is its part before the query: it has no question mark, and only
  the query is missing.\<close>

theorem logged_url_without_query:
  "\<exists>rest. lr_url (log_request i meth (Some url)) = Some (take (length url - length rest) url) \<and>
     63 \<notin> set (take (length url - length rest) url) \<and> (rest = [] \<or> hd rest = 63) \<and> suffix rest url"
proof -
  let ?rest = "dropWhile (\<lambda>c. c \<noteq> 63) url"
  have url: "url = before_sep 63 url @ ?rest" by (simp add: before_sep_def)
  then have "take (length url - length ?rest) url = before_sep 63 url"
    by (metis append_eq_conv_conj length_append diff_add_inverse2)
  moreover have "63 \<notin> set (before_sep 63 url)"
    by (auto simp: before_sep_def dest: set_takeWhileD)
  moreover have "?rest = [] \<or> hd ?rest = 63" using hd_dropWhile [of "\<lambda>c. c \<noteq> 63" url] by auto
  moreover have "suffix ?rest url" by (rule suffix_dropWhile)
  ultimately show ?thesis by (intro exI [of _ ?rest]) (simp add: log_request_def)
qed

end
