(* ===== verification/Url_Path.thy ===== *)
theory Url_Path
  imports Client_Properties
begin

text \<open>
  The path that a server sees of the URL that a client asks for, after the origin: what the URL
  standard makes of it (the fragment and the query are cut off, dot segments are resolved) and the
  decoding of percent escapes by the server.  The model is that of printable ASCII URLs whose escapes
  are of ASCII characters; of others it says nothing (\<open>None\<close>).
\<close>

section \<open>Paths of URLs\<close>

definition printable :: "jsstr \<Rightarrow> bool" where
  "printable s = list_all (\<lambda>c. 32 < c \<and> c < 127) s"

text \<open>The parser takes a backslash for a slash.\<close>

fun url_parts :: "jsstr \<Rightarrow> jsstr list" where
  "url_parts [] = [[]]"
| "url_parts (c # cs) =
     (if c = 47 \<or> c = 92 then [] # url_parts cs else (c # hd (url_parts cs)) # tl (url_parts cs))"

definition single_dot :: "jsstr \<Rightarrow> bool" where
  "single_dot s \<longleftrightarrow> map lower_ascii s \<in> set (map js [''.'', ''%2e''])"

definition double_dot :: "jsstr \<Rightarrow> bool" where
  "double_dot s \<longleftrightarrow> map lower_ascii s \<in> set (map js [''..'', ''.%2e'', ''%2e.'', ''%2e%2e''])"

text \<open>The segments so far, latest first; a dot segment at the end leaves an empty one.\<close>

fun resolve_dots :: "jsstr list \<Rightarrow> jsstr list \<Rightarrow> jsstr list" where
  "resolve_dots acc [] = rev acc"
| "resolve_dots acc (s # ss) =
     (if double_dot s then resolve_dots (if ss = [] then [] # tl acc else tl acc) ss
      else if single_dot s then resolve_dots (if ss = [] then [] # acc else acc) ss
      else resolve_dots (s # acc) ss)"

definition url_segments :: "jsstr \<Rightarrow> jsstr list option" where
  "url_segments u =
     (if printable u then
        case url_parts (before_sep 63 (before_sep 35 u)) of
          [] # segs \<Rightarrow> Some (resolve_dots [] segs)
        | _ \<Rightarrow> None
      else None)"

definition hex_digit :: "jschar \<Rightarrow> nat option" where
  "hex_digit c =
     (if 48 \<le> c \<and> c \<le> 57 then Some (unat c - 48)
      else if 65 \<le> c \<and> c \<le> 70 then Some (unat c - 55)
      else if 97 \<le> c \<and> c \<le> 102 then Some (unat c - 87)
      else None)"

fun unescape :: "jsstr \<Rightarrow> jsstr option" where
  "unescape [] = Some []"
| "unescape (c # s) =
     (if c = 37 then
        case s of
          a # b # r \<Rightarrow>
            (case (hex_digit a, hex_digit b) of
               (Some x, Some y) \<Rightarrow>
                 if 16 * x + y < 128 then map_option ((#) (of_nat (16 * x + y))) (unescape r) else None
             | _ \<Rightarrow> None)
        | _ \<Rightarrow> None
      else map_option ((#) c) (unescape s))"

text \<open>A Python server decodes the path as a whole, Express each of its segments, and for its routes a
  final slash makes no difference.\<close>

definition request_path :: "jsstr \<Rightarrow> jsstr option" where
  "request_path u = (case url_segments u of None \<Rightarrow> None | Some segs \<Rightarrow> unescape (path_of_segments segs))"

definition without_final_slash :: "jsstr list \<Rightarrow> jsstr list" where
  "without_final_slash segs = (if segs \<noteq> [] \<and> last segs = [] then butlast segs else segs)"

definition request_segments :: "jsstr \<Rightarrow> jsstr list option" where
  "request_segments u =
     (case url_segments u of
        None \<Rightarrow> None | Some segs \<Rightarrow> map_option without_final_slash (those (map unescape segs)))"

section \<open>Plain segments\<close>

text \<open>Segments that mean themselves: letters, digits and four other characters that the standard calls
  unreserved, but not the dot segments.\<close>

definition unreserved :: "jschar \<Rightarrow> bool" where
  "unreserved c \<longleftrightarrow>
     48 \<le> c \<and> c \<le> 57 \<or> 65 \<le> c \<and> c \<le> 90 \<or> 97 \<le> c \<and> c \<le> 122 \<or> c = 45 \<or> c = 46 \<or> c = 95 \<or> c = 126"

definition plain_segment :: "jsstr \<Rightarrow> bool" where
  "plain_segment s \<longleftrightarrow> s \<noteq> [] \<and> list_all unreserved s \<and> s \<noteq> js ''.'' \<and> s \<noteq> js ''..''"

lemma reserved_units: "\<not> unreserved 35" "\<not> unreserved 37" "\<not> unreserved 47" "\<not> unreserved 63" "\<not> unreserved 92"
  by (simp_all add: unreserved_def)

lemma unreserved_not:
  "unreserved c \<Longrightarrow> c \<noteq> 35" "unreserved c \<Longrightarrow> c \<noteq> 37" "unreserved c \<Longrightarrow> c \<noteq> 47"
  "unreserved c \<Longrightarrow> c \<noteq> 63" "unreserved c \<Longrightarrow> c \<noteq> 92"
  using reserved_units by blast+

lemma unreserved_printable: "unreserved c \<Longrightarrow> 32 < c \<and> c < 127"
  by (auto simp: unreserved_def intro: less_le_trans [of "32::jschar" 48] less_le_trans [of "32::jschar" 65]
      less_le_trans [of "32::jschar" 97] le_less_trans [of _ "57::jschar"] le_less_trans [of _ "90::jschar"]
      le_less_trans [of _ "122::jschar"])

lemma lower_ascii_below: "x < 65 \<Longrightarrow> lower_ascii c = x \<Longrightarrow> c = x"
proof (cases "65 \<le> c \<and> c \<le> 90")
  case True
  assume "x < 65" "lower_ascii c = x"
  then have "unat x < 65" "x = c + 32" "65 \<le> unat c" "unat c \<le> 90"
    using True by (simp_all add: lower_ascii_def word_less_nat_alt word_le_nat_alt)
  then have "unat x = unat c + 32" by (simp add: unat_word_ariths)
  with \<open>unat x < 65\<close> \<open>65 \<le> unat c\<close> show ?thesis by simp
qed (simp add: lower_ascii_def)

lemma plain_not_dots:
  assumes "plain_segment s"
  shows "\<not> single_dot s" "\<not> double_dot s"
proof -
  have p: "37 \<notin> set (map lower_ascii s)"
    using assms lower_ascii_below [of 37] unreserved_not(2)
    by (fastforce simp: plain_segment_def list_all_iff)
  have d: "s = js t" if "map lower_ascii s = js t" "set t \<subseteq> {CHR ''.''}" for t
    using that
  proof (induction t arbitrary: s)
    case (Cons a t)
    then show ?case
      using lower_ascii_below [of 46] by (cases s) (auto simp: js_def unit_of_def)
  qed (simp add: js_def)
  have e: "37 \<in> set (js ''%2e'')" "37 \<in> set (js ''.%2e'')" "37 \<in> set (js ''%2e.'')" "37 \<in> set (js ''%2e%2e'')"
    by (simp_all add: js_def unit_of_def)
  show "\<not> single_dot s"
    using d [of "''.''"] p e assms by (auto simp: single_dot_def plain_segment_def simp del: set_map)
  show "\<not> double_dot s"
    using d [of "''..''"] p e assms by (auto simp: double_dot_def plain_segment_def simp del: set_map)
qed

lemma resolve_plain: "\<forall>s \<in> set segs. plain_segment s \<Longrightarrow> resolve_dots acc segs = rev acc @ segs"
  by (induction segs arbitrary: acc) (simp_all add: plain_not_dots)

lemma url_parts_plain:
  "\<forall>s \<in> set segs. plain_segment s \<Longrightarrow> url_parts (path_of_segments segs) = [] # segs"
proof (induction segs)
  case Nil
  show ?case by (simp add: path_of_segments_def)
next
  case (Cons s segs)
  then have rest: "url_parts (path_of_segments segs) = [] # segs" by simp
  have "url_parts (t @ path_of_segments segs) = t # segs" if "list_all unreserved t" for t
    using that rest by (induction t) (auto dest: unreserved_not)
  with Cons.prems show ?case by (simp add: path_of_segments_def plain_segment_def)
qed

lemma plain_path_units:
  assumes "\<forall>s \<in> set segs. plain_segment s" and "c \<in> set (path_of_segments segs)"
  shows "c = 47 \<or> unreserved c"
  using assms by (auto simp: path_of_segments_def plain_segment_def list_all_iff split: if_splits)

lemma before_absent: "c \<notin> set s \<Longrightarrow> before_sep c s = s"
  by (auto simp: before_sep_def takeWhile_eq_all_conv)

lemma url_segments_plain:
  assumes "\<forall>s \<in> set segs. plain_segment s"
  shows "url_segments (path_of_segments segs) = Some segs"
proof -
  note units = plain_path_units [OF assms]
  have "printable (path_of_segments segs)"
    unfolding printable_def list_all_iff using units unreserved_printable by fastforce
  moreover have "35 \<notin> set (path_of_segments segs)" "63 \<notin> set (path_of_segments segs)"
    using units reserved_units by fastforce+
  ultimately show ?thesis
    by (simp add: url_segments_def before_absent url_parts_plain [OF assms] resolve_plain [OF assms])
qed

lemma unescape_plain: "37 \<notin> set s \<Longrightarrow> unescape s = Some s"
  by (induction s) auto

lemma request_path_plain:
  assumes "\<forall>s \<in> set segs. plain_segment s"
  shows "request_path (path_of_segments segs) = Some (path_of_segments segs)"
proof -
  have "37 \<notin> set (path_of_segments segs)" using plain_path_units [OF assms, of 37] reserved_units by auto
  then show ?thesis by (simp add: request_path_def url_segments_plain [OF assms] unescape_plain)
qed

lemma request_segments_plain:
  assumes "\<forall>s \<in> set segs. plain_segment s"
  shows "request_segments (path_of_segments segs) = Some segs"
proof -
  have "unescape s = Some s" if "s \<in> set segs" for s
    using assms that unreserved_not(2) by (intro unescape_plain) (auto simp: plain_segment_def list_all_iff)
  moreover have "those (map unescape xs) = Some xs" if "\<And>s. s \<in> set xs \<Longrightarrow> unescape s = Some s" for xs
    using that by (induction xs) simp_all
  ultimately have "those (map unescape segs) = Some segs" by blast
  moreover have "segs = [] \<or> last segs \<noteq> []"
    using bspec [OF assms last_in_set] by (auto simp: plain_segment_def)
  then have "without_final_slash segs = segs" by (auto simp: without_final_slash_def)
  ultimately show ?thesis by (simp add: request_segments_def url_segments_plain [OF assms])
qed

section \<open>The operations of the client\<close>

text \<open>Operations whose parameter is a plain segment, as the keys of the service are.\<close>

definition safe_param :: "operation \<Rightarrow> bool" where
  "safe_param op \<longleftrightarrow> (case operation_param op of None \<Rightarrow> True | Some i \<Rightarrow> plain_segment i)"

definition literal_letters :: string where
  "literal_letters = ''abcdefghijklmnopqrstuvwxyz-0123456789''"

definition literal :: "string \<Rightarrow> bool" where
  "literal l \<longleftrightarrow> l \<noteq> [] \<and> list_all (\<lambda>c. c \<in> set literal_letters) l"

lemma literal_plain:
  assumes "literal l"
  shows "plain_segment (js l)"
proof -
  have "list_all unreserved (js literal_letters)"
    by (simp add: literal_letters_def js_def unit_of_def unreserved_def)
  then have "list_all unreserved (js l)"
    using assms by (auto simp: literal_def js_def list_all_iff)
  moreover have "CHR ''.'' \<notin> set literal_letters" by (simp add: literal_letters_def)
  then have "CHR ''.'' \<notin> set l" using assms by (auto simp: literal_def list_all_iff)
  then have "l \<noteq> ''.''" "l \<noteq> ''..''" by auto
  ultimately show ?thesis using assms by (simp add: plain_segment_def literal_def)
qed

lemma route_literals:
  "list_all literal [''health'', ''live'', ''ready'', ''v1'', ''auth'', ''register'', ''login'', ''invitations'',
     ''accept'', ''accept-supabase'', ''refresh'', ''logout'', ''me'', ''tenant'', ''admin'', ''users'', ''roles'',
     ''revoke'', ''tenants'', ''suspend'', ''reactivate'', ''archive'', ''delegations'', ''extend'', ''parcels'',
     ''geometry'', ''spatial'', ''evidence'', ''attributions'', ''corrections'']"
  by (simp add: literal_def literal_letters_def)

lemma operation_segments_plain: "safe_param op \<Longrightarrow> \<forall>s \<in> set (operation_segments op). plain_segment s"
  using route_literals by (cases op) (simp_all add: safe_param_def literal_plain)

end
