(* ===== verification/Json_Reader.thy ===== *)
theory Json_Reader
  imports Json_Text
begin

text \<open>
  \<open>JSON.parse\<close> by the grammar of ECMA-404: how the text of a number is read is the argument, as
  how it is written is one of \<open>json_stringify\<close>.  What was written is read back as its JSON image:
  undefined members are gone, dates are text, and numbers that are not finite are null.
\<close>

section \<open>The reader\<close>

definition is_space :: "jschar \<Rightarrow> bool" where
  "is_space c \<longleftrightarrow> c = 32 \<or> c = 9 \<or> c = 10 \<or> c = 13"

definition skip :: "jsstr \<Rightarrow> jsstr" where
  "skip = dropWhile is_space"

definition number_char :: "jschar \<Rightarrow> bool" where
  "number_char c \<longleftrightarrow> 48 \<le> c \<and> c \<le> 57 \<or> c = 45 \<or> c = 43 \<or> c = 46 \<or> c = 101 \<or> c = 69"

lemma length_skip: "length (skip s) \<le> length s"
  by (simp add: skip_def length_dropWhile_le)

text \<open>
  The comparisons of lengths hold whenever they are reached, as every reader consumes a part of
  its text; they make the recursion end by a measure.
\<close>

function (sequential) read_value :: "(jsstr \<Rightarrow> rat option) \<Rightarrow> jsstr \<Rightarrow> (jsval \<times> jsstr) option"
  and read_elements :: "(jsstr \<Rightarrow> rat option) \<Rightarrow> jsstr \<Rightarrow> (jsval list \<times> jsstr) option"
  and read_members :: "(jsstr \<Rightarrow> rat option) \<Rightarrow> jsstr \<Rightarrow> ((jsstr \<times> jsval) list \<times> jsstr) option" where
  "read_value rd s =
     (case skip s of
        [] \<Rightarrow> None
      | c # cs \<Rightarrow>
          if c = 34 then map_option (\<lambda>(t, r). (Str t, r)) (read_escaped cs)
          else if c = 91 then
            (if skip cs \<noteq> [] \<and> hd (skip cs) = 93 then Some (Arr [], tl (skip cs))
             else map_option (\<lambda>(vs, r). (Arr vs, r)) (read_elements rd cs))
          else if c = 123 then
            (if skip cs \<noteq> [] \<and> hd (skip cs) = 125 then Some (Obj [], tl (skip cs))
             else map_option (\<lambda>(kvs, r). (Obj (spread [] kvs), r)) (read_members rd cs))
          else if startsWith (c # cs) (js ''null'') then Some (Null, drop 4 (c # cs))
          else if startsWith (c # cs) (js ''true'') then Some (Bool True, drop 4 (c # cs))
          else if startsWith (c # cs) (js ''false'') then Some (Bool False, drop 5 (c # cs))
          else map_option (\<lambda>q. (Num (Fin q), dropWhile number_char (c # cs)))
                 (rd (takeWhile number_char (c # cs))))"
| "read_elements rd s =
     (case read_value rd s of
        None \<Rightarrow> None
      | Some (v, t) \<Rightarrow>
          (case skip t of
             [] \<Rightarrow> None
           | c # r \<Rightarrow>
               if c = 93 then Some ([v], r)
               else if c = 44 \<and> length r < length s then
                 map_option (\<lambda>(vs, u). (v # vs, u)) (read_elements rd r)
               else None))"
| "read_members rd s =
     (case skip s of
        [] \<Rightarrow> None
      | q # cs \<Rightarrow>
          if q = 34 then
            (case read_escaped cs of
               None \<Rightarrow> None
             | Some (k, t) \<Rightarrow>
                 if skip t \<noteq> [] \<and> hd (skip t) = 58 \<and> length (skip t) < length s then
                   (case read_value rd (tl (skip t)) of
                      None \<Rightarrow> None
                    | Some (v, w) \<Rightarrow>
                        (case skip w of
                           [] \<Rightarrow> None
                         | c # r \<Rightarrow>
                             if c = 125 then Some ([(k, v)], r)
                             else if c = 44 \<and> length r < length s then
                               map_option (\<lambda>(kvs, u). ((k, v) # kvs, u)) (read_members rd r)
                             else None))
                 else None)
          else None)"
  by pat_completeness auto

termination
proof (relation "measure (case_sum (\<lambda>(_, s). 2 * length s)
    (case_sum (\<lambda>(_, s). 2 * length s + 1) (\<lambda>(_, s). 2 * length s + 1)))", goal_cases)
  case 1
  then show ?case by simp
next
  case (2 rd s c cs)
  then show ?case using length_skip [of s] by simp
next
  case (3 rd s c cs)
  then show ?case using length_skip [of s] by simp
next
  case (6 rd s q cs y k t)
  then show ?case by (cases "skip t") simp_all
qed auto

definition json_text_value :: "(jsstr \<Rightarrow> rat option) \<Rightarrow> jsstr \<Rightarrow> jsval option" where
  "json_text_value rd s =
     (case read_value rd s of Some (v, r) \<Rightarrow> if skip r = [] then Some v else None | None \<Rightarrow> None)"

declare read_value.simps [simp del] read_elements.simps [simp del] read_members.simps [simp del]

section \<open>The image of a value\<close>

fun json_image :: "json_format \<Rightarrow> jsval \<Rightarrow> jsval" where
  "json_image fmt (Num n) = (case n of Fin r \<Rightarrow> Num (Fin r) | _ \<Rightarrow> Null)"
| "json_image fmt (Date d) = Str (date_text fmt d)"
| "json_image fmt (Arr vs) = Arr (map (\<lambda>v. if v = Undefined then Null else json_image fmt v) vs)"
| "json_image fmt (Obj kvs) =
     Obj (map (\<lambda>(k, v). (k, json_image fmt v)) (filter (\<lambda>(k, v). v \<noteq> Undefined) kvs))"
| "json_image fmt v = v"

text \<open>The numbers of a value are written so that they can be read, and its keys are distinct.\<close>

definition number_readable :: "json_format \<Rightarrow> (jsstr \<Rightarrow> rat option) \<Rightarrow> rat \<Rightarrow> bool" where
  "number_readable fmt rd q \<longleftrightarrow>
     number_text fmt q \<noteq> [] \<and> list_all number_char (number_text fmt q) \<and>
     hd (number_text fmt q) \<noteq> 101 \<and> rd (number_text fmt q) = Some q"

fun readable :: "json_format \<Rightarrow> (jsstr \<Rightarrow> rat option) \<Rightarrow> jsval \<Rightarrow> bool" where
  "readable fmt rd (Num n) = (case n of Fin q \<Rightarrow> number_readable fmt rd q | _ \<Rightarrow> True)"
| "readable fmt rd (Arr vs) = (\<forall>v \<in> set vs. readable fmt rd v)"
| "readable fmt rd (Obj kvs) = (distinct (map fst kvs) \<and> (\<forall>(k, v) \<in> set kvs. readable fmt rd v))"
| "readable fmt rd v = True"

section \<open>The round trip\<close>

text \<open>What may follow a value inside a text: nothing that would continue a number.\<close>

definition ended :: "jsstr \<Rightarrow> bool" where
  "ended r \<longleftrightarrow> r = [] \<or> \<not> number_char (hd r)"

text \<open>The text \<open>t\<close> is read as \<open>v\<close>, whatever follows.\<close>

definition reads_as :: "(jsstr \<Rightarrow> rat option) \<Rightarrow> jsstr \<Rightarrow> jsval \<Rightarrow> bool" where
  "reads_as rd t v \<longleftrightarrow> t \<noteq> [] \<and> \<not> is_space (hd t) \<and> hd t \<noteq> 93 \<and>
     (\<forall>r. ended r \<longrightarrow> read_value rd (t @ r) = Some (v, r))"

lemma skip_at: "t \<noteq> [] \<Longrightarrow> \<not> is_space (hd t) \<Longrightarrow> skip (t @ r) = t @ r"
  by (cases t) (simp_all add: skip_def)

lemma skip_mark [simp]: "\<not> is_space c \<Longrightarrow> skip (c # r) = c # r"
  by (simp add: skip_def)

lemma marks [simp]:
  "\<not> is_space 34" "\<not> is_space 44" "\<not> is_space 58" "\<not> is_space 91" "\<not> is_space 93" "\<not> is_space 123" "\<not> is_space 125"
  "ended (44 # r)" "ended (93 # r)" "ended (125 # r)" "ended []"
  by (simp_all add: is_space_def ended_def number_char_def)

lemma not_special:
  "number_char c \<Longrightarrow> \<not> is_space c \<and> c \<noteq> 34 \<and> c \<noteq> 91 \<and> c \<noteq> 93 \<and> c \<noteq> 123 \<and> c \<noteq> 110 \<and> c \<noteq> 116 \<and> c \<noteq> 102"
  by (auto simp: number_char_def is_space_def word_le_nat_alt)

lemma reads_literal:
  "reads_as rd (js ''null'') Null" "reads_as rd (js ''true'') (Bool True)" "reads_as rd (js ''false'') (Bool False)"
  by (simp_all add: reads_as_def js_def unit_of_def is_space_def read_value.simps)

lemma reads_string: "reads_as rd (json_quote s) (Str s)"
  by (simp add: reads_as_def json_quote_def read_value.simps read_json_escape)

lemma reads_number:
  assumes "number_readable fmt rd q"
  shows "reads_as rd (number_text fmt q) (Num (Fin q))"
proof -
  obtain c cs where t: "number_text fmt q = c # cs"
    using assms by (cases "number_text fmt q") (simp_all add: number_readable_def)
  from assms have c: "number_char c" "list_all number_char cs" "rd (c # cs) = Some q"
    by (simp_all add: number_readable_def t)
  have "read_value rd ((c # cs) @ r) = Some (Num (Fin q), r)" if "ended r" for r
  proof -
    have "takeWhile number_char r = [] \<and> dropWhile number_char r = r"
      using that by (cases r) (simp_all add: ended_def)
    then have "takeWhile number_char (c # cs @ r) = c # cs \<and> dropWhile number_char (c # cs @ r) = r"
      using c(1,2) by (simp add: takeWhile_append dropWhile_append list_all_iff)
    then show ?thesis
      using c(1,3) not_special [OF c(1)] by (simp add: read_value.simps js_def unit_of_def)
  qed
  then show ?thesis using not_special [OF c(1)] by (simp add: reads_as_def t)
qed

lemma comma_join_Cons: "comma_join (t # ts) = t @ (if ts = [] then [] else 44 # comma_join ts)"
  by (cases ts) (simp_all add: js_def unit_of_def)

lemma read_elements_joined:
  assumes "list_all2 (reads_as rd) ts vs" and "ts \<noteq> []"
  shows "read_elements rd (comma_join ts @ 93 # r) = Some (vs, r)"
  using assms
proof (induction ts vs rule: list_all2_induct)
  case (Cons t ts v vs)
  let ?rest = "(if ts = [] then [] else 44 # comma_join ts) @ 93 # r"
  have "read_value rd (t @ ?rest) = Some (v, ?rest)"
    using Cons.hyps(1) by (auto simp: reads_as_def)
  moreover have "t \<noteq> []" using Cons.hyps(1) by (simp add: reads_as_def)
  ultimately show ?case
    using Cons.IH Cons.hyps(2)
    by (subst read_elements.simps) (auto simp: comma_join_Cons neq_Nil_conv)
qed simp

lemma read_members_joined:
  assumes "list_all2 (\<lambda>t (k, v). \<exists>s. t = json_quote k @ js '':'' @ s \<and> reads_as rd s v) ts kvs" and "ts \<noteq> []"
  shows "read_members rd (comma_join ts @ 125 # r) = Some (kvs, r)"
  using assms
proof (induction ts kvs rule: list_all2_induct)
  case (Cons t ts kv kvs)
  obtain k v where kv: "kv = (k, v)" by (cases kv)
  with Cons.hyps(1) obtain s where s: "t = json_quote k @ js '':'' @ s" "reads_as rd s v" by auto
  let ?rest = "(if ts = [] then [] else 44 # comma_join ts) @ 125 # r"
  have v: "read_value rd (s @ ?rest) = Some (v, ?rest)"
    using s(2) by (auto simp: reads_as_def)
  have t: "comma_join (t # ts) @ 125 # r = 34 # (json_escape k @ 34 # 58 # s @ ?rest)"
    by (simp add: comma_join_Cons s json_quote_def js_def unit_of_def)
  show ?case
    unfolding t using v Cons.IH Cons.hyps(2)
    by (subst read_members.simps) (auto simp: kv read_json_escape neq_Nil_conv)
qed simp

lemma put_new_key: "k \<notin> fst ` set a \<Longrightarrow> put_key a k v = a @ [(k, v)]"
  by (induction a k v rule: put_key.induct) auto

lemma spread_new_keys: "distinct (map fst b) \<Longrightarrow> fst ` set a \<inter> fst ` set b = {} \<Longrightarrow> spread a b = a @ b"
proof (induction b arbitrary: a)
  case (Cons kv b)
  then show ?case by (cases kv) (simp add: put_new_key)
qed simp

lemma stringify_None: "json_stringify fmt v = None \<longleftrightarrow> v = Undefined"
  by (cases v) auto

lemma member_texts:
  assumes "\<And>k v t. (k, v) \<in> set kvs \<Longrightarrow> json_stringify fmt v = Some t \<Longrightarrow> reads_as rd t (json_image fmt v)"
  shows "list_all2 (\<lambda>t (k, v). \<exists>s. t = json_quote k @ js '':'' @ s \<and> reads_as rd s v)
    (concat (map (\<lambda>(k, v). case json_stringify fmt v of None \<Rightarrow> [] | Some s \<Rightarrow> [json_quote k @ js '':'' @ s]) kvs))
    (map (\<lambda>(k, v). (k, json_image fmt v)) (filter (\<lambda>(k, v). v \<noteq> Undefined) kvs))"
  using assms
proof (induction kvs)
  case (Cons kv kvs)
  note rest = Cons.IH [OF Cons.prems [OF list.set_intros(2)]]
  obtain k v where kv: "kv = (k, v)" by (cases kv)
  show ?case
  proof (cases "json_stringify fmt v")
    case None
    then show ?thesis using rest by (simp add: kv stringify_None)
  next
    case (Some s)
    then have "v \<noteq> Undefined" by auto
    then show ?thesis using Some rest Cons.prems [of k v s] by (simp add: kv)
  qed
qed simp

lemma reads_array:
  assumes "list_all2 (reads_as rd) ts vs"
  shows "reads_as rd (js ''['' @ comma_join ts @ js '']'') (Arr vs)"
proof (cases ts)
  case Nil
  then show ?thesis using assms by (simp add: reads_as_def read_value.simps js_def unit_of_def is_space_def)
next
  case (Cons t us)
  with assms have "reads_as rd t (hd vs)" by (auto simp: list_all2_Cons1)
  then have "skip (comma_join ts @ 93 # r) = comma_join ts @ 93 # r \<and> hd (comma_join ts @ 93 # r) \<noteq> 93" for r
    by (auto simp: Cons comma_join_Cons reads_as_def intro!: skip_at)
  then show ?thesis
    using read_elements_joined [OF assms] Cons by (simp add: reads_as_def read_value.simps js_def unit_of_def)
qed

lemma reads_object:
  assumes all: "list_all2 (\<lambda>t (k, v). \<exists>s. t = json_quote k @ js '':'' @ s \<and> reads_as rd s v) ts ms"
    and "distinct (map fst ms)"
  shows "reads_as rd (js ''{'' @ comma_join ts @ js ''}'') (Obj ms)"
proof (cases ts)
  case Nil
  then show ?thesis using all by (simp add: reads_as_def read_value.simps js_def unit_of_def is_space_def)
next
  case (Cons t us)
  with all have "hd t = 34" "t \<noteq> []" by (auto simp: list_all2_Cons1 json_quote_def)
  then have h: "skip (comma_join ts @ 125 # r) = comma_join ts @ 125 # r \<and> hd (comma_join ts @ 125 # r) \<noteq> 125" for r
    by (auto simp: Cons comma_join_Cons intro!: skip_at)
  have "spread [] ms = ms" using assms(2) by (simp add: spread_new_keys)
  then show ?thesis
    using read_members_joined [OF all] h Cons by (simp add: reads_as_def read_value.simps js_def unit_of_def)
qed

lemma stringify_reads:
  "readable fmt rd v \<Longrightarrow> json_stringify fmt v = Some t \<Longrightarrow> reads_as rd t (json_image fmt v)"
proof (induction v arbitrary: t)
  case (Num n)
  then show ?case by (cases n) (auto intro: reads_number reads_literal)
next
  case (Arr vs)
  have "list_all2 (reads_as rd) (map (\<lambda>v. or_else (json_stringify fmt v) (js ''null'')) vs)
      (map (\<lambda>v. if v = Undefined then Null else json_image fmt v) vs)"
    using Arr by (auto simp: list_all2_conv_all_nth stringify_None reads_literal or_else_def split: option.split)
  from reads_array [OF this] Arr.prems show ?case by simp
next
  case (Obj kvs)
  have "distinct (map fst kvs)" using Obj.prems by simp
  then have d: "distinct (map fst (map (\<lambda>(k, v). (k, json_image fmt v)) (filter (\<lambda>(k, v). v \<noteq> Undefined) kvs)))"
    by (simp add: comp_def case_prod_beta distinct_map_filter)
  have "reads_as rd t (json_image fmt v)" if "(k, v) \<in> set kvs" "json_stringify fmt v = Some t" for k v t
    using Obj.IH [OF that(1), of v] Obj.prems(1) that by auto
  from reads_object [OF member_texts [OF this] d] Obj.prems(2) show ?case by simp
qed (auto intro: reads_literal reads_string simp: reads_literal)

lemma json_text_roundtrip:
  "readable fmt rd v \<Longrightarrow> json_stringify fmt v = Some t \<Longrightarrow> json_text_value rd t = Some (json_image fmt v)"
  using stringify_reads [of fmt rd v t]
  by (auto simp: json_text_value_def reads_as_def skip_def dest: spec [of _ "[]"])

end
