(* ===== verification/Client_Server.thy ===== *)
theory Client_Server
  imports Url_Path Json_Reader Api_Server Schema_Properties
begin

text \<open>
  The client and the server together: what a reply of the API server becomes for the caller of a
  generated operation, what the body of a call becomes for the schema that reads it, and which
  routes of the server the generated operations reach.  Between the two stand \<open>JSON.stringify\<close>,
  \<open>JSON.parse\<close> (theory \<open>Json_Reader\<close>) and Express; how Express sends a reply is the locale \<open>express\<close>.
\<close>

section \<open>Sending replies\<close>

text \<open>
  The laws are those of \<open>res.json\<close>, which writes the JSON text of the value with its media type and
  the length of a text that is not empty, and of \<open>res.sendStatus\<close>, which writes a readable text; they
  say nothing of the body and its headers at the codes without a body, where Express drops both.
\<close>

locale express =
  fixes fmt :: json_format and send :: "reply \<Rightarrow> response"
  assumes status: "rs_status (send (Json code v)) = code" "rs_status (send (SendStatus code)) = code"
    and json_type: "code \<notin> NO_BODY_STATUS \<Longrightarrow>
      rs_headers (send (Json code v)) (js ''content-type'') = Some (js ''application/json; charset=utf-8'')"
    and json_length: "code \<notin> NO_BODY_STATUS \<Longrightarrow>
      rs_headers (send (Json code v)) (js ''content-length'') \<noteq> Some (js ''0'')"
    and json_stream: "code \<notin> NO_BODY_STATUS \<Longrightarrow> rs_stream (send (Json code v)) = SomeStream"
    and json_text: "code \<notin> NO_BODY_STATUS \<Longrightarrow> rs_text (send (Json code v)) = json_stringify fmt v"
    and status_text: "code \<notin> NO_BODY_STATUS \<Longrightarrow> rs_text (send (SendStatus code)) \<noteq> None"
begin

lemma media: "code \<notin> NO_BODY_STATUS \<Longrightarrow> getMediaType (rs_headers (send (Json code v))) = Some (js ''application/json'')"
  by (simp add: getMediaType_def json_type) (simp add: js_def unit_of_def before_sep_def trim_def trimStart_def
      is_white_def lower_latin1_def)

lemma has_body: "meth \<noteq> js ''HEAD'' \<Longrightarrow> code \<notin> NO_BODY_STATUS \<Longrightarrow> \<not> hasNoBody (send (Json code v)) meth"
  by (simp add: hasNoBody_def status json_length json_stream)

end

text \<open>An instance: the headers that Express writes, the length left out, and nothing at the codes without a body.\<close>

definition sent_with :: "nat \<Rightarrow> string \<Rightarrow> jsstr option \<Rightarrow> response" where
  "sent_with code ty body =
     (if code \<in> NO_BODY_STATUS then
        \<lparr>rs_status = code, rs_statusText = [], rs_headers = Map.empty, rs_stream = NullStream,
         rs_text = Some [], rs_blob = True, rs_url = []\<rparr>
      else
        \<lparr>rs_status = code, rs_statusText = [], rs_headers = [js ''content-type'' \<mapsto> js ty],
         rs_stream = SomeStream, rs_text = body, rs_blob = True, rs_url = []\<rparr>)"

definition plain_send :: "json_format \<Rightarrow> reply \<Rightarrow> response" where
  "plain_send fmt r =
     (case r of
        Json code v \<Rightarrow> sent_with code ''application/json; charset=utf-8'' (json_stringify fmt v)
      | SendStatus code \<Rightarrow> sent_with code ''text/plain; charset=utf-8'' (Some (show_int (int code))))"

interpretation plain_express: express fmt "plain_send fmt" for fmt
  by unfold_locales (simp_all add: plain_send_def sent_with_def)

section \<open>The outcome of a reply\<close>

lemma number_char_ascii: "number_char c \<Longrightarrow> 32 < c \<and> c < 128"
  by (auto simp: number_char_def word_le_nat_alt word_less_nat_alt)

lemma stringify_head:
  assumes "readable fmt rd v" and "json_stringify fmt v = Some t"
  shows "t \<noteq> [] \<and> 32 < hd t \<and> hd t < 128"
proof (cases v)
  case (Num n)
  then show ?thesis
  proof (cases n)
    case (Fin q)
    then have "t \<noteq> []" "number_char (hd t)"
      using assms Num by (auto simp: number_readable_def neq_Nil_conv)
    then show ?thesis by (simp add: number_char_ascii)
  qed (use assms(2) in \<open>auto simp: js_def unit_of_def\<close>)
qed (use assms(2) in \<open>auto simp: js_def unit_of_def json_quote_def split: if_splits\<close>)

lemma ascii_not_white: "32 < c \<Longrightarrow> c < 128 \<Longrightarrow> \<not> is_white c \<and> c \<noteq> byte_order_mark" for c :: jschar
  by (auto simp: is_white_def byte_order_mark_def word_less_nat_alt word_le_nat_alt)

lemma trim_text: "t \<noteq> [] \<Longrightarrow> \<not> is_white (hd t) \<Longrightarrow> trim t \<noteq> []"
  by (cases t) (auto simp: trim_def trimStart_def dropWhile_eq_Nil_conv)

text \<open>The text of a value passes the checks that precede \<open>JSON.parse\<close>.\<close>

lemma stringify_passes:
  assumes "readable fmt rd v" and "json_stringify fmt v = Some t"
  shows "stripBom t = t \<and> trim t \<noteq> []"
proof -
  have *: "t \<noteq> []" "\<not> is_white (hd t)" "hd t \<noteq> byte_order_mark"
    using stringify_head [OF assms] ascii_not_white [of "hd t"] by auto
  from trim_text [OF *(1,2)] *(3) show ?thesis by (cases t) (simp_all add: stripBom_def)
qed

definition json_outcome :: "(reply \<Rightarrow> response) \<Rightarrow> jsstr \<Rightarrow> jsstr \<Rightarrow> nat \<Rightarrow> jsval \<Rightarrow> jsval \<Rightarrow> fetch_error + payload" where
  "json_outcome send meth url code v w =
     (if 200 \<le> code \<and> code \<le> 299 then Inr (Value w)
      else Inl (new_ApiError (send (Json code v)) (Value w) meth url))"

context express
begin

lemma settled:
  assumes "json_parse rt = json_text_value rd" and "readable fmt rd v" and "v \<noteq> Undefined"
    and "meth \<noteq> js ''HEAD''" and "code \<notin> NO_BODY_STATUS"
  shows "settle rt AutoType meth url (send (Json code v)) = json_outcome send meth url code v (json_image fmt v)"
proof -
  obtain t where t: "json_stringify fmt v = Some t" using assms(3) stringify_None [of fmt v] by auto
  note passes = stringify_passes [OF assms(2) t]
  have p: "json_parse rt t = Some (json_image fmt v)"
    using assms(1) json_text_roundtrip [OF assms(2) t] by simp
  show ?thesis
    using passes p has_body [OF assms(4,5)]
    by (simp add: settle_def json_outcome_def response_ok_def status parseErrorBody_def parseSuccessBody_def
        inferResponseType_def parseJsonBody_def media [OF assms(5)] isJsonMediaType_def json_text [OF assms(5)] t)
qed

end

section \<open>Replies\<close>

text \<open>Whatever value the server replies with, its caller receives: the value as JSON can write it on a success,
  and otherwise an error with the status and that value.\<close>

theorem client_receives_reply:
  assumes "express fmt send" and "json_parse rt = json_text_value rd"
    and "\<And>m. m \<in> {''GET'', ''POST'', ''PUT'', ''PATCH''} \<Longrightarrow> to_upper rt (js m) = js m"
    and "auth_getter cfg \<noteq> Some ThrowsToken" and "o_body options = None" and "o_responseType options = None"
    and "readable fmt rd v" and "v \<noteq> Undefined" and "code \<notin> NO_BODY_STATUS"
    and "fetch rt = (\<lambda>call. Some (send (Json code v)))"
  shows "snd (perform rt cfg (operation_request fmt op data options)) =
    (if 200 \<le> code \<and> code \<le> 299 then Inr (Value (json_image fmt v))
     else Inl (new_ApiError (send (Json code v)) (Value (json_image fmt v)) (js (operation_method op))
       (or_else (base_url cfg) [] @ operation_url op)))"
proof -
  have "js (operation_method op) \<noteq> js ''HEAD''" using operation_method_cases [of op] by auto
  from express.settled [OF assms(1,2,7,8) this assms(9)] operation_performs [OF assms(3-5), where op = op and fmt = fmt and data = data]
  show ?thesis using assms(6,10) by (auto simp: json_outcome_def)
qed

section \<open>Bodies on the way to the server\<close>

text \<open>Numbers that JSON can write, and types of which no element of an array may be undefined.\<close>

fun finite_numbers :: "jsval \<Rightarrow> bool" where
  "finite_numbers (Num n) = (case n of Fin _ \<Rightarrow> True | _ \<Rightarrow> False)"
| "finite_numbers (Arr vs) = list_all finite_numbers vs"
| "finite_numbers (Obj kvs) = list_all (\<lambda>kv. finite_numbers (snd kv)) kvs"
| "finite_numbers _ = True"

fun sendable :: "ts \<Rightarrow> bool" and sendable_fields :: "(jsstr \<times> bool \<times> ts) list \<Rightarrow> bool" where
  "sendable (TArray t) = (sendable t \<and> (has_type t Undefined \<longrightarrow> has_type t Null))"
| "sendable (TRecord t) = sendable t"
| "sendable (TUnion t u) = (sendable t \<and> sendable u)"
| "sendable (TObject _ fs) = sendable_fields fs"
| "sendable _ = True"
| "sendable_fields [] = True"
| "sendable_fields ((k, opt, t) # fs) = (sendable t \<and> sendable_fields fs)"

lemma field_image:
  "distinct (map fst kvs) \<Longrightarrow> field (json_image fmt (Obj kvs)) k =
     (if field (Obj kvs) k = Undefined then Undefined else json_image fmt (field (Obj kvs) k))"
proof (induction kvs)
  case (Cons kv kvs)
  obtain k' v where kv: "kv = (k', v)" by (cases kv)
  have "map_of (map (\<lambda>(k, v). (k, json_image fmt v)) (filter (\<lambda>(k, v). v \<noteq> Undefined) kvs)) k' = None"
    using Cons.prems by (force simp: kv map_of_eq_None_iff)
  then show ?case using Cons by (auto simp: kv split: option.split)
qed simp

lemma image_typed:
  "has_type t v \<Longrightarrow> sendable t \<Longrightarrow> finite_numbers v \<Longrightarrow> readable fmt rd v \<Longrightarrow> v \<noteq> Undefined \<Longrightarrow>
     has_type t (json_image fmt v)"
  "has_fields fs (Obj kvs) \<Longrightarrow> sendable_fields fs \<Longrightarrow> finite_numbers (Obj kvs) \<Longrightarrow> readable fmt rd (Obj kvs) \<Longrightarrow>
     has_fields fs (json_image fmt (Obj kvs))"
proof (induction t v and fs "Obj kvs" arbitrary: and kvs rule: has_type_has_fields.induct)
  case (2 v)
  then show ?case by (auto split: jsval.splits jsnum.splits)
next
  case (8 t v)
  then show ?case by (auto simp: list_all_iff split: jsval.splits)
next
  case (9 t v)
  then show ?case by (fastforce simp: list_all_iff split: jsval.splits)
next
  case (11 b fs v)
  then show ?case by (cases v) auto
next
  case (13 k opt t fs)
  let ?v = "field (Obj kvs) k"
  have "finite_numbers ?v" "readable fmt rd ?v"
    using 13 by (auto simp: list_all_iff dest!: map_of_SomeD split: option.split)
  with 13 show ?case by (auto simp: field_image simp del: field.simps json_image.simps)
qed (auto split: jsval.splits)

lemma body_types_sendable: "body_type op = Some t \<Longrightarrow> sendable t"
  by (cases op) (auto simp: type_defs)

lemma image_nan_free: "nan_free (json_image fmt v)"
  by (induction v) (auto simp: list_all_iff split: jsnum.split)

text \<open>Values that JSON keeps as they are: no dates, and no undefined members or elements.\<close>

fun json_data :: "jsval \<Rightarrow> bool" where
  "json_data (Num n) = (case n of Fin _ \<Rightarrow> True | _ \<Rightarrow> False)"
| "json_data (Arr vs) = list_all json_data vs"
| "json_data (Obj kvs) = list_all (\<lambda>kv. json_data (snd kv)) kvs"
| "json_data (Date _) = False"
| "json_data Undefined = False"
| "json_data _ = True"

lemma image_of_data: "json_data v \<Longrightarrow> json_image fmt v = v"
proof (induction v)
  case (Arr vs)
  then have "map (\<lambda>v. if v = Undefined then Null else json_image fmt v) vs = map (\<lambda>v. v) vs"
    by (intro map_cong) (auto simp: list_all_iff)
  then show ?case by simp
next
  case (Obj kvs)
  have "map (\<lambda>(k, v). (k, json_image fmt v)) (filter (\<lambda>(k, v). v \<noteq> Undefined) kvs) = kvs"
  proof -
    have m: "json_image fmt w = w \<and> w \<noteq> Undefined" if "(k, w) \<in> set kvs" for k w
    proof -
      have "json_data w" using Obj.prems that by (auto simp: list_all_iff)
      with Obj.IH [OF that] show ?thesis by (cases "w = Undefined") simp_all
    qed
    then have "filter (\<lambda>(k, v). v \<noteq> Undefined) kvs = kvs" by (intro filter_True) auto
    moreover have "map (\<lambda>(k, v). (k, json_image fmt v)) kvs = kvs" using m by (intro map_idI) auto
    ultimately show ?thesis by simp
  qed
  then show ?case by simp
qed (auto split: jsnum.splits)

lemma operation_body: "body_type op = Some t \<Longrightarrow> o_body (snd (operation_request fmt op v options)) = json_body fmt v"
  by (cases op) (simp_all add: operation_defs api_send_def)

text \<open>C21: A body of the type that the client asks for, with finite numbers, reaches the server: the call that the
  operation makes carries a text that \<open>JSON.parse\<close> reads as the value that was given, dates being texts
  and undefined members left out, so that data without those is read as the very same value; and what is
  read has the type and is accepted by the schema of the operation.\<close>

theorem bodies_survive_transport:
  assumes "zod_library safe_parse" and "body_type op = Some t"
    and "has_type t v" and "finite_numbers v" and "readable fmt rd v" and "v \<noteq> Undefined"
    and "\<And>m. m \<in> {''GET'', ''POST'', ''PUT'', ''PATCH''} \<Longrightarrow> to_upper rt (js m) = js m"
    and "auth_getter cfg \<noteq> Some ThrowsToken" and "o_body options = None"
  shows "\<exists>z call r s. request_schema op = Some z \<and>
    perform rt cfg (operation_request fmt op v options) = (Some call, r) \<and>
    call_body call = Some (TextBody s) \<and> json_text_value rd s = Some (json_image fmt v) \<and>
    (json_data v \<longrightarrow> json_image fmt v = v) \<and>
    has_type t (json_image fmt v) \<and> safe_parse z (json_image fmt v) \<noteq> None"
proof -
  obtain s where s: "json_stringify fmt v = Some s" using assms(6) stringify_None [of fmt v] by auto
  have w: "has_type t (json_image fmt v)"
    using image_typed(1) [OF assms(3) body_types_sendable [OF assms(2)] assms(4-6)] .
  obtain z where z: "request_schema op = Some z"
    using typed_bodies_accepted [OF assms(1), of op v] assms(2) by auto
  with w assms(2) have "safe_parse z (json_image fmt v) \<noteq> None"
    using typed_bodies_accepted [OF assms(1), of op "json_image fmt v"] image_nan_free by blast
  moreover obtain call r where c: "perform rt cfg (operation_request fmt op v options) = (Some call, r)"
    using operation_performs [OF assms(7-9), where op = op and fmt = fmt and data = v] by blast
  then have "call_body call = Some (TextBody s)"
    using operation_body [OF assms(2), of fmt v options] s
    by (auto simp: perform_def json_body_def elim!: customFetch_call)
  ultimately show ?thesis
    using w z c json_text_roundtrip [OF assms(5) s] image_of_data [of v fmt] by blast
qed

section \<open>Routes\<close>

definition method_of :: "jsstr \<Rightarrow> http_method" where
  "method_of m =
     (if m = js ''GET'' \<or> m = js ''HEAD'' then GET else if m = js ''POST'' then POST
      else if m = js ''PATCH'' then PATCH else if m = js ''DELETE'' then DELETE
      else if m = js ''OPTIONS'' then OPTIONS else OtherMethod)"

text \<open>A call as a request of the server at an origin, when its URL is one of that origin; \<open>query\<close> and \<open>body\<close>
  are what the parsers of Express make of it.  And the answer to a call: the reply that the handlers of \<open>app.ts\<close>
  send, or the answer to an error they throw.\<close>

definition arriving :: "jsstr \<Rightarrow> (fetch_call \<Rightarrow> jsval) \<Rightarrow> (fetch_call \<Rightarrow> parsed_body) \<Rightarrow> fetch_call \<Rightarrow> request option" where
  "arriving origin query body call =
     (case call_input call of
        TextInput u \<Rightarrow>
          if startsWith u origin then
            map_option (\<lambda>path. \<lparr>r_method = method_of (call_method call), r_path = path,
                r_query = query call, r_body = body call\<rparr>)
              (request_segments (drop (length origin) u))
          else None
      | _ \<Rightarrow> None)"

definition answer :: "(reply \<Rightarrow> response) \<Rightarrow> response \<Rightarrow> reply result \<Rightarrow> response" where
  "answer send failed x = (case x of Done reply \<Rightarrow> send reply | Raised _ \<Rightarrow> failed)"

definition served ::
    "'s db_service \<Rightarrow> api_env \<Rightarrow> (reply \<Rightarrow> response) \<Rightarrow> response \<Rightarrow> (fetch_call \<Rightarrow> request option) \<Rightarrow> 's \<Rightarrow>
     fetch_call \<Rightarrow> response option" where
  "served db env send failed arrive s call =
     map_option (\<lambda>req. answer send failed (fst (run db (app env req) s))) (arrive call)"

lemma foreign_segments:
  "s \<in> {js ''v1'', js ''health''} \<Longrightarrow> lit \<in> {''api'', ''healthz'', ''dashboard'', ''parcels'', ''evidence''} \<Longrightarrow>
   \<not> segment lit s"
  by (auto simp: segment_def js_def unit_of_def ascii_lower_def)

lemma operation_root: "\<exists>s path. operation_segments op = s # path \<and> s \<in> {js ''v1'', js ''health''}"
  by (cases op) simp_all

lemma no_route: "s \<in> {js ''v1'', js ''health''} \<Longrightarrow> router env m query body (s # path) = None"
  using foreign_segments [of s]
  by (simp add: router_def health_router_def dashboard_router_def parcels_router_def evidence_router_def
      split: list.split)

lemma operation_unrouted:
  assumes "base = [] \<or> base = [js ''api'']" and "r_method req \<noteq> OPTIONS" and "r_body req = Body body"
    and "r_path req = base @ operation_segments op"
  shows "app env req = Return (SendStatus 404)"
proof -
  have api: "segment ''api'' (js ''api'')" by (simp add: segment_def)
  obtain s path where s: "operation_segments op = s # path" "s \<in> {js ''v1'', js ''health''}"
    using operation_root by blast
  with assms api no_route [OF s(2)] foreign_segments [OF s(2), of "''api''"] show ?thesis
    by (auto simp: app_def)
qed

lemma readable_error: "rs_text rs \<noteq> None \<Longrightarrow> \<exists>d. parseErrorBody rt rs meth = Inr d"
  by (auto simp: parseErrorBody_def read_text_def Let_def split: option.split)

lemma base_segments:
  assumes "base = [] \<or> base = [js ''api'']" and "safe_param op"
  shows "request_segments (path_of_segments base @ operation_url op) = Some (base @ operation_segments op)"
proof -
  have "plain_segment (js ''api'')" by (rule literal_plain) (simp add: literal_def literal_letters_def)
  then have "\<forall>s \<in> set (base @ operation_segments op). plain_segment s"
    using assms(1) operation_segments_plain [OF assms(2)] by auto
  moreover have "path_of_segments base @ operation_url op = path_of_segments (base @ operation_segments op)"
    by (simp add: operation_url_segments path_of_segments_def)
  ultimately show ?thesis by (simp add: request_segments_plain)
qed


section \<open>Witnesses\<close>

text \<open>A runtime that answers every call with one reply of the server.\<close>

definition server_runtime :: "(jsstr \<Rightarrow> rat option) \<Rightarrow> reply \<Rightarrow> runtime" where
  "server_runtime rd reply =
     (echo_runtime (Some (plain_send demo_format reply)))\<lparr>json_parse := json_text_value rd\<rparr>"

lemma server_runtime_simps [simp]:
  "json_parse (server_runtime rd reply) = json_text_value rd" "to_upper (server_runtime rd reply) s = s"
  "fetch (server_runtime rd reply) = (\<lambda>call. Some (plain_send demo_format reply))"
  by (simp_all add: server_runtime_def fun_eq_iff)

definition page_value :: jsval where
  "page_value = Obj [(js ''items'', Arr [Null, Undefined, Bool True]), (js ''next'', Undefined)]"

lemma client_receives_reply_witness:
  "snd (perform (server_runtime (\<lambda>_. None) (Json 200 page_value)) token_config
     (operation_request demo_format OpListParcels Null no_options)) =
   Inr (Value (Obj [(js ''items'', Arr [Null, Null, Bool True])]))"
  using client_receives_reply [OF plain_express.express_axioms [of demo_format], where rd = "\<lambda>_. None"
      and rt = "server_runtime (\<lambda>_. None) (Json 200 page_value)" and v = page_value and code = 200
      and cfg = token_config and options = no_options and op = OpListParcels and data = Null]
  by (simp add: token_config_def no_options_def page_value_def NO_BODY_STATUS_def)

lemma bodies_survive_transport_witness:
  "\<exists>call r s. perform (echo_runtime None) token_config (operation_request demo_format OpLogin
       (Obj [(js ''email'', Str (js ''a@b'')), (js ''password'', Str (js ''x''))]) no_options) = (Some call, r) \<and>
     call_body call = Some (TextBody s) \<and>
     json_text_value (\<lambda>_. None) s = Some (Obj [(js ''email'', Str (js ''a@b'')), (js ''password'', Str (js ''x''))])"
  using bodies_survive_transport [OF parser.zod_library_axioms [of "\<lambda>_. []"], where op = OpLogin
      and v = "Obj [(js ''email'', Str (js ''a@b'')), (js ''password'', Str (js ''x''))]" and fmt = demo_format
      and rd = "\<lambda>_. None" and rt = "echo_runtime None" and cfg = token_config and options = no_options]
  by (auto simp: LoginRequest_type_def token_config_def no_options_def)

text \<open>A server over the demonstration tables, at the origin \<open>https://api\<close>.\<close>

definition demo_server :: runtime where
  "demo_server = (echo_runtime None)
     \<lparr>fetch := served ref_db ref_env (plain_send demo_format) (plain_send demo_format (SendStatus 500))
        (arriving (js ''https://api'') (\<lambda>_. Null) (\<lambda>_. Body Null)) demo_tables\<rparr>"


end
