(* ===== verification/Ui_Element.thy ===== *)
theory Ui_Element
  imports Prelude
begin

text \<open>
  React elements as data: what a component of \<open>components/ui\<close> returns for its properties.  An
  element has a type (a tag of HTML, an export of another package, a component of the repository
  or the provider of a context) and the properties that \<open>createElement\<close> receives, its children
  among them.  The class-name libraries, contexts, hooks and other calls that leave the file are
  the argument \<open>ui_env\<close>.
\<close>

section \<open>Values and elements\<close>

datatype utype = Host string | Lib string string | Own string | Provider string

text \<open>\<open>Closure\<close> is a function written in the component, by its place and the values it closes over;
  \<open>Opaque\<close> is a function or object of the caller, by its identity.\<close>

datatype uval =
    Absent
  | NullV
  | BoolV bool
  | NumV rat
  | StrV string
  | ListV "uval list"
  | ObjV "(string \<times> uval) list"
  | ElemV utype "(string \<times> uval) list"
  | KindV utype
  | Closure string "uval list"
  | Opaque nat

type_synonym props = "(string \<times> uval) list"

text \<open>The configuration of \<open>cva\<close>: base classes, the options of each variant, and the defaults.\<close>

record variants =
  cva_base :: string
  cva_options :: "(string \<times> (string \<times> string) list) list"
  cva_defaults :: "(string \<times> string) list"

record ui_env =
  clsx :: "uval list \<Rightarrow> string"
  twMerge :: "string \<Rightarrow> string"
  cva_text :: "variants \<Rightarrow> props \<Rightarrow> string"
  context_value :: "string \<Rightarrow> uval"
  foreign :: "string \<Rightarrow> uval list \<Rightarrow> uval"
  number_string :: "rat \<Rightarrow> string"

type_synonym component = "ui_env \<Rightarrow> props \<Rightarrow> uval"

section \<open>Properties\<close>

definition arg :: "props \<Rightarrow> string \<Rightarrow> uval" where
  "arg p k = (case map_of p k of Some v \<Rightarrow> v | None \<Rightarrow> Absent)"

definition rest :: "string list \<Rightarrow> props \<Rightarrow> props" where
  "rest ks p = filter (\<lambda>kv. fst kv \<notin> set ks) p"

text \<open>A default in a destructuring pattern stands for \<open>undefined\<close> only.\<close>

definition default_to :: "uval \<Rightarrow> uval \<Rightarrow> uval" where
  "default_to d v = (if v = Absent then d else v)"

datatype part = At string uval | Spread props

definition add_part :: "part \<Rightarrow> props \<Rightarrow> props" where
  "add_part x acc = (case x of At k v \<Rightarrow> put_key acc k v | Spread q \<Rightarrow> spread acc q)"

text \<open>The properties of a JSX element or an object literal: a later part replaces an earlier one.\<close>

definition attributes :: "part list \<Rightarrow> props" where
  "attributes parts = fold add_part parts []"

definition with_children :: "uval list \<Rightarrow> props \<Rightarrow> props" where
  "with_children kids p =
     (case kids of [] \<Rightarrow> p | [k] \<Rightarrow> put_key p ''children'' k | _ \<Rightarrow> put_key p ''children'' (ListV kids))"

definition jsx :: "utype \<Rightarrow> part list \<Rightarrow> uval list \<Rightarrow> uval" where
  "jsx t parts kids = ElemV t (with_children kids (attributes parts))"

section \<open>Operators\<close>

fun truthy_ui :: "uval \<Rightarrow> bool" where
  "truthy_ui Absent = False"
| "truthy_ui NullV = False"
| "truthy_ui (BoolV b) = b"
| "truthy_ui (NumV q) = (q \<noteq> 0)"
| "truthy_ui (StrV s) = (s \<noteq> [])"
| "truthy_ui _ = True"

definition and_also :: "uval \<Rightarrow> uval \<Rightarrow> uval" where
  "and_also a b = (if truthy_ui a then b else a)"

definition or_try :: "uval \<Rightarrow> uval \<Rightarrow> uval" where
  "or_try a b = (if truthy_ui a then a else b)"

definition or_given :: "uval \<Rightarrow> uval \<Rightarrow> uval" where
  "or_given a b = (if a = Absent \<or> a = NullV then b else a)"

fun entries :: "uval \<Rightarrow> props" where
  "entries (ObjV p) = p"
| "entries _ = []"

fun elements :: "uval \<Rightarrow> uval list" where
  "elements (ListV vs) = vs"
| "elements _ = []"

text \<open>A member of a value without members is \<open>undefined\<close>, as with \<open>?.\<close>.\<close>

definition member_of :: "uval \<Rightarrow> string \<Rightarrow> uval" where
  "member_of v k = arg (entries v) k"

fun num_of :: "uval \<Rightarrow> rat" where
  "num_of (NumV q) = q"
| "num_of _ = 0"

definition element_at :: "uval \<Rightarrow> uval \<Rightarrow> uval" where
  "element_at v i =
     (case (v, i) of
        (ListV vs, NumV q) \<Rightarrow>
          if 0 \<le> q \<and> q = of_int \<lfloor>q\<rfloor> \<and> nat \<lfloor>q\<rfloor> < length vs then vs ! nat \<lfloor>q\<rfloor> else Absent
      | (ObjV p, StrV k) \<Rightarrow> arg p k
      | _ \<Rightarrow> Absent)"

definition minus_ui :: "uval \<Rightarrow> uval \<Rightarrow> uval" where
  "minus_ui a b = NumV (num_of a - num_of b)"

definition times_ui :: "uval \<Rightarrow> uval \<Rightarrow> uval" where
  "times_ui a b = NumV (num_of a * num_of b)"

fun type_of :: "uval \<Rightarrow> string" where
  "type_of Absent = ''undefined''"
| "type_of (BoolV _) = ''boolean''"
| "type_of (NumV _) = ''number''"
| "type_of (StrV _) = ''string''"
| "type_of (KindV _) = ''function''"
| "type_of (Closure _ _) = ''function''"
| "type_of _ = ''object''"

text \<open>The text of a value in a template.\<close>

fun text_of :: "ui_env \<Rightarrow> uval \<Rightarrow> string" where
  "text_of L (StrV s) = s"
| "text_of L (NumV q) = number_string L q"
| "text_of L (BoolV b) = (if b then ''true'' else ''false'')"
| "text_of L Absent = ''undefined''"
| "text_of L NullV = ''null''"
| "text_of L _ = ''[object Object]''"

definition plus :: "ui_env \<Rightarrow> uval \<Rightarrow> uval \<Rightarrow> uval" where
  "plus L a b =
     (case (a, b) of (NumV q, NumV r) \<Rightarrow> NumV (q + r) | _ \<Rightarrow> StrV (text_of L a @ text_of L b))"

section \<open>Class names\<close>

text \<open>\<open>cn\<close> of \<open>lib/utils.ts\<close>, and the call of a function that \<open>cva\<close> made.\<close>

definition cn :: "ui_env \<Rightarrow> uval list \<Rightarrow> uval" where
  "cn L inputs = StrV (twMerge L (clsx L inputs))"

definition cva :: "ui_env \<Rightarrow> variants \<Rightarrow> props \<Rightarrow> uval" where
  "cva L cfg p = StrV (cva_text L cfg p)"

end
