(* ===== verification/Ui_Laws.thy ===== *)
theory Ui_Laws
  imports Ui_Element
begin

text \<open>
  What the properties of an element are, how class lists are combined (the locale \<open>class_library\<close>,
  with an instance), and which texts an element shows.
\<close>

named_theorems element_simps \<open>properties of elements and their descendants\<close>

section \<open>Properties of an element\<close>

fun properties :: "uval \<Rightarrow> props" where
  "properties (ElemV t p) = p"
| "properties _ = []"

fun element_type :: "uval \<Rightarrow> utype option" where
  "element_type (ElemV t p) = Some t"
| "element_type _ = None"

definition child :: "uval \<Rightarrow> nat \<Rightarrow> uval" where
  "child e i =
     (case arg (properties e) ''children'' of
        ListV vs \<Rightarrow> if i < length vs then vs ! i else Absent
      | v \<Rightarrow> if i = 0 then v else Absent)"

fun descend :: "nat list \<Rightarrow> uval \<Rightarrow> uval" where
  "descend [] e = e"
| "descend (i # path) e = descend path (child e i)"

text \<open>The value of a key after all parts, the last of a list of entries counting.\<close>

definition last_of :: "props \<Rightarrow> string \<Rightarrow> uval option" where
  "last_of q k = map_of (rev q) k"

fun look :: "part list \<Rightarrow> string \<Rightarrow> uval option \<Rightarrow> uval option" where
  "look [] k d = d"
| "look (At n v # parts) k d = look parts k (if n = k then Some v else d)"
| "look (Spread q # parts) k d = look parts k (case last_of q k of None \<Rightarrow> d | Some v \<Rightarrow> Some v)"

lemma map_of_spread_last: "map_of (spread a q) k = (case last_of q k of None \<Rightarrow> map_of a k | Some v \<Rightarrow> Some v)"
proof (induction q arbitrary: a)
  case Nil
  then show ?case by (simp add: last_of_def)
next
  case (Cons kv q)
  then show ?case
    by (cases kv) (auto simp: last_of_def map_add_def split: option.split)
qed

lemma map_of_fold_parts: "map_of (fold add_part parts acc) k = look parts k (map_of acc k)"
  by (induction parts k "map_of acc k" arbitrary: acc rule: look.induct)
    (simp_all add: add_part_def map_of_spread_last fun_upd_def split: if_splits)

lemma map_of_attributes [element_simps]: "map_of (attributes parts) k = look parts k None"
  by (simp add: attributes_def map_of_fold_parts)

lemma arg_attributes [element_simps]: "arg (attributes parts) k = (case look parts k None of Some v \<Rightarrow> v | None \<Rightarrow> Absent)"
  by (simp add: arg_def map_of_attributes)

lemma map_of_with_children [element_simps]:
  "map_of (with_children kids p) k =
     (if kids \<noteq> [] \<and> k = ''children'' then Some (if tl kids = [] then hd kids else ListV kids) else map_of p k)"
  by (cases kids; cases "tl kids") (auto simp: with_children_def)

lemma properties_jsx [element_simps]: "properties (jsx t parts kids) = with_children kids (attributes parts)"
  "element_type (jsx t parts kids) = Some t"
  by (simp_all add: jsx_def)

lemma child_jsx [element_simps]:
  "tl kids \<noteq> [] \<Longrightarrow> child (jsx t parts kids) i = (if i < length kids then kids ! i else Absent)"
  "child (jsx t parts [jsx u ps ks]) 0 = jsx u ps ks"
  by (cases kids) (simp_all add: child_def arg_def element_simps jsx_def)

lemma last_of_distinct: "distinct (map fst q) \<Longrightarrow> last_of q k = map_of q k"
  using map_of_inject_set [of "rev q" q] by (simp add: last_of_def rev_map [symmetric])

lemma map_of_filter_key: "P k \<Longrightarrow> map_of (filter (\<lambda>kv. P (fst kv)) q) k = map_of q k"
  by (induction q) auto

lemma last_of_rest:
  assumes "distinct (map fst p)"
  shows "last_of (rest ks p) k = (if k \<in> set ks then None else map_of p k)"
proof -
  have "distinct (map fst (rest ks p))" using assms by (simp add: rest_def distinct_map_filter)
  moreover have "map_of (rest ks p) k = None" if "k \<in> set ks"
    using that by (auto simp: rest_def map_of_eq_None_iff)
  moreover have "map_of (rest ks p) k = map_of p k" if "k \<notin> set ks"
    using map_of_filter_key [of "\<lambda>x. x \<notin> set ks", OF that, of p] by (simp add: rest_def)
  ultimately show ?thesis by (simp add: last_of_distinct)
qed

text \<open>A caller gives a property: objects have each key once.\<close>

definition supplies :: "props \<Rightarrow> string \<Rightarrow> uval \<Rightarrow> bool" where
  "supplies p k v \<longleftrightarrow> distinct (map fst p) \<and> map_of p k = Some v"

lemma supplied:
  "supplies p k v \<Longrightarrow> arg p k = v"
  "supplies p k v \<Longrightarrow> last_of p k = Some v"
  "supplies p k v \<Longrightarrow> last_of (rest ks p) k = (if k \<in> set ks then None else Some v)"
  by (simp_all only: supplies_def arg_def last_of_rest last_of_distinct option.case)

text \<open>
  A component passes the properties of its caller on to the element at \<open>path\<close>, apart from those in
  \<open>own\<close>, which it uses itself.
\<close>

definition reaches :: "component \<Rightarrow> nat list \<Rightarrow> string list \<Rightarrow> bool" where
  "reaches C path own \<longleftrightarrow>
     (\<forall>L p k v. supplies p k v \<and> v \<noteq> Absent \<and> k \<notin> set own \<longrightarrow>
        map_of (properties (descend path (C L p))) k = Some v)"

lemma reachesI:
  "(\<And>L p k v. supplies p k v \<Longrightarrow> v \<noteq> Absent \<Longrightarrow> k \<notin> set own \<Longrightarrow>
     map_of (properties (descend path (C L p))) k = Some v) \<Longrightarrow> reaches C path own"
  by (simp add: reaches_def)

lemma supplied_key:
  "supplies p k v \<Longrightarrow> (k = n \<longrightarrow> arg p n = v) = True"
  "supplies p k v \<Longrightarrow> v \<noteq> Absent \<Longrightarrow> (k = n \<longrightarrow> default_to d (arg p n) = v) = True"
  by (auto simp: supplied default_to_def)

lemmas reach_simps = element_simps supplied supplied_key Let_def

section \<open>Class lists\<close>

fun split_words :: "string \<Rightarrow> string \<Rightarrow> string list" where
  "split_words w [] = (if w = [] then [] else [w])"
| "split_words w (c # cs) =
     (if c = CHR '' '' then (if w = [] then [] else [w]) @ split_words [] cs else split_words (w @ [c]) cs)"

definition words :: "string \<Rightarrow> string list" where
  "words s = split_words [] s"

lemma split_words_append: "split_words w (a @ CHR '' '' # b) = split_words w a @ split_words [] b"
  by (induction a arbitrary: w) simp_all

lemma words_append: "words (a @ CHR '' '' # b) = words a @ words b"
  by (simp add: words_def split_words_append)

text \<open>A class list of which the merge drops nothing: no two of its classes conflict.\<close>

definition settled :: "ui_env \<Rightarrow> string \<Rightarrow> bool" where
  "settled L c \<longleftrightarrow> words (twMerge L c) = words c"

text \<open>
  What the documentation of the libraries says: \<open>clsx\<close> and \<open>cva\<close> write the classes they are given in
  order, those of the caller at the end, and \<open>twMerge\<close> resolves conflicts for the later class.
\<close>

locale class_library =
  fixes L :: ui_env
  assumes clsx_last: "\<exists>pre. words (clsx L (xs @ [StrV c])) = pre @ words c"
    and cva_last: "arg ps ''className'' = StrV c \<Longrightarrow> \<exists>pre. words (cva_text L cfg ps) = pre @ words c"
    and merge_keeps_last: "words s = pre @ words c \<Longrightarrow> settled L c \<Longrightarrow> set (words c) \<subseteq> set (words (twMerge L s))"
begin

lemma cn_keeps:
  assumes "settled L c" and "xs \<noteq> []" and "last xs = StrV c"
  shows "set (words c) \<subseteq> set (words (twMerge L (clsx L xs)))"
proof -
  have "xs = butlast xs @ [StrV c]" using assms(2,3) by (metis append_butlast_last_id)
  then obtain pre where "words (clsx L xs) = pre @ words c" by (metis clsx_last)
  then show ?thesis using assms(1) by (rule merge_keeps_last)
qed

lemma cva_keeps:
  assumes "settled L c" and "arg ps ''className'' = StrV c"
  shows "set (words c) \<subseteq> set (words (twMerge L (clsx L [cva L cfg ps])))"
proof -
  obtain a where a: "words (cva_text L cfg ps) = a @ words c" using cva_last [OF assms(2)] by blast
  obtain b where "words (clsx L ([] @ [StrV (cva_text L cfg ps)])) = b @ words (cva_text L cfg ps)"
    using clsx_last [of "[]"] by blast
  with a have "words (clsx L [cva L cfg ps]) = (b @ a) @ words c" by (simp add: cva_def)
  then show ?thesis using assms(1) by (rule merge_keeps_last)
qed

end

text \<open>An instance in which nothing conflicts.\<close>

fun class_text :: "uval \<Rightarrow> string" where
  "class_text (StrV s) = s"
| "class_text _ = []"

definition join_classes :: "uval list \<Rightarrow> string" where
  "join_classes xs = concat (map (\<lambda>v. CHR '' '' # class_text v) xs)"

definition chosen :: "(string \<times> string) list \<Rightarrow> props \<Rightarrow> string \<Rightarrow> string option" where
  "chosen defaults p variant = (case arg p variant of StrV s \<Rightarrow> Some s | _ \<Rightarrow> map_of defaults variant)"

definition option_classes :: "variants \<Rightarrow> props \<Rightarrow> uval list" where
  "option_classes cfg p =
     map (\<lambda>(variant, options).
       case Option.bind (chosen (cva_defaults cfg) p variant) (map_of options) of
         None \<Rightarrow> Absent
       | Some c \<Rightarrow> StrV c) (cva_options cfg)"

definition joining_env :: ui_env where
  "joining_env =
     \<lparr>clsx = join_classes, twMerge = (\<lambda>s. s),
      cva_text = (\<lambda>cfg p. join_classes (StrV (cva_base cfg) # option_classes cfg p @ [arg p ''class'', arg p ''className''])),
      context_value = (\<lambda>_. Absent), foreign = (\<lambda>_ _. Absent), number_string = (\<lambda>_. [])\<rparr>"

lemma words_join_last: "\<exists>pre. words (join_classes (xs @ [StrV c])) = pre @ words c"
  using words_append [of "join_classes xs" c] by (simp add: join_classes_def)

interpretation joining: class_library joining_env
proof
  show "\<exists>pre. words (clsx joining_env (xs @ [StrV c])) = pre @ words c" for xs c
    by (simp add: joining_env_def words_join_last)
next
  show "\<exists>pre. words (cva_text joining_env cfg ps) = pre @ words c" if "arg ps ''className'' = StrV c" for ps c cfg
    using that words_join_last [of "StrV (cva_base cfg) # option_classes cfg ps @ [arg ps ''class'']" c]
    by (simp add: joining_env_def)
qed (simp add: joining_env_def)

definition keeps_classes :: "ui_env \<Rightarrow> component \<Rightarrow> nat list \<Rightarrow> bool" where
  "keeps_classes L C path \<longleftrightarrow>
     (\<forall>p c. supplies p ''className'' (StrV c) \<and> settled L c \<longrightarrow>
        (\<exists>s. map_of (properties (descend path (C L p))) ''className'' = Some (StrV s) \<and> set (words c) \<subseteq> set (words s)))"

lemma keepsI:
  "(\<And>p c. supplies p ''className'' (StrV c) \<Longrightarrow> settled L c \<Longrightarrow>
     \<exists>s. map_of (properties (descend path (C L p))) ''className'' = Some (StrV s) \<and> set (words c) \<subseteq> set (words s))
   \<Longrightarrow> keeps_classes L C path"
  by (simp add: keeps_classes_def)

section \<open>Names\<close>

text \<open>The texts that a screen reader finds in an element: \<open>aria-hidden\<close> hides its whole content.\<close>

definition hidden_element :: "props \<Rightarrow> bool" where
  "hidden_element p \<longleftrightarrow> arg p ''aria-hidden'' = BoolV True \<or> arg p ''aria-hidden'' = StrV ''true''"

lemma size_map_of: "map_of p k = Some v \<Longrightarrow> size v < Suc (size_list (size_prod (\<lambda>_. 0) size) p)"
  by (induction p) (auto split: if_splits)

function read_texts :: "uval \<Rightarrow> string list" where
  "read_texts (StrV s) = [s]"
| "read_texts (ListV vs) = concat (map read_texts vs)"
| "read_texts (ElemV t p) =
     (if hidden_element p then [] else case map_of p ''children'' of None \<Rightarrow> [] | Some v \<Rightarrow> read_texts v)"
| "read_texts Absent = []"
| "read_texts NullV = []"
| "read_texts (BoolV b) = []"
| "read_texts (NumV q) = []"
| "read_texts (ObjV p) = []"
| "read_texts (KindV t) = []"
| "read_texts (Closure n vs) = []"
| "read_texts (Opaque n) = []"
  by pat_completeness auto
termination
  by (relation "measure size") (auto dest: size_map_of simp: less_Suc_eq_le intro: size_list_estimation')

text \<open>An element has a name if it is labelled or a text in it is read.\<close>

definition has_name :: "uval \<Rightarrow> bool" where
  "has_name e \<longleftrightarrow> (\<exists>s. map_of (properties e) ''aria-label'' = Some (StrV s) \<and> s \<noteq> []) \<or> (\<exists>s \<in> set (read_texts e). s \<noteq> [])"

lemma read_texts_jsx [element_simps]:
  "read_texts (jsx t parts kids) =
     (let p = with_children kids (attributes parts) in
      if hidden_element p then [] else case map_of p ''children'' of None \<Rightarrow> [] | Some v \<Rightarrow> read_texts v)"
  by (simp add: jsx_def)

lemma hidden_with_children [element_simps]:
  "hidden_element (with_children kids (attributes parts)) \<longleftrightarrow>
     look parts ''aria-hidden'' None = Some (BoolV True) \<or> look parts ''aria-hidden'' None = Some (StrV ''true'')"
  by (auto simp: hidden_element_def arg_def map_of_with_children map_of_attributes split: option.splits)

text \<open>A caller does not give a property.\<close>

definition lacks :: "props \<Rightarrow> string \<Rightarrow> bool" where
  "lacks p k \<longleftrightarrow> map_of p k = None"

lemma lacking:
  assumes "lacks p k"
  shows "arg p k = Absent" "last_of p k = None" "last_of (rest ks p) k = None"
proof -
  have none: "k \<notin> fst ` set p" using assms by (simp add: lacks_def map_of_eq_None_iff)
  then have "k \<notin> fst ` set (rest ks p)" by (auto simp: rest_def)
  with none show "last_of p k = None" "last_of (rest ks p) k = None" by (simp_all add: last_of_def map_of_eq_None_iff)
  show "arg p k = Absent" using assms by (simp add: lacks_def arg_def)
qed

end
