(* ===== verification/Ui_Controls_Laws.thy ===== *)
theory Ui_Controls_Laws
  imports Ui_Controls Ui_Laws
begin

text \<open>
  How the components of the theory \<open>Ui_Controls\<close> treat the properties and the classes of their
  callers: the element that receives them, by its place, and the properties a component keeps
  to itself.
\<close>

definition controls_wrappers :: "(component \<times> nat list \<times> string list) list" where
  "controls_wrappers = [
     (Button, [], [''className'', ''variant'', ''size'', ''asChild'']),
     (Input, [], [''className'']), (Label, [], [''className'']), (Textarea, [], [''className'']),
     (Checkbox, [], [''className'', ''children'']), (Switch, [], [''className'', ''children'']),
     (Slider, [], [''className'', ''children'']), (RadioGroup, [], [''className'']),
     (RadioGroupItem, [], [''className'', ''children'']),
     (Toggle, [], [''className'', ''variant'', ''size'']),
     (ToggleGroup, [], [''className'', ''variant'', ''size'', ''children'']),
     (ToggleGroupItem, [], [''className'', ''children'', ''variant'', ''size'']),
     (InputOTP, [], [''className'', ''containerClassName'']), (InputOTPGroup, [], [''className'']),
     (InputOTPSlot, [], [''index'', ''className'', ''children'']),
     (InputOTPSeparator, [], [''children'']),
     (Progress, [], [''className'', ''value'', ''children'']), (Separator, [], [''className'']),
     (Skeleton, [], [''className'']), (Spinner, [], [''className'']),
     (Badge, [], [''className'', ''variant'']), (Avatar, [], [''className'']),
     (AvatarImage, [], [''className'']), (AvatarFallback, [], [''className'']),
     (Kbd, [], [''className'']), (KbdGroup, [], [''className'']),
     (ScrollArea, [], [''className'', ''children'']),
     (ScrollBar, [], [''className'', ''children'']), (ResizablePanelGroup, [], [''className'']),
     (ResizableHandle, [], [''withHandle'', ''className'', ''children''])]"

lemma controls_reach:
  "reaches Button [] [''className'', ''variant'', ''size'', ''asChild'']"
  "reaches Input [] [''className'']"
  "reaches Label [] [''className'']"
  "reaches Textarea [] [''className'']"
  "reaches Checkbox [] [''className'', ''children'']"
  "reaches Switch [] [''className'', ''children'']"
  "reaches Slider [] [''className'', ''children'']"
  "reaches RadioGroup [] [''className'']"
  "reaches RadioGroupItem [] [''className'', ''children'']"
  "reaches Toggle [] [''className'', ''variant'', ''size'']"
  "reaches ToggleGroup [] [''className'', ''variant'', ''size'', ''children'']"
  "reaches ToggleGroupItem [] [''className'', ''children'', ''variant'', ''size'']"
  "reaches InputOTP [] [''className'', ''containerClassName'']"
  "reaches InputOTPGroup [] [''className'']"
  "reaches InputOTPSlot [] [''index'', ''className'', ''children'']"
  "reaches InputOTPSeparator [] [''children'']"
  "reaches Progress [] [''className'', ''value'', ''children'']"
  "reaches Separator [] [''className'']"
  "reaches Skeleton [] [''className'']"
  "reaches Spinner [] [''className'']"
  "reaches Badge [] [''className'', ''variant'']"
  "reaches Avatar [] [''className'']"
  "reaches AvatarImage [] [''className'']"
  "reaches AvatarFallback [] [''className'']"
  "reaches Kbd [] [''className'']"
  "reaches KbdGroup [] [''className'']"
  "reaches ScrollArea [] [''className'', ''children'']"
  "reaches ScrollBar [] [''className'', ''children'']"
  "reaches ResizablePanelGroup [] [''className'']"
  "reaches ResizableHandle [] [''withHandle'', ''className'', ''children'']"
  by (rule reachesI, simp add: reach_simps
     Button_def Input_def Label_def Textarea_def Checkbox_def Switch_def Slider_def RadioGroup_def
     RadioGroupItem_def Toggle_def ToggleGroup_def ToggleGroupItem_def InputOTP_def InputOTPGroup_def
     InputOTPSlot_def InputOTPSeparator_def Progress_def Separator_def Skeleton_def Spinner_def
     Badge_def Avatar_def AvatarImage_def AvatarFallback_def Kbd_def KbdGroup_def ScrollArea_def
     ScrollBar_def ResizablePanelGroup_def ResizableHandle_def)+

lemma controls_wrappers_reach: "list_all (\<lambda>(C, path, own). reaches C path own) controls_wrappers"
  by (simp only: controls_wrappers_def list.pred_inject prod.case controls_reach simp_thms)

definition controls_styled :: "(component \<times> nat list) list" where
  "controls_styled = [
     (Button, []), (Input, []), (Label, []), (Textarea, []), (Checkbox, []), (Switch, []),
     (Slider, []), (RadioGroup, []), (RadioGroupItem, []), (Toggle, []), (ToggleGroup, []),
     (ToggleGroupItem, []), (InputOTP, []), (InputOTPGroup, []), (InputOTPSlot, []),
     (Progress, []), (Separator, []), (Skeleton, []), (Spinner, []), (Badge, []), (Avatar, []),
     (AvatarImage, []), (AvatarFallback, []), (Kbd, []), (KbdGroup, []), (ScrollArea, []),
     (ScrollBar, []), (ResizablePanelGroup, []), (ResizableHandle, [])]"

lemma controls_classes:
  assumes "class_library L"
  shows
    "keeps_classes L Button []"
    "keeps_classes L Input []"
    "keeps_classes L Label []"
    "keeps_classes L Textarea []"
    "keeps_classes L Checkbox []"
    "keeps_classes L Switch []"
    "keeps_classes L Slider []"
    "keeps_classes L RadioGroup []"
    "keeps_classes L RadioGroupItem []"
    "keeps_classes L Toggle []"
    "keeps_classes L ToggleGroup []"
    "keeps_classes L ToggleGroupItem []"
    "keeps_classes L InputOTP []"
    "keeps_classes L InputOTPGroup []"
    "keeps_classes L InputOTPSlot []"
    "keeps_classes L Progress []"
    "keeps_classes L Separator []"
    "keeps_classes L Skeleton []"
    "keeps_classes L Spinner []"
    "keeps_classes L Badge []"
    "keeps_classes L Avatar []"
    "keeps_classes L AvatarImage []"
    "keeps_classes L AvatarFallback []"
    "keeps_classes L Kbd []"
    "keeps_classes L KbdGroup []"
    "keeps_classes L ScrollArea []"
    "keeps_classes L ScrollBar []"
    "keeps_classes L ResizablePanelGroup []"
    "keeps_classes L ResizableHandle []"
  by (rule keepsI, simp add: reach_simps cn_def class_library.cn_keeps [OF assms] class_library.cva_keeps [OF assms]
     Button_def Input_def Label_def Textarea_def Checkbox_def Switch_def Slider_def RadioGroup_def
     RadioGroupItem_def Toggle_def ToggleGroup_def ToggleGroupItem_def InputOTP_def InputOTPGroup_def
     InputOTPSlot_def Progress_def Separator_def Skeleton_def Spinner_def Badge_def Avatar_def
     AvatarImage_def AvatarFallback_def Kbd_def KbdGroup_def ScrollArea_def ScrollBar_def
     ResizablePanelGroup_def ResizableHandle_def)+

lemma controls_styled_keep:
  assumes "class_library L"
  shows "list_all (\<lambda>(C, path). keeps_classes L C path) controls_styled"
  by (simp only: controls_styled_def list.pred_inject prod.case controls_classes [OF assms] simp_thms)

end
