(* ===== verification/Ui_Overlays.thy ===== *)
theory Ui_Overlays
  imports Ui_Controls
begin

text \<open>
  The components of \<open>artifacts/landvault-web/src/components/ui\<close>, file by file: dialogs, sheets, drawers, popovers, tooltips, toasts and the command palette.
\<close>

section \<open>\<open>dialog.tsx\<close>\<close>

definition Dialog :: utype where
  "Dialog = Lib ''@radix-ui/react-dialog'' ''Root''"

definition DialogTrigger :: utype where
  "DialogTrigger = Lib ''@radix-ui/react-dialog'' ''Trigger''"

definition DialogPortal :: utype where
  "DialogPortal = Lib ''@radix-ui/react-dialog'' ''Portal''"

definition DialogClose :: utype where
  "DialogClose = Lib ''@radix-ui/react-dialog'' ''Close''"

definition DialogOverlay :: component where
  "DialogOverlay L p =
     jsx (Lib ''@radix-ui/react-dialog'' ''Overlay'')
       [At ''ref'' (arg p ''ref''),
        At ''className'' (cn L [StrV ''fixed inset-0 z-50 bg-black/80  data-[state=open]:animate-in data-[state=closed]:animate-out data-[state=closed]:fade-out-0 data-[state=open]:fade-in-0'', arg p ''className'']),
        Spread (rest [''className'', ''ref''] p)]
       []"

definition DialogContent :: component where
  "DialogContent L p =
     jsx (DialogPortal)
       []
       [jsx (Own ''DialogOverlay'')
          []
          [],
        jsx (Lib ''@radix-ui/react-dialog'' ''Content'')
          [At ''ref'' (arg p ''ref''),
           At ''className'' (cn L [StrV ''fixed left-[50%] top-[50%] z-50 grid w-full max-w-lg max-h-[85vh] translate-x-[-50%] translate-y-[-50%] gap-4 overflow-y-auto border bg-background p-6 shadow-lg duration-200 data-[state=open]:animate-in data-[state=closed]:animate-out data-[state=closed]:fade-out-0 data-[state=open]:fade-in-0 data-[state=closed]:zoom-out-95 data-[state=open]:zoom-in-95 data-[state=closed]:slide-out-to-left-1/2 data-[state=closed]:slide-out-to-top-[48%] data-[state=open]:slide-in-from-left-1/2 data-[state=open]:slide-in-from-top-[48%] sm:rounded-lg'', arg p ''className'']),
           Spread (rest [''className'', ''children'', ''ref''] p)]
          [arg p ''children'',
           jsx (Lib ''@radix-ui/react-dialog'' ''Close'')
             [At ''className'' (StrV ''absolute right-4 top-4 rounded-sm opacity-70 ring-offset-background transition-opacity hover:opacity-100 focus:outline-none focus:ring-2 focus:ring-ring focus:ring-offset-2 disabled:pointer-events-none data-[state=open]:bg-accent data-[state=open]:text-muted-foreground'')]
             [jsx (Lib ''lucide-react'' ''X'')
                [At ''className'' (StrV ''h-4 w-4'')]
                [],
              jsx (Host ''span'')
                [At ''className'' (StrV ''sr-only'')]
                [StrV ''Close'']]]]"

definition DialogHeader :: component where
  "DialogHeader L p =
     jsx (Host ''div'')
       [At ''className'' (cn L [StrV ''flex flex-col space-y-1.5 text-center sm:text-left'', arg p ''className'']),
        Spread (rest [''className''] p)]
       []"

definition DialogFooter :: component where
  "DialogFooter L p =
     jsx (Host ''div'')
       [At ''className'' (cn L [StrV ''flex flex-col-reverse sm:flex-row sm:justify-end sm:space-x-2'', arg p ''className'']),
        Spread (rest [''className''] p)]
       []"

definition DialogTitle :: component where
  "DialogTitle L p =
     jsx (Lib ''@radix-ui/react-dialog'' ''Title'')
       [At ''ref'' (arg p ''ref''),
        At ''className'' (cn L [StrV ''text-lg font-semibold leading-none tracking-tight'', arg p ''className'']),
        Spread (rest [''className'', ''ref''] p)]
       []"

definition DialogDescription :: component where
  "DialogDescription L p =
     jsx (Lib ''@radix-ui/react-dialog'' ''Description'')
       [At ''ref'' (arg p ''ref''),
        At ''className'' (cn L [StrV ''text-sm text-muted-foreground'', arg p ''className'']),
        Spread (rest [''className'', ''ref''] p)]
       []"

section \<open>\<open>sheet.tsx\<close>\<close>

definition Sheet :: utype where
  "Sheet = Lib ''@radix-ui/react-dialog'' ''Root''"

definition SheetTrigger :: utype where
  "SheetTrigger = Lib ''@radix-ui/react-dialog'' ''Trigger''"

definition SheetClose :: utype where
  "SheetClose = Lib ''@radix-ui/react-dialog'' ''Close''"

definition SheetPortal :: utype where
  "SheetPortal = Lib ''@radix-ui/react-dialog'' ''Portal''"

definition SheetOverlay :: component where
  "SheetOverlay L p =
     jsx (Lib ''@radix-ui/react-dialog'' ''Overlay'')
       [At ''className'' (cn L [StrV ''fixed inset-0 z-50 bg-black/80  data-[state=open]:animate-in data-[state=closed]:animate-out data-[state=closed]:fade-out-0 data-[state=open]:fade-in-0'', arg p ''className'']),
        Spread (rest [''className'', ''ref''] p),
        At ''ref'' (arg p ''ref'')]
       []"

definition sheetVariants :: variants where
  "sheetVariants = \<lparr>
    cva_base = ''fixed z-50 gap-4 bg-background p-6 shadow-lg transition ease-in-out data-[state=closed]:duration-300 data-[state=open]:duration-500 data-[state=open]:animate-in data-[state=closed]:animate-out'',
    cva_options = [(''side'', [(''top'', ''inset-x-0 top-0 border-b data-[state=closed]:slide-out-to-top data-[state=open]:slide-in-from-top''),
        (''bottom'', ''inset-x-0 bottom-0 border-t data-[state=closed]:slide-out-to-bottom data-[state=open]:slide-in-from-bottom''),
        (''left'', ''inset-y-0 left-0 h-full w-3/4 border-r data-[state=closed]:slide-out-to-left data-[state=open]:slide-in-from-left sm:max-w-sm''),
        (''right'', ''inset-y-0 right-0 h-full w-3/4 border-l data-[state=closed]:slide-out-to-right data-[state=open]:slide-in-from-right sm:max-w-sm'')])],
    cva_defaults = [(''side'', ''right'')]\<rparr>"

definition SheetContent :: component where
  "SheetContent L p =
     jsx (SheetPortal)
       []
       [jsx (Own ''SheetOverlay'')
          []
          [],
        jsx (Lib ''@radix-ui/react-dialog'' ''Content'')
          [At ''ref'' (arg p ''ref''),
           At ''className'' (cn L [cva L sheetVariants (attributes [At ''side'' (default_to (StrV ''right'') (arg p ''side''))]), arg p ''className'']),
           Spread (rest [''side'', ''className'', ''children'', ''ref''] p)]
          [jsx (Lib ''@radix-ui/react-dialog'' ''Close'')
             [At ''className'' (StrV ''absolute right-4 top-4 rounded-sm opacity-70 ring-offset-background transition-opacity hover:opacity-100 focus:outline-none focus:ring-2 focus:ring-ring focus:ring-offset-2 disabled:pointer-events-none data-[state=open]:bg-secondary'')]
             [jsx (Lib ''lucide-react'' ''X'')
                [At ''className'' (StrV ''h-4 w-4'')]
                [],
              jsx (Host ''span'')
                [At ''className'' (StrV ''sr-only'')]
                [StrV ''Close'']],
           arg p ''children'']]"

definition SheetHeader :: component where
  "SheetHeader L p =
     jsx (Host ''div'')
       [At ''className'' (cn L [StrV ''flex flex-col space-y-2 text-center sm:text-left'', arg p ''className'']),
        Spread (rest [''className''] p)]
       []"

definition SheetFooter :: component where
  "SheetFooter L p =
     jsx (Host ''div'')
       [At ''className'' (cn L [StrV ''flex flex-col-reverse sm:flex-row sm:justify-end sm:space-x-2'', arg p ''className'']),
        Spread (rest [''className''] p)]
       []"

definition SheetTitle :: component where
  "SheetTitle L p =
     jsx (Lib ''@radix-ui/react-dialog'' ''Title'')
       [At ''ref'' (arg p ''ref''),
        At ''className'' (cn L [StrV ''text-lg font-semibold text-foreground'', arg p ''className'']),
        Spread (rest [''className'', ''ref''] p)]
       []"

definition SheetDescription :: component where
  "SheetDescription L p =
     jsx (Lib ''@radix-ui/react-dialog'' ''Description'')
       [At ''ref'' (arg p ''ref''),
        At ''className'' (cn L [StrV ''text-sm text-muted-foreground'', arg p ''className'']),
        Spread (rest [''className'', ''ref''] p)]
       []"

section \<open>\<open>drawer.tsx\<close>\<close>

definition Drawer :: component where
  "Drawer L p =
     jsx (Lib ''vaul'' ''Drawer.Root'')
       [At ''shouldScaleBackground'' (default_to (BoolV True) (arg p ''shouldScaleBackground'')),
        Spread (rest [''shouldScaleBackground''] p)]
       []"

definition DrawerTrigger :: utype where
  "DrawerTrigger = Lib ''vaul'' ''Drawer.Trigger''"

definition DrawerPortal :: utype where
  "DrawerPortal = Lib ''vaul'' ''Drawer.Portal''"

definition DrawerClose :: utype where
  "DrawerClose = Lib ''vaul'' ''Drawer.Close''"

definition DrawerOverlay :: component where
  "DrawerOverlay L p =
     jsx (Lib ''vaul'' ''Drawer.Overlay'')
       [At ''ref'' (arg p ''ref''),
        At ''className'' (cn L [StrV ''fixed inset-0 z-50 bg-black/80'', arg p ''className'']),
        Spread (rest [''className'', ''ref''] p)]
       []"

definition DrawerContent :: component where
  "DrawerContent L p =
     jsx (DrawerPortal)
       []
       [jsx (Own ''DrawerOverlay'')
          []
          [],
        jsx (Lib ''vaul'' ''Drawer.Content'')
          [At ''ref'' (arg p ''ref''),
           At ''className'' (cn L [StrV ''fixed inset-x-0 bottom-0 z-50 mt-24 flex h-auto flex-col rounded-t-[10px] border bg-background'', arg p ''className'']),
           Spread (rest [''className'', ''children'', ''ref''] p)]
          [jsx (Host ''div'')
             [At ''className'' (StrV ''mx-auto mt-4 h-2 w-[100px] rounded-full bg-muted'')]
             [],
           arg p ''children'']]"

definition DrawerHeader :: component where
  "DrawerHeader L p =
     jsx (Host ''div'')
       [At ''className'' (cn L [StrV ''grid gap-1.5 p-4 text-center sm:text-left'', arg p ''className'']),
        Spread (rest [''className''] p)]
       []"

definition DrawerFooter :: component where
  "DrawerFooter L p =
     jsx (Host ''div'')
       [At ''className'' (cn L [StrV ''mt-auto flex flex-col gap-2 p-4'', arg p ''className'']),
        Spread (rest [''className''] p)]
       []"

definition DrawerTitle :: component where
  "DrawerTitle L p =
     jsx (Lib ''vaul'' ''Drawer.Title'')
       [At ''ref'' (arg p ''ref''),
        At ''className'' (cn L [StrV ''text-lg font-semibold leading-none tracking-tight'', arg p ''className'']),
        Spread (rest [''className'', ''ref''] p)]
       []"

definition DrawerDescription :: component where
  "DrawerDescription L p =
     jsx (Lib ''vaul'' ''Drawer.Description'')
       [At ''ref'' (arg p ''ref''),
        At ''className'' (cn L [StrV ''text-sm text-muted-foreground'', arg p ''className'']),
        Spread (rest [''className'', ''ref''] p)]
       []"

section \<open>\<open>alert-dialog.tsx\<close>\<close>

definition AlertDialog :: utype where
  "AlertDialog = Lib ''@radix-ui/react-alert-dialog'' ''Root''"

definition AlertDialogTrigger :: utype where
  "AlertDialogTrigger = Lib ''@radix-ui/react-alert-dialog'' ''Trigger''"

definition AlertDialogPortal :: utype where
  "AlertDialogPortal = Lib ''@radix-ui/react-alert-dialog'' ''Portal''"

definition AlertDialogOverlay :: component where
  "AlertDialogOverlay L p =
     jsx (Lib ''@radix-ui/react-alert-dialog'' ''Overlay'')
       [At ''className'' (cn L [StrV ''fixed inset-0 z-50 bg-black/80 data-[state=open]:animate-in data-[state=closed]:animate-out data-[state=closed]:fade-out-0 data-[state=open]:fade-in-0'', arg p ''className'']),
        Spread (rest [''className'', ''ref''] p),
        At ''ref'' (arg p ''ref'')]
       []"

definition AlertDialogContent :: component where
  "AlertDialogContent L p =
     jsx (AlertDialogPortal)
       []
       [jsx (Own ''AlertDialogOverlay'')
          []
          [],
        jsx (Lib ''@radix-ui/react-alert-dialog'' ''Content'')
          [At ''ref'' (arg p ''ref''),
           At ''className'' (cn L [StrV ''fixed left-[50%] top-[50%] z-50 grid w-full max-w-lg translate-x-[-50%] translate-y-[-50%] gap-4 border bg-background p-6 shadow-lg duration-200 data-[state=open]:animate-in data-[state=closed]:animate-out data-[state=closed]:fade-out-0 data-[state=open]:fade-in-0 data-[state=closed]:zoom-out-95 data-[state=open]:zoom-in-95 data-[state=closed]:slide-out-to-left-1/2 data-[state=closed]:slide-out-to-top-[48%] data-[state=open]:slide-in-from-left-1/2 data-[state=open]:slide-in-from-top-[48%] sm:rounded-lg'', arg p ''className'']),
           Spread (rest [''className'', ''ref''] p)]
          []]"

definition AlertDialogHeader :: component where
  "AlertDialogHeader L p =
     jsx (Host ''div'')
       [At ''className'' (cn L [StrV ''flex flex-col space-y-2 text-center sm:text-left'', arg p ''className'']),
        Spread (rest [''className''] p)]
       []"

definition AlertDialogFooter :: component where
  "AlertDialogFooter L p =
     jsx (Host ''div'')
       [At ''className'' (cn L [StrV ''flex flex-col-reverse sm:flex-row sm:justify-end sm:space-x-2'', arg p ''className'']),
        Spread (rest [''className''] p)]
       []"

definition AlertDialogTitle :: component where
  "AlertDialogTitle L p =
     jsx (Lib ''@radix-ui/react-alert-dialog'' ''Title'')
       [At ''ref'' (arg p ''ref''),
        At ''className'' (cn L [StrV ''text-lg font-semibold'', arg p ''className'']),
        Spread (rest [''className'', ''ref''] p)]
       []"

definition AlertDialogDescription :: component where
  "AlertDialogDescription L p =
     jsx (Lib ''@radix-ui/react-alert-dialog'' ''Description'')
       [At ''ref'' (arg p ''ref''),
        At ''className'' (cn L [StrV ''text-sm text-muted-foreground'', arg p ''className'']),
        Spread (rest [''className'', ''ref''] p)]
       []"

definition AlertDialogAction :: component where
  "AlertDialogAction L p =
     jsx (Lib ''@radix-ui/react-alert-dialog'' ''Action'')
       [At ''ref'' (arg p ''ref''),
        At ''className'' (cn L [cva L buttonVariants [], arg p ''className'']),
        Spread (rest [''className'', ''ref''] p)]
       []"

definition AlertDialogCancel :: component where
  "AlertDialogCancel L p =
     jsx (Lib ''@radix-ui/react-alert-dialog'' ''Cancel'')
       [At ''ref'' (arg p ''ref''),
        At ''className'' (cn L [cva L buttonVariants (attributes [At ''variant'' (StrV ''outline'')]), StrV ''mt-2 sm:mt-0'', arg p ''className'']),
        Spread (rest [''className'', ''ref''] p)]
       []"

section \<open>\<open>popover.tsx\<close>\<close>

definition Popover :: utype where
  "Popover = Lib ''@radix-ui/react-popover'' ''Root''"

definition PopoverTrigger :: utype where
  "PopoverTrigger = Lib ''@radix-ui/react-popover'' ''Trigger''"

definition PopoverAnchor :: utype where
  "PopoverAnchor = Lib ''@radix-ui/react-popover'' ''Anchor''"

definition PopoverContent :: component where
  "PopoverContent L p =
     jsx (Lib ''@radix-ui/react-popover'' ''Portal'')
       []
       [jsx (Lib ''@radix-ui/react-popover'' ''Content'')
          [At ''ref'' (arg p ''ref''),
           At ''align'' (default_to (StrV ''center'') (arg p ''align'')),
           At ''sideOffset'' (default_to (NumV 4) (arg p ''sideOffset'')),
           At ''className'' (cn L [StrV ''z-50 w-72 rounded-md border bg-popover p-4 text-popover-foreground shadow-md outline-none data-[state=open]:animate-in data-[state=closed]:animate-out data-[state=closed]:fade-out-0 data-[state=open]:fade-in-0 data-[state=closed]:zoom-out-95 data-[state=open]:zoom-in-95 data-[side=bottom]:slide-in-from-top-2 data-[side=left]:slide-in-from-right-2 data-[side=right]:slide-in-from-left-2 data-[side=top]:slide-in-from-bottom-2 origin-[--radix-popover-content-transform-origin]'', arg p ''className'']),
           Spread (rest [''className'', ''align'', ''sideOffset'', ''ref''] p)]
          []]"

section \<open>\<open>hover-card.tsx\<close>\<close>

definition HoverCard :: utype where
  "HoverCard = Lib ''@radix-ui/react-hover-card'' ''Root''"

definition HoverCardTrigger :: utype where
  "HoverCardTrigger = Lib ''@radix-ui/react-hover-card'' ''Trigger''"

definition HoverCardContent :: component where
  "HoverCardContent L p =
     jsx (Lib ''@radix-ui/react-hover-card'' ''Content'')
       [At ''ref'' (arg p ''ref''),
        At ''align'' (default_to (StrV ''center'') (arg p ''align'')),
        At ''sideOffset'' (default_to (NumV 4) (arg p ''sideOffset'')),
        At ''className'' (cn L [StrV ''z-50 w-64 rounded-md border bg-popover p-4 text-popover-foreground shadow-md outline-none data-[state=open]:animate-in data-[state=closed]:animate-out data-[state=closed]:fade-out-0 data-[state=open]:fade-in-0 data-[state=closed]:zoom-out-95 data-[state=open]:zoom-in-95 data-[side=bottom]:slide-in-from-top-2 data-[side=left]:slide-in-from-right-2 data-[side=right]:slide-in-from-left-2 data-[side=top]:slide-in-from-bottom-2 origin-[--radix-hover-card-content-transform-origin]'', arg p ''className'']),
        Spread (rest [''className'', ''align'', ''sideOffset'', ''ref''] p)]
       []"

section \<open>\<open>tooltip.tsx\<close>\<close>

definition TooltipProvider :: utype where
  "TooltipProvider = Lib ''@radix-ui/react-tooltip'' ''Provider''"

definition Tooltip :: utype where
  "Tooltip = Lib ''@radix-ui/react-tooltip'' ''Root''"

definition TooltipTrigger :: utype where
  "TooltipTrigger = Lib ''@radix-ui/react-tooltip'' ''Trigger''"

definition TooltipContent :: component where
  "TooltipContent L p =
     jsx (Lib ''@radix-ui/react-tooltip'' ''Portal'')
       []
       [jsx (Lib ''@radix-ui/react-tooltip'' ''Content'')
          [At ''ref'' (arg p ''ref''),
           At ''sideOffset'' (default_to (NumV 4) (arg p ''sideOffset'')),
           At ''className'' (cn L [StrV ''z-50 overflow-hidden rounded-md bg-primary px-3 py-1.5 text-xs text-primary-foreground animate-in fade-in-0 zoom-in-95 data-[state=closed]:animate-out data-[state=closed]:fade-out-0 data-[state=closed]:zoom-out-95 data-[side=bottom]:slide-in-from-top-2 data-[side=left]:slide-in-from-right-2 data-[side=right]:slide-in-from-left-2 data-[side=top]:slide-in-from-bottom-2 origin-[--radix-tooltip-content-transform-origin]'', arg p ''className'']),
           Spread (rest [''className'', ''sideOffset'', ''ref''] p)]
          []]"

section \<open>\<open>toast.tsx\<close>\<close>

definition ToastProvider :: utype where
  "ToastProvider = Lib ''@radix-ui/react-toast'' ''Provider''"

definition ToastViewport :: component where
  "ToastViewport L p =
     jsx (Lib ''@radix-ui/react-toast'' ''Viewport'')
       [At ''ref'' (arg p ''ref''),
        At ''className'' (cn L [StrV ''fixed top-0 z-[100] flex max-h-screen w-full flex-col-reverse p-4 sm:bottom-0 sm:right-0 sm:top-auto sm:flex-col md:max-w-[420px]'', arg p ''className'']),
        Spread (rest [''className'', ''ref''] p)]
       []"

definition toastVariants :: variants where
  "toastVariants = \<lparr>
    cva_base = ''group pointer-events-auto relative flex w-full items-center justify-between space-x-4 overflow-hidden rounded-md border p-6 pr-8 shadow-lg transition-all data-[swipe=cancel]:translate-x-0 data-[swipe=end]:translate-x-[var(--radix-toast-swipe-end-x)] data-[swipe=move]:translate-x-[var(--radix-toast-swipe-move-x)] data-[swipe=move]:transition-none data-[state=open]:animate-in data-[state=closed]:animate-out data-[swipe=end]:animate-out data-[state=closed]:fade-out-80 data-[state=closed]:slide-out-to-right-full data-[state=open]:slide-in-from-top-full data-[state=open]:sm:slide-in-from-bottom-full'',
    cva_options = [(''variant'', [(''default'', ''border bg-background text-foreground''),
        (''destructive'', ''destructive group border-destructive bg-destructive text-destructive-foreground'')])],
    cva_defaults = [(''variant'', ''default'')]\<rparr>"

definition Toast :: component where
  "Toast L p =
     jsx (Lib ''@radix-ui/react-toast'' ''Root'')
       [At ''ref'' (arg p ''ref''),
        At ''className'' (cn L [cva L toastVariants (attributes [At ''variant'' (arg p ''variant'')]), arg p ''className'']),
        Spread (rest [''className'', ''variant'', ''ref''] p)]
       []"

definition ToastAction :: component where
  "ToastAction L p =
     jsx (Lib ''@radix-ui/react-toast'' ''Action'')
       [At ''ref'' (arg p ''ref''),
        At ''className'' (cn L [StrV ''inline-flex h-8 shrink-0 items-center justify-center rounded-md border bg-transparent px-3 text-sm font-medium ring-offset-background transition-colors hover:bg-secondary focus:outline-none focus:ring-2 focus:ring-ring focus:ring-offset-2 disabled:pointer-events-none disabled:opacity-50 group-[.destructive]:border-muted/40 group-[.destructive]:hover:border-destructive/30 group-[.destructive]:hover:bg-destructive group-[.destructive]:hover:text-destructive-foreground group-[.destructive]:focus:ring-destructive'', arg p ''className'']),
        Spread (rest [''className'', ''ref''] p)]
       []"

definition ToastClose :: component where
  "ToastClose L p =
     jsx (Lib ''@radix-ui/react-toast'' ''Close'')
       [At ''ref'' (arg p ''ref''),
        At ''className'' (cn L [StrV ''absolute right-2 top-2 rounded-md p-1 text-foreground/50 opacity-0 transition-opacity hover:text-foreground focus:opacity-100 focus:outline-none focus:ring-2 group-hover:opacity-100 group-[.destructive]:text-red-300 group-[.destructive]:hover:text-red-50 group-[.destructive]:focus:ring-red-400 group-[.destructive]:focus:ring-offset-red-600'', arg p ''className'']),
        At ''toast-close'' (StrV ''''),
        Spread (rest [''className'', ''ref''] p)]
       [jsx (Lib ''lucide-react'' ''X'')
          [At ''className'' (StrV ''h-4 w-4'')]
          []]"

definition ToastTitle :: component where
  "ToastTitle L p =
     jsx (Lib ''@radix-ui/react-toast'' ''Title'')
       [At ''ref'' (arg p ''ref''),
        At ''className'' (cn L [StrV ''text-sm font-semibold'', arg p ''className'']),
        Spread (rest [''className'', ''ref''] p)]
       []"

definition ToastDescription :: component where
  "ToastDescription L p =
     jsx (Lib ''@radix-ui/react-toast'' ''Description'')
       [At ''ref'' (arg p ''ref''),
        At ''className'' (cn L [StrV ''text-sm opacity-90'', arg p ''className'']),
        Spread (rest [''className'', ''ref''] p)]
       []"

section \<open>\<open>toaster.tsx\<close>\<close>

definition Toaster :: component where
  "Toaster L p =
     (let o1 = foreign L ''useToast'' [] in
      jsx (ToastProvider)
        []
        [ListV (map (\<lambda>x. jsx (Own ''Toast'')
           [At ''key'' (member_of x ''id''),
            Spread (rest [''id'', ''title'', ''description'', ''action''] (entries x))]
           [jsx (Host ''div'')
              [At ''className'' (StrV ''grid gap-1'')]
              [and_also (member_of x ''title'') (jsx (Own ''ToastTitle'')
                 []
                 [member_of x ''title'']),
               and_also (member_of x ''description'') (jsx (Own ''ToastDescription'')
                 []
                 [member_of x ''description''])],
            member_of x ''action'',
            jsx (Own ''ToastClose'')
              []
              []]) (elements (member_of o1 ''toasts''))),
         jsx (Own ''ToastViewport'')
           []
           []])"

section \<open>\<open>sonner.tsx\<close>\<close>

definition sonner_Toaster :: component where
  "sonner_Toaster L p =
     (let o1 = foreign L ''useTheme'' [] in
      jsx (Lib ''sonner'' ''Toaster'')
        [At ''theme'' (default_to (StrV ''system'') (member_of o1 ''theme'')),
         At ''className'' (StrV ''toaster group''),
         At ''toastOptions'' (ObjV (attributes [At ''classNames'' (ObjV (attributes [At ''toast'' (StrV ''group toast group-[.toaster]:bg-background group-[.toaster]:text-foreground group-[.toaster]:border-border group-[.toaster]:shadow-lg''),
              At ''description'' (StrV ''group-[.toast]:text-muted-foreground''),
              At ''actionButton'' (StrV ''group-[.toast]:bg-primary group-[.toast]:text-primary-foreground''),
              At ''cancelButton'' (StrV ''group-[.toast]:bg-muted group-[.toast]:text-muted-foreground'')]))])),
         Spread (rest [] p)]
        [])"

section \<open>\<open>command.tsx\<close>\<close>

definition Command :: component where
  "Command L p =
     jsx (Lib ''cmdk'' ''Command'')
       [At ''ref'' (arg p ''ref''),
        At ''className'' (cn L [StrV ''flex h-full w-full flex-col overflow-hidden rounded-md bg-popover text-popover-foreground'', arg p ''className'']),
        Spread (rest [''className'', ''ref''] p)]
       []"

definition CommandDialog :: component where
  "CommandDialog L p =
     jsx (Dialog)
       [Spread (rest [''children''] p)]
       [jsx (Own ''DialogContent'')
          [At ''className'' (StrV ''overflow-hidden p-0'')]
          [jsx (Own ''Command'')
             [At ''className'' (StrV ''[&_[cmdk-group-heading]]:px-2 [&_[cmdk-group-heading]]:font-medium [&_[cmdk-group-heading]]:text-muted-foreground [&_[cmdk-group]:not([hidden])_~[cmdk-group]]:pt-0 [&_[cmdk-group]]:px-2 [&_[cmdk-input-wrapper]_svg]:h-5 [&_[cmdk-input-wrapper]_svg]:w-5 [&_[cmdk-input]]:h-12 [&_[cmdk-item]]:px-2 [&_[cmdk-item]]:py-3 [&_[cmdk-item]_svg]:h-5 [&_[cmdk-item]_svg]:w-5'')]
             [arg p ''children'']]]"

definition CommandInput :: component where
  "CommandInput L p =
     jsx (Host ''div'')
       [At ''className'' (StrV ''flex items-center border-b px-3''),
        At ''cmdk-input-wrapper'' (StrV '''')]
       [jsx (Lib ''lucide-react'' ''Search'')
          [At ''className'' (StrV ''mr-2 h-4 w-4 shrink-0 opacity-50'')]
          [],
        jsx (Lib ''cmdk'' ''Command.Input'')
          [At ''ref'' (arg p ''ref''),
           At ''className'' (cn L [StrV ''flex h-10 w-full rounded-md bg-transparent py-3 text-sm outline-none placeholder:text-muted-foreground disabled:cursor-not-allowed disabled:opacity-50'', arg p ''className'']),
           Spread (rest [''className'', ''ref''] p)]
          []]"

definition CommandList :: component where
  "CommandList L p =
     jsx (Lib ''cmdk'' ''Command.List'')
       [At ''ref'' (arg p ''ref''),
        At ''className'' (cn L [StrV ''max-h-[300px] overflow-y-auto overflow-x-hidden'', arg p ''className'']),
        Spread (rest [''className'', ''ref''] p)]
       []"

definition CommandEmpty :: component where
  "CommandEmpty L p =
     jsx (Lib ''cmdk'' ''Command.Empty'')
       [At ''ref'' (arg p ''ref''),
        At ''className'' (StrV ''py-6 text-center text-sm''),
        Spread (rest [''ref''] p)]
       []"

definition CommandGroup :: component where
  "CommandGroup L p =
     jsx (Lib ''cmdk'' ''Command.Group'')
       [At ''ref'' (arg p ''ref''),
        At ''className'' (cn L [StrV ''overflow-hidden p-1 text-foreground [&_[cmdk-group-heading]]:px-2 [&_[cmdk-group-heading]]:py-1.5 [&_[cmdk-group-heading]]:text-xs [&_[cmdk-group-heading]]:font-medium [&_[cmdk-group-heading]]:text-muted-foreground'', arg p ''className'']),
        Spread (rest [''className'', ''ref''] p)]
       []"

definition CommandSeparator :: component where
  "CommandSeparator L p =
     jsx (Lib ''cmdk'' ''Command.Separator'')
       [At ''ref'' (arg p ''ref''),
        At ''className'' (cn L [StrV ''-mx-1 h-px bg-border'', arg p ''className'']),
        Spread (rest [''className'', ''ref''] p)]
       []"

definition CommandItem :: component where
  "CommandItem L p =
     jsx (Lib ''cmdk'' ''Command.Item'')
       [At ''ref'' (arg p ''ref''),
        At ''className'' (cn L [StrV ''relative flex cursor-default gap-2 select-none items-center rounded-sm px-2 py-1.5 text-sm outline-none data-[disabled=true]:pointer-events-none data-[selected=true]:bg-accent data-[selected=true]:text-accent-foreground data-[disabled=true]:opacity-50 [&_svg]:pointer-events-none [&_svg]:size-4 [&_svg]:shrink-0'', arg p ''className'']),
        Spread (rest [''className'', ''ref''] p)]
       []"

definition CommandShortcut :: component where
  "CommandShortcut L p =
     jsx (Host ''span'')
       [At ''className'' (cn L [StrV ''ml-auto text-xs tracking-widest text-muted-foreground'', arg p ''className'']),
        Spread (rest [''className''] p)]
       []"

end
