(* ===== verification/Ui_Overlays_Laws.thy ===== *)
theory Ui_Overlays_Laws
  imports Ui_Overlays Ui_Laws
begin

text \<open>
  How the components of the theory \<open>Ui_Overlays\<close> treat the properties and the classes of their
  callers: the element that receives them, by its place, and the properties a component keeps
  to itself.
\<close>

definition overlays_wrappers :: "(component \<times> nat list \<times> string list) list" where
  "overlays_wrappers = [
     (DialogOverlay, [], [''className'']), (DialogContent, [1], [''className'', ''children'']),
     (DialogHeader, [], [''className'']), (DialogFooter, [], [''className'']),
     (DialogTitle, [], [''className'']), (DialogDescription, [], [''className'']),
     (SheetOverlay, [], [''className'']),
     (SheetContent, [1], [''side'', ''className'', ''children'']),
     (SheetHeader, [], [''className'']), (SheetFooter, [], [''className'']),
     (SheetTitle, [], [''className'']), (SheetDescription, [], [''className'']), (Drawer, [], []),
     (DrawerOverlay, [], [''className'']), (DrawerContent, [1], [''className'', ''children'']),
     (DrawerHeader, [], [''className'']), (DrawerFooter, [], [''className'']),
     (DrawerTitle, [], [''className'']), (DrawerDescription, [], [''className'']),
     (AlertDialogOverlay, [], [''className'']), (AlertDialogContent, [1], [''className'']),
     (AlertDialogHeader, [], [''className'']), (AlertDialogFooter, [], [''className'']),
     (AlertDialogTitle, [], [''className'']), (AlertDialogDescription, [], [''className'']),
     (AlertDialogAction, [], [''className'']), (AlertDialogCancel, [], [''className'']),
     (PopoverContent, [0], [''className'']), (HoverCardContent, [], [''className'']),
     (TooltipContent, [0], [''className'']), (ToastViewport, [], [''className'']),
     (Toast, [], [''className'', ''variant'']), (ToastAction, [], [''className'']),
     (ToastClose, [], [''className'', ''children'']), (ToastTitle, [], [''className'']),
     (ToastDescription, [], [''className'']), (sonner_Toaster, [], []),
     (Command, [], [''className'']), (CommandDialog, [], [''children'']),
     (CommandInput, [1], [''className'']), (CommandList, [], [''className'']),
     (CommandEmpty, [], []), (CommandGroup, [], [''className'']),
     (CommandSeparator, [], [''className'']), (CommandItem, [], [''className'']),
     (CommandShortcut, [], [''className''])]"

lemma overlays_reach:
  "reaches DialogOverlay [] [''className'']"
  "reaches DialogContent [1] [''className'', ''children'']"
  "reaches DialogHeader [] [''className'']"
  "reaches DialogFooter [] [''className'']"
  "reaches DialogTitle [] [''className'']"
  "reaches DialogDescription [] [''className'']"
  "reaches SheetOverlay [] [''className'']"
  "reaches SheetContent [1] [''side'', ''className'', ''children'']"
  "reaches SheetHeader [] [''className'']"
  "reaches SheetFooter [] [''className'']"
  "reaches SheetTitle [] [''className'']"
  "reaches SheetDescription [] [''className'']"
  "reaches Drawer [] []"
  "reaches DrawerOverlay [] [''className'']"
  "reaches DrawerContent [1] [''className'', ''children'']"
  "reaches DrawerHeader [] [''className'']"
  "reaches DrawerFooter [] [''className'']"
  "reaches DrawerTitle [] [''className'']"
  "reaches DrawerDescription [] [''className'']"
  "reaches AlertDialogOverlay [] [''className'']"
  "reaches AlertDialogContent [1] [''className'']"
  "reaches AlertDialogHeader [] [''className'']"
  "reaches AlertDialogFooter [] [''className'']"
  "reaches AlertDialogTitle [] [''className'']"
  "reaches AlertDialogDescription [] [''className'']"
  "reaches AlertDialogAction [] [''className'']"
  "reaches AlertDialogCancel [] [''className'']"
  "reaches PopoverContent [0] [''className'']"
  "reaches HoverCardContent [] [''className'']"
  "reaches TooltipContent [0] [''className'']"
  "reaches ToastViewport [] [''className'']"
  "reaches Toast [] [''className'', ''variant'']"
  "reaches ToastAction [] [''className'']"
  "reaches ToastClose [] [''className'', ''children'']"
  "reaches ToastTitle [] [''className'']"
  "reaches ToastDescription [] [''className'']"
  "reaches sonner_Toaster [] []"
  "reaches Command [] [''className'']"
  "reaches CommandDialog [] [''children'']"
  "reaches CommandInput [1] [''className'']"
  "reaches CommandList [] [''className'']"
  "reaches CommandEmpty [] []"
  "reaches CommandGroup [] [''className'']"
  "reaches CommandSeparator [] [''className'']"
  "reaches CommandItem [] [''className'']"
  "reaches CommandShortcut [] [''className'']"
  by (rule reachesI, simp add: reach_simps
     DialogOverlay_def DialogContent_def DialogHeader_def DialogFooter_def DialogTitle_def
     DialogDescription_def SheetOverlay_def SheetContent_def SheetHeader_def SheetFooter_def
     SheetTitle_def SheetDescription_def Drawer_def DrawerOverlay_def DrawerContent_def
     DrawerHeader_def DrawerFooter_def DrawerTitle_def DrawerDescription_def AlertDialogOverlay_def
     AlertDialogContent_def AlertDialogHeader_def AlertDialogFooter_def AlertDialogTitle_def
     AlertDialogDescription_def AlertDialogAction_def AlertDialogCancel_def PopoverContent_def
     HoverCardContent_def TooltipContent_def ToastViewport_def Toast_def ToastAction_def ToastClose_def
     ToastTitle_def ToastDescription_def sonner_Toaster_def Command_def CommandDialog_def
     CommandInput_def CommandList_def CommandEmpty_def CommandGroup_def CommandSeparator_def
     CommandItem_def CommandShortcut_def)+

lemma overlays_wrappers_reach: "list_all (\<lambda>(C, path, own). reaches C path own) overlays_wrappers"
  by (simp only: overlays_wrappers_def list.pred_inject prod.case overlays_reach simp_thms)

definition overlays_styled :: "(component \<times> nat list) list" where
  "overlays_styled = [
     (DialogOverlay, []), (DialogContent, [1]), (DialogHeader, []), (DialogFooter, []),
     (DialogTitle, []), (DialogDescription, []), (SheetOverlay, []), (SheetContent, [1]),
     (SheetHeader, []), (SheetFooter, []), (SheetTitle, []), (SheetDescription, []),
     (DrawerOverlay, []), (DrawerContent, [1]), (DrawerHeader, []), (DrawerFooter, []),
     (DrawerTitle, []), (DrawerDescription, []), (AlertDialogOverlay, []),
     (AlertDialogContent, [1]), (AlertDialogHeader, []), (AlertDialogFooter, []),
     (AlertDialogTitle, []), (AlertDialogDescription, []), (AlertDialogAction, []),
     (AlertDialogCancel, []), (PopoverContent, [0]), (HoverCardContent, []), (TooltipContent, [0]),
     (ToastViewport, []), (Toast, []), (ToastAction, []), (ToastClose, []), (ToastTitle, []),
     (ToastDescription, []), (Command, []), (CommandInput, [1]), (CommandList, []),
     (CommandGroup, []), (CommandSeparator, []), (CommandItem, []), (CommandShortcut, [])]"

lemma overlays_classes:
  assumes "class_library L"
  shows
    "keeps_classes L DialogOverlay []"
    "keeps_classes L DialogContent [1]"
    "keeps_classes L DialogHeader []"
    "keeps_classes L DialogFooter []"
    "keeps_classes L DialogTitle []"
    "keeps_classes L DialogDescription []"
    "keeps_classes L SheetOverlay []"
    "keeps_classes L SheetContent [1]"
    "keeps_classes L SheetHeader []"
    "keeps_classes L SheetFooter []"
    "keeps_classes L SheetTitle []"
    "keeps_classes L SheetDescription []"
    "keeps_classes L DrawerOverlay []"
    "keeps_classes L DrawerContent [1]"
    "keeps_classes L DrawerHeader []"
    "keeps_classes L DrawerFooter []"
    "keeps_classes L DrawerTitle []"
    "keeps_classes L DrawerDescription []"
    "keeps_classes L AlertDialogOverlay []"
    "keeps_classes L AlertDialogContent [1]"
    "keeps_classes L AlertDialogHeader []"
    "keeps_classes L AlertDialogFooter []"
    "keeps_classes L AlertDialogTitle []"
    "keeps_classes L AlertDialogDescription []"
    "keeps_classes L AlertDialogAction []"
    "keeps_classes L AlertDialogCancel []"
    "keeps_classes L PopoverContent [0]"
    "keeps_classes L HoverCardContent []"
    "keeps_classes L TooltipContent [0]"
    "keeps_classes L ToastViewport []"
    "keeps_classes L Toast []"
    "keeps_classes L ToastAction []"
    "keeps_classes L ToastClose []"
    "keeps_classes L ToastTitle []"
    "keeps_classes L ToastDescription []"
    "keeps_classes L Command []"
    "keeps_classes L CommandInput [1]"
    "keeps_classes L CommandList []"
    "keeps_classes L CommandGroup []"
    "keeps_classes L CommandSeparator []"
    "keeps_classes L CommandItem []"
    "keeps_classes L CommandShortcut []"
  by (rule keepsI, simp add: reach_simps cn_def class_library.cn_keeps [OF assms] class_library.cva_keeps [OF assms]
     DialogOverlay_def DialogContent_def DialogHeader_def DialogFooter_def DialogTitle_def
     DialogDescription_def SheetOverlay_def SheetContent_def SheetHeader_def SheetFooter_def
     SheetTitle_def SheetDescription_def DrawerOverlay_def DrawerContent_def DrawerHeader_def
     DrawerFooter_def DrawerTitle_def DrawerDescription_def AlertDialogOverlay_def
     AlertDialogContent_def AlertDialogHeader_def AlertDialogFooter_def AlertDialogTitle_def
     AlertDialogDescription_def AlertDialogAction_def AlertDialogCancel_def PopoverContent_def
     HoverCardContent_def TooltipContent_def ToastViewport_def Toast_def ToastAction_def ToastClose_def
     ToastTitle_def ToastDescription_def Command_def CommandInput_def CommandList_def CommandGroup_def
     CommandSeparator_def CommandItem_def CommandShortcut_def)+

lemma overlays_styled_keep:
  assumes "class_library L"
  shows "list_all (\<lambda>(C, path). keeps_classes L C path) overlays_styled"
  by (simp only: overlays_styled_def list.pred_inject prod.case overlays_classes [OF assms] simp_thms)

end
