(* ===== verification/Ui_Menus.thy ===== *)
theory Ui_Menus
  imports Ui_Controls
begin

text \<open>
  The components of \<open>artifacts/landvault-web/src/components/ui\<close>, file by file: menus and the select box.
\<close>

section \<open>\<open>dropdown-menu.tsx\<close>\<close>

definition DropdownMenu :: utype where
  "DropdownMenu = Lib ''@radix-ui/react-dropdown-menu'' ''Root''"

definition DropdownMenuTrigger :: utype where
  "DropdownMenuTrigger = Lib ''@radix-ui/react-dropdown-menu'' ''Trigger''"

definition DropdownMenuGroup :: utype where
  "DropdownMenuGroup = Lib ''@radix-ui/react-dropdown-menu'' ''Group''"

definition DropdownMenuPortal :: utype where
  "DropdownMenuPortal = Lib ''@radix-ui/react-dropdown-menu'' ''Portal''"

definition DropdownMenuSub :: utype where
  "DropdownMenuSub = Lib ''@radix-ui/react-dropdown-menu'' ''Sub''"

definition DropdownMenuRadioGroup :: utype where
  "DropdownMenuRadioGroup = Lib ''@radix-ui/react-dropdown-menu'' ''RadioGroup''"

definition DropdownMenuSubTrigger :: component where
  "DropdownMenuSubTrigger L p =
     jsx (Lib ''@radix-ui/react-dropdown-menu'' ''SubTrigger'')
       [At ''ref'' (arg p ''ref''),
        At ''className'' (cn L [StrV ''flex cursor-default select-none items-center gap-2 rounded-sm px-2 py-1.5 text-sm outline-none focus:bg-accent data-[state=open]:bg-accent [&_svg]:pointer-events-none [&_svg]:size-4 [&_svg]:shrink-0'', and_also (arg p ''inset'') (StrV ''pl-8''), arg p ''className'']),
        Spread (rest [''className'', ''inset'', ''children'', ''ref''] p)]
       [arg p ''children'',
        jsx (Lib ''lucide-react'' ''ChevronRight'')
          [At ''className'' (StrV ''ml-auto'')]
          []]"

definition DropdownMenuSubContent :: component where
  "DropdownMenuSubContent L p =
     jsx (Lib ''@radix-ui/react-dropdown-menu'' ''SubContent'')
       [At ''ref'' (arg p ''ref''),
        At ''className'' (cn L [StrV ''z-50 min-w-[8rem] overflow-hidden rounded-md border bg-popover p-1 text-popover-foreground shadow-lg data-[state=open]:animate-in data-[state=closed]:animate-out data-[state=closed]:fade-out-0 data-[state=open]:fade-in-0 data-[state=closed]:zoom-out-95 data-[state=open]:zoom-in-95 data-[side=bottom]:slide-in-from-top-2 data-[side=left]:slide-in-from-right-2 data-[side=right]:slide-in-from-left-2 data-[side=top]:slide-in-from-bottom-2 origin-[--radix-dropdown-menu-content-transform-origin]'', arg p ''className'']),
        Spread (rest [''className'', ''ref''] p)]
       []"

definition DropdownMenuContent :: component where
  "DropdownMenuContent L p =
     jsx (Lib ''@radix-ui/react-dropdown-menu'' ''Portal'')
       []
       [jsx (Lib ''@radix-ui/react-dropdown-menu'' ''Content'')
          [At ''ref'' (arg p ''ref''),
           At ''sideOffset'' (default_to (NumV 4) (arg p ''sideOffset'')),
           At ''className'' (cn L [StrV ''z-50 max-h-[var(--radix-dropdown-menu-content-available-height)] min-w-[8rem] overflow-y-auto overflow-x-hidden rounded-md border bg-popover p-1 text-popover-foreground shadow-md'', StrV ''data-[state=open]:animate-in data-[state=closed]:animate-out data-[state=closed]:fade-out-0 data-[state=open]:fade-in-0 data-[state=closed]:zoom-out-95 data-[state=open]:zoom-in-95 data-[side=bottom]:slide-in-from-top-2 data-[side=left]:slide-in-from-right-2 data-[side=right]:slide-in-from-left-2 data-[side=top]:slide-in-from-bottom-2 origin-[--radix-dropdown-menu-content-transform-origin]'', arg p ''className'']),
           Spread (rest [''className'', ''sideOffset'', ''ref''] p)]
          []]"

definition DropdownMenuItem :: component where
  "DropdownMenuItem L p =
     jsx (Lib ''@radix-ui/react-dropdown-menu'' ''Item'')
       [At ''ref'' (arg p ''ref''),
        At ''className'' (cn L [StrV ''relative flex cursor-default select-none items-center gap-2 rounded-sm px-2 py-1.5 text-sm outline-none transition-colors focus:bg-accent focus:text-accent-foreground data-[disabled]:pointer-events-none data-[disabled]:opacity-50 [&>svg]:size-4 [&>svg]:shrink-0'', and_also (arg p ''inset'') (StrV ''pl-8''), arg p ''className'']),
        Spread (rest [''className'', ''inset'', ''ref''] p)]
       []"

definition DropdownMenuCheckboxItem :: component where
  "DropdownMenuCheckboxItem L p =
     jsx (Lib ''@radix-ui/react-dropdown-menu'' ''CheckboxItem'')
       [At ''ref'' (arg p ''ref''),
        At ''className'' (cn L [StrV ''relative flex cursor-default select-none items-center rounded-sm py-1.5 pl-8 pr-2 text-sm outline-none transition-colors focus:bg-accent focus:text-accent-foreground data-[disabled]:pointer-events-none data-[disabled]:opacity-50'', arg p ''className'']),
        At ''checked'' (arg p ''checked''),
        Spread (rest [''className'', ''children'', ''checked'', ''ref''] p)]
       [jsx (Host ''span'')
          [At ''className'' (StrV ''absolute left-2 flex h-3.5 w-3.5 items-center justify-center'')]
          [jsx (Lib ''@radix-ui/react-dropdown-menu'' ''ItemIndicator'')
             []
             [jsx (Lib ''lucide-react'' ''Check'')
                [At ''className'' (StrV ''h-4 w-4'')]
                []]],
        arg p ''children'']"

definition DropdownMenuRadioItem :: component where
  "DropdownMenuRadioItem L p =
     jsx (Lib ''@radix-ui/react-dropdown-menu'' ''RadioItem'')
       [At ''ref'' (arg p ''ref''),
        At ''className'' (cn L [StrV ''relative flex cursor-default select-none items-center rounded-sm py-1.5 pl-8 pr-2 text-sm outline-none transition-colors focus:bg-accent focus:text-accent-foreground data-[disabled]:pointer-events-none data-[disabled]:opacity-50'', arg p ''className'']),
        Spread (rest [''className'', ''children'', ''ref''] p)]
       [jsx (Host ''span'')
          [At ''className'' (StrV ''absolute left-2 flex h-3.5 w-3.5 items-center justify-center'')]
          [jsx (Lib ''@radix-ui/react-dropdown-menu'' ''ItemIndicator'')
             []
             [jsx (Lib ''lucide-react'' ''Circle'')
                [At ''className'' (StrV ''h-2 w-2 fill-current'')]
                []]],
        arg p ''children'']"

definition DropdownMenuLabel :: component where
  "DropdownMenuLabel L p =
     jsx (Lib ''@radix-ui/react-dropdown-menu'' ''Label'')
       [At ''ref'' (arg p ''ref''),
        At ''className'' (cn L [StrV ''px-2 py-1.5 text-sm font-semibold'', and_also (arg p ''inset'') (StrV ''pl-8''), arg p ''className'']),
        Spread (rest [''className'', ''inset'', ''ref''] p)]
       []"

definition DropdownMenuSeparator :: component where
  "DropdownMenuSeparator L p =
     jsx (Lib ''@radix-ui/react-dropdown-menu'' ''Separator'')
       [At ''ref'' (arg p ''ref''),
        At ''className'' (cn L [StrV ''-mx-1 my-1 h-px bg-muted'', arg p ''className'']),
        Spread (rest [''className'', ''ref''] p)]
       []"

definition DropdownMenuShortcut :: component where
  "DropdownMenuShortcut L p =
     jsx (Host ''span'')
       [At ''className'' (cn L [StrV ''ml-auto text-xs tracking-widest opacity-60'', arg p ''className'']),
        Spread (rest [''className''] p)]
       []"

section \<open>\<open>context-menu.tsx\<close>\<close>

definition ContextMenu :: utype where
  "ContextMenu = Lib ''@radix-ui/react-context-menu'' ''Root''"

definition ContextMenuTrigger :: utype where
  "ContextMenuTrigger = Lib ''@radix-ui/react-context-menu'' ''Trigger''"

definition ContextMenuGroup :: utype where
  "ContextMenuGroup = Lib ''@radix-ui/react-context-menu'' ''Group''"

definition ContextMenuPortal :: utype where
  "ContextMenuPortal = Lib ''@radix-ui/react-context-menu'' ''Portal''"

definition ContextMenuSub :: utype where
  "ContextMenuSub = Lib ''@radix-ui/react-context-menu'' ''Sub''"

definition ContextMenuRadioGroup :: utype where
  "ContextMenuRadioGroup = Lib ''@radix-ui/react-context-menu'' ''RadioGroup''"

definition ContextMenuSubTrigger :: component where
  "ContextMenuSubTrigger L p =
     jsx (Lib ''@radix-ui/react-context-menu'' ''SubTrigger'')
       [At ''ref'' (arg p ''ref''),
        At ''className'' (cn L [StrV ''flex cursor-default select-none items-center rounded-sm px-2 py-1.5 text-sm outline-none focus:bg-accent focus:text-accent-foreground data-[state=open]:bg-accent data-[state=open]:text-accent-foreground'', and_also (arg p ''inset'') (StrV ''pl-8''), arg p ''className'']),
        Spread (rest [''className'', ''inset'', ''children'', ''ref''] p)]
       [arg p ''children'',
        jsx (Lib ''lucide-react'' ''ChevronRight'')
          [At ''className'' (StrV ''ml-auto h-4 w-4'')]
          []]"

definition ContextMenuSubContent :: component where
  "ContextMenuSubContent L p =
     jsx (Lib ''@radix-ui/react-context-menu'' ''SubContent'')
       [At ''ref'' (arg p ''ref''),
        At ''className'' (cn L [StrV ''z-50 min-w-[8rem] overflow-hidden rounded-md border bg-popover p-1 text-popover-foreground shadow-lg data-[state=open]:animate-in data-[state=closed]:animate-out data-[state=closed]:fade-out-0 data-[state=open]:fade-in-0 data-[state=closed]:zoom-out-95 data-[state=open]:zoom-in-95 data-[side=bottom]:slide-in-from-top-2 data-[side=left]:slide-in-from-right-2 data-[side=right]:slide-in-from-left-2 data-[side=top]:slide-in-from-bottom-2 origin-[--radix-context-menu-content-transform-origin]'', arg p ''className'']),
        Spread (rest [''className'', ''ref''] p)]
       []"

definition ContextMenuContent :: component where
  "ContextMenuContent L p =
     jsx (Lib ''@radix-ui/react-context-menu'' ''Portal'')
       []
       [jsx (Lib ''@radix-ui/react-context-menu'' ''Content'')
          [At ''ref'' (arg p ''ref''),
           At ''className'' (cn L [StrV ''z-50 max-h-[--radix-context-menu-content-available-height] min-w-[8rem] overflow-y-auto overflow-x-hidden rounded-md border bg-popover p-1 text-popover-foreground shadow-md data-[state=open]:animate-in data-[state=closed]:animate-out data-[state=closed]:fade-out-0 data-[state=open]:fade-in-0 data-[state=closed]:zoom-out-95 data-[state=open]:zoom-in-95 data-[side=bottom]:slide-in-from-top-2 data-[side=left]:slide-in-from-right-2 data-[side=right]:slide-in-from-left-2 data-[side=top]:slide-in-from-bottom-2 origin-[--radix-context-menu-content-transform-origin]'', arg p ''className'']),
           Spread (rest [''className'', ''ref''] p)]
          []]"

definition ContextMenuItem :: component where
  "ContextMenuItem L p =
     jsx (Lib ''@radix-ui/react-context-menu'' ''Item'')
       [At ''ref'' (arg p ''ref''),
        At ''className'' (cn L [StrV ''relative flex cursor-default select-none items-center rounded-sm px-2 py-1.5 text-sm outline-none focus:bg-accent focus:text-accent-foreground data-[disabled]:pointer-events-none data-[disabled]:opacity-50'', and_also (arg p ''inset'') (StrV ''pl-8''), arg p ''className'']),
        Spread (rest [''className'', ''inset'', ''ref''] p)]
       []"

definition ContextMenuCheckboxItem :: component where
  "ContextMenuCheckboxItem L p =
     jsx (Lib ''@radix-ui/react-context-menu'' ''CheckboxItem'')
       [At ''ref'' (arg p ''ref''),
        At ''className'' (cn L [StrV ''relative flex cursor-default select-none items-center rounded-sm py-1.5 pl-8 pr-2 text-sm outline-none focus:bg-accent focus:text-accent-foreground data-[disabled]:pointer-events-none data-[disabled]:opacity-50'', arg p ''className'']),
        At ''checked'' (arg p ''checked''),
        Spread (rest [''className'', ''children'', ''checked'', ''ref''] p)]
       [jsx (Host ''span'')
          [At ''className'' (StrV ''absolute left-2 flex h-3.5 w-3.5 items-center justify-center'')]
          [jsx (Lib ''@radix-ui/react-context-menu'' ''ItemIndicator'')
             []
             [jsx (Lib ''lucide-react'' ''Check'')
                [At ''className'' (StrV ''h-4 w-4'')]
                []]],
        arg p ''children'']"

definition ContextMenuRadioItem :: component where
  "ContextMenuRadioItem L p =
     jsx (Lib ''@radix-ui/react-context-menu'' ''RadioItem'')
       [At ''ref'' (arg p ''ref''),
        At ''className'' (cn L [StrV ''relative flex cursor-default select-none items-center rounded-sm py-1.5 pl-8 pr-2 text-sm outline-none focus:bg-accent focus:text-accent-foreground data-[disabled]:pointer-events-none data-[disabled]:opacity-50'', arg p ''className'']),
        Spread (rest [''className'', ''children'', ''ref''] p)]
       [jsx (Host ''span'')
          [At ''className'' (StrV ''absolute left-2 flex h-3.5 w-3.5 items-center justify-center'')]
          [jsx (Lib ''@radix-ui/react-context-menu'' ''ItemIndicator'')
             []
             [jsx (Lib ''lucide-react'' ''Circle'')
                [At ''className'' (StrV ''h-4 w-4 fill-current'')]
                []]],
        arg p ''children'']"

definition ContextMenuLabel :: component where
  "ContextMenuLabel L p =
     jsx (Lib ''@radix-ui/react-context-menu'' ''Label'')
       [At ''ref'' (arg p ''ref''),
        At ''className'' (cn L [StrV ''px-2 py-1.5 text-sm font-semibold text-foreground'', and_also (arg p ''inset'') (StrV ''pl-8''), arg p ''className'']),
        Spread (rest [''className'', ''inset'', ''ref''] p)]
       []"

definition ContextMenuSeparator :: component where
  "ContextMenuSeparator L p =
     jsx (Lib ''@radix-ui/react-context-menu'' ''Separator'')
       [At ''ref'' (arg p ''ref''),
        At ''className'' (cn L [StrV ''-mx-1 my-1 h-px bg-border'', arg p ''className'']),
        Spread (rest [''className'', ''ref''] p)]
       []"

definition ContextMenuShortcut :: component where
  "ContextMenuShortcut L p =
     jsx (Host ''span'')
       [At ''className'' (cn L [StrV ''ml-auto text-xs tracking-widest text-muted-foreground'', arg p ''className'']),
        Spread (rest [''className''] p)]
       []"

section \<open>\<open>menubar.tsx\<close>\<close>

definition MenubarMenu :: component where
  "MenubarMenu L p =
     jsx (Lib ''@radix-ui/react-menubar'' ''Menu'')
       [Spread (rest [] p)]
       []"

definition MenubarGroup :: component where
  "MenubarGroup L p =
     jsx (Lib ''@radix-ui/react-menubar'' ''Group'')
       [Spread (rest [] p)]
       []"

definition MenubarPortal :: component where
  "MenubarPortal L p =
     jsx (Lib ''@radix-ui/react-menubar'' ''Portal'')
       [Spread (rest [] p)]
       []"

definition MenubarRadioGroup :: component where
  "MenubarRadioGroup L p =
     jsx (Lib ''@radix-ui/react-menubar'' ''RadioGroup'')
       [Spread (rest [] p)]
       []"

definition MenubarSub :: component where
  "MenubarSub L p =
     jsx (Lib ''@radix-ui/react-menubar'' ''Sub'')
       [At ''data-slot'' (StrV ''menubar-sub''),
        Spread (rest [] p)]
       []"

definition Menubar :: component where
  "Menubar L p =
     jsx (Lib ''@radix-ui/react-menubar'' ''Root'')
       [At ''ref'' (arg p ''ref''),
        At ''className'' (cn L [StrV ''flex h-9 items-center space-x-1 rounded-md border bg-background p-1 shadow-sm'', arg p ''className'']),
        Spread (rest [''className'', ''ref''] p)]
       []"

definition MenubarTrigger :: component where
  "MenubarTrigger L p =
     jsx (Lib ''@radix-ui/react-menubar'' ''Trigger'')
       [At ''ref'' (arg p ''ref''),
        At ''className'' (cn L [StrV ''flex cursor-default select-none items-center rounded-sm px-3 py-1 text-sm font-medium outline-none focus:bg-accent focus:text-accent-foreground data-[state=open]:bg-accent data-[state=open]:text-accent-foreground'', arg p ''className'']),
        Spread (rest [''className'', ''ref''] p)]
       []"

definition MenubarSubTrigger :: component where
  "MenubarSubTrigger L p =
     jsx (Lib ''@radix-ui/react-menubar'' ''SubTrigger'')
       [At ''ref'' (arg p ''ref''),
        At ''className'' (cn L [StrV ''flex cursor-default select-none items-center rounded-sm px-2 py-1.5 text-sm outline-none focus:bg-accent focus:text-accent-foreground data-[state=open]:bg-accent data-[state=open]:text-accent-foreground'', and_also (arg p ''inset'') (StrV ''pl-8''), arg p ''className'']),
        Spread (rest [''className'', ''inset'', ''children'', ''ref''] p)]
       [arg p ''children'',
        jsx (Lib ''lucide-react'' ''ChevronRight'')
          [At ''className'' (StrV ''ml-auto h-4 w-4'')]
          []]"

definition MenubarSubContent :: component where
  "MenubarSubContent L p =
     jsx (Lib ''@radix-ui/react-menubar'' ''SubContent'')
       [At ''ref'' (arg p ''ref''),
        At ''className'' (cn L [StrV ''z-50 min-w-[8rem] overflow-hidden rounded-md border bg-popover p-1 text-popover-foreground shadow-lg data-[state=open]:animate-in data-[state=closed]:animate-out data-[state=closed]:fade-out-0 data-[state=open]:fade-in-0 data-[state=closed]:zoom-out-95 data-[state=open]:zoom-in-95 data-[side=bottom]:slide-in-from-top-2 data-[side=left]:slide-in-from-right-2 data-[side=right]:slide-in-from-left-2 data-[side=top]:slide-in-from-bottom-2 origin-[--radix-menubar-content-transform-origin]'', arg p ''className'']),
        Spread (rest [''className'', ''ref''] p)]
       []"

definition MenubarContent :: component where
  "MenubarContent L p =
     jsx (Lib ''@radix-ui/react-menubar'' ''Portal'')
       []
       [jsx (Lib ''@radix-ui/react-menubar'' ''Content'')
          [At ''ref'' (arg p ''ref''),
           At ''align'' (default_to (StrV ''start'') (arg p ''align'')),
           At ''alignOffset'' (default_to (NumV (- num_of (NumV 4))) (arg p ''alignOffset'')),
           At ''sideOffset'' (default_to (NumV 8) (arg p ''sideOffset'')),
           At ''className'' (cn L [StrV ''z-50 min-w-[12rem] overflow-hidden rounded-md border bg-popover p-1 text-popover-foreground shadow-md data-[state=open]:animate-in data-[state=closed]:fade-out-0 data-[state=open]:fade-in-0 data-[state=closed]:zoom-out-95 data-[state=open]:zoom-in-95 data-[side=bottom]:slide-in-from-top-2 data-[side=left]:slide-in-from-right-2 data-[side=right]:slide-in-from-left-2 data-[side=top]:slide-in-from-bottom-2 origin-[--radix-menubar-content-transform-origin]'', arg p ''className'']),
           Spread (rest [''className'', ''align'', ''alignOffset'', ''sideOffset'', ''ref''] p)]
          []]"

definition MenubarItem :: component where
  "MenubarItem L p =
     jsx (Lib ''@radix-ui/react-menubar'' ''Item'')
       [At ''ref'' (arg p ''ref''),
        At ''className'' (cn L [StrV ''relative flex cursor-default select-none items-center rounded-sm px-2 py-1.5 text-sm outline-none focus:bg-accent focus:text-accent-foreground data-[disabled]:pointer-events-none data-[disabled]:opacity-50'', and_also (arg p ''inset'') (StrV ''pl-8''), arg p ''className'']),
        Spread (rest [''className'', ''inset'', ''ref''] p)]
       []"

definition MenubarCheckboxItem :: component where
  "MenubarCheckboxItem L p =
     jsx (Lib ''@radix-ui/react-menubar'' ''CheckboxItem'')
       [At ''ref'' (arg p ''ref''),
        At ''className'' (cn L [StrV ''relative flex cursor-default select-none items-center rounded-sm py-1.5 pl-8 pr-2 text-sm outline-none focus:bg-accent focus:text-accent-foreground data-[disabled]:pointer-events-none data-[disabled]:opacity-50'', arg p ''className'']),
        At ''checked'' (arg p ''checked''),
        Spread (rest [''className'', ''children'', ''checked'', ''ref''] p)]
       [jsx (Host ''span'')
          [At ''className'' (StrV ''absolute left-2 flex h-3.5 w-3.5 items-center justify-center'')]
          [jsx (Lib ''@radix-ui/react-menubar'' ''ItemIndicator'')
             []
             [jsx (Lib ''lucide-react'' ''Check'')
                [At ''className'' (StrV ''h-4 w-4'')]
                []]],
        arg p ''children'']"

definition MenubarRadioItem :: component where
  "MenubarRadioItem L p =
     jsx (Lib ''@radix-ui/react-menubar'' ''RadioItem'')
       [At ''ref'' (arg p ''ref''),
        At ''className'' (cn L [StrV ''relative flex cursor-default select-none items-center rounded-sm py-1.5 pl-8 pr-2 text-sm outline-none focus:bg-accent focus:text-accent-foreground data-[disabled]:pointer-events-none data-[disabled]:opacity-50'', arg p ''className'']),
        Spread (rest [''className'', ''children'', ''ref''] p)]
       [jsx (Host ''span'')
          [At ''className'' (StrV ''absolute left-2 flex h-3.5 w-3.5 items-center justify-center'')]
          [jsx (Lib ''@radix-ui/react-menubar'' ''ItemIndicator'')
             []
             [jsx (Lib ''lucide-react'' ''Circle'')
                [At ''className'' (StrV ''h-4 w-4 fill-current'')]
                []]],
        arg p ''children'']"

definition MenubarLabel :: component where
  "MenubarLabel L p =
     jsx (Lib ''@radix-ui/react-menubar'' ''Label'')
       [At ''ref'' (arg p ''ref''),
        At ''className'' (cn L [StrV ''px-2 py-1.5 text-sm font-semibold'', and_also (arg p ''inset'') (StrV ''pl-8''), arg p ''className'']),
        Spread (rest [''className'', ''inset'', ''ref''] p)]
       []"

definition MenubarSeparator :: component where
  "MenubarSeparator L p =
     jsx (Lib ''@radix-ui/react-menubar'' ''Separator'')
       [At ''ref'' (arg p ''ref''),
        At ''className'' (cn L [StrV ''-mx-1 my-1 h-px bg-muted'', arg p ''className'']),
        Spread (rest [''className'', ''ref''] p)]
       []"

definition MenubarShortcut :: component where
  "MenubarShortcut L p =
     jsx (Host ''span'')
       [At ''className'' (cn L [StrV ''ml-auto text-xs tracking-widest text-muted-foreground'', arg p ''className'']),
        Spread (rest [''className''] p)]
       []"

section \<open>\<open>navigation-menu.tsx\<close>\<close>

definition NavigationMenu :: component where
  "NavigationMenu L p =
     jsx (Lib ''@radix-ui/react-navigation-menu'' ''Root'')
       [At ''ref'' (arg p ''ref''),
        At ''className'' (cn L [StrV ''relative z-10 flex max-w-max flex-1 items-center justify-center'', arg p ''className'']),
        Spread (rest [''className'', ''children'', ''ref''] p)]
       [arg p ''children'',
        jsx (Own ''NavigationMenuViewport'')
          []
          []]"

definition NavigationMenuList :: component where
  "NavigationMenuList L p =
     jsx (Lib ''@radix-ui/react-navigation-menu'' ''List'')
       [At ''ref'' (arg p ''ref''),
        At ''className'' (cn L [StrV ''group flex flex-1 list-none items-center justify-center space-x-1'', arg p ''className'']),
        Spread (rest [''className'', ''ref''] p)]
       []"

definition NavigationMenuItem :: utype where
  "NavigationMenuItem = Lib ''@radix-ui/react-navigation-menu'' ''Item''"

definition navigationMenuTriggerStyle :: variants where
  "navigationMenuTriggerStyle = \<lparr>
    cva_base = ''group inline-flex h-9 w-max items-center justify-center rounded-md bg-background px-4 py-2 text-sm font-medium transition-colors hover:bg-accent hover:text-accent-foreground focus:bg-accent focus:text-accent-foreground focus:outline-none disabled:pointer-events-none disabled:opacity-50 data-[state=open]:text-accent-foreground data-[state=open]:bg-accent/50 data-[state=open]:hover:bg-accent data-[state=open]:focus:bg-accent'',
    cva_options = [],
    cva_defaults = []\<rparr>"

definition NavigationMenuTrigger :: component where
  "NavigationMenuTrigger L p =
     jsx (Lib ''@radix-ui/react-navigation-menu'' ''Trigger'')
       [At ''ref'' (arg p ''ref''),
        At ''className'' (cn L [cva L navigationMenuTriggerStyle [], StrV ''group'', arg p ''className'']),
        Spread (rest [''className'', ''children'', ''ref''] p)]
       [arg p ''children'',
        StrV '' '',
        jsx (Lib ''lucide-react'' ''ChevronDown'')
          [At ''className'' (StrV ''relative top-[1px] ml-1 h-3 w-3 transition duration-300 group-data-[state=open]:rotate-180''),
           At ''aria-hidden'' (StrV ''true'')]
          []]"

definition NavigationMenuContent :: component where
  "NavigationMenuContent L p =
     jsx (Lib ''@radix-ui/react-navigation-menu'' ''Content'')
       [At ''ref'' (arg p ''ref''),
        At ''className'' (cn L [StrV ''left-0 top-0 w-full data-[motion^=from-]:animate-in data-[motion^=to-]:animate-out data-[motion^=from-]:fade-in data-[motion^=to-]:fade-out data-[motion=from-end]:slide-in-from-right-52 data-[motion=from-start]:slide-in-from-left-52 data-[motion=to-end]:slide-out-to-right-52 data-[motion=to-start]:slide-out-to-left-52 md:absolute md:w-auto '', arg p ''className'']),
        Spread (rest [''className'', ''ref''] p)]
       []"

definition NavigationMenuLink :: utype where
  "NavigationMenuLink = Lib ''@radix-ui/react-navigation-menu'' ''Link''"

definition NavigationMenuViewport :: component where
  "NavigationMenuViewport L p =
     jsx (Host ''div'')
       [At ''className'' (cn L [StrV ''absolute left-0 top-full flex justify-center''])]
       [jsx (Lib ''@radix-ui/react-navigation-menu'' ''Viewport'')
          [At ''className'' (cn L [StrV ''origin-top-center relative mt-1.5 h-[var(--radix-navigation-menu-viewport-height)] w-full overflow-hidden rounded-md border bg-popover text-popover-foreground shadow data-[state=open]:animate-in data-[state=closed]:animate-out data-[state=closed]:zoom-out-95 data-[state=open]:zoom-in-90 md:w-[var(--radix-navigation-menu-viewport-width)]'', arg p ''className'']),
           At ''ref'' (arg p ''ref''),
           Spread (rest [''className'', ''ref''] p)]
          []]"

definition NavigationMenuIndicator :: component where
  "NavigationMenuIndicator L p =
     jsx (Lib ''@radix-ui/react-navigation-menu'' ''Indicator'')
       [At ''ref'' (arg p ''ref''),
        At ''className'' (cn L [StrV ''top-full z-[1] flex h-1.5 items-end justify-center overflow-hidden data-[state=visible]:animate-in data-[state=hidden]:animate-out data-[state=hidden]:fade-out data-[state=visible]:fade-in'', arg p ''className'']),
        Spread (rest [''className'', ''ref''] p)]
       [jsx (Host ''div'')
          [At ''className'' (StrV ''relative top-[60%] h-2 w-2 rotate-45 rounded-tl-sm bg-border shadow-md'')]
          []]"

section \<open>\<open>select.tsx\<close>\<close>

definition Select :: utype where
  "Select = Lib ''@radix-ui/react-select'' ''Root''"

definition SelectGroup :: utype where
  "SelectGroup = Lib ''@radix-ui/react-select'' ''Group''"

definition SelectValue :: utype where
  "SelectValue = Lib ''@radix-ui/react-select'' ''Value''"

definition SelectTrigger :: component where
  "SelectTrigger L p =
     jsx (Lib ''@radix-ui/react-select'' ''Trigger'')
       [At ''ref'' (arg p ''ref''),
        At ''className'' (cn L [StrV ''flex h-9 w-full items-center justify-between whitespace-nowrap rounded-md border border-input bg-transparent px-3 py-2 text-sm shadow-sm ring-offset-background data-[placeholder]:text-muted-foreground focus:outline-none focus:ring-1 focus:ring-ring disabled:cursor-not-allowed disabled:opacity-50 [&>span]:line-clamp-1'', arg p ''className'']),
        Spread (rest [''className'', ''children'', ''ref''] p)]
       [arg p ''children'',
        jsx (Lib ''@radix-ui/react-select'' ''Icon'')
          [At ''asChild'' (BoolV True)]
          [jsx (Lib ''lucide-react'' ''ChevronDown'')
             [At ''className'' (StrV ''h-4 w-4 opacity-50'')]
             []]]"

definition SelectScrollUpButton :: component where
  "SelectScrollUpButton L p =
     jsx (Lib ''@radix-ui/react-select'' ''ScrollUpButton'')
       [At ''ref'' (arg p ''ref''),
        At ''className'' (cn L [StrV ''flex cursor-default items-center justify-center py-1'', arg p ''className'']),
        Spread (rest [''className'', ''ref''] p)]
       [jsx (Lib ''lucide-react'' ''ChevronUp'')
          [At ''className'' (StrV ''h-4 w-4'')]
          []]"

definition SelectScrollDownButton :: component where
  "SelectScrollDownButton L p =
     jsx (Lib ''@radix-ui/react-select'' ''ScrollDownButton'')
       [At ''ref'' (arg p ''ref''),
        At ''className'' (cn L [StrV ''flex cursor-default items-center justify-center py-1'', arg p ''className'']),
        Spread (rest [''className'', ''ref''] p)]
       [jsx (Lib ''lucide-react'' ''ChevronDown'')
          [At ''className'' (StrV ''h-4 w-4'')]
          []]"

definition SelectContent :: component where
  "SelectContent L p =
     jsx (Lib ''@radix-ui/react-select'' ''Portal'')
       []
       [jsx (Lib ''@radix-ui/react-select'' ''Content'')
          [At ''ref'' (arg p ''ref''),
           At ''className'' (cn L [StrV ''relative z-50 max-h-[--radix-select-content-available-height] min-w-[8rem] overflow-y-auto overflow-x-hidden rounded-md border bg-popover text-popover-foreground shadow-md data-[state=open]:animate-in data-[state=closed]:animate-out data-[state=closed]:fade-out-0 data-[state=open]:fade-in-0 data-[state=closed]:zoom-out-95 data-[state=open]:zoom-in-95 data-[side=bottom]:slide-in-from-top-2 data-[side=left]:slide-in-from-right-2 data-[side=right]:slide-in-from-left-2 data-[side=top]:slide-in-from-bottom-2 origin-[--radix-select-content-transform-origin]'', and_also (BoolV ((default_to (StrV ''popper'') (arg p ''position'')) = (StrV ''popper''))) (StrV ''data-[side=bottom]:translate-y-1 data-[side=left]:-translate-x-1 data-[side=right]:translate-x-1 data-[side=top]:-translate-y-1''), arg p ''className'']),
           At ''position'' (default_to (StrV ''popper'') (arg p ''position'')),
           Spread (rest [''className'', ''children'', ''position'', ''ref''] p)]
          [jsx (Own ''SelectScrollUpButton'')
             []
             [],
           jsx (Lib ''@radix-ui/react-select'' ''Viewport'')
             [At ''className'' (cn L [StrV ''p-1'', and_also (BoolV ((default_to (StrV ''popper'') (arg p ''position'')) = (StrV ''popper''))) (StrV ''h-[var(--radix-select-trigger-height)] w-full min-w-[var(--radix-select-trigger-width)]'')])]
             [arg p ''children''],
           jsx (Own ''SelectScrollDownButton'')
             []
             []]]"

definition SelectLabel :: component where
  "SelectLabel L p =
     jsx (Lib ''@radix-ui/react-select'' ''Label'')
       [At ''ref'' (arg p ''ref''),
        At ''className'' (cn L [StrV ''px-2 py-1.5 text-sm font-semibold'', arg p ''className'']),
        Spread (rest [''className'', ''ref''] p)]
       []"

definition SelectItem :: component where
  "SelectItem L p =
     jsx (Lib ''@radix-ui/react-select'' ''Item'')
       [At ''ref'' (arg p ''ref''),
        At ''className'' (cn L [StrV ''relative flex w-full cursor-default select-none items-center rounded-sm py-1.5 pl-2 pr-8 text-sm outline-none focus:bg-accent focus:text-accent-foreground data-[disabled]:pointer-events-none data-[disabled]:opacity-50'', arg p ''className'']),
        Spread (rest [''className'', ''children'', ''ref''] p)]
       [jsx (Host ''span'')
          [At ''className'' (StrV ''absolute right-2 flex h-3.5 w-3.5 items-center justify-center'')]
          [jsx (Lib ''@radix-ui/react-select'' ''ItemIndicator'')
             []
             [jsx (Lib ''lucide-react'' ''Check'')
                [At ''className'' (StrV ''h-4 w-4'')]
                []]],
        jsx (Lib ''@radix-ui/react-select'' ''ItemText'')
          []
          [arg p ''children'']]"

definition SelectSeparator :: component where
  "SelectSeparator L p =
     jsx (Lib ''@radix-ui/react-select'' ''Separator'')
       [At ''ref'' (arg p ''ref''),
        At ''className'' (cn L [StrV ''-mx-1 my-1 h-px bg-muted'', arg p ''className'']),
        Spread (rest [''className'', ''ref''] p)]
       []"

end
