(* ===== verification/Ui_Menus_Laws.thy ===== *)
theory Ui_Menus_Laws
  imports Ui_Menus Ui_Laws
begin

text \<open>
  How the components of the theory \<open>Ui_Menus\<close> treat the properties and the classes of their
  callers: the element that receives them, by its place, and the properties a component keeps
  to itself.
\<close>

definition menus_wrappers :: "(component \<times> nat list \<times> string list) list" where
  "menus_wrappers = [
     (DropdownMenuSubTrigger, [], [''className'', ''inset'', ''children'']),
     (DropdownMenuSubContent, [], [''className'']), (DropdownMenuContent, [0], [''className'']),
     (DropdownMenuItem, [], [''className'', ''inset'']),
     (DropdownMenuCheckboxItem, [], [''className'', ''children'']),
     (DropdownMenuRadioItem, [], [''className'', ''children'']),
     (DropdownMenuLabel, [], [''className'', ''inset'']),
     (DropdownMenuSeparator, [], [''className'']), (DropdownMenuShortcut, [], [''className'']),
     (ContextMenuSubTrigger, [], [''className'', ''inset'', ''children'']),
     (ContextMenuSubContent, [], [''className'']), (ContextMenuContent, [0], [''className'']),
     (ContextMenuItem, [], [''className'', ''inset'']),
     (ContextMenuCheckboxItem, [], [''className'', ''children'']),
     (ContextMenuRadioItem, [], [''className'', ''children'']),
     (ContextMenuLabel, [], [''className'', ''inset'']),
     (ContextMenuSeparator, [], [''className'']), (ContextMenuShortcut, [], [''className'']),
     (MenubarMenu, [], []), (MenubarGroup, [], []), (MenubarPortal, [], []),
     (MenubarRadioGroup, [], []), (MenubarSub, [], []), (Menubar, [], [''className'']),
     (MenubarTrigger, [], [''className'']),
     (MenubarSubTrigger, [], [''className'', ''inset'', ''children'']),
     (MenubarSubContent, [], [''className'']), (MenubarContent, [0], [''className'']),
     (MenubarItem, [], [''className'', ''inset'']),
     (MenubarCheckboxItem, [], [''className'', ''children'']),
     (MenubarRadioItem, [], [''className'', ''children'']),
     (MenubarLabel, [], [''className'', ''inset'']), (MenubarSeparator, [], [''className'']),
     (MenubarShortcut, [], [''className'']), (NavigationMenu, [], [''className'', ''children'']),
     (NavigationMenuList, [], [''className'']),
     (NavigationMenuTrigger, [], [''className'', ''children'']),
     (NavigationMenuContent, [], [''className'']), (NavigationMenuViewport, [0], [''className'']),
     (NavigationMenuIndicator, [], [''className'', ''children'']),
     (SelectTrigger, [], [''className'', ''children'']),
     (SelectScrollUpButton, [], [''className'', ''children'']),
     (SelectScrollDownButton, [], [''className'', ''children'']),
     (SelectContent, [0], [''className'', ''children'']), (SelectLabel, [], [''className'']),
     (SelectItem, [], [''className'', ''children'']), (SelectSeparator, [], [''className''])]"

lemma menus_reach:
  "reaches DropdownMenuSubTrigger [] [''className'', ''inset'', ''children'']"
  "reaches DropdownMenuSubContent [] [''className'']"
  "reaches DropdownMenuContent [0] [''className'']"
  "reaches DropdownMenuItem [] [''className'', ''inset'']"
  "reaches DropdownMenuCheckboxItem [] [''className'', ''children'']"
  "reaches DropdownMenuRadioItem [] [''className'', ''children'']"
  "reaches DropdownMenuLabel [] [''className'', ''inset'']"
  "reaches DropdownMenuSeparator [] [''className'']"
  "reaches DropdownMenuShortcut [] [''className'']"
  "reaches ContextMenuSubTrigger [] [''className'', ''inset'', ''children'']"
  "reaches ContextMenuSubContent [] [''className'']"
  "reaches ContextMenuContent [0] [''className'']"
  "reaches ContextMenuItem [] [''className'', ''inset'']"
  "reaches ContextMenuCheckboxItem [] [''className'', ''children'']"
  "reaches ContextMenuRadioItem [] [''className'', ''children'']"
  "reaches ContextMenuLabel [] [''className'', ''inset'']"
  "reaches ContextMenuSeparator [] [''className'']"
  "reaches ContextMenuShortcut [] [''className'']"
  "reaches MenubarMenu [] []"
  "reaches MenubarGroup [] []"
  "reaches MenubarPortal [] []"
  "reaches MenubarRadioGroup [] []"
  "reaches MenubarSub [] []"
  "reaches Menubar [] [''className'']"
  "reaches MenubarTrigger [] [''className'']"
  "reaches MenubarSubTrigger [] [''className'', ''inset'', ''children'']"
  "reaches MenubarSubContent [] [''className'']"
  "reaches MenubarContent [0] [''className'']"
  "reaches MenubarItem [] [''className'', ''inset'']"
  "reaches MenubarCheckboxItem [] [''className'', ''children'']"
  "reaches MenubarRadioItem [] [''className'', ''children'']"
  "reaches MenubarLabel [] [''className'', ''inset'']"
  "reaches MenubarSeparator [] [''className'']"
  "reaches MenubarShortcut [] [''className'']"
  "reaches NavigationMenu [] [''className'', ''children'']"
  "reaches NavigationMenuList [] [''className'']"
  "reaches NavigationMenuTrigger [] [''className'', ''children'']"
  "reaches NavigationMenuContent [] [''className'']"
  "reaches NavigationMenuViewport [0] [''className'']"
  "reaches NavigationMenuIndicator [] [''className'', ''children'']"
  "reaches SelectTrigger [] [''className'', ''children'']"
  "reaches SelectScrollUpButton [] [''className'', ''children'']"
  "reaches SelectScrollDownButton [] [''className'', ''children'']"
  "reaches SelectContent [0] [''className'', ''children'']"
  "reaches SelectLabel [] [''className'']"
  "reaches SelectItem [] [''className'', ''children'']"
  "reaches SelectSeparator [] [''className'']"
  by (rule reachesI, simp add: reach_simps
     DropdownMenuSubTrigger_def DropdownMenuSubContent_def DropdownMenuContent_def DropdownMenuItem_def
     DropdownMenuCheckboxItem_def DropdownMenuRadioItem_def DropdownMenuLabel_def
     DropdownMenuSeparator_def DropdownMenuShortcut_def ContextMenuSubTrigger_def
     ContextMenuSubContent_def ContextMenuContent_def ContextMenuItem_def ContextMenuCheckboxItem_def
     ContextMenuRadioItem_def ContextMenuLabel_def ContextMenuSeparator_def ContextMenuShortcut_def
     MenubarMenu_def MenubarGroup_def MenubarPortal_def MenubarRadioGroup_def MenubarSub_def
     Menubar_def MenubarTrigger_def MenubarSubTrigger_def MenubarSubContent_def MenubarContent_def
     MenubarItem_def MenubarCheckboxItem_def MenubarRadioItem_def MenubarLabel_def MenubarSeparator_def
     MenubarShortcut_def NavigationMenu_def NavigationMenuList_def NavigationMenuTrigger_def
     NavigationMenuContent_def NavigationMenuViewport_def NavigationMenuIndicator_def SelectTrigger_def
     SelectScrollUpButton_def SelectScrollDownButton_def SelectContent_def SelectLabel_def
     SelectItem_def SelectSeparator_def)+

lemma menus_wrappers_reach: "list_all (\<lambda>(C, path, own). reaches C path own) menus_wrappers"
  by (simp only: menus_wrappers_def list.pred_inject prod.case menus_reach simp_thms)

definition menus_styled :: "(component \<times> nat list) list" where
  "menus_styled = [
     (DropdownMenuSubTrigger, []), (DropdownMenuSubContent, []), (DropdownMenuContent, [0]),
     (DropdownMenuItem, []), (DropdownMenuCheckboxItem, []), (DropdownMenuRadioItem, []),
     (DropdownMenuLabel, []), (DropdownMenuSeparator, []), (DropdownMenuShortcut, []),
     (ContextMenuSubTrigger, []), (ContextMenuSubContent, []), (ContextMenuContent, [0]),
     (ContextMenuItem, []), (ContextMenuCheckboxItem, []), (ContextMenuRadioItem, []),
     (ContextMenuLabel, []), (ContextMenuSeparator, []), (ContextMenuShortcut, []), (Menubar, []),
     (MenubarTrigger, []), (MenubarSubTrigger, []), (MenubarSubContent, []), (MenubarContent, [0]),
     (MenubarItem, []), (MenubarCheckboxItem, []), (MenubarRadioItem, []), (MenubarLabel, []),
     (MenubarSeparator, []), (MenubarShortcut, []), (NavigationMenu, []), (NavigationMenuList, []),
     (NavigationMenuTrigger, []), (NavigationMenuContent, []), (NavigationMenuViewport, [0]),
     (NavigationMenuIndicator, []), (SelectTrigger, []), (SelectScrollUpButton, []),
     (SelectScrollDownButton, []), (SelectContent, [0]), (SelectLabel, []), (SelectItem, []),
     (SelectSeparator, [])]"

lemma menus_classes:
  assumes "class_library L"
  shows
    "keeps_classes L DropdownMenuSubTrigger []"
    "keeps_classes L DropdownMenuSubContent []"
    "keeps_classes L DropdownMenuContent [0]"
    "keeps_classes L DropdownMenuItem []"
    "keeps_classes L DropdownMenuCheckboxItem []"
    "keeps_classes L DropdownMenuRadioItem []"
    "keeps_classes L DropdownMenuLabel []"
    "keeps_classes L DropdownMenuSeparator []"
    "keeps_classes L DropdownMenuShortcut []"
    "keeps_classes L ContextMenuSubTrigger []"
    "keeps_classes L ContextMenuSubContent []"
    "keeps_classes L ContextMenuContent [0]"
    "keeps_classes L ContextMenuItem []"
    "keeps_classes L ContextMenuCheckboxItem []"
    "keeps_classes L ContextMenuRadioItem []"
    "keeps_classes L ContextMenuLabel []"
    "keeps_classes L ContextMenuSeparator []"
    "keeps_classes L ContextMenuShortcut []"
    "keeps_classes L Menubar []"
    "keeps_classes L MenubarTrigger []"
    "keeps_classes L MenubarSubTrigger []"
    "keeps_classes L MenubarSubContent []"
    "keeps_classes L MenubarContent [0]"
    "keeps_classes L MenubarItem []"
    "keeps_classes L MenubarCheckboxItem []"
    "keeps_classes L MenubarRadioItem []"
    "keeps_classes L MenubarLabel []"
    "keeps_classes L MenubarSeparator []"
    "keeps_classes L MenubarShortcut []"
    "keeps_classes L NavigationMenu []"
    "keeps_classes L NavigationMenuList []"
    "keeps_classes L NavigationMenuTrigger []"
    "keeps_classes L NavigationMenuContent []"
    "keeps_classes L NavigationMenuViewport [0]"
    "keeps_classes L NavigationMenuIndicator []"
    "keeps_classes L SelectTrigger []"
    "keeps_classes L SelectScrollUpButton []"
    "keeps_classes L SelectScrollDownButton []"
    "keeps_classes L SelectContent [0]"
    "keeps_classes L SelectLabel []"
    "keeps_classes L SelectItem []"
    "keeps_classes L SelectSeparator []"
  by (rule keepsI, simp add: reach_simps cn_def class_library.cn_keeps [OF assms] class_library.cva_keeps [OF assms]
     DropdownMenuSubTrigger_def DropdownMenuSubContent_def DropdownMenuContent_def DropdownMenuItem_def
     DropdownMenuCheckboxItem_def DropdownMenuRadioItem_def DropdownMenuLabel_def
     DropdownMenuSeparator_def DropdownMenuShortcut_def ContextMenuSubTrigger_def
     ContextMenuSubContent_def ContextMenuContent_def ContextMenuItem_def ContextMenuCheckboxItem_def
     ContextMenuRadioItem_def ContextMenuLabel_def ContextMenuSeparator_def ContextMenuShortcut_def
     Menubar_def MenubarTrigger_def MenubarSubTrigger_def MenubarSubContent_def MenubarContent_def
     MenubarItem_def MenubarCheckboxItem_def MenubarRadioItem_def MenubarLabel_def MenubarSeparator_def
     MenubarShortcut_def NavigationMenu_def NavigationMenuList_def NavigationMenuTrigger_def
     NavigationMenuContent_def NavigationMenuViewport_def NavigationMenuIndicator_def SelectTrigger_def
     SelectScrollUpButton_def SelectScrollDownButton_def SelectContent_def SelectLabel_def
     SelectItem_def SelectSeparator_def)+

lemma menus_styled_keep:
  assumes "class_library L"
  shows "list_all (\<lambda>(C, path). keeps_classes L C path) menus_styled"
  by (simp only: menus_styled_def list.pred_inject prod.case menus_classes [OF assms] simp_thms)

end
