(* ===== verification/Ui_Layout.thy ===== *)
theory Ui_Layout
  imports Ui_Overlays
begin

text \<open>
  The components of \<open>artifacts/landvault-web/src/components/ui\<close>, file by file: tables, cards, lists, groups, fields, the form parts and the calendar.
\<close>

section \<open>\<open>accordion.tsx\<close>\<close>

definition Accordion :: utype where
  "Accordion = Lib ''@radix-ui/react-accordion'' ''Root''"

definition AccordionItem :: component where
  "AccordionItem L p =
     jsx (Lib ''@radix-ui/react-accordion'' ''Item'')
       [At ''ref'' (arg p ''ref''),
        At ''className'' (cn L [StrV ''border-b'', arg p ''className'']),
        Spread (rest [''className'', ''ref''] p)]
       []"

definition AccordionTrigger :: component where
  "AccordionTrigger L p =
     jsx (Lib ''@radix-ui/react-accordion'' ''Header'')
       [At ''className'' (StrV ''flex'')]
       [jsx (Lib ''@radix-ui/react-accordion'' ''Trigger'')
          [At ''ref'' (arg p ''ref''),
           At ''className'' (cn L [StrV ''flex flex-1 items-center justify-between py-4 text-sm font-medium transition-all hover:underline text-left [&[data-state=open]>svg]:rotate-180'', arg p ''className'']),
           Spread (rest [''className'', ''children'', ''ref''] p)]
          [arg p ''children'',
           jsx (Lib ''lucide-react'' ''ChevronDown'')
             [At ''className'' (StrV ''h-4 w-4 shrink-0 text-muted-foreground transition-transform duration-200'')]
             []]]"

definition AccordionContent :: component where
  "AccordionContent L p =
     jsx (Lib ''@radix-ui/react-accordion'' ''Content'')
       [At ''ref'' (arg p ''ref''),
        At ''className'' (StrV ''overflow-hidden text-sm data-[state=closed]:animate-accordion-up data-[state=open]:animate-accordion-down''),
        Spread (rest [''className'', ''children'', ''ref''] p)]
       [jsx (Host ''div'')
          [At ''className'' (cn L [StrV ''pb-4 pt-0'', arg p ''className''])]
          [arg p ''children'']]"

section \<open>\<open>tabs.tsx\<close>\<close>

definition Tabs :: utype where
  "Tabs = Lib ''@radix-ui/react-tabs'' ''Root''"

definition TabsList :: component where
  "TabsList L p =
     jsx (Lib ''@radix-ui/react-tabs'' ''List'')
       [At ''ref'' (arg p ''ref''),
        At ''className'' (cn L [StrV ''inline-flex h-9 items-center justify-center rounded-lg bg-muted p-1 text-muted-foreground'', arg p ''className'']),
        Spread (rest [''className'', ''ref''] p)]
       []"

definition TabsTrigger :: component where
  "TabsTrigger L p =
     jsx (Lib ''@radix-ui/react-tabs'' ''Trigger'')
       [At ''ref'' (arg p ''ref''),
        At ''className'' (cn L [StrV ''inline-flex items-center justify-center whitespace-nowrap rounded-md px-3 py-1 text-sm font-medium ring-offset-background transition-all focus-visible:outline-none focus-visible:ring-2 focus-visible:ring-ring focus-visible:ring-offset-2 disabled:pointer-events-none disabled:opacity-50 data-[state=active]:bg-background data-[state=active]:text-foreground data-[state=active]:shadow'', arg p ''className'']),
        Spread (rest [''className'', ''ref''] p)]
       []"

definition TabsContent :: component where
  "TabsContent L p =
     jsx (Lib ''@radix-ui/react-tabs'' ''Content'')
       [At ''ref'' (arg p ''ref''),
        At ''className'' (cn L [StrV ''mt-2 ring-offset-background focus-visible:outline-none focus-visible:ring-2 focus-visible:ring-ring focus-visible:ring-offset-2'', arg p ''className'']),
        Spread (rest [''className'', ''ref''] p)]
       []"

section \<open>\<open>table.tsx\<close>\<close>

definition Table :: component where
  "Table L p =
     jsx (Host ''div'')
       [At ''className'' (StrV ''relative w-full overflow-auto'')]
       [jsx (Host ''table'')
          [At ''ref'' (arg p ''ref''),
           At ''className'' (cn L [StrV ''w-full caption-bottom text-sm'', arg p ''className'']),
           Spread (rest [''className'', ''ref''] p)]
          []]"

definition TableHeader :: component where
  "TableHeader L p =
     jsx (Host ''thead'')
       [At ''ref'' (arg p ''ref''),
        At ''className'' (cn L [StrV ''[&_tr]:border-b'', arg p ''className'']),
        Spread (rest [''className'', ''ref''] p)]
       []"

definition TableBody :: component where
  "TableBody L p =
     jsx (Host ''tbody'')
       [At ''ref'' (arg p ''ref''),
        At ''className'' (cn L [StrV ''[&_tr:last-child]:border-0'', arg p ''className'']),
        Spread (rest [''className'', ''ref''] p)]
       []"

definition TableFooter :: component where
  "TableFooter L p =
     jsx (Host ''tfoot'')
       [At ''ref'' (arg p ''ref''),
        At ''className'' (cn L [StrV ''border-t bg-muted/50 font-medium [&>tr]:last:border-b-0'', arg p ''className'']),
        Spread (rest [''className'', ''ref''] p)]
       []"

definition TableRow :: component where
  "TableRow L p =
     jsx (Host ''tr'')
       [At ''ref'' (arg p ''ref''),
        At ''className'' (cn L [StrV ''border-b transition-colors hover:bg-muted/50 data-[state=selected]:bg-muted'', arg p ''className'']),
        Spread (rest [''className'', ''ref''] p)]
       []"

definition TableHead :: component where
  "TableHead L p =
     jsx (Host ''th'')
       [At ''ref'' (arg p ''ref''),
        At ''className'' (cn L [StrV ''h-10 px-2 text-left align-middle font-medium text-muted-foreground [&:has([role=checkbox])]:pr-0 [&>[role=checkbox]]:translate-y-[2px]'', arg p ''className'']),
        Spread (rest [''className'', ''ref''] p)]
       []"

definition TableCell :: component where
  "TableCell L p =
     jsx (Host ''td'')
       [At ''ref'' (arg p ''ref''),
        At ''className'' (cn L [StrV ''p-2 align-middle [&:has([role=checkbox])]:pr-0 [&>[role=checkbox]]:translate-y-[2px]'', arg p ''className'']),
        Spread (rest [''className'', ''ref''] p)]
       []"

definition TableCaption :: component where
  "TableCaption L p =
     jsx (Host ''caption'')
       [At ''ref'' (arg p ''ref''),
        At ''className'' (cn L [StrV ''mt-4 text-sm text-muted-foreground'', arg p ''className'']),
        Spread (rest [''className'', ''ref''] p)]
       []"

section \<open>\<open>card.tsx\<close>\<close>

definition Card :: component where
  "Card L p =
     jsx (Host ''div'')
       [At ''ref'' (arg p ''ref''),
        At ''className'' (cn L [StrV ''rounded-xl border bg-card text-card-foreground shadow'', arg p ''className'']),
        Spread (rest [''className'', ''ref''] p)]
       []"

definition CardHeader :: component where
  "CardHeader L p =
     jsx (Host ''div'')
       [At ''ref'' (arg p ''ref''),
        At ''className'' (cn L [StrV ''flex flex-col space-y-1.5 p-6'', arg p ''className'']),
        Spread (rest [''className'', ''ref''] p)]
       []"

definition CardTitle :: component where
  "CardTitle L p =
     jsx (Host ''div'')
       [At ''ref'' (arg p ''ref''),
        At ''className'' (cn L [StrV ''font-semibold leading-none tracking-tight'', arg p ''className'']),
        Spread (rest [''className'', ''ref''] p)]
       []"

definition CardDescription :: component where
  "CardDescription L p =
     jsx (Host ''div'')
       [At ''ref'' (arg p ''ref''),
        At ''className'' (cn L [StrV ''text-sm text-muted-foreground'', arg p ''className'']),
        Spread (rest [''className'', ''ref''] p)]
       []"

definition CardContent :: component where
  "CardContent L p =
     jsx (Host ''div'')
       [At ''ref'' (arg p ''ref''),
        At ''className'' (cn L [StrV ''p-6 pt-0'', arg p ''className'']),
        Spread (rest [''className'', ''ref''] p)]
       []"

definition CardFooter :: component where
  "CardFooter L p =
     jsx (Host ''div'')
       [At ''ref'' (arg p ''ref''),
        At ''className'' (cn L [StrV ''flex items-center p-6 pt-0'', arg p ''className'']),
        Spread (rest [''className'', ''ref''] p)]
       []"

section \<open>\<open>alert.tsx\<close>\<close>

definition alertVariants :: variants where
  "alertVariants = \<lparr>
    cva_base = ''relative w-full rounded-lg border px-4 py-3 text-sm [&>svg+div]:translate-y-[-3px] [&>svg]:absolute [&>svg]:left-4 [&>svg]:top-4 [&>svg]:text-foreground [&>svg~*]:pl-7'',
    cva_options = [(''variant'', [(''default'', ''bg-background text-foreground''),
        (''destructive'', ''border-destructive/50 text-destructive dark:border-destructive [&>svg]:text-destructive'')])],
    cva_defaults = [(''variant'', ''default'')]\<rparr>"

definition Alert :: component where
  "Alert L p =
     jsx (Host ''div'')
       [At ''ref'' (arg p ''ref''),
        At ''role'' (StrV ''alert''),
        At ''className'' (cn L [cva L alertVariants (attributes [At ''variant'' (arg p ''variant'')]), arg p ''className'']),
        Spread (rest [''className'', ''variant'', ''ref''] p)]
       []"

definition AlertTitle :: component where
  "AlertTitle L p =
     jsx (Host ''h5'')
       [At ''ref'' (arg p ''ref''),
        At ''className'' (cn L [StrV ''mb-1 font-medium leading-none tracking-tight'', arg p ''className'']),
        Spread (rest [''className'', ''ref''] p)]
       []"

definition AlertDescription :: component where
  "AlertDescription L p =
     jsx (Host ''div'')
       [At ''ref'' (arg p ''ref''),
        At ''className'' (cn L [StrV ''text-sm [&_p]:leading-relaxed'', arg p ''className'']),
        Spread (rest [''className'', ''ref''] p)]
       []"

section \<open>\<open>breadcrumb.tsx\<close>\<close>

definition Breadcrumb :: component where
  "Breadcrumb L p =
     jsx (Host ''nav'')
       [At ''ref'' (arg p ''ref''),
        At ''aria-label'' (StrV ''breadcrumb''),
        Spread (rest [''ref''] p)]
       []"

definition BreadcrumbList :: component where
  "BreadcrumbList L p =
     jsx (Host ''ol'')
       [At ''ref'' (arg p ''ref''),
        At ''className'' (cn L [StrV ''flex flex-wrap items-center gap-1.5 break-words text-sm text-muted-foreground sm:gap-2.5'', arg p ''className'']),
        Spread (rest [''className'', ''ref''] p)]
       []"

definition BreadcrumbItem :: component where
  "BreadcrumbItem L p =
     jsx (Host ''li'')
       [At ''ref'' (arg p ''ref''),
        At ''className'' (cn L [StrV ''inline-flex items-center gap-1.5'', arg p ''className'']),
        Spread (rest [''className'', ''ref''] p)]
       []"

definition BreadcrumbLink :: component where
  "BreadcrumbLink L p =
     jsx (if truthy_ui (arg p ''asChild'') then Lib ''@radix-ui/react-slot'' ''Slot'' else Host ''a'')
       [At ''ref'' (arg p ''ref''),
        At ''className'' (cn L [StrV ''transition-colors hover:text-foreground'', arg p ''className'']),
        Spread (rest [''asChild'', ''className'', ''ref''] p)]
       []"

definition BreadcrumbPage :: component where
  "BreadcrumbPage L p =
     jsx (Host ''span'')
       [At ''ref'' (arg p ''ref''),
        At ''role'' (StrV ''link''),
        At ''aria-disabled'' (StrV ''true''),
        At ''aria-current'' (StrV ''page''),
        At ''className'' (cn L [StrV ''font-normal text-foreground'', arg p ''className'']),
        Spread (rest [''className'', ''ref''] p)]
       []"

definition BreadcrumbSeparator :: component where
  "BreadcrumbSeparator L p =
     jsx (Host ''li'')
       [At ''role'' (StrV ''presentation''),
        At ''aria-hidden'' (StrV ''true''),
        At ''className'' (cn L [StrV ''[&>svg]:w-3.5 [&>svg]:h-3.5'', arg p ''className'']),
        Spread (rest [''children'', ''className''] p)]
       [or_given (arg p ''children'') (jsx (Lib ''lucide-react'' ''ChevronRight'')
          []
          [])]"

definition BreadcrumbEllipsis :: component where
  "BreadcrumbEllipsis L p =
     jsx (Host ''span'')
       [At ''role'' (StrV ''presentation''),
        At ''aria-hidden'' (StrV ''true''),
        At ''className'' (cn L [StrV ''flex h-9 w-9 items-center justify-center'', arg p ''className'']),
        Spread (rest [''className''] p)]
       [jsx (Lib ''lucide-react'' ''MoreHorizontal'')
          [At ''className'' (StrV ''h-4 w-4'')]
          [],
        jsx (Host ''span'')
          [At ''className'' (StrV ''sr-only'')]
          [StrV ''More'']]"

section \<open>\<open>pagination.tsx\<close>\<close>

definition Pagination :: component where
  "Pagination L p =
     jsx (Host ''nav'')
       [At ''role'' (StrV ''navigation''),
        At ''aria-label'' (StrV ''pagination''),
        At ''className'' (cn L [StrV ''mx-auto flex w-full justify-center'', arg p ''className'']),
        Spread (rest [''className''] p)]
       []"

definition PaginationContent :: component where
  "PaginationContent L p =
     jsx (Host ''ul'')
       [At ''ref'' (arg p ''ref''),
        At ''className'' (cn L [StrV ''flex flex-row items-center gap-1'', arg p ''className'']),
        Spread (rest [''className'', ''ref''] p)]
       []"

definition PaginationItem :: component where
  "PaginationItem L p =
     jsx (Host ''li'')
       [At ''ref'' (arg p ''ref''),
        At ''className'' (cn L [StrV '''', arg p ''className'']),
        Spread (rest [''className'', ''ref''] p)]
       []"

definition PaginationLink :: component where
  "PaginationLink L p =
     jsx (Host ''a'')
       [At ''aria-current'' (if truthy_ui (arg p ''isActive'') then StrV ''page'' else Absent),
        At ''className'' (cn L [cva L buttonVariants (attributes [At ''variant'' (if truthy_ui (arg p ''isActive'') then StrV ''outline'' else StrV ''ghost''), At ''size'' (default_to (StrV ''icon'') (arg p ''size''))]), arg p ''className'']),
        Spread (rest [''className'', ''isActive'', ''size''] p)]
       []"

definition PaginationPrevious :: component where
  "PaginationPrevious L p =
     jsx (Own ''PaginationLink'')
       [At ''aria-label'' (StrV ''Go to previous page''),
        At ''size'' (StrV ''default''),
        At ''className'' (cn L [StrV ''gap-1 pl-2.5'', arg p ''className'']),
        Spread (rest [''className''] p)]
       [jsx (Lib ''lucide-react'' ''ChevronLeft'')
          [At ''className'' (StrV ''h-4 w-4'')]
          [],
        jsx (Host ''span'')
          []
          [StrV ''Previous'']]"

definition PaginationNext :: component where
  "PaginationNext L p =
     jsx (Own ''PaginationLink'')
       [At ''aria-label'' (StrV ''Go to next page''),
        At ''size'' (StrV ''default''),
        At ''className'' (cn L [StrV ''gap-1 pr-2.5'', arg p ''className'']),
        Spread (rest [''className''] p)]
       [jsx (Host ''span'')
          []
          [StrV ''Next''],
        jsx (Lib ''lucide-react'' ''ChevronRight'')
          [At ''className'' (StrV ''h-4 w-4'')]
          []]"

definition PaginationEllipsis :: component where
  "PaginationEllipsis L p =
     jsx (Host ''span'')
       [At ''aria-hidden'' (BoolV True),
        At ''className'' (cn L [StrV ''flex h-9 w-9 items-center justify-center'', arg p ''className'']),
        Spread (rest [''className''] p)]
       [jsx (Lib ''lucide-react'' ''MoreHorizontal'')
          [At ''className'' (StrV ''h-4 w-4'')]
          [],
        jsx (Host ''span'')
          [At ''className'' (StrV ''sr-only'')]
          [StrV ''More pages'']]"

section \<open>\<open>item.tsx\<close>\<close>

definition ItemGroup :: component where
  "ItemGroup L p =
     jsx (Host ''div'')
       [At ''role'' (StrV ''list''),
        At ''data-slot'' (StrV ''item-group''),
        At ''className'' (cn L [StrV ''group/item-group flex flex-col'', arg p ''className'']),
        Spread (rest [''className''] p)]
       []"

definition ItemSeparator :: component where
  "ItemSeparator L p =
     jsx (Own ''Separator'')
       [At ''data-slot'' (StrV ''item-separator''),
        At ''orientation'' (StrV ''horizontal''),
        At ''className'' (cn L [StrV ''my-0'', arg p ''className'']),
        Spread (rest [''className''] p)]
       []"

definition itemVariants :: variants where
  "itemVariants = \<lparr>
    cva_base = ''group/item [a]:hover:bg-accent/50 focus-visible:border-ring focus-visible:ring-ring/50 [a]:transition-colors flex flex-wrap items-center rounded-md border border-transparent text-sm outline-none transition-colors duration-100 focus-visible:ring-[3px]'',
    cva_options = [(''variant'', [(''default'', ''bg-transparent''),
        (''outline'', ''border-border''),
        (''muted'', ''bg-muted/50'')]),
      (''size'', [(''default'', ''gap-4 p-4 ''),
        (''sm'', ''gap-2.5 px-4 py-3'')])],
    cva_defaults = [(''variant'', ''default''), (''size'', ''default'')]\<rparr>"

definition Item :: component where
  "Item L p =
     jsx (if truthy_ui (default_to (BoolV False) (arg p ''asChild'')) then Lib ''@radix-ui/react-slot'' ''Slot'' else Host ''div'')
       [At ''data-slot'' (StrV ''item''),
        At ''data-variant'' (default_to (StrV ''default'') (arg p ''variant'')),
        At ''data-size'' (default_to (StrV ''default'') (arg p ''size'')),
        At ''className'' (cn L [cva L itemVariants (attributes [At ''variant'' (default_to (StrV ''default'') (arg p ''variant'')), At ''size'' (default_to (StrV ''default'') (arg p ''size'')), At ''className'' (arg p ''className'')])]),
        Spread (rest [''className'', ''variant'', ''size'', ''asChild''] p)]
       []"

definition itemMediaVariants :: variants where
  "itemMediaVariants = \<lparr>
    cva_base = ''flex shrink-0 items-center justify-center gap-2 group-has-[[data-slot=item-description]]/item:translate-y-0.5 group-has-[[data-slot=item-description]]/item:self-start [&_svg]:pointer-events-none'',
    cva_options = [(''variant'', [(''default'', ''bg-transparent''),
        (''icon'', ''bg-muted size-8 rounded-sm border [&_svg:not([class*='size-'])]:size-4''),
        (''image'', ''size-10 overflow-hidden rounded-sm [&_img]:size-full [&_img]:object-cover'')])],
    cva_defaults = [(''variant'', ''default'')]\<rparr>"

definition ItemMedia :: component where
  "ItemMedia L p =
     jsx (Host ''div'')
       [At ''data-slot'' (StrV ''item-media''),
        At ''data-variant'' (default_to (StrV ''default'') (arg p ''variant'')),
        At ''className'' (cn L [cva L itemMediaVariants (attributes [At ''variant'' (default_to (StrV ''default'') (arg p ''variant'')), At ''className'' (arg p ''className'')])]),
        Spread (rest [''className'', ''variant''] p)]
       []"

definition ItemContent :: component where
  "ItemContent L p =
     jsx (Host ''div'')
       [At ''data-slot'' (StrV ''item-content''),
        At ''className'' (cn L [StrV ''flex flex-1 flex-col gap-1 [&+[data-slot=item-content]]:flex-none'', arg p ''className'']),
        Spread (rest [''className''] p)]
       []"

definition ItemTitle :: component where
  "ItemTitle L p =
     jsx (Host ''div'')
       [At ''data-slot'' (StrV ''item-title''),
        At ''className'' (cn L [StrV ''flex w-fit items-center gap-2 text-sm font-medium leading-snug'', arg p ''className'']),
        Spread (rest [''className''] p)]
       []"

definition ItemDescription :: component where
  "ItemDescription L p =
     jsx (Host ''p'')
       [At ''data-slot'' (StrV ''item-description''),
        At ''className'' (cn L [StrV ''text-muted-foreground line-clamp-2 text-balance text-sm font-normal leading-normal'', StrV ''[&>a:hover]:text-primary [&>a]:underline [&>a]:underline-offset-4'', arg p ''className'']),
        Spread (rest [''className''] p)]
       []"

definition ItemActions :: component where
  "ItemActions L p =
     jsx (Host ''div'')
       [At ''data-slot'' (StrV ''item-actions''),
        At ''className'' (cn L [StrV ''flex items-center gap-2'', arg p ''className'']),
        Spread (rest [''className''] p)]
       []"

definition ItemHeader :: component where
  "ItemHeader L p =
     jsx (Host ''div'')
       [At ''data-slot'' (StrV ''item-header''),
        At ''className'' (cn L [StrV ''flex basis-full items-center justify-between gap-2'', arg p ''className'']),
        Spread (rest [''className''] p)]
       []"

definition ItemFooter :: component where
  "ItemFooter L p =
     jsx (Host ''div'')
       [At ''data-slot'' (StrV ''item-footer''),
        At ''className'' (cn L [StrV ''flex basis-full items-center justify-between gap-2'', arg p ''className'']),
        Spread (rest [''className''] p)]
       []"

section \<open>\<open>empty.tsx\<close>\<close>

definition Empty :: component where
  "Empty L p =
     jsx (Host ''div'')
       [At ''data-slot'' (StrV ''empty''),
        At ''className'' (cn L [StrV ''flex min-w-0 flex-1 flex-col items-center justify-center gap-6 text-balance rounded-lg border-dashed p-6 text-center md:p-12'', arg p ''className'']),
        Spread (rest [''className''] p)]
       []"

definition EmptyHeader :: component where
  "EmptyHeader L p =
     jsx (Host ''div'')
       [At ''data-slot'' (StrV ''empty-header''),
        At ''className'' (cn L [StrV ''flex max-w-sm flex-col items-center gap-2 text-center'', arg p ''className'']),
        Spread (rest [''className''] p)]
       []"

definition emptyMediaVariants :: variants where
  "emptyMediaVariants = \<lparr>
    cva_base = ''mb-2 flex shrink-0 items-center justify-center [&_svg]:pointer-events-none [&_svg]:shrink-0'',
    cva_options = [(''variant'', [(''default'', ''bg-transparent''),
        (''icon'', ''bg-muted text-foreground flex size-10 shrink-0 items-center justify-center rounded-lg [&_svg:not([class*='size-'])]:size-6'')])],
    cva_defaults = [(''variant'', ''default'')]\<rparr>"

definition EmptyMedia :: component where
  "EmptyMedia L p =
     jsx (Host ''div'')
       [At ''data-slot'' (StrV ''empty-icon''),
        At ''data-variant'' (default_to (StrV ''default'') (arg p ''variant'')),
        At ''className'' (cn L [cva L emptyMediaVariants (attributes [At ''variant'' (default_to (StrV ''default'') (arg p ''variant'')), At ''className'' (arg p ''className'')])]),
        Spread (rest [''className'', ''variant''] p)]
       []"

definition EmptyTitle :: component where
  "EmptyTitle L p =
     jsx (Host ''div'')
       [At ''data-slot'' (StrV ''empty-title''),
        At ''className'' (cn L [StrV ''text-lg font-medium tracking-tight'', arg p ''className'']),
        Spread (rest [''className''] p)]
       []"

definition EmptyDescription :: component where
  "EmptyDescription L p =
     jsx (Host ''div'')
       [At ''data-slot'' (StrV ''empty-description''),
        At ''className'' (cn L [StrV ''text-muted-foreground [&>a:hover]:text-primary text-sm/relaxed [&>a]:underline [&>a]:underline-offset-4'', arg p ''className'']),
        Spread (rest [''className''] p)]
       []"

definition EmptyContent :: component where
  "EmptyContent L p =
     jsx (Host ''div'')
       [At ''data-slot'' (StrV ''empty-content''),
        At ''className'' (cn L [StrV ''flex w-full min-w-0 max-w-sm flex-col items-center gap-4 text-balance text-sm'', arg p ''className'']),
        Spread (rest [''className''] p)]
       []"

section \<open>\<open>button-group.tsx\<close>\<close>

definition buttonGroupVariants :: variants where
  "buttonGroupVariants = \<lparr>
    cva_base = ''flex w-fit items-stretch has-[>[data-slot=button-group]]:gap-2 [&>*]:focus-visible:relative [&>*]:focus-visible:z-10 has-[select[aria-hidden=true]:last-child]:[&>[data-slot=select-trigger]:last-of-type]:rounded-r-md [&>[data-slot=select-trigger]:not([class*='w-'])]:w-fit [&>input]:flex-1'',
    cva_options = [(''orientation'', [(''horizontal'', ''[&>*:not(:first-child)]:rounded-l-none [&>*:not(:first-child)]:border-l-0 [&>*:not(:last-child)]:rounded-r-none''),
        (''vertical'', ''flex-col [&>*:not(:first-child)]:rounded-t-none [&>*:not(:first-child)]:border-t-0 [&>*:not(:last-child)]:rounded-b-none'')])],
    cva_defaults = [(''orientation'', ''horizontal'')]\<rparr>"

definition ButtonGroup :: component where
  "ButtonGroup L p =
     jsx (Host ''div'')
       [At ''role'' (StrV ''group''),
        At ''data-slot'' (StrV ''button-group''),
        At ''data-orientation'' (arg p ''orientation''),
        At ''className'' (cn L [cva L buttonGroupVariants (attributes [At ''orientation'' (arg p ''orientation'')]), arg p ''className'']),
        Spread (rest [''className'', ''orientation''] p)]
       []"

definition ButtonGroupText :: component where
  "ButtonGroupText L p =
     jsx (if truthy_ui (default_to (BoolV False) (arg p ''asChild'')) then Lib ''@radix-ui/react-slot'' ''Slot'' else Host ''div'')
       [At ''className'' (cn L [StrV ''bg-muted shadow-xs flex items-center gap-2 rounded-md border px-4 text-sm font-medium [&_svg:not([class*='size-'])]:size-4 [&_svg]:pointer-events-none'', arg p ''className'']),
        Spread (rest [''className'', ''asChild''] p)]
       []"

definition ButtonGroupSeparator :: component where
  "ButtonGroupSeparator L p =
     jsx (Own ''Separator'')
       [At ''data-slot'' (StrV ''button-group-separator''),
        At ''orientation'' (default_to (StrV ''vertical'') (arg p ''orientation'')),
        At ''className'' (cn L [StrV ''bg-input relative !m-0 self-stretch data-[orientation=vertical]:h-auto'', arg p ''className'']),
        Spread (rest [''className'', ''orientation''] p)]
       []"

section \<open>\<open>input-group.tsx\<close>\<close>

definition InputGroup :: component where
  "InputGroup L p =
     jsx (Host ''div'')
       [At ''data-slot'' (StrV ''input-group''),
        At ''role'' (StrV ''group''),
        At ''className'' (cn L [StrV ''group/input-group border-input dark:bg-input/30 shadow-xs relative flex w-full items-center rounded-md border outline-none transition-[color,box-shadow]'', StrV ''h-9 has-[>textarea]:h-auto'', StrV ''has-[>[data-align=inline-start]]:[&>input]:pl-2'', StrV ''has-[>[data-align=inline-end]]:[&>input]:pr-2'', StrV ''has-[>[data-align=block-start]]:h-auto has-[>[data-align=block-start]]:flex-col has-[>[data-align=block-start]]:[&>input]:pb-3'', StrV ''has-[>[data-align=block-end]]:h-auto has-[>[data-align=block-end]]:flex-col has-[>[data-align=block-end]]:[&>input]:pt-3'', StrV ''has-[[data-slot=input-group-control]:focus-visible]:ring-ring has-[[data-slot=input-group-control]:focus-visible]:ring-1'', StrV ''has-[[data-slot][aria-invalid=true]]:ring-destructive/20 has-[[data-slot][aria-invalid=true]]:border-destructive dark:has-[[data-slot][aria-invalid=true]]:ring-destructive/40'', arg p ''className'']),
        Spread (rest [''className''] p)]
       []"

definition inputGroupAddonVariants :: variants where
  "inputGroupAddonVariants = \<lparr>
    cva_base = ''text-muted-foreground flex h-auto cursor-text select-none items-center justify-center gap-2 py-1.5 text-sm font-medium group-data-[disabled=true]/input-group:opacity-50 [&>kbd]:rounded-[calc(var(--radius)-5px)] [&>svg:not([class*='size-'])]:size-4'',
    cva_options = [(''align'', [(''inline-start'', ''order-first pl-3 has-[>button]:ml-[-0.45rem] has-[>kbd]:ml-[-0.35rem]''),
        (''inline-end'', ''order-last pr-3 has-[>button]:mr-[-0.4rem] has-[>kbd]:mr-[-0.35rem]''),
        (''block-start'', ''[.border-b]:pb-3 order-first w-full justify-start px-3 pt-3 group-has-[>input]/input-group:pt-2.5''),
        (''block-end'', ''[.border-t]:pt-3 order-last w-full justify-start px-3 pb-3 group-has-[>input]/input-group:pb-2.5'')])],
    cva_defaults = [(''align'', ''inline-start'')]\<rparr>"

definition InputGroupAddon :: component where
  "InputGroupAddon L p =
     jsx (Host ''div'')
       [At ''role'' (StrV ''group''),
        At ''data-slot'' (StrV ''input-group-addon''),
        At ''data-align'' (default_to (StrV ''inline-start'') (arg p ''align'')),
        At ''className'' (cn L [cva L inputGroupAddonVariants (attributes [At ''align'' (default_to (StrV ''inline-start'') (arg p ''align''))]), arg p ''className'']),
        At ''onClick'' (Closure ''InputGroupAddon.onClick'' []),
        Spread (rest [''className'', ''align''] p)]
       []"

definition inputGroupButtonVariants :: variants where
  "inputGroupButtonVariants = \<lparr>
    cva_base = ''flex items-center gap-2 text-sm shadow-none'',
    cva_options = [(''size'', [(''xs'', ''h-6 gap-1 rounded-[calc(var(--radius)-5px)] px-2 has-[>svg]:px-2 [&>svg:not([class*='size-'])]:size-3.5''),
        (''sm'', ''h-8 gap-1.5 rounded-md px-2.5 has-[>svg]:px-2.5''),
        (''icon-xs'', ''size-6 rounded-[calc(var(--radius)-5px)] p-0 has-[>svg]:p-0''),
        (''icon-sm'', ''size-8 p-0 has-[>svg]:p-0'')])],
    cva_defaults = [(''size'', ''xs'')]\<rparr>"

definition InputGroupButton :: component where
  "InputGroupButton L p =
     jsx (Own ''Button'')
       [At ''type'' (default_to (StrV ''button'') (arg p ''type'')),
        At ''data-size'' (default_to (StrV ''xs'') (arg p ''size'')),
        At ''variant'' (default_to (StrV ''ghost'') (arg p ''variant'')),
        At ''className'' (cn L [cva L inputGroupButtonVariants (attributes [At ''size'' (default_to (StrV ''xs'') (arg p ''size''))]), arg p ''className'']),
        Spread (rest [''className'', ''type'', ''variant'', ''size''] p)]
       []"

definition InputGroupText :: component where
  "InputGroupText L p =
     jsx (Host ''span'')
       [At ''className'' (cn L [StrV ''text-muted-foreground flex items-center gap-2 text-sm [&_svg:not([class*='size-'])]:size-4 [&_svg]:pointer-events-none'', arg p ''className'']),
        Spread (rest [''className''] p)]
       []"

definition InputGroupInput :: component where
  "InputGroupInput L p =
     jsx (Own ''Input'')
       [At ''data-slot'' (StrV ''input-group-control''),
        At ''className'' (cn L [StrV ''flex-1 rounded-none border-0 bg-transparent shadow-none focus-visible:ring-0 dark:bg-transparent'', arg p ''className'']),
        Spread (rest [''className''] p)]
       []"

definition InputGroupTextarea :: component where
  "InputGroupTextarea L p =
     jsx (Own ''Textarea'')
       [At ''data-slot'' (StrV ''input-group-control''),
        At ''className'' (cn L [StrV ''flex-1 resize-none rounded-none border-0 bg-transparent py-3 shadow-none focus-visible:ring-0 dark:bg-transparent'', arg p ''className'']),
        Spread (rest [''className''] p)]
       []"

section \<open>\<open>field.tsx\<close>\<close>

definition FieldSet :: component where
  "FieldSet L p =
     jsx (Host ''fieldset'')
       [At ''data-slot'' (StrV ''field-set''),
        At ''className'' (cn L [StrV ''flex flex-col gap-6'', StrV ''has-[>[data-slot=checkbox-group]]:gap-3 has-[>[data-slot=radio-group]]:gap-3'', arg p ''className'']),
        Spread (rest [''className''] p)]
       []"

definition FieldLegend :: component where
  "FieldLegend L p =
     jsx (Host ''legend'')
       [At ''data-slot'' (StrV ''field-legend''),
        At ''data-variant'' (default_to (StrV ''legend'') (arg p ''variant'')),
        At ''className'' (cn L [StrV ''mb-3 font-medium'', StrV ''data-[variant=legend]:text-base'', StrV ''data-[variant=label]:text-sm'', arg p ''className'']),
        Spread (rest [''className'', ''variant''] p)]
       []"

definition FieldGroup :: component where
  "FieldGroup L p =
     jsx (Host ''div'')
       [At ''data-slot'' (StrV ''field-group''),
        At ''className'' (cn L [StrV ''group/field-group @container/field-group flex w-full flex-col gap-7 data-[slot=checkbox-group]:gap-3 [&>[data-slot=field-group]]:gap-4'', arg p ''className'']),
        Spread (rest [''className''] p)]
       []"

definition fieldVariants :: variants where
  "fieldVariants = \<lparr>
    cva_base = ''group/field data-[invalid=true]:text-destructive flex w-full gap-3'',
    cva_options = [(''orientation'', [(''vertical'', ''flex-col [&>*]:w-full [&>.sr-only]:w-auto''),
        (''horizontal'', ''flex-row items-center [&>[data-slot=field-label]]:flex-auto has-[>[data-slot=field-content]]:[&>[role=checkbox],[role=radio]]:mt-px has-[>[data-slot=field-content]]:items-start''),
        (''responsive'', ''@md/field-group:flex-row @md/field-group:items-center @md/field-group:[&>*]:w-auto flex-col [&>*]:w-full [&>.sr-only]:w-auto @md/field-group:[&>[data-slot=field-label]]:flex-auto @md/field-group:has-[>[data-slot=field-content]]:items-start @md/field-group:has-[>[data-slot=field-content]]:[&>[role=checkbox],[role=radio]]:mt-px'')])],
    cva_defaults = [(''orientation'', ''vertical'')]\<rparr>"

definition Field :: component where
  "Field L p =
     jsx (Host ''div'')
       [At ''role'' (StrV ''group''),
        At ''data-slot'' (StrV ''field''),
        At ''data-orientation'' (default_to (StrV ''vertical'') (arg p ''orientation'')),
        At ''className'' (cn L [cva L fieldVariants (attributes [At ''orientation'' (default_to (StrV ''vertical'') (arg p ''orientation''))]), arg p ''className'']),
        Spread (rest [''className'', ''orientation''] p)]
       []"

definition FieldContent :: component where
  "FieldContent L p =
     jsx (Host ''div'')
       [At ''data-slot'' (StrV ''field-content''),
        At ''className'' (cn L [StrV ''group/field-content flex flex-1 flex-col gap-1.5 leading-snug'', arg p ''className'']),
        Spread (rest [''className''] p)]
       []"

definition FieldLabel :: component where
  "FieldLabel L p =
     jsx (Own ''Label'')
       [At ''data-slot'' (StrV ''field-label''),
        At ''className'' (cn L [StrV ''group/field-label peer/field-label flex w-fit gap-2 leading-snug group-data-[disabled=true]/field:opacity-50'', StrV ''has-[>[data-slot=field]]:w-full has-[>[data-slot=field]]:flex-col has-[>[data-slot=field]]:rounded-md has-[>[data-slot=field]]:border [&>[data-slot=field]]:p-4'', StrV ''has-data-[state=checked]:bg-primary/5 has-data-[state=checked]:border-primary dark:has-data-[state=checked]:bg-primary/10'', arg p ''className'']),
        Spread (rest [''className''] p)]
       []"

definition FieldTitle :: component where
  "FieldTitle L p =
     jsx (Host ''div'')
       [At ''data-slot'' (StrV ''field-label''),
        At ''className'' (cn L [StrV ''flex w-fit items-center gap-2 text-sm font-medium leading-snug group-data-[disabled=true]/field:opacity-50'', arg p ''className'']),
        Spread (rest [''className''] p)]
       []"

definition FieldDescription :: component where
  "FieldDescription L p =
     jsx (Host ''p'')
       [At ''data-slot'' (StrV ''field-description''),
        At ''className'' (cn L [StrV ''text-muted-foreground text-sm font-normal leading-normal group-has-[[data-orientation=horizontal]]/field:text-balance'', StrV ''nth-last-2:-mt-1 last:mt-0 [[data-variant=legend]+&]:-mt-1.5'', StrV ''[&>a:hover]:text-primary [&>a]:underline [&>a]:underline-offset-4'', arg p ''className'']),
        Spread (rest [''className''] p)]
       []"

definition FieldSeparator :: component where
  "FieldSeparator L p =
     jsx (Host ''div'')
       [At ''data-slot'' (StrV ''field-separator''),
        At ''data-content'' (BoolV (\<not> \<not> truthy_ui (arg p ''children''))),
        At ''className'' (cn L [StrV ''relative -my-2 h-5 text-sm group-data-[variant=outline]/field-group:-mb-2'', arg p ''className'']),
        Spread (rest [''children'', ''className''] p)]
       [jsx (Own ''Separator'')
          [At ''className'' (StrV ''absolute inset-0 top-1/2'')]
          [],
        and_also (arg p ''children'') (jsx (Host ''span'')
          [At ''className'' (StrV ''bg-background text-muted-foreground relative mx-auto block w-fit px-2''),
           At ''data-slot'' (StrV ''field-separator-content'')]
          [arg p ''children''])]"

section \<open>\<open>form.tsx\<close>\<close>

definition Form :: utype where
  "Form = Lib ''react-hook-form'' ''FormProvider''"

definition FormField :: component where
  "FormField L p =
     jsx (Provider ''FormFieldContext'')
       [At ''value'' (ObjV (attributes [At ''name'' (member_of (ObjV (rest [] p)) ''name'')]))]
       [jsx (Lib ''react-hook-form'' ''Controller'')
          [Spread (rest [] p)]
          []]"

definition FormItem :: component where
  "FormItem L p =
     (let v_id = foreign L ''React.useId'' [] in
      jsx (Provider ''FormItemContext'')
        [At ''value'' (ObjV (attributes [At ''id'' v_id]))]
        [jsx (Host ''div'')
           [At ''ref'' (arg p ''ref''),
            At ''className'' (cn L [StrV ''space-y-2'', arg p ''className'']),
            Spread (rest [''className'', ''ref''] p)]
           []])"

definition FormLabel_view :: component where
  "FormLabel_view L p =
     (let o1 = foreign L ''useFormField'' [] in
      jsx (Own ''Label'')
        [At ''ref'' (arg p ''ref''),
         At ''className'' (cn L [and_also (member_of o1 ''error'') (StrV ''text-destructive''), arg p ''className'']),
         At ''htmlFor'' (member_of o1 ''formItemId''),
         Spread (rest [''className'', ''ref''] p)]
        [])"

definition FormControl_view :: component where
  "FormControl_view L p =
     (let o1 = foreign L ''useFormField'' [] in
      jsx (Lib ''@radix-ui/react-slot'' ''Slot'')
        [At ''ref'' (arg p ''ref''),
         At ''id'' (member_of o1 ''formItemId''),
         At ''aria-describedby'' (if \<not> truthy_ui (member_of o1 ''error'') then StrV (text_of L (member_of o1 ''formDescriptionId'')) else StrV (text_of L (member_of o1 ''formDescriptionId'') @ '' '' @ text_of L (member_of o1 ''formMessageId''))),
         At ''aria-invalid'' (BoolV (\<not> \<not> truthy_ui (member_of o1 ''error''))),
         Spread (rest [''ref''] p)]
        [])"

definition FormDescription_view :: component where
  "FormDescription_view L p =
     (let o1 = foreign L ''useFormField'' [] in
      jsx (Host ''p'')
        [At ''ref'' (arg p ''ref''),
         At ''id'' (member_of o1 ''formDescriptionId''),
         At ''className'' (cn L [StrV ''text-[0.8rem] text-muted-foreground'', arg p ''className'']),
         Spread (rest [''className'', ''ref''] p)]
        [])"

definition FormMessage_view :: component where
  "FormMessage_view L p =
     (let o1 = foreign L ''useFormField'' [] in
      let v_body = if truthy_ui (member_of o1 ''error'') then foreign L ''String'' [or_given (member_of (member_of o1 ''error'') ''message'') (StrV '''')] else arg p ''children'' in
      if \<not> truthy_ui v_body then
        NullV
      else
        jsx (Host ''p'')
          [At ''ref'' (arg p ''ref''),
           At ''id'' (member_of o1 ''formMessageId''),
           At ''className'' (cn L [StrV ''text-[0.8rem] font-medium text-destructive'', arg p ''className'']),
           Spread (rest [''className'', ''children'', ''ref''] p)]
          [v_body])"

section \<open>\<open>calendar.tsx\<close>\<close>

definition Calendar_Root :: component where
  "Calendar_Root L p =
     jsx (Host ''div'')
       [At ''data-slot'' (StrV ''calendar''),
        At ''ref'' (arg p ''rootRef''),
        At ''className'' (cn L [arg p ''className'']),
        Spread (rest [''className'', ''rootRef''] p)]
       []"

definition Calendar_Chevron :: component where
  "Calendar_Chevron L p =
     (if arg p ''orientation'' = StrV ''left'' then
        jsx (Lib ''lucide-react'' ''ChevronLeftIcon'')
          [At ''className'' (cn L [StrV ''size-4'', arg p ''className'']),
           Spread (rest [''className'', ''orientation''] p)]
          []
      else
        if arg p ''orientation'' = StrV ''right'' then
          jsx (Lib ''lucide-react'' ''ChevronRightIcon'')
            [At ''className'' (cn L [StrV ''size-4'', arg p ''className'']),
             Spread (rest [''className'', ''orientation''] p)]
            []
        else
          jsx (Lib ''lucide-react'' ''ChevronDownIcon'')
            [At ''className'' (cn L [StrV ''size-4'', arg p ''className'']),
             Spread (rest [''className'', ''orientation''] p)]
            [])"

definition Calendar_WeekNumber :: component where
  "Calendar_WeekNumber L p =
     jsx (Host ''td'')
       [Spread (rest [''children''] p)]
       [jsx (Host ''div'')
          [At ''className'' (StrV ''flex size-[--cell-size] items-center justify-center text-center'')]
          [arg p ''children'']]"

definition Calendar :: component where
  "Calendar L p =
     (let v_defaultClassNames = foreign L ''getDefaultClassNames'' [] in
      jsx (Lib ''react-day-picker'' ''DayPicker'')
        [At ''showOutsideDays'' (default_to (BoolV True) (arg p ''showOutsideDays'')),
         At ''className'' (cn L [StrV ''bg-background group/calendar p-3 [--cell-size:2rem] [[data-slot=card-content]_&]:bg-transparent [[data-slot=popover-content]_&]:bg-transparent'', StrV (''rtl:**:[.rdp-button'' @ [CHR 0x5C] @ ''_next>svg]:rotate-180''), StrV (''rtl:**:[.rdp-button'' @ [CHR 0x5C] @ ''_previous>svg]:rotate-180''), arg p ''className'']),
         At ''captionLayout'' (default_to (StrV ''label'') (arg p ''captionLayout'')),
         At ''formatters'' (ObjV (attributes [At ''formatMonthDropdown'' (Closure ''Calendar.formatMonthDropdown'' []), Spread (entries (arg p ''formatters''))])),
         At ''classNames'' (ObjV (attributes [At ''root'' (cn L [StrV ''w-fit'', member_of v_defaultClassNames ''root'']),
              At ''months'' (cn L [StrV ''relative flex flex-col gap-4 md:flex-row'', member_of v_defaultClassNames ''months'']),
              At ''month'' (cn L [StrV ''flex w-full flex-col gap-4'', member_of v_defaultClassNames ''month'']),
              At ''nav'' (cn L [StrV ''absolute inset-x-0 top-0 flex w-full items-center justify-between gap-1'', member_of v_defaultClassNames ''nav'']),
              At ''button_previous'' (cn L [cva L buttonVariants (attributes [At ''variant'' (default_to (StrV ''ghost'') (arg p ''buttonVariant''))]), StrV ''h-[--cell-size] w-[--cell-size] select-none p-0 aria-disabled:opacity-50'', member_of v_defaultClassNames ''button_previous'']),
              At ''button_next'' (cn L [cva L buttonVariants (attributes [At ''variant'' (default_to (StrV ''ghost'') (arg p ''buttonVariant''))]), StrV ''h-[--cell-size] w-[--cell-size] select-none p-0 aria-disabled:opacity-50'', member_of v_defaultClassNames ''button_next'']),
              At ''month_caption'' (cn L [StrV ''flex h-[--cell-size] w-full items-center justify-center px-[--cell-size]'', member_of v_defaultClassNames ''month_caption'']),
              At ''dropdowns'' (cn L [StrV ''flex h-[--cell-size] w-full items-center justify-center gap-1.5 text-sm font-medium'', member_of v_defaultClassNames ''dropdowns'']),
              At ''dropdown_root'' (cn L [StrV ''has-focus:border-ring border-input shadow-xs has-focus:ring-ring/50 has-focus:ring-[3px] relative rounded-md border'', member_of v_defaultClassNames ''dropdown_root'']),
              At ''dropdown'' (cn L [StrV ''bg-popover absolute inset-0 opacity-0'', member_of v_defaultClassNames ''dropdown'']),
              At ''caption_label'' (cn L [StrV ''select-none font-medium'', if default_to (StrV ''label'') (arg p ''captionLayout'') = StrV ''label'' then StrV ''text-sm'' else StrV ''[&>svg]:text-muted-foreground flex h-8 items-center gap-1 rounded-md pl-2 pr-1 text-sm [&>svg]:size-3.5'', member_of v_defaultClassNames ''caption_label'']),
              At ''table'' (StrV ''w-full border-collapse''),
              At ''weekdays'' (cn L [StrV ''flex'', member_of v_defaultClassNames ''weekdays'']),
              At ''weekday'' (cn L [StrV ''text-muted-foreground flex-1 select-none rounded-md text-[0.8rem] font-normal'', member_of v_defaultClassNames ''weekday'']),
              At ''week'' (cn L [StrV ''mt-2 flex w-full'', member_of v_defaultClassNames ''week'']),
              At ''week_number_header'' (cn L [StrV ''w-[--cell-size] select-none'', member_of v_defaultClassNames ''week_number_header'']),
              At ''week_number'' (cn L [StrV ''text-muted-foreground select-none text-[0.8rem]'', member_of v_defaultClassNames ''week_number'']),
              At ''day'' (cn L [StrV ''group/day relative aspect-square h-full w-full select-none p-0 text-center [&:first-child[data-selected=true]_button]:rounded-l-md [&:last-child[data-selected=true]_button]:rounded-r-md'', member_of v_defaultClassNames ''day'']),
              At ''range_start'' (cn L [StrV ''bg-accent rounded-l-md'', member_of v_defaultClassNames ''range_start'']),
              At ''range_middle'' (cn L [StrV ''rounded-none'', member_of v_defaultClassNames ''range_middle'']),
              At ''range_end'' (cn L [StrV ''bg-accent rounded-r-md'', member_of v_defaultClassNames ''range_end'']),
              At ''today'' (cn L [StrV ''bg-accent text-accent-foreground rounded-md data-[selected=true]:rounded-none'', member_of v_defaultClassNames ''today'']),
              At ''outside'' (cn L [StrV ''text-muted-foreground aria-selected:text-muted-foreground'', member_of v_defaultClassNames ''outside'']),
              At ''disabled'' (cn L [StrV ''text-muted-foreground opacity-50'', member_of v_defaultClassNames ''disabled'']),
              At ''hidden'' (cn L [StrV ''invisible'', member_of v_defaultClassNames ''hidden'']),
              Spread (entries (arg p ''classNames''))])),
         At ''components'' (ObjV (attributes [At ''Root'' (KindV (Own ''Calendar.Root'')),
              At ''Chevron'' (KindV (Own ''Calendar.Chevron'')),
              At ''DayButton'' (KindV (Own ''CalendarDayButton'')),
              At ''WeekNumber'' (KindV (Own ''Calendar.WeekNumber'')),
              Spread (entries (arg p ''components''))])),
         Spread (rest [''className'', ''classNames'', ''showOutsideDays'', ''captionLayout'', ''buttonVariant'', ''formatters'', ''components''] p)]
        [])"

definition CalendarDayButton :: component where
  "CalendarDayButton L p =
     (let v_defaultClassNames = foreign L ''getDefaultClassNames'' [] in
      let v_ref = foreign L ''React.useRef'' [NullV] in
      jsx (Own ''Button'')
        [At ''ref'' v_ref,
         At ''variant'' (StrV ''ghost''),
         At ''size'' (StrV ''icon''),
         At ''data-day'' (foreign L ''.toLocaleDateString'' [member_of (arg p ''day'') ''date'']),
         At ''data-selected-single'' (and_also (and_also (and_also (member_of (arg p ''modifiers'') ''selected'') (BoolV (\<not> truthy_ui (member_of (arg p ''modifiers'') ''range_start'')))) (BoolV (\<not> truthy_ui (member_of (arg p ''modifiers'') ''range_end'')))) (BoolV (\<not> truthy_ui (member_of (arg p ''modifiers'') ''range_middle'')))),
         At ''data-range-start'' (member_of (arg p ''modifiers'') ''range_start''),
         At ''data-range-end'' (member_of (arg p ''modifiers'') ''range_end''),
         At ''data-range-middle'' (member_of (arg p ''modifiers'') ''range_middle''),
         At ''className'' (cn L [StrV ''data-[selected-single=true]:bg-primary data-[selected-single=true]:text-primary-foreground data-[range-middle=true]:bg-accent data-[range-middle=true]:text-accent-foreground data-[range-start=true]:bg-primary data-[range-start=true]:text-primary-foreground data-[range-end=true]:bg-primary data-[range-end=true]:text-primary-foreground group-data-[focused=true]/day:border-ring group-data-[focused=true]/day:ring-ring/50 flex aspect-square h-auto w-full min-w-[--cell-size] flex-col gap-1 font-normal leading-none data-[range-end=true]:rounded-md data-[range-middle=true]:rounded-none data-[range-start=true]:rounded-md group-data-[focused=true]/day:relative group-data-[focused=true]/day:z-10 group-data-[focused=true]/day:ring-[3px] [&>span]:text-xs [&>span]:opacity-70'', member_of v_defaultClassNames ''day'', arg p ''className'']),
         Spread (rest [''className'', ''day'', ''modifiers''] p)]
        [])"

end
