(* ===== verification/Ui_Layout_Laws.thy ===== *)
theory Ui_Layout_Laws
  imports Ui_Layout Ui_Laws
begin

text \<open>
  How the components of the theory \<open>Ui_Layout\<close> treat the properties and the classes of their
  callers: the element that receives them, by its place, and the properties a component keeps
  to itself.
\<close>

definition layout_wrappers :: "(component \<times> nat list \<times> string list) list" where
  "layout_wrappers = [
     (AccordionItem, [], [''className'']), (AccordionTrigger, [0], [''className'', ''children'']),
     (AccordionContent, [], [''className'', ''children'']), (TabsList, [], [''className'']),
     (TabsTrigger, [], [''className'']), (TabsContent, [], [''className'']),
     (Table, [0], [''className'']), (TableHeader, [], [''className'']),
     (TableBody, [], [''className'']), (TableFooter, [], [''className'']),
     (TableRow, [], [''className'']), (TableHead, [], [''className'']),
     (TableCell, [], [''className'']), (TableCaption, [], [''className'']),
     (Card, [], [''className'']), (CardHeader, [], [''className'']),
     (CardTitle, [], [''className'']), (CardDescription, [], [''className'']),
     (CardContent, [], [''className'']), (CardFooter, [], [''className'']),
     (Alert, [], [''className'', ''variant'']), (AlertTitle, [], [''className'']),
     (AlertDescription, [], [''className'']), (Breadcrumb, [], []),
     (BreadcrumbList, [], [''className'']), (BreadcrumbItem, [], [''className'']),
     (BreadcrumbLink, [], [''asChild'', ''className'']), (BreadcrumbPage, [], [''className'']),
     (BreadcrumbSeparator, [], [''children'', ''className'']),
     (BreadcrumbEllipsis, [], [''className'', ''children'']), (Pagination, [], [''className'']),
     (PaginationContent, [], [''className'']), (PaginationItem, [], [''className'']),
     (PaginationLink, [], [''className'', ''isActive'', ''size'']),
     (PaginationPrevious, [], [''className'', ''children'']),
     (PaginationNext, [], [''className'', ''children'']),
     (PaginationEllipsis, [], [''className'', ''children'']), (ItemGroup, [], [''className'']),
     (ItemSeparator, [], [''className'']),
     (Item, [], [''className'', ''variant'', ''size'', ''asChild'']),
     (ItemMedia, [], [''className'', ''variant'']), (ItemContent, [], [''className'']),
     (ItemTitle, [], [''className'']), (ItemDescription, [], [''className'']),
     (ItemActions, [], [''className'']), (ItemHeader, [], [''className'']),
     (ItemFooter, [], [''className'']), (Empty, [], [''className'']),
     (EmptyHeader, [], [''className'']), (EmptyMedia, [], [''className'', ''variant'']),
     (EmptyTitle, [], [''className'']), (EmptyDescription, [], [''className'']),
     (EmptyContent, [], [''className'']), (ButtonGroup, [], [''className'', ''orientation'']),
     (ButtonGroupText, [], [''className'', ''asChild'']),
     (ButtonGroupSeparator, [], [''className'']), (InputGroup, [], [''className'']),
     (InputGroupAddon, [], [''className'', ''align'']),
     (InputGroupButton, [], [''className'', ''size'']), (InputGroupText, [], [''className'']),
     (InputGroupInput, [], [''className'']), (InputGroupTextarea, [], [''className'']),
     (FieldSet, [], [''className'']), (FieldLegend, [], [''className'', ''variant'']),
     (FieldGroup, [], [''className'']), (Field, [], [''className'', ''orientation'']),
     (FieldContent, [], [''className'']), (FieldLabel, [], [''className'']),
     (FieldTitle, [], [''className'']), (FieldDescription, [], [''className'']),
     (FieldSeparator, [], [''children'', ''className'']), (FormField, [0], []),
     (FormItem, [0], [''className'']), (FormLabel_view, [], [''className'']),
     (FormControl_view, [], []), (FormDescription_view, [], [''className'']),
     (Calendar, [], [''className'', ''classNames'', ''buttonVariant'', ''formatters'', ''components'']),
     (CalendarDayButton, [], [''className'', ''day'', ''modifiers''])]"

lemma layout_reach:
  "reaches AccordionItem [] [''className'']"
  "reaches AccordionTrigger [0] [''className'', ''children'']"
  "reaches AccordionContent [] [''className'', ''children'']"
  "reaches TabsList [] [''className'']"
  "reaches TabsTrigger [] [''className'']"
  "reaches TabsContent [] [''className'']"
  "reaches Table [0] [''className'']"
  "reaches TableHeader [] [''className'']"
  "reaches TableBody [] [''className'']"
  "reaches TableFooter [] [''className'']"
  "reaches TableRow [] [''className'']"
  "reaches TableHead [] [''className'']"
  "reaches TableCell [] [''className'']"
  "reaches TableCaption [] [''className'']"
  "reaches Card [] [''className'']"
  "reaches CardHeader [] [''className'']"
  "reaches CardTitle [] [''className'']"
  "reaches CardDescription [] [''className'']"
  "reaches CardContent [] [''className'']"
  "reaches CardFooter [] [''className'']"
  "reaches Alert [] [''className'', ''variant'']"
  "reaches AlertTitle [] [''className'']"
  "reaches AlertDescription [] [''className'']"
  "reaches Breadcrumb [] []"
  "reaches BreadcrumbList [] [''className'']"
  "reaches BreadcrumbItem [] [''className'']"
  "reaches BreadcrumbLink [] [''asChild'', ''className'']"
  "reaches BreadcrumbPage [] [''className'']"
  "reaches BreadcrumbSeparator [] [''children'', ''className'']"
  "reaches BreadcrumbEllipsis [] [''className'', ''children'']"
  "reaches Pagination [] [''className'']"
  "reaches PaginationContent [] [''className'']"
  "reaches PaginationItem [] [''className'']"
  "reaches PaginationLink [] [''className'', ''isActive'', ''size'']"
  "reaches PaginationPrevious [] [''className'', ''children'']"
  "reaches PaginationNext [] [''className'', ''children'']"
  "reaches PaginationEllipsis [] [''className'', ''children'']"
  "reaches ItemGroup [] [''className'']"
  "reaches ItemSeparator [] [''className'']"
  "reaches Item [] [''className'', ''variant'', ''size'', ''asChild'']"
  "reaches ItemMedia [] [''className'', ''variant'']"
  "reaches ItemContent [] [''className'']"
  "reaches ItemTitle [] [''className'']"
  "reaches ItemDescription [] [''className'']"
  "reaches ItemActions [] [''className'']"
  "reaches ItemHeader [] [''className'']"
  "reaches ItemFooter [] [''className'']"
  "reaches Empty [] [''className'']"
  "reaches EmptyHeader [] [''className'']"
  "reaches EmptyMedia [] [''className'', ''variant'']"
  "reaches EmptyTitle [] [''className'']"
  "reaches EmptyDescription [] [''className'']"
  "reaches EmptyContent [] [''className'']"
  "reaches ButtonGroup [] [''className'', ''orientation'']"
  "reaches ButtonGroupText [] [''className'', ''asChild'']"
  "reaches ButtonGroupSeparator [] [''className'']"
  "reaches InputGroup [] [''className'']"
  "reaches InputGroupAddon [] [''className'', ''align'']"
  "reaches InputGroupButton [] [''className'', ''size'']"
  "reaches InputGroupText [] [''className'']"
  "reaches InputGroupInput [] [''className'']"
  "reaches InputGroupTextarea [] [''className'']"
  "reaches FieldSet [] [''className'']"
  "reaches FieldLegend [] [''className'', ''variant'']"
  "reaches FieldGroup [] [''className'']"
  "reaches Field [] [''className'', ''orientation'']"
  "reaches FieldContent [] [''className'']"
  "reaches FieldLabel [] [''className'']"
  "reaches FieldTitle [] [''className'']"
  "reaches FieldDescription [] [''className'']"
  "reaches FieldSeparator [] [''children'', ''className'']"
  "reaches FormField [0] []"
  "reaches FormItem [0] [''className'']"
  "reaches FormLabel_view [] [''className'']"
  "reaches FormControl_view [] []"
  "reaches FormDescription_view [] [''className'']"
  "reaches Calendar [] [''className'', ''classNames'', ''buttonVariant'', ''formatters'', ''components'']"
  "reaches CalendarDayButton [] [''className'', ''day'', ''modifiers'']"
  by (rule reachesI, simp add: reach_simps
     AccordionItem_def AccordionTrigger_def AccordionContent_def TabsList_def TabsTrigger_def
     TabsContent_def Table_def TableHeader_def TableBody_def TableFooter_def TableRow_def TableHead_def
     TableCell_def TableCaption_def Card_def CardHeader_def CardTitle_def CardDescription_def
     CardContent_def CardFooter_def Alert_def AlertTitle_def AlertDescription_def Breadcrumb_def
     BreadcrumbList_def BreadcrumbItem_def BreadcrumbLink_def BreadcrumbPage_def
     BreadcrumbSeparator_def BreadcrumbEllipsis_def Pagination_def PaginationContent_def
     PaginationItem_def PaginationLink_def PaginationPrevious_def PaginationNext_def
     PaginationEllipsis_def ItemGroup_def ItemSeparator_def Item_def ItemMedia_def ItemContent_def
     ItemTitle_def ItemDescription_def ItemActions_def ItemHeader_def ItemFooter_def Empty_def
     EmptyHeader_def EmptyMedia_def EmptyTitle_def EmptyDescription_def EmptyContent_def
     ButtonGroup_def ButtonGroupText_def ButtonGroupSeparator_def InputGroup_def InputGroupAddon_def
     InputGroupButton_def InputGroupText_def InputGroupInput_def InputGroupTextarea_def FieldSet_def
     FieldLegend_def FieldGroup_def Field_def FieldContent_def FieldLabel_def FieldTitle_def
     FieldDescription_def FieldSeparator_def FormField_def FormItem_def FormLabel_view_def
     FormControl_view_def FormDescription_view_def Calendar_def CalendarDayButton_def)+

lemma layout_wrappers_reach: "list_all (\<lambda>(C, path, own). reaches C path own) layout_wrappers"
  by (simp only: layout_wrappers_def list.pred_inject prod.case layout_reach simp_thms)

definition layout_styled :: "(component \<times> nat list) list" where
  "layout_styled = [
     (AccordionItem, []), (AccordionTrigger, [0]), (TabsList, []), (TabsTrigger, []),
     (TabsContent, []), (Table, [0]), (TableHeader, []), (TableBody, []), (TableFooter, []),
     (TableRow, []), (TableHead, []), (TableCell, []), (TableCaption, []), (Card, []),
     (CardHeader, []), (CardTitle, []), (CardDescription, []), (CardContent, []), (CardFooter, []),
     (Alert, []), (AlertTitle, []), (AlertDescription, []), (BreadcrumbList, []),
     (BreadcrumbItem, []), (BreadcrumbLink, []), (BreadcrumbPage, []), (BreadcrumbSeparator, []),
     (BreadcrumbEllipsis, []), (Pagination, []), (PaginationContent, []), (PaginationItem, []),
     (PaginationLink, []), (PaginationPrevious, []), (PaginationNext, []),
     (PaginationEllipsis, []), (ItemGroup, []), (ItemSeparator, []), (Item, []), (ItemMedia, []),
     (ItemContent, []), (ItemTitle, []), (ItemDescription, []), (ItemActions, []),
     (ItemHeader, []), (ItemFooter, []), (Empty, []), (EmptyHeader, []), (EmptyMedia, []),
     (EmptyTitle, []), (EmptyDescription, []), (EmptyContent, []), (ButtonGroup, []),
     (ButtonGroupText, []), (ButtonGroupSeparator, []), (InputGroup, []), (InputGroupAddon, []),
     (InputGroupButton, []), (InputGroupText, []), (InputGroupInput, []), (InputGroupTextarea, []),
     (FieldSet, []), (FieldLegend, []), (FieldGroup, []), (Field, []), (FieldContent, []),
     (FieldLabel, []), (FieldTitle, []), (FieldDescription, []), (FieldSeparator, []),
     (FormItem, [0]), (FormLabel_view, []), (FormDescription_view, []), (Calendar, []),
     (CalendarDayButton, [])]"

lemma layout_classes:
  assumes "class_library L"
  shows
    "keeps_classes L AccordionItem []"
    "keeps_classes L AccordionTrigger [0]"
    "keeps_classes L TabsList []"
    "keeps_classes L TabsTrigger []"
    "keeps_classes L TabsContent []"
    "keeps_classes L Table [0]"
    "keeps_classes L TableHeader []"
    "keeps_classes L TableBody []"
    "keeps_classes L TableFooter []"
    "keeps_classes L TableRow []"
    "keeps_classes L TableHead []"
    "keeps_classes L TableCell []"
    "keeps_classes L TableCaption []"
    "keeps_classes L Card []"
    "keeps_classes L CardHeader []"
    "keeps_classes L CardTitle []"
    "keeps_classes L CardDescription []"
    "keeps_classes L CardContent []"
    "keeps_classes L CardFooter []"
    "keeps_classes L Alert []"
    "keeps_classes L AlertTitle []"
    "keeps_classes L AlertDescription []"
    "keeps_classes L BreadcrumbList []"
    "keeps_classes L BreadcrumbItem []"
    "keeps_classes L BreadcrumbLink []"
    "keeps_classes L BreadcrumbPage []"
    "keeps_classes L BreadcrumbSeparator []"
    "keeps_classes L BreadcrumbEllipsis []"
    "keeps_classes L Pagination []"
    "keeps_classes L PaginationContent []"
    "keeps_classes L PaginationItem []"
    "keeps_classes L PaginationLink []"
    "keeps_classes L PaginationPrevious []"
    "keeps_classes L PaginationNext []"
    "keeps_classes L PaginationEllipsis []"
    "keeps_classes L ItemGroup []"
    "keeps_classes L ItemSeparator []"
    "keeps_classes L Item []"
    "keeps_classes L ItemMedia []"
    "keeps_classes L ItemContent []"
    "keeps_classes L ItemTitle []"
    "keeps_classes L ItemDescription []"
    "keeps_classes L ItemActions []"
    "keeps_classes L ItemHeader []"
    "keeps_classes L ItemFooter []"
    "keeps_classes L Empty []"
    "keeps_classes L EmptyHeader []"
    "keeps_classes L EmptyMedia []"
    "keeps_classes L EmptyTitle []"
    "keeps_classes L EmptyDescription []"
    "keeps_classes L EmptyContent []"
    "keeps_classes L ButtonGroup []"
    "keeps_classes L ButtonGroupText []"
    "keeps_classes L ButtonGroupSeparator []"
    "keeps_classes L InputGroup []"
    "keeps_classes L InputGroupAddon []"
    "keeps_classes L InputGroupButton []"
    "keeps_classes L InputGroupText []"
    "keeps_classes L InputGroupInput []"
    "keeps_classes L InputGroupTextarea []"
    "keeps_classes L FieldSet []"
    "keeps_classes L FieldLegend []"
    "keeps_classes L FieldGroup []"
    "keeps_classes L Field []"
    "keeps_classes L FieldContent []"
    "keeps_classes L FieldLabel []"
    "keeps_classes L FieldTitle []"
    "keeps_classes L FieldDescription []"
    "keeps_classes L FieldSeparator []"
    "keeps_classes L FormItem [0]"
    "keeps_classes L FormLabel_view []"
    "keeps_classes L FormDescription_view []"
    "keeps_classes L Calendar []"
    "keeps_classes L CalendarDayButton []"
  by (rule keepsI, simp add: reach_simps cn_def class_library.cn_keeps [OF assms] class_library.cva_keeps [OF assms]
     AccordionItem_def AccordionTrigger_def TabsList_def TabsTrigger_def TabsContent_def Table_def
     TableHeader_def TableBody_def TableFooter_def TableRow_def TableHead_def TableCell_def
     TableCaption_def Card_def CardHeader_def CardTitle_def CardDescription_def CardContent_def
     CardFooter_def Alert_def AlertTitle_def AlertDescription_def BreadcrumbList_def BreadcrumbItem_def
     BreadcrumbLink_def BreadcrumbPage_def BreadcrumbSeparator_def BreadcrumbEllipsis_def
     Pagination_def PaginationContent_def PaginationItem_def PaginationLink_def PaginationPrevious_def
     PaginationNext_def PaginationEllipsis_def ItemGroup_def ItemSeparator_def Item_def ItemMedia_def
     ItemContent_def ItemTitle_def ItemDescription_def ItemActions_def ItemHeader_def ItemFooter_def
     Empty_def EmptyHeader_def EmptyMedia_def EmptyTitle_def EmptyDescription_def EmptyContent_def
     ButtonGroup_def ButtonGroupText_def ButtonGroupSeparator_def InputGroup_def InputGroupAddon_def
     InputGroupButton_def InputGroupText_def InputGroupInput_def InputGroupTextarea_def FieldSet_def
     FieldLegend_def FieldGroup_def Field_def FieldContent_def FieldLabel_def FieldTitle_def
     FieldDescription_def FieldSeparator_def FormItem_def FormLabel_view_def FormDescription_view_def
     Calendar_def CalendarDayButton_def)+

lemma layout_styled_keep:
  assumes "class_library L"
  shows "list_all (\<lambda>(C, path). keeps_classes L C path) layout_styled"
  by (simp only: layout_styled_def list.pred_inject prod.case layout_classes [OF assms] simp_thms)

end
