(* ===== verification/Ui_Frames.thy ===== *)
theory Ui_Frames
  imports Ui_Overlays
begin

text \<open>
  The components of \<open>artifacts/landvault-web/src/components/ui\<close>, file by file: the parts of the carousel and of the sidebar that show what their providers give.
\<close>

section \<open>\<open>carousel.tsx\<close>\<close>

definition CarouselContent :: component where
  "CarouselContent L p =
     (let o1 = foreign L ''useCarousel'' [] in
      jsx (Host ''div'')
        [At ''ref'' (member_of o1 ''carouselRef''),
         At ''className'' (StrV ''overflow-hidden'')]
        [jsx (Host ''div'')
           [At ''ref'' (arg p ''ref''),
            At ''className'' (cn L [StrV ''flex'', if member_of o1 ''orientation'' = StrV ''horizontal'' then StrV ''-ml-4'' else StrV ''-mt-4 flex-col'', arg p ''className'']),
            Spread (rest [''className'', ''ref''] p)]
           []])"

definition CarouselItem :: component where
  "CarouselItem L p =
     (let o1 = foreign L ''useCarousel'' [] in
      jsx (Host ''div'')
        [At ''ref'' (arg p ''ref''),
         At ''role'' (StrV ''group''),
         At ''aria-roledescription'' (StrV ''slide''),
         At ''className'' (cn L [StrV ''min-w-0 shrink-0 grow-0 basis-full'', if member_of o1 ''orientation'' = StrV ''horizontal'' then StrV ''pl-4'' else StrV ''pt-4'', arg p ''className'']),
         Spread (rest [''className'', ''ref''] p)]
        [])"

definition CarouselPrevious_view :: component where
  "CarouselPrevious_view L p =
     (let o1 = foreign L ''useCarousel'' [] in
      jsx (Own ''Button'')
        [At ''ref'' (arg p ''ref''),
         At ''variant'' (default_to (StrV ''outline'') (arg p ''variant'')),
         At ''size'' (default_to (StrV ''icon'') (arg p ''size'')),
         At ''className'' (cn L [StrV ''absolute  h-8 w-8 rounded-full'', if member_of o1 ''orientation'' = StrV ''horizontal'' then StrV ''-left-12 top-1/2 -translate-y-1/2'' else StrV ''-top-12 left-1/2 -translate-x-1/2 rotate-90'', arg p ''className'']),
         At ''disabled'' (BoolV (\<not> truthy_ui (member_of o1 ''canScrollPrev''))),
         At ''onClick'' (member_of o1 ''scrollPrev''),
         Spread (rest [''className'', ''variant'', ''size'', ''ref''] p)]
        [jsx (Lib ''lucide-react'' ''ArrowLeft'')
           [At ''className'' (StrV ''h-4 w-4'')]
           [],
         jsx (Host ''span'')
           [At ''className'' (StrV ''sr-only'')]
           [StrV ''Previous slide'']])"

definition CarouselNext_view :: component where
  "CarouselNext_view L p =
     (let o1 = foreign L ''useCarousel'' [] in
      jsx (Own ''Button'')
        [At ''ref'' (arg p ''ref''),
         At ''variant'' (default_to (StrV ''outline'') (arg p ''variant'')),
         At ''size'' (default_to (StrV ''icon'') (arg p ''size'')),
         At ''className'' (cn L [StrV ''absolute h-8 w-8 rounded-full'', if member_of o1 ''orientation'' = StrV ''horizontal'' then StrV ''-right-12 top-1/2 -translate-y-1/2'' else StrV ''-bottom-12 left-1/2 -translate-x-1/2 rotate-90'', arg p ''className'']),
         At ''disabled'' (BoolV (\<not> truthy_ui (member_of o1 ''canScrollNext''))),
         At ''onClick'' (member_of o1 ''scrollNext''),
         Spread (rest [''className'', ''variant'', ''size'', ''ref''] p)]
        [jsx (Lib ''lucide-react'' ''ArrowRight'')
           [At ''className'' (StrV ''h-4 w-4'')]
           [],
         jsx (Host ''span'')
           [At ''className'' (StrV ''sr-only'')]
           [StrV ''Next slide'']])"

section \<open>\<open>sidebar.tsx\<close>\<close>

definition SIDEBAR_COOKIE_NAME :: uval where
  "SIDEBAR_COOKIE_NAME = StrV ''sidebar_state''"

definition SIDEBAR_WIDTH :: uval where
  "SIDEBAR_WIDTH = StrV ''16rem''"

definition SIDEBAR_WIDTH_MOBILE :: uval where
  "SIDEBAR_WIDTH_MOBILE = StrV ''18rem''"

definition SIDEBAR_WIDTH_ICON :: uval where
  "SIDEBAR_WIDTH_ICON = StrV ''3rem''"

definition SIDEBAR_KEYBOARD_SHORTCUT :: uval where
  "SIDEBAR_KEYBOARD_SHORTCUT = StrV ''b''"

definition Sidebar_view :: component where
  "Sidebar_view L p =
     (let o1 = foreign L ''useSidebar'' [] in
      if default_to (StrV ''offcanvas'') (arg p ''collapsible'') = StrV ''none'' then
        jsx (Host ''div'')
          [At ''data-slot'' (StrV ''sidebar''),
           At ''className'' (cn L [StrV ''bg-sidebar text-sidebar-foreground flex h-full w-[var(--sidebar-width)] flex-col'', arg p ''className'']),
           Spread (rest [''side'', ''variant'', ''collapsible'', ''className'', ''children''] p)]
          [arg p ''children'']
      else
        if truthy_ui (member_of o1 ''isMobile'') then
          jsx (Sheet)
            [At ''open'' (member_of o1 ''openMobile''),
             At ''onOpenChange'' (member_of o1 ''setOpenMobile''),
             Spread (rest [''side'', ''variant'', ''collapsible'', ''className'', ''children''] p)]
            [jsx (Own ''SheetContent'')
               [At ''data-sidebar'' (StrV ''sidebar''),
                At ''data-slot'' (StrV ''sidebar''),
                At ''data-mobile'' (StrV ''true''),
                At ''className'' (StrV ''bg-sidebar text-sidebar-foreground w-[var(--sidebar-width)] p-0 [&>button]:hidden''),
                At ''style'' (ObjV (attributes [At ''--sidebar-width'' SIDEBAR_WIDTH_MOBILE])),
                At ''side'' (default_to (StrV ''left'') (arg p ''side''))]
               [jsx (Own ''SheetHeader'')
                  [At ''className'' (StrV ''sr-only'')]
                  [jsx (Own ''SheetTitle'')
                     []
                     [StrV ''Sidebar''],
                   jsx (Own ''SheetDescription'')
                     []
                     [StrV ''Displays the mobile sidebar.'']],
                jsx (Host ''div'')
                  [At ''className'' (StrV ''flex h-full w-full flex-col'')]
                  [arg p ''children'']]]
        else
          jsx (Host ''div'')
            [At ''className'' (StrV ''group peer text-sidebar-foreground hidden md:block''),
             At ''data-state'' (member_of o1 ''state''),
             At ''data-collapsible'' (if member_of o1 ''state'' = StrV ''collapsed'' then default_to (StrV ''offcanvas'') (arg p ''collapsible'') else StrV ''''),
             At ''data-variant'' (default_to (StrV ''sidebar'') (arg p ''variant'')),
             At ''data-side'' (default_to (StrV ''left'') (arg p ''side'')),
             At ''data-slot'' (StrV ''sidebar'')]
            [jsx (Host ''div'')
               [At ''data-slot'' (StrV ''sidebar-gap''),
                At ''className'' (cn L [StrV ''relative w-[var(--sidebar-width)] bg-transparent transition-[width] duration-200 ease-linear'', StrV ''group-data-[collapsible=offcanvas]:w-0'', StrV ''group-data-[side=right]:rotate-180'', if (default_to (StrV ''sidebar'') (arg p ''variant'') = StrV ''floating'') \<or> (default_to (StrV ''sidebar'') (arg p ''variant'') = StrV ''inset'') then StrV ''group-data-[collapsible=icon]:w-[calc(var(--sidebar-width-icon)+var(--spacing-4))]'' else StrV ''group-data-[collapsible=icon]:w-[var(--sidebar-width-icon)]''])]
               [],
             jsx (Host ''div'')
               [At ''data-slot'' (StrV ''sidebar-container''),
                At ''className'' (cn L [StrV ''fixed inset-y-0 z-10 hidden h-svh w-[var(--sidebar-width)] transition-[left,right,width] duration-200 ease-linear md:flex'', if default_to (StrV ''left'') (arg p ''side'') = StrV ''left'' then StrV ''left-0 group-data-[collapsible=offcanvas]:left-[calc(var(--sidebar-width)*-1)]'' else StrV ''right-0 group-data-[collapsible=offcanvas]:right-[calc(var(--sidebar-width)*-1)]'', if (default_to (StrV ''sidebar'') (arg p ''variant'') = StrV ''floating'') \<or> (default_to (StrV ''sidebar'') (arg p ''variant'') = StrV ''inset'') then StrV ''p-2 group-data-[collapsible=icon]:w-[calc(var(--sidebar-width-icon)+var(--spacing-4)+2px)]'' else StrV ''group-data-[collapsible=icon]:w-[var(--sidebar-width-icon)] group-data-[side=left]:border-r group-data-[side=right]:border-l'', arg p ''className'']),
                Spread (rest [''side'', ''variant'', ''collapsible'', ''className'', ''children''] p)]
               [jsx (Host ''div'')
                  [At ''data-sidebar'' (StrV ''sidebar''),
                   At ''data-slot'' (StrV ''sidebar-inner''),
                   At ''className'' (StrV ''bg-sidebar group-data-[variant=floating]:border-sidebar-border flex h-full w-full flex-col group-data-[variant=floating]:rounded-lg group-data-[variant=floating]:border group-data-[variant=floating]:shadow-sm'')]
                  [arg p ''children'']]])"

definition SidebarTrigger :: component where
  "SidebarTrigger L p =
     (let o1 = foreign L ''useSidebar'' [] in
      jsx (Own ''Button'')
        [At ''data-sidebar'' (StrV ''trigger''),
         At ''data-slot'' (StrV ''sidebar-trigger''),
         At ''variant'' (StrV ''ghost''),
         At ''size'' (StrV ''icon''),
         At ''className'' (cn L [StrV ''h-7 w-7'', arg p ''className'']),
         At ''onClick'' (Closure ''SidebarTrigger.onClick'' [(arg p ''onClick''), (member_of o1 ''toggleSidebar'')]),
         Spread (rest [''className'', ''onClick''] p)]
        [jsx (Lib ''lucide-react'' ''PanelLeftIcon'')
           []
           [],
         jsx (Host ''span'')
           [At ''className'' (StrV ''sr-only'')]
           [StrV ''Toggle Sidebar'']])"

definition SidebarRail :: component where
  "SidebarRail L p =
     (let o1 = foreign L ''useSidebar'' [] in
      jsx (Host ''button'')
        [At ''data-sidebar'' (StrV ''rail''),
         At ''data-slot'' (StrV ''sidebar-rail''),
         At ''aria-label'' (StrV ''Toggle Sidebar''),
         At ''tabIndex'' (NumV (- num_of (NumV 1))),
         At ''onClick'' (member_of o1 ''toggleSidebar''),
         At ''title'' (StrV ''Toggle Sidebar''),
         At ''className'' (cn L [StrV ''hover:after:bg-sidebar-border absolute inset-y-0 z-20 hidden w-4 -translate-x-1/2 transition-all ease-linear group-data-[side=left]:-right-4 group-data-[side=right]:left-0 after:absolute after:inset-y-0 after:left-1/2 after:w-[2px] sm:flex'', StrV ''in-data-[side=left]:cursor-w-resize in-data-[side=right]:cursor-e-resize'', StrV ''[[data-side=left][data-state=collapsed]_&]:cursor-e-resize [[data-side=right][data-state=collapsed]_&]:cursor-w-resize'', StrV ''hover:group-data-[collapsible=offcanvas]:bg-sidebar group-data-[collapsible=offcanvas]:translate-x-0 group-data-[collapsible=offcanvas]:after:left-full'', StrV ''[[data-side=left][data-collapsible=offcanvas]_&]:-right-2'', StrV ''[[data-side=right][data-collapsible=offcanvas]_&]:-left-2'', arg p ''className'']),
         Spread (rest [''className''] p)]
        [])"

definition SidebarInset :: component where
  "SidebarInset L p =
     jsx (Host ''main'')
       [At ''data-slot'' (StrV ''sidebar-inset''),
        At ''className'' (cn L [StrV ''bg-background relative flex w-full flex-1 flex-col'', StrV ''md:peer-data-[variant=inset]:m-2 md:peer-data-[variant=inset]:ml-0 md:peer-data-[variant=inset]:rounded-xl md:peer-data-[variant=inset]:shadow-sm md:peer-data-[variant=inset]:peer-data-[state=collapsed]:ml-2'', arg p ''className'']),
        Spread (rest [''className''] p)]
       []"

definition SidebarInput :: component where
  "SidebarInput L p =
     jsx (Own ''Input'')
       [At ''data-slot'' (StrV ''sidebar-input''),
        At ''data-sidebar'' (StrV ''input''),
        At ''className'' (cn L [StrV ''bg-background h-8 w-full shadow-none'', arg p ''className'']),
        Spread (rest [''className''] p)]
       []"

definition SidebarHeader :: component where
  "SidebarHeader L p =
     jsx (Host ''div'')
       [At ''data-slot'' (StrV ''sidebar-header''),
        At ''data-sidebar'' (StrV ''header''),
        At ''className'' (cn L [StrV ''flex flex-col gap-2 p-2'', arg p ''className'']),
        Spread (rest [''className''] p)]
       []"

definition SidebarFooter :: component where
  "SidebarFooter L p =
     jsx (Host ''div'')
       [At ''data-slot'' (StrV ''sidebar-footer''),
        At ''data-sidebar'' (StrV ''footer''),
        At ''className'' (cn L [StrV ''flex flex-col gap-2 p-2'', arg p ''className'']),
        Spread (rest [''className''] p)]
       []"

definition SidebarSeparator :: component where
  "SidebarSeparator L p =
     jsx (Own ''Separator'')
       [At ''data-slot'' (StrV ''sidebar-separator''),
        At ''data-sidebar'' (StrV ''separator''),
        At ''className'' (cn L [StrV ''bg-sidebar-border mx-2 w-auto'', arg p ''className'']),
        Spread (rest [''className''] p)]
       []"

definition SidebarContent :: component where
  "SidebarContent L p =
     jsx (Host ''div'')
       [At ''data-slot'' (StrV ''sidebar-content''),
        At ''data-sidebar'' (StrV ''content''),
        At ''className'' (cn L [StrV ''flex min-h-0 flex-1 flex-col gap-2 overflow-auto group-data-[collapsible=icon]:overflow-hidden'', arg p ''className'']),
        Spread (rest [''className''] p)]
       []"

definition SidebarGroup :: component where
  "SidebarGroup L p =
     jsx (Host ''div'')
       [At ''data-slot'' (StrV ''sidebar-group''),
        At ''data-sidebar'' (StrV ''group''),
        At ''className'' (cn L [StrV ''relative flex w-full min-w-0 flex-col p-2'', arg p ''className'']),
        Spread (rest [''className''] p)]
       []"

definition SidebarGroupLabel :: component where
  "SidebarGroupLabel L p =
     jsx (if truthy_ui (default_to (BoolV False) (arg p ''asChild'')) then Lib ''@radix-ui/react-slot'' ''Slot'' else Host ''div'')
       [At ''data-slot'' (StrV ''sidebar-group-label''),
        At ''data-sidebar'' (StrV ''group-label''),
        At ''className'' (cn L [StrV ''text-sidebar-foreground/70 ring-sidebar-ring flex h-8 shrink-0 items-center rounded-md px-2 text-xs font-medium outline-hidden transition-[margin,opacity] duration-200 ease-linear focus-visible:ring-2 [&>svg]:h-4 [&>svg]:w-4 [&>svg]:shrink-0'', StrV ''group-data-[collapsible=icon]:-mt-8 group-data-[collapsible=icon]:opacity-0'', arg p ''className'']),
        Spread (rest [''className'', ''asChild''] p)]
       []"

definition SidebarGroupAction :: component where
  "SidebarGroupAction L p =
     jsx (if truthy_ui (default_to (BoolV False) (arg p ''asChild'')) then Lib ''@radix-ui/react-slot'' ''Slot'' else Host ''button'')
       [At ''data-slot'' (StrV ''sidebar-group-action''),
        At ''data-sidebar'' (StrV ''group-action''),
        At ''className'' (cn L [StrV ''text-sidebar-foreground ring-sidebar-ring hover:bg-sidebar-accent hover:text-sidebar-accent-foreground absolute top-3.5 right-3 flex aspect-square w-5 items-center justify-center rounded-md p-0 outline-hidden transition-transform focus-visible:ring-2 [&>svg]:size-4 [&>svg]:shrink-0'', StrV ''after:absolute after:-inset-2 md:after:hidden'', StrV ''group-data-[collapsible=icon]:hidden'', arg p ''className'']),
        Spread (rest [''className'', ''asChild''] p)]
       []"

definition SidebarGroupContent :: component where
  "SidebarGroupContent L p =
     jsx (Host ''div'')
       [At ''data-slot'' (StrV ''sidebar-group-content''),
        At ''data-sidebar'' (StrV ''group-content''),
        At ''className'' (cn L [StrV ''w-full text-sm'', arg p ''className'']),
        Spread (rest [''className''] p)]
       []"

definition SidebarMenu :: component where
  "SidebarMenu L p =
     jsx (Host ''ul'')
       [At ''data-slot'' (StrV ''sidebar-menu''),
        At ''data-sidebar'' (StrV ''menu''),
        At ''className'' (cn L [StrV ''flex w-full min-w-0 flex-col gap-1'', arg p ''className'']),
        Spread (rest [''className''] p)]
       []"

definition SidebarMenuItem :: component where
  "SidebarMenuItem L p =
     jsx (Host ''li'')
       [At ''data-slot'' (StrV ''sidebar-menu-item''),
        At ''data-sidebar'' (StrV ''menu-item''),
        At ''className'' (cn L [StrV ''group/menu-item relative'', arg p ''className'']),
        Spread (rest [''className''] p)]
       []"

definition sidebarMenuButtonVariants :: variants where
  "sidebarMenuButtonVariants = \<lparr>
    cva_base = ''peer/menu-button flex w-full items-center gap-2 overflow-hidden rounded-md p-2 text-left text-sm outline-hidden ring-sidebar-ring transition-[width,height,padding] hover:bg-sidebar-accent hover:text-sidebar-accent-foreground focus-visible:ring-2 active:bg-sidebar-accent active:text-sidebar-accent-foreground disabled:pointer-events-none disabled:opacity-50 group-has-data-[sidebar=menu-action]/menu-item:pr-8 aria-disabled:pointer-events-none aria-disabled:opacity-50 data-[active=true]:bg-sidebar-accent data-[active=true]:font-medium data-[active=true]:text-sidebar-accent-foreground data-[state=open]:hover:bg-sidebar-accent data-[state=open]:hover:text-sidebar-accent-foreground group-data-[collapsible=icon]:w-8! group-data-[collapsible=icon]:h-8! group-data-[collapsible=icon]:p-2! [&>span:last-child]:truncate [&>svg]:size-4 [&>svg]:shrink-0'',
    cva_options = [(''variant'', [(''default'', ''hover:bg-sidebar-accent hover:text-sidebar-accent-foreground''),
        (''outline'', ''bg-background shadow-[0_0_0_1px_hsl(var(--sidebar-border))] hover:bg-sidebar-accent hover:text-sidebar-accent-foreground hover:shadow-[0_0_0_1px_hsl(var(--sidebar-accent))]'')]),
      (''size'', [(''default'', ''h-8 text-sm''),
        (''sm'', ''h-7 text-xs''),
        (''lg'', ''h-12 text-sm group-data-[collapsible=icon]:p-0!'')])],
    cva_defaults = [(''variant'', ''default''), (''size'', ''default'')]\<rparr>"

definition SidebarMenuButton :: component where
  "SidebarMenuButton L p =
     (let o1 = foreign L ''useSidebar'' [] in
      let v_button = jsx (if truthy_ui (default_to (BoolV False) (arg p ''asChild'')) then Lib ''@radix-ui/react-slot'' ''Slot'' else Host ''button'')
        [At ''data-slot'' (StrV ''sidebar-menu-button''),
         At ''data-sidebar'' (StrV ''menu-button''),
         At ''data-size'' (default_to (StrV ''default'') (arg p ''size'')),
         At ''data-active'' (default_to (BoolV False) (arg p ''isActive'')),
         At ''className'' (cn L [cva L sidebarMenuButtonVariants (attributes [At ''variant'' (default_to (StrV ''default'') (arg p ''variant'')), At ''size'' (default_to (StrV ''default'') (arg p ''size''))]), arg p ''className'']),
         Spread (rest [''asChild'', ''isActive'', ''variant'', ''size'', ''tooltip'', ''className''] p)]
        [] in
      if \<not> truthy_ui (arg p ''tooltip'') then
        v_button
      else
        let v_tooltip = (if StrV (type_of (arg p ''tooltip'')) = StrV ''string'' then ObjV (attributes [At ''children'' (arg p ''tooltip'')]) else (arg p ''tooltip'')) in
        jsx (Tooltip)
          []
          [jsx (TooltipTrigger)
             [At ''asChild'' (BoolV True)]
             [v_button],
           jsx (Own ''TooltipContent'')
             [At ''side'' (StrV ''right''),
              At ''align'' (StrV ''center''),
              At ''hidden'' (or_try (BoolV ((member_of o1 ''state'') \<noteq> (StrV ''collapsed''))) (member_of o1 ''isMobile'')),
              Spread (entries v_tooltip)]
             []])"

definition SidebarMenuAction :: component where
  "SidebarMenuAction L p =
     jsx (if truthy_ui (default_to (BoolV False) (arg p ''asChild'')) then Lib ''@radix-ui/react-slot'' ''Slot'' else Host ''button'')
       [At ''data-slot'' (StrV ''sidebar-menu-action''),
        At ''data-sidebar'' (StrV ''menu-action''),
        At ''className'' (cn L [StrV ''text-sidebar-foreground ring-sidebar-ring hover:bg-sidebar-accent hover:text-sidebar-accent-foreground peer-hover/menu-button:text-sidebar-accent-foreground absolute top-1.5 right-1 flex aspect-square w-5 items-center justify-center rounded-md p-0 outline-hidden transition-transform focus-visible:ring-2 [&>svg]:size-4 [&>svg]:shrink-0'', StrV ''after:absolute after:-inset-2 md:after:hidden'', StrV ''peer-data-[size=sm]/menu-button:top-1'', StrV ''peer-data-[size=default]/menu-button:top-1.5'', StrV ''peer-data-[size=lg]/menu-button:top-2.5'', StrV ''group-data-[collapsible=icon]:hidden'', and_also (default_to (BoolV False) (arg p ''showOnHover'')) (StrV ''peer-data-[active=true]/menu-button:text-sidebar-accent-foreground group-focus-within/menu-item:opacity-100 group-hover/menu-item:opacity-100 data-[state=open]:opacity-100 md:opacity-0''), arg p ''className'']),
        Spread (rest [''className'', ''asChild'', ''showOnHover''] p)]
       []"

definition SidebarMenuBadge :: component where
  "SidebarMenuBadge L p =
     jsx (Host ''div'')
       [At ''data-slot'' (StrV ''sidebar-menu-badge''),
        At ''data-sidebar'' (StrV ''menu-badge''),
        At ''className'' (cn L [StrV ''text-sidebar-foreground pointer-events-none absolute right-1 flex h-5 min-w-5 items-center justify-center rounded-md px-1 text-xs font-medium tabular-nums select-none'', StrV ''peer-hover/menu-button:text-sidebar-accent-foreground peer-data-[active=true]/menu-button:text-sidebar-accent-foreground'', StrV ''peer-data-[size=sm]/menu-button:top-1'', StrV ''peer-data-[size=default]/menu-button:top-1.5'', StrV ''peer-data-[size=lg]/menu-button:top-2.5'', StrV ''group-data-[collapsible=icon]:hidden'', arg p ''className'']),
        Spread (rest [''className''] p)]
       []"

definition SidebarMenuSkeleton :: component where
  "SidebarMenuSkeleton L p =
     (let v_width = StrV (text_of L (plus L (foreign L ''Math.floor'' [times_ui (foreign L ''Math.random'' []) (NumV 40)]) (NumV 50)) @ ''%'') in
      jsx (Host ''div'')
        [At ''data-slot'' (StrV ''sidebar-menu-skeleton''),
         At ''data-sidebar'' (StrV ''menu-skeleton''),
         At ''className'' (cn L [StrV ''flex h-8 items-center gap-2 rounded-md px-2'', arg p ''className'']),
         Spread (rest [''className'', ''showIcon''] p)]
        [and_also (default_to (BoolV False) (arg p ''showIcon'')) (jsx (Own ''Skeleton'')
           [At ''className'' (StrV ''size-4 rounded-md''),
            At ''data-sidebar'' (StrV ''menu-skeleton-icon'')]
           []),
         jsx (Own ''Skeleton'')
           [At ''className'' (StrV ''h-4 max-w-[var(--skeleton-width)] flex-1''),
            At ''data-sidebar'' (StrV ''menu-skeleton-text''),
            At ''style'' (ObjV (attributes [At ''--skeleton-width'' v_width]))]
           []])"

definition SidebarMenuSub :: component where
  "SidebarMenuSub L p =
     jsx (Host ''ul'')
       [At ''data-slot'' (StrV ''sidebar-menu-sub''),
        At ''data-sidebar'' (StrV ''menu-sub''),
        At ''className'' (cn L [StrV ''border-sidebar-border mx-3.5 flex min-w-0 translate-x-px flex-col gap-1 border-l px-2.5 py-0.5'', StrV ''group-data-[collapsible=icon]:hidden'', arg p ''className'']),
        Spread (rest [''className''] p)]
       []"

definition SidebarMenuSubItem :: component where
  "SidebarMenuSubItem L p =
     jsx (Host ''li'')
       [At ''data-slot'' (StrV ''sidebar-menu-sub-item''),
        At ''data-sidebar'' (StrV ''menu-sub-item''),
        At ''className'' (cn L [StrV ''group/menu-sub-item relative'', arg p ''className'']),
        Spread (rest [''className''] p)]
       []"

definition SidebarMenuSubButton :: component where
  "SidebarMenuSubButton L p =
     jsx (if truthy_ui (default_to (BoolV False) (arg p ''asChild'')) then Lib ''@radix-ui/react-slot'' ''Slot'' else Host ''a'')
       [At ''data-slot'' (StrV ''sidebar-menu-sub-button''),
        At ''data-sidebar'' (StrV ''menu-sub-button''),
        At ''data-size'' (default_to (StrV ''md'') (arg p ''size'')),
        At ''data-active'' (default_to (BoolV False) (arg p ''isActive'')),
        At ''className'' (cn L [StrV ''text-sidebar-foreground ring-sidebar-ring hover:bg-sidebar-accent hover:text-sidebar-accent-foreground active:bg-sidebar-accent active:text-sidebar-accent-foreground [&>svg]:text-sidebar-accent-foreground flex h-7 min-w-0 -translate-x-px items-center gap-2 overflow-hidden rounded-md px-2 outline outline-2 outline-transparent outline-offset-2 focus-visible:ring-2 disabled:pointer-events-none disabled:opacity-50 aria-disabled:pointer-events-none aria-disabled:opacity-50 [&>span:last-child]:truncate [&>svg]:size-4 [&>svg]:shrink-0'', StrV ''data-[active=true]:bg-sidebar-accent data-[active=true]:text-sidebar-accent-foreground'', and_also (BoolV ((default_to (StrV ''md'') (arg p ''size'')) = (StrV ''sm''))) (StrV ''text-xs''), and_also (BoolV ((default_to (StrV ''md'') (arg p ''size'')) = (StrV ''md''))) (StrV ''text-sm''), StrV ''group-data-[collapsible=icon]:hidden'', arg p ''className'']),
        Spread (rest [''asChild'', ''size'', ''isActive'', ''className''] p)]
       []"

end
