(* ===== verification/Ui_Frames_Laws.thy ===== *)
theory Ui_Frames_Laws
  imports Ui_Frames Ui_Laws
begin

text \<open>
  How the components of the theory \<open>Ui_Frames\<close> treat the properties and the classes of their
  callers: the element that receives them, by its place, and the properties a component keeps
  to itself.
\<close>

definition frames_wrappers :: "(component \<times> nat list \<times> string list) list" where
  "frames_wrappers = [
     (CarouselContent, [0], [''className'']), (CarouselItem, [], [''className'']),
     (CarouselPrevious_view, [], [''className'', ''children'']),
     (CarouselNext_view, [], [''className'', ''children'']),
     (SidebarTrigger, [], [''className'', ''onClick'', ''children'']),
     (SidebarRail, [], [''className'']), (SidebarInset, [], [''className'']),
     (SidebarInput, [], [''className'']), (SidebarHeader, [], [''className'']),
     (SidebarFooter, [], [''className'']), (SidebarSeparator, [], [''className'']),
     (SidebarContent, [], [''className'']), (SidebarGroup, [], [''className'']),
     (SidebarGroupLabel, [], [''className'', ''asChild'']),
     (SidebarGroupAction, [], [''className'', ''asChild'']),
     (SidebarGroupContent, [], [''className'']), (SidebarMenu, [], [''className'']),
     (SidebarMenuItem, [], [''className'']),
     (SidebarMenuAction, [], [''className'', ''asChild'', ''showOnHover'']),
     (SidebarMenuBadge, [], [''className'']),
     (SidebarMenuSkeleton, [], [''className'', ''showIcon'', ''children'']),
     (SidebarMenuSub, [], [''className'']), (SidebarMenuSubItem, [], [''className'']),
     (SidebarMenuSubButton, [], [''asChild'', ''size'', ''isActive'', ''className''])]"

lemma frames_reach:
  "reaches CarouselContent [0] [''className'']"
  "reaches CarouselItem [] [''className'']"
  "reaches CarouselPrevious_view [] [''className'', ''children'']"
  "reaches CarouselNext_view [] [''className'', ''children'']"
  "reaches SidebarTrigger [] [''className'', ''onClick'', ''children'']"
  "reaches SidebarRail [] [''className'']"
  "reaches SidebarInset [] [''className'']"
  "reaches SidebarInput [] [''className'']"
  "reaches SidebarHeader [] [''className'']"
  "reaches SidebarFooter [] [''className'']"
  "reaches SidebarSeparator [] [''className'']"
  "reaches SidebarContent [] [''className'']"
  "reaches SidebarGroup [] [''className'']"
  "reaches SidebarGroupLabel [] [''className'', ''asChild'']"
  "reaches SidebarGroupAction [] [''className'', ''asChild'']"
  "reaches SidebarGroupContent [] [''className'']"
  "reaches SidebarMenu [] [''className'']"
  "reaches SidebarMenuItem [] [''className'']"
  "reaches SidebarMenuAction [] [''className'', ''asChild'', ''showOnHover'']"
  "reaches SidebarMenuBadge [] [''className'']"
  "reaches SidebarMenuSkeleton [] [''className'', ''showIcon'', ''children'']"
  "reaches SidebarMenuSub [] [''className'']"
  "reaches SidebarMenuSubItem [] [''className'']"
  "reaches SidebarMenuSubButton [] [''asChild'', ''size'', ''isActive'', ''className'']"
  by (rule reachesI, simp add: reach_simps
     CarouselContent_def CarouselItem_def CarouselPrevious_view_def CarouselNext_view_def
     SidebarTrigger_def SidebarRail_def SidebarInset_def SidebarInput_def SidebarHeader_def
     SidebarFooter_def SidebarSeparator_def SidebarContent_def SidebarGroup_def SidebarGroupLabel_def
     SidebarGroupAction_def SidebarGroupContent_def SidebarMenu_def SidebarMenuItem_def
     SidebarMenuAction_def SidebarMenuBadge_def SidebarMenuSkeleton_def SidebarMenuSub_def
     SidebarMenuSubItem_def SidebarMenuSubButton_def)+

lemma frames_wrappers_reach: "list_all (\<lambda>(C, path, own). reaches C path own) frames_wrappers"
  by (simp only: frames_wrappers_def list.pred_inject prod.case frames_reach simp_thms)

definition frames_styled :: "(component \<times> nat list) list" where
  "frames_styled = [
     (CarouselContent, [0]), (CarouselItem, []), (CarouselPrevious_view, []),
     (CarouselNext_view, []), (SidebarTrigger, []), (SidebarRail, []), (SidebarInset, []),
     (SidebarInput, []), (SidebarHeader, []), (SidebarFooter, []), (SidebarSeparator, []),
     (SidebarContent, []), (SidebarGroup, []), (SidebarGroupLabel, []), (SidebarGroupAction, []),
     (SidebarGroupContent, []), (SidebarMenu, []), (SidebarMenuItem, []), (SidebarMenuAction, []),
     (SidebarMenuBadge, []), (SidebarMenuSkeleton, []), (SidebarMenuSub, []),
     (SidebarMenuSubItem, []), (SidebarMenuSubButton, [])]"

lemma frames_classes:
  assumes "class_library L"
  shows
    "keeps_classes L CarouselContent [0]"
    "keeps_classes L CarouselItem []"
    "keeps_classes L CarouselPrevious_view []"
    "keeps_classes L CarouselNext_view []"
    "keeps_classes L SidebarTrigger []"
    "keeps_classes L SidebarRail []"
    "keeps_classes L SidebarInset []"
    "keeps_classes L SidebarInput []"
    "keeps_classes L SidebarHeader []"
    "keeps_classes L SidebarFooter []"
    "keeps_classes L SidebarSeparator []"
    "keeps_classes L SidebarContent []"
    "keeps_classes L SidebarGroup []"
    "keeps_classes L SidebarGroupLabel []"
    "keeps_classes L SidebarGroupAction []"
    "keeps_classes L SidebarGroupContent []"
    "keeps_classes L SidebarMenu []"
    "keeps_classes L SidebarMenuItem []"
    "keeps_classes L SidebarMenuAction []"
    "keeps_classes L SidebarMenuBadge []"
    "keeps_classes L SidebarMenuSkeleton []"
    "keeps_classes L SidebarMenuSub []"
    "keeps_classes L SidebarMenuSubItem []"
    "keeps_classes L SidebarMenuSubButton []"
  by (rule keepsI, simp add: reach_simps cn_def class_library.cn_keeps [OF assms] class_library.cva_keeps [OF assms]
     CarouselContent_def CarouselItem_def CarouselPrevious_view_def CarouselNext_view_def
     SidebarTrigger_def SidebarRail_def SidebarInset_def SidebarInput_def SidebarHeader_def
     SidebarFooter_def SidebarSeparator_def SidebarContent_def SidebarGroup_def SidebarGroupLabel_def
     SidebarGroupAction_def SidebarGroupContent_def SidebarMenu_def SidebarMenuItem_def
     SidebarMenuAction_def SidebarMenuBadge_def SidebarMenuSkeleton_def SidebarMenuSub_def
     SidebarMenuSubItem_def SidebarMenuSubButton_def)+

lemma frames_styled_keep:
  assumes "class_library L"
  shows "list_all (\<lambda>(C, path). keeps_classes L C path) frames_styled"
  by (simp only: frames_styled_def list.pred_inject prod.case frames_classes [OF assms] simp_thms)

end
