(* ===== verification/Mockup_Controls.thy ===== *)
theory Mockup_Controls
  imports Ui_Element
begin

text \<open>
  The components of \<open>artifacts/mockup-sandbox/src/components/ui\<close>, file by file: controls and marks: buttons, inputs, toggles, progress, avatars, badges.
\<close>

section \<open>\<open>button.tsx\<close>\<close>

definition mockup_buttonVariants :: variants where
  "mockup_buttonVariants = \<lparr>
    cva_base = ''inline-flex items-center justify-center gap-2 whitespace-nowrap rounded-md text-sm font-medium transition-colors focus-visible:outline-none focus-visible:ring-1 focus-visible:ring-ring disabled:pointer-events-none disabled:opacity-50 [&_svg]:pointer-events-none [&_svg]:size-4 [&_svg]:shrink-0 hover-elevate active-elevate-2'',
    cva_options = [(''variant'', [(''default'', ''bg-primary text-primary-foreground border border-primary-border''),
        (''destructive'', ''bg-destructive text-destructive-foreground shadow-sm border-destructive-border''),
        (''outline'', ''border [border-color:var(--button-outline)] shadow-xs active:shadow-none''),
        (''secondary'', ''border bg-secondary text-secondary-foreground border border-secondary-border''),
        (''ghost'', ''border border-transparent''),
        (''link'', ''text-primary underline-offset-4 hover:underline'')]),
      (''size'', [(''default'', ''min-h-9 px-4 py-2''),
        (''sm'', ''min-h-8 rounded-md px-3 text-xs''),
        (''lg'', ''min-h-10 rounded-md px-8''),
        (''icon'', ''h-9 w-9'')])],
    cva_defaults = [(''variant'', ''default''), (''size'', ''default'')]\<rparr>"

definition mockup_Button :: component where
  "mockup_Button L p =
     jsx (if truthy_ui (default_to (BoolV False) (arg p ''asChild'')) then Lib ''@radix-ui/react-slot'' ''Slot'' else Host ''button'')
       [At ''className'' (cn L [cva L mockup_buttonVariants (attributes [At ''variant'' (arg p ''variant''), At ''size'' (arg p ''size''), At ''className'' (arg p ''className'')])]),
        At ''ref'' (arg p ''ref''),
        Spread (rest [''className'', ''variant'', ''size'', ''asChild'', ''ref''] p)]
       []"

section \<open>\<open>input.tsx\<close>\<close>

definition mockup_Input :: component where
  "mockup_Input L p =
     jsx (Host ''input'')
       [At ''type'' (arg p ''type''),
        At ''className'' (cn L [StrV ''flex h-9 w-full rounded-md border border-input bg-transparent px-3 py-1 text-base shadow-sm transition-colors file:border-0 file:bg-transparent file:text-sm file:font-medium file:text-foreground placeholder:text-muted-foreground focus-visible:outline-none focus-visible:ring-1 focus-visible:ring-ring disabled:cursor-not-allowed disabled:opacity-50 md:text-sm'', arg p ''className'']),
        At ''ref'' (arg p ''ref''),
        Spread (rest [''className'', ''type'', ''ref''] p)]
       []"

section \<open>\<open>label.tsx\<close>\<close>

definition mockup_labelVariants :: variants where
  "mockup_labelVariants = \<lparr>
    cva_base = ''text-sm font-medium leading-none peer-disabled:cursor-not-allowed peer-disabled:opacity-70'',
    cva_options = [],
    cva_defaults = []\<rparr>"

definition mockup_Label :: component where
  "mockup_Label L p =
     jsx (Lib ''@radix-ui/react-label'' ''Root'')
       [At ''ref'' (arg p ''ref''),
        At ''className'' (cn L [cva L mockup_labelVariants [], arg p ''className'']),
        Spread (rest [''className'', ''ref''] p)]
       []"

section \<open>\<open>textarea.tsx\<close>\<close>

definition mockup_Textarea :: component where
  "mockup_Textarea L p =
     jsx (Host ''textarea'')
       [At ''className'' (cn L [StrV ''flex min-h-[60px] w-full rounded-md border border-input bg-transparent px-3 py-2 text-base shadow-sm placeholder:text-muted-foreground focus-visible:outline-none focus-visible:ring-1 focus-visible:ring-ring disabled:cursor-not-allowed disabled:opacity-50 md:text-sm'', arg p ''className'']),
        At ''ref'' (arg p ''ref''),
        Spread (rest [''className'', ''ref''] p)]
       []"

section \<open>\<open>checkbox.tsx\<close>\<close>

definition mockup_Checkbox :: component where
  "mockup_Checkbox L p =
     jsx (Lib ''@radix-ui/react-checkbox'' ''Root'')
       [At ''ref'' (arg p ''ref''),
        At ''className'' (cn L [StrV ''grid place-content-center peer h-4 w-4 shrink-0 rounded-sm border border-primary shadow focus-visible:outline-none focus-visible:ring-1 focus-visible:ring-ring disabled:cursor-not-allowed disabled:opacity-50 data-[state=checked]:bg-primary data-[state=checked]:text-primary-foreground'', arg p ''className'']),
        Spread (rest [''className'', ''ref''] p)]
       [jsx (Lib ''@radix-ui/react-checkbox'' ''Indicator'')
          [At ''className'' (cn L [StrV ''grid place-content-center text-current''])]
          [jsx (Lib ''lucide-react'' ''Check'')
             [At ''className'' (StrV ''h-4 w-4'')]
             []]]"

section \<open>\<open>switch.tsx\<close>\<close>

definition mockup_Switch :: component where
  "mockup_Switch L p =
     jsx (Lib ''@radix-ui/react-switch'' ''Root'')
       [At ''className'' (cn L [StrV ''peer inline-flex h-5 w-9 shrink-0 cursor-pointer items-center rounded-full border-2 border-transparent shadow-sm transition-colors focus-visible:outline-none focus-visible:ring-2 focus-visible:ring-ring focus-visible:ring-offset-2 focus-visible:ring-offset-background disabled:cursor-not-allowed disabled:opacity-50 data-[state=checked]:bg-primary data-[state=unchecked]:bg-input'', arg p ''className'']),
        Spread (rest [''className'', ''ref''] p),
        At ''ref'' (arg p ''ref'')]
       [jsx (Lib ''@radix-ui/react-switch'' ''Thumb'')
          [At ''className'' (cn L [StrV ''pointer-events-none block h-4 w-4 rounded-full bg-background shadow-lg ring-0 transition-transform data-[state=checked]:translate-x-4 data-[state=unchecked]:translate-x-0''])]
          []]"

section \<open>\<open>slider.tsx\<close>\<close>

definition mockup_Slider :: component where
  "mockup_Slider L p =
     jsx (Lib ''@radix-ui/react-slider'' ''Root'')
       [At ''ref'' (arg p ''ref''),
        At ''className'' (cn L [StrV ''relative flex w-full touch-none select-none items-center'', arg p ''className'']),
        Spread (rest [''className'', ''ref''] p)]
       [jsx (Lib ''@radix-ui/react-slider'' ''Track'')
          [At ''className'' (StrV ''relative h-1.5 w-full grow overflow-hidden rounded-full bg-primary/20'')]
          [jsx (Lib ''@radix-ui/react-slider'' ''Range'')
             [At ''className'' (StrV ''absolute h-full bg-primary'')]
             []],
        jsx (Lib ''@radix-ui/react-slider'' ''Thumb'')
          [At ''className'' (StrV ''block h-4 w-4 rounded-full border border-primary/50 bg-background shadow transition-colors focus-visible:outline-none focus-visible:ring-1 focus-visible:ring-ring disabled:pointer-events-none disabled:opacity-50'')]
          []]"

section \<open>\<open>radio-group.tsx\<close>\<close>

definition mockup_RadioGroup :: component where
  "mockup_RadioGroup L p =
     jsx (Lib ''@radix-ui/react-radio-group'' ''Root'')
       [At ''className'' (cn L [StrV ''grid gap-2'', arg p ''className'']),
        Spread (rest [''className'', ''ref''] p),
        At ''ref'' (arg p ''ref'')]
       []"

definition mockup_RadioGroupItem :: component where
  "mockup_RadioGroupItem L p =
     jsx (Lib ''@radix-ui/react-radio-group'' ''Item'')
       [At ''ref'' (arg p ''ref''),
        At ''className'' (cn L [StrV ''aspect-square h-4 w-4 rounded-full border border-primary text-primary shadow focus:outline-none focus-visible:ring-1 focus-visible:ring-ring disabled:cursor-not-allowed disabled:opacity-50'', arg p ''className'']),
        Spread (rest [''className'', ''ref''] p)]
       [jsx (Lib ''@radix-ui/react-radio-group'' ''Indicator'')
          [At ''className'' (StrV ''flex items-center justify-center'')]
          [jsx (Lib ''lucide-react'' ''Circle'')
             [At ''className'' (StrV ''h-3.5 w-3.5 fill-primary'')]
             []]]"

section \<open>\<open>toggle.tsx\<close>\<close>

definition mockup_toggleVariants :: variants where
  "mockup_toggleVariants = \<lparr>
    cva_base = ''inline-flex items-center justify-center gap-2 rounded-md text-sm font-medium transition-colors hover:bg-muted hover:text-muted-foreground focus-visible:outline-none focus-visible:ring-1 focus-visible:ring-ring disabled:pointer-events-none disabled:opacity-50 data-[state=on]:bg-accent data-[state=on]:text-accent-foreground [&_svg]:pointer-events-none [&_svg]:size-4 [&_svg]:shrink-0'',
    cva_options = [(''variant'', [(''default'', ''bg-transparent''),
        (''outline'', ''border border-input bg-transparent shadow-sm hover:bg-accent hover:text-accent-foreground'')]),
      (''size'', [(''default'', ''h-9 px-2 min-w-9''),
        (''sm'', ''h-8 px-1.5 min-w-8''),
        (''lg'', ''h-10 px-2.5 min-w-10'')])],
    cva_defaults = [(''variant'', ''default''), (''size'', ''default'')]\<rparr>"

definition mockup_Toggle :: component where
  "mockup_Toggle L p =
     jsx (Lib ''@radix-ui/react-toggle'' ''Root'')
       [At ''ref'' (arg p ''ref''),
        At ''className'' (cn L [cva L mockup_toggleVariants (attributes [At ''variant'' (arg p ''variant''), At ''size'' (arg p ''size''), At ''className'' (arg p ''className'')])]),
        Spread (rest [''className'', ''variant'', ''size'', ''ref''] p)]
       []"

section \<open>\<open>toggle-group.tsx\<close>\<close>

definition mockup_ToggleGroup :: component where
  "mockup_ToggleGroup L p =
     jsx (Lib ''@radix-ui/react-toggle-group'' ''Root'')
       [At ''ref'' (arg p ''ref''),
        At ''className'' (cn L [StrV ''flex items-center justify-center gap-1'', arg p ''className'']),
        Spread (rest [''className'', ''variant'', ''size'', ''children'', ''ref''] p)]
       [jsx (Provider ''ToggleGroupContext'')
          [At ''value'' (ObjV (attributes [At ''variant'' (arg p ''variant''), At ''size'' (arg p ''size'')]))]
          [arg p ''children'']]"

definition mockup_ToggleGroupItem :: component where
  "mockup_ToggleGroupItem L p =
     (let v_context = context_value L ''ToggleGroupContext'' in
      jsx (Lib ''@radix-ui/react-toggle-group'' ''Item'')
        [At ''ref'' (arg p ''ref''),
         At ''className'' (cn L [cva L mockup_toggleVariants (attributes [At ''variant'' (or_try (member_of v_context ''variant'') (arg p ''variant'')), At ''size'' (or_try (member_of v_context ''size'') (arg p ''size''))]), arg p ''className'']),
         Spread (rest [''className'', ''children'', ''variant'', ''size'', ''ref''] p)]
        [arg p ''children''])"

section \<open>\<open>input-otp.tsx\<close>\<close>

definition mockup_InputOTP :: component where
  "mockup_InputOTP L p =
     jsx (Lib ''input-otp'' ''OTPInput'')
       [At ''ref'' (arg p ''ref''),
        At ''containerClassName'' (cn L [StrV ''flex items-center gap-2 has-[:disabled]:opacity-50'', arg p ''containerClassName'']),
        At ''className'' (cn L [StrV ''disabled:cursor-not-allowed'', arg p ''className'']),
        Spread (rest [''className'', ''containerClassName'', ''ref''] p)]
       []"

definition mockup_InputOTPGroup :: component where
  "mockup_InputOTPGroup L p =
     jsx (Host ''div'')
       [At ''ref'' (arg p ''ref''),
        At ''className'' (cn L [StrV ''flex items-center'', arg p ''className'']),
        Spread (rest [''className'', ''ref''] p)]
       []"

definition mockup_InputOTPSlot :: component where
  "mockup_InputOTPSlot L p =
     (let v_inputOTPContext = context_value L ''OTPInputContext'' in
      let o1 = element_at (member_of v_inputOTPContext ''slots'') (arg p ''index'') in
      jsx (Host ''div'')
        [At ''ref'' (arg p ''ref''),
         At ''className'' (cn L [StrV ''relative flex h-9 w-9 items-center justify-center border-y border-r border-input text-sm shadow-sm transition-all first:rounded-l-md first:border-l last:rounded-r-md'', and_also (member_of o1 ''isActive'') (StrV ''z-10 ring-1 ring-ring''), arg p ''className'']),
         Spread (rest [''index'', ''className'', ''ref''] p)]
        [member_of o1 ''char'',
         and_also (member_of o1 ''hasFakeCaret'') (jsx (Host ''div'')
           [At ''className'' (StrV ''pointer-events-none absolute inset-0 flex items-center justify-center'')]
           [jsx (Host ''div'')
              [At ''className'' (StrV ''h-4 w-px animate-caret-blink bg-foreground duration-1000'')]
              []])])"

definition mockup_InputOTPSeparator :: component where
  "mockup_InputOTPSeparator L p =
     jsx (Host ''div'')
       [At ''ref'' (arg p ''ref''),
        At ''role'' (StrV ''separator''),
        Spread (rest [''ref''] p)]
       [jsx (Lib ''lucide-react'' ''Minus'')
          []
          []]"

section \<open>\<open>progress.tsx\<close>\<close>

definition mockup_Progress :: component where
  "mockup_Progress L p =
     jsx (Lib ''@radix-ui/react-progress'' ''Root'')
       [At ''ref'' (arg p ''ref''),
        At ''className'' (cn L [StrV ''relative h-2 w-full overflow-hidden rounded-full bg-primary/20'', arg p ''className'']),
        Spread (rest [''className'', ''value'', ''ref''] p)]
       [jsx (Lib ''@radix-ui/react-progress'' ''Indicator'')
          [At ''className'' (StrV ''h-full w-full flex-1 bg-primary transition-all''),
           At ''style'' (ObjV (attributes [At ''transform'' (StrV (''translateX(-'' @ text_of L (minus_ui (NumV 100) (or_try (arg p ''value'') (NumV 0))) @ ''%)''))]))]
          []]"

section \<open>\<open>separator.tsx\<close>\<close>

definition mockup_Separator :: component where
  "mockup_Separator L p =
     jsx (Lib ''@radix-ui/react-separator'' ''Root'')
       [At ''ref'' (arg p ''ref''),
        At ''decorative'' (default_to (BoolV True) (arg p ''decorative'')),
        At ''orientation'' (default_to (StrV ''horizontal'') (arg p ''orientation'')),
        At ''className'' (cn L [StrV ''shrink-0 bg-border'', if default_to (StrV ''horizontal'') (arg p ''orientation'') = StrV ''horizontal'' then StrV ''h-[1px] w-full'' else StrV ''h-full w-[1px]'', arg p ''className'']),
        Spread (rest [''className'', ''orientation'', ''decorative'', ''ref''] p)]
       []"

section \<open>\<open>skeleton.tsx\<close>\<close>

definition mockup_Skeleton :: component where
  "mockup_Skeleton L p =
     jsx (Host ''div'')
       [At ''className'' (cn L [StrV ''animate-pulse rounded-md bg-primary/10'', arg p ''className'']),
        Spread (rest [''className''] p)]
       []"

section \<open>\<open>spinner.tsx\<close>\<close>

definition mockup_Spinner :: component where
  "mockup_Spinner L p =
     jsx (Lib ''lucide-react'' ''Loader2Icon'')
       [At ''role'' (StrV ''status''),
        At ''aria-label'' (StrV ''Loading''),
        At ''className'' (cn L [StrV ''size-4 animate-spin'', arg p ''className'']),
        Spread (rest [''className''] p)]
       []"

section \<open>\<open>badge.tsx\<close>\<close>

definition mockup_badgeVariants :: variants where
  "mockup_badgeVariants = \<lparr>
    cva_base = ''whitespace-nowrap inline-flex items-center rounded-md border px-2.5 py-0.5 text-xs font-semibold transition-colors focus:outline-none focus:ring-2 focus:ring-ring focus:ring-offset-2 hover-elevate '',
    cva_options = [(''variant'', [(''default'', ''border-transparent bg-primary text-primary-foreground shadow-xs''),
        (''secondary'', ''border-transparent bg-secondary text-secondary-foreground''),
        (''destructive'', ''border-transparent bg-destructive text-destructive-foreground shadow-xs''),
        (''outline'', ''text-foreground border [border-color:var(--badge-outline)]'')])],
    cva_defaults = [(''variant'', ''default'')]\<rparr>"

definition mockup_Badge :: component where
  "mockup_Badge L p =
     jsx (Host ''div'')
       [At ''className'' (cn L [cva L mockup_badgeVariants (attributes [At ''variant'' (arg p ''variant'')]), arg p ''className'']),
        Spread (rest [''className'', ''variant''] p)]
       []"

section \<open>\<open>avatar.tsx\<close>\<close>

definition mockup_Avatar :: component where
  "mockup_Avatar L p =
     jsx (Lib ''@radix-ui/react-avatar'' ''Root'')
       [At ''ref'' (arg p ''ref''),
        At ''className'' (cn L [StrV ''relative flex h-10 w-10 shrink-0 overflow-hidden rounded-full'', arg p ''className'']),
        Spread (rest [''className'', ''ref''] p)]
       []"

definition mockup_AvatarImage :: component where
  "mockup_AvatarImage L p =
     jsx (Lib ''@radix-ui/react-avatar'' ''Image'')
       [At ''ref'' (arg p ''ref''),
        At ''className'' (cn L [StrV ''aspect-square h-full w-full'', arg p ''className'']),
        Spread (rest [''className'', ''ref''] p)]
       []"

definition mockup_AvatarFallback :: component where
  "mockup_AvatarFallback L p =
     jsx (Lib ''@radix-ui/react-avatar'' ''Fallback'')
       [At ''ref'' (arg p ''ref''),
        At ''className'' (cn L [StrV ''flex h-full w-full items-center justify-center rounded-full bg-muted'', arg p ''className'']),
        Spread (rest [''className'', ''ref''] p)]
       []"

section \<open>\<open>kbd.tsx\<close>\<close>

definition mockup_Kbd :: component where
  "mockup_Kbd L p =
     jsx (Host ''kbd'')
       [At ''data-slot'' (StrV ''kbd''),
        At ''className'' (cn L [StrV ''bg-muted text-muted-foreground pointer-events-none inline-flex h-5 w-fit min-w-5 select-none items-center justify-center gap-1 rounded-sm px-1 font-sans text-xs font-medium'', StrV ''[&_svg:not([class*='size-'])]:size-3'', StrV ''[[data-slot=tooltip-content]_&]:bg-background/20 [[data-slot=tooltip-content]_&]:text-background dark:[[data-slot=tooltip-content]_&]:bg-background/10'', arg p ''className'']),
        Spread (rest [''className''] p)]
       []"

definition mockup_KbdGroup :: component where
  "mockup_KbdGroup L p =
     jsx (Host ''kbd'')
       [At ''data-slot'' (StrV ''kbd-group''),
        At ''className'' (cn L [StrV ''inline-flex items-center gap-1'', arg p ''className'']),
        Spread (rest [''className''] p)]
       []"

section \<open>\<open>aspect-ratio.tsx\<close>\<close>

definition mockup_AspectRatio :: utype where
  "mockup_AspectRatio = Lib ''@radix-ui/react-aspect-ratio'' ''Root''"

section \<open>\<open>collapsible.tsx\<close>\<close>

definition mockup_Collapsible :: utype where
  "mockup_Collapsible = Lib ''@radix-ui/react-collapsible'' ''Root''"

definition mockup_CollapsibleTrigger :: utype where
  "mockup_CollapsibleTrigger = Lib ''@radix-ui/react-collapsible'' ''CollapsibleTrigger''"

definition mockup_CollapsibleContent :: utype where
  "mockup_CollapsibleContent = Lib ''@radix-ui/react-collapsible'' ''CollapsibleContent''"

section \<open>\<open>scroll-area.tsx\<close>\<close>

definition mockup_ScrollArea :: component where
  "mockup_ScrollArea L p =
     jsx (Lib ''@radix-ui/react-scroll-area'' ''Root'')
       [At ''ref'' (arg p ''ref''),
        At ''className'' (cn L [StrV ''relative overflow-hidden'', arg p ''className'']),
        Spread (rest [''className'', ''children'', ''ref''] p)]
       [jsx (Lib ''@radix-ui/react-scroll-area'' ''Viewport'')
          [At ''className'' (StrV ''h-full w-full rounded-[inherit]'')]
          [arg p ''children''],
        jsx (Own ''ScrollBar'')
          []
          [],
        jsx (Lib ''@radix-ui/react-scroll-area'' ''Corner'')
          []
          []]"

definition mockup_ScrollBar :: component where
  "mockup_ScrollBar L p =
     jsx (Lib ''@radix-ui/react-scroll-area'' ''ScrollAreaScrollbar'')
       [At ''ref'' (arg p ''ref''),
        At ''orientation'' (default_to (StrV ''vertical'') (arg p ''orientation'')),
        At ''className'' (cn L [StrV ''flex touch-none select-none transition-colors'', and_also (BoolV ((default_to (StrV ''vertical'') (arg p ''orientation'')) = (StrV ''vertical''))) (StrV ''h-full w-2.5 border-l border-l-transparent p-[1px]''), and_also (BoolV ((default_to (StrV ''vertical'') (arg p ''orientation'')) = (StrV ''horizontal''))) (StrV ''h-2.5 flex-col border-t border-t-transparent p-[1px]''), arg p ''className'']),
        Spread (rest [''className'', ''orientation'', ''ref''] p)]
       [jsx (Lib ''@radix-ui/react-scroll-area'' ''ScrollAreaThumb'')
          [At ''className'' (StrV ''relative flex-1 rounded-full bg-border'')]
          []]"

section \<open>\<open>resizable.tsx\<close>\<close>

definition mockup_ResizablePanelGroup :: component where
  "mockup_ResizablePanelGroup L p =
     jsx (Lib ''react-resizable-panels'' ''PanelGroup'')
       [At ''className'' (cn L [StrV ''flex h-full w-full data-[panel-group-direction=vertical]:flex-col'', arg p ''className'']),
        Spread (rest [''className''] p)]
       []"

definition mockup_ResizablePanel :: utype where
  "mockup_ResizablePanel = Lib ''react-resizable-panels'' ''Panel''"

definition mockup_ResizableHandle :: component where
  "mockup_ResizableHandle L p =
     jsx (Lib ''react-resizable-panels'' ''PanelResizeHandle'')
       [At ''className'' (cn L [StrV ''relative flex w-px items-center justify-center bg-border after:absolute after:inset-y-0 after:left-1/2 after:w-1 after:-translate-x-1/2 focus-visible:outline-none focus-visible:ring-1 focus-visible:ring-ring focus-visible:ring-offset-1 data-[panel-group-direction=vertical]:h-px data-[panel-group-direction=vertical]:w-full data-[panel-group-direction=vertical]:after:left-0 data-[panel-group-direction=vertical]:after:h-1 data-[panel-group-direction=vertical]:after:w-full data-[panel-group-direction=vertical]:after:-translate-y-1/2 data-[panel-group-direction=vertical]:after:translate-x-0 [&[data-panel-group-direction=vertical]>div]:rotate-90'', arg p ''className'']),
        Spread (rest [''withHandle'', ''className''] p)]
       [and_also (arg p ''withHandle'') (jsx (Host ''div'')
          [At ''className'' (StrV ''z-10 flex h-4 w-3 items-center justify-center rounded-sm border bg-border'')]
          [jsx (Lib ''lucide-react'' ''GripVertical'')
             [At ''className'' (StrV ''h-2.5 w-2.5'')]
             []])]"

end
