(* ===== verification/Mockup_Overlays.thy ===== *)
theory Mockup_Overlays
  imports Mockup_Controls
begin

text \<open>
  The components of \<open>artifacts/mockup-sandbox/src/components/ui\<close>, file by file: dialogs, sheets, drawers, popovers, tooltips, toasts and the command palette.
\<close>

section \<open>\<open>dialog.tsx\<close>\<close>

definition mockup_Dialog :: utype where
  "mockup_Dialog = Lib ''@radix-ui/react-dialog'' ''Root''"

definition mockup_DialogTrigger :: utype where
  "mockup_DialogTrigger = Lib ''@radix-ui/react-dialog'' ''Trigger''"

definition mockup_DialogPortal :: utype where
  "mockup_DialogPortal = Lib ''@radix-ui/react-dialog'' ''Portal''"

definition mockup_DialogClose :: utype where
  "mockup_DialogClose = Lib ''@radix-ui/react-dialog'' ''Close''"

definition mockup_DialogOverlay :: component where
  "mockup_DialogOverlay L p =
     jsx (Lib ''@radix-ui/react-dialog'' ''Overlay'')
       [At ''ref'' (arg p ''ref''),
        At ''className'' (cn L [StrV ''fixed inset-0 z-50 bg-black/80  data-[state=open]:animate-in data-[state=closed]:animate-out data-[state=closed]:fade-out-0 data-[state=open]:fade-in-0'', arg p ''className'']),
        Spread (rest [''className'', ''ref''] p)]
       []"

definition mockup_DialogContent :: component where
  "mockup_DialogContent L p =
     jsx (mockup_DialogPortal)
       []
       [jsx (Own ''DialogOverlay'')
          []
          [],
        jsx (Lib ''@radix-ui/react-dialog'' ''Content'')
          [At ''ref'' (arg p ''ref''),
           At ''className'' (cn L [StrV ''fixed left-[50%] top-[50%] z-50 grid w-full max-w-lg translate-x-[-50%] translate-y-[-50%] gap-4 border bg-background p-6 shadow-lg duration-200 data-[state=open]:animate-in data-[state=closed]:animate-out data-[state=closed]:fade-out-0 data-[state=open]:fade-in-0 data-[state=closed]:zoom-out-95 data-[state=open]:zoom-in-95 data-[state=closed]:slide-out-to-left-1/2 data-[state=closed]:slide-out-to-top-[48%] data-[state=open]:slide-in-from-left-1/2 data-[state=open]:slide-in-from-top-[48%] sm:rounded-lg'', arg p ''className'']),
           Spread (rest [''className'', ''children'', ''ref''] p)]
          [arg p ''children'',
           jsx (Lib ''@radix-ui/react-dialog'' ''Close'')
             [At ''className'' (StrV ''absolute right-4 top-4 rounded-sm opacity-70 ring-offset-background transition-opacity hover:opacity-100 focus:outline-none focus:ring-2 focus:ring-ring focus:ring-offset-2 disabled:pointer-events-none data-[state=open]:bg-accent data-[state=open]:text-muted-foreground'')]
             [jsx (Lib ''lucide-react'' ''X'')
                [At ''className'' (StrV ''h-4 w-4'')]
                [],
              jsx (Host ''span'')
                [At ''className'' (StrV ''sr-only'')]
                [StrV ''Close'']]]]"

definition mockup_DialogHeader :: component where
  "mockup_DialogHeader L p =
     jsx (Host ''div'')
       [At ''className'' (cn L [StrV ''flex flex-col space-y-1.5 text-center sm:text-left'', arg p ''className'']),
        Spread (rest [''className''] p)]
       []"

definition mockup_DialogFooter :: component where
  "mockup_DialogFooter L p =
     jsx (Host ''div'')
       [At ''className'' (cn L [StrV ''flex flex-col-reverse sm:flex-row sm:justify-end sm:space-x-2'', arg p ''className'']),
        Spread (rest [''className''] p)]
       []"

definition mockup_DialogTitle :: component where
  "mockup_DialogTitle L p =
     jsx (Lib ''@radix-ui/react-dialog'' ''Title'')
       [At ''ref'' (arg p ''ref''),
        At ''className'' (cn L [StrV ''text-lg font-semibold leading-none tracking-tight'', arg p ''className'']),
        Spread (rest [''className'', ''ref''] p)]
       []"

definition mockup_DialogDescription :: component where
  "mockup_DialogDescription L p =
     jsx (Lib ''@radix-ui/react-dialog'' ''Description'')
       [At ''ref'' (arg p ''ref''),
        At ''className'' (cn L [StrV ''text-sm text-muted-foreground'', arg p ''className'']),
        Spread (rest [''className'', ''ref''] p)]
       []"

section \<open>\<open>sheet.tsx\<close>\<close>

definition mockup_Sheet :: utype where
  "mockup_Sheet = Lib ''@radix-ui/react-dialog'' ''Root''"

definition mockup_SheetTrigger :: utype where
  "mockup_SheetTrigger = Lib ''@radix-ui/react-dialog'' ''Trigger''"

definition mockup_SheetClose :: utype where
  "mockup_SheetClose = Lib ''@radix-ui/react-dialog'' ''Close''"

definition mockup_SheetPortal :: utype where
  "mockup_SheetPortal = Lib ''@radix-ui/react-dialog'' ''Portal''"

definition mockup_SheetOverlay :: component where
  "mockup_SheetOverlay L p =
     jsx (Lib ''@radix-ui/react-dialog'' ''Overlay'')
       [At ''className'' (cn L [StrV ''fixed inset-0 z-50 bg-black/80  data-[state=open]:animate-in data-[state=closed]:animate-out data-[state=closed]:fade-out-0 data-[state=open]:fade-in-0'', arg p ''className'']),
        Spread (rest [''className'', ''ref''] p),
        At ''ref'' (arg p ''ref'')]
       []"

definition mockup_sheetVariants :: variants where
  "mockup_sheetVariants = \<lparr>
    cva_base = ''fixed z-50 gap-4 bg-background p-6 shadow-lg transition ease-in-out data-[state=closed]:duration-300 data-[state=open]:duration-500 data-[state=open]:animate-in data-[state=closed]:animate-out'',
    cva_options = [(''side'', [(''top'', ''inset-x-0 top-0 border-b data-[state=closed]:slide-out-to-top data-[state=open]:slide-in-from-top''),
        (''bottom'', ''inset-x-0 bottom-0 border-t data-[state=closed]:slide-out-to-bottom data-[state=open]:slide-in-from-bottom''),
        (''left'', ''inset-y-0 left-0 h-full w-3/4 border-r data-[state=closed]:slide-out-to-left data-[state=open]:slide-in-from-left sm:max-w-sm''),
        (''right'', ''inset-y-0 right-0 h-full w-3/4 border-l data-[state=closed]:slide-out-to-right data-[state=open]:slide-in-from-right sm:max-w-sm'')])],
    cva_defaults = [(''side'', ''right'')]\<rparr>"

definition mockup_SheetContent :: component where
  "mockup_SheetContent L p =
     jsx (mockup_SheetPortal)
       []
       [jsx (Own ''SheetOverlay'')
          []
          [],
        jsx (Lib ''@radix-ui/react-dialog'' ''Content'')
          [At ''ref'' (arg p ''ref''),
           At ''className'' (cn L [cva L mockup_sheetVariants (attributes [At ''side'' (default_to (StrV ''right'') (arg p ''side''))]), arg p ''className'']),
           Spread (rest [''side'', ''className'', ''children'', ''ref''] p)]
          [jsx (Lib ''@radix-ui/react-dialog'' ''Close'')
             [At ''className'' (StrV ''absolute right-4 top-4 rounded-sm opacity-70 ring-offset-background transition-opacity hover:opacity-100 focus:outline-none focus:ring-2 focus:ring-ring focus:ring-offset-2 disabled:pointer-events-none data-[state=open]:bg-secondary'')]
             [jsx (Lib ''lucide-react'' ''X'')
                [At ''className'' (StrV ''h-4 w-4'')]
                [],
              jsx (Host ''span'')
                [At ''className'' (StrV ''sr-only'')]
                [StrV ''Close'']],
           arg p ''children'']]"

definition mockup_SheetHeader :: component where
  "mockup_SheetHeader L p =
     jsx (Host ''div'')
       [At ''className'' (cn L [StrV ''flex flex-col space-y-2 text-center sm:text-left'', arg p ''className'']),
        Spread (rest [''className''] p)]
       []"

definition mockup_SheetFooter :: component where
  "mockup_SheetFooter L p =
     jsx (Host ''div'')
       [At ''className'' (cn L [StrV ''flex flex-col-reverse sm:flex-row sm:justify-end sm:space-x-2'', arg p ''className'']),
        Spread (rest [''className''] p)]
       []"

definition mockup_SheetTitle :: component where
  "mockup_SheetTitle L p =
     jsx (Lib ''@radix-ui/react-dialog'' ''Title'')
       [At ''ref'' (arg p ''ref''),
        At ''className'' (cn L [StrV ''text-lg font-semibold text-foreground'', arg p ''className'']),
        Spread (rest [''className'', ''ref''] p)]
       []"

definition mockup_SheetDescription :: component where
  "mockup_SheetDescription L p =
     jsx (Lib ''@radix-ui/react-dialog'' ''Description'')
       [At ''ref'' (arg p ''ref''),
        At ''className'' (cn L [StrV ''text-sm text-muted-foreground'', arg p ''className'']),
        Spread (rest [''className'', ''ref''] p)]
       []"

section \<open>\<open>drawer.tsx\<close>\<close>

definition mockup_Drawer :: component where
  "mockup_Drawer L p =
     jsx (Lib ''vaul'' ''Drawer.Root'')
       [At ''shouldScaleBackground'' (default_to (BoolV True) (arg p ''shouldScaleBackground'')),
        Spread (rest [''shouldScaleBackground''] p)]
       []"

definition mockup_DrawerTrigger :: utype where
  "mockup_DrawerTrigger = Lib ''vaul'' ''Drawer.Trigger''"

definition mockup_DrawerPortal :: utype where
  "mockup_DrawerPortal = Lib ''vaul'' ''Drawer.Portal''"

definition mockup_DrawerClose :: utype where
  "mockup_DrawerClose = Lib ''vaul'' ''Drawer.Close''"

definition mockup_DrawerOverlay :: component where
  "mockup_DrawerOverlay L p =
     jsx (Lib ''vaul'' ''Drawer.Overlay'')
       [At ''ref'' (arg p ''ref''),
        At ''className'' (cn L [StrV ''fixed inset-0 z-50 bg-black/80'', arg p ''className'']),
        Spread (rest [''className'', ''ref''] p)]
       []"

definition mockup_DrawerContent :: component where
  "mockup_DrawerContent L p =
     jsx (mockup_DrawerPortal)
       []
       [jsx (Own ''DrawerOverlay'')
          []
          [],
        jsx (Lib ''vaul'' ''Drawer.Content'')
          [At ''ref'' (arg p ''ref''),
           At ''className'' (cn L [StrV ''fixed inset-x-0 bottom-0 z-50 mt-24 flex h-auto flex-col rounded-t-[10px] border bg-background'', arg p ''className'']),
           Spread (rest [''className'', ''children'', ''ref''] p)]
          [jsx (Host ''div'')
             [At ''className'' (StrV ''mx-auto mt-4 h-2 w-[100px] rounded-full bg-muted'')]
             [],
           arg p ''children'']]"

definition mockup_DrawerHeader :: component where
  "mockup_DrawerHeader L p =
     jsx (Host ''div'')
       [At ''className'' (cn L [StrV ''grid gap-1.5 p-4 text-center sm:text-left'', arg p ''className'']),
        Spread (rest [''className''] p)]
       []"

definition mockup_DrawerFooter :: component where
  "mockup_DrawerFooter L p =
     jsx (Host ''div'')
       [At ''className'' (cn L [StrV ''mt-auto flex flex-col gap-2 p-4'', arg p ''className'']),
        Spread (rest [''className''] p)]
       []"

definition mockup_DrawerTitle :: component where
  "mockup_DrawerTitle L p =
     jsx (Lib ''vaul'' ''Drawer.Title'')
       [At ''ref'' (arg p ''ref''),
        At ''className'' (cn L [StrV ''text-lg font-semibold leading-none tracking-tight'', arg p ''className'']),
        Spread (rest [''className'', ''ref''] p)]
       []"

definition mockup_DrawerDescription :: component where
  "mockup_DrawerDescription L p =
     jsx (Lib ''vaul'' ''Drawer.Description'')
       [At ''ref'' (arg p ''ref''),
        At ''className'' (cn L [StrV ''text-sm text-muted-foreground'', arg p ''className'']),
        Spread (rest [''className'', ''ref''] p)]
       []"

section \<open>\<open>alert-dialog.tsx\<close>\<close>

definition mockup_AlertDialog :: utype where
  "mockup_AlertDialog = Lib ''@radix-ui/react-alert-dialog'' ''Root''"

definition mockup_AlertDialogTrigger :: utype where
  "mockup_AlertDialogTrigger = Lib ''@radix-ui/react-alert-dialog'' ''Trigger''"

definition mockup_AlertDialogPortal :: utype where
  "mockup_AlertDialogPortal = Lib ''@radix-ui/react-alert-dialog'' ''Portal''"

definition mockup_AlertDialogOverlay :: component where
  "mockup_AlertDialogOverlay L p =
     jsx (Lib ''@radix-ui/react-alert-dialog'' ''Overlay'')
       [At ''className'' (cn L [StrV ''fixed inset-0 z-50 bg-black/80 data-[state=open]:animate-in data-[state=closed]:animate-out data-[state=closed]:fade-out-0 data-[state=open]:fade-in-0'', arg p ''className'']),
        Spread (rest [''className'', ''ref''] p),
        At ''ref'' (arg p ''ref'')]
       []"

definition mockup_AlertDialogContent :: component where
  "mockup_AlertDialogContent L p =
     jsx (mockup_AlertDialogPortal)
       []
       [jsx (Own ''AlertDialogOverlay'')
          []
          [],
        jsx (Lib ''@radix-ui/react-alert-dialog'' ''Content'')
          [At ''ref'' (arg p ''ref''),
           At ''className'' (cn L [StrV ''fixed left-[50%] top-[50%] z-50 grid w-full max-w-lg translate-x-[-50%] translate-y-[-50%] gap-4 border bg-background p-6 shadow-lg duration-200 data-[state=open]:animate-in data-[state=closed]:animate-out data-[state=closed]:fade-out-0 data-[state=open]:fade-in-0 data-[state=closed]:zoom-out-95 data-[state=open]:zoom-in-95 data-[state=closed]:slide-out-to-left-1/2 data-[state=closed]:slide-out-to-top-[48%] data-[state=open]:slide-in-from-left-1/2 data-[state=open]:slide-in-from-top-[48%] sm:rounded-lg'', arg p ''className'']),
           Spread (rest [''className'', ''ref''] p)]
          []]"

definition mockup_AlertDialogHeader :: component where
  "mockup_AlertDialogHeader L p =
     jsx (Host ''div'')
       [At ''className'' (cn L [StrV ''flex flex-col space-y-2 text-center sm:text-left'', arg p ''className'']),
        Spread (rest [''className''] p)]
       []"

definition mockup_AlertDialogFooter :: component where
  "mockup_AlertDialogFooter L p =
     jsx (Host ''div'')
       [At ''className'' (cn L [StrV ''flex flex-col-reverse sm:flex-row sm:justify-end sm:space-x-2'', arg p ''className'']),
        Spread (rest [''className''] p)]
       []"

definition mockup_AlertDialogTitle :: component where
  "mockup_AlertDialogTitle L p =
     jsx (Lib ''@radix-ui/react-alert-dialog'' ''Title'')
       [At ''ref'' (arg p ''ref''),
        At ''className'' (cn L [StrV ''text-lg font-semibold'', arg p ''className'']),
        Spread (rest [''className'', ''ref''] p)]
       []"

definition mockup_AlertDialogDescription :: component where
  "mockup_AlertDialogDescription L p =
     jsx (Lib ''@radix-ui/react-alert-dialog'' ''Description'')
       [At ''ref'' (arg p ''ref''),
        At ''className'' (cn L [StrV ''text-sm text-muted-foreground'', arg p ''className'']),
        Spread (rest [''className'', ''ref''] p)]
       []"

definition mockup_AlertDialogAction :: component where
  "mockup_AlertDialogAction L p =
     jsx (Lib ''@radix-ui/react-alert-dialog'' ''Action'')
       [At ''ref'' (arg p ''ref''),
        At ''className'' (cn L [cva L mockup_buttonVariants [], arg p ''className'']),
        Spread (rest [''className'', ''ref''] p)]
       []"

definition mockup_AlertDialogCancel :: component where
  "mockup_AlertDialogCancel L p =
     jsx (Lib ''@radix-ui/react-alert-dialog'' ''Cancel'')
       [At ''ref'' (arg p ''ref''),
        At ''className'' (cn L [cva L mockup_buttonVariants (attributes [At ''variant'' (StrV ''outline'')]), StrV ''mt-2 sm:mt-0'', arg p ''className'']),
        Spread (rest [''className'', ''ref''] p)]
       []"

section \<open>\<open>popover.tsx\<close>\<close>

definition mockup_Popover :: utype where
  "mockup_Popover = Lib ''@radix-ui/react-popover'' ''Root''"

definition mockup_PopoverTrigger :: utype where
  "mockup_PopoverTrigger = Lib ''@radix-ui/react-popover'' ''Trigger''"

definition mockup_PopoverAnchor :: utype where
  "mockup_PopoverAnchor = Lib ''@radix-ui/react-popover'' ''Anchor''"

definition mockup_PopoverContent :: component where
  "mockup_PopoverContent L p =
     jsx (Lib ''@radix-ui/react-popover'' ''Portal'')
       []
       [jsx (Lib ''@radix-ui/react-popover'' ''Content'')
          [At ''ref'' (arg p ''ref''),
           At ''align'' (default_to (StrV ''center'') (arg p ''align'')),
           At ''sideOffset'' (default_to (NumV 4) (arg p ''sideOffset'')),
           At ''className'' (cn L [StrV ''z-50 w-72 rounded-md border bg-popover p-4 text-popover-foreground shadow-md outline-none data-[state=open]:animate-in data-[state=closed]:animate-out data-[state=closed]:fade-out-0 data-[state=open]:fade-in-0 data-[state=closed]:zoom-out-95 data-[state=open]:zoom-in-95 data-[side=bottom]:slide-in-from-top-2 data-[side=left]:slide-in-from-right-2 data-[side=right]:slide-in-from-left-2 data-[side=top]:slide-in-from-bottom-2 origin-[--radix-popover-content-transform-origin]'', arg p ''className'']),
           Spread (rest [''className'', ''align'', ''sideOffset'', ''ref''] p)]
          []]"

section \<open>\<open>hover-card.tsx\<close>\<close>

definition mockup_HoverCard :: utype where
  "mockup_HoverCard = Lib ''@radix-ui/react-hover-card'' ''Root''"

definition mockup_HoverCardTrigger :: utype where
  "mockup_HoverCardTrigger = Lib ''@radix-ui/react-hover-card'' ''Trigger''"

definition mockup_HoverCardContent :: component where
  "mockup_HoverCardContent L p =
     jsx (Lib ''@radix-ui/react-hover-card'' ''Content'')
       [At ''ref'' (arg p ''ref''),
        At ''align'' (default_to (StrV ''center'') (arg p ''align'')),
        At ''sideOffset'' (default_to (NumV 4) (arg p ''sideOffset'')),
        At ''className'' (cn L [StrV ''z-50 w-64 rounded-md border bg-popover p-4 text-popover-foreground shadow-md outline-none data-[state=open]:animate-in data-[state=closed]:animate-out data-[state=closed]:fade-out-0 data-[state=open]:fade-in-0 data-[state=closed]:zoom-out-95 data-[state=open]:zoom-in-95 data-[side=bottom]:slide-in-from-top-2 data-[side=left]:slide-in-from-right-2 data-[side=right]:slide-in-from-left-2 data-[side=top]:slide-in-from-bottom-2 origin-[--radix-hover-card-content-transform-origin]'', arg p ''className'']),
        Spread (rest [''className'', ''align'', ''sideOffset'', ''ref''] p)]
       []"

section \<open>\<open>tooltip.tsx\<close>\<close>

definition mockup_TooltipProvider :: utype where
  "mockup_TooltipProvider = Lib ''@radix-ui/react-tooltip'' ''Provider''"

definition mockup_Tooltip :: utype where
  "mockup_Tooltip = Lib ''@radix-ui/react-tooltip'' ''Root''"

definition mockup_TooltipTrigger :: utype where
  "mockup_TooltipTrigger = Lib ''@radix-ui/react-tooltip'' ''Trigger''"

definition mockup_TooltipContent :: component where
  "mockup_TooltipContent L p =
     jsx (Lib ''@radix-ui/react-tooltip'' ''Portal'')
       []
       [jsx (Lib ''@radix-ui/react-tooltip'' ''Content'')
          [At ''ref'' (arg p ''ref''),
           At ''sideOffset'' (default_to (NumV 4) (arg p ''sideOffset'')),
           At ''className'' (cn L [StrV ''z-50 overflow-hidden rounded-md bg-primary px-3 py-1.5 text-xs text-primary-foreground animate-in fade-in-0 zoom-in-95 data-[state=closed]:animate-out data-[state=closed]:fade-out-0 data-[state=closed]:zoom-out-95 data-[side=bottom]:slide-in-from-top-2 data-[side=left]:slide-in-from-right-2 data-[side=right]:slide-in-from-left-2 data-[side=top]:slide-in-from-bottom-2 origin-[--radix-tooltip-content-transform-origin]'', arg p ''className'']),
           Spread (rest [''className'', ''sideOffset'', ''ref''] p)]
          []]"

section \<open>\<open>toast.tsx\<close>\<close>

definition mockup_ToastProvider :: utype where
  "mockup_ToastProvider = Lib ''@radix-ui/react-toast'' ''Provider''"

definition mockup_ToastViewport :: component where
  "mockup_ToastViewport L p =
     jsx (Lib ''@radix-ui/react-toast'' ''Viewport'')
       [At ''ref'' (arg p ''ref''),
        At ''className'' (cn L [StrV ''fixed top-0 z-[100] flex max-h-screen w-full flex-col-reverse p-4 sm:bottom-0 sm:right-0 sm:top-auto sm:flex-col md:max-w-[420px]'', arg p ''className'']),
        Spread (rest [''className'', ''ref''] p)]
       []"

definition mockup_toastVariants :: variants where
  "mockup_toastVariants = \<lparr>
    cva_base = ''group pointer-events-auto relative flex w-full items-center justify-between space-x-4 overflow-hidden rounded-md border p-6 pr-8 shadow-lg transition-all data-[swipe=cancel]:translate-x-0 data-[swipe=end]:translate-x-[var(--radix-toast-swipe-end-x)] data-[swipe=move]:translate-x-[var(--radix-toast-swipe-move-x)] data-[swipe=move]:transition-none data-[state=open]:animate-in data-[state=closed]:animate-out data-[swipe=end]:animate-out data-[state=closed]:fade-out-80 data-[state=closed]:slide-out-to-right-full data-[state=open]:slide-in-from-top-full data-[state=open]:sm:slide-in-from-bottom-full'',
    cva_options = [(''variant'', [(''default'', ''border bg-background text-foreground''),
        (''destructive'', ''destructive group border-destructive bg-destructive text-destructive-foreground'')])],
    cva_defaults = [(''variant'', ''default'')]\<rparr>"

definition mockup_Toast :: component where
  "mockup_Toast L p =
     jsx (Lib ''@radix-ui/react-toast'' ''Root'')
       [At ''ref'' (arg p ''ref''),
        At ''className'' (cn L [cva L mockup_toastVariants (attributes [At ''variant'' (arg p ''variant'')]), arg p ''className'']),
        Spread (rest [''className'', ''variant'', ''ref''] p)]
       []"

definition mockup_ToastAction :: component where
  "mockup_ToastAction L p =
     jsx (Lib ''@radix-ui/react-toast'' ''Action'')
       [At ''ref'' (arg p ''ref''),
        At ''className'' (cn L [StrV ''inline-flex h-8 shrink-0 items-center justify-center rounded-md border bg-transparent px-3 text-sm font-medium ring-offset-background transition-colors hover:bg-secondary focus:outline-none focus:ring-2 focus:ring-ring focus:ring-offset-2 disabled:pointer-events-none disabled:opacity-50 group-[.destructive]:border-muted/40 group-[.destructive]:hover:border-destructive/30 group-[.destructive]:hover:bg-destructive group-[.destructive]:hover:text-destructive-foreground group-[.destructive]:focus:ring-destructive'', arg p ''className'']),
        Spread (rest [''className'', ''ref''] p)]
       []"

definition mockup_ToastClose :: component where
  "mockup_ToastClose L p =
     jsx (Lib ''@radix-ui/react-toast'' ''Close'')
       [At ''ref'' (arg p ''ref''),
        At ''className'' (cn L [StrV ''absolute right-2 top-2 rounded-md p-1 text-foreground/50 opacity-0 transition-opacity hover:text-foreground focus:opacity-100 focus:outline-none focus:ring-2 group-hover:opacity-100 group-[.destructive]:text-red-300 group-[.destructive]:hover:text-red-50 group-[.destructive]:focus:ring-red-400 group-[.destructive]:focus:ring-offset-red-600'', arg p ''className'']),
        At ''toast-close'' (StrV ''''),
        Spread (rest [''className'', ''ref''] p)]
       [jsx (Lib ''lucide-react'' ''X'')
          [At ''className'' (StrV ''h-4 w-4'')]
          []]"

definition mockup_ToastTitle :: component where
  "mockup_ToastTitle L p =
     jsx (Lib ''@radix-ui/react-toast'' ''Title'')
       [At ''ref'' (arg p ''ref''),
        At ''className'' (cn L [StrV ''text-sm font-semibold'', arg p ''className'']),
        Spread (rest [''className'', ''ref''] p)]
       []"

definition mockup_ToastDescription :: component where
  "mockup_ToastDescription L p =
     jsx (Lib ''@radix-ui/react-toast'' ''Description'')
       [At ''ref'' (arg p ''ref''),
        At ''className'' (cn L [StrV ''text-sm opacity-90'', arg p ''className'']),
        Spread (rest [''className'', ''ref''] p)]
       []"

section \<open>\<open>toaster.tsx\<close>\<close>

definition mockup_Toaster :: component where
  "mockup_Toaster L p =
     (let o1 = foreign L ''useToast'' [] in
      jsx (mockup_ToastProvider)
        []
        [ListV (map (\<lambda>x. jsx (Own ''Toast'')
           [At ''key'' (member_of x ''id''),
            Spread (rest [''id'', ''title'', ''description'', ''action''] (entries x))]
           [jsx (Host ''div'')
              [At ''className'' (StrV ''grid gap-1'')]
              [and_also (member_of x ''title'') (jsx (Own ''ToastTitle'')
                 []
                 [member_of x ''title'']),
               and_also (member_of x ''description'') (jsx (Own ''ToastDescription'')
                 []
                 [member_of x ''description''])],
            member_of x ''action'',
            jsx (Own ''ToastClose'')
              []
              []]) (elements (member_of o1 ''toasts''))),
         jsx (Own ''ToastViewport'')
           []
           []])"

section \<open>\<open>sonner.tsx\<close>\<close>

definition mockup_sonner_Toaster :: component where
  "mockup_sonner_Toaster L p =
     (let o1 = foreign L ''useTheme'' [] in
      jsx (Lib ''sonner'' ''Toaster'')
        [At ''theme'' (default_to (StrV ''system'') (member_of o1 ''theme'')),
         At ''className'' (StrV ''toaster group''),
         At ''toastOptions'' (ObjV (attributes [At ''classNames'' (ObjV (attributes [At ''toast'' (StrV ''group toast group-[.toaster]:bg-background group-[.toaster]:text-foreground group-[.toaster]:border-border group-[.toaster]:shadow-lg''),
              At ''description'' (StrV ''group-[.toast]:text-muted-foreground''),
              At ''actionButton'' (StrV ''group-[.toast]:bg-primary group-[.toast]:text-primary-foreground''),
              At ''cancelButton'' (StrV ''group-[.toast]:bg-muted group-[.toast]:text-muted-foreground'')]))])),
         Spread (rest [] p)]
        [])"

section \<open>\<open>command.tsx\<close>\<close>

definition mockup_Command :: component where
  "mockup_Command L p =
     jsx (Lib ''cmdk'' ''Command'')
       [At ''ref'' (arg p ''ref''),
        At ''className'' (cn L [StrV ''flex h-full w-full flex-col overflow-hidden rounded-md bg-popover text-popover-foreground'', arg p ''className'']),
        Spread (rest [''className'', ''ref''] p)]
       []"

definition mockup_CommandDialog :: component where
  "mockup_CommandDialog L p =
     jsx (mockup_Dialog)
       [Spread (rest [''children''] p)]
       [jsx (Own ''DialogContent'')
          [At ''className'' (StrV ''overflow-hidden p-0'')]
          [jsx (Own ''Command'')
             [At ''className'' (StrV ''[&_[cmdk-group-heading]]:px-2 [&_[cmdk-group-heading]]:font-medium [&_[cmdk-group-heading]]:text-muted-foreground [&_[cmdk-group]:not([hidden])_~[cmdk-group]]:pt-0 [&_[cmdk-group]]:px-2 [&_[cmdk-input-wrapper]_svg]:h-5 [&_[cmdk-input-wrapper]_svg]:w-5 [&_[cmdk-input]]:h-12 [&_[cmdk-item]]:px-2 [&_[cmdk-item]]:py-3 [&_[cmdk-item]_svg]:h-5 [&_[cmdk-item]_svg]:w-5'')]
             [arg p ''children'']]]"

definition mockup_CommandInput :: component where
  "mockup_CommandInput L p =
     jsx (Host ''div'')
       [At ''className'' (StrV ''flex items-center border-b px-3''),
        At ''cmdk-input-wrapper'' (StrV '''')]
       [jsx (Lib ''lucide-react'' ''Search'')
          [At ''className'' (StrV ''mr-2 h-4 w-4 shrink-0 opacity-50'')]
          [],
        jsx (Lib ''cmdk'' ''Command.Input'')
          [At ''ref'' (arg p ''ref''),
           At ''className'' (cn L [StrV ''flex h-10 w-full rounded-md bg-transparent py-3 text-sm outline-none placeholder:text-muted-foreground disabled:cursor-not-allowed disabled:opacity-50'', arg p ''className'']),
           Spread (rest [''className'', ''ref''] p)]
          []]"

definition mockup_CommandList :: component where
  "mockup_CommandList L p =
     jsx (Lib ''cmdk'' ''Command.List'')
       [At ''ref'' (arg p ''ref''),
        At ''className'' (cn L [StrV ''max-h-[300px] overflow-y-auto overflow-x-hidden'', arg p ''className'']),
        Spread (rest [''className'', ''ref''] p)]
       []"

definition mockup_CommandEmpty :: component where
  "mockup_CommandEmpty L p =
     jsx (Lib ''cmdk'' ''Command.Empty'')
       [At ''ref'' (arg p ''ref''),
        At ''className'' (StrV ''py-6 text-center text-sm''),
        Spread (rest [''ref''] p)]
       []"

definition mockup_CommandGroup :: component where
  "mockup_CommandGroup L p =
     jsx (Lib ''cmdk'' ''Command.Group'')
       [At ''ref'' (arg p ''ref''),
        At ''className'' (cn L [StrV ''overflow-hidden p-1 text-foreground [&_[cmdk-group-heading]]:px-2 [&_[cmdk-group-heading]]:py-1.5 [&_[cmdk-group-heading]]:text-xs [&_[cmdk-group-heading]]:font-medium [&_[cmdk-group-heading]]:text-muted-foreground'', arg p ''className'']),
        Spread (rest [''className'', ''ref''] p)]
       []"

definition mockup_CommandSeparator :: component where
  "mockup_CommandSeparator L p =
     jsx (Lib ''cmdk'' ''Command.Separator'')
       [At ''ref'' (arg p ''ref''),
        At ''className'' (cn L [StrV ''-mx-1 h-px bg-border'', arg p ''className'']),
        Spread (rest [''className'', ''ref''] p)]
       []"

definition mockup_CommandItem :: component where
  "mockup_CommandItem L p =
     jsx (Lib ''cmdk'' ''Command.Item'')
       [At ''ref'' (arg p ''ref''),
        At ''className'' (cn L [StrV ''relative flex cursor-default gap-2 select-none items-center rounded-sm px-2 py-1.5 text-sm outline-none data-[disabled=true]:pointer-events-none data-[selected=true]:bg-accent data-[selected=true]:text-accent-foreground data-[disabled=true]:opacity-50 [&_svg]:pointer-events-none [&_svg]:size-4 [&_svg]:shrink-0'', arg p ''className'']),
        Spread (rest [''className'', ''ref''] p)]
       []"

definition mockup_CommandShortcut :: component where
  "mockup_CommandShortcut L p =
     jsx (Host ''span'')
       [At ''className'' (cn L [StrV ''ml-auto text-xs tracking-widest text-muted-foreground'', arg p ''className'']),
        Spread (rest [''className''] p)]
       []"

end
