(* ===== verification/Mockup_Copy.thy ===== *)
theory Mockup_Copy
  imports Ui_Laws Ui_Controls Ui_Overlays Ui_Menus Ui_Layout Ui_Frames
    Mockup_Controls Mockup_Overlays Mockup_Menus Mockup_Layout Mockup_Frames
begin

text \<open>
  The mockup sandbox has its own copy of \<open>components/ui\<close>; this theory compares the copies.  The two
  \<open>buttonVariants\<close> differ in blanks, which no class list shows: the locale \<open>class_spacing\<close> adds to the
  contract of the class-name libraries that blanks only separate.
\<close>

section \<open>Blanks in class lists\<close>

definition same_words :: "uval \<Rightarrow> uval \<Rightarrow> bool" where
  "same_words a b \<longleftrightarrow> a = b \<or> (\<exists>s t. a = StrV s \<and> b = StrV t \<and> words s = words t)"

definition spaced :: "(string \<times> (string \<times> string) list) list \<Rightarrow> (string \<times> (string \<times> string list) list) list" where
  "spaced opts = map (\<lambda>(v, os). (v, map (\<lambda>(k, s). (k, words s)) os)) opts"

definition same_variants :: "variants \<Rightarrow> variants \<Rightarrow> bool" where
  "same_variants c d \<longleftrightarrow> words (cva_base c) = words (cva_base d) \<and> cva_defaults c = cva_defaults d \<and>
     spaced (cva_options c) = spaced (cva_options d)"

locale class_spacing = class_library +
  assumes merge_spacing: "words s = words t \<Longrightarrow> twMerge L s = twMerge L t"
    and clsx_spacing: "list_all2 same_words xs ys \<Longrightarrow> words (clsx L xs) = words (clsx L ys)"
    and cva_spacing: "same_variants c d \<Longrightarrow> words (cva_text L c ps) = words (cva_text L d ps)"
begin

lemma cn_spacing:
  assumes "same_variants c d"
  shows "cn L (cva L c ps # xs) = cn L (cva L d ps # xs)"
proof -
  have "list_all2 same_words xs xs" by (simp add: list_all2_refl same_words_def)
  then have "list_all2 same_words (cva L c ps # xs) (cva L d ps # xs)"
    using cva_spacing [OF assms] by (simp add: same_words_def cva_def)
  then show ?thesis by (simp add: cn_def merge_spacing [OF clsx_spacing])
qed

end

section \<open>An instance of the contract\<close>

lemma words_cons_blank: "words (CHR '' '' # s) = words s"
  by (simp add: words_def)

lemma words_join_classes: "words (join_classes xs) = concat (map (\<lambda>v. words (class_text v)) xs)"
proof (induction xs)
  case (Cons v xs)
  then show ?case
    by (cases xs) (simp_all add: join_classes_def words_cons_blank words_append)
qed (simp add: join_classes_def words_def)

lemma split_words_plain: "CHR '' '' \<notin> set a \<Longrightarrow> split_words w (a @ b) = split_words (w @ a) b"
  by (induction a arbitrary: w) auto

lemma words_are_plain: "CHR '' '' \<notin> set w \<Longrightarrow> x \<in> set (split_words w s) \<Longrightarrow> x \<noteq> [] \<and> CHR '' '' \<notin> set x"
  by (induction w s rule: split_words.induct) (auto split: if_splits)

definition tidy :: "string \<Rightarrow> string" where
  "tidy s = concat (map (\<lambda>w. CHR '' '' # w) (words s))"

lemma words_concat_blank:
  "\<forall>w \<in> set ws. w \<noteq> [] \<and> CHR '' '' \<notin> set w \<Longrightarrow> words (concat (map (\<lambda>w. CHR '' '' # w) ws)) = ws"
proof (induction ws)
  case (Cons w ws)
  then have "split_words [] (w @ concat (map (\<lambda>w. CHR '' '' # w) ws)) = w # ws"
    using split_words_plain [of w "[]" "[]"] by (cases ws) (simp_all add: split_words_plain words_def)
  then show ?case by (simp add: words_def)
qed (simp add: words_def)

lemma words_tidy: "words (tidy s) = words s"
  using words_are_plain [of "[]" _ s] by (auto simp: tidy_def words_def intro!: words_concat_blank [unfolded words_def])

text \<open>The environment that joins classes and merges by writing each class once blank-separated.\<close>

definition spacing_env :: ui_env where
  "spacing_env = joining_env\<lparr>twMerge := tidy\<rparr>"

definition word_options :: "(string \<times> string) list \<Rightarrow> props \<Rightarrow> (string \<times> (string \<times> string list) list) list \<Rightarrow> string list" where
  "word_options defaults p opts =
     concat (map (\<lambda>(variant, options).
       case Option.bind (chosen defaults p variant) (map_of options) of None \<Rightarrow> [] | Some ws \<Rightarrow> ws) opts)"

lemma option_words:
  "concat (map (\<lambda>v. words (class_text v)) (option_classes cfg p)) =
     word_options (cva_defaults cfg) p (spaced (cva_options cfg))"
proof -
  have chosen_words:
    "words (class_text (case Option.bind ch (map_of os) of None \<Rightarrow> Absent | Some c \<Rightarrow> StrV c)) =
       (case Option.bind ch (map_of (map (\<lambda>(k, s). (k, words s)) os)) of None \<Rightarrow> [] | Some ws \<Rightarrow> ws)" for ch os
    by (cases ch) (auto simp: map_of_map words_def split: option.split)
  have "concat (map (\<lambda>v. words (class_text v)) (map (\<lambda>(variant, options).
          case Option.bind (chosen ds p variant) (map_of options) of None \<Rightarrow> Absent | Some c \<Rightarrow> StrV c) opts)) =
        word_options ds p (spaced opts)" for ds opts
    by (induction opts) (auto simp: word_options_def spaced_def chosen_words [unfolded split_def] split_def)
  then show ?thesis by (simp add: option_classes_def)
qed

interpretation spacing: class_spacing spacing_env
proof
  show "\<exists>pre. words (clsx spacing_env (xs @ [StrV c])) = pre @ words c" for xs c
    by (simp add: spacing_env_def joining_env_def words_join_last)
  show "\<exists>pre. words (cva_text spacing_env cfg ps) = pre @ words c" if "arg ps ''className'' = StrV c" for ps c cfg
    using that joining.cva_last [of ps c cfg] by (simp add: spacing_env_def)
  show "set (words c) \<subseteq> set (words (twMerge spacing_env s))" if "words s = pre @ words c" for s pre c
    using that by (simp add: spacing_env_def words_tidy)
  show "twMerge spacing_env s = twMerge spacing_env t" if "words s = words t" for s t
    using that by (simp add: spacing_env_def tidy_def)
  show "words (clsx spacing_env xs) = words (clsx spacing_env ys)" if "list_all2 same_words xs ys" for xs ys
    using that by (induction rule: list_all2_induct)
      (auto simp: spacing_env_def joining_env_def words_join_classes same_words_def)
  show "words (cva_text spacing_env c ps) = words (cva_text spacing_env d ps)" if "same_variants c d" for c d ps
    using that by (simp add: spacing_env_def joining_env_def words_join_classes option_words) (simp add: same_variants_def)
qed

section \<open>The copies\<close>

lemma button_variants_spacing: "same_variants mockup_buttonVariants buttonVariants"
  unfolding same_variants_def mockup_buttonVariants_def buttonVariants_def
  by (simp add: spaced_def words_def)

context class_spacing
begin

lemmas spaced_variants = cn_spacing [OF button_variants_spacing]

end

lemma controls_constants:
  "mockup_labelVariants = labelVariants"
  "mockup_toggleVariants = toggleVariants"
  "mockup_badgeVariants = badgeVariants"
  "mockup_AspectRatio = AspectRatio"
  "mockup_Collapsible = Collapsible"
  "mockup_CollapsibleTrigger = CollapsibleTrigger"
  "mockup_CollapsibleContent = CollapsibleContent"
  "mockup_ResizablePanel = ResizablePanel"
  by (simp_all only:
     mockup_labelVariants_def labelVariants_def mockup_toggleVariants_def toggleVariants_def
     mockup_badgeVariants_def badgeVariants_def mockup_AspectRatio_def AspectRatio_def
     mockup_Collapsible_def Collapsible_def mockup_CollapsibleTrigger_def CollapsibleTrigger_def
     mockup_CollapsibleContent_def CollapsibleContent_def mockup_ResizablePanel_def ResizablePanel_def)

lemma controls_same:
  "mockup_Input = Input"
  "mockup_Label = Label"
  "mockup_Textarea = Textarea"
  "mockup_Checkbox = Checkbox"
  "mockup_Switch = Switch"
  "mockup_Slider = Slider"
  "mockup_RadioGroup = RadioGroup"
  "mockup_RadioGroupItem = RadioGroupItem"
  "mockup_Toggle = Toggle"
  "mockup_ToggleGroup = ToggleGroup"
  "mockup_ToggleGroupItem = ToggleGroupItem"
  "mockup_InputOTP = InputOTP"
  "mockup_InputOTPGroup = InputOTPGroup"
  "mockup_InputOTPSlot = InputOTPSlot"
  "mockup_InputOTPSeparator = InputOTPSeparator"
  "mockup_Progress = Progress"
  "mockup_Separator = Separator"
  "mockup_Skeleton = Skeleton"
  "mockup_Spinner = Spinner"
  "mockup_Badge = Badge"
  "mockup_Avatar = Avatar"
  "mockup_AvatarImage = AvatarImage"
  "mockup_AvatarFallback = AvatarFallback"
  "mockup_Kbd = Kbd"
  "mockup_KbdGroup = KbdGroup"
  "mockup_ScrollArea = ScrollArea"
  "mockup_ScrollBar = ScrollBar"
  "mockup_ResizablePanelGroup = ResizablePanelGroup"
  "mockup_ResizableHandle = ResizableHandle"
  by (intro ext, simp only: controls_constants
     mockup_Input_def Input_def mockup_Label_def Label_def mockup_Textarea_def Textarea_def
     mockup_Checkbox_def Checkbox_def mockup_Switch_def Switch_def mockup_Slider_def Slider_def
     mockup_RadioGroup_def RadioGroup_def mockup_RadioGroupItem_def RadioGroupItem_def
     mockup_Toggle_def Toggle_def mockup_ToggleGroup_def ToggleGroup_def
     mockup_ToggleGroupItem_def ToggleGroupItem_def mockup_InputOTP_def InputOTP_def
     mockup_InputOTPGroup_def InputOTPGroup_def mockup_InputOTPSlot_def InputOTPSlot_def
     mockup_InputOTPSeparator_def InputOTPSeparator_def mockup_Progress_def Progress_def
     mockup_Separator_def Separator_def mockup_Skeleton_def Skeleton_def mockup_Spinner_def Spinner_def
     mockup_Badge_def Badge_def mockup_Avatar_def Avatar_def mockup_AvatarImage_def AvatarImage_def
     mockup_AvatarFallback_def AvatarFallback_def mockup_Kbd_def Kbd_def
     mockup_KbdGroup_def KbdGroup_def mockup_ScrollArea_def ScrollArea_def
     mockup_ScrollBar_def ScrollBar_def mockup_ResizablePanelGroup_def ResizablePanelGroup_def
     mockup_ResizableHandle_def ResizableHandle_def)+

context class_spacing
begin

lemma controls_spaced:
  "mockup_Button L p = Button L p"
  by (simp_all only: spaced_variants mockup_Button_def Button_def)

end

lemma overlays_constants:
  "mockup_Dialog = Dialog"
  "mockup_DialogTrigger = DialogTrigger"
  "mockup_DialogPortal = DialogPortal"
  "mockup_DialogClose = DialogClose"
  "mockup_Sheet = Sheet"
  "mockup_SheetTrigger = SheetTrigger"
  "mockup_SheetClose = SheetClose"
  "mockup_SheetPortal = SheetPortal"
  "mockup_sheetVariants = sheetVariants"
  "mockup_DrawerTrigger = DrawerTrigger"
  "mockup_DrawerPortal = DrawerPortal"
  "mockup_DrawerClose = DrawerClose"
  "mockup_AlertDialog = AlertDialog"
  "mockup_AlertDialogTrigger = AlertDialogTrigger"
  "mockup_AlertDialogPortal = AlertDialogPortal"
  "mockup_Popover = Popover"
  "mockup_PopoverTrigger = PopoverTrigger"
  "mockup_PopoverAnchor = PopoverAnchor"
  "mockup_HoverCard = HoverCard"
  "mockup_HoverCardTrigger = HoverCardTrigger"
  "mockup_TooltipProvider = TooltipProvider"
  "mockup_Tooltip = Tooltip"
  "mockup_TooltipTrigger = TooltipTrigger"
  "mockup_ToastProvider = ToastProvider"
  "mockup_toastVariants = toastVariants"
  by (simp_all only:
     mockup_Dialog_def Dialog_def mockup_DialogTrigger_def DialogTrigger_def
     mockup_DialogPortal_def DialogPortal_def mockup_DialogClose_def DialogClose_def
     mockup_Sheet_def Sheet_def mockup_SheetTrigger_def SheetTrigger_def
     mockup_SheetClose_def SheetClose_def mockup_SheetPortal_def SheetPortal_def
     mockup_sheetVariants_def sheetVariants_def mockup_DrawerTrigger_def DrawerTrigger_def
     mockup_DrawerPortal_def DrawerPortal_def mockup_DrawerClose_def DrawerClose_def
     mockup_AlertDialog_def AlertDialog_def mockup_AlertDialogTrigger_def AlertDialogTrigger_def
     mockup_AlertDialogPortal_def AlertDialogPortal_def mockup_Popover_def Popover_def
     mockup_PopoverTrigger_def PopoverTrigger_def mockup_PopoverAnchor_def PopoverAnchor_def
     mockup_HoverCard_def HoverCard_def mockup_HoverCardTrigger_def HoverCardTrigger_def
     mockup_TooltipProvider_def TooltipProvider_def mockup_Tooltip_def Tooltip_def
     mockup_TooltipTrigger_def TooltipTrigger_def mockup_ToastProvider_def ToastProvider_def
     mockup_toastVariants_def toastVariants_def)

lemma overlays_same:
  "mockup_DialogOverlay = DialogOverlay"
  "mockup_DialogHeader = DialogHeader"
  "mockup_DialogFooter = DialogFooter"
  "mockup_DialogTitle = DialogTitle"
  "mockup_DialogDescription = DialogDescription"
  "mockup_SheetOverlay = SheetOverlay"
  "mockup_SheetContent = SheetContent"
  "mockup_SheetHeader = SheetHeader"
  "mockup_SheetFooter = SheetFooter"
  "mockup_SheetTitle = SheetTitle"
  "mockup_SheetDescription = SheetDescription"
  "mockup_Drawer = Drawer"
  "mockup_DrawerOverlay = DrawerOverlay"
  "mockup_DrawerContent = DrawerContent"
  "mockup_DrawerHeader = DrawerHeader"
  "mockup_DrawerFooter = DrawerFooter"
  "mockup_DrawerTitle = DrawerTitle"
  "mockup_DrawerDescription = DrawerDescription"
  "mockup_AlertDialogOverlay = AlertDialogOverlay"
  "mockup_AlertDialogContent = AlertDialogContent"
  "mockup_AlertDialogHeader = AlertDialogHeader"
  "mockup_AlertDialogFooter = AlertDialogFooter"
  "mockup_AlertDialogTitle = AlertDialogTitle"
  "mockup_AlertDialogDescription = AlertDialogDescription"
  "mockup_PopoverContent = PopoverContent"
  "mockup_HoverCardContent = HoverCardContent"
  "mockup_TooltipContent = TooltipContent"
  "mockup_ToastViewport = ToastViewport"
  "mockup_Toast = Toast"
  "mockup_ToastAction = ToastAction"
  "mockup_ToastClose = ToastClose"
  "mockup_ToastTitle = ToastTitle"
  "mockup_ToastDescription = ToastDescription"
  "mockup_Toaster = Toaster"
  "mockup_sonner_Toaster = sonner_Toaster"
  "mockup_Command = Command"
  "mockup_CommandDialog = CommandDialog"
  "mockup_CommandInput = CommandInput"
  "mockup_CommandList = CommandList"
  "mockup_CommandEmpty = CommandEmpty"
  "mockup_CommandGroup = CommandGroup"
  "mockup_CommandSeparator = CommandSeparator"
  "mockup_CommandItem = CommandItem"
  "mockup_CommandShortcut = CommandShortcut"
  by (intro ext, simp only: controls_constants overlays_constants
     mockup_DialogOverlay_def DialogOverlay_def mockup_DialogHeader_def DialogHeader_def
     mockup_DialogFooter_def DialogFooter_def mockup_DialogTitle_def DialogTitle_def
     mockup_DialogDescription_def DialogDescription_def mockup_SheetOverlay_def SheetOverlay_def
     mockup_SheetContent_def SheetContent_def mockup_SheetHeader_def SheetHeader_def
     mockup_SheetFooter_def SheetFooter_def mockup_SheetTitle_def SheetTitle_def
     mockup_SheetDescription_def SheetDescription_def mockup_Drawer_def Drawer_def
     mockup_DrawerOverlay_def DrawerOverlay_def mockup_DrawerContent_def DrawerContent_def
     mockup_DrawerHeader_def DrawerHeader_def mockup_DrawerFooter_def DrawerFooter_def
     mockup_DrawerTitle_def DrawerTitle_def mockup_DrawerDescription_def DrawerDescription_def
     mockup_AlertDialogOverlay_def AlertDialogOverlay_def
     mockup_AlertDialogContent_def AlertDialogContent_def
     mockup_AlertDialogHeader_def AlertDialogHeader_def
     mockup_AlertDialogFooter_def AlertDialogFooter_def
     mockup_AlertDialogTitle_def AlertDialogTitle_def
     mockup_AlertDialogDescription_def AlertDialogDescription_def
     mockup_PopoverContent_def PopoverContent_def mockup_HoverCardContent_def HoverCardContent_def
     mockup_TooltipContent_def TooltipContent_def mockup_ToastViewport_def ToastViewport_def
     mockup_Toast_def Toast_def mockup_ToastAction_def ToastAction_def
     mockup_ToastClose_def ToastClose_def mockup_ToastTitle_def ToastTitle_def
     mockup_ToastDescription_def ToastDescription_def mockup_Toaster_def Toaster_def
     mockup_sonner_Toaster_def sonner_Toaster_def mockup_Command_def Command_def
     mockup_CommandDialog_def CommandDialog_def mockup_CommandInput_def CommandInput_def
     mockup_CommandList_def CommandList_def mockup_CommandEmpty_def CommandEmpty_def
     mockup_CommandGroup_def CommandGroup_def mockup_CommandSeparator_def CommandSeparator_def
     mockup_CommandItem_def CommandItem_def mockup_CommandShortcut_def CommandShortcut_def)+

context class_spacing
begin

lemma overlays_spaced:
  "mockup_AlertDialogAction L p = AlertDialogAction L p"
  "mockup_AlertDialogCancel L p = AlertDialogCancel L p"
  by (simp_all only: spaced_variants mockup_AlertDialogAction_def AlertDialogAction_def mockup_AlertDialogCancel_def AlertDialogCancel_def)

end

lemma menus_constants:
  "mockup_DropdownMenu = DropdownMenu"
  "mockup_DropdownMenuTrigger = DropdownMenuTrigger"
  "mockup_DropdownMenuGroup = DropdownMenuGroup"
  "mockup_DropdownMenuPortal = DropdownMenuPortal"
  "mockup_DropdownMenuSub = DropdownMenuSub"
  "mockup_DropdownMenuRadioGroup = DropdownMenuRadioGroup"
  "mockup_ContextMenu = ContextMenu"
  "mockup_ContextMenuTrigger = ContextMenuTrigger"
  "mockup_ContextMenuGroup = ContextMenuGroup"
  "mockup_ContextMenuPortal = ContextMenuPortal"
  "mockup_ContextMenuSub = ContextMenuSub"
  "mockup_ContextMenuRadioGroup = ContextMenuRadioGroup"
  "mockup_NavigationMenuItem = NavigationMenuItem"
  "mockup_navigationMenuTriggerStyle = navigationMenuTriggerStyle"
  "mockup_NavigationMenuLink = NavigationMenuLink"
  "mockup_Select = Select"
  "mockup_SelectGroup = SelectGroup"
  "mockup_SelectValue = SelectValue"
  by (simp_all only:
     mockup_DropdownMenu_def DropdownMenu_def mockup_DropdownMenuTrigger_def DropdownMenuTrigger_def
     mockup_DropdownMenuGroup_def DropdownMenuGroup_def
     mockup_DropdownMenuPortal_def DropdownMenuPortal_def
     mockup_DropdownMenuSub_def DropdownMenuSub_def
     mockup_DropdownMenuRadioGroup_def DropdownMenuRadioGroup_def
     mockup_ContextMenu_def ContextMenu_def mockup_ContextMenuTrigger_def ContextMenuTrigger_def
     mockup_ContextMenuGroup_def ContextMenuGroup_def
     mockup_ContextMenuPortal_def ContextMenuPortal_def mockup_ContextMenuSub_def ContextMenuSub_def
     mockup_ContextMenuRadioGroup_def ContextMenuRadioGroup_def
     mockup_NavigationMenuItem_def NavigationMenuItem_def
     mockup_navigationMenuTriggerStyle_def navigationMenuTriggerStyle_def
     mockup_NavigationMenuLink_def NavigationMenuLink_def mockup_Select_def Select_def
     mockup_SelectGroup_def SelectGroup_def mockup_SelectValue_def SelectValue_def)

lemma menus_same:
  "mockup_DropdownMenuSubTrigger = DropdownMenuSubTrigger"
  "mockup_DropdownMenuSubContent = DropdownMenuSubContent"
  "mockup_DropdownMenuContent = DropdownMenuContent"
  "mockup_DropdownMenuItem = DropdownMenuItem"
  "mockup_DropdownMenuCheckboxItem = DropdownMenuCheckboxItem"
  "mockup_DropdownMenuRadioItem = DropdownMenuRadioItem"
  "mockup_DropdownMenuLabel = DropdownMenuLabel"
  "mockup_DropdownMenuSeparator = DropdownMenuSeparator"
  "mockup_DropdownMenuShortcut = DropdownMenuShortcut"
  "mockup_ContextMenuSubTrigger = ContextMenuSubTrigger"
  "mockup_ContextMenuSubContent = ContextMenuSubContent"
  "mockup_ContextMenuContent = ContextMenuContent"
  "mockup_ContextMenuItem = ContextMenuItem"
  "mockup_ContextMenuCheckboxItem = ContextMenuCheckboxItem"
  "mockup_ContextMenuRadioItem = ContextMenuRadioItem"
  "mockup_ContextMenuLabel = ContextMenuLabel"
  "mockup_ContextMenuSeparator = ContextMenuSeparator"
  "mockup_ContextMenuShortcut = ContextMenuShortcut"
  "mockup_MenubarMenu = MenubarMenu"
  "mockup_MenubarGroup = MenubarGroup"
  "mockup_MenubarPortal = MenubarPortal"
  "mockup_MenubarRadioGroup = MenubarRadioGroup"
  "mockup_MenubarSub = MenubarSub"
  "mockup_Menubar = Menubar"
  "mockup_MenubarTrigger = MenubarTrigger"
  "mockup_MenubarSubTrigger = MenubarSubTrigger"
  "mockup_MenubarSubContent = MenubarSubContent"
  "mockup_MenubarContent = MenubarContent"
  "mockup_MenubarItem = MenubarItem"
  "mockup_MenubarCheckboxItem = MenubarCheckboxItem"
  "mockup_MenubarRadioItem = MenubarRadioItem"
  "mockup_MenubarLabel = MenubarLabel"
  "mockup_MenubarSeparator = MenubarSeparator"
  "mockup_MenubarShortcut = MenubarShortcut"
  "mockup_NavigationMenu = NavigationMenu"
  "mockup_NavigationMenuList = NavigationMenuList"
  "mockup_NavigationMenuTrigger = NavigationMenuTrigger"
  "mockup_NavigationMenuContent = NavigationMenuContent"
  "mockup_NavigationMenuViewport = NavigationMenuViewport"
  "mockup_NavigationMenuIndicator = NavigationMenuIndicator"
  "mockup_SelectTrigger = SelectTrigger"
  "mockup_SelectScrollUpButton = SelectScrollUpButton"
  "mockup_SelectScrollDownButton = SelectScrollDownButton"
  "mockup_SelectContent = SelectContent"
  "mockup_SelectLabel = SelectLabel"
  "mockup_SelectItem = SelectItem"
  "mockup_SelectSeparator = SelectSeparator"
  by (intro ext, simp only: controls_constants overlays_constants menus_constants
     mockup_DropdownMenuSubTrigger_def DropdownMenuSubTrigger_def
     mockup_DropdownMenuSubContent_def DropdownMenuSubContent_def
     mockup_DropdownMenuContent_def DropdownMenuContent_def
     mockup_DropdownMenuItem_def DropdownMenuItem_def
     mockup_DropdownMenuCheckboxItem_def DropdownMenuCheckboxItem_def
     mockup_DropdownMenuRadioItem_def DropdownMenuRadioItem_def
     mockup_DropdownMenuLabel_def DropdownMenuLabel_def
     mockup_DropdownMenuSeparator_def DropdownMenuSeparator_def
     mockup_DropdownMenuShortcut_def DropdownMenuShortcut_def
     mockup_ContextMenuSubTrigger_def ContextMenuSubTrigger_def
     mockup_ContextMenuSubContent_def ContextMenuSubContent_def
     mockup_ContextMenuContent_def ContextMenuContent_def
     mockup_ContextMenuItem_def ContextMenuItem_def
     mockup_ContextMenuCheckboxItem_def ContextMenuCheckboxItem_def
     mockup_ContextMenuRadioItem_def ContextMenuRadioItem_def
     mockup_ContextMenuLabel_def ContextMenuLabel_def
     mockup_ContextMenuSeparator_def ContextMenuSeparator_def
     mockup_ContextMenuShortcut_def ContextMenuShortcut_def mockup_MenubarMenu_def MenubarMenu_def
     mockup_MenubarGroup_def MenubarGroup_def mockup_MenubarPortal_def MenubarPortal_def
     mockup_MenubarRadioGroup_def MenubarRadioGroup_def mockup_MenubarSub_def MenubarSub_def
     mockup_Menubar_def Menubar_def mockup_MenubarTrigger_def MenubarTrigger_def
     mockup_MenubarSubTrigger_def MenubarSubTrigger_def
     mockup_MenubarSubContent_def MenubarSubContent_def mockup_MenubarContent_def MenubarContent_def
     mockup_MenubarItem_def MenubarItem_def mockup_MenubarCheckboxItem_def MenubarCheckboxItem_def
     mockup_MenubarRadioItem_def MenubarRadioItem_def mockup_MenubarLabel_def MenubarLabel_def
     mockup_MenubarSeparator_def MenubarSeparator_def mockup_MenubarShortcut_def MenubarShortcut_def
     mockup_NavigationMenu_def NavigationMenu_def mockup_NavigationMenuList_def NavigationMenuList_def
     mockup_NavigationMenuTrigger_def NavigationMenuTrigger_def
     mockup_NavigationMenuContent_def NavigationMenuContent_def
     mockup_NavigationMenuViewport_def NavigationMenuViewport_def
     mockup_NavigationMenuIndicator_def NavigationMenuIndicator_def
     mockup_SelectTrigger_def SelectTrigger_def
     mockup_SelectScrollUpButton_def SelectScrollUpButton_def
     mockup_SelectScrollDownButton_def SelectScrollDownButton_def
     mockup_SelectContent_def SelectContent_def mockup_SelectLabel_def SelectLabel_def
     mockup_SelectItem_def SelectItem_def mockup_SelectSeparator_def SelectSeparator_def)+

lemma layout_constants:
  "mockup_Accordion = Accordion"
  "mockup_Tabs = Tabs"
  "mockup_alertVariants = alertVariants"
  "mockup_itemVariants = itemVariants"
  "mockup_itemMediaVariants = itemMediaVariants"
  "mockup_emptyMediaVariants = emptyMediaVariants"
  "mockup_buttonGroupVariants = buttonGroupVariants"
  "mockup_inputGroupAddonVariants = inputGroupAddonVariants"
  "mockup_inputGroupButtonVariants = inputGroupButtonVariants"
  "mockup_fieldVariants = fieldVariants"
  "mockup_Form = Form"
  by (simp_all only:
     mockup_Accordion_def Accordion_def mockup_Tabs_def Tabs_def
     mockup_alertVariants_def alertVariants_def mockup_itemVariants_def itemVariants_def
     mockup_itemMediaVariants_def itemMediaVariants_def
     mockup_emptyMediaVariants_def emptyMediaVariants_def
     mockup_buttonGroupVariants_def buttonGroupVariants_def
     mockup_inputGroupAddonVariants_def inputGroupAddonVariants_def
     mockup_inputGroupButtonVariants_def inputGroupButtonVariants_def
     mockup_fieldVariants_def fieldVariants_def mockup_Form_def Form_def)

lemma layout_same:
  "mockup_AccordionItem = AccordionItem"
  "mockup_AccordionTrigger = AccordionTrigger"
  "mockup_AccordionContent = AccordionContent"
  "mockup_TabsList = TabsList"
  "mockup_TabsTrigger = TabsTrigger"
  "mockup_TabsContent = TabsContent"
  "mockup_Table = Table"
  "mockup_TableHeader = TableHeader"
  "mockup_TableBody = TableBody"
  "mockup_TableFooter = TableFooter"
  "mockup_TableRow = TableRow"
  "mockup_TableHead = TableHead"
  "mockup_TableCell = TableCell"
  "mockup_TableCaption = TableCaption"
  "mockup_Card = Card"
  "mockup_CardHeader = CardHeader"
  "mockup_CardTitle = CardTitle"
  "mockup_CardDescription = CardDescription"
  "mockup_CardContent = CardContent"
  "mockup_CardFooter = CardFooter"
  "mockup_Alert = Alert"
  "mockup_AlertTitle = AlertTitle"
  "mockup_AlertDescription = AlertDescription"
  "mockup_Breadcrumb = Breadcrumb"
  "mockup_BreadcrumbList = BreadcrumbList"
  "mockup_BreadcrumbItem = BreadcrumbItem"
  "mockup_BreadcrumbLink = BreadcrumbLink"
  "mockup_BreadcrumbPage = BreadcrumbPage"
  "mockup_BreadcrumbSeparator = BreadcrumbSeparator"
  "mockup_BreadcrumbEllipsis = BreadcrumbEllipsis"
  "mockup_Pagination = Pagination"
  "mockup_PaginationContent = PaginationContent"
  "mockup_PaginationItem = PaginationItem"
  "mockup_PaginationPrevious = PaginationPrevious"
  "mockup_PaginationNext = PaginationNext"
  "mockup_PaginationEllipsis = PaginationEllipsis"
  "mockup_ItemGroup = ItemGroup"
  "mockup_ItemSeparator = ItemSeparator"
  "mockup_Item = Item"
  "mockup_ItemMedia = ItemMedia"
  "mockup_ItemContent = ItemContent"
  "mockup_ItemTitle = ItemTitle"
  "mockup_ItemDescription = ItemDescription"
  "mockup_ItemActions = ItemActions"
  "mockup_ItemHeader = ItemHeader"
  "mockup_ItemFooter = ItemFooter"
  "mockup_Empty = Empty"
  "mockup_EmptyHeader = EmptyHeader"
  "mockup_EmptyMedia = EmptyMedia"
  "mockup_EmptyTitle = EmptyTitle"
  "mockup_EmptyDescription = EmptyDescription"
  "mockup_EmptyContent = EmptyContent"
  "mockup_ButtonGroup = ButtonGroup"
  "mockup_ButtonGroupText = ButtonGroupText"
  "mockup_ButtonGroupSeparator = ButtonGroupSeparator"
  "mockup_InputGroup = InputGroup"
  "mockup_InputGroupAddon = InputGroupAddon"
  "mockup_InputGroupButton = InputGroupButton"
  "mockup_InputGroupText = InputGroupText"
  "mockup_InputGroupInput = InputGroupInput"
  "mockup_InputGroupTextarea = InputGroupTextarea"
  "mockup_FieldSet = FieldSet"
  "mockup_FieldLegend = FieldLegend"
  "mockup_FieldGroup = FieldGroup"
  "mockup_Field = Field"
  "mockup_FieldContent = FieldContent"
  "mockup_FieldLabel = FieldLabel"
  "mockup_FieldTitle = FieldTitle"
  "mockup_FieldDescription = FieldDescription"
  "mockup_FieldSeparator = FieldSeparator"
  "mockup_FormField = FormField"
  "mockup_FormItem = FormItem"
  "mockup_FormLabel_view = FormLabel_view"
  "mockup_FormControl_view = FormControl_view"
  "mockup_FormDescription_view = FormDescription_view"
  "mockup_FormMessage_view = FormMessage_view"
  "mockup_Calendar_Root = Calendar_Root"
  "mockup_Calendar_Chevron = Calendar_Chevron"
  "mockup_Calendar_WeekNumber = Calendar_WeekNumber"
  "mockup_CalendarDayButton = CalendarDayButton"
  by (intro ext, simp only: controls_constants overlays_constants menus_constants layout_constants
     mockup_AccordionItem_def AccordionItem_def mockup_AccordionTrigger_def AccordionTrigger_def
     mockup_AccordionContent_def AccordionContent_def mockup_TabsList_def TabsList_def
     mockup_TabsTrigger_def TabsTrigger_def mockup_TabsContent_def TabsContent_def
     mockup_Table_def Table_def mockup_TableHeader_def TableHeader_def
     mockup_TableBody_def TableBody_def mockup_TableFooter_def TableFooter_def
     mockup_TableRow_def TableRow_def mockup_TableHead_def TableHead_def
     mockup_TableCell_def TableCell_def mockup_TableCaption_def TableCaption_def
     mockup_Card_def Card_def mockup_CardHeader_def CardHeader_def mockup_CardTitle_def CardTitle_def
     mockup_CardDescription_def CardDescription_def mockup_CardContent_def CardContent_def
     mockup_CardFooter_def CardFooter_def mockup_Alert_def Alert_def
     mockup_AlertTitle_def AlertTitle_def mockup_AlertDescription_def AlertDescription_def
     mockup_Breadcrumb_def Breadcrumb_def mockup_BreadcrumbList_def BreadcrumbList_def
     mockup_BreadcrumbItem_def BreadcrumbItem_def mockup_BreadcrumbLink_def BreadcrumbLink_def
     mockup_BreadcrumbPage_def BreadcrumbPage_def
     mockup_BreadcrumbSeparator_def BreadcrumbSeparator_def
     mockup_BreadcrumbEllipsis_def BreadcrumbEllipsis_def mockup_Pagination_def Pagination_def
     mockup_PaginationContent_def PaginationContent_def mockup_PaginationItem_def PaginationItem_def
     mockup_PaginationPrevious_def PaginationPrevious_def mockup_PaginationNext_def PaginationNext_def
     mockup_PaginationEllipsis_def PaginationEllipsis_def mockup_ItemGroup_def ItemGroup_def
     mockup_ItemSeparator_def ItemSeparator_def mockup_Item_def Item_def
     mockup_ItemMedia_def ItemMedia_def mockup_ItemContent_def ItemContent_def
     mockup_ItemTitle_def ItemTitle_def mockup_ItemDescription_def ItemDescription_def
     mockup_ItemActions_def ItemActions_def mockup_ItemHeader_def ItemHeader_def
     mockup_ItemFooter_def ItemFooter_def mockup_Empty_def Empty_def
     mockup_EmptyHeader_def EmptyHeader_def mockup_EmptyMedia_def EmptyMedia_def
     mockup_EmptyTitle_def EmptyTitle_def mockup_EmptyDescription_def EmptyDescription_def
     mockup_EmptyContent_def EmptyContent_def mockup_ButtonGroup_def ButtonGroup_def
     mockup_ButtonGroupText_def ButtonGroupText_def
     mockup_ButtonGroupSeparator_def ButtonGroupSeparator_def mockup_InputGroup_def InputGroup_def
     mockup_InputGroupAddon_def InputGroupAddon_def mockup_InputGroupButton_def InputGroupButton_def
     mockup_InputGroupText_def InputGroupText_def mockup_InputGroupInput_def InputGroupInput_def
     mockup_InputGroupTextarea_def InputGroupTextarea_def mockup_FieldSet_def FieldSet_def
     mockup_FieldLegend_def FieldLegend_def mockup_FieldGroup_def FieldGroup_def
     mockup_Field_def Field_def mockup_FieldContent_def FieldContent_def
     mockup_FieldLabel_def FieldLabel_def mockup_FieldTitle_def FieldTitle_def
     mockup_FieldDescription_def FieldDescription_def mockup_FieldSeparator_def FieldSeparator_def
     mockup_FormField_def FormField_def mockup_FormItem_def FormItem_def
     mockup_FormLabel_view_def FormLabel_view_def mockup_FormControl_view_def FormControl_view_def
     mockup_FormDescription_view_def FormDescription_view_def
     mockup_FormMessage_view_def FormMessage_view_def mockup_Calendar_Root_def Calendar_Root_def
     mockup_Calendar_Chevron_def Calendar_Chevron_def
     mockup_Calendar_WeekNumber_def Calendar_WeekNumber_def
     mockup_CalendarDayButton_def CalendarDayButton_def)+

context class_spacing
begin

lemma layout_spaced:
  "mockup_PaginationLink L p = PaginationLink L p"
  "mockup_Calendar L p = Calendar L p"
  by (simp_all only: spaced_variants mockup_PaginationLink_def PaginationLink_def mockup_Calendar_def Calendar_def)

end

lemma frames_constants:
  "mockup_SIDEBAR_COOKIE_NAME = SIDEBAR_COOKIE_NAME"
  "mockup_SIDEBAR_WIDTH = SIDEBAR_WIDTH"
  "mockup_SIDEBAR_WIDTH_MOBILE = SIDEBAR_WIDTH_MOBILE"
  "mockup_SIDEBAR_WIDTH_ICON = SIDEBAR_WIDTH_ICON"
  "mockup_SIDEBAR_KEYBOARD_SHORTCUT = SIDEBAR_KEYBOARD_SHORTCUT"
  "mockup_sidebarMenuButtonVariants = sidebarMenuButtonVariants"
  by (simp_all only:
     mockup_SIDEBAR_COOKIE_NAME_def SIDEBAR_COOKIE_NAME_def mockup_SIDEBAR_WIDTH_def SIDEBAR_WIDTH_def
     mockup_SIDEBAR_WIDTH_MOBILE_def SIDEBAR_WIDTH_MOBILE_def
     mockup_SIDEBAR_WIDTH_ICON_def SIDEBAR_WIDTH_ICON_def
     mockup_SIDEBAR_KEYBOARD_SHORTCUT_def SIDEBAR_KEYBOARD_SHORTCUT_def
     mockup_sidebarMenuButtonVariants_def sidebarMenuButtonVariants_def)

lemma frames_same:
  "mockup_CarouselContent = CarouselContent"
  "mockup_CarouselItem = CarouselItem"
  "mockup_CarouselPrevious_view = CarouselPrevious_view"
  "mockup_CarouselNext_view = CarouselNext_view"
  "mockup_Sidebar_view = Sidebar_view"
  "mockup_SidebarTrigger = SidebarTrigger"
  "mockup_SidebarRail = SidebarRail"
  "mockup_SidebarInset = SidebarInset"
  "mockup_SidebarInput = SidebarInput"
  "mockup_SidebarHeader = SidebarHeader"
  "mockup_SidebarFooter = SidebarFooter"
  "mockup_SidebarSeparator = SidebarSeparator"
  "mockup_SidebarContent = SidebarContent"
  "mockup_SidebarGroup = SidebarGroup"
  "mockup_SidebarGroupLabel = SidebarGroupLabel"
  "mockup_SidebarGroupAction = SidebarGroupAction"
  "mockup_SidebarGroupContent = SidebarGroupContent"
  "mockup_SidebarMenu = SidebarMenu"
  "mockup_SidebarMenuItem = SidebarMenuItem"
  "mockup_SidebarMenuButton = SidebarMenuButton"
  "mockup_SidebarMenuAction = SidebarMenuAction"
  "mockup_SidebarMenuBadge = SidebarMenuBadge"
  "mockup_SidebarMenuSkeleton = SidebarMenuSkeleton"
  "mockup_SidebarMenuSub = SidebarMenuSub"
  "mockup_SidebarMenuSubItem = SidebarMenuSubItem"
  "mockup_SidebarMenuSubButton = SidebarMenuSubButton"
  by (intro ext, simp only: controls_constants overlays_constants menus_constants layout_constants frames_constants
     mockup_CarouselContent_def CarouselContent_def mockup_CarouselItem_def CarouselItem_def
     mockup_CarouselPrevious_view_def CarouselPrevious_view_def
     mockup_CarouselNext_view_def CarouselNext_view_def mockup_Sidebar_view_def Sidebar_view_def
     mockup_SidebarTrigger_def SidebarTrigger_def mockup_SidebarRail_def SidebarRail_def
     mockup_SidebarInset_def SidebarInset_def mockup_SidebarInput_def SidebarInput_def
     mockup_SidebarHeader_def SidebarHeader_def mockup_SidebarFooter_def SidebarFooter_def
     mockup_SidebarSeparator_def SidebarSeparator_def mockup_SidebarContent_def SidebarContent_def
     mockup_SidebarGroup_def SidebarGroup_def mockup_SidebarGroupLabel_def SidebarGroupLabel_def
     mockup_SidebarGroupAction_def SidebarGroupAction_def
     mockup_SidebarGroupContent_def SidebarGroupContent_def mockup_SidebarMenu_def SidebarMenu_def
     mockup_SidebarMenuItem_def SidebarMenuItem_def mockup_SidebarMenuButton_def SidebarMenuButton_def
     mockup_SidebarMenuAction_def SidebarMenuAction_def
     mockup_SidebarMenuBadge_def SidebarMenuBadge_def
     mockup_SidebarMenuSkeleton_def SidebarMenuSkeleton_def
     mockup_SidebarMenuSub_def SidebarMenuSub_def mockup_SidebarMenuSubItem_def SidebarMenuSubItem_def
     mockup_SidebarMenuSubButton_def SidebarMenuSubButton_def)+

definition controls_copies :: "(component \<times> component) list" where
  "controls_copies = [
     (mockup_Input, Input), (mockup_Label, Label), (mockup_Textarea, Textarea),
     (mockup_Checkbox, Checkbox), (mockup_Switch, Switch), (mockup_Slider, Slider),
     (mockup_RadioGroup, RadioGroup), (mockup_RadioGroupItem, RadioGroupItem),
     (mockup_Toggle, Toggle), (mockup_ToggleGroup, ToggleGroup),
     (mockup_ToggleGroupItem, ToggleGroupItem), (mockup_InputOTP, InputOTP),
     (mockup_InputOTPGroup, InputOTPGroup), (mockup_InputOTPSlot, InputOTPSlot),
     (mockup_InputOTPSeparator, InputOTPSeparator), (mockup_Progress, Progress),
     (mockup_Separator, Separator), (mockup_Skeleton, Skeleton), (mockup_Spinner, Spinner),
     (mockup_Badge, Badge), (mockup_Avatar, Avatar), (mockup_AvatarImage, AvatarImage),
     (mockup_AvatarFallback, AvatarFallback), (mockup_Kbd, Kbd), (mockup_KbdGroup, KbdGroup),
     (mockup_ScrollArea, ScrollArea), (mockup_ScrollBar, ScrollBar),
     (mockup_ResizablePanelGroup, ResizablePanelGroup), (mockup_ResizableHandle, ResizableHandle),
     (mockup_Button, Button)]"

lemma controls_copies_same: "class_spacing L \<Longrightarrow> list_all (\<lambda>(M, W). M L p = W L p) controls_copies"
  by (simp only: controls_copies_def list.pred_inject prod.case controls_same simp_thms class_spacing.controls_spaced)

definition overlays_copies :: "(component \<times> component) list" where
  "overlays_copies = [
     (mockup_DialogOverlay, DialogOverlay), (mockup_DialogHeader, DialogHeader),
     (mockup_DialogFooter, DialogFooter), (mockup_DialogTitle, DialogTitle),
     (mockup_DialogDescription, DialogDescription), (mockup_SheetOverlay, SheetOverlay),
     (mockup_SheetContent, SheetContent), (mockup_SheetHeader, SheetHeader),
     (mockup_SheetFooter, SheetFooter), (mockup_SheetTitle, SheetTitle),
     (mockup_SheetDescription, SheetDescription), (mockup_Drawer, Drawer),
     (mockup_DrawerOverlay, DrawerOverlay), (mockup_DrawerContent, DrawerContent),
     (mockup_DrawerHeader, DrawerHeader), (mockup_DrawerFooter, DrawerFooter),
     (mockup_DrawerTitle, DrawerTitle), (mockup_DrawerDescription, DrawerDescription),
     (mockup_AlertDialogOverlay, AlertDialogOverlay),
     (mockup_AlertDialogContent, AlertDialogContent),
     (mockup_AlertDialogHeader, AlertDialogHeader), (mockup_AlertDialogFooter, AlertDialogFooter),
     (mockup_AlertDialogTitle, AlertDialogTitle),
     (mockup_AlertDialogDescription, AlertDialogDescription),
     (mockup_PopoverContent, PopoverContent), (mockup_HoverCardContent, HoverCardContent),
     (mockup_TooltipContent, TooltipContent), (mockup_ToastViewport, ToastViewport),
     (mockup_Toast, Toast), (mockup_ToastAction, ToastAction), (mockup_ToastClose, ToastClose),
     (mockup_ToastTitle, ToastTitle), (mockup_ToastDescription, ToastDescription),
     (mockup_Toaster, Toaster), (mockup_sonner_Toaster, sonner_Toaster), (mockup_Command, Command),
     (mockup_CommandDialog, CommandDialog), (mockup_CommandInput, CommandInput),
     (mockup_CommandList, CommandList), (mockup_CommandEmpty, CommandEmpty),
     (mockup_CommandGroup, CommandGroup), (mockup_CommandSeparator, CommandSeparator),
     (mockup_CommandItem, CommandItem), (mockup_CommandShortcut, CommandShortcut),
     (mockup_AlertDialogAction, AlertDialogAction), (mockup_AlertDialogCancel, AlertDialogCancel)]"

lemma overlays_copies_same: "class_spacing L \<Longrightarrow> list_all (\<lambda>(M, W). M L p = W L p) overlays_copies"
  by (simp only: overlays_copies_def list.pred_inject prod.case overlays_same simp_thms class_spacing.overlays_spaced)

definition menus_copies :: "(component \<times> component) list" where
  "menus_copies = [
     (mockup_DropdownMenuSubTrigger, DropdownMenuSubTrigger),
     (mockup_DropdownMenuSubContent, DropdownMenuSubContent),
     (mockup_DropdownMenuContent, DropdownMenuContent),
     (mockup_DropdownMenuItem, DropdownMenuItem),
     (mockup_DropdownMenuCheckboxItem, DropdownMenuCheckboxItem),
     (mockup_DropdownMenuRadioItem, DropdownMenuRadioItem),
     (mockup_DropdownMenuLabel, DropdownMenuLabel),
     (mockup_DropdownMenuSeparator, DropdownMenuSeparator),
     (mockup_DropdownMenuShortcut, DropdownMenuShortcut),
     (mockup_ContextMenuSubTrigger, ContextMenuSubTrigger),
     (mockup_ContextMenuSubContent, ContextMenuSubContent),
     (mockup_ContextMenuContent, ContextMenuContent), (mockup_ContextMenuItem, ContextMenuItem),
     (mockup_ContextMenuCheckboxItem, ContextMenuCheckboxItem),
     (mockup_ContextMenuRadioItem, ContextMenuRadioItem),
     (mockup_ContextMenuLabel, ContextMenuLabel),
     (mockup_ContextMenuSeparator, ContextMenuSeparator),
     (mockup_ContextMenuShortcut, ContextMenuShortcut), (mockup_MenubarMenu, MenubarMenu),
     (mockup_MenubarGroup, MenubarGroup), (mockup_MenubarPortal, MenubarPortal),
     (mockup_MenubarRadioGroup, MenubarRadioGroup), (mockup_MenubarSub, MenubarSub),
     (mockup_Menubar, Menubar), (mockup_MenubarTrigger, MenubarTrigger),
     (mockup_MenubarSubTrigger, MenubarSubTrigger), (mockup_MenubarSubContent, MenubarSubContent),
     (mockup_MenubarContent, MenubarContent), (mockup_MenubarItem, MenubarItem),
     (mockup_MenubarCheckboxItem, MenubarCheckboxItem),
     (mockup_MenubarRadioItem, MenubarRadioItem), (mockup_MenubarLabel, MenubarLabel),
     (mockup_MenubarSeparator, MenubarSeparator), (mockup_MenubarShortcut, MenubarShortcut),
     (mockup_NavigationMenu, NavigationMenu), (mockup_NavigationMenuList, NavigationMenuList),
     (mockup_NavigationMenuTrigger, NavigationMenuTrigger),
     (mockup_NavigationMenuContent, NavigationMenuContent),
     (mockup_NavigationMenuViewport, NavigationMenuViewport),
     (mockup_NavigationMenuIndicator, NavigationMenuIndicator),
     (mockup_SelectTrigger, SelectTrigger), (mockup_SelectScrollUpButton, SelectScrollUpButton),
     (mockup_SelectScrollDownButton, SelectScrollDownButton),
     (mockup_SelectContent, SelectContent), (mockup_SelectLabel, SelectLabel),
     (mockup_SelectItem, SelectItem), (mockup_SelectSeparator, SelectSeparator)]"

lemma menus_copies_same: "class_spacing L \<Longrightarrow> list_all (\<lambda>(M, W). M L p = W L p) menus_copies"
  by (simp only: menus_copies_def list.pred_inject prod.case menus_same simp_thms)

definition layout_copies :: "(component \<times> component) list" where
  "layout_copies = [
     (mockup_AccordionItem, AccordionItem), (mockup_AccordionTrigger, AccordionTrigger),
     (mockup_AccordionContent, AccordionContent), (mockup_TabsList, TabsList),
     (mockup_TabsTrigger, TabsTrigger), (mockup_TabsContent, TabsContent), (mockup_Table, Table),
     (mockup_TableHeader, TableHeader), (mockup_TableBody, TableBody),
     (mockup_TableFooter, TableFooter), (mockup_TableRow, TableRow), (mockup_TableHead, TableHead),
     (mockup_TableCell, TableCell), (mockup_TableCaption, TableCaption), (mockup_Card, Card),
     (mockup_CardHeader, CardHeader), (mockup_CardTitle, CardTitle),
     (mockup_CardDescription, CardDescription), (mockup_CardContent, CardContent),
     (mockup_CardFooter, CardFooter), (mockup_Alert, Alert), (mockup_AlertTitle, AlertTitle),
     (mockup_AlertDescription, AlertDescription), (mockup_Breadcrumb, Breadcrumb),
     (mockup_BreadcrumbList, BreadcrumbList), (mockup_BreadcrumbItem, BreadcrumbItem),
     (mockup_BreadcrumbLink, BreadcrumbLink), (mockup_BreadcrumbPage, BreadcrumbPage),
     (mockup_BreadcrumbSeparator, BreadcrumbSeparator),
     (mockup_BreadcrumbEllipsis, BreadcrumbEllipsis), (mockup_Pagination, Pagination),
     (mockup_PaginationContent, PaginationContent), (mockup_PaginationItem, PaginationItem),
     (mockup_PaginationPrevious, PaginationPrevious), (mockup_PaginationNext, PaginationNext),
     (mockup_PaginationEllipsis, PaginationEllipsis), (mockup_ItemGroup, ItemGroup),
     (mockup_ItemSeparator, ItemSeparator), (mockup_Item, Item), (mockup_ItemMedia, ItemMedia),
     (mockup_ItemContent, ItemContent), (mockup_ItemTitle, ItemTitle),
     (mockup_ItemDescription, ItemDescription), (mockup_ItemActions, ItemActions),
     (mockup_ItemHeader, ItemHeader), (mockup_ItemFooter, ItemFooter), (mockup_Empty, Empty),
     (mockup_EmptyHeader, EmptyHeader), (mockup_EmptyMedia, EmptyMedia),
     (mockup_EmptyTitle, EmptyTitle), (mockup_EmptyDescription, EmptyDescription),
     (mockup_EmptyContent, EmptyContent), (mockup_ButtonGroup, ButtonGroup),
     (mockup_ButtonGroupText, ButtonGroupText),
     (mockup_ButtonGroupSeparator, ButtonGroupSeparator), (mockup_InputGroup, InputGroup),
     (mockup_InputGroupAddon, InputGroupAddon), (mockup_InputGroupButton, InputGroupButton),
     (mockup_InputGroupText, InputGroupText), (mockup_InputGroupInput, InputGroupInput),
     (mockup_InputGroupTextarea, InputGroupTextarea), (mockup_FieldSet, FieldSet),
     (mockup_FieldLegend, FieldLegend), (mockup_FieldGroup, FieldGroup), (mockup_Field, Field),
     (mockup_FieldContent, FieldContent), (mockup_FieldLabel, FieldLabel),
     (mockup_FieldTitle, FieldTitle), (mockup_FieldDescription, FieldDescription),
     (mockup_FieldSeparator, FieldSeparator), (mockup_FormField, FormField),
     (mockup_FormItem, FormItem), (mockup_FormLabel_view, FormLabel_view),
     (mockup_FormControl_view, FormControl_view),
     (mockup_FormDescription_view, FormDescription_view),
     (mockup_FormMessage_view, FormMessage_view), (mockup_Calendar_Root, Calendar_Root),
     (mockup_Calendar_Chevron, Calendar_Chevron),
     (mockup_Calendar_WeekNumber, Calendar_WeekNumber),
     (mockup_CalendarDayButton, CalendarDayButton), (mockup_PaginationLink, PaginationLink),
     (mockup_Calendar, Calendar)]"

lemma layout_copies_same: "class_spacing L \<Longrightarrow> list_all (\<lambda>(M, W). M L p = W L p) layout_copies"
  by (simp only: layout_copies_def list.pred_inject prod.case layout_same simp_thms class_spacing.layout_spaced)

definition frames_copies :: "(component \<times> component) list" where
  "frames_copies = [
     (mockup_CarouselContent, CarouselContent), (mockup_CarouselItem, CarouselItem),
     (mockup_CarouselPrevious_view, CarouselPrevious_view),
     (mockup_CarouselNext_view, CarouselNext_view), (mockup_Sidebar_view, Sidebar_view),
     (mockup_SidebarTrigger, SidebarTrigger), (mockup_SidebarRail, SidebarRail),
     (mockup_SidebarInset, SidebarInset), (mockup_SidebarInput, SidebarInput),
     (mockup_SidebarHeader, SidebarHeader), (mockup_SidebarFooter, SidebarFooter),
     (mockup_SidebarSeparator, SidebarSeparator), (mockup_SidebarContent, SidebarContent),
     (mockup_SidebarGroup, SidebarGroup), (mockup_SidebarGroupLabel, SidebarGroupLabel),
     (mockup_SidebarGroupAction, SidebarGroupAction),
     (mockup_SidebarGroupContent, SidebarGroupContent), (mockup_SidebarMenu, SidebarMenu),
     (mockup_SidebarMenuItem, SidebarMenuItem), (mockup_SidebarMenuButton, SidebarMenuButton),
     (mockup_SidebarMenuAction, SidebarMenuAction), (mockup_SidebarMenuBadge, SidebarMenuBadge),
     (mockup_SidebarMenuSkeleton, SidebarMenuSkeleton), (mockup_SidebarMenuSub, SidebarMenuSub),
     (mockup_SidebarMenuSubItem, SidebarMenuSubItem),
     (mockup_SidebarMenuSubButton, SidebarMenuSubButton)]"

lemma frames_copies_same: "class_spacing L \<Longrightarrow> list_all (\<lambda>(M, W). M L p = W L p) frames_copies"
  by (simp only: frames_copies_def list.pred_inject prod.case frames_same simp_thms)

end
