(* ===== verification/Ui_Properties.thy ===== *)
theory Ui_Properties
  imports Ui_Controls_Laws Ui_Overlays_Laws Ui_Menus_Laws Ui_Layout_Laws Ui_Frames_Laws Mockup_Copy
begin

text \<open>
  What holds of the whole component library: the properties and classes of callers arrive, icon-only
  controls have a name, and the sandbox previews the components of the registry.
\<close>

section \<open>Wrappers\<close>

definition wrappers :: "(component \<times> nat list \<times> string list) list" where
  "wrappers = controls_wrappers @ overlays_wrappers @ menus_wrappers @ layout_wrappers @ frames_wrappers"

definition styled :: "(component \<times> nat list) list" where
  "styled = controls_styled @ overlays_styled @ menus_styled @ layout_styled @ frames_styled"

lemma all_wrappers_reach: "list_all (\<lambda>(C, path, own). reaches C path own) wrappers"
  by (simp only: wrappers_def list_all_append controls_wrappers_reach overlays_wrappers_reach
      menus_wrappers_reach layout_wrappers_reach frames_wrappers_reach simp_thms)

lemma all_styled_keep: "class_library L \<Longrightarrow> list_all (\<lambda>(C, path). keeps_classes L C path) styled"
  by (simp only: styled_def list_all_append controls_styled_keep overlays_styled_keep
      menus_styled_keep layout_styled_keep frames_styled_keep simp_thms)

lemma listed_in:
  "wrappers \<noteq> []" "hd wrappers = (Button, [], [''className'', ''variant'', ''size'', ''asChild''])"
  "styled \<noteq> []" "hd styled = (Button, [])"
  by (simp_all add: wrappers_def controls_wrappers_def styled_def controls_styled_def)

text \<open>A property that the caller gives one of the components listed in \<open>wrappers\<close> (those that only wrap an
  element; the menu button of the sidebar, say, is not among them), other than those the component
  keeps to itself, reaches the element that the component wraps, with the value that was given, and no
  property that the component sets by itself overrides it.\<close>

theorem wrappers_pass_properties:
  assumes "(C, path, own) \<in> set wrappers"
    and "distinct (map fst p)" and "map_of p k = Some v" and "v \<noteq> Absent" and "k \<notin> set own"
  shows "map_of (properties (descend path (C L p))) k = Some v"
proof -
  have "reaches C path own" using all_wrappers_reach assms(1) by (auto simp only: list_all_iff)
  then show ?thesis using assms(2-5) unfolding reaches_def supplies_def by blast
qed

lemma wrappers_pass_properties_witness:
  "map_of (properties (Button joining_env [(''type'', StrV ''submit''), (''disabled'', BoolV True)])) ''disabled'' = Some (BoolV True)"
proof -
  have "(Button, [], [''className'', ''variant'', ''size'', ''asChild'']) \<in> set wrappers"
    by (metis listed_in(1,2) list.set_sel(1))
  from wrappers_pass_properties [OF this, of "[(''type'', StrV ''submit''), (''disabled'', BoolV True)]"]
  show ?thesis by simp
qed

text \<open>Under the contract of the class-name libraries, the classes that a caller gives a component stay
  on the element it wraps, whatever classes the component and its variants add, provided that the
  classes of the caller do not conflict among themselves.\<close>

theorem caller_classes_win:
  assumes "class_library L" and "(C, path) \<in> set styled"
    and "distinct (map fst p)" and "map_of p ''className'' = Some (StrV c)" and "settled L c"
  shows "\<exists>s. map_of (properties (descend path (C L p))) ''className'' = Some (StrV s) \<and> set (words c) \<subseteq> set (words s)"
proof -
  have "keeps_classes L C path" using all_styled_keep [OF assms(1)] assms(2) by (auto simp only: list_all_iff)
  then show ?thesis using assms(3-5) unfolding keeps_classes_def supplies_def by blast
qed

lemma caller_classes_win_witness:
  "\<exists>s. map_of (properties (Button joining_env [(''className'', StrV ''mt-2 w-full'')])) ''className'' = Some (StrV s) \<and>
     set (words ''mt-2 w-full'') \<subseteq> set (words s)"
proof -
  have "(Button, []) \<in> set styled" by (metis listed_in(3,4) list.set_sel(1))
  moreover have "settled joining_env ''mt-2 w-full''" by (simp add: settled_def joining_env_def)
  ultimately show ?thesis
    using caller_classes_win [OF joining.class_library_axioms, of Button "[]" "[(''className'', StrV ''mt-2 w-full'')]" "''mt-2 w-full''"]
    by simp
qed

section \<open>Names of controls\<close>

text \<open>The controls that show an icon only, the place of the control in the component, and whether it has a
  name when the caller gives none.\<close>

definition icon_controls :: "(component \<times> nat list \<times> bool) list" where
  "icon_controls = [
     (DialogContent, [1, 1], True), (SheetContent, [1, 0], True), (ToastClose, [], False),
     (CarouselPrevious_view, [], True), (CarouselNext_view, [], True),
     (PaginationPrevious, [], True), (PaginationNext, [], True), (PaginationEllipsis, [], False),
     (BreadcrumbEllipsis, [], False), (SidebarTrigger, [], True), (SidebarRail, [], True), (Spinner, [], True)]"

lemma icon_control_names:
  assumes "lacks p ''aria-label''" "lacks p ''aria-hidden''"
  shows "list_all (\<lambda>(C, path, named). has_name (descend path (C L p)) = named) icon_controls"
  unfolding icon_controls_def list.pred_inject prod.case
  by (intro conjI TrueI)
    (simp_all add: has_name_def element_simps lacking [OF assms(1)] lacking [OF assms(2)] Let_def
      DialogContent_def SheetContent_def ToastClose_def CarouselPrevious_view_def CarouselNext_view_def
      PaginationPrevious_def PaginationNext_def PaginationEllipsis_def BreadcrumbEllipsis_def
      SidebarTrigger_def SidebarRail_def Spinner_def)

text \<open>A control of the library that shows only an icon has a name for screen readers when its caller
  gives none, with three exceptions: the button that closes a toast has no text at all, and the
  texts of the two ellipses are inside an element that is hidden from screen readers.\<close>

theorem icon_controls_named:
  assumes "(C, path, named) \<in> set icon_controls"
    and "map_of p ''aria-label'' = None" and "map_of p ''aria-hidden'' = None"
  shows "has_name (descend path (C L p)) \<longleftrightarrow> named"
proof -
  have "lacks p ''aria-label''" "lacks p ''aria-hidden''" using assms(2,3) by (simp_all only: lacks_def)
  from icon_control_names [OF this, of L] assms(1) show ?thesis by (auto simp only: list_all_iff)
qed

lemma icon_controls_named_witness:
  "\<not> has_name (ToastClose joining_env []) \<and> has_name (CarouselNext_view joining_env [])"
proof -
  have "(ToastClose, [], False) \<in> set icon_controls" "(CarouselNext_view, [], True) \<in> set icon_controls"
    unfolding icon_controls_def by (simp_all only: list.set insert_iff simp_thms)
  from this [THEN icon_controls_named, of "[]" joining_env] show ?thesis by simp
qed

section \<open>Previews\<close>

definition copies :: "(component \<times> component) list" where
  "copies = controls_copies @ overlays_copies @ menus_copies @ layout_copies @ frames_copies"

lemma all_copies_same: "class_spacing L \<Longrightarrow> list_all (\<lambda>(M, W). M L p = W L p) copies"
  by (simp only: copies_def list_all_append controls_copies_same overlays_copies_same
      menus_copies_same layout_copies_same frames_copies_same simp_thms)

text \<open>Under the contract of the class-name libraries, the components of the sandbox's copy of the library that
  \<open>copies\<close> lists render exactly what those of the registry render, for all properties.  Not listed are the content
  of dialogs, where the copy lacks the classes that bound its height, the charts, \<open>FieldError\<close>, and the
  stateful frames of carousel and sidebar.\<close>

theorem previews_render_the_same:
  assumes "class_spacing L" and "(M, W) \<in> set copies"
  shows "M L p = W L p"
  using all_copies_same [OF assms(1), of p] assms(2) by (auto simp only: list_all_iff)

lemma previews_render_the_same_witness:
  "mockup_Button spacing_env [(''variant'', StrV ''outline'')] = Button spacing_env [(''variant'', StrV ''outline'')]"
proof (rule previews_render_the_same [OF spacing.class_spacing_axioms])
  show "(mockup_Button, Button) \<in> set copies"
    unfolding copies_def controls_copies_def by (simp only: set_append list.set Un_iff insert_iff simp_thms)
qed

section \<open>Progress\<close>

text \<open>The bar shows the value by moving its indicator; the primitive itself is not told the value, so a
  screen reader finds a progress bar without one.\<close>

theorem progress_without_value:
  assumes "map_of p ''value'' = Some (NumV q)"
  shows "arg (properties (child (Progress L p) 0)) ''style'' =
      ObjV [(''transform'', StrV (''translateX(-'' @ number_string L (100 - q) @ ''%)''))] \<and>
    map_of (properties (Progress L p)) ''value'' = None"
proof -
  have given: "arg p ''value'' = NumV q" using assms by (simp only: arg_def option.case)
  have "''value'' \<notin> fst ` set (rest [''className'', ''value'', ''ref''] p)" by (auto simp: rest_def)
  then have "last_of (rest [''className'', ''value'', ''ref''] p) ''value'' = None"
    by (simp add: last_of_def map_of_eq_None_iff)
  moreover have "NumV q = or_try (NumV q) (NumV 0)" by (simp add: or_try_def)
  moreover have "attributes [At k v] = [(k, v)]" for k v by (simp add: attributes_def add_part_def)
  moreover have "child (jsx t parts [jsx u ps []]) 0 = jsx u ps []" for t parts u ps by (rule child_jsx)
  ultimately show ?thesis
    by (simp add: Progress_def element_simps given minus_ui_def arg_def [of "attributes _"] arg_def [of "with_children _ _"] or_try_def)
qed

end
