(* ===== verification/Ui_Composition.thy ===== *)
theory Ui_Composition
  imports Ui_Laws Ui_Overlays Ui_Layout Ui_Frames Toast_Store Ui_Carousel Ui_Sidebar Ui_Form
begin

text \<open>
  The components that read a hook, over the state that the hook returns: the buttons of the carousel,
  the sidebar, the parts of a form field and the toaster.  The theories of the hooks give these
  components as functions of the state; here the elements are shown to be what those functions say.
  The functions that the components write themselves come first.
\<close>

section \<open>Handlers written in components\<close>

text \<open>The click on the trigger of the sidebar: the caller's handler if there is one, then the toggle.\<close>

definition SidebarTrigger_onClick :: "uval \<Rightarrow> uval \<Rightarrow> uval list" where
  "SidebarTrigger_onClick onClick toggle =
     (if onClick = uval.Absent \<or> onClick = NullV then [] else [onClick]) @ [toggle]"

text \<open>A click on the addon of an input group focuses the input beside it, unless a button was hit.\<close>

definition InputGroupAddon_onClick :: "bool \<Rightarrow> nat option \<Rightarrow> nat option" where
  "InputGroupAddon_onClick hit_button input_beside = (if hit_button then None else input_beside)"

definition Calendar_formatMonthDropdown :: "ui_env \<Rightarrow> uval \<Rightarrow> uval" where
  "Calendar_formatMonthDropdown L date =
     foreign L ''.toLocaleString'' [date, StrV ''default'', ObjV [(''month'', StrV ''short'')]]"

text \<open>The effect of a day button: the button to focus, if the day has the focus and the button is there.\<close>

definition CalendarDayButton_effect :: "uval \<Rightarrow> nat option \<Rightarrow> nat option" where
  "CalendarDayButton_effect modifiers current = (if truthy_ui (member_of modifiers ''focused'') then current else None)"

section \<open>Hooks in the environment\<close>

definition with_hook :: "string \<Rightarrow> uval \<Rightarrow> ui_env \<Rightarrow> ui_env" where
  "with_hook name v L = L\<lparr>foreign := (\<lambda>f xs. if f = name then v else foreign L f xs)\<rparr>"

lemma foreign_with_hook [simp]: "foreign (with_hook name v L) f xs = (if f = name then v else foreign L f xs)"
  by (simp add: with_hook_def)

lemma class_names_with_hook [simp]:
  "cn (with_hook name v L) xs = cn L xs" "cva (with_hook name v L) cfg p = cva L cfg p"
  by (simp_all add: with_hook_def cn_def cva_def)

lemma text_of_with_hook [simp]: "text_of (with_hook name v L) u = text_of L u"
  by (cases u) (simp_all add: with_hook_def)

text \<open>Strings of the state as texts of the page.\<close>

definition page_text :: "jsstr \<Rightarrow> string" where
  "page_text s = map (\<lambda>u. char_of (unat u)) s"

lemma page_text_js [simp]: "page_text (js s) = s"
  by (induction s) (simp_all add: page_text_def js_def unat_unit_of)

lemma page_text_append: "page_text (s @ t) = page_text s @ page_text t"
  by (simp add: page_text_def)

lemma page_text_Nil [simp]: "page_text [] = []" "page_text s = [] \<longleftrightarrow> s = []"
  by (simp_all add: page_text_def)

section \<open>Carousel\<close>

definition orientation_text :: "orientation \<Rightarrow> string" where
  "orientation_text d = (case d of Horizontal \<Rightarrow> ''horizontal'' | Vertical \<Rightarrow> ''vertical'')"

definition carousel_value :: "orientation option \<Rightarrow> carousel \<Rightarrow> uval" where
  "carousel_value orientation c = ObjV
     [(''orientation'', StrV (orientation_text (given_orientation orientation))),
      (''scrollPrev'', Closure ''scrollPrev'' []), (''scrollNext'', Closure ''scrollNext'' []),
      (''canScrollPrev'', BoolV (canScrollPrev c)), (''canScrollNext'', BoolV (canScrollNext c))]"

text \<open>A button as its theory has it: whether it is disabled, and what a click calls.\<close>

definition shown_button :: "embla option \<Rightarrow> uval \<Rightarrow> bool \<times> scroll option" where
  "shown_button api e =
     (arg (properties e) ''disabled'' = BoolV True,
      if arg (properties e) ''onClick'' = Closure ''scrollPrev'' [] then scrollPrev api
      else if arg (properties e) ''onClick'' = Closure ''scrollNext'' [] then scrollNext api else None)"

lemma arg_properties_jsx: "arg (properties (jsx t parts kids)) k = arg (with_children kids (attributes parts)) k"
  by (simp add: properties_jsx)

lemma arg_with_children:
  "k \<noteq> ''children'' \<Longrightarrow> arg (with_children kids (attributes parts)) k = arg (attributes parts) k"
  by (simp add: arg_def map_of_with_children)

lemma arg_children [simp]: "arg (with_children [k] q) ''children'' = k"
  by (simp add: arg_def map_of_with_children)

lemmas view_simps = element_simps arg_properties_jsx arg_with_children lacking Let_def

lemma carousel_buttons_refine:
  fixes orientation c L
  assumes "lacks p ''disabled''" "lacks p ''onClick''"
  defines "L' \<equiv> with_hook ''useCarousel'' (carousel_value orientation c) L"
  shows "shown_button api (CarouselPrevious_view L' p) = CarouselPrevious api c"
    "shown_button api (CarouselNext_view L' p) = CarouselNext api c"
  using assms(1,2)
  by (simp_all add: L'_def shown_button_def view_simps CarouselPrevious_view_def CarouselNext_view_def
      CarouselPrevious_def CarouselNext_def carousel_value_def member_of_def arg_def [of "_ # _"])

lemma carousel_content_refines:
  fixes orientation c L
  assumes "lacks p ''className''"
  defines "L' \<equiv> with_hook ''useCarousel'' (carousel_value orientation c) L"
  shows "map_of (properties (child (CarouselContent L' p) 0)) ''className'' =
     Some (cn L [StrV ''flex'', StrV (page_text (content_class orientation)), uval.Absent])"
  using assms(1)
  by (simp add: L'_def view_simps CarouselContent_def carousel_value_def member_of_def arg_def [of "_ # _"]
      orientation_text_def content_class_def split: orientation.split)

text \<open>Over the state of the carousel's provider, the two buttons and the track are what the model of
  the carousel says: a button is disabled exactly when the state does not allow its direction, a
  click scrolls in that direction if the scroll library has started, and the track takes the classes
  of the axis of the provider.\<close>

theorem carousel_views_refine:
  fixes orientation c L
  defines "L' \<equiv> with_hook ''useCarousel'' (carousel_value orientation c) L"
  assumes "map_of p ''disabled'' = None" and "map_of p ''onClick'' = None" and "map_of p ''className'' = None"
  shows "shown_button api (CarouselPrevious_view L' p) = CarouselPrevious api c \<and>
    shown_button api (CarouselNext_view L' p) = CarouselNext api c \<and>
    map_of (properties (child (CarouselContent L' p) 0)) ''className'' =
      Some (cn L [StrV ''flex'', StrV (page_text (content_class orientation)), uval.Absent])"
proof -
  have "lacks p ''disabled''" "lacks p ''onClick''" "lacks p ''className''"
    using assms(2-4) by (simp_all only: lacks_def)
  then show ?thesis unfolding L'_def by (intro conjI carousel_buttons_refine carousel_content_refines)
qed

lemma carousel_views_refine_witness:
  "shown_button None (CarouselNext_view (with_hook ''useCarousel'' (carousel_value None initial_carousel) joining_env) []) = (True, None)"
  using carousel_views_refine [of "[]" None None initial_carousel joining_env]
  by (simp add: CarouselNext_def scrollNext_def initial_carousel_def)

section \<open>Sidebar\<close>

definition sidebar_value :: "provider \<Rightarrow> uval" where
  "sidebar_value pv = ObjV
     [(''state'', StrV (page_text (state_text (r_open pv)))), (''open'', BoolV (r_open pv)),
      (''setOpen'', Closure ''setOpen'' []), (''isMobile'', BoolV (r_isMobile pv)),
      (''openMobile'', BoolV (s_openMobile pv)), (''setOpenMobile'', Closure ''setOpenMobile'' []),
      (''toggleSidebar'', Closure ''toggleSidebar'' [])]"

lemma sidebar_members:
  "member_of (sidebar_value pv) ''state'' = StrV (page_text (state_text (r_open pv)))"
  "member_of (sidebar_value pv) ''isMobile'' = BoolV (r_isMobile pv)"
  "member_of (sidebar_value pv) ''openMobile'' = BoolV (s_openMobile pv)"
  by (simp_all add: sidebar_value_def member_of_def arg_def)

fun text_in :: "uval \<Rightarrow> jsstr" where
  "text_in (StrV s) = js s"
| "text_in _ = []"

text \<open>The shape of the sidebar, read from its element.\<close>

definition shape_of :: "uval \<Rightarrow> sidebar_shape" where
  "shape_of e =
     (if element_type e = Some Sheet then MobileSheet (arg (properties e) ''open'' = BoolV True)
      else if arg (properties e) ''data-state'' = uval.Absent then FixedColumn
      else DesktopColumn (text_in (arg (properties e) ''data-state'')) (text_in (arg (properties e) ''data-collapsible'')))"

lemma shape_sheet: "element_type e = Some Sheet \<Longrightarrow> arg (properties e) ''open'' = BoolV b \<Longrightarrow> shape_of e = MobileSheet b"
  by (simp add: shape_of_def)

lemma shape_fixed: "element_type e \<noteq> Some Sheet \<Longrightarrow> arg (properties e) ''data-state'' = uval.Absent \<Longrightarrow> shape_of e = FixedColumn"
  by (simp add: shape_of_def)

lemma shape_column:
  "element_type e \<noteq> Some Sheet \<Longrightarrow> arg (properties e) ''data-state'' = StrV a \<Longrightarrow>
     arg (properties e) ''data-collapsible'' = StrV b \<Longrightarrow> js a = x \<Longrightarrow> js b = y \<Longrightarrow> shape_of e = DesktopColumn x y"
  by (simp add: shape_of_def)

lemma sidebar_shapes:
  fixes pv L
  assumes "default_to (StrV ''offcanvas'') (arg p ''collapsible'') = StrV x" "lacks p ''open''" "lacks p ''data-state''"
  defines "e \<equiv> Sidebar_view (with_hook ''useSidebar'' (sidebar_value pv) L) p"
  shows "x = ''none'' \<Longrightarrow> shape_of e = FixedColumn"
    "x \<noteq> ''none'' \<Longrightarrow> r_isMobile pv \<Longrightarrow> shape_of e = MobileSheet (s_openMobile pv)"
    "x \<noteq> ''none'' \<Longrightarrow> \<not> r_isMobile pv \<Longrightarrow>
       shape_of e = DesktopColumn (state_text (r_open pv)) (if r_open pv then [] else js x)"
proof -
  have state: "js (page_text (state_text b)) = state_text b" "page_text (state_text b) = ''collapsed'' \<longleftrightarrow> \<not> b" for b
    by (simp_all add: state_text_def)
  note first = e_def Sidebar_view_def Let_def foreign_with_hook sidebar_members assms(1) if_True if_False simp_thms
    uval.inject
  note second = view_simps sidebar_members foreign_with_hook state
  show "shape_of e = FixedColumn" if "x = ''none''"
    by (rule shape_fixed; simp only: first that; simp add: second Sheet_def lacking [OF assms(3)])
  show "shape_of e = MobileSheet (s_openMobile pv)" if "x \<noteq> ''none''" "r_isMobile pv"
    by (rule shape_sheet; simp only: first that truthy_ui.simps; simp add: second lacking [OF assms(2)])
  show "shape_of e = DesktopColumn (state_text (r_open pv)) (if r_open pv then [] else js x)"
    if "x \<noteq> ''none''" "\<not> r_isMobile pv"
    by (rule shape_column [where a = "page_text (state_text (r_open pv))" and b = "if r_open pv then [] else x"];
        (simp only: first that truthy_ui.simps state)?; simp add: second Sheet_def)
qed

text \<open>Over the state of the sidebar's provider, the sidebar has the shape that the model of the sidebar
  gives: a fixed column if it cannot collapse, on a narrow window a sheet that is open when the state
  says so, and otherwise a column whose attributes tell the style sheet whether and how it is
  collapsed.\<close>

theorem sidebar_view_refines:
  assumes "default_to (StrV ''offcanvas'') (arg p ''collapsible'') = StrV (page_text (collapsible_text cl))"
    and "map_of p ''open'' = None" and "map_of p ''data-state'' = None"
  shows "shape_of (Sidebar_view (with_hook ''useSidebar'' (sidebar_value pv) L) p) = ui_Sidebar cl pv"
proof -
  have "lacks p ''open''" "lacks p ''data-state''" using assms(2,3) by (simp_all only: lacks_def)
  note shapes = sidebar_shapes [OF assms(1) this, where pv = pv and L = L]
  have "page_text (collapsible_text cl) = ''none'' \<longleftrightarrow> cl = NotCollapsible" "js (page_text (collapsible_text cl)) = collapsible_text cl"
    by (cases cl; simp add: collapsible_text_def)+
  with shapes show ?thesis unfolding ui_Sidebar_def by presburger
qed

lemma sidebar_view_refines_witness:
  "shape_of (Sidebar_view (with_hook ''useSidebar'' (sidebar_value (new_provider \<lparr>defaultOpen = False, openProp = None, has_setOpenProp = False\<rparr>)) joining_env) []) =
     DesktopColumn (js ''collapsed'') (js ''offcanvas'')"
  using sidebar_view_refines [of "[]" Offcanvas "new_provider \<lparr>defaultOpen = False, openProp = None, has_setOpenProp = False\<rparr>" joining_env]
  by (simp add: arg_def default_to_def collapsible_text_def ui_Sidebar_def new_provider_def state_text_def or_else_def)

text \<open>The tooltip of a menu button with a text, as its element has it.\<close>

definition tooltip_of :: "uval \<Rightarrow> (jsstr \<times> bool) option" where
  "tooltip_of e =
     (if element_type e = Some Tooltip
      then Some (text_in (arg (properties (child e 1)) ''children''), truthy_ui (arg (properties (child e 1)) ''hidden''))
      else None)"

lemma menu_button_tooltip:
  "tooltip_of (SidebarMenuButton (with_hook ''useSidebar'' (sidebar_value pv) L) ((''tooltip'', StrV s) # p)) =
     menu_tooltip (Some (js s)) pv"
  by (simp add: tooltip_of_def SidebarMenuButton_def view_simps sidebar_value_def member_of_def arg_def [of "_ # _"]
      menu_tooltip_def or_else_def last_of_def attributes_def add_part_def state_text_def or_try_def Tooltip_def
      with_children_def)

section \<open>Form fields\<close>

definition error_value :: "jsstr option option \<Rightarrow> uval" where
  "error_value e =
     (case e of None \<Rightarrow> uval.Absent
      | Some m \<Rightarrow> ObjV [(''message'', case m of None \<Rightarrow> uval.Absent | Some s \<Rightarrow> StrV (page_text s))])"

definition field_value :: "form_field \<Rightarrow> uval" where
  "field_value f = ObjV
     [(''id'', StrV (page_text (ff_id f))), (''name'', StrV (page_text (ff_name f))),
      (''formItemId'', StrV (page_text (formItemId f))),
      (''formDescriptionId'', StrV (page_text (formDescriptionId f))),
      (''formMessageId'', StrV (page_text (formMessageId f))), (''error'', error_value (ff_error f))]"

lemma truthy_error [simp]: "truthy_ui (error_value e) \<longleftrightarrow> e \<noteq> None"
  by (cases e) (simp_all add: error_value_def)

lemma error_value_None [simp]: "error_value None = uval.Absent"
  by (simp add: error_value_def)

lemmas field_simps_view = view_simps field_value_def member_of_def arg_def [of "_ # _"]

lemma label_view:
  fixes f L
  assumes "lacks p ''htmlFor''" "lacks p ''className''"
  defines "L' \<equiv> with_hook ''useFormField'' (field_value f) L"
  shows "map_of (properties (FormLabel_view L' p)) ''htmlFor'' = Some (StrV (page_text (fst (FormLabel f))))"
    "map_of (properties (FormLabel_view L' p)) ''className'' =
       Some (cn L [if snd (FormLabel f) then StrV ''text-destructive'' else uval.Absent, uval.Absent])"
  using assms(1,2)
  by (cases "ff_error f"; simp add: L'_def FormLabel_view_def field_simps_view FormLabel_def and_also_def)+

lemma control_view:
  fixes f L
  assumes "lacks p ''id''" "lacks p ''aria-describedby''" "lacks p ''aria-invalid''"
  defines "e \<equiv> FormControl_view (with_hook ''useFormField'' (field_value f) L) p"
  shows "map_of (properties e) ''id'' = Some (StrV (page_text (fc_id (FormControl f))))"
    "map_of (properties e) ''aria-describedby'' = Some (StrV (page_text (fc_describedby (FormControl f))))"
    "map_of (properties e) ''aria-invalid'' = Some (BoolV (fc_invalid (FormControl f)))"
  using assms(1-3)
  by (simp_all add: e_def FormControl_view_def field_simps_view FormControl_def page_text_append)

lemma description_view:
  assumes "lacks p ''id''"
  shows "map_of (properties (FormDescription_view (with_hook ''useFormField'' (field_value f) L) p)) ''id'' =
    Some (StrV (page_text (FormDescription f)))"
  using assms by (simp add: FormDescription_view_def field_simps_view FormDescription_def)

definition shown_message :: "uval \<Rightarrow> (uval \<times> uval) option" where
  "shown_message e =
     (if e = NullV then None else Some (arg (properties e) ''id'', arg (properties e) ''children''))"

lemma message_view:
  assumes "lacks p ''id''" "\<And>s. foreign L ''String'' [StrV s] = StrV s" "arg p ''children'' = StrV (page_text body)"
  shows "shown_message (FormMessage_view (with_hook ''useFormField'' (field_value f) L) p) =
    map_option (\<lambda>(i, m). (StrV (page_text i), StrV (page_text m))) (FormMessage f body)"
proof -
  have given: "arg (entries (error_value (Some m))) ''message'' = (case m of None \<Rightarrow> uval.Absent | Some s \<Rightarrow> StrV (page_text s))" for m
    by (simp add: error_value_def arg_def)
  show ?thesis
    using assms(1,2)
    by (cases "ff_error f")
      (auto simp: FormMessage_view_def FormMessage_def shown_message_def field_simps_view given assms(3) or_given_def
        or_else_def jsx_def split: option.splits)
qed

text \<open>Over the field that the form library gives for a control, the parts of the form field render what
  the model of the form says: the label leads to the control and is marked on an error, the control
  carries its id, the ids that describe it and its validity, the description carries the id that the
  control names, and the message is rendered, with its id, exactly when there is one.\<close>

theorem form_views_refine:
  fixes f L
  defines "L' \<equiv> with_hook ''useFormField'' (field_value f) L"
  assumes "\<forall>k \<in> {''id'', ''htmlFor'', ''className'', ''aria-describedby'', ''aria-invalid''}. map_of p k = None"
    and "map_of p ''children'' = Some (StrV (page_text body))" and "\<And>s. foreign L ''String'' [StrV s] = StrV s"
  shows "map_of (properties (FormLabel_view L' p)) ''htmlFor'' = Some (StrV (page_text (fst (FormLabel f)))) \<and>
    map_of (properties (FormLabel_view L' p)) ''className'' =
      Some (cn L [if snd (FormLabel f) then StrV ''text-destructive'' else uval.Absent, uval.Absent]) \<and>
    map_of (properties (FormControl_view L' p)) ''id'' = Some (StrV (page_text (fc_id (FormControl f)))) \<and>
    map_of (properties (FormControl_view L' p)) ''aria-describedby'' = Some (StrV (page_text (fc_describedby (FormControl f)))) \<and>
    map_of (properties (FormControl_view L' p)) ''aria-invalid'' = Some (BoolV (fc_invalid (FormControl f))) \<and>
    map_of (properties (FormDescription_view L' p)) ''id'' = Some (StrV (page_text (FormDescription f))) \<and>
    shown_message (FormMessage_view L' p) =
      map_option (\<lambda>(i, m). (StrV (page_text i), StrV (page_text m))) (FormMessage f body)"
proof -
  have lacks: "lacks p ''id''" "lacks p ''htmlFor''" "lacks p ''className''" "lacks p ''aria-describedby''" "lacks p ''aria-invalid''"
    using assms(2) by (simp_all only: lacks_def ball_simps)
  have "arg p ''children'' = StrV (page_text body)" using assms(3) by (simp only: arg_def option.case)
  note views = label_view [OF lacks(2,3)] control_view [OF lacks(1,4,5)] description_view [OF lacks(1)]
    message_view [OF lacks(1) assms(4) this]
  show ?thesis unfolding L'_def by (simp only: views simp_thms)
qed

text \<open>A field whose name is missing, and an environment that reads every call as its first argument.\<close>

definition demo_field :: form_field where
  "demo_field =
     \<lparr>ff_id = js ''r1'', ff_name = js ''state'', formItemId = js ''r1-form-item'',
      formDescriptionId = js ''r1-form-item-description'', formMessageId = js ''r1-form-item-message'',
      ff_error = Some (Some (js ''Required''))\<rparr>"

definition reading_env :: ui_env where
  "reading_env = joining_env\<lparr>foreign := (\<lambda>f xs. hd xs)\<rparr>"

lemma form_views_refine_witness:
  "map_of (properties (FormControl_view (with_hook ''useFormField'' (field_value demo_field) reading_env) [(''children'', StrV [])]))
     ''aria-describedby'' = Some (StrV ''r1-form-item-description r1-form-item-message'') \<and>
   shown_message (FormMessage_view (with_hook ''useFormField'' (field_value demo_field) reading_env) [(''children'', StrV [])]) =
     Some (StrV ''r1-form-item-message'', StrV ''Required'')"
proof -
  have none: "\<forall>k \<in> {''id'', ''htmlFor'', ''className'', ''aria-describedby'', ''aria-invalid''}.
      map_of [(''children'', StrV [])] k = (None :: uval option)"
    by simp
  have body: "map_of [(''children'', StrV [])] ''children'' = Some (StrV (page_text []))" by simp
  have string: "foreign reading_env ''String'' [StrV s] = StrV s" for s by (simp add: reading_env_def)
  have "fc_describedby (FormControl demo_field) = js ''r1-form-item-description r1-form-item-message''"
    "FormMessage demo_field [] = Some (js ''r1-form-item-message'', js ''Required'')"
    by (simp_all add: FormControl_def FormMessage_def demo_field_def or_else_def flip: js_append)
  with form_views_refine [OF none body string, of demo_field] show ?thesis
    by (simp only: page_text_js option.map prod.case simp_thms)
qed

section \<open>Toaster\<close>

text \<open>A toast of the store as the hook hands it out, and the toasts shown: key, flag and title.\<close>

definition open_value :: "bool option \<Rightarrow> uval" where
  "open_value b = (case b of None \<Rightarrow> uval.Absent | Some b \<Rightarrow> BoolV b)"

definition handler_value :: "open_handler option \<Rightarrow> uval" where
  "handler_value f =
     (case f of None \<Rightarrow> uval.Absent | Some (DismissOnClose i) \<Rightarrow> Closure ''toast.onOpenChange'' [StrV (page_text i)]
      | Some (CallersHandler n) \<Rightarrow> Opaque n)"

definition toast_value :: "(jsval \<Rightarrow> uval) \<Rightarrow> toaster_toast \<Rightarrow> uval" where
  "toast_value enc t = ObjV (attributes
     [Spread (map (\<lambda>(k, v). (page_text k, enc v)) (tt_props t)), At ''id'' (StrV (page_text (tt_id t))),
      At ''open'' (open_value (tt_open t)), At ''onOpenChange'' (handler_value (tt_onOpenChange t))])"

definition toasts_value :: "(jsval \<Rightarrow> uval) \<Rightarrow> toaster_toast list \<Rightarrow> uval" where
  "toasts_value enc ts = ObjV [(''toasts'', ListV (map (toast_value enc) ts))]"

text \<open>The toasts on the page: key, flag and title.\<close>

definition shown_toast :: "uval \<Rightarrow> uval \<times> uval \<times> uval" where
  "shown_toast e =
     (arg (properties e) ''key'', arg (properties e) ''open'',
      arg (properties (child (child e 0) 0)) ''children'')"

definition shown_toasts :: "uval \<Rightarrow> (uval \<times> uval \<times> uval) list" where
  "shown_toasts e = map shown_toast (elements (child e 0))"

definition shown_title :: "(jsval \<Rightarrow> uval) \<Rightarrow> toaster_toast \<Rightarrow> uval" where
  "shown_title enc t = (let v = member_of (toast_value enc t) ''title'' in if truthy_ui v then v else uval.Absent)"

definition toast_keys :: "toaster_toast \<Rightarrow> string set" where
  "toast_keys t = (page_text \<circ> fst) ` set (tt_props t)"

lemma distinct_attributes: "distinct (map fst (attributes parts))"
proof -
  have "distinct (map fst (spread a q))" if "distinct (map fst a)" for a q :: props
    using that by (induction q arbitrary: a) (auto simp: distinct_put_key)
  then have "distinct (map fst (fold add_part parts acc))" if "distinct (map fst acc)" for acc
    using that by (induction parts arbitrary: acc) (auto simp: add_part_def distinct_put_key split: part.split)
  then show ?thesis by (simp add: attributes_def)
qed

lemma last_of_attributes: "last_of (rest ks (attributes parts)) k = (if k \<in> set ks then None else look parts k None)"
  by (simp add: last_of_rest distinct_attributes map_of_attributes)

lemma falsy_without_properties: "\<not> truthy_ui v \<Longrightarrow> properties v = []"
  by (cases v) simp_all

lemma shown_toast_of:
  assumes "''key'' \<notin> toast_keys t"
  shows "shown_toast
     (jsx (Own ''Toast'')
        [At ''key'' (member_of (toast_value enc t) ''id''),
         Spread (rest [''id'', ''title'', ''description'', ''action''] (entries (toast_value enc t)))]
        [jsx (Host ''div'') [At ''className'' (StrV ''grid gap-1'')]
           [and_also (member_of (toast_value enc t) ''title'')
              (jsx (Own ''ToastTitle'') [] [member_of (toast_value enc t) ''title'']), description],
         action, close]) =
     (StrV (page_text (tt_id t)), open_value (tt_open t), shown_title enc t)"
proof -
  have "last_of (map (\<lambda>(k, v). (page_text k, enc v)) (tt_props t)) ''key'' = None"
    using assms by (force simp: last_of_def map_of_eq_None_iff toast_keys_def)
  then show ?thesis
    by (simp add: shown_toast_def shown_title_def toast_value_def member_of_def view_simps last_of_attributes
        arg_def [of "with_children _ _" "''key''"] arg_def [of "with_children _ _" "''open''"] and_also_def
        falsy_without_properties arg_def [of "[]"] open_value_def split: option.split)
qed

lemma toaster_shows:
  assumes "\<And>t. t \<in> set ts \<Longrightarrow> ''key'' \<notin> toast_keys t"
  shows "shown_toasts (Toaster (with_hook ''useToast'' (toasts_value enc ts) L) p) =
    map (\<lambda>t. (StrV (page_text (tt_id t)), open_value (tt_open t), shown_title enc t)) ts"
  using assms
  by (simp add: Toaster_def shown_toasts_def toasts_value_def element_simps Let_def member_of_def [of "ObjV _"]
      arg_def [of "_ # _"] shown_toast_of o_def)

text \<open>A toast that any code shows is at once what the toaster of the page renders: after the call, a
  toaster whose hook has subscribed renders exactly this toast, open, under its key and with its
  title, whatever was shown before.\<close>

theorem toast_is_rendered:
  assumes "reachable_store s" and "h_phase (s_hooks s h) = Subscribed"
    and "toast props s = (i, s')" and "js ''key'' \<notin> fst ` set props" and "set (map fst props) \<subseteq> range js"
  shows "shown_toasts (Toaster (with_hook ''useToast'' (toasts_value enc (h_state (s_hooks s' h))) L) p) =
    [(StrV (page_text i), BoolV True, shown_title enc \<lparr>tt_id = i, tt_open = Some True, tt_onOpenChange = Some (DismissOnClose i), tt_props = props\<rparr>)]"
proof -
  have listening: "h \<in> set (s_listeners s)"
    using reachable_store_inv [OF assms(1)] assms(2) by (simp add: store_inv_def)
  then have "h_state (s_hooks s' h) = [\<lparr>tt_id = i, tt_open = Some True, tt_onOpenChange = Some (DismissOnClose i), tt_props = props\<rparr>]"
    using assms(3) by (auto simp: toast_def genId_def Let_def TOAST_LIMIT_def)
  moreover have "''key'' \<notin> (page_text \<circ> fst) ` set props"
  proof
    assume "''key'' \<in> (page_text \<circ> fst) ` set props"
    then obtain k where k: "k \<in> fst ` set props" "page_text k = ''key''" by force
    then obtain u where "k = js u" using assms(5) by auto
    with k assms(4) show False by simp
  qed
  then have "shown_toasts (Toaster (with_hook ''useToast'' (toasts_value enc [\<lparr>tt_id = i, tt_open = Some True, tt_onOpenChange = Some (DismissOnClose i), tt_props = props\<rparr>]) L) p) =
      [(StrV (page_text i), BoolV True, shown_title enc \<lparr>tt_id = i, tt_open = Some True, tt_onOpenChange = Some (DismissOnClose i), tt_props = props\<rparr>)]"
    by (subst toaster_shows) (simp_all add: toast_keys_def open_value_def)
  ultimately show ?thesis by simp
qed

definition page_store :: toast_store where
  "page_store = subscribe_hook 0 (render_hook 0 initial_store)"

lemma page_store_reachable: "reachable_store page_store"
proof -
  have "store_step initial_store (render_hook 0 initial_store)" by (rule mount) (simp add: initial_store_def)
  moreover have "store_step (render_hook 0 initial_store) page_store"
    unfolding page_store_def by (rule effect) (simp add: render_hook_def)
  ultimately show ?thesis using store_start store_later by blast
qed

lemma toast_is_rendered_witness:
  "\<exists>i s'. toast [(js ''title'', Bool True)] page_store = (i, s') \<and>
     shown_toasts (Toaster (with_hook ''useToast'' (toasts_value (\<lambda>_. StrV ''Saved'') (h_state (s_hooks s' 0))) joining_env) []) =
       [(StrV (page_text i), BoolV True, StrV ''Saved'')]"
proof -
  obtain i s' where t: "toast [(js ''title'', Bool True)] page_store = (i, s')" by fastforce
  have "h_phase (s_hooks page_store 0) = Subscribed" by (simp add: page_store_def subscribe_hook_def)
  from toast_is_rendered [OF page_store_reachable this t, of "\<lambda>_. StrV ''Saved''" joining_env "[]"]
  have "shown_toasts (Toaster (with_hook ''useToast'' (toasts_value (\<lambda>_. StrV ''Saved'') (h_state (s_hooks s' 0))) joining_env) []) =
      [(StrV (page_text i), BoolV True, StrV ''Saved'')]"
    by (simp add: shown_title_def toast_value_def member_of_def element_simps last_of_def)
  with t show ?thesis by blast
qed

end
