(* ===== verification/Registry_Schema.thy ===== *)
theory Registry_Schema
  imports Registry_Db Zod_Schema
begin

text \<open>
  The tables of \<open>lib/db/src/schema\<close> as data: their columns with types, constraints and defaults, and the
  schemas that \<open>createInsertSchema\<close> makes of them, less the omitted columns.  The database model of
  \<open>Registry_Db\<close> writes what these declarations say.
\<close>

section \<open>Columns\<close>

datatype column_type = Uuid | Text | Numeric nat nat | Timestamp bool | DoublePrecision | Integer

datatype column_default = NoDefault | DefaultRandom | DefaultText string | DefaultInt int | DefaultNow

record column =
  c_key :: string
  c_name :: string
  c_type :: column_type
  c_primary :: bool
  c_notNull :: bool
  c_unique :: bool
  c_default :: column_default
  c_onUpdate :: bool
  c_references :: "(string \<times> bool) option"

definition plain_column :: "string \<Rightarrow> string \<Rightarrow> column_type \<Rightarrow> column" where
  "plain_column key name ty =
     \<lparr>c_key = key, c_name = name, c_type = ty, c_primary = False, c_notNull = False, c_unique = False,
      c_default = NoDefault, c_onUpdate = False, c_references = None\<rparr>"

text \<open>A primary key is not null.\<close>

definition primaryKey :: "column \<Rightarrow> column" where
  "primaryKey c = c\<lparr>c_primary := True, c_notNull := True\<rparr>"

definition notNull :: "column \<Rightarrow> column" where "notNull c = c\<lparr>c_notNull := True\<rparr>"
definition unique :: "column \<Rightarrow> column" where "unique c = c\<lparr>c_unique := True\<rparr>"
definition has_default :: "column_default \<Rightarrow> column \<Rightarrow> column" where "has_default d c = c\<lparr>c_default := d\<rparr>"
definition onUpdate :: "column \<Rightarrow> column" where "onUpdate c = c\<lparr>c_onUpdate := True\<rparr>"
definition references :: "string \<Rightarrow> bool \<Rightarrow> column \<Rightarrow> column" where
  "references table cascade c = c\<lparr>c_references := Some (table, cascade)\<rparr>"

definition parcelsTable :: "column list" where
  "parcelsTable =
    [has_default DefaultRandom (primaryKey (plain_column ''id'' ''id'' Uuid)),
     unique (notNull (plain_column ''titleNumber'' ''title_number'' Text)),
     notNull (plain_column ''ownerName'' ''owner_name'' Text),
     plain_column ''ownerPhone'' ''owner_phone'' Text,
     plain_column ''ownerEmail'' ''owner_email'' Text,
     notNull (plain_column ''locationAddress'' ''location_address'' Text),
     notNull (plain_column ''state'' ''state'' Text),
     notNull (plain_column ''lga'' ''lga'' Text),
     notNull (plain_column ''areaSqm'' ''area_sqm'' (Numeric 12 2)),
     notNull (plain_column ''parcelType'' ''parcel_type'' Text),
     has_default (DefaultText ''pending'') (notNull (plain_column ''status'' ''status'' Text)),
     has_default (DefaultInt 0) (notNull (plain_column ''trustScore'' ''trust_score'' Integer)),
     plain_column ''latitude'' ''latitude'' DoublePrecision,
     plain_column ''longitude'' ''longitude'' DoublePrecision,
     has_default DefaultNow (notNull (plain_column ''createdAt'' ''created_at'' (Timestamp True))),
     onUpdate (has_default DefaultNow (notNull (plain_column ''updatedAt'' ''updated_at'' (Timestamp True))))]"

definition evidenceTable :: "column list" where
  "evidenceTable =
    [has_default DefaultRandom (primaryKey (plain_column ''id'' ''id'' Uuid)),
     references ''parcels'' True (notNull (plain_column ''parcelId'' ''parcel_id'' Uuid)),
     notNull (plain_column ''documentType'' ''document_type'' Text),
     notNull (plain_column ''fileName'' ''file_name'' Text),
     plain_column ''notes'' ''notes'' Text,
     has_default (DefaultText ''pending_review'') (notNull (plain_column ''status'' ''status'' Text)),
     has_default DefaultNow (notNull (plain_column ''uploadedAt'' ''uploaded_at'' (Timestamp True)))]"

lemmas column_defs = plain_column_def primaryKey_def notNull_def unique_def has_default_def onUpdate_def references_def

section \<open>Insert schemas\<close>

fun omit_fields :: "string list \<Rightarrow> zod \<Rightarrow> zod" where
  "omit_fields ks (ZObject fs) = ZObject (filter (\<lambda>f. fst f \<notin> js ` set ks) fs)"
| "omit_fields ks z = z"

definition insertParcelSchema :: "(column list \<Rightarrow> zod) \<Rightarrow> zod" where
  "insertParcelSchema createInsertSchema =
     omit_fields [''id'', ''titleNumber'', ''trustScore'', ''createdAt'', ''updatedAt''] (createInsertSchema parcelsTable)"

definition insertEvidenceSchema :: "(column list \<Rightarrow> zod) \<Rightarrow> zod" where
  "insertEvidenceSchema createInsertSchema =
     omit_fields [''id'', ''uploadedAt''] (createInsertSchema evidenceTable)"

section \<open>What a table does with the values it is given\<close>

text \<open>The content of a column after an insert with these values, under the key and at the time that the
  database takes for defaults; \<open>numeric\<close> is the text the database keeps for a number.\<close>

definition stored :: "(jsstr \<Rightarrow> jsstr) \<Rightarrow> column \<Rightarrow> jsval \<Rightarrow> jsval" where
  "stored numeric c v = (case (c_type c, v) of (Numeric _ _, Str s) \<Rightarrow> Str (numeric s) | _ \<Rightarrow> v)"

definition default_of :: "jsstr \<Rightarrow> instant \<Rightarrow> column \<Rightarrow> jsval" where
  "default_of key now c =
     (case c_default c of
        NoDefault \<Rightarrow> Null
      | DefaultRandom \<Rightarrow> Str key
      | DefaultText s \<Rightarrow> Str (js s)
      | DefaultInt n \<Rightarrow> Num (Fin (of_int n))
      | DefaultNow \<Rightarrow> Date now)"

definition insert_columns :: "(jsstr \<Rightarrow> jsstr) \<Rightarrow> jsstr \<Rightarrow> instant \<Rightarrow> column list \<Rightarrow> (string \<rightharpoonup> jsval) \<Rightarrow> (string \<times> jsval) list" where
  "insert_columns numeric key now table given =
     map (\<lambda>c. (c_key c, case given (c_key c) of Some v \<Rightarrow> stored numeric c v | None \<Rightarrow> default_of key now c)) table"

text \<open>An update: given columns are replaced, those with \<open>$onUpdate\<close> take the time unless given.\<close>

definition update_columns :: "(jsstr \<Rightarrow> jsstr) \<Rightarrow> instant \<Rightarrow> column list \<Rightarrow> (string \<rightharpoonup> jsval) \<Rightarrow> (string \<times> jsval) list \<Rightarrow> (string \<times> jsval) list" where
  "update_columns numeric now table given row =
     map (\<lambda>c. (c_key c,
       case given (c_key c) of
         Some v \<Rightarrow> stored numeric c v
       | None \<Rightarrow> if c_onUpdate c then Date now else (case map_of row (c_key c) of Some v \<Rightarrow> v | None \<Rightarrow> Null))) table"

definition parcel_columns :: "parcel_row \<Rightarrow> (string \<times> jsval) list" where
  "parcel_columns r =
    [(''id'', Str (p_id r)), (''titleNumber'', Str (p_titleNumber r)), (''ownerName'', Str (p_ownerName r)),
     (''ownerPhone'', str_or_null (p_ownerPhone r)), (''ownerEmail'', str_or_null (p_ownerEmail r)),
     (''locationAddress'', Str (p_locationAddress r)), (''state'', Str (p_state r)), (''lga'', Str (p_lga r)),
     (''areaSqm'', Str (p_areaSqm r)), (''parcelType'', Str (p_parcelType r)), (''status'', Str (p_status r)),
     (''trustScore'', Num (Fin (of_int (p_trustScore r)))), (''latitude'', num_or_null (p_latitude r)),
     (''longitude'', num_or_null (p_longitude r)), (''createdAt'', Date (p_createdAt r)), (''updatedAt'', Date (p_updatedAt r))]"

definition evidence_columns :: "evidence_row \<Rightarrow> (string \<times> jsval) list" where
  "evidence_columns r =
    [(''id'', Str (e_id r)), (''parcelId'', Str (e_parcelId r)), (''documentType'', Str (e_documentType r)),
     (''fileName'', Str (e_fileName r)), (''notes'', str_or_null (e_notes r)), (''status'', Str (e_status r)),
     (''uploadedAt'', Date (e_uploadedAt r))]"

text \<open>The values of an insert and of an update, as the objects the handlers pass.\<close>

definition given_parcel :: "parcel_values \<Rightarrow> string \<rightharpoonup> jsval" where
  "given_parcel v = map_of
    [(''titleNumber'', Str (v_titleNumber v)), (''ownerName'', Str (v_ownerName v)),
     (''ownerPhone'', str_or_null (v_ownerPhone v)), (''ownerEmail'', str_or_null (v_ownerEmail v)),
     (''locationAddress'', Str (v_locationAddress v)), (''state'', Str (v_state v)), (''lga'', Str (v_lga v)),
     (''areaSqm'', Str (v_areaSqm v)), (''parcelType'', Str (v_parcelType v)), (''status'', Str (v_status v)),
     (''trustScore'', Num (Fin (of_int (v_trustScore v)))), (''latitude'', num_or_null (v_latitude v)),
     (''longitude'', num_or_null (v_longitude v))]"

definition given_evidence :: "evidence_values \<Rightarrow> string \<rightharpoonup> jsval" where
  "given_evidence w = map_of
    [(''parcelId'', Str (w_parcelId w)), (''documentType'', Str (w_documentType w)), (''fileName'', Str (w_fileName w)),
     (''notes'', str_or_null (w_notes w)), (''status'', Str (w_status w))]"

definition given_updates :: "parcel_updates \<Rightarrow> string \<rightharpoonup> jsval" where
  "given_updates u =
     (\<lambda>k. if k = ''ownerName'' then map_option Str (u_ownerName u)
      else if k = ''ownerPhone'' then map_option str_or_null (u_ownerPhone u)
      else if k = ''ownerEmail'' then map_option str_or_null (u_ownerEmail u)
      else if k = ''locationAddress'' then map_option Str (u_locationAddress u)
      else if k = ''state'' then map_option Str (u_state u)
      else if k = ''lga'' then map_option Str (u_lga u)
      else if k = ''areaSqm'' then map_option Str (u_areaSqm u)
      else if k = ''parcelType'' then map_option Str (u_parcelType u)
      else if k = ''status'' then map_option Str (u_status u)
      else if k = ''trustScore'' then map_option (\<lambda>n. Num (Fin (of_int n))) (u_trustScore u)
      else if k = ''latitude'' then map_option num_or_null (u_latitude u)
      else if k = ''longitude'' then map_option num_or_null (u_longitude u)
      else None)"

lemma stored_plain [simp]:
  "c_type c = Text \<Longrightarrow> stored numeric c v = v" "c_type c = Uuid \<Longrightarrow> stored numeric c v = v"
  "c_type c = Integer \<Longrightarrow> stored numeric c v = v" "c_type c = DoublePrecision \<Longrightarrow> stored numeric c v = v"
  "c_type c = Numeric m n \<Longrightarrow> stored numeric c (Str s) = Str (numeric s)"
  by (simp_all add: stored_def)

text \<open>The rows of the database model are what the declarations of the tables say: an inserted row has the
  given values, with numbers as the database writes them, and the declared defaults elsewhere; an
  updated row keeps what is not given, apart from the column that takes the time of the update.\<close>

theorem tables_declare_rows:
  "parcel_columns (inserted_parcel numeric key now v) = insert_columns numeric key now parcelsTable (given_parcel v)"
  "evidence_columns (inserted_evidence key now w) = insert_columns numeric key now evidenceTable (given_evidence w)"
  "parcel_columns (updated_parcel numeric now u r) = update_columns numeric now parcelsTable (given_updates u) (parcel_columns r)"
proof -
  show "parcel_columns (inserted_parcel numeric key now v) = insert_columns numeric key now parcelsTable (given_parcel v)"
    by (simp add: parcel_columns_def insert_columns_def parcelsTable_def column_defs given_parcel_def default_of_def
        inserted_parcel_def)
  show "evidence_columns (inserted_evidence key now w) = insert_columns numeric key now evidenceTable (given_evidence w)"
    by (simp add: evidence_columns_def insert_columns_def evidenceTable_def column_defs given_evidence_def default_of_def
        inserted_evidence_def)
  show "parcel_columns (updated_parcel numeric now u r) = update_columns numeric now parcelsTable (given_updates u) (parcel_columns r)"
    by (simp add: parcel_columns_def update_columns_def parcelsTable_def column_defs given_updates_def updated_parcel_def
        cong: option.case_cong) (intro conjI; simp add: or_else_def stored_def split: option.split)
qed

end
