(* ===== verification/Zod_Types.thy ===== *)
theory Zod_Types
  imports Client_Types Api_Zod
begin

text \<open>
  The plain types of \<open>lib/api-zod/src/generated/types\<close>, one file each (a name is suffixed by \<open>_plain\<close>; a
  type stands after those it uses), compared with the types of the client and with what the package
  exports.
\<close>

definition AcceptInvitationRequest_plain :: ts where
  "AcceptInvitationRequest_plain = TObject False
    [(js ''token'', False, TString),
     (js ''password'', False, TString),
     (js ''full_name'', False, TString),
     (js ''country'', True, TUnion TString TNull)]"

definition AcceptInvitationSupabaseRequest_plain :: ts where
  "AcceptInvitationSupabaseRequest_plain = TObject False
    [(js ''token'', False, TString),
     (js ''full_name'', False, TString),
     (js ''country'', True, TUnion TString TNull)]"

definition ActorReferenceKind_plain :: ts where
  "ActorReferenceKind_plain = TEnum [js ''INTERNAL_PRINCIPAL'', js ''EXTERNAL_NAMED'', js ''HISTORICAL_ASSERTED'', js ''UNKNOWN'']"

definition ActorType_plain :: ts where
  "ActorType_plain = TEnum [js ''INDIVIDUAL'', js ''ORGANIZATION'', js ''UNKNOWN'']"

definition AssignRoleRequest_plain :: ts where
  "AssignRoleRequest_plain = TObject False
    [(js ''role'', False, TString)]"

definition AttributionRole_plain :: ts where
  "AttributionRole_plain = TEnum [js ''ORIGINATED_BY'', js ''REVIEWED_BY'', js ''COMMISSIONED_BY'']"

definition AttributionResponse_plain :: ts where
  "AttributionResponse_plain = TObject False
    [(js ''attribution_id'', False, TString),
     (js ''evidence_id'', False, TString),
     (js ''attribution_role'', False, AttributionRole_plain),
     (js ''actor_reference_kind'', False, ActorReferenceKind_plain),
     (js ''actor_principal_id'', False, TUnion TString TNull),
     (js ''actor_name'', False, TUnion TString TNull),
     (js ''actor_organization_name'', False, TUnion TString TNull),
     (js ''actor_type'', False, ActorType_plain),
     (js ''basis'', False, TString),
     (js ''review_method'', False, TUnion TString TNull),
     (js ''recorded_by'', False, TString),
     (js ''recorded_at'', False, TString),
     (js ''supersedes_id'', False, TUnion TString TNull),
     (js ''is_active'', False, TBoolean)]"

definition CorrectAttributionRequest_plain :: ts where
  "CorrectAttributionRequest_plain = TObject False
    [(js ''attribution_role'', False, AttributionRole_plain),
     (js ''actor_reference_kind'', False, ActorReferenceKind_plain),
     (js ''actor_type'', False, ActorType_plain),
     (js ''basis'', False, TString),
     (js ''actor_principal_id'', True, TUnion TString TNull),
     (js ''actor_name'', True, TUnion TString TNull),
     (js ''actor_organization_name'', True, TUnion TString TNull),
     (js ''review_method'', True, TUnion TString TNull)]"

definition CreateDelegationRequest_plain :: ts where
  "CreateDelegationRequest_plain = TObject False
    [(js ''delegate_user_id'', False, TString),
     (js ''delegated_roles'', False, TArray TString),
     (js ''scope'', True, TString),
     (js ''expires_at'', True, TUnion TString TNull)]"

definition CreateInvitationRequest_plain :: ts where
  "CreateInvitationRequest_plain = TObject False
    [(js ''email'', False, TString),
     (js ''role'', False, TString)]"

definition CreateParcelRequest_plain :: ts where
  "CreateParcelRequest_plain = TObject False
    [(js ''country_code'', True, TUnion TString TNull),
     (js ''title'', True, TUnion TString TNull),
     (js ''address'', True, TUnion TString TNull),
     (js ''state'', True, TUnion TString TNull),
     (js ''lga'', True, TUnion TString TNull),
     (js ''ward'', True, TUnion TString TNull),
     (js ''community'', True, TUnion TString TNull),
     (js ''property_type'', True, TUnion TString TNull),
     (js ''size_sqm'', True, TUnion TNumber TNull),
     (js ''ownership_type'', True, TUnion TString TNull),
     (js ''current_owner_name'', True, TUnion TString TNull),
     (js ''current_owner_contact'', True, TUnion TString TNull)]"

definition DelegationSummaryEffectiveResponse_plain :: ts where
  "DelegationSummaryEffectiveResponse_plain = TObject False
    [(js ''delegation_id'', False, TString),
     (js ''tenant_id'', False, TString),
     (js ''delegator_user_id'', False, TString),
     (js ''delegate_user_id'', False, TString),
     (js ''delegated_roles'', False, TArray TString),
     (js ''scope'', False, TString),
     (js ''status'', False, TString),
     (js ''expires_at'', True, TUnion TString TNull),
     (js ''created_at'', False, TString),
     (js ''updated_at'', False, TString),
     (js ''revoked_at'', True, TUnion TString TNull),
     (js ''revoked_by'', True, TUnion TString TNull),
     (js ''effective'', False, TBoolean),
     (js ''ineffective_reason'', True, TUnion TString TNull)]"

definition DelegationSummaryResponse_plain :: ts where
  "DelegationSummaryResponse_plain = TObject False
    [(js ''delegation_id'', False, TString),
     (js ''tenant_id'', False, TString),
     (js ''delegator_user_id'', False, TString),
     (js ''delegate_user_id'', False, TString),
     (js ''delegated_roles'', False, TArray TString),
     (js ''scope'', False, TString),
     (js ''status'', False, TString),
     (js ''expires_at'', True, TUnion TString TNull),
     (js ''created_at'', False, TString),
     (js ''updated_at'', False, TString),
     (js ''revoked_at'', True, TUnion TString TNull),
     (js ''revoked_by'', True, TUnion TString TNull)]"

definition EvidenceType_plain :: ts where
  "EvidenceType_plain = TEnum [js ''SURVEY_PLAN'', js ''TITLE_DOCUMENT'', js ''IDENTITY_DOCUMENT'', js ''OTHER'']"

definition EvidenceStatus_plain :: ts where
  "EvidenceStatus_plain = TEnum [js ''RECEIVED'', js ''HASHED'', js ''SEALED'']"

definition EvidenceResponse_plain :: ts where
  "EvidenceResponse_plain = TObject False
    [(js ''evidence_id'', False, TString),
     (js ''parcel_id'', False, TString),
     (js ''uploaded_by'', False, TString),
     (js ''filename'', False, TString),
     (js ''mime_type'', False, TString),
     (js ''size_bytes'', False, TNumber),
     (js ''basis'', False, TString),
     (js ''evidence_type'', False, EvidenceType_plain),
     (js ''status'', False, EvidenceStatus_plain),
     (js ''sha256'', True, TUnion TString TNull),
     (js ''created_at'', False, TString)]"

definition ExtendDelegationRequest_plain :: ts where
  "ExtendDelegationRequest_plain = TObject False
    [(js ''expires_at'', True, TUnion TString TNull)]"

definition GeometryStatus_plain :: ts where
  "GeometryStatus_plain = TEnum [js ''ACTIVE'', js ''SUPERSEDED'']"

definition GeometryResponse_plain :: ts where
  "GeometryResponse_plain = TObject False
    [(js ''geometry_id'', False, TString),
     (js ''tenant_id'', False, TString),
     (js ''parcel_id'', False, TString),
     (js ''boundary'', False, TString),
     (js ''srid'', False, TNumber),
     (js ''status'', False, GeometryStatus_plain),
     (js ''created_by'', False, TString),
     (js ''created_at'', False, TString),
     (js ''superseded_at'', True, TUnion TString TNull)]"

definition ValidationErrorCtx_plain :: ts where
  "ValidationErrorCtx_plain = TRecord TUnknown"

definition ValidationError_plain :: ts where
  "ValidationError_plain = TObject False
    [(js ''loc'', False, TArray (TUnion TString TNumber)),
     (js ''msg'', False, TString),
     (js ''type'', False, TString),
     (js ''input'', True, TUnknown),
     (js ''ctx'', True, ValidationErrorCtx_plain)]"

definition HTTPValidationError_plain :: ts where
  "HTTPValidationError_plain = TObject False
    [(js ''detail'', True, TArray ValidationError_plain)]"

definition InvitationCreatedResponse_plain :: ts where
  "InvitationCreatedResponse_plain = TObject False
    [(js ''invitation_id'', False, TString),
     (js ''email'', False, TString),
     (js ''role'', False, TString),
     (js ''expires_at'', False, TString),
     (js ''token'', False, TString)]"

definition InvitationSummaryResponse_plain :: ts where
  "InvitationSummaryResponse_plain = TObject False
    [(js ''invitation_id'', False, TString),
     (js ''email'', False, TString),
     (js ''role'', False, TString),
     (js ''status'', False, TString),
     (js ''expires_at'', False, TString),
     (js ''created_at'', False, TString)]"

definition LivenessCheck200_plain :: ts where
  "LivenessCheck200_plain = TRecord TString"

definition LoginRequest_plain :: ts where
  "LoginRequest_plain = TObject False
    [(js ''email'', False, TString),
     (js ''password'', False, TString)]"

definition ParcelStatus_plain :: ts where
  "ParcelStatus_plain = TEnum [js ''ACTIVE'', js ''ARCHIVED'']"

definition Parcel_plain :: ts where
  "Parcel_plain = TObject False
    [(js ''parcel_id'', False, TString),
     (js ''tenant_id'', False, TString),
     (js ''country_code'', False, TString),
     (js ''origin'', False, TString),
     (js ''created_by'', False, TString),
     (js ''status'', False, ParcelStatus_plain),
     (js ''parcel_number'', True, TUnion TString TNull),
     (js ''title'', True, TUnion TString TNull),
     (js ''address'', True, TUnion TString TNull),
     (js ''state'', True, TUnion TString TNull),
     (js ''lga'', True, TUnion TString TNull),
     (js ''ward'', True, TUnion TString TNull),
     (js ''community'', True, TUnion TString TNull),
     (js ''property_type'', True, TUnion TString TNull),
     (js ''size_sqm'', True, TUnion TNumber TNull),
     (js ''ownership_type'', True, TUnion TString TNull),
     (js ''current_owner_name'', True, TUnion TString TNull),
     (js ''current_owner_contact'', True, TUnion TString TNull),
     (js ''created_at'', False, TString),
     (js ''updated_at'', False, TString),
     (js ''archived_at'', True, TUnion TString TNull),
     (js ''geometry_reference'', True, TUnion TString TNull)]"

definition ReadinessCheck200_plain :: ts where
  "ReadinessCheck200_plain = TRecord TString"

definition RecordAttributionRequest_plain :: ts where
  "RecordAttributionRequest_plain = TObject False
    [(js ''attribution_role'', False, AttributionRole_plain),
     (js ''actor_reference_kind'', False, ActorReferenceKind_plain),
     (js ''actor_type'', False, ActorType_plain),
     (js ''basis'', False, TString),
     (js ''actor_principal_id'', True, TUnion TString TNull),
     (js ''actor_name'', True, TUnion TString TNull),
     (js ''actor_organization_name'', True, TUnion TString TNull),
     (js ''review_method'', True, TUnion TString TNull)]"

definition RegisterRequest_plain :: ts where
  "RegisterRequest_plain = TObject False
    [(js ''email'', False, TString),
     (js ''password'', False, TString),
     (js ''full_name'', False, TString),
     (js ''country'', True, TUnion TString TNull)]"

definition RoleAssignmentResponse_plain :: ts where
  "RoleAssignmentResponse_plain = TObject True
    [(js ''user_id'', False, TString),
     (js ''email'', False, TString),
     (js ''full_name'', False, TString),
     (js ''country'', False, TString),
     (js ''tenant_id'', False, TString),
     (js ''roles'', False, TArray TString),
     (js ''account_status'', False, TString)]"

definition SetGeometryReferenceRequest_plain :: ts where
  "SetGeometryReferenceRequest_plain = TObject False
    [(js ''geometry_reference'', True, TUnion TString TNull)]"

definition SubmitGeometryRequest_plain :: ts where
  "SubmitGeometryRequest_plain = TObject False
    [(js ''boundary'', False, TString)]"

definition UserView_plain :: ts where
  "UserView_plain = TObject True
    [(js ''user_id'', False, TString),
     (js ''email'', False, TString),
     (js ''full_name'', False, TString),
     (js ''country'', False, TString),
     (js ''tenant_id'', False, TString),
     (js ''roles'', False, TArray TString),
     (js ''account_status'', False, TString)]"

definition SupabaseInvitationAcceptedResponse_plain :: ts where
  "SupabaseInvitationAcceptedResponse_plain = TObject False
    [(js ''user'', False, UserView_plain)]"

definition SuspendTenantRequest_plain :: ts where
  "SuspendTenantRequest_plain = TObject False
    [(js ''reason'', False, TString)]"

definition TenantSummaryResponse_plain :: ts where
  "TenantSummaryResponse_plain = TObject False
    [(js ''tenant_id'', False, TString),
     (js ''name'', False, TString),
     (js ''status'', False, TString),
     (js ''owner_user_id'', True, TUnion TString TNull),
     (js ''suspension_reason'', True, TUnion TString TNull),
     (js ''created_at'', False, TString),
     (js ''updated_at'', False, TString)]"

definition TokenResponseUser_plain :: ts where
  "TokenResponseUser_plain = TRecord TUnknown"

definition TokenResponse_plain :: ts where
  "TokenResponse_plain = TObject False
    [(js ''access_token'', False, TString),
     (js ''token_type'', False, TString),
     (js ''expires_in'', False, TNumber),
     (js ''user'', False, TokenResponseUser_plain)]"

definition UpdateParcelRequest_plain :: ts where
  "UpdateParcelRequest_plain = TObject False
    [(js ''title'', True, TUnion TString TNull),
     (js ''address'', True, TUnion TString TNull),
     (js ''state'', True, TUnion TString TNull),
     (js ''lga'', True, TUnion TString TNull),
     (js ''ward'', True, TUnion TString TNull),
     (js ''community'', True, TUnion TString TNull),
     (js ''property_type'', True, TUnion TString TNull),
     (js ''size_sqm'', True, TUnion TNumber TNull),
     (js ''ownership_type'', True, TUnion TString TNull),
     (js ''current_owner_name'', True, TUnion TString TNull),
     (js ''current_owner_contact'', True, TUnion TString TNull)]"

definition UploadParcelEvidenceParams_plain :: ts where
  "UploadParcelEvidenceParams_plain = TObject False
    [(js ''filename'', False, TString),
     (js ''evidence_type'', False, EvidenceType_plain),
     (js ''basis'', False, TString)]"

definition UserContextResponse_plain :: ts where
  "UserContextResponse_plain = TObject False
    [(js ''user_id'', False, TString),
     (js ''email'', True, TUnion TString TNull),
     (js ''country'', True, TUnion TString TNull),
     (js ''tenant_id'', True, TUnion TString TNull),
     (js ''organization_id'', True, TUnion TString TNull),
     (js ''roles'', False, TArray TString)]"

lemmas plain_defs =
  AcceptInvitationRequest_plain_def AcceptInvitationSupabaseRequest_plain_def
  ActorReferenceKind_plain_def ActorType_plain_def AssignRoleRequest_plain_def
  AttributionRole_plain_def AttributionResponse_plain_def CorrectAttributionRequest_plain_def
  CreateDelegationRequest_plain_def CreateInvitationRequest_plain_def
  CreateParcelRequest_plain_def DelegationSummaryEffectiveResponse_plain_def
  DelegationSummaryResponse_plain_def EvidenceType_plain_def EvidenceStatus_plain_def
  EvidenceResponse_plain_def ExtendDelegationRequest_plain_def GeometryStatus_plain_def
  GeometryResponse_plain_def ValidationErrorCtx_plain_def ValidationError_plain_def
  HTTPValidationError_plain_def InvitationCreatedResponse_plain_def
  InvitationSummaryResponse_plain_def LivenessCheck200_plain_def LoginRequest_plain_def
  ParcelStatus_plain_def Parcel_plain_def ReadinessCheck200_plain_def
  RecordAttributionRequest_plain_def RegisterRequest_plain_def RoleAssignmentResponse_plain_def
  SetGeometryReferenceRequest_plain_def SubmitGeometryRequest_plain_def UserView_plain_def
  SupabaseInvitationAcceptedResponse_plain_def SuspendTenantRequest_plain_def
  TenantSummaryResponse_plain_def TokenResponseUser_plain_def TokenResponse_plain_def
  UpdateParcelRequest_plain_def UploadParcelEvidenceParams_plain_def
  UserContextResponse_plain_def

text \<open>The barrel \<open>index.ts\<close>: the types by their names, in the order of its exports.\<close>

definition plain_types :: "(string \<times> ts) list" where
  "plain_types =
     [(''AcceptInvitationRequest'', AcceptInvitationRequest_plain),
      (''AcceptInvitationSupabaseRequest'', AcceptInvitationSupabaseRequest_plain),
      (''ActorReferenceKind'', ActorReferenceKind_plain),
      (''ActorType'', ActorType_plain),
      (''AssignRoleRequest'', AssignRoleRequest_plain),
      (''AttributionResponse'', AttributionResponse_plain),
      (''AttributionRole'', AttributionRole_plain),
      (''CorrectAttributionRequest'', CorrectAttributionRequest_plain),
      (''CreateDelegationRequest'', CreateDelegationRequest_plain),
      (''CreateInvitationRequest'', CreateInvitationRequest_plain),
      (''CreateParcelRequest'', CreateParcelRequest_plain),
      (''DelegationSummaryEffectiveResponse'', DelegationSummaryEffectiveResponse_plain),
      (''DelegationSummaryResponse'', DelegationSummaryResponse_plain),
      (''EvidenceResponse'', EvidenceResponse_plain),
      (''EvidenceStatus'', EvidenceStatus_plain),
      (''EvidenceType'', EvidenceType_plain),
      (''ExtendDelegationRequest'', ExtendDelegationRequest_plain),
      (''GeometryResponse'', GeometryResponse_plain),
      (''GeometryStatus'', GeometryStatus_plain),
      (''HTTPValidationError'', HTTPValidationError_plain),
      (''InvitationCreatedResponse'', InvitationCreatedResponse_plain),
      (''InvitationSummaryResponse'', InvitationSummaryResponse_plain),
      (''LivenessCheck200'', LivenessCheck200_plain),
      (''LoginRequest'', LoginRequest_plain),
      (''Parcel'', Parcel_plain),
      (''ParcelStatus'', ParcelStatus_plain),
      (''ReadinessCheck200'', ReadinessCheck200_plain),
      (''RecordAttributionRequest'', RecordAttributionRequest_plain),
      (''RegisterRequest'', RegisterRequest_plain),
      (''RoleAssignmentResponse'', RoleAssignmentResponse_plain),
      (''SetGeometryReferenceRequest'', SetGeometryReferenceRequest_plain),
      (''SubmitGeometryRequest'', SubmitGeometryRequest_plain),
      (''SupabaseInvitationAcceptedResponse'', SupabaseInvitationAcceptedResponse_plain),
      (''SuspendTenantRequest'', SuspendTenantRequest_plain),
      (''TenantSummaryResponse'', TenantSummaryResponse_plain),
      (''TokenResponse'', TokenResponse_plain),
      (''TokenResponseUser'', TokenResponseUser_plain),
      (''UpdateParcelRequest'', UpdateParcelRequest_plain),
      (''UploadParcelEvidenceParams'', UploadParcelEvidenceParams_plain),
      (''UserContextResponse'', UserContextResponse_plain),
      (''UserView'', UserView_plain),
      (''ValidationError'', ValidationError_plain),
      (''ValidationErrorCtx'', ValidationErrorCtx_plain)]"

text \<open>The types of the client under the same names.\<close>

definition client_types :: "(string \<times> ts) list" where
  "client_types =
     [(''AcceptInvitationRequest'', AcceptInvitationRequest_type),
      (''AcceptInvitationSupabaseRequest'', AcceptInvitationSupabaseRequest_type),
      (''ActorReferenceKind'', ActorReferenceKind_type),
      (''ActorType'', ActorType_type),
      (''AssignRoleRequest'', AssignRoleRequest_type),
      (''AttributionResponse'', AttributionResponse_type),
      (''AttributionRole'', AttributionRole_type),
      (''CorrectAttributionRequest'', CorrectAttributionRequest_type),
      (''CreateDelegationRequest'', CreateDelegationRequest_type),
      (''CreateInvitationRequest'', CreateInvitationRequest_type),
      (''CreateParcelRequest'', CreateParcelRequest_type),
      (''DelegationSummaryEffectiveResponse'', DelegationSummaryEffectiveResponse_type),
      (''DelegationSummaryResponse'', DelegationSummaryResponse_type),
      (''EvidenceResponse'', EvidenceResponse_type),
      (''EvidenceStatus'', EvidenceStatus_type),
      (''EvidenceType'', EvidenceType_type),
      (''ExtendDelegationRequest'', ExtendDelegationRequest_type),
      (''GeometryResponse'', GeometryResponse_type),
      (''GeometryStatus'', GeometryStatus_type),
      (''HTTPValidationError'', HTTPValidationError_type),
      (''InvitationCreatedResponse'', InvitationCreatedResponse_type),
      (''InvitationSummaryResponse'', InvitationSummaryResponse_type),
      (''LivenessCheck200'', LivenessCheck200_type),
      (''LoginRequest'', LoginRequest_type),
      (''Parcel'', Parcel_type),
      (''ParcelStatus'', ParcelStatus_type),
      (''ReadinessCheck200'', ReadinessCheck200_type),
      (''RecordAttributionRequest'', RecordAttributionRequest_type),
      (''RegisterRequest'', RegisterRequest_type),
      (''RoleAssignmentResponse'', RoleAssignmentResponse_type),
      (''SetGeometryReferenceRequest'', SetGeometryReferenceRequest_type),
      (''SubmitGeometryRequest'', SubmitGeometryRequest_type),
      (''SupabaseInvitationAcceptedResponse'', SupabaseInvitationAcceptedResponse_type),
      (''SuspendTenantRequest'', SuspendTenantRequest_type),
      (''TenantSummaryResponse'', TenantSummaryResponse_type),
      (''TokenResponse'', TokenResponse_type),
      (''TokenResponseUser'', TokenResponseUser_type),
      (''UpdateParcelRequest'', UpdateParcelRequest_type),
      (''UploadParcelEvidenceParams'', UploadParcelEvidenceParams_type),
      (''UserContextResponse'', UserContextResponse_type),
      (''UserView'', UserView_type),
      (''ValidationError'', ValidationError_type),
      (''ValidationErrorCtx'', ValidationErrorCtx_type)]"

lemma plain_type_eqs:
  "AcceptInvitationRequest_plain = AcceptInvitationRequest_type"
  "AcceptInvitationSupabaseRequest_plain = AcceptInvitationSupabaseRequest_type"
  "ActorReferenceKind_plain = ActorReferenceKind_type"
  "ActorType_plain = ActorType_type"
  "AssignRoleRequest_plain = AssignRoleRequest_type"
  "AttributionRole_plain = AttributionRole_type"
  "AttributionResponse_plain = AttributionResponse_type"
  "CorrectAttributionRequest_plain = CorrectAttributionRequest_type"
  "CreateDelegationRequest_plain = CreateDelegationRequest_type"
  "CreateInvitationRequest_plain = CreateInvitationRequest_type"
  "CreateParcelRequest_plain = CreateParcelRequest_type"
  "DelegationSummaryEffectiveResponse_plain = DelegationSummaryEffectiveResponse_type"
  "DelegationSummaryResponse_plain = DelegationSummaryResponse_type"
  "EvidenceType_plain = EvidenceType_type"
  "EvidenceStatus_plain = EvidenceStatus_type"
  "EvidenceResponse_plain = EvidenceResponse_type"
  "ExtendDelegationRequest_plain = ExtendDelegationRequest_type"
  "GeometryStatus_plain = GeometryStatus_type"
  "GeometryResponse_plain = GeometryResponse_type"
  "ValidationErrorCtx_plain = ValidationErrorCtx_type"
  "ValidationError_plain = ValidationError_type"
  "HTTPValidationError_plain = HTTPValidationError_type"
  "InvitationCreatedResponse_plain = InvitationCreatedResponse_type"
  "InvitationSummaryResponse_plain = InvitationSummaryResponse_type"
  "LivenessCheck200_plain = LivenessCheck200_type"
  "LoginRequest_plain = LoginRequest_type"
  "ParcelStatus_plain = ParcelStatus_type"
  "Parcel_plain = Parcel_type"
  "ReadinessCheck200_plain = ReadinessCheck200_type"
  "RecordAttributionRequest_plain = RecordAttributionRequest_type"
  "RegisterRequest_plain = RegisterRequest_type"
  "RoleAssignmentResponse_plain = RoleAssignmentResponse_type"
  "SetGeometryReferenceRequest_plain = SetGeometryReferenceRequest_type"
  "SubmitGeometryRequest_plain = SubmitGeometryRequest_type"
  "UserView_plain = UserView_type"
  "SupabaseInvitationAcceptedResponse_plain = SupabaseInvitationAcceptedResponse_type"
  "SuspendTenantRequest_plain = SuspendTenantRequest_type"
  "TenantSummaryResponse_plain = TenantSummaryResponse_type"
  "TokenResponseUser_plain = TokenResponseUser_type"
  "TokenResponse_plain = TokenResponse_type"
  "UpdateParcelRequest_plain = UpdateParcelRequest_type"
  "UploadParcelEvidenceParams_plain = UploadParcelEvidenceParams_type"
  "UserContextResponse_plain = UserContextResponse_type"
  by (simp_all only: plain_defs type_defs)

text \<open>The outputs of the two generators agree: every plain type of the schema package is the type that the
  client has under its name; and the parameters of the upload are both a plain type and an exported
  schema, so that the package could not export the types beside the schemas.\<close>

theorem plain_types_agree:
  "plain_types = client_types \<and>
    ''UploadParcelEvidenceParams'' \<in> set api_zod_exports \<and> map_of plain_types ''UploadParcelEvidenceParams'' \<noteq> None"
proof (intro conjI)
  show "plain_types = client_types"
    by (simp only: plain_types_def client_types_def plain_type_eqs)
  show "''UploadParcelEvidenceParams'' \<in> set api_zod_exports"
    by (simp add: api_zod_exports_def)
  show "map_of plain_types ''UploadParcelEvidenceParams'' \<noteq> None"
    by (simp add: plain_types_def)
qed

end
