(* ===== verification/Page_Support.thy ===== *)
theory Page_Support
  imports Ui_Element
begin

text \<open>
  What the pages use beside the component library: members of lists and strings, and elements whose
  type is a value.  Texts of the pages are UTF-8 bytes; the state of a \<open>useState\<close> is asked for under the
  name of its variable.
\<close>

definition length_of :: "uval \<Rightarrow> uval" where
  "length_of v =
     (case v of ListV vs \<Rightarrow> NumV (of_nat (length vs)) | StrV s \<Rightarrow> NumV (of_nat (length s))
      | _ \<Rightarrow> member_of v ''length'')"

text \<open>\<open>slice\<close> with natural bounds, the end of the text or list when there is no upper one.\<close>

definition slice_ui :: "uval \<Rightarrow> uval \<Rightarrow> uval \<Rightarrow> uval" where
  "slice_ui v i j =
     (let part = (\<lambda>n. let first = nat \<lfloor>num_of i\<rfloor>; to = (if j = Absent then n else nat \<lfloor>num_of j\<rfloor>) in (first, to - first)) in
      case v of
        ListV vs \<Rightarrow> (case part (length vs) of (a, k) \<Rightarrow> ListV (take k (drop a vs)))
      | StrV s \<Rightarrow> (case part (length s) of (a, k) \<Rightarrow> StrV (take k (drop a s)))
      | _ \<Rightarrow> Absent)"

fun kind_of :: "uval \<Rightarrow> utype" where
  "kind_of (KindV t) = t"
| "kind_of (StrV s) = Host s"
| "kind_of _ = Host []"

end
