(* ===== verification/Page_Frontend.thy ===== *)
theory Page_Frontend
  imports Page_Support
begin

text \<open>
  The Next.js package \<open>frontend\<close> as elements: its button, its page and its root layout.
\<close>

section \<open>\<open>components/ui/button.tsx\<close>\<close>

definition frontend_buttonVariants :: variants where
  "frontend_buttonVariants = \<lparr>
    cva_base = ''inline-flex items-center justify-center whitespace-nowrap rounded-lg text-sm font-medium transition-colors focus-visible:outline-none focus-visible:ring-2 focus-visible:ring-primary disabled:pointer-events-none disabled:opacity-50'',
    cva_options = [(''variant'', [(''default'', ''bg-primary text-primary-foreground shadow hover:bg-primary/90''),
        (''outline'', ''border border-primary text-primary hover:bg-primary/10''),
        (''ghost'', ''hover:bg-primary/10 text-primary'')]),
      (''size'', [(''default'', ''h-10 px-4 py-2''),
        (''sm'', ''h-9 px-3''),
        (''lg'', ''h-11 px-8'')])],
    cva_defaults = [(''variant'', ''default''), (''size'', ''default'')]\<rparr>"

definition frontend_Button :: component where
  "frontend_Button L p =
     jsx (Host ''button'')
       [At ''className'' (cn L [cva L frontend_buttonVariants (attributes [At ''variant'' (arg p ''variant''), At ''size'' (arg p ''size'')]), arg p ''className'']),
        Spread (rest [''className'', ''variant'', ''size''] p)]
       []"

section \<open>\<open>app/page.tsx\<close>\<close>

definition frontend_HomePage :: component where
  "frontend_HomePage L p =
     jsx (Host ''main'')
       [At ''className'' (StrV ''flex min-h-screen flex-col items-center justify-center gap-6 p-24 text-center'')]
       [jsx (Host ''h1'')
          [At ''className'' (StrV ''text-4xl font-bold'')]
          [StrV ''AquaSavannah LandVault''],
        jsx (Host ''p'')
          [At ''className'' (StrV ''max-w-xl text-base opacity-80'')]
          [StrV (''Platform rebuild in progress '' @ [CHR 0xE2] @ [CHR 0x80] @ [CHR 0x94] @ '' Phase 2, Development Environment. See''),
           StrV '' '',
           jsx (Host ''code'')
             []
             [StrV ''docs/PHASE_GATES.md''],
           StrV '' for the current gate status.''],
        jsx (Own ''components/ui/button.Button'')
          []
          [StrV ''Get started'']]"

section \<open>\<open>app/layout.tsx\<close>\<close>

definition frontend_metadata :: uval where
  "frontend_metadata = ObjV (attributes [At ''title'' (StrV ''AquaSavannah LandVault''), At ''description'' (StrV ''A land-registry and verification platform for Nigeria.'')])"

definition frontend_RootLayout :: component where
  "frontend_RootLayout L p =
     jsx (Host ''html'')
       [At ''lang'' (StrV ''en'')]
       [jsx (Host ''body'')
          []
          [arg p ''children'']]"

end
