(* ===== verification/Page_Frame.thy ===== *)
theory Page_Frame
  imports Ui_Controls Ui_Overlays Ui_Layout Page_Support
begin

text \<open>
  The frame of \<open>artifacts/landvault-web/src\<close> as elements: layout, navigation, the gate, the fallbacks, the
  sign-in page and the routes.
\<close>

section \<open>\<open>components/layout/topbar.tsx\<close>\<close>

definition page_Topbar :: component where
  "page_Topbar L p =
     jsx (Host ''header'')
       [At ''className'' (StrV ''flex h-16 shrink-0 items-center justify-between border-b bg-card px-6'')]
       [jsx (Host ''div'')
          [At ''className'' (StrV ''flex flex-1 items-center gap-4'')]
          [jsx (Host ''div'')
             [At ''className'' (StrV ''relative w-full max-w-md'')]
             [jsx (Lib ''lucide-react'' ''Search'')
                [At ''className'' (StrV ''absolute left-3 top-1/2 h-4 w-4 -translate-y-1/2 text-muted-foreground'')]
                [],
              jsx (Host ''input'')
                [At ''type'' (StrV ''search''),
                 At ''placeholder'' (StrV ''Search by title number, owner, or address...''),
                 At ''className'' (StrV ''h-10 w-full rounded-md border bg-muted/50 pl-10 pr-4 text-sm outline-none transition-colors focus:border-primary focus:bg-background focus:ring-1 focus:ring-ring'')]
                []]],
        jsx (Host ''div'')
          [At ''className'' (StrV ''flex items-center gap-4'')]
          [jsx (Host ''button'')
             [At ''className'' (StrV ''flex h-9 w-9 items-center justify-center rounded-md text-muted-foreground hover:bg-muted hover:text-foreground'')]
             [jsx (Lib ''lucide-react'' ''Bell'')
                [At ''className'' (StrV ''h-5 w-5'')]
                []],
           jsx (Host ''button'')
             [At ''className'' (StrV ''flex h-9 w-9 items-center justify-center rounded-md text-muted-foreground hover:bg-muted hover:text-foreground'')]
             [jsx (Lib ''lucide-react'' ''Settings'')
                [At ''className'' (StrV ''h-5 w-5'')]
                []]]]"

section \<open>\<open>components/layout/sidebar.tsx\<close>\<close>

definition page_NAV_ITEMS :: uval where
  "page_NAV_ITEMS = ListV [ObjV (attributes [At ''href'' (StrV ''/''), At ''label'' (StrV ''Dashboard''), At ''icon'' (KindV (Lib ''lucide-react'' ''LayoutDashboard''))]), ObjV (attributes [At ''href'' (StrV ''/parcels''), At ''label'' (StrV ''Registry''), At ''icon'' (KindV (Lib ''lucide-react'' ''Map''))]), ObjV (attributes [At ''href'' (StrV ''/parcels/new''), At ''label'' (StrV ''Register Parcel''), At ''icon'' (KindV (Lib ''lucide-react'' ''FilePlus''))]), ObjV (attributes [At ''href'' (StrV ''/verify''), At ''label'' (StrV ''Public Verify''), At ''icon'' (KindV (Lib ''lucide-react'' ''ShieldCheck''))])]"

definition page_Sidebar :: component where
  "page_Sidebar L p =
     (let o1 = foreign L ''useLocation'' [] in
      let o2 = foreign L ''useAuth'' [] in
      jsx (Host ''div'')
        [At ''className'' (StrV ''flex h-screen w-64 flex-col border-r bg-sidebar text-sidebar-foreground'')]
        [jsx (Host ''div'')
           [At ''className'' (StrV ''flex h-16 items-center border-b border-sidebar-border px-6'')]
           [jsx (Host ''div'')
              [At ''className'' (StrV ''flex items-center gap-2 font-display text-lg font-bold tracking-tight'')]
              [jsx (Host ''div'')
                 [At ''className'' (StrV ''flex h-8 w-8 items-center justify-center rounded bg-primary text-primary-foreground'')]
                 [jsx (Lib ''lucide-react'' ''Map'')
                    [At ''className'' (StrV ''h-5 w-5'')]
                    []],
               jsx (Host ''span'')
                 [At ''className'' (StrV ''text-sidebar-foreground'')]
                 [StrV ''LandVault'']]],
         jsx (Host ''div'')
           [At ''className'' (StrV ''flex-1 overflow-y-auto py-6'')]
           [jsx (Host ''nav'')
              [At ''className'' (StrV ''space-y-1 px-3'')]
              [jsx (Host ''div'')
                 [At ''className'' (StrV ''mb-4 px-3 text-xs font-semibold uppercase tracking-wider text-sidebar-foreground/50'')]
                 [StrV ''Menu''],
               ListV (map (\<lambda>x. let v_isActive = or_try (BoolV ((element_at o1 (NumV 0)) = (member_of x ''href''))) (and_also (BoolV ((member_of x ''href'') \<noteq> (StrV ''/''))) (foreign L ''.startsWith'' [(element_at o1 (NumV 0)), member_of x ''href''])) in
               jsx (Lib ''wouter'' ''Link'')
                 [At ''key'' (member_of x ''href''),
                  At ''href'' (member_of x ''href''),
                  At ''className'' (StrV ''block'')]
                 [jsx (Host ''div'')
                    [At ''className'' (cn L [StrV ''flex items-center gap-3 rounded-md px-3 py-2 text-sm font-medium transition-colors'', if truthy_ui v_isActive then StrV ''bg-sidebar-accent text-sidebar-accent-foreground'' else StrV ''text-sidebar-foreground/70 hover:bg-sidebar-accent/50 hover:text-sidebar-foreground''])]
                    [jsx (kind_of (member_of x ''icon''))
                       [At ''className'' (cn L [StrV ''h-4 w-4'', if truthy_ui v_isActive then StrV ''text-sidebar-ring'' else StrV ''opacity-70''])]
                       [],
                     member_of x ''label'']]) (elements page_NAV_ITEMS))]],
         jsx (Host ''div'')
           [At ''className'' (StrV ''border-t border-sidebar-border p-4'')]
           [jsx (Host ''div'')
              [At ''className'' (StrV ''flex items-center gap-3 rounded-md p-2'')]
              [jsx (Host ''div'')
                 [At ''className'' (StrV ''flex h-9 w-9 items-center justify-center rounded-full bg-sidebar-accent font-bold text-sidebar-foreground'')]
                 [foreign L ''.toUpperCase'' [foreign L ''.charAt'' [or_given (member_of (member_of o2 ''user'') ''email'') (StrV ''?''), NumV 0]]],
               jsx (Host ''div'')
                 [At ''className'' (StrV ''flex flex-col overflow-hidden'')]
                 [jsx (Host ''span'')
                    [At ''className'' (StrV ''text-sm font-semibold truncate'')]
                    [or_given (member_of (member_of o2 ''user'') ''email'') (StrV ''Unknown'')],
                  jsx (Host ''span'')
                    [At ''className'' (StrV ''text-xs text-sidebar-foreground/50'')]
                    [StrV ''Signed in'']],
               jsx (Own ''Button'')
                 [At ''variant'' (StrV ''ghost''),
                  At ''size'' (StrV ''icon''),
                  At ''className'' (StrV ''ml-auto shrink-0 text-sidebar-foreground/50 hover:text-sidebar-foreground''),
                  At ''onClick'' (Closure ''Sidebar.onClick'' [(member_of o2 ''signOut'')]),
                  At ''title'' (StrV ''Sign out'')]
                 [jsx (Lib ''lucide-react'' ''LogOut'')
                    [At ''className'' (StrV ''h-4 w-4'')]
                    []]]]])"

section \<open>\<open>components/layout/app-layout.tsx\<close>\<close>

definition page_AppLayout :: component where
  "page_AppLayout L p =
     jsx (Host ''div'')
       [At ''className'' (StrV ''flex h-screen overflow-hidden bg-background'')]
       [jsx (Own ''components/layout/sidebar.Sidebar'')
          []
          [],
        jsx (Host ''div'')
          [At ''className'' (StrV ''flex flex-1 flex-col overflow-hidden'')]
          [jsx (Own ''components/layout/topbar.Topbar'')
             []
             [],
           jsx (Host ''main'')
             [At ''className'' (StrV ''flex-1 overflow-y-auto p-6 md:p-8'')]
             [jsx (Host ''div'')
                [At ''className'' (StrV ''mx-auto max-w-6xl'')]
                [arg p ''children'']]]]"

section \<open>\<open>components/require-auth.tsx\<close>\<close>

definition page_RequireAuth :: component where
  "page_RequireAuth L p =
     (let o1 = foreign L ''useAuth'' [] in
      if truthy_ui (member_of o1 ''isLoading'') then
        jsx (Host ''div'')
          [At ''className'' (StrV ''flex h-screen items-center justify-center'')]
          [jsx (Lib ''lucide-react'' ''Loader2'')
             [At ''className'' (StrV ''h-6 w-6 animate-spin text-muted-foreground'')]
             []]
      else
        if \<not> truthy_ui (member_of o1 ''session'') then
          jsx (Lib ''wouter'' ''Redirect'')
            [At ''to'' (StrV ''/sign-in'')]
            []
        else
          jsx (Lib ''react'' ''Fragment'')
            []
            [arg p ''children''])"

section \<open>\<open>components/access-denied.tsx\<close>\<close>

definition page_AccessDenied :: component where
  "page_AccessDenied L p =
     jsx (Host ''div'')
       [At ''className'' (StrV ''flex flex-col items-center justify-center py-12 text-center'')]
       [jsx (Lib ''lucide-react'' ''ShieldAlert'')
          [At ''className'' (StrV ''h-10 w-10 text-destructive/50 mb-3'')]
          [],
        jsx (Host ''h3'')
          [At ''className'' (StrV ''text-lg font-medium'')]
          [StrV ''Access denied''],
        jsx (Host ''p'')
          [At ''className'' (StrV ''text-sm text-muted-foreground max-w-sm mt-1'')]
          [StrV ''You're signed in, but your account isn't authorized for this. Contact a registry administrator if you believe this is a mistake.'']]"

section \<open>\<open>components/error-boundary.tsx\<close>\<close>

definition page_DefaultFallback :: component where
  "page_DefaultFallback L p =
     jsx (Host ''div'')
       [At ''className'' (StrV ''min-h-screen w-full flex items-center justify-center bg-gray-50 p-6'')]
       [jsx (Host ''div'')
          [At ''className'' (StrV ''max-w-lg w-full text-center'')]
          [jsx (Host ''h1'')
             [At ''className'' (StrV ''text-xl font-semibold text-gray-900'')]
             [StrV ''Something went wrong''],
           jsx (Host ''p'')
             [At ''className'' (StrV ''mt-2 text-sm text-gray-600'')]
             [StrV ''This part of the app hit an error. The rest of the app is still running.''],
           if truthy_ui (foreign L ''import.meta.env.DEV'' []) then jsx (Host ''pre'')
             [At ''className'' (StrV ''mt-4 overflow-x-auto rounded bg-gray-100 p-3 text-left text-xs text-gray-800'')]
             [or_try (member_of (arg p ''error'') ''message'') (foreign L ''String'' [(arg p ''error'')])] else NullV,
           jsx (Host ''button'')
             [At ''type'' (StrV ''button''),
              At ''onClick'' (arg p ''resetError''),
              At ''className'' (StrV ''mt-4 rounded bg-gray-900 px-4 py-2 text-sm text-white hover:bg-gray-700'')]
             [StrV ''Try again'']]]"

section \<open>\<open>pages/not-found.tsx\<close>\<close>

definition page_NotFound :: component where
  "page_NotFound L p =
     jsx (Host ''div'')
       [At ''className'' (StrV ''min-h-screen w-full flex items-center justify-center bg-gray-50'')]
       [jsx (Own ''Card'')
          [At ''className'' (StrV ''w-full max-w-md mx-4'')]
          [jsx (Own ''CardContent'')
             [At ''className'' (StrV ''pt-6'')]
             [jsx (Host ''div'')
                [At ''className'' (StrV ''flex mb-4 gap-2'')]
                [jsx (Lib ''lucide-react'' ''AlertCircle'')
                   [At ''className'' (StrV ''h-8 w-8 text-red-500'')]
                   [],
                 jsx (Host ''h1'')
                   [At ''className'' (StrV ''text-2xl font-bold text-gray-900'')]
                   [StrV ''404 Page Not Found'']],
              jsx (Host ''p'')
                [At ''className'' (StrV ''mt-4 text-sm text-gray-600'')]
                [StrV ''Did you forget to add the page to the router?'']]]]"

section \<open>\<open>pages/sign-in.tsx\<close>\<close>

definition page_SignIn :: component where
  "page_SignIn L p =
     (let o1 = foreign L ''useAuth'' [] in
      let o2 = foreign L ''useLocation'' [] in
      let o3 = foreign L ''useState.email'' [StrV ''''] in
      let o4 = foreign L ''useState.password'' [StrV ''''] in
      let o5 = foreign L ''useState.error'' [NullV] in
      let o6 = foreign L ''useState.isSubmitting'' [BoolV False] in
      let v_handleSubmit = Closure ''SignIn.handleSubmit'' [(element_at o5 (NumV 1)), (element_at o6 (NumV 1)), (element_at o5 (NumV 0)), (member_of o1 ''signInWithPassword''), (element_at o3 (NumV 0)), (element_at o4 (NumV 0)), (element_at o2 (NumV 1))] in
      jsx (Host ''div'')
        [At ''className'' (StrV ''min-h-screen flex items-center justify-center bg-background p-6'')]
        [jsx (Own ''Card'')
           [At ''className'' (StrV ''w-full max-w-sm'')]
           [jsx (Own ''CardHeader'')
              [At ''className'' (StrV ''text-center space-y-2'')]
              [jsx (Host ''div'')
                 [At ''className'' (StrV ''flex h-10 w-10 items-center justify-center rounded bg-primary text-primary-foreground mx-auto'')]
                 [jsx (Lib ''lucide-react'' ''Map'')
                    [At ''className'' (StrV ''h-5 w-5'')]
                    []],
               jsx (Own ''CardTitle'')
                 []
                 [StrV ''Sign in to LandVault''],
               jsx (Own ''CardDescription'')
                 []
                 [StrV ''Registry access requires an authorized account.'']],
            jsx (Own ''CardContent'')
              []
              [jsx (Host ''form'')
                 [At ''onSubmit'' v_handleSubmit,
                  At ''className'' (StrV ''space-y-4'')]
                 [jsx (Host ''div'')
                    [At ''className'' (StrV ''space-y-2'')]
                    [jsx (Own ''Label'')
                       [At ''htmlFor'' (StrV ''email'')]
                       [StrV ''Email''],
                     jsx (Own ''Input'')
                       [At ''id'' (StrV ''email''),
                        At ''type'' (StrV ''email''),
                        At ''autoComplete'' (StrV ''email''),
                        At ''required'' (BoolV True),
                        At ''value'' (element_at o3 (NumV 0)),
                        At ''onChange'' (Closure ''SignIn.onChange'' [(element_at o3 (NumV 1))])]
                       []],
                  jsx (Host ''div'')
                    [At ''className'' (StrV ''space-y-2'')]
                    [jsx (Own ''Label'')
                       [At ''htmlFor'' (StrV ''password'')]
                       [StrV ''Password''],
                     jsx (Own ''Input'')
                       [At ''id'' (StrV ''password''),
                        At ''type'' (StrV ''password''),
                        At ''autoComplete'' (StrV ''current-password''),
                        At ''required'' (BoolV True),
                        At ''value'' (element_at o4 (NumV 0)),
                        At ''onChange'' (Closure ''SignIn.onChange2'' [(element_at o4 (NumV 1))])]
                       []],
                  and_also (element_at o5 (NumV 0)) (jsx (Host ''p'')
                    [At ''className'' (StrV ''text-sm text-destructive'')]
                    [element_at o5 (NumV 0)]),
                  jsx (Own ''Button'')
                    [At ''type'' (StrV ''submit''),
                     At ''className'' (StrV ''w-full''),
                     At ''disabled'' (element_at o6 (NumV 0))]
                    [and_also (element_at o6 (NumV 0)) (jsx (Lib ''lucide-react'' ''Loader2'')
                       [At ''className'' (StrV ''mr-2 h-4 w-4 animate-spin'')]
                       []),
                     StrV ''Sign In'']]]]])"

section \<open>\<open>App.tsx\<close>\<close>

definition page_Router :: component where
  "page_Router L p =
     jsx (Own ''App.RoutedErrorBoundary'')
       []
       [jsx (Lib ''wouter'' ''Switch'')
          []
          [jsx (Lib ''wouter'' ''Route'')
             [At ''path'' (StrV ''/sign-in''),
              At ''component'' (KindV (Own ''pages/sign-in.SignIn''))]
             [],
           jsx (Lib ''wouter'' ''Route'')
             [At ''path'' (StrV ''/verify''),
              At ''component'' (KindV (Own ''pages/verify.Verify''))]
             [],
           jsx (Lib ''wouter'' ''Route'')
             [At ''path'' (StrV ''/'')]
             [jsx (Own ''components/require-auth.RequireAuth'')
                []
                [jsx (Own ''pages/dashboard.Dashboard'')
                   []
                   []]],
           jsx (Lib ''wouter'' ''Route'')
             [At ''path'' (StrV ''/parcels'')]
             [jsx (Own ''components/require-auth.RequireAuth'')
                []
                [jsx (Own ''pages/parcels/index.ParcelsRegistry'')
                   []
                   []]],
           jsx (Lib ''wouter'' ''Route'')
             [At ''path'' (StrV ''/parcels/new'')]
             [jsx (Own ''components/require-auth.RequireAuth'')
                []
                [jsx (Own ''pages/parcels/new.ParcelNew'')
                   []
                   []]],
           jsx (Lib ''wouter'' ''Route'')
             [At ''path'' (StrV ''/parcels/:id'')]
             [jsx (Own ''components/require-auth.RequireAuth'')
                []
                [jsx (Own ''pages/parcels/detail.ParcelDetail'')
                   []
                   []]],
           jsx (Lib ''wouter'' ''Route'')
             [At ''component'' (KindV (Own ''pages/not-found.NotFound''))]
             []]]"

definition page_RoutedErrorBoundary :: component where
  "page_RoutedErrorBoundary L p =
     (let o1 = foreign L ''useLocation'' [] in
      jsx (Own ''components/error-boundary.ErrorBoundary'')
        [At ''resetKey'' (element_at o1 (NumV 0))]
        [arg p ''children''])"

definition page_App :: component where
  "page_App L p =
     jsx (Lib ''@tanstack/react-query'' ''QueryClientProvider'')
       [At ''client'' (foreign L ''queryClient'' [])]
       [jsx (TooltipProvider)
          []
          [jsx (Lib ''wouter'' ''Router'')
             [At ''base'' (foreign L ''import.meta.env.BASE_URL.replace'' [StrV (''/'' @ [CHR 0x5C] @ ''/$/''), StrV ''''])]
             [jsx (Own ''lib/auth-context.AuthProvider'')
                []
                [jsx (Own ''App.Router'')
                   []
                   []]],
           jsx (Own ''Toaster'')
             []
             []]]"

end
