(* ===== verification/Page_Registry.thy ===== *)
theory Page_Registry
  imports Page_Frame Ui_Menus
begin

text \<open>
  The pages of \<open>artifacts/landvault-web/src\<close> that list parcels, as elements.
\<close>

section \<open>Values of the client package\<close>

definition page_ParcelStatus :: uval where
  "page_ParcelStatus = ObjV [(''ACTIVE'', StrV ''ACTIVE''), (''ARCHIVED'', StrV ''ARCHIVED'')]"

section \<open>\<open>components/ui/status-badge.tsx\<close>\<close>

definition page_StatusBadge :: component where
  "page_StatusBadge L p =
     (let v_label = foreign L ''.replace'' [(arg p ''status''), StrV ''_'', StrV '' ''] in
      let v_label = plus L (foreign L ''.toUpperCase'' [foreign L ''.charAt'' [v_label, NumV 0]]) (slice_ui v_label (NumV 1) Absent) in
      let v_variantClass = StrV ''bg-muted text-muted-foreground'' in
      let v_variantClass = (if (arg p ''status'') = StrV ''ACTIVE'' then StrV ''bg-emerald-600/10 text-emerald-600 border-emerald-600/20 border'' else if (arg p ''status'') = StrV ''ARCHIVED'' then StrV ''bg-slate-500/10 text-slate-600 border-slate-500/20 border'' else if (arg p ''status'') = StrV ''RECEIVED'' then StrV ''bg-amber-500/10 text-amber-600 border-amber-500/20 border'' else if (arg p ''status'') = StrV ''HASHED'' then StrV ''bg-emerald-600/10 text-emerald-600 border-emerald-600/20 border'' else v_variantClass) in
      jsx (Host ''span'')
        [At ''className'' (cn L [StrV ''inline-flex items-center rounded-full px-2.5 py-0.5 text-xs font-semibold uppercase tracking-wide'', v_variantClass, arg p ''className''])]
        [v_label])"

section \<open>\<open>pages/dashboard.tsx\<close>\<close>

definition page_Dashboard :: component where
  "page_Dashboard L p =
     (let o1 = foreign L ''useListParcels'' [] in
      jsx (Own ''components/layout/app-layout.AppLayout'')
        []
        [jsx (Host ''div'')
           [At ''className'' (StrV ''flex flex-col gap-8'')]
           [jsx (Host ''div'')
              []
              [jsx (Host ''h1'')
                 [At ''className'' (StrV ''text-3xl font-bold text-foreground'')]
                 [StrV ''Overview''],
               jsx (Host ''p'')
                 [At ''className'' (StrV ''text-muted-foreground mt-1 text-lg'')]
                 [StrV ''State-level land registry statistics and recent activity.'']],
            jsx (Host ''div'')
              [At ''className'' (StrV ''grid gap-6 lg:grid-cols-3'')]
              [jsx (Own ''Card'')
                 [At ''className'' (StrV ''lg:col-span-2'')]
                 [jsx (Own ''CardHeader'')
                    [At ''className'' (StrV ''flex flex-row items-center justify-between'')]
                    [jsx (Host ''div'')
                       []
                       [jsx (Own ''CardTitle'')
                          []
                          [StrV ''Recent Parcels''],
                        jsx (Host ''p'')
                          [At ''className'' (StrV ''text-sm text-muted-foreground mt-1'')]
                          [StrV ''Latest land registrations and updates.'']],
                     jsx (Lib ''wouter'' ''Link'')
                       [At ''href'' (StrV ''/parcels''),
                        At ''className'' (StrV ''text-sm font-medium text-primary hover:underline'')]
                       [StrV ''View All'']],
                  jsx (Own ''CardContent'')
                    []
                    [if truthy_ui (member_of o1 ''isLoading'') then jsx (Host ''div'')
                       [At ''className'' (StrV ''space-y-4'')]
                       [ListV (map (\<lambda>(i, x). jsx (Host ''div'')
                          [At ''key'' (NumV (of_nat i)),
                           At ''className'' (StrV ''h-16 animate-pulse rounded-md bg-muted'')]
                          []) (enumerate 0 (elements (ListV (replicate 3 Absent)))))] else if truthy_ui (member_of o1 ''isError'') then jsx (Host ''div'')
                       [At ''className'' (StrV ''flex flex-col items-center justify-center py-8 text-center'')]
                       [jsx (Lib ''lucide-react'' ''AlertTriangle'')
                          [At ''className'' (StrV ''h-12 w-12 text-destructive/50 mb-3'')]
                          [],
                        jsx (Host ''h3'')
                          [At ''className'' (StrV ''text-lg font-medium'')]
                          [StrV ''Could not load parcels''],
                        jsx (Host ''p'')
                          [At ''className'' (StrV ''text-sm text-muted-foreground max-w-sm mt-1'')]
                          [StrV ''The registry could not be reached. Try again shortly.'']] else if truthy_ui (member_of o1 ''data'') \<and> truthy_ui (BoolV (num_of (length_of (member_of o1 ''data'')) > num_of (NumV 0))) then jsx (Host ''div'')
                       [At ''className'' (StrV ''space-y-4'')]
                       [ListV (map (\<lambda>x. jsx (Lib ''wouter'' ''Link'')
                          [At ''key'' (member_of x ''parcel_id''),
                           At ''href'' (StrV (''/parcels/'' @ text_of L (member_of x ''parcel_id''))),
                           At ''className'' (StrV ''block'')]
                          [jsx (Host ''div'')
                             [At ''className'' (StrV ''flex items-center justify-between rounded-lg border p-4 transition-colors hover:bg-muted/50'')]
                             [jsx (Host ''div'')
                                [At ''className'' (StrV ''flex items-center gap-4'')]
                                [jsx (Host ''div'')
                                   [At ''className'' (StrV ''flex h-10 w-10 items-center justify-center rounded-md bg-primary/10 text-primary'')]
                                   [jsx (Lib ''lucide-react'' ''Map'')
                                      [At ''className'' (StrV ''h-5 w-5'')]
                                      []],
                                 jsx (Host ''div'')
                                   []
                                   [jsx (Host ''div'')
                                      [At ''className'' (StrV ''font-semibold text-foreground'')]
                                      [or_given (member_of x ''parcel_number'') (StrV ''Unallocated'')],
                                    jsx (Host ''div'')
                                      [At ''className'' (StrV ''text-sm text-muted-foreground truncate max-w-[200px] md:max-w-md'')]
                                      [or_given (member_of x ''current_owner_name'') (StrV ([CHR 0xE2] @ [CHR 0x80] @ [CHR 0x94])),
                                       StrV ('' '' @ [CHR 0xC2] @ [CHR 0xB7] @ '' ''),
                                       or_given (member_of x ''address'') (StrV ([CHR 0xE2] @ [CHR 0x80] @ [CHR 0x94])),
                                       StrV '', '',
                                       or_given (member_of x ''lga'') (StrV ([CHR 0xE2] @ [CHR 0x80] @ [CHR 0x94])),
                                       StrV '', '',
                                       or_given (member_of x ''state'') (StrV ([CHR 0xE2] @ [CHR 0x80] @ [CHR 0x94]))]]],
                              jsx (Host ''div'')
                                [At ''className'' (StrV ''flex items-center gap-6'')]
                                [jsx (Host ''div'')
                                   [At ''className'' (StrV ''hidden text-right md:block'')]
                                   [jsx (Host ''div'')
                                      [At ''className'' (StrV ''text-sm font-medium'')]
                                      [if StrV (type_of (member_of x ''size_sqm'')) = StrV ''number'' then StrV (text_of L (foreign L ''.toLocaleString'' [member_of x ''size_sqm'']) @ '' sqm'') else StrV ([CHR 0xE2] @ [CHR 0x80] @ [CHR 0x94])],
                                    jsx (Host ''div'')
                                      [At ''className'' (StrV ''text-xs text-muted-foreground capitalize'')]
                                      [or_given (member_of x ''property_type'') (StrV ([CHR 0xE2] @ [CHR 0x80] @ [CHR 0x94]))]],
                                 jsx (Own ''components/ui/status-badge.StatusBadge'')
                                   [At ''status'' (member_of x ''status'')]
                                   []]]]) (elements (slice_ui (member_of o1 ''data'') (NumV 0) (NumV 5))))] else jsx (Host ''div'')
                       [At ''className'' (StrV ''flex flex-col items-center justify-center py-8 text-center'')]
                       [jsx (Lib ''lucide-react'' ''FileText'')
                          [At ''className'' (StrV ''h-12 w-12 text-muted-foreground/50 mb-3'')]
                          [],
                        jsx (Host ''h3'')
                          [At ''className'' (StrV ''text-lg font-medium'')]
                          [StrV ''No parcels found''],
                        jsx (Host ''p'')
                          [At ''className'' (StrV ''text-sm text-muted-foreground max-w-sm mt-1'')]
                          [StrV ''There are no parcels registered in the system yet.'']]]],
               jsx (Own ''Card'')
                 []
                 [jsx (Own ''CardHeader'')
                    []
                    [jsx (Own ''CardTitle'')
                       []
                       [StrV ''Registry Statistics'']],
                  jsx (Own ''CardContent'')
                    [At ''className'' (StrV ''flex flex-col items-center justify-center py-10 text-center'')]
                    [jsx (Lib ''lucide-react'' ''BarChart3'')
                       [At ''className'' (StrV ''h-10 w-10 text-muted-foreground/40 mb-3'')]
                       [],
                     jsx (Host ''h3'')
                       [At ''className'' (StrV ''text-sm font-medium text-foreground'')]
                       [StrV ''Not yet available''],
                     jsx (Host ''p'')
                       [At ''className'' (StrV ''text-xs text-muted-foreground mt-1 max-w-[220px]'')]
                       [StrV ''Aggregate registry statistics require a governed backend capability that does not exist yet.'']]]]]])"

section \<open>\<open>pages/parcels/index.tsx\<close>\<close>

definition page_STATES :: uval where
  "page_STATES = ListV [StrV ''Lagos'', StrV ''Abuja (FCT)'', StrV ''Rivers'', StrV ''Kano'', StrV ''Ogun'', StrV ''Oyo'', StrV ''Delta'', StrV ''Edo'', StrV ''Kaduna'', StrV ''Anambra'', StrV ''Enugu'', StrV ''Imo'', StrV ''Cross River'', StrV ''Akwa Ibom'', StrV ''Plateau'']"

definition page_ParcelsRegistry :: component where
  "page_ParcelsRegistry L p =
     (let o1 = foreign L ''useListParcels'' [] in
      let o2 = foreign L ''useState.searchInput'' [StrV ''''] in
      let o3 = foreign L ''useState.status'' [StrV ''all''] in
      let o4 = foreign L ''useState.state'' [StrV ''all''] in
      let v_filtered = if \<not> truthy_ui (member_of o1 ''data'') then
        ListV []
      else
        foreign L ''.filter'' [(member_of o1 ''data''), Closure ''ParcelsRegistry.filtered'' [(element_at o2 (NumV 0)), (element_at o3 (NumV 0)), (element_at o4 (NumV 0))]] in
      jsx (Own ''components/layout/app-layout.AppLayout'')
        []
        [jsx (Host ''div'')
           [At ''className'' (StrV ''flex flex-col gap-6'')]
           [jsx (Host ''div'')
              [At ''className'' (StrV ''flex flex-col sm:flex-row sm:items-center sm:justify-between gap-4'')]
              [jsx (Host ''div'')
                 []
                 [jsx (Host ''h1'')
                    [At ''className'' (StrV ''text-3xl font-bold text-foreground'')]
                    [StrV ''Land Registry''],
                  jsx (Host ''p'')
                    [At ''className'' (StrV ''text-muted-foreground mt-1 text-lg'')]
                    [StrV ''Comprehensive database of registered parcels.'']],
               jsx (Lib ''wouter'' ''Link'')
                 [At ''href'' (StrV ''/parcels/new'')]
                 [jsx (Own ''Button'')
                    [At ''className'' (StrV ''w-full sm:w-auto'')]
                    [jsx (Lib ''lucide-react'' ''Plus'')
                       [At ''className'' (StrV ''mr-2 h-4 w-4'')]
                       [],
                     StrV ''Register Parcel'']]],
            jsx (Own ''Card'')
              [At ''className'' (StrV ''p-4'')]
              [jsx (Host ''div'')
                 [At ''className'' (StrV ''flex flex-col md:flex-row gap-4'')]
                 [jsx (Host ''div'')
                    [At ''className'' (StrV ''relative flex-1'')]
                    [jsx (Lib ''lucide-react'' ''Search'')
                       [At ''className'' (StrV ''absolute left-3 top-1/2 h-4 w-4 -translate-y-1/2 text-muted-foreground'')]
                       [],
                     jsx (Own ''Input'')
                       [At ''placeholder'' (StrV ''Search by parcel number, owner name, or address...''),
                        At ''className'' (StrV ''pl-10''),
                        At ''value'' (element_at o2 (NumV 0)),
                        At ''onChange'' (Closure ''ParcelsRegistry.onChange'' [(element_at o2 (NumV 1))])]
                       []],
                  jsx (Host ''div'')
                    [At ''className'' (StrV ''flex gap-4'')]
                    [jsx (Select)
                       [At ''value'' (element_at o3 (NumV 0)),
                        At ''onValueChange'' (element_at o3 (NumV 1))]
                       [jsx (Own ''SelectTrigger'')
                          [At ''className'' (StrV ''w-[140px]'')]
                          [jsx (SelectValue)
                             [At ''placeholder'' (StrV ''Status'')]
                             []],
                        jsx (Own ''SelectContent'')
                          []
                          [jsx (Own ''SelectItem'')
                             [At ''value'' (StrV ''all'')]
                             [StrV ''All Statuses''],
                           ListV (map (\<lambda>x. jsx (Own ''SelectItem'')
                             [At ''key'' x,
                              At ''value'' x]
                             [plus L (foreign L ''.toUpperCase'' [foreign L ''.charAt'' [x, NumV 0]]) (foreign L ''.toLowerCase'' [slice_ui x (NumV 1) Absent])]) (elements (ListV (map snd (entries page_ParcelStatus)))))]],
                     jsx (Select)
                       [At ''value'' (element_at o4 (NumV 0)),
                        At ''onValueChange'' (element_at o4 (NumV 1))]
                       [jsx (Own ''SelectTrigger'')
                          [At ''className'' (StrV ''w-[140px]'')]
                          [jsx (SelectValue)
                             [At ''placeholder'' (StrV ''State'')]
                             []],
                        jsx (Own ''SelectContent'')
                          []
                          [jsx (Own ''SelectItem'')
                             [At ''value'' (StrV ''all'')]
                             [StrV ''All States''],
                           ListV (map (\<lambda>x. jsx (Own ''SelectItem'')
                             [At ''key'' x,
                              At ''value'' x]
                             [x]) (elements page_STATES))]]]]],
            jsx (Own ''Card'')
              [At ''className'' (StrV ''overflow-hidden border'')]
              [jsx (Host ''div'')
                 [At ''className'' (StrV ''overflow-x-auto'')]
                 [jsx (Host ''table'')
                    [At ''className'' (StrV ''w-full text-sm text-left'')]
                    [jsx (Host ''thead'')
                       [At ''className'' (StrV ''bg-muted/50 text-muted-foreground text-xs uppercase tracking-wider'')]
                       [jsx (Host ''tr'')
                          []
                          [jsx (Host ''th'')
                             [At ''className'' (StrV ''px-6 py-4 font-semibold'')]
                             [StrV ''Parcel Number''],
                           jsx (Host ''th'')
                             [At ''className'' (StrV ''px-6 py-4 font-semibold'')]
                             [StrV ''Owner & Location''],
                           jsx (Host ''th'')
                             [At ''className'' (StrV ''px-6 py-4 font-semibold'')]
                             [StrV ''Details''],
                           jsx (Host ''th'')
                             [At ''className'' (StrV ''px-6 py-4 font-semibold text-right'')]
                             [StrV ''Status'']]],
                     jsx (Host ''tbody'')
                       [At ''className'' (StrV ''divide-y'')]
                       [if truthy_ui (member_of o1 ''isLoading'') then ListV (map (\<lambda>(i, x). jsx (Host ''tr'')
                          [At ''key'' (NumV (of_nat i)),
                           At ''className'' (StrV ''animate-pulse'')]
                          [jsx (Host ''td'')
                             [At ''className'' (StrV ''px-6 py-4'')]
                             [jsx (Host ''div'')
                                [At ''className'' (StrV ''h-4 w-24 bg-muted rounded'')]
                                []],
                           jsx (Host ''td'')
                             [At ''className'' (StrV ''px-6 py-4'')]
                             [jsx (Host ''div'')
                                [At ''className'' (StrV ''h-4 w-32 bg-muted rounded mb-2'')]
                                [],
                              jsx (Host ''div'')
                                [At ''className'' (StrV ''h-3 w-48 bg-muted rounded'')]
                                []],
                           jsx (Host ''td'')
                             [At ''className'' (StrV ''px-6 py-4'')]
                             [jsx (Host ''div'')
                                [At ''className'' (StrV ''h-4 w-16 bg-muted rounded'')]
                                []],
                           jsx (Host ''td'')
                             [At ''className'' (StrV ''px-6 py-4 text-right'')]
                             [jsx (Host ''div'')
                                [At ''className'' (StrV ''h-6 w-20 bg-muted rounded ml-auto'')]
                                []]]) (enumerate 0 (elements (ListV (replicate 5 Absent))))) else if truthy_ui (member_of o1 ''isError'') then jsx (Host ''tr'')
                          []
                          [jsx (Host ''td'')
                             [At ''colSpan'' (NumV 4),
                              At ''className'' (StrV ''px-6 py-12 text-center'')]
                             [jsx (Host ''div'')
                                [At ''className'' (StrV ''flex flex-col items-center justify-center text-muted-foreground'')]
                                [jsx (Lib ''lucide-react'' ''AlertTriangle'')
                                   [At ''className'' (StrV ''h-10 w-10 mb-4 text-destructive/40'')]
                                   [],
                                 jsx (Host ''h3'')
                                   [At ''className'' (StrV ''text-lg font-medium text-foreground'')]
                                   [StrV ''Could not load the registry''],
                                 jsx (Host ''p'')
                                   [At ''className'' (StrV ''mt-1'')]
                                   [StrV ''The registry could not be reached. Try again shortly.'']]]] else if truthy_ui (BoolV (num_of (length_of v_filtered) > num_of (NumV 0))) then ListV (map (\<lambda>x. jsx (Host ''tr'')
                          [At ''key'' (member_of x ''parcel_id''),
                           At ''className'' (StrV ''hover:bg-muted/30 transition-colors group cursor-pointer relative'')]
                          [jsx (Host ''td'')
                             [At ''className'' (StrV ''px-6 py-4'')]
                             [jsx (Lib ''wouter'' ''Link'')
                                [At ''href'' (StrV (''/parcels/'' @ text_of L (member_of x ''parcel_id''))),
                                 At ''className'' (StrV ''absolute inset-0 z-10'')]
                                [jsx (Host ''span'')
                                   [At ''className'' (StrV ''sr-only'')]
                                   [StrV ''View Parcel'']],
                              jsx (Host ''span'')
                                [At ''className'' (StrV ''font-semibold text-primary group-hover:underline'')]
                                [or_given (member_of x ''parcel_number'') (StrV ''Unallocated'')],
                              jsx (Host ''div'')
                                [At ''className'' (StrV ''text-xs text-muted-foreground mt-1'')]
                                [StrV ''Reg: '',
                                 foreign L ''format'' [foreign L ''new Date'' [member_of x ''created_at''], StrV ''MMM d, yyyy'']]],
                           jsx (Host ''td'')
                             [At ''className'' (StrV ''px-6 py-4'')]
                             [jsx (Host ''div'')
                                [At ''className'' (StrV ''font-medium text-foreground'')]
                                [or_given (member_of x ''current_owner_name'') (StrV ([CHR 0xE2] @ [CHR 0x80] @ [CHR 0x94]))],
                              jsx (Host ''div'')
                                [At ''className'' (StrV ''text-muted-foreground mt-1 flex items-center gap-1'')]
                                [jsx (Lib ''lucide-react'' ''Map'')
                                   [At ''className'' (StrV ''h-3 w-3 inline'')]
                                   [],
                                 or_given (member_of x ''lga'') (StrV ([CHR 0xE2] @ [CHR 0x80] @ [CHR 0x94])),
                                 StrV '', '',
                                 or_given (member_of x ''state'') (StrV ([CHR 0xE2] @ [CHR 0x80] @ [CHR 0x94]))]],
                           jsx (Host ''td'')
                             [At ''className'' (StrV ''px-6 py-4'')]
                             [jsx (Host ''div'')
                                []
                                [if StrV (type_of (member_of x ''size_sqm'')) = StrV ''number'' then StrV (text_of L (foreign L ''.toLocaleString'' [member_of x ''size_sqm'']) @ '' sqm'') else StrV ([CHR 0xE2] @ [CHR 0x80] @ [CHR 0x94])],
                              jsx (Host ''div'')
                                [At ''className'' (StrV ''text-muted-foreground capitalize mt-1'')]
                                [or_given (member_of x ''property_type'') (StrV ([CHR 0xE2] @ [CHR 0x80] @ [CHR 0x94]))]],
                           jsx (Host ''td'')
                             [At ''className'' (StrV ''px-6 py-4 text-right relative z-20'')]
                             [jsx (Own ''components/ui/status-badge.StatusBadge'')
                                [At ''status'' (member_of x ''status'')]
                                []]]) (elements v_filtered)) else jsx (Host ''tr'')
                          []
                          [jsx (Host ''td'')
                             [At ''colSpan'' (NumV 4),
                              At ''className'' (StrV ''px-6 py-12 text-center'')]
                             [jsx (Host ''div'')
                                [At ''className'' (StrV ''flex flex-col items-center justify-center text-muted-foreground'')]
                                [jsx (Lib ''lucide-react'' ''Search'')
                                   [At ''className'' (StrV ''h-10 w-10 mb-4 opacity-20'')]
                                   [],
                                 jsx (Host ''h3'')
                                   [At ''className'' (StrV ''text-lg font-medium text-foreground'')]
                                   [StrV ''No parcels found''],
                                 jsx (Host ''p'')
                                   [At ''className'' (StrV ''mt-1'')]
                                   [StrV ''Try adjusting your filters or search terms.'']]]]]]],
               and_also (member_of o1 ''data'') (jsx (Host ''div'')
                 [At ''className'' (StrV ''px-6 py-4 border-t bg-muted/20 text-sm text-muted-foreground'')]
                 [StrV ''Showing '',
                  length_of v_filtered,
                  StrV '' of '',
                  length_of (member_of o1 ''data''),
                  StrV '' parcels''])]]])"

section \<open>\<open>pages/verify.tsx\<close>\<close>

definition page_Verify :: component where
  "page_Verify L p =
     (let o1 = foreign L ''useState.searchInput'' [StrV ''''] in
      let o2 = foreign L ''useState.searchedNumber'' [NullV] in
      let o3 = foreign L ''useListParcels'' [ObjV (attributes [At ''query'' (ObjV (attributes [At ''enabled'' (BoolV (\<not> \<not> truthy_ui (element_at o2 (NumV 0)))), At ''queryKey'' (foreign L ''getListParcelsQueryKey'' [])]))])] in
      let v_handleSearch = Closure ''Verify.handleSearch'' [(element_at o1 (NumV 0)), (element_at o2 (NumV 1))] in
      let v_parcel = if \<not> truthy_ui (element_at o2 (NumV 0)) \<or> \<not> truthy_ui (member_of o3 ''data'') then
        Absent
      else
        let v_needle = foreign L ''.toLowerCase'' [foreign L ''.trim'' [(element_at o2 (NumV 0))]] in
        foreign L ''.find'' [(member_of o3 ''data''), Closure ''Verify.needle'' [v_needle]] in
      let v_notFound = and_also (and_also (element_at o2 (NumV 0)) (member_of o3 ''data'')) (BoolV (\<not> truthy_ui v_parcel)) in
      jsx (Host ''div'')
        [At ''className'' (StrV ''min-h-screen bg-background flex flex-col'')]
        [jsx (Host ''header'')
           [At ''className'' (StrV ''h-16 border-b flex items-center px-6 md:px-12 bg-card'')]
           [jsx (Lib ''wouter'' ''Link'')
              [At ''href'' (StrV ''/''),
               At ''className'' (StrV ''flex items-center gap-2 font-display text-xl font-bold tracking-tight text-foreground'')]
              [jsx (Host ''div'')
                 [At ''className'' (StrV ''flex h-8 w-8 items-center justify-center rounded bg-primary text-primary-foreground'')]
                 [jsx (Lib ''lucide-react'' ''Map'')
                    [At ''className'' (StrV ''h-5 w-5'')]
                    []],
               StrV ''LandVault''],
            jsx (Host ''div'')
              [At ''className'' (StrV ''ml-auto flex items-center gap-4 text-sm font-medium'')]
              [jsx (Lib ''wouter'' ''Link'')
                 [At ''href'' (StrV ''/''),
                  At ''className'' (StrV ''text-muted-foreground hover:text-foreground'')]
                 [StrV ''Staff Login'']]],
         jsx (Host ''main'')
           [At ''className'' (StrV ''flex-1 flex flex-col items-center p-6 md:p-12'')]
           [jsx (Host ''div'')
              [At ''className'' (StrV ''w-full max-w-3xl space-y-8'')]
              [jsx (Host ''div'')
                 [At ''className'' (StrV ''text-center space-y-4 py-8'')]
                 [jsx (Lib ''lucide-react'' ''ShieldCheck'')
                    [At ''className'' (StrV ''h-16 w-16 text-primary mx-auto'')]
                    [],
                  jsx (Host ''h1'')
                    [At ''className'' (StrV ''text-4xl md:text-5xl font-display font-bold tracking-tight'')]
                    [StrV ''Evidence Record Verification''],
                  jsx (Host ''p'')
                    [At ''className'' (StrV ''text-lg text-muted-foreground max-w-xl mx-auto'')]
                    [StrV ''Check whether a submitted registry record exists for a given parcel number.''],
                  jsx (Host ''p'')
                    [At ''className'' (StrV ''text-sm text-muted-foreground max-w-xl mx-auto'')]
                    [StrV ''AquaSavannah LandVault records submitted evidence and verification events. It does not determine legal ownership, adjudicate disputes, or replace government title systems.'']],
               and_also (member_of o3 ''isError'') (jsx (Own ''Card'')
                 [At ''className'' (StrV ''border-destructive/50 bg-destructive/5'')]
                 [jsx (Own ''CardContent'')
                    [At ''className'' (StrV ''flex flex-col items-center justify-center py-8 text-center'')]
                    [jsx (Lib ''lucide-react'' ''AlertTriangle'')
                       [At ''className'' (StrV ''h-10 w-10 text-destructive mb-3'')]
                       [],
                     jsx (Host ''p'')
                       [At ''className'' (StrV ''text-muted-foreground'')]
                       [StrV ''The registry could not be reached. Try again shortly.'']]]),
               jsx (Own ''Card'')
                 [At ''className'' (StrV ''border-2 shadow-lg hover-elevate'')]
                 [jsx (Own ''CardContent'')
                    [At ''className'' (StrV ''p-2 sm:p-4'')]
                    [jsx (Host ''form'')
                       [At ''onSubmit'' v_handleSearch,
                        At ''className'' (StrV ''flex flex-col sm:flex-row gap-2'')]
                       [jsx (Host ''div'')
                          [At ''className'' (StrV ''relative flex-1'')]
                          [jsx (Lib ''lucide-react'' ''Search'')
                             [At ''className'' (StrV ''absolute left-4 top-1/2 h-5 w-5 -translate-y-1/2 text-muted-foreground'')]
                             [],
                           jsx (Own ''Input'')
                             [At ''value'' (element_at o1 (NumV 0)),
                              At ''onChange'' (Closure ''Verify.onChange'' [(element_at o1 (NumV 1))]),
                              At ''placeholder'' (StrV ''Enter Parcel Number (e.g. LV-NG-2024-...)''),
                              At ''className'' (StrV ''pl-12 h-14 text-lg bg-transparent border-none focus-visible:ring-0'')]
                             []],
                        jsx (Own ''Button'')
                          [At ''type'' (StrV ''submit''),
                           At ''size'' (StrV ''lg''),
                           At ''className'' (StrV ''h-14 px-8 text-base'')]
                          [StrV ''Check Record'']]]],
               and_also (member_of o3 ''isLoading'') (jsx (Host ''div'')
                 [At ''className'' (StrV ''py-12 flex justify-center'')]
                 [jsx (Host ''div'')
                    [At ''className'' (StrV ''animate-spin h-8 w-8 border-4 border-primary border-t-transparent rounded-full'')]
                    []]),
               and_also v_notFound (jsx (Own ''Card'')
                 [At ''className'' (StrV ''border-destructive/50 bg-destructive/5 mt-8'')]
                 [jsx (Own ''CardContent'')
                    [At ''className'' (StrV ''flex flex-col items-center justify-center py-12 text-center'')]
                    [jsx (Lib ''lucide-react'' ''AlertTriangle'')
                       [At ''className'' (StrV ''h-12 w-12 text-destructive mb-4'')]
                       [],
                     jsx (Host ''h3'')
                       [At ''className'' (StrV ''text-xl font-bold text-destructive'')]
                       [StrV ''No Record Found''],
                     jsx (Host ''p'')
                       [At ''className'' (StrV ''text-muted-foreground mt-2 max-w-md'')]
                       [StrV ''No submitted record matches the parcel number '',
                        jsx (Host ''span'')
                          [At ''className'' (StrV ''font-semibold text-foreground'')]
                          [StrV ''\"'',
                           element_at o2 (NumV 0),
                           StrV ''\"''],
                        StrV ''. Please check the number and try again.'']]]),
               and_also v_parcel (jsx (Host ''div'')
                 [At ''className'' (StrV ''space-y-6 mt-8 animate-in fade-in slide-in-from-bottom-4 duration-500'')]
                 [jsx (Host ''div'')
                    [At ''className'' (StrV ''flex items-center gap-3 px-2'')]
                    [jsx (Lib ''lucide-react'' ''CheckCircle2'')
                       [At ''className'' (StrV ''h-6 w-6 text-emerald-600'')]
                       [],
                     jsx (Host ''h2'')
                       [At ''className'' (StrV ''text-2xl font-bold'')]
                       [StrV ''Record Found'']],
                  jsx (Own ''Card'')
                    [At ''className'' (StrV ''overflow-hidden border-2 border-primary/20'')]
                    [jsx (Host ''div'')
                       [At ''className'' (StrV ''bg-muted/30 p-6 sm:p-8 flex flex-col sm:flex-row sm:items-center justify-between gap-6 border-b'')]
                       [jsx (Host ''div'')
                          []
                          [jsx (Host ''div'')
                             [At ''className'' (StrV ''text-sm font-semibold text-muted-foreground uppercase tracking-wider mb-1'')]
                             [StrV ''Parcel Number''],
                           jsx (Host ''div'')
                             [At ''className'' (StrV ''text-3xl font-display font-bold text-foreground'')]
                             [member_of v_parcel ''parcel_number'']],
                        jsx (Host ''div'')
                          [At ''className'' (StrV ''text-right'')]
                          [jsx (Host ''div'')
                             [At ''className'' (StrV ''text-sm font-semibold text-muted-foreground uppercase tracking-wider mb-1'')]
                             [StrV ''Status''],
                           jsx (Own ''components/ui/status-badge.StatusBadge'')
                             [At ''status'' (member_of v_parcel ''status''),
                              At ''className'' (StrV ''text-sm px-3 py-1'')]
                             []]],
                     jsx (Own ''CardContent'')
                       [At ''className'' (StrV ''p-0'')]
                       [jsx (Host ''dl'')
                          [At ''className'' (StrV ''divide-y'')]
                          [jsx (Host ''div'')
                             [At ''className'' (StrV ''p-6 grid grid-cols-1 sm:grid-cols-3 gap-4'')]
                             [jsx (Host ''dt'')
                                [At ''className'' (StrV ''text-sm font-medium text-muted-foreground sm:col-span-1 flex items-center gap-2'')]
                                [StrV ''Submitted Owner Reference''],
                              jsx (Host ''dd'')
                                [At ''className'' (StrV ''text-lg font-medium text-foreground sm:col-span-2'')]
                                [or_given (member_of v_parcel ''current_owner_name'') (StrV ([CHR 0xE2] @ [CHR 0x80] @ [CHR 0x94]))]],
                           jsx (Host ''div'')
                             [At ''className'' (StrV ''p-6 grid grid-cols-1 sm:grid-cols-3 gap-4 bg-muted/10'')]
                             [jsx (Host ''dt'')
                                [At ''className'' (StrV ''text-sm font-medium text-muted-foreground sm:col-span-1'')]
                                [StrV ''Location''],
                              jsx (Host ''dd'')
                                [At ''className'' (StrV ''text-base text-foreground sm:col-span-2'')]
                                [or_given (member_of v_parcel ''address'') (StrV ([CHR 0xE2] @ [CHR 0x80] @ [CHR 0x94])),
                                 jsx (Host ''br'')
                                   []
                                   [],
                                 or_given (member_of v_parcel ''lga'') (StrV ([CHR 0xE2] @ [CHR 0x80] @ [CHR 0x94])),
                                 StrV '', '',
                                 or_given (member_of v_parcel ''state'') (StrV ([CHR 0xE2] @ [CHR 0x80] @ [CHR 0x94])),
                                 StrV '' State'']],
                           jsx (Host ''div'')
                             [At ''className'' (StrV ''p-6 grid grid-cols-1 sm:grid-cols-3 gap-4'')]
                             [jsx (Host ''dt'')
                                [At ''className'' (StrV ''text-sm font-medium text-muted-foreground sm:col-span-1'')]
                                [StrV ''Specifications''],
                              jsx (Host ''dd'')
                                [At ''className'' (StrV ''text-base text-foreground sm:col-span-2'')]
                                [if StrV (type_of (member_of v_parcel ''size_sqm'')) = StrV ''number'' then StrV (text_of L (foreign L ''.toLocaleString'' [member_of v_parcel ''size_sqm'']) @ '' sqm'') else StrV ([CHR 0xE2] @ [CHR 0x80] @ [CHR 0x94]),
                                 StrV ('' '' @ [CHR 0xC2] @ [CHR 0xB7] @ '' ''),
                                 jsx (Host ''span'')
                                   [At ''className'' (StrV ''capitalize'')]
                                   [or_given (member_of v_parcel ''property_type'') (StrV ([CHR 0xE2] @ [CHR 0x80] @ [CHR 0x94]))]]],
                           jsx (Host ''div'')
                             [At ''className'' (StrV ''p-6 grid grid-cols-1 sm:grid-cols-3 gap-4 bg-muted/10'')]
                             [jsx (Host ''dt'')
                                [At ''className'' (StrV ''text-sm font-medium text-muted-foreground sm:col-span-1'')]
                                [StrV ''Submission Date''],
                              jsx (Host ''dd'')
                                [At ''className'' (StrV ''text-base text-foreground sm:col-span-2'')]
                                [foreign L ''format'' [foreign L ''new Date'' [member_of v_parcel ''created_at''], StrV ''MMMM do, yyyy'']]]]]],
                  jsx (Host ''p'')
                    [At ''className'' (StrV ''text-xs text-muted-foreground text-center max-w-md mx-auto'')]
                    [StrV ''This record reflects submitted evidence and registry status only. It is not a determination of legal ownership and does not replace government title systems.'']])]],
         jsx (Host ''footer'')
           [At ''className'' (StrV ''py-6 text-center text-sm text-muted-foreground border-t bg-card'')]
           [StrV ([CHR 0xC2] @ [CHR 0xA9] @ '' ''),
            foreign L ''.getFullYear'' [foreign L ''new Date'' []],
            StrV '' AquaSavannah LandVault. Evidence and verification record, not a determination of legal title.'']])"

end
