(* ===== verification/Page_Parcel.thy ===== *)
theory Page_Parcel
  imports Page_Registry
begin

text \<open>
  The pages of \<open>artifacts/landvault-web/src\<close> for one parcel, as elements: the detail page with its evidence
  card, and the registration form.
\<close>

section \<open>Values of the client package\<close>

definition page_EvidenceType :: uval where
  "page_EvidenceType = ObjV [(''SURVEY_PLAN'', StrV ''SURVEY_PLAN''), (''TITLE_DOCUMENT'', StrV ''TITLE_DOCUMENT''), (''IDENTITY_DOCUMENT'', StrV ''IDENTITY_DOCUMENT''), (''OTHER'', StrV ''OTHER'')]"

section \<open>\<open>pages/parcels/detail.tsx\<close>\<close>

definition page_ParcelDetail :: component where
  "page_ParcelDetail L p =
     (let o1 = foreign L ''useRoute'' [StrV ''/parcels/:id''] in
      let v_id = member_of (element_at o1 (NumV 1)) ''id'' in
      let v_queryClient = foreign L ''useQueryClient'' [] in
      let o2 = foreign L ''useGetParcel'' [v_id, ObjV (attributes [At ''query'' (ObjV (attributes [At ''enabled'' (BoolV (\<not> \<not> truthy_ui v_id)), At ''queryKey'' (foreign L ''getGetParcelQueryKey'' [v_id])]))])] in
      let v_archiveParcel = foreign L ''useArchiveParcel'' [] in
      let v_handleArchive = Closure ''ParcelDetail.handleArchive'' [v_id, v_archiveParcel, v_queryClient] in
      if truthy_ui (member_of o2 ''isLoading'') then
        jsx (Own ''components/layout/app-layout.AppLayout'')
          []
          [jsx (Host ''div'')
             [At ''className'' (StrV ''animate-pulse space-y-8'')]
             [jsx (Host ''div'')
                [At ''className'' (StrV ''h-20 bg-muted rounded-lg'')]
                [],
              jsx (Host ''div'')
                [At ''className'' (StrV ''h-64 bg-muted rounded-lg'')]
                []]]
      else
        if truthy_ui (member_of o2 ''isError'') then
          jsx (Own ''components/layout/app-layout.AppLayout'')
            []
            [jsx (Host ''div'')
               [At ''className'' (StrV ''p-8 text-center text-muted-foreground flex flex-col items-center gap-3'')]
               [jsx (Lib ''lucide-react'' ''AlertTriangle'')
                  [At ''className'' (StrV ''h-10 w-10 text-destructive/40'')]
                  [],
                StrV ''Could not load this parcel. Try again shortly.'']]
        else
          if \<not> truthy_ui (member_of o2 ''data'') then
            jsx (Own ''components/layout/app-layout.AppLayout'')
              []
              [jsx (Host ''div'')
                 [At ''className'' (StrV ''p-8 text-center text-muted-foreground'')]
                 [StrV ''Parcel not found.'']]
          else
            jsx (Own ''components/layout/app-layout.AppLayout'')
              []
              [jsx (Host ''div'')
                 [At ''className'' (StrV ''flex flex-col gap-8'')]
                 [jsx (Host ''div'')
                    [At ''className'' (StrV ''flex items-center gap-4 text-sm text-muted-foreground'')]
                    [jsx (Lib ''wouter'' ''Link'')
                       [At ''href'' (StrV ''/parcels''),
                        At ''className'' (StrV ''hover:text-foreground flex items-center'')]
                       [jsx (Lib ''lucide-react'' ''ChevronLeft'')
                          [At ''className'' (StrV ''h-4 w-4 mr-1'')]
                          [],
                        StrV ''Back to Registry''],
                     jsx (Host ''span'')
                       []
                       [StrV ''/''],
                     jsx (Host ''span'')
                       []
                       [or_given (member_of (member_of o2 ''data'') ''parcel_number'') (StrV ''Unallocated'')]],
                  jsx (Host ''div'')
                    [At ''className'' (StrV ''flex flex-col md:flex-row md:items-start justify-between gap-6'')]
                    [jsx (Host ''div'')
                       []
                       [jsx (Host ''div'')
                          [At ''className'' (StrV ''flex items-center gap-4'')]
                          [jsx (Host ''h1'')
                             [At ''className'' (StrV ''text-3xl font-display font-bold text-foreground'')]
                             [or_given (member_of (member_of o2 ''data'') ''parcel_number'') (StrV ''Unallocated'')],
                           jsx (Own ''components/ui/status-badge.StatusBadge'')
                             [At ''status'' (member_of (member_of o2 ''data'') ''status'')]
                             []],
                        jsx (Host ''p'')
                          [At ''className'' (StrV ''text-muted-foreground mt-2 flex items-center gap-2'')]
                          [jsx (Lib ''lucide-react'' ''MapPin'')
                             [At ''className'' (StrV ''h-4 w-4'')]
                             [],
                           or_given (member_of (member_of o2 ''data'') ''address'') (StrV ([CHR 0xE2] @ [CHR 0x80] @ [CHR 0x94])),
                           StrV '', '',
                           or_given (member_of (member_of o2 ''data'') ''lga'') (StrV ([CHR 0xE2] @ [CHR 0x80] @ [CHR 0x94])),
                           StrV '', '',
                           or_given (member_of (member_of o2 ''data'') ''state'') (StrV ([CHR 0xE2] @ [CHR 0x80] @ [CHR 0x94]))]],
                     and_also (BoolV ((member_of (member_of o2 ''data'') ''status'') = (member_of page_ParcelStatus ''ACTIVE''))) (jsx (Host ''div'')
                       [At ''className'' (StrV ''flex items-center gap-3'')]
                       [jsx (Own ''Button'')
                          [At ''variant'' (StrV ''outline''),
                           At ''onClick'' v_handleArchive,
                           At ''disabled'' (member_of v_archiveParcel ''isPending'')]
                          [jsx (Lib ''lucide-react'' ''Archive'')
                             [At ''className'' (StrV ''mr-2 h-4 w-4'')]
                             [],
                           StrV ''Archive Parcel'']])],
                  jsx (Host ''div'')
                    [At ''className'' (StrV ''grid gap-8 lg:grid-cols-3'')]
                    [jsx (Host ''div'')
                       [At ''className'' (StrV ''lg:col-span-2 space-y-8'')]
                       [jsx (Own ''Card'')
                          []
                          [jsx (Own ''CardHeader'')
                             [At ''className'' (StrV ''border-b bg-muted/20'')]
                             [jsx (Own ''CardTitle'')
                                [At ''className'' (StrV ''text-lg flex items-center gap-2'')]
                                [jsx (Lib ''lucide-react'' ''User'')
                                   [At ''className'' (StrV ''h-5 w-5 text-primary'')]
                                   [],
                                 StrV ''Owner Information'']],
                           jsx (Own ''CardContent'')
                             [At ''className'' (StrV ''p-6'')]
                             [jsx (Host ''dl'')
                                [At ''className'' (StrV ''grid grid-cols-1 sm:grid-cols-2 gap-6'')]
                                [jsx (Host ''div'')
                                   []
                                   [jsx (Host ''dt'')
                                      [At ''className'' (StrV ''text-sm font-medium text-muted-foreground'')]
                                      [StrV ''Registered Owner''],
                                    jsx (Host ''dd'')
                                      [At ''className'' (StrV ''text-base font-semibold mt-1'')]
                                      [or_given (member_of (member_of o2 ''data'') ''current_owner_name'') (StrV ([CHR 0xE2] @ [CHR 0x80] @ [CHR 0x94]))]],
                                 jsx (Host ''div'')
                                   []
                                   [jsx (Host ''dt'')
                                      [At ''className'' (StrV ''text-sm font-medium text-muted-foreground'')]
                                      [StrV ''Contact''],
                                    jsx (Host ''dd'')
                                      [At ''className'' (StrV ''text-base mt-1'')]
                                      [or_try (member_of (member_of o2 ''data'') ''current_owner_contact'') (StrV ([CHR 0xE2] @ [CHR 0x80] @ [CHR 0x94]))]]]]],
                        jsx (Own ''Card'')
                          []
                          [jsx (Own ''CardHeader'')
                             [At ''className'' (StrV ''border-b bg-muted/20'')]
                             [jsx (Own ''CardTitle'')
                                [At ''className'' (StrV ''text-lg flex items-center gap-2'')]
                                [jsx (Lib ''lucide-react'' ''Map'')
                                   [At ''className'' (StrV ''h-5 w-5 text-primary'')]
                                   [],
                                 StrV ''Parcel Specifications'']],
                           jsx (Own ''CardContent'')
                             [At ''className'' (StrV ''p-6'')]
                             [jsx (Host ''dl'')
                                [At ''className'' (StrV ''grid grid-cols-1 sm:grid-cols-3 gap-6'')]
                                [jsx (Host ''div'')
                                   []
                                   [jsx (Host ''dt'')
                                      [At ''className'' (StrV ''text-sm font-medium text-muted-foreground'')]
                                      [StrV ''Area''],
                                    jsx (Host ''dd'')
                                      [At ''className'' (StrV ''text-base font-semibold mt-1'')]
                                      [if StrV (type_of (member_of (member_of o2 ''data'') ''size_sqm'')) = StrV ''number'' then StrV (text_of L (foreign L ''.toLocaleString'' [member_of (member_of o2 ''data'') ''size_sqm'']) @ '' sqm'') else StrV ([CHR 0xE2] @ [CHR 0x80] @ [CHR 0x94])]],
                                 jsx (Host ''div'')
                                   []
                                   [jsx (Host ''dt'')
                                      [At ''className'' (StrV ''text-sm font-medium text-muted-foreground'')]
                                      [StrV ''Land Use Type''],
                                    jsx (Host ''dd'')
                                      [At ''className'' (StrV ''text-base mt-1 capitalize'')]
                                      [or_given (member_of (member_of o2 ''data'') ''property_type'') (StrV ([CHR 0xE2] @ [CHR 0x80] @ [CHR 0x94]))]],
                                 jsx (Host ''div'')
                                   [At ''className'' (StrV ''sm:col-span-3'')]
                                   [jsx (Host ''dt'')
                                      [At ''className'' (StrV ''text-sm font-medium text-muted-foreground'')]
                                      [StrV ''Registration Date''],
                                    jsx (Host ''dd'')
                                      [At ''className'' (StrV ''text-base mt-1'')]
                                      [foreign L ''format'' [foreign L ''new Date'' [member_of (member_of o2 ''data'') ''created_at''], StrV ''PPP 'at' p'']]]]]],
                        jsx (Own ''pages/parcels/detail.EvidenceCard'')
                          [At ''parcelId'' (member_of (member_of o2 ''data'') ''parcel_id'')]
                          []],
                     jsx (Host ''div'')
                       [At ''className'' (StrV ''space-y-8'')]
                       [jsx (Own ''Card'')
                          []
                          [jsx (Own ''CardHeader'')
                             []
                             [jsx (Own ''CardTitle'')
                                [At ''className'' (StrV ''text-lg'')]
                                [StrV ''Audit Log'']],
                           jsx (Own ''CardContent'')
                             []
                             [jsx (Host ''div'')
                                [At ''className'' (StrV ''relative border-l border-muted-foreground/20 ml-3 space-y-6 pb-4'')]
                                [jsx (Host ''div'')
                                   [At ''className'' (StrV ''relative pl-6'')]
                                   [jsx (Host ''div'')
                                      [At ''className'' (StrV ''absolute left-[-5px] top-1 h-2.5 w-2.5 rounded-full bg-primary ring-4 ring-background'')]
                                      [],
                                    jsx (Host ''div'')
                                      [At ''className'' (StrV ''text-sm font-medium'')]
                                      [StrV ''Record Created''],
                                    jsx (Host ''div'')
                                      [At ''className'' (StrV ''text-xs text-muted-foreground'')]
                                      [foreign L ''format'' [foreign L ''new Date'' [member_of (member_of o2 ''data'') ''created_at''], StrV ''PPp'']]],
                                 and_also (BoolV ((member_of (member_of o2 ''data'') ''updated_at'') \<noteq> (member_of (member_of o2 ''data'') ''created_at''))) (jsx (Host ''div'')
                                   [At ''className'' (StrV ''relative pl-6'')]
                                   [jsx (Host ''div'')
                                      [At ''className'' (StrV ''absolute left-[-5px] top-1 h-2.5 w-2.5 rounded-full bg-muted-foreground ring-4 ring-background'')]
                                      [],
                                    jsx (Host ''div'')
                                      [At ''className'' (StrV ''text-sm font-medium'')]
                                      [StrV ''Record Updated''],
                                    jsx (Host ''div'')
                                      [At ''className'' (StrV ''text-xs text-muted-foreground'')]
                                      [foreign L ''format'' [foreign L ''new Date'' [member_of (member_of o2 ''data'') ''updated_at''], StrV ''PPp'']]])]]]]]]])"

definition page_MAX_UPLOAD_BYTES :: uval where
  "page_MAX_UPLOAD_BYTES = times_ui (times_ui (NumV 10) (NumV 1024)) (NumV 1024)"

definition page_ACCEPTED_FILE_TYPES :: uval where
  "page_ACCEPTED_FILE_TYPES = StrV ''.pdf,.jpg,.jpeg,.png''"

definition page_EvidenceCard :: component where
  "page_EvidenceCard L p =
     (let v_queryClient = foreign L ''useQueryClient'' [] in
      let v_evidenceQueryKey = foreign L ''getListParcelEvidenceQueryKey'' [(arg p ''parcelId'')] in
      let o1 = foreign L ''useListParcelEvidence'' [(arg p ''parcelId''), ObjV (attributes [At ''query'' (ObjV (attributes [At ''queryKey'' v_evidenceQueryKey]))])] in
      let o2 = foreign L ''useState.open'' [BoolV False] in
      let o3 = foreign L ''useState.file'' [NullV] in
      let o4 = foreign L ''useState.evidenceType'' [member_of page_EvidenceType ''SURVEY_PLAN''] in
      let o5 = foreign L ''useState.basis'' [StrV ''''] in
      let v_upload = foreign L ''useMutation'' [ObjV (attributes [At ''mutationFn'' (Closure ''EvidenceCard.mutationFn'' [(element_at o3 (NumV 0)), (arg p ''parcelId''), (element_at o4 (NumV 0)), (element_at o5 (NumV 0))]), At ''onSuccess'' (Closure ''EvidenceCard.onSuccess'' [v_queryClient, v_evidenceQueryKey, (element_at o2 (NumV 1)), (element_at o3 (NumV 1)), (element_at o5 (NumV 1)), (element_at o4 (NumV 1))]), At ''onError'' (Closure ''EvidenceCard.onError'' [])])] in
      jsx (Own ''Card'')
        []
        [jsx (Own ''CardHeader'')
           [At ''className'' (StrV ''border-b bg-muted/20 flex flex-row items-center justify-between'')]
           [jsx (Host ''div'')
              []
              [jsx (Own ''CardTitle'')
                 [At ''className'' (StrV ''text-lg flex items-center gap-2'')]
                 [jsx (Lib ''lucide-react'' ''FileText'')
                    [At ''className'' (StrV ''h-5 w-5 text-primary'')]
                    [],
                  StrV ''Supporting Evidence''],
               jsx (Own ''CardDescription'')
                 []
                 [StrV ''Documents submitted as supporting evidence for this parcel.'']],
            jsx (Dialog)
              [At ''open'' (element_at o2 (NumV 0)),
               At ''onOpenChange'' (element_at o2 (NumV 1))]
              [jsx (DialogTrigger)
                 [At ''asChild'' (BoolV True)]
                 [jsx (Own ''Button'')
                    [At ''size'' (StrV ''sm'')]
                    [jsx (Lib ''lucide-react'' ''Upload'')
                       [At ''className'' (StrV ''mr-2 h-4 w-4'')]
                       [],
                     StrV '' Add Document'']],
               jsx (Own ''DialogContent'')
                 []
                 [jsx (Own ''DialogHeader'')
                    []
                    [jsx (Own ''DialogTitle'')
                       []
                       [StrV ''Submit Supporting Evidence''],
                     jsx (Own ''DialogDescription'')
                       []
                       [StrV ''LandVault records submitted evidence. It does not determine legal ownership, adjudicate disputes, or replace government title systems.'']],
                  jsx (Host ''div'')
                    [At ''className'' (StrV ''space-y-4 pt-2'')]
                    [jsx (Host ''div'')
                       [At ''className'' (StrV ''space-y-1.5'')]
                       [jsx (Host ''label'')
                          [At ''className'' (StrV ''text-sm font-medium'')]
                          [StrV ''Document Type''],
                        jsx (Select)
                          [At ''value'' (element_at o4 (NumV 0)),
                           At ''onValueChange'' (Closure ''EvidenceCard.onValueChange'' [(element_at o4 (NumV 1))])]
                          [jsx (Own ''SelectTrigger'')
                             []
                             [jsx (SelectValue)
                                []
                                []],
                           jsx (Own ''SelectContent'')
                             []
                             [ListV (map (\<lambda>x. jsx (Own ''SelectItem'')
                                [At ''key'' x,
                                 At ''value'' x]
                                [foreign L ''.replace'' [foreign L ''.replace'' [x, StrV ''/_/g'', StrV '' ''], StrV (''/'' @ [CHR 0x5C] @ ''b'' @ [CHR 0x5C] @ ''w/g''), Closure ''EvidenceCard.value'' []]]) (elements (ListV (map snd (entries page_EvidenceType)))))]]],
                     jsx (Host ''div'')
                       [At ''className'' (StrV ''space-y-1.5'')]
                       [jsx (Host ''label'')
                          [At ''className'' (StrV ''text-sm font-medium'')]
                          [StrV ''File (PDF, JPEG, or PNG, max 10 MB)''],
                        jsx (Own ''Input'')
                          [At ''type'' (StrV ''file''),
                           At ''accept'' page_ACCEPTED_FILE_TYPES,
                           At ''onChange'' (Closure ''EvidenceCard.onChange'' [(element_at o3 (NumV 1))])]
                          [],
                        and_also (and_also (element_at o3 (NumV 0)) (BoolV (num_of (member_of (element_at o3 (NumV 0)) ''size'') > num_of page_MAX_UPLOAD_BYTES))) (jsx (Host ''p'')
                          [At ''className'' (StrV ''text-sm text-destructive'')]
                          [StrV ''This file exceeds the 10 MB limit.''])],
                     jsx (Host ''div'')
                       [At ''className'' (StrV ''space-y-1.5'')]
                       [jsx (Host ''label'')
                          [At ''className'' (StrV ''text-sm font-medium'')]
                          [StrV ''Description''],
                        jsx (Own ''Input'')
                          [At ''value'' (element_at o5 (NumV 0)),
                           At ''onChange'' (Closure ''EvidenceCard.onChange2'' [(element_at o5 (NumV 1))]),
                           At ''placeholder'' (StrV ''e.g. Submitted by registrant as supporting survey documentation'')]
                          []]],
                  jsx (Own ''DialogFooter'')
                    [At ''className'' (StrV ''pt-4'')]
                    [jsx (Own ''Button'')
                       [At ''onClick'' (Closure ''EvidenceCard.onClick'' [v_upload]),
                        At ''disabled'' (or_try (or_try (or_try (BoolV (\<not> truthy_ui (element_at o3 (NumV 0)))) (BoolV (num_of (member_of (element_at o3 (NumV 0)) ''size'') > num_of page_MAX_UPLOAD_BYTES))) (BoolV (\<not> truthy_ui (element_at o5 (NumV 0))))) (member_of v_upload ''isPending''))]
                       [if truthy_ui (member_of v_upload ''isPending'') then StrV ''Uploading...'' else StrV ''Upload'']]]]],
         jsx (Own ''CardContent'')
           [At ''className'' (StrV ''p-0'')]
           [if truthy_ui (member_of o1 ''isLoading'') then jsx (Host ''div'')
              [At ''className'' (StrV ''p-8 text-center text-muted-foreground animate-pulse'')]
              [StrV ''Loading evidence...''] else if truthy_ui (member_of o1 ''isError'') then jsx (Host ''div'')
              [At ''className'' (StrV ''p-8 text-center text-muted-foreground flex flex-col items-center gap-2'')]
              [jsx (Lib ''lucide-react'' ''AlertTriangle'')
                 [At ''className'' (StrV ''h-8 w-8 text-destructive/40'')]
                 [],
               StrV ''Could not load evidence. Try again shortly.''] else if truthy_ui (member_of o1 ''data'') \<and> truthy_ui (BoolV (num_of (length_of (member_of o1 ''data'')) > num_of (NumV 0))) then jsx (Host ''div'')
              [At ''className'' (StrV ''divide-y'')]
              [ListV (map (\<lambda>x. jsx (Host ''div'')
                 [At ''key'' (member_of x ''evidence_id''),
                  At ''className'' (StrV ''p-6 flex items-start gap-3'')]
                 [jsx (Lib ''lucide-react'' ''FileText'')
                    [At ''className'' (StrV ''h-8 w-8 text-muted-foreground/50 shrink-0'')]
                    [],
                  jsx (Host ''div'')
                    []
                    [jsx (Host ''div'')
                       [At ''className'' (StrV ''font-semibold text-foreground flex items-center gap-2'')]
                       [member_of x ''filename'',
                        jsx (Own ''components/ui/status-badge.StatusBadge'')
                          [At ''status'' (member_of x ''status''),
                           At ''className'' (StrV ''text-[10px] px-2 py-0'')]
                          []],
                     jsx (Host ''div'')
                       [At ''className'' (StrV ''text-xs text-muted-foreground mt-1 capitalize'')]
                       [foreign L ''.toLowerCase'' [foreign L ''.replace'' [member_of x ''evidence_type'', StrV ''/_/g'', StrV '' '']],
                        StrV ('' '' @ [CHR 0xC2] @ [CHR 0xB7] @ '' Uploaded''),
                        StrV '' '',
                        foreign L ''format'' [foreign L ''new Date'' [member_of x ''created_at''], StrV ''MMM d, yyyy'']],
                     and_also (member_of x ''basis'') (jsx (Host ''p'')
                       [At ''className'' (StrV ''text-sm mt-2 text-muted-foreground italic border-l-2 pl-3'')]
                       [member_of x ''basis''])]]) (elements (member_of o1 ''data'')))] else jsx (Host ''div'')
              [At ''className'' (StrV ''p-12 text-center flex flex-col items-center justify-center border-b border-dashed'')]
              [jsx (Host ''div'')
                 [At ''className'' (StrV ''h-12 w-12 rounded-full bg-muted flex items-center justify-center mb-3'')]
                 [jsx (Lib ''lucide-react'' ''FileText'')
                    [At ''className'' (StrV ''h-6 w-6 text-muted-foreground'')]
                    []],
               jsx (Host ''h3'')
                 [At ''className'' (StrV ''text-base font-semibold'')]
                 [StrV ''No evidence documents''],
               jsx (Host ''p'')
                 [At ''className'' (StrV ''text-sm text-muted-foreground mt-1 mb-4'')]
                 [StrV ''Upload survey plans, deeds, or receipts to submit them as supporting evidence.'']]]])"

section \<open>\<open>pages/parcels/new.tsx\<close>\<close>

definition page_PROPERTY_TYPES :: uval where
  "page_PROPERTY_TYPES = ListV [StrV ''residential'', StrV ''commercial'', StrV ''agricultural'', StrV ''industrial'']"

definition page_ParcelNew_render :: component where
  "page_ParcelNew_render L p =
     jsx (Own ''FormItem'')
       [At ''className'' (StrV ''md:col-span-2'')]
       [jsx (Own ''FormLabel'')
          []
          [StrV ''Full Name / Company Name *''],
        jsx (Own ''FormControl'')
          []
          [jsx (Own ''Input'')
             [At ''placeholder'' (StrV ''e.g. Adebayo Holdings Ltd.''),
              Spread (entries (arg p ''field''))]
             []],
        jsx (Own ''FormMessage'')
          []
          []]"

definition page_ParcelNew_render2 :: component where
  "page_ParcelNew_render2 L p =
     jsx (Own ''FormItem'')
       [At ''className'' (StrV ''md:col-span-2'')]
       [jsx (Own ''FormLabel'')
          []
          [StrV ''Contact (Phone or Email)''],
        jsx (Own ''FormControl'')
          []
          [jsx (Own ''Input'')
             [At ''placeholder'' (StrV ''+234... or contact@example.com''),
              Spread (entries (arg p ''field''))]
             []],
        jsx (Own ''FormMessage'')
          []
          []]"

definition page_ParcelNew_render3 :: component where
  "page_ParcelNew_render3 L p =
     jsx (Own ''FormItem'')
       [At ''className'' (StrV ''md:col-span-2'')]
       [jsx (Own ''FormLabel'')
          []
          [StrV ''Street Address *''],
        jsx (Own ''FormControl'')
          []
          [jsx (Own ''Input'')
             [At ''placeholder'' (StrV ''Plot 15, Block B, ...''),
              Spread (entries (arg p ''field''))]
             []],
        jsx (Own ''FormMessage'')
          []
          []]"

definition page_ParcelNew_render4 :: component where
  "page_ParcelNew_render4 L p =
     jsx (Own ''FormItem'')
       []
       [jsx (Own ''FormLabel'')
          []
          [StrV ''State *''],
        jsx (Select)
          [At ''onValueChange'' (member_of (arg p ''field'') ''onChange''),
           At ''defaultValue'' (member_of (arg p ''field'') ''value'')]
          [jsx (Own ''FormControl'')
             []
             [jsx (Own ''SelectTrigger'')
                []
                [jsx (SelectValue)
                   [At ''placeholder'' (StrV ''Select state'')]
                   []]],
           jsx (Own ''SelectContent'')
             []
             [ListV (map (\<lambda>x. jsx (Own ''SelectItem'')
                [At ''key'' x,
                 At ''value'' x]
                [x]) (elements page_STATES))]],
        jsx (Own ''FormMessage'')
          []
          []]"

definition page_ParcelNew_render5 :: component where
  "page_ParcelNew_render5 L p =
     jsx (Own ''FormItem'')
       []
       [jsx (Own ''FormLabel'')
          []
          [StrV ''Local Government Area (LGA) *''],
        jsx (Own ''FormControl'')
          []
          [jsx (Own ''Input'')
             [At ''placeholder'' (StrV ''e.g. Ikeja''),
              Spread (entries (arg p ''field''))]
             []],
        jsx (Own ''FormMessage'')
          []
          []]"

definition page_ParcelNew_render6 :: component where
  "page_ParcelNew_render6 L p =
     jsx (Own ''FormItem'')
       []
       [jsx (Own ''FormLabel'')
          []
          [StrV ''Area (Square Meters) *''],
        jsx (Own ''FormControl'')
          []
          [jsx (Own ''Input'')
             [At ''type'' (StrV ''number''),
              Spread (entries (arg p ''field''))]
             []],
        jsx (Own ''FormMessage'')
          []
          []]"

definition page_ParcelNew_render7 :: component where
  "page_ParcelNew_render7 L p =
     jsx (Own ''FormItem'')
       []
       [jsx (Own ''FormLabel'')
          []
          [StrV ''Land Use Type *''],
        jsx (Select)
          [At ''onValueChange'' (member_of (arg p ''field'') ''onChange''),
           At ''defaultValue'' (member_of (arg p ''field'') ''value'')]
          [jsx (Own ''FormControl'')
             []
             [jsx (Own ''SelectTrigger'')
                []
                [jsx (SelectValue)
                   [At ''placeholder'' (StrV ''Select type'')]
                   []]],
           jsx (Own ''SelectContent'')
             []
             [ListV (map (\<lambda>x. jsx (Own ''SelectItem'')
                [At ''key'' x,
                 At ''value'' x]
                [plus L (foreign L ''.toUpperCase'' [foreign L ''.charAt'' [x, NumV 0]]) (slice_ui x (NumV 1) Absent)]) (elements page_PROPERTY_TYPES))]],
        jsx (Own ''FormMessage'')
          []
          []]"

definition page_ParcelNew :: component where
  "page_ParcelNew L p =
     (let o1 = foreign L ''useLocation'' [] in
      let v_queryClient = foreign L ''useQueryClient'' [] in
      let v_createParcel = foreign L ''useCreateParcel'' [] in
      let v_form = foreign L ''useForm'' [ObjV (attributes [At ''resolver'' (foreign L ''zodResolver'' [foreign L ''formSchema'' []]), At ''defaultValues'' (ObjV (attributes [At ''current_owner_name'' (StrV ''''),
           At ''current_owner_contact'' (StrV ''''),
           At ''address'' (StrV ''''),
           At ''state'' (StrV ''''),
           At ''lga'' (StrV ''''),
           At ''size_sqm'' (NumV 0),
           At ''property_type'' (StrV ''residential'')]))])] in
      let v_onSubmit = Closure ''ParcelNew.onSubmit'' [v_createParcel, v_queryClient, (element_at o1 (NumV 1))] in
      jsx (Own ''components/layout/app-layout.AppLayout'')
        []
        [jsx (Host ''div'')
           [At ''className'' (StrV ''mx-auto max-w-3xl'')]
           [jsx (Host ''div'')
              [At ''className'' (StrV ''mb-6'')]
              [jsx (Host ''h1'')
                 [At ''className'' (StrV ''text-3xl font-bold text-foreground'')]
                 [StrV ''Register New Parcel''],
               jsx (Host ''p'')
                 [At ''className'' (StrV ''text-muted-foreground mt-1 text-lg'')]
                 [StrV ''Enter the details to create a new land registry record.'']],
            jsx (Form)
              [Spread (entries v_form)]
              [jsx (Host ''form'')
                 [At ''onSubmit'' (foreign L ''.handleSubmit'' [v_form, v_onSubmit]),
                  At ''className'' (StrV ''space-y-6'')]
                 [jsx (Own ''Card'')
                    []
                    [jsx (Own ''CardHeader'')
                       [At ''className'' (StrV ''border-b bg-muted/20'')]
                       [jsx (Own ''CardTitle'')
                          [At ''className'' (StrV ''flex items-center gap-2'')]
                          [jsx (Lib ''lucide-react'' ''User'')
                             [At ''className'' (StrV ''h-5 w-5 text-primary'')]
                             [],
                           StrV ''Owner Information''],
                        jsx (Own ''CardDescription'')
                          []
                          [StrV ''Primary contact details for the land owner.'']],
                     jsx (Own ''CardContent'')
                       [At ''className'' (StrV ''grid gap-6 pt-6 md:grid-cols-2'')]
                       [jsx (Own ''FormField'')
                          [At ''control'' (member_of v_form ''control''),
                           At ''name'' (StrV ''current_owner_name''),
                           At ''render'' (KindV (Own ''pages/parcels/new.ParcelNew.render''))]
                          [],
                        jsx (Own ''FormField'')
                          [At ''control'' (member_of v_form ''control''),
                           At ''name'' (StrV ''current_owner_contact''),
                           At ''render'' (KindV (Own ''pages/parcels/new.ParcelNew.render2''))]
                          []]],
                  jsx (Own ''Card'')
                    []
                    [jsx (Own ''CardHeader'')
                       [At ''className'' (StrV ''border-b bg-muted/20'')]
                       [jsx (Own ''CardTitle'')
                          [At ''className'' (StrV ''flex items-center gap-2'')]
                          [jsx (Lib ''lucide-react'' ''MapPin'')
                             [At ''className'' (StrV ''h-5 w-5 text-primary'')]
                             [],
                           StrV ''Location Details''],
                        jsx (Own ''CardDescription'')
                          []
                          [StrV ''Physical location and geopolitical zone.'']],
                     jsx (Own ''CardContent'')
                       [At ''className'' (StrV ''grid gap-6 pt-6 md:grid-cols-2'')]
                       [jsx (Own ''FormField'')
                          [At ''control'' (member_of v_form ''control''),
                           At ''name'' (StrV ''address''),
                           At ''render'' (KindV (Own ''pages/parcels/new.ParcelNew.render3''))]
                          [],
                        jsx (Own ''FormField'')
                          [At ''control'' (member_of v_form ''control''),
                           At ''name'' (StrV ''state''),
                           At ''render'' (KindV (Own ''pages/parcels/new.ParcelNew.render4''))]
                          [],
                        jsx (Own ''FormField'')
                          [At ''control'' (member_of v_form ''control''),
                           At ''name'' (StrV ''lga''),
                           At ''render'' (KindV (Own ''pages/parcels/new.ParcelNew.render5''))]
                          []]],
                  jsx (Own ''Card'')
                    []
                    [jsx (Own ''CardHeader'')
                       [At ''className'' (StrV ''border-b bg-muted/20'')]
                       [jsx (Own ''CardTitle'')
                          [At ''className'' (StrV ''flex items-center gap-2'')]
                          [jsx (Lib ''lucide-react'' ''FileText'')
                             [At ''className'' (StrV ''h-5 w-5 text-primary'')]
                             [],
                           StrV ''Parcel Specifications''],
                        jsx (Own ''CardDescription'')
                          []
                          [StrV ''Size and designated usage.'']],
                     jsx (Own ''CardContent'')
                       [At ''className'' (StrV ''grid gap-6 pt-6 md:grid-cols-2'')]
                       [jsx (Own ''FormField'')
                          [At ''control'' (member_of v_form ''control''),
                           At ''name'' (StrV ''size_sqm''),
                           At ''render'' (KindV (Own ''pages/parcels/new.ParcelNew.render6''))]
                          [],
                        jsx (Own ''FormField'')
                          [At ''control'' (member_of v_form ''control''),
                           At ''name'' (StrV ''property_type''),
                           At ''render'' (KindV (Own ''pages/parcels/new.ParcelNew.render7''))]
                          []],
                     jsx (Own ''CardFooter'')
                       [At ''className'' (StrV ''border-t bg-muted/20 py-4 flex justify-end gap-4'')]
                       [jsx (Own ''Button'')
                          [At ''type'' (StrV ''button''),
                           At ''variant'' (StrV ''outline''),
                           At ''onClick'' (Closure ''ParcelNew.onClick'' [(element_at o1 (NumV 1))])]
                          [StrV ''Cancel''],
                        jsx (Own ''Button'')
                          [At ''type'' (StrV ''submit''),
                           At ''disabled'' (member_of v_createParcel ''isPending'')]
                          [and_also (member_of v_createParcel ''isPending'') (jsx (Lib ''lucide-react'' ''Loader2'')
                             [At ''className'' (StrV ''mr-2 h-4 w-4 animate-spin'')]
                             []),
                           StrV ''Register Parcel'']]]]]]])"

end
