(* ===== verification/Page_Properties.thy ===== *)
theory Page_Properties
  imports Page_Parcel Ui_Composition Web_Parcel Web_Router
begin

text \<open>
  The pages as elements against the theories that say what the pages do: the routes and the gate, the
  navigation, the listing of the dashboard, the detail page, the dialog that uploads evidence and the
  registration form.  Each reading takes an element apart and gives the value of the other theory.
\<close>

section \<open>Elements in an element\<close>

lemma size_of_value [termination_simp]: "map_of p k = Some v \<Longrightarrow> size v < Suc (size_list (\<lambda>x. Suc (size (snd x))) p)"
  by (induction p) (auto split: if_splits)

fun collect :: "(utype \<Rightarrow> bool) \<Rightarrow> uval \<Rightarrow> uval list" where
  "collect P (ElemV t p) =
     (if P t then [ElemV t p] else []) @ (case map_of p ''children'' of None \<Rightarrow> [] | Some v \<Rightarrow> collect P v)"
| "collect P (ListV vs) = concat (map (collect P) vs)"
| "collect P uval.Absent = []"
| "collect P NullV = []"
| "collect P (BoolV b) = []"
| "collect P (NumV q) = []"
| "collect P (StrV s) = []"
| "collect P (ObjV p) = []"
| "collect P (KindV t) = []"
| "collect P (Closure n vs) = []"
| "collect P (Opaque n) = []"

lemma collect_jsx:
  "collect P (jsx t parts []) =
     (if P t then [jsx t parts []] else []) @ (case look parts ''children'' None of None \<Rightarrow> [] | Some v \<Rightarrow> collect P v)"
  "collect P (jsx t parts (k # kids)) = (if P t then [jsx t parts (k # kids)] else []) @ concat (map (collect P) (k # kids))"
proof -
  show "collect P (jsx t parts []) =
      (if P t then [jsx t parts []] else []) @ (case look parts ''children'' None of None \<Rightarrow> [] | Some v \<Rightarrow> collect P v)"
    by (simp add: jsx_def element_simps)
  have one: "collect P (if kids = [] then k else ListV (k # kids)) = concat (map (collect P) (k # kids))" by simp
  show "collect P (jsx t parts (k # kids)) = (if P t then [jsx t parts (k # kids)] else []) @ concat (map (collect P) (k # kids))"
    by (simp add: jsx_def element_simps flip: one)
qed

lemma arg_kids:
  "arg (properties (jsx t parts [k])) ''children'' = k"
  "arg (properties (jsx t parts (k # l # kids))) ''children'' = ListV (k # l # kids)"
  by (simp_all add: properties_jsx arg_def map_of_with_children)

lemma child_text: "child (jsx t parts [StrV s]) 0 = StrV s"
  by (simp add: child_def arg_kids)

lemma jsx_no_text [simp]: "jsx t parts kids \<noteq> StrV s"
  by (simp add: jsx_def)

lemmas page_simps = child_jsx child_text arg_kids arg_kids [unfolded properties_jsx] Let_def arg_properties_jsx arg_with_children
  arg_attributes element_simps

section \<open>Routes\<close>

definition page_of :: "matcher \<Rightarrow> jsstr \<Rightarrow> utype \<Rightarrow> page option" where
  "page_of m location t =
     (if t = Own ''pages/sign-in.SignIn'' then Some SignInPage
      else if t = Own ''pages/verify.Verify'' then Some VerifyPage
      else if t = Own ''pages/dashboard.Dashboard'' then Some DashboardPage
      else if t = Own ''pages/parcels/index.ParcelsRegistry'' then Some RegistryPage
      else if t = Own ''pages/parcels/new.ParcelNew'' then Some NewParcelPage
      else if t = Own ''pages/parcels/detail.ParcelDetail'' then Some (ParcelDetailPage (detail_id m location))
      else if t = Own ''pages/not-found.NotFound'' then Some NotFoundPage
      else None)"

text \<open>The value of \<open>useAuth\<close> as far as the frame reads it.\<close>

definition user_value :: "user option \<Rightarrow> uval" where
  "user_value u =
     (case u of None \<Rightarrow> NullV
      | Some u \<Rightarrow> ObjV [(''email'', case email u of None \<Rightarrow> uval.Absent | Some s \<Rightarrow> StrV (page_text s))])"

definition auth_value :: "auth \<Rightarrow> uval" where
  "auth_value a = ObjV
     [(''session'', case session_state a of None \<Rightarrow> NullV
         | Some s \<Rightarrow> ObjV [(''access_token'', StrV (page_text (access_token s))), (''user'', user_value (Some (session_user s)))]),
      (''user'', user_value (map_option session_user (session_state a))),
      (''isLoading'', BoolV (isLoading a)),
      (''signOut'', Closure ''signOut'' [])]"

text \<open>Reading an element as a screen: \<open>None\<close> for whatever is not of the expected kind.  The page of an
  element, if it is one:\<close>

definition page_screen :: "matcher \<Rightarrow> jsstr \<Rightarrow> uval \<Rightarrow> screen option" where
  "page_screen m location e =
     (case element_type e of None \<Rightarrow> None | Some t \<Rightarrow> map_option Page (page_of m location t))"

text \<open>What the gate rendered: a redirect, its children, or the spinner.\<close>

definition gate_screen :: "matcher \<Rightarrow> jsstr \<Rightarrow> uval \<Rightarrow> screen option" where
  "gate_screen m location e =
     (if element_type e = Some (Lib ''wouter'' ''Redirect'') then Some (Redirects (text_in (arg (properties e) ''to'')))
      else if element_type e = Some (Lib ''react'' ''Fragment'') then page_screen m location (child e 0)
      else if element_type (child e 0) = Some (Lib ''lucide-react'' ''Loader2'') then Some Waiting
      else None)"

definition route_screen :: "matcher \<Rightarrow> ui_env \<Rightarrow> auth \<Rightarrow> jsstr \<Rightarrow> uval \<Rightarrow> screen option" where
  "route_screen m L a location r =
     (case arg (properties r) ''component'' of
        KindV t \<Rightarrow> map_option Page (page_of m location t)
      | _ \<Rightarrow>
        if element_type (child r 0) = Some (Own ''components/require-auth.RequireAuth'')
        then gate_screen m location (page_RequireAuth (with_hook ''useAuth'' (auth_value a) L) (properties (child r 0)))
        else page_screen m location (child r 0))"

definition path_matches :: "matcher \<Rightarrow> jsstr \<Rightarrow> uval \<Rightarrow> bool" where
  "path_matches m location r =
     (case arg (properties r) ''path'' of StrV p \<Rightarrow> m (js p) location \<noteq> None | _ \<Rightarrow> True)"

text \<open>A switch renders the first of its routes that matches.\<close>

definition switch_screen :: "matcher \<Rightarrow> ui_env \<Rightarrow> auth \<Rightarrow> jsstr \<Rightarrow> uval \<Rightarrow> screen option" where
  "switch_screen m L a location e =
     (let routes = elements (arg (properties e) ''children'') in
      if element_type e = Some (Lib ''wouter'' ''Switch'') \<and>
         list_all (\<lambda>r. element_type r = Some (Lib ''wouter'' ''Route'')) routes
      then Option.bind (find (path_matches m location) routes) (route_screen m L a location)
      else None)"

text \<open>An error boundary with the default fallback: it takes the key of the element and shows its children or
  the error it has kept.\<close>

definition boundary_screen :: "matcher \<Rightarrow> ui_env \<Rightarrow> auth \<Rightarrow> boundary \<Rightarrow> jsstr \<Rightarrow> uval \<Rightarrow> screen option" where
  "boundary_screen m L a b location e =
     (if element_type e = Some (Own ''components/error-boundary.ErrorBoundary'') \<and>
         arg (properties e) ''FallbackComponent'' = uval.Absent
      then case arg (properties e) ''resetKey'' of
          StrV key \<Rightarrow> (case boundary_error (did_update b (Some (js key))) of
              Some err \<Rightarrow> Some (Fallback err)
            | None \<Rightarrow> switch_screen m L a location (arg (properties e) ''children''))
        | _ \<Rightarrow> None
      else None)"

text \<open>The screen of the router's element at a location, for the state that its boundary had.\<close>

definition screen_of :: "matcher \<Rightarrow> ui_env \<Rightarrow> auth \<Rightarrow> boundary \<Rightarrow> string \<Rightarrow> uval \<Rightarrow> screen option" where
  "screen_of m L a b s e =
     (if element_type e = Some (Own ''App.RoutedErrorBoundary'')
      then boundary_screen m L a b (js s)
        (page_RoutedErrorBoundary (with_hook ''useLocation'' (ListV [StrV s, Closure ''navigate'' []]) L) (properties e))
      else None)"

lemma auth_members:
  "truthy_ui (member_of (auth_value a) ''isLoading'') \<longleftrightarrow> isLoading a"
  "truthy_ui (member_of (auth_value a) ''session'') \<longleftrightarrow> session_state a \<noteq> None"
  "member_of (auth_value a) ''user'' = user_value (map_option session_user (session_state a))"
  by (simp_all add: auth_value_def member_of_def arg_def split: option.split)

text \<open>The gate around a page is the gate of the model.\<close>

lemma gate_refines:
  assumes "arg q ''children'' = jsx u [] []" and "page_of m location u = Some pg"
  shows "gate_screen m location (page_RequireAuth (with_hook ''useAuth'' (auth_value a) L) q) = Some (gated a pg)"
  unfolding page_RequireAuth_def Let_def foreign_with_hook auth_members assms(1)
  by (simp add: auth_members gate_screen_def page_screen_def gated_def RequireAuth_def assms(2) element_simps
      arg_properties_jsx arg_with_children split: option.split)

lemma open_route:
  "route_screen m L a location (jsx t [At ''path'' p, At ''component'' (KindV u)] []) = map_option Page (page_of m location u)"
  "route_screen m L a location (jsx t [At ''component'' (KindV u)] []) = map_option Page (page_of m location u)"
  by (simp_all add: route_screen_def arg_def element_simps)

lemma gated_route:
  "page_of m location u = Some pg \<Longrightarrow>
   route_screen m L a location
     (jsx t [At ''path'' p] [jsx (Own ''components/require-auth.RequireAuth'') [] [jsx u [] []]]) = Some (gated a pg)"
  by (simp add: route_screen_def gate_refines arg_kids [unfolded properties_jsx] arg_properties_jsx arg_with_children element_simps)

lemma path_of_route:
  "path_matches m location (jsx t [At ''path'' (StrV p), At ''component'' c] []) \<longleftrightarrow> m (js p) location \<noteq> None"
  "path_matches m location (jsx t [At ''path'' (StrV p)] [k]) \<longleftrightarrow> m (js p) location \<noteq> None"
  "path_matches m location (jsx t [At ''component'' c] [])"
  by (simp_all add: path_matches_def arg_properties_jsx arg_with_children element_simps)

lemma pages_of_routes:
  "page_of m location (Own ''pages/sign-in.SignIn'') = Some SignInPage"
  "page_of m location (Own ''pages/verify.Verify'') = Some VerifyPage"
  "page_of m location (Own ''pages/dashboard.Dashboard'') = Some DashboardPage"
  "page_of m location (Own ''pages/parcels/index.ParcelsRegistry'') = Some RegistryPage"
  "page_of m location (Own ''pages/parcels/new.ParcelNew'') = Some NewParcelPage"
  "page_of m location (Own ''pages/parcels/detail.ParcelDetail'') = Some (ParcelDetailPage (detail_id m location))"
  "page_of m location (Own ''pages/not-found.NotFound'') = Some NotFoundPage"
  by (simp_all add: page_of_def)

lemma location_value:
  "element_at (ListV [StrV s, f]) (NumV 0) = StrV s"
  by (simp add: element_at_def)

lemma routes_match:
  "switch_screen m L a location (child (page_Router L' p) 0) =
     Some (Router m a (new_boundary None) location)"
  unfolding page_Router_def child_jsx(2) switch_screen_def Let_def arg_kids elements.simps find.simps path_of_route
  by (simp add: Router_def new_boundary_def switch_def app_routes_def route_matches_simps open_route gated_route
      pages_of_routes path_of_route element_simps del: js_eq_iff)

text \<open>C24: The element that the router of \<open>App.tsx\<close> returns is read from the outside in: it is the routed boundary,
  which gives an error boundary the location as its key; this shows the error it has kept until that key
  changes, and otherwise a switch, which takes the first of its routes whose path matches; and the gate of a
  route decides by the session.  For every location, session and state of the boundary this is the
  screen of the model of the routes.\<close>

theorem router_element_refines:
  "screen_of m L a b s (page_Router L' p) = Some (Router m a (did_update b (Some (js s))) (js s))"
proof -
  let ?E = "page_Router L' p"
  have outer: "element_type ?E = Some (Own ''App.RoutedErrorBoundary'')"
    "arg (properties ?E) ''children'' = child ?E 0"
    by (simp_all add: page_Router_def element_simps arg_kids child_jsx)
  have "screen_of m L a b s ?E =
      (case boundary_error (did_update b (Some (js s))) of
         Some err \<Rightarrow> Some (Fallback err) | None \<Rightarrow> switch_screen m L a (js s) (child ?E 0))"
    by (simp add: screen_of_def boundary_screen_def page_RoutedErrorBoundary_def Let_def location_value outer
        arg_kids arg_properties_jsx arg_with_children element_simps arg_attributes split: option.split)
  also have "\<dots> = Some (Router m a (did_update b (Some (js s))) (js s))"
    unfolding routes_match by (simp add: Router_def new_boundary_def split: option.split)
  finally show ?thesis .
qed

section \<open>Navigation\<close>

text \<open>A link of the sidebar: its target, the classes of its box, and its label.\<close>

definition link_view :: "uval \<Rightarrow> uval \<times> uval \<times> uval" where
  "link_view l = (arg (properties l) ''href'', arg (properties (child l 0)) ''className'', child (child l 0) 1)"

definition links_of :: "uval \<Rightarrow> uval list" where
  "links_of e = elements (child (child (child e 1) 0) 1)"

definition nav_class :: "ui_env \<Rightarrow> bool \<Rightarrow> uval" where
  "nav_class L active = cn L
     [StrV ''flex items-center gap-3 rounded-md px-3 py-2 text-sm font-medium transition-colors'',
      StrV (if active then ''bg-sidebar-accent text-sidebar-accent-foreground''
            else ''text-sidebar-foreground/70 hover:bg-sidebar-accent/50 hover:text-sidebar-foreground'')]"

definition user_shown :: "uval \<Rightarrow> uval" where
  "user_shown e = child (child (child (child e 2) 0) 1) 0"

definition frame_env :: "string \<Rightarrow> auth \<Rightarrow> ui_env \<Rightarrow> ui_env" where
  "frame_env s a L = with_hook ''useLocation'' (ListV [StrV s, Closure ''navigate'' []]) (with_hook ''useAuth'' (auth_value a) L)"

lemma link_view_jsx:
  "link_view (jsx t [At ''key'' k, At ''href'' h, At ''className'' c] [jsx u [At ''className'' d] [x, y]]) = (h, d, y)"
  by (simp add: link_view_def child_jsx arg_properties_jsx arg_with_children arg_attributes)

lemma sidebar_parts:
  "map link_view (links_of (page_Sidebar L p)) =
     map (\<lambda>x. let active = truthy_ui (or_try (BoolV (element_at (foreign L ''useLocation'' []) (NumV 0) = member_of x ''href''))
           (and_also (BoolV (member_of x ''href'' \<noteq> StrV ''/''))
              (foreign L ''.startsWith'' [element_at (foreign L ''useLocation'' []) (NumV 0), member_of x ''href''])))
         in (member_of x ''href'', nav_class L active, member_of x ''label'')) (elements page_NAV_ITEMS)"
  "arg (properties (user_shown (page_Sidebar L p))) ''children'' =
     or_given (member_of (member_of (foreign L ''useAuth'' []) ''user'') ''email'') (StrV ''Unknown'')"
  by (simp_all add: page_Sidebar_def Let_def links_of_def user_shown_def child_jsx comp_def link_view_jsx arg_kids
      nav_class_def if_distrib [of StrV] cong: if_cong)

lemma location_hook:
  "element_at (foreign (frame_env s a L) ''useLocation'' []) (NumV 0) = StrV s"
  "foreign (frame_env s a L) ''.startsWith'' xs = foreign L ''.startsWith'' xs"
  "foreign (frame_env s a L) ''useAuth'' [] = auth_value a"
  "nav_class (frame_env s a L) active = nav_class L active"
  by (simp_all add: frame_env_def element_at_def nav_class_def)

lemma nav_values:
  "elements page_NAV_ITEMS = map (\<lambda>(h, l, i). ObjV [(''href'', StrV h), (''label'', StrV l), (''icon'', KindV (Lib ''lucide-react'' i))])
     [(''/'', ''Dashboard'', ''LayoutDashboard''), (''/parcels'', ''Registry'', ''Map''),
      (''/parcels/new'', ''Register Parcel'', ''FilePlus''), (''/verify'', ''Public Verify'', ''ShieldCheck'')]"
  by (simp add: page_NAV_ITEMS_def attributes_def add_part_def)

lemma active_mark:
  assumes "\<And>t. foreign L ''.startsWith'' [StrV s, StrV t] = BoolV (prefix t s)"
  shows "truthy_ui (or_try (BoolV (StrV s = StrV t))
     (and_also (BoolV (StrV t \<noteq> StrV ''/'')) (foreign L ''.startsWith'' [StrV s, StrV t]))) =
   isActive (js s) \<lparr>href = js t, label = l\<rparr>"
  unfolding assms by (simp add: or_try_def and_also_def isActive_def)

text \<open>On every location the sidebar's element has the links of the model, in its order, with their
  labels, and gives the classes of an active link to exactly those that the model marks; below them it
  shows the user of the session.\<close>

theorem navigation_refines:
  fixes s a L p rt
  defines "e \<equiv> page_Sidebar (frame_env s a L) p"
    and "shown \<equiv> Sidebar rt (js s) (map_option session_user (session_state a))"
  assumes "\<And>t. foreign L ''.startsWith'' [StrV s, StrV t] = BoolV (prefix t s)"
  shows "map link_view (links_of e) =
      map (\<lambda>(item, active). (StrV (page_text (href item)), nav_class L active, StrV (page_text (label item)))) (nav_links shown) \<and>
    arg (properties (user_shown e)) ''children'' = StrV (page_text (user_text shown))"
proof
  show "map link_view (links_of e) =
      map (\<lambda>(item, active). (StrV (page_text (href item)), nav_class L active, StrV (page_text (label item)))) (nav_links shown)"
    unfolding e_def shown_def sidebar_parts location_hook nav_values
    by (simp add: member_of_def arg_def Sidebar_def NAV_ITEMS_def Let_def active_mark [OF assms(3), symmetric] del: uval.inject)
  show "arg (properties (user_shown e)) ''children'' = StrV (page_text (user_text shown))"
    unfolding e_def shown_def sidebar_parts location_hook auth_members
    by (simp add: Sidebar_def user_value_def or_given_def or_else_def member_of_def arg_def Let_def split: option.split)
qed

definition prefix_env :: ui_env where
  "prefix_env = joining_env\<lparr>foreign := (\<lambda>f xs. case xs of [StrV s, StrV t] \<Rightarrow> BoolV (prefix t s) | _ \<Rightarrow> uval.Absent)\<rparr>"

lemma navigation_refines_witness:
  "map (fst \<circ> snd \<circ> link_view) (links_of (page_Sidebar (frame_env ''/parcels/new'' (initial_auth None) prefix_env) [])) =
     map (nav_class prefix_env) [False, True, True, False]"
proof -
  have "foreign prefix_env ''.startsWith'' [StrV s, StrV t] = BoolV (prefix t s)" for s t
    by (simp add: prefix_env_def)
  from navigation_refines [OF this, of "''/parcels/new''" "initial_auth None" "[]"]
  have "map link_view (links_of (page_Sidebar (frame_env ''/parcels/new'' (initial_auth None) prefix_env) [])) =
      map (\<lambda>(item, active). (StrV (page_text (href item)), nav_class prefix_env active, StrV (page_text (label item))))
        (map (\<lambda>item. (item, isActive (js ''/parcels/new'') item)) NAV_ITEMS)"
    by (simp add: Sidebar_def Let_def)
  then show ?thesis by (simp add: NAV_ITEMS_def isActive_def flip: map_map)
qed

section \<open>Upload dialog\<close>

text \<open>The hooks of the evidence card over its state: the variables with their setters, and the mutation.\<close>

definition file_value :: "chosen_file option \<Rightarrow> uval" where
  "file_value f =
     (case f of None \<Rightarrow> NullV
      | Some f \<Rightarrow> ObjV [(''name'', StrV (page_text (file_name f))), (''type'', StrV (page_text (file_type f))),
          (''size'', NumV (of_nat (file_size f)))])"

definition state_hook :: "string \<Rightarrow> uval \<Rightarrow> ui_env \<Rightarrow> ui_env" where
  "state_hook x v = with_hook (''useState.'' @ x) (ListV [v, Closure (''set'' @ x) []])"

definition card_env :: "card \<Rightarrow> ui_env \<Rightarrow> ui_env" where
  "card_env c L =
     state_hook ''open'' (BoolV (dialog_open c)) (state_hook ''file'' (file_value (picked_file c))
       (state_hook ''evidenceType'' (StrV (page_text (evidence_type_text (evidenceType c))))
         (state_hook ''basis'' (StrV (page_text (basis c)))
           (with_hook ''useMutation'' (ObjV [(''isPending'', BoolV (uploading c))]) L))))"

definition dialog_of :: "uval \<Rightarrow> uval" where
  "dialog_of e = descend [0, 1] e"

definition upload_button :: "uval \<Rightarrow> uval" where
  "upload_button e = descend [0, 1, 1, 2, 0] e"

definition limit_note :: "uval \<Rightarrow> uval" where
  "limit_note e = descend [0, 1, 1, 1, 1, 2] e"

lemma card_hooks:
  "element_at (foreign (card_env c L) ''useState.open'' xs) (NumV 0) = BoolV (dialog_open c)"
  "element_at (foreign (card_env c L) ''useState.file'' xs) (NumV 0) = file_value (picked_file c)"
  "element_at (foreign (card_env c L) ''useState.basis'' xs) (NumV 0) = StrV (page_text (basis c))"
  "member_of (foreign (card_env c L) ''useMutation'' xs) ''isPending'' = BoolV (uploading c)"
  by (simp_all add: card_env_def state_hook_def element_at_def member_of_def arg_def)

lemma file_members:
  "truthy_ui (file_value f) \<longleftrightarrow> f \<noteq> None"
  "num_of (member_of (file_value f) ''size'') = (case f of None \<Rightarrow> 0 | Some f \<Rightarrow> of_nat (file_size f))"
  "num_of page_MAX_UPLOAD_BYTES = of_nat MAX_UPLOAD_BYTES"
  by (simp_all add: file_value_def member_of_def arg_def page_MAX_UPLOAD_BYTES_def times_ui_def MAX_UPLOAD_BYTES_def
      split: option.split)

lemma too_large_value:
  "num_of (member_of (file_value (picked_file c)) ''size'') > num_of page_MAX_UPLOAD_BYTES \<longleftrightarrow> too_large c"
  by (auto simp: file_members too_large_def MAX_UPLOAD_BYTES_def split: option.split)

lemma truthy_or_try: "truthy_ui (or_try a b) \<longleftrightarrow> truthy_ui a \<or> truthy_ui b"
  by (simp add: or_try_def)

lemma note_values:
  "and_also (and_also (file_value f) (BoolV big)) (jsx t parts kids) = NullV \<longleftrightarrow> f = None"
  "and_also (and_also (file_value f) (BoolV big)) (jsx t parts kids) = BoolV False \<longleftrightarrow> f \<noteq> None \<and> \<not> big"
  by (auto simp: and_also_def file_members jsx_def file_value_def split: option.splits)

lemma card_parts:
  fixes c L p
  defines "L' \<equiv> card_env c L"
  shows "arg (properties (dialog_of (page_EvidenceCard L' p))) ''open'' = element_at (foreign L' ''useState.open'' [BoolV False]) (NumV 0)"
    "truthy_ui (arg (properties (upload_button (page_EvidenceCard L' p))) ''disabled'') \<longleftrightarrow> \<not> upload_enabled c"
    "limit_note (page_EvidenceCard L' p) \<in> {NullV, BoolV False} \<longleftrightarrow> \<not> too_large c"
  unfolding dialog_of_def upload_button_def limit_note_def descend.simps page_EvidenceCard_def Let_def L'_def
    card_hooks too_large_value
  subgoal by (simp add: child_jsx arg_properties_jsx arg_with_children element_simps)
  subgoal by (simp add: child_jsx arg_properties_jsx arg_with_children element_simps truthy_or_try file_members
      upload_enabled_def)
  subgoal by (simp add: child_jsx note_values) (auto simp: too_large_def)
  done

text \<open>C25: Over the state of the evidence card, its element is the dialog of the model: open when the state says
  so, with an upload button that is enabled exactly when the model allows an upload, and with the note
  on the size exactly when the chosen file is over the limit.\<close>

theorem evidence_dialog_refines:
  fixes c L p
  defines "e \<equiv> page_EvidenceCard (card_env c L) p"
  shows "arg (properties (dialog_of e)) ''open'' = BoolV (dialog_open c) \<and>
    (truthy_ui (arg (properties (upload_button e)) ''disabled'') \<longleftrightarrow> \<not> upload_enabled c) \<and>
    (limit_note e \<in> {NullV, BoolV False} \<longleftrightarrow> \<not> too_large c)"
  unfolding e_def by (simp only: card_parts card_hooks simp_thms)

section \<open>Registration form\<close>

text \<open>The fields of a form: the name and the component that renders each.\<close>

definition form_fields :: "uval \<Rightarrow> (uval \<times> uval) list" where
  "form_fields e =
     map (\<lambda>f. (arg (properties f) ''name'', arg (properties f) ''render''))
       (collect (\<lambda>t. t = Own ''FormField'') e)"

definition field_renders :: "(string \<times> component) list" where
  "field_renders =
     [(''pages/parcels/new.ParcelNew.render'', page_ParcelNew_render), (''pages/parcels/new.ParcelNew.render2'', page_ParcelNew_render2),
      (''pages/parcels/new.ParcelNew.render3'', page_ParcelNew_render3), (''pages/parcels/new.ParcelNew.render4'', page_ParcelNew_render4),
      (''pages/parcels/new.ParcelNew.render5'', page_ParcelNew_render5), (''pages/parcels/new.ParcelNew.render6'', page_ParcelNew_render6),
      (''pages/parcels/new.ParcelNew.render7'', page_ParcelNew_render7)]"

text \<open>The parts of a form field, in order, in what a component renders.\<close>

definition field_parts :: "uval \<Rightarrow> utype list" where
  "field_parts e = List.map_filter element_type
     (collect (\<lambda>t. t \<in> {Own ''FormItem'', Own ''FormLabel'', Own ''FormControl'', Own ''FormMessage''}) e)"

definition whole_field :: "utype list" where
  "whole_field = [Own ''FormItem'', Own ''FormLabel'', Own ''FormControl'', Own ''FormMessage'']"

text \<open>What the form library gives to \<open>render\<close> for a field.\<close>

definition controlled :: "string \<Rightarrow> uval \<Rightarrow> props" where
  "controlled n v =
     [(''field'', ObjV [(''name'', StrV n), (''value'', v), (''onChange'', Closure ''onChange'' [StrV n]),
        (''onBlur'', Closure ''onBlur'' [StrV n]), (''ref'', Closure ''ref'' [StrV n])])]"

definition renders_field :: "ui_env \<Rightarrow> props \<Rightarrow> uval \<Rightarrow> bool" where
  "renders_field L p r \<longleftrightarrow>
     (case r of KindV (Own n) \<Rightarrow> (case map_of field_renders n of Some C \<Rightarrow> field_parts (C L p) = whole_field | None \<Rightarrow> False)
      | _ \<Rightarrow> False)"

lemma collect_plus [simp]: "collect P (plus L a b) = []"
  by (simp add: plus_def split: uval.split)

lemma no_children_controlled: "last_of (entries (arg (controlled n v) ''field'')) ''children'' = None"
  by (simp add: controlled_def arg_def last_of_def)

definition form_env :: "bool \<Rightarrow> ui_env \<Rightarrow> ui_env" where
  "form_env isPending L = with_hook ''useCreateParcel'' (ObjV [(''isPending'', BoolV isPending)]) L"

lemma pending_hook:
  "collect P (and_also (member_of (foreign (form_env b L) ''useCreateParcel'' xs) ''isPending'') e) = (if b then collect P e else [])"
  by (simp add: form_env_def member_of_def arg_def and_also_def)

lemma form_fields_new:
  "form_fields (page_ParcelNew (form_env b L) p) =
     map (\<lambda>(n, r). (StrV n, KindV (Own (''pages/parcels/new.ParcelNew.'' @ r))))
       [(''current_owner_name'', ''render''), (''current_owner_contact'', ''render2''), (''address'', ''render3''),
        (''state'', ''render4''), (''lga'', ''render5''), (''size_sqm'', ''render6''), (''property_type'', ''render7'')]"
  by (simp add: form_fields_def page_ParcelNew_def Let_def collect_jsx pending_hook Form_def arg_properties_jsx arg_with_children
      arg_attributes)

lemma renders_fields: "list_all (\<lambda>(r, C). field_parts (C L (controlled n v)) = whole_field) field_renders"
  by (simp add: field_renders_def page_ParcelNew_render_def page_ParcelNew_render2_def page_ParcelNew_render3_def
      page_ParcelNew_render4_def page_ParcelNew_render5_def page_ParcelNew_render6_def page_ParcelNew_render7_def
      field_parts_def whole_field_def collect_jsx Select_def SelectValue_def element_simps map_filter_simps
      no_children_controlled page_STATES_def page_PROPERTY_TYPES_def)

lemma form_rendered: "list_all (\<lambda>(n, r). renders_field L (controlled m v) r) (form_fields (page_ParcelNew (form_env b L') p))"
  using renders_fields [of L m v] by (simp add: form_fields_new renders_field_def field_renders_def)

fun field_names :: "jsval \<Rightarrow> jsstr list" where
  "field_names (Obj fs) = map fst fs"
| "field_names _ = []"

text \<open>The form of \<open>pages/parcels/new.tsx\<close> has exactly the fields of the data it submits, in that order, and
  each is rendered as a whole field: label, control and message.  So every error of the form's check is about a field that the page shows, with a place for the message.\<close>

theorem form_errors_have_messages:
  "map fst (form_fields (page_ParcelNew (form_env b L) p)) = map (\<lambda>n. StrV (page_text n)) (field_names (form_data to_number f)) \<and>
   (\<forall>(k, message) \<in> set (form_errors to_number nan_message f). \<exists>r.
      (StrV (page_text k), r) \<in> set (form_fields (page_ParcelNew (form_env b L) p)) \<and> renders_field L (controlled (page_text k) v) r)"
proof
  show "map fst (form_fields (page_ParcelNew (form_env b L) p)) = map (\<lambda>n. StrV (page_text n)) (field_names (form_data to_number f))"
    by (simp add: form_fields_new form_data_def)
  have "\<exists>r. (StrV (page_text k), r) \<in> set (form_fields (page_ParcelNew (form_env b L) p)) \<and> renders_field L (controlled (page_text k) v) r"
    if "(k, message) \<in> set (form_errors to_number nan_message f)" for k message
  proof -
    have "StrV (page_text k) \<in> fst ` set (form_fields (page_ParcelNew (form_env b L) p))"
      using that by (auto simp: form_errors_def min_one_def check_size_def form_fields_new split: if_splits)
    then show ?thesis using form_rendered [of L "page_text k" v b L p] by (force simp only: list_all_iff fst_conv image_iff)
  qed
  then show "\<forall>(k, message) \<in> set (form_errors to_number nan_message f). \<exists>r.
      (StrV (page_text k), r) \<in> set (form_fields (page_ParcelNew (form_env b L) p)) \<and> renders_field L (controlled (page_text k) v) r"
    by blast
qed

lemma form_errors_have_messages_witness:
  "\<exists>r. (StrV ''address'', r) \<in> set (form_fields (page_ParcelNew (form_env False joining_env) [])) \<and>
     renders_field joining_env (controlled ''address'' (StrV [])) r"
proof -
  have "(js ''address'', js ''Address is required'') \<in> set (form_errors (\<lambda>s. NaN) [] defaultValues)"
    by (simp add: form_errors_def min_one_def defaultValues_def)
  with form_errors_have_messages [of False joining_env "[]" "\<lambda>s. NaN" defaultValues "[]" "StrV []"]
  show ?thesis by (auto simp only: page_text_js split_beta fst_conv snd_conv dest!: bspec)
qed

section \<open>Listings\<close>

text \<open>Parcels and queries as the hooks of the client hand them out.\<close>

definition text_value :: "jsstr option \<Rightarrow> uval" where
  "text_value s = (case s of None \<Rightarrow> uval.Absent | Some s \<Rightarrow> StrV (page_text s))"

definition parcel_value :: "(jsnum \<Rightarrow> rat) \<Rightarrow> parcel \<Rightarrow> uval" where
  "parcel_value num p = ObjV
     [(''parcel_id'', StrV (page_text (parcel_id p))), (''status'', StrV (page_text (parcel_status_text (pc_status p)))),
      (''parcel_number'', text_value (parcel_number p)), (''address'', text_value (address p)),
      (''state'', text_value (pc_state p)), (''lga'', text_value (lga p)),
      (''property_type'', text_value (property_type p)),
      (''size_sqm'', case size_sqm p of None \<Rightarrow> uval.Absent | Some n \<Rightarrow> NumV (num n)),
      (''current_owner_name'', text_value (current_owner_name p)),
      (''current_owner_contact'', text_value (current_owner_contact p)),
      (''created_at'', StrV (page_text (created_at p))), (''updated_at'', StrV (page_text (updated_at p)))]"

definition query_value :: "('a \<Rightarrow> uval) \<Rightarrow> 'a query_state \<Rightarrow> uval" where
  "query_value enc q = ObjV
     [(''data'', case query_data q of None \<Rightarrow> uval.Absent | Some x \<Rightarrow> enc x),
      (''isLoading'', BoolV (query_loading q)), (''isError'', BoolV (query_failed q))]"

text \<open>The classes of a badge for each tone, and what a row shows: its link, its number and the classes of
  its badge.\<close>

definition badge_class :: "ui_env \<Rightarrow> tone \<Rightarrow> uval \<Rightarrow> uval" where
  "badge_class L t given = cn L
     [StrV ''inline-flex items-center rounded-full px-2.5 py-0.5 text-xs font-semibold uppercase tracking-wide'',
      StrV (case t of Neutral \<Rightarrow> ''bg-muted text-muted-foreground''
        | Green \<Rightarrow> ''bg-emerald-600/10 text-emerald-600 border-emerald-600/20 border''
        | Slate \<Rightarrow> ''bg-slate-500/10 text-slate-600 border-slate-500/20 border''
        | Amber \<Rightarrow> ''bg-amber-500/10 text-amber-600 border-amber-500/20 border''), given]"

lemma badge_refines:
  "arg p ''status'' = StrV s \<Longrightarrow>
   arg (properties (page_StatusBadge L p)) ''className'' = badge_class L (badge_tone (js s)) (arg p ''className'')"
  by (simp add: page_StatusBadge_def Let_def badge_class_def badge_tone_def arg_properties_jsx arg_with_children arg_attributes)

definition row_of :: "ui_env \<Rightarrow> uval \<Rightarrow> uval \<times> uval \<times> uval" where
  "row_of L r =
     (arg (properties r) ''href'', arg (properties (descend [0, 0, 1, 0] r)) ''children'',
      arg (properties (page_StatusBadge L (properties (descend [0, 1, 1] r)))) ''className'')"

definition listing_of :: "ui_env \<Rightarrow> uval \<Rightarrow> (uval \<times> uval \<times> uval) list listing" where
  "listing_of L x =
     (let rows = elements (arg (properties x) ''children'') in
      if arg (properties x) ''className'' = StrV ''space-y-4'' then
        (if element_type (hd rows) = Some (Lib ''wouter'' ''Link'') then Listed (map (row_of L) rows) else Skeleton (length rows))
      else if element_type (hd rows) = Some (Lib ''lucide-react'' ''AlertTriangle'') then LoadFailed
      else NothingFound)"

definition recent_parcels :: "uval \<Rightarrow> uval" where
  "recent_parcels e = arg (properties (descend [0, 1, 0, 1] e)) ''children''"

lemma query_members:
  "truthy_ui (member_of (query_value enc q) ''isLoading'') \<longleftrightarrow> query_loading q"
  "truthy_ui (member_of (query_value enc q) ''isError'') \<longleftrightarrow> query_failed q"
  "member_of (query_value enc q) ''data'' = (case query_data q of None \<Rightarrow> uval.Absent | Some x \<Rightarrow> enc x)"
  by (simp_all add: query_value_def member_of_def arg_def)

lemma parcel_members:
  "member_of (parcel_value num p) ''parcel_id'' = StrV (page_text (parcel_id p))"
  "member_of (parcel_value num p) ''status'' = StrV (page_text (parcel_status_text (pc_status p)))"
  "member_of (parcel_value num p) ''parcel_number'' = text_value (parcel_number p)"
  by (simp_all add: parcel_value_def member_of_def arg_def)

lemma first_five: "elements (slice_ui (ListV vs) (NumV 0) (NumV 5)) = take 5 vs"
  by (simp add: slice_ui_def)

definition row_shown :: "ui_env \<Rightarrow> parcel_row_view \<Rightarrow> uval \<times> uval \<times> uval" where
  "row_shown L r =
     (StrV (page_text (row_link r)), StrV (page_text (row_number r)), badge_class L (snd (row_badge r)) uval.Absent)"

definition listing_env :: "(jsnum \<Rightarrow> rat) \<Rightarrow> parcel list query_state \<Rightarrow> ui_env \<Rightarrow> ui_env" where
  "listing_env num q L = with_hook ''useListParcels'' (query_value (\<lambda>ps. ListV (map (parcel_value num) ps)) q) L"

lemma row_of_link:
  "row_of L (jsx t [At ''key'' k, At ''href'' h, At ''className'' c]
     [jsx t1 p1 [jsx t2 p2 [i1, jsx t3 [] [jsx t4 p4 [n], place]], jsx t5 p5 [info, jsx t6 [At ''status'' (StrV s)] []]]]) =
   (h, n, badge_class L (badge_tone (js s)) uval.Absent)"
proof -
  let ?b = "jsx t6 [At ''status'' (StrV s)] []"
  have "arg (properties ?b) ''status'' = StrV s" "arg (properties ?b) ''className'' = uval.Absent"
    by (simp_all add: arg_properties_jsx arg_with_children arg_attributes)
  then show ?thesis
    by (simp add: row_of_def child_jsx arg_kids badge_refines)
      (simp add: arg_properties_jsx arg_with_children arg_attributes)
qed

lemma any_rows:
  "(truthy_ui uval.Absent \<and> b) = False"
  "(truthy_ui (ListV vs) \<and> truthy_ui (BoolV (num_of (length_of (ListV vs)) > num_of (NumV 0)))) = (vs \<noteq> [])"
  by (simp_all add: length_of_def)

lemma parcel_shown:
  "text_of L (StrV s) = s"
  "page_text (row_link (dashboard_row env c)) = ''/parcels/'' @ page_text (parcel_id c)"
  "StrV (page_text (row_number (dashboard_row env c))) = or_given (text_value (parcel_number c)) (StrV ''Unallocated'')"
  "snd (row_badge (dashboard_row env c)) = badge_tone (js (page_text (parcel_status_text (pc_status c))))"
  by (cases "pc_status c"; simp add: dashboard_row_def parcel_link_def page_text_append text_value_def or_given_def
      number_text_of_def or_else_def StatusBadge_def split: option.split)+

lemma recent_parts:
  fixes num q L p
  defines "x \<equiv> recent_parcels (page_Dashboard (listing_env num q L) p)"
  shows "query_loading q \<Longrightarrow> listing_of L x = Skeleton 3"
    "\<not> query_loading q \<Longrightarrow> query_failed q \<Longrightarrow> listing_of L x = LoadFailed"
    "\<not> query_loading q \<Longrightarrow> \<not> query_failed q \<Longrightarrow> query_data q \<in> {None, Some []} \<Longrightarrow> listing_of L x = NothingFound"
    "\<not> query_loading q \<Longrightarrow> \<not> query_failed q \<Longrightarrow> query_data q = Some cs \<Longrightarrow> cs \<noteq> [] \<Longrightarrow>
       listing_of L x = Listed (map (\<lambda>c. row_shown L (dashboard_row env c)) (take 5 cs))"
proof -
  note start = x_def recent_parcels_def page_Dashboard_def Let_def listing_env_def foreign_with_hook query_members
    simp_thms if_True if_False descend.simps
  show "listing_of L x = Skeleton 3" if "query_loading q"
    by (simp only: start that) (simp add: page_simps listing_of_def eval_nat_numeral)
  show "listing_of L x = LoadFailed" if "\<not> query_loading q" "query_failed q"
    by (simp only: start that) (simp add: page_simps listing_of_def)
  show "listing_of L x = NothingFound" if "\<not> query_loading q" "\<not> query_failed q" "query_data q \<in> {None, Some []}"
  proof -
    have "query_data q = None \<or> query_data q = Some []" using that(3) by simp
    then show ?thesis
      by (elim disjE; simp only: start that(1,2) option.case any_rows list.map;
          simp add: page_simps listing_of_def)
  qed
  show "listing_of L x = Listed (map (\<lambda>c. row_shown L (dashboard_row env c)) (take 5 cs))"
    if "\<not> query_loading q" "\<not> query_failed q" "query_data q = Some cs" "cs \<noteq> []"
    by (simp only: start that option.case any_rows map_is_Nil_conv first_five take_map)
      (simp add: page_simps listing_of_def hd_map that(4) row_of_link parcel_members parcel_shown row_shown_def comp_def)
qed

text \<open>The dashboard's element, for every state of its query, has the listing of the model: three
  placeholders while it loads, the failure, at most five rows, or the empty note; every row leads to
  the page of its parcel, shows its number and renders its badge in the tone of its status.\<close>

theorem dashboard_element_refines:
  "listing_of L (recent_parcels (page_Dashboard (listing_env num q L) p)) =
     map_listing (map (row_shown L)) (Dashboard env q)"
proof (cases "query_loading q \<or> query_failed q")
  case True
  then show ?thesis using recent_parts(1,2) [where q = q and L = L and num = num and p = p] by (auto simp: Dashboard_def)
next
  case False
  then show ?thesis
    using recent_parts(3,4) [where q = q and L = L and num = num and p = p]
    by (cases "query_data q"; cases "the (query_data q) = []") (auto simp: Dashboard_def comp_def)
qed

section \<open>Detail page\<close>

text \<open>What the page of a parcel is: the placeholder, one of two notes, or the record with its number, the
  classes of its badge and the archive button, if there is one, with its flag.\<close>

datatype detail_shape = ShapeLoading | ShapeFailed | ShapeMissing | ShapeRecord uval uval "bool option"

definition archive_of :: "uval \<Rightarrow> bool option" where
  "archive_of x = (if element_type x = None then None else Some (arg (properties (child x 0)) ''disabled'' = BoolV True))"

definition detail_shape_of :: "ui_env \<Rightarrow> uval \<Rightarrow> detail_shape" where
  "detail_shape_of L e =
     (let body = child e 0 in
      if arg (properties body) ''className'' = StrV ''animate-pulse space-y-8'' then ShapeLoading
      else if element_type (child body 0) = Some (Lib ''lucide-react'' ''AlertTriangle'') then ShapeFailed
      else if child body 0 = StrV ''Parcel not found.'' then ShapeMissing
      else ShapeRecord (arg (properties (descend [1, 0, 0, 0] body)) ''children'')
        (arg (properties (page_StatusBadge L (properties (descend [1, 0, 0, 1] body)))) ''className'')
        (archive_of (descend [1, 1] body)))"

fun shape_of_screen :: "ui_env \<Rightarrow> detail_screen \<Rightarrow> detail_shape" where
  "shape_of_screen L DetailLoading = ShapeLoading"
| "shape_of_screen L DetailFailed = ShapeFailed"
| "shape_of_screen L DetailMissing = ShapeMissing"
| "shape_of_screen L (DetailShown v) =
     ShapeRecord (StrV (page_text (detail_title v))) (badge_class L (snd (detail_badge v)) uval.Absent) (detail_archive v)"

definition detail_env :: "bool \<Rightarrow> (jsnum \<Rightarrow> rat) \<Rightarrow> parcel query_state \<Rightarrow> ui_env \<Rightarrow> ui_env" where
  "detail_env isPending num q L =
     with_hook ''useGetParcel'' (query_value (parcel_value num) q)
       (with_hook ''useArchiveParcel'' (ObjV [(''isPending'', BoolV isPending)]) L)"

lemma detail_hooks:
  "foreign (detail_env isPending num q L) ''useGetParcel'' xs = query_value (parcel_value num) q"
  "member_of (foreign (detail_env isPending num q L) ''useArchiveParcel'' xs) ''isPending'' = BoolV isPending"
  by (simp_all add: detail_env_def member_of_def arg_def)

lemma archive_parts:
  "archive_of (and_also (BoolV (StrV (page_text (parcel_status_text (pc_status c))) = member_of page_ParcelStatus ''ACTIVE''))
     (jsx t parts [jsx u [At ''variant'' v, At ''onClick'' h, At ''disabled'' (BoolV isPending)] kids])) = archive_button isPending c"
  by (cases "pc_status c") (simp_all add: archive_of_def and_also_def archive_button_def page_simps
      page_ParcelStatus_def member_of_def [of "ObjV _"] arg_def [of "_ # _"])

lemma badge_given:
  "arg (properties (page_StatusBadge L (properties (jsx t [At ''status'' (StrV s)] [])))) ''className'' =
     badge_class L (badge_tone (js s)) uval.Absent"
  by (subst badge_refines) (simp_all add: page_simps)

lemma detail_record:
  "detail_of env isPending c = Some v \<Longrightarrow>
     StrV (page_text (detail_title v)) = or_given (text_value (parcel_number c)) (StrV ''Unallocated'') \<and>
     snd (detail_badge v) = badge_tone (js (page_text (parcel_status_text (pc_status c)))) \<and>
     detail_archive v = archive_button isPending c"
  by (cases "pc_status c"; auto simp: detail_of_def text_value_def or_given_def number_text_of_def or_else_def
      StatusBadge_def split: option.splits)

lemma truthy_parcel: "truthy_ui (parcel_value num c)"
  by (simp add: parcel_value_def)

lemma detail_cases:
  fixes isPending num q L p
  defines "e \<equiv> page_ParcelDetail (detail_env isPending num q L) p"
  shows "query_loading q \<Longrightarrow> detail_shape_of L e = ShapeLoading"
    "\<not> query_loading q \<Longrightarrow> query_failed q \<Longrightarrow> detail_shape_of L e = ShapeFailed"
    "\<not> query_loading q \<Longrightarrow> \<not> query_failed q \<Longrightarrow> query_data q = None \<Longrightarrow> detail_shape_of L e = ShapeMissing"
    "\<not> query_loading q \<Longrightarrow> \<not> query_failed q \<Longrightarrow> query_data q = Some c \<Longrightarrow>
       detail_shape_of L e =
         ShapeRecord (or_given (text_value (parcel_number c)) (StrV ''Unallocated''))
           (badge_class L (badge_tone (js (page_text (parcel_status_text (pc_status c))))) uval.Absent) (archive_button isPending c)"
proof -
  note start = e_def page_ParcelDetail_def Let_def detail_hooks query_members simp_thms if_True if_False option.case
    truthy_ui.simps truthy_parcel
  show "detail_shape_of L e = ShapeLoading" if "query_loading q"
    by (simp only: start that) (simp add: detail_shape_of_def page_simps)
  show "detail_shape_of L e = ShapeFailed" if "\<not> query_loading q" "query_failed q"
    by (simp only: start that) (simp add: detail_shape_of_def page_simps)
  show "detail_shape_of L e = ShapeMissing" if "\<not> query_loading q" "\<not> query_failed q" "query_data q = None"
    by (simp only: start that) (simp add: detail_shape_of_def page_simps)
  show "detail_shape_of L e =
         ShapeRecord (or_given (text_value (parcel_number c)) (StrV ''Unallocated''))
           (badge_class L (badge_tone (js (page_text (parcel_status_text (pc_status c))))) uval.Absent) (archive_button isPending c)"
    if "\<not> query_loading q" "\<not> query_failed q" "query_data q = Some c"
    by (simp only: start that)
      (simp add: detail_shape_of_def page_simps badge_given [unfolded properties_jsx] archive_parts parcel_members(2,3))
qed

text \<open>For every state of its query, the element of the detail page is the screen of the model: the
  placeholder, the failure, the note that there is no such parcel, or the record with its number, the
  badge in the tone of its status, and an archive button exactly on active parcels, disabled while an
  archiving is under way.\<close>

theorem detail_element_refines:
  assumes "ParcelDetail env isPending q = Some scr"
  shows "detail_shape_of L (page_ParcelDetail (detail_env isPending num q L) p) = shape_of_screen L scr"
  using assms detail_cases [where L = L and p = p and isPending = isPending and num = num and q = q]
  by (cases "query_data q") (auto simp: ParcelDetail_def detail_record split: if_splits)

lemma detail_element_refines_witness:
  "detail_shape_of joining_env
     (page_ParcelDetail (detail_env True (\<lambda>_. 0) \<lparr>query_data = Some demo_parcel, query_loading = False, query_failed = False\<rparr> joining_env) []) =
   ShapeRecord (StrV ''LV-1'') (badge_class joining_env Green uval.Absent) (Some True)"
proof -
  let ?q = "\<lparr>query_data = Some demo_parcel, query_loading = False, query_failed = False\<rparr>"
  obtain v where v: "ParcelDetail demo_env True ?q = Some (DetailShown v)" "detail_of demo_env True demo_parcel = Some v"
    by (simp add: ParcelDetail_def detail_of_def audit_log_def demo_env_def demo_parcel_def)
  from detail_element_refines [OF v(1), of joining_env "\<lambda>_. 0" "[]"] detail_record [OF v(2)] show ?thesis
    by (simp add: demo_parcel_def text_value_def or_given_def badge_tone_def archive_button_def)
qed

section \<open>Controls and labels\<close>

text \<open>The handlers that an element has.\<close>

definition handlers_of :: "uval \<Rightarrow> string list" where
  "handlers_of e = filter (\<lambda>k. arg (properties e) k \<noteq> uval.Absent) [''onClick'', ''onChange'', ''onKeyDown'', ''onInput'']"

definition control :: "utype \<Rightarrow> bool" where
  "control t \<longleftrightarrow> t = Host ''input'' \<or> t = Host ''button'' \<or> t = Own ''Input'' \<or> t = Own ''Button''"

text \<open>The controls of the top bar do nothing: the search box and the two buttons have no handler, and no
  name for screen readers either.\<close>

theorem top_bar_is_idle:
  "map (\<lambda>e. (element_type e, has_name e, handlers_of e)) (collect control (page_Topbar L p)) =
     [(Some (Host ''input''), False, []), (Some (Host ''button''), False, []), (Some (Host ''button''), False, [])]"
  by (simp add: page_Topbar_def collect_jsx control_def page_simps has_name_def handlers_of_def read_texts_jsx hidden_element_def arg_def)

text \<open>The ids that the labels of an element lead to.\<close>

definition targets :: "uval \<Rightarrow> uval list" where
  "targets e = map (\<lambda>l. arg (properties l) ''htmlFor'') (collect (\<lambda>t. t = Own ''Label'' \<or> t = Host ''label'') e)"

definition given_each :: "string \<Rightarrow> string \<Rightarrow> uval \<Rightarrow> uval list" where
  "given_each k t e = map (\<lambda>x. arg (properties x) k) (collect (\<lambda>u. u = Own t \<or> u = Host t) e)"

definition sign_in_env :: "sign_in_form \<Rightarrow> ui_env \<Rightarrow> ui_env" where
  "sign_in_env f L =
     state_hook ''email'' (StrV (page_text (form_email f))) (state_hook ''password'' (StrV (page_text (form_password f)))
       (state_hook ''error'' (case form_error f of None \<Rightarrow> NullV | Some s \<Rightarrow> StrV (page_text s))
         (state_hook ''isSubmitting'' (BoolV (isSubmitting f)) L)))"

lemma sign_in_hooks:
  "element_at (foreign (sign_in_env f L) ''useState.email'' xs) (NumV 0) = StrV (page_text (form_email f))"
  "element_at (foreign (sign_in_env f L) ''useState.password'' xs) (NumV 0) = StrV (page_text (form_password f))"
  "element_at (foreign (sign_in_env f L) ''useState.error'' xs) (NumV 0) =
     (case form_error f of None \<Rightarrow> NullV | Some s \<Rightarrow> StrV (page_text s))"
  "element_at (foreign (sign_in_env f L) ''useState.isSubmitting'' xs) (NumV 0) = BoolV (isSubmitting f)"
  by (simp_all add: sign_in_env_def state_hook_def element_at_def)

lemma collect_state:
  "collect P (and_also (case m of None \<Rightarrow> NullV | Some s \<Rightarrow> StrV (page_text s)) e) =
     (if or_else m [] = [] then [] else collect P e)"
  "collect P (case m of None \<Rightarrow> NullV | Some s \<Rightarrow> StrV (page_text s)) = []"
  "collect P (and_also (BoolV b) e) = (if b then collect P e else [])"
  by (simp_all add: and_also_def or_else_def split: option.split)

text \<open>The element of the sign-in page over the state of its form: two labelled inputs with the texts of the
  state, the error exactly when there is one to tell, and a button that is disabled while a sign-in is
  under way.\<close>

theorem sign_in_element_refines:
  fixes f L p
  defines "e \<equiv> page_SignIn (sign_in_env f L) p"
  shows "targets e = given_each ''id'' ''Input'' e \<and> given_each ''id'' ''Input'' e = [StrV ''email'', StrV ''password''] \<and>
    given_each ''value'' ''Input'' e = [StrV (page_text (form_email f)), StrV (page_text (form_password f))] \<and>
    given_each ''children'' ''p'' e = (if or_else (form_error f) [] = [] then [] else [StrV (page_text (or_else (form_error f) []))]) \<and>
    given_each ''disabled'' ''Button'' e = [BoolV (isSubmitting f)]"
proof -
  note start = e_def targets_def given_each_def page_SignIn_def Let_def sign_in_hooks
  have "targets e = [StrV ''email'', StrV ''password'']" "given_each ''id'' ''Input'' e = [StrV ''email'', StrV ''password'']"
    "given_each ''disabled'' ''Button'' e = [BoolV (isSubmitting f)]"
    "given_each ''value'' ''Input'' e = [StrV (page_text (form_email f)), StrV (page_text (form_password f))]"
    "given_each ''children'' ''p'' e = (if or_else (form_error f) [] = [] then [] else [StrV (page_text (or_else (form_error f) []))])"
    unfolding start by (simp add: collect_jsx collect_state page_simps; simp add: or_else_def split: option.split)+
  then show ?thesis by simp
qed

text \<open>The labels of the upload dialog lead nowhere: they name no control and contain none.\<close>

theorem upload_dialog_unlabelled:
  "map (\<lambda>i. (element_type (descend [0, 1, 1, 1, i, 0] e), targets (descend [0, 1, 1, 1, i, 0] e))) [0, 1, 2] =
     replicate 3 (Some (Host ''label''), [uval.Absent])"
  if "e = page_EvidenceCard L p"
  unfolding that page_EvidenceCard_def Let_def descend.simps by (simp add: page_simps targets_def collect_jsx eval_nat_numeral)

end
