(* ===== verification/Python_Json.thy ===== *)
theory Python_Json
  imports Json_Text "HOL-Library.List_Lexorder"
begin

text \<open>
  \<open>json.dumps(value, sort_keys=True, separators=(",", ":"))\<close> of Python, as \<open>kernel/audit.py\<close> calls it, on the
  values that its payloads hold, and the proof that it is unambiguous: equal texts come from values
  that differ in the order of dictionary entries at most.  A Python string is given by its UTF-16
  units, like the strings of the browser that it comes from.
\<close>

datatype py =
    PyNone
  | PyBool bool
  | PyInt int
  | PyStr jsstr
  | PyList "py list"
  | PyDict "(jsstr \<times> py) list"

section \<open>Strings\<close>

text \<open>\<open>ensure_ascii\<close>: whatever is not a printable ASCII character is escaped, one escape for every unit.\<close>

fun py_escape :: "jsstr \<Rightarrow> jsstr" where
  "py_escape [] = []"
| "py_escape (c # cs) =
     (case map_of short_escapes c of
        Some e \<Rightarrow> 92 # e # py_escape cs
      | None \<Rightarrow> if c < 32 \<or> 126 < c then unicode_escape c @ py_escape cs else c # py_escape cs)"

definition py_quote :: "jsstr \<Rightarrow> jsstr" where
  "py_quote s = 34 # py_escape s @ [34]"

lemma read_py_escape: "read_escaped (py_escape s @ 34 # rest) = Some (s, rest)"
proof (induction s)
  case Nil
  show ?case by simp
next
  case (Cons c cs)
  show ?case
  proof (cases "map_of short_escapes c")
    case (Some e)
    then show ?thesis using Cons read_short [OF Some] by (simp del: read_escaped.simps)
  next
    case None
    then show ?thesis using Cons read_plain [OF None] by (simp add: read_unicode_escape del: read_escaped.simps)
  qed
qed

lemma py_quote_cancel [simp]: "py_quote a @ x = py_quote b @ y \<longleftrightarrow> a = b \<and> x = y"
proof
  assume "py_quote a @ x = py_quote b @ y"
  then have "py_escape a @ 34 # x = py_escape b @ 34 # y" by (simp add: py_quote_def)
  then show "a = b \<and> x = y" using read_py_escape [of a x] read_py_escape [of b y] by (metis option.inject prod.inject)
qed simp

section \<open>Integers\<close>

definition digit_unit :: "jschar \<Rightarrow> bool" where
  "digit_unit c \<longleftrightarrow> 48 \<le> c \<and> c \<le> 57"

definition decimal_value :: "jsstr \<Rightarrow> nat" where
  "decimal_value s = foldl (\<lambda>a c. a * 10 + (unat c - 48)) 0 s"

lemma unat_digit: "n < 10 \<Longrightarrow> unat (word_of_nat (48 + n) :: jschar) = 48 + n"
  by (simp add: unat_of_nat del: of_nat_add)

lemma digits_of_units: "list_all digit_unit (digits_of n)"
proof (induction n rule: digits_of.induct)
  case (1 n)
  have "digit_unit (word_of_nat (48 + k))" if "k < 10" for k
    using that unat_digit [OF that] by (simp add: digit_unit_def word_le_nat_alt del: of_nat_add)
  with 1 show ?case by (subst digits_of.simps) (simp del: of_nat_add)
qed

lemma decimal_value_digits: "decimal_value (digits_of n) = n"
proof (induction n rule: digits_of.induct)
  case (1 n)
  show ?case
  proof (cases "n < 10")
    case True
    then show ?thesis by (subst digits_of.simps) (simp add: decimal_value_def unat_digit del: of_nat_add)
  next
    case False
    with 1 have "decimal_value (digits_of (n div 10)) = n div 10" by blast
    then show ?thesis
      using False by (subst digits_of.simps) (simp add: decimal_value_def unat_digit del: of_nat_add)
  qed
qed

lemma digits_of_not_Nil [simp]: "digits_of n \<noteq> []"
  by (subst digits_of.simps) simp

text \<open>What may follow a number: no digit.\<close>

definition ends_number :: "jsstr \<Rightarrow> bool" where
  "ends_number x \<longleftrightarrow> x = [] \<or> \<not> digit_unit (hd x)"

lemma digits_part:
  assumes "ends_number x"
  shows "takeWhile digit_unit (digits_of n @ x) = digits_of n" "dropWhile digit_unit (digits_of n @ x) = x"
proof -
  have all: "\<And>c. c \<in> set (digits_of n) \<Longrightarrow> digit_unit c" using digits_of_units by (simp add: list_all_iff)
  have "takeWhile digit_unit x = []" "dropWhile digit_unit x = x"
    using assms by (cases x; simp add: ends_number_def)+
  then show "takeWhile digit_unit (digits_of n @ x) = digits_of n" "dropWhile digit_unit (digits_of n @ x) = x"
    using all by (simp_all add: takeWhile_append2 dropWhile_append2)
qed

lemma digits_cancel:
  "digits_of m @ x = digits_of n @ y \<Longrightarrow> ends_number x \<Longrightarrow> ends_number y \<Longrightarrow> m = n \<and> x = y"
  by (metis decimal_value_digits digits_part)

lemma minus_no_digit: "\<not> digit_unit (unit_of (CHR ''-''))"
  by (simp add: digit_unit_def unit_of_def)

lemma hd_digits: "digit_unit (hd (digits_of n))"
  using digits_of_units [of n] by (cases "digits_of n") auto

lemma show_int_cancel:
  assumes "show_int i @ x = show_int j @ y" and "ends_number x" and "ends_number y"
  shows "i = j \<and> x = y"
proof -
  have clash: "unit_of (CHR ''-'') # digits_of m @ x' \<noteq> digits_of n @ y'" for m n x' y'
    using hd_digits [of n] minus_no_digit by (cases "digits_of n") auto
  show ?thesis
    using assms clash clash [symmetric]
    by (auto simp: show_int_def js_Cons split: if_splits dest!: digits_cancel)
qed

section \<open>Values\<close>

text \<open>The text of a value whose dictionaries are in the order in which they are written.\<close>

fun py_text :: "py \<Rightarrow> jsstr" where
  "py_text PyNone = js ''null''"
| "py_text (PyBool b) = (if b then js ''true'' else js ''false'')"
| "py_text (PyInt i) = show_int i"
| "py_text (PyStr s) = py_quote s"
| "py_text (PyList vs) = js ''['' @ comma_join (map py_text vs) @ js '']''"
| "py_text (PyDict fs) = js ''{'' @ comma_join (map (\<lambda>(k, v). py_quote k @ js '':'' @ py_text v) fs) @ js ''}''"

text \<open>
  \<open>sort_keys\<close>: Python orders strings by code points, so the units of surrogates come after all others.
\<close>

definition code_point_rank :: "jschar \<Rightarrow> nat" where
  "code_point_rank c =
     (let n = unat c in if n < 0xD800 then n else if n < 0xE000 then n + 0x2000 else n - 0x800)"

fun tidy_dicts :: "py \<Rightarrow> py" where
  "tidy_dicts (PyList vs) = PyList (map tidy_dicts vs)"
| "tidy_dicts (PyDict fs) = PyDict (sort_key (\<lambda>kv. map code_point_rank (fst kv)) (map (\<lambda>(k, v). (k, tidy_dicts v)) fs))"
| "tidy_dicts v = v"

definition dumps :: "py \<Rightarrow> jsstr" where
  "dumps v = py_text (tidy_dicts v)"

lemma comma_join_more: "comma_join (t # ts) = t @ (if ts = [] then [] else js '','' @ comma_join ts)"
  by (cases ts) simp_all

text \<open>The first unit of a text tells what kind of value it is.\<close>

fun kind_unit :: "py \<Rightarrow> jschar \<Rightarrow> bool" where
  "kind_unit PyNone c = (c = unit_of (CHR ''n''))"
| "kind_unit (PyBool b) c = (c = unit_of (if b then CHR ''t'' else CHR ''f''))"
| "kind_unit (PyInt i) c = (digit_unit c \<or> c = unit_of (CHR ''-''))"
| "kind_unit (PyStr s) c = (c = 34)"
| "kind_unit (PyList vs) c = (c = unit_of (CHR ''[''))"
| "kind_unit (PyDict fs) c = (c = unit_of (CHR ''{''))"

lemma py_text_starts: "\<exists>c cs. py_text v = c # cs \<and> kind_unit v c"
proof (cases v)
  case (PyInt i)
  obtain c cs where "digits_of (nat i) = c # cs" "digit_unit c"
    using hd_digits [of "nat i"] by (cases "digits_of (nat i)") auto
  then show ?thesis using PyInt by (cases "i < 0") (simp_all add: show_int_def js_Cons)
qed (auto simp: js_Cons py_quote_def)

lemma kinds_differ:
  "kind_unit v c \<Longrightarrow> kind_unit w c \<Longrightarrow>
     (case v of PyNone \<Rightarrow> w = PyNone | PyBool b \<Rightarrow> w = PyBool b | PyInt i \<Rightarrow> \<exists>j. w = PyInt j | PyStr s \<Rightarrow> \<exists>t. w = PyStr t
      | PyList vs \<Rightarrow> \<exists>ws. w = PyList ws | PyDict fs \<Rightarrow> \<exists>gs. w = PyDict gs)"
  by (cases v; cases w) (auto simp: digit_unit_def unit_of_def split: if_splits)

lemma same_kind:
  assumes "py_text v @ x = py_text w @ y"
  shows "case v of PyNone \<Rightarrow> w = PyNone | PyBool b \<Rightarrow> w = PyBool b | PyInt i \<Rightarrow> \<exists>j. w = PyInt j | PyStr s \<Rightarrow> \<exists>t. w = PyStr t
      | PyList vs \<Rightarrow> \<exists>ws. w = PyList ws | PyDict fs \<Rightarrow> \<exists>gs. w = PyDict gs"
proof -
  obtain c cs d ds where "py_text v = c # cs" "kind_unit v c" "py_text w = d # ds" "kind_unit w d"
    using py_text_starts by metis
  with assms show ?thesis using kinds_differ by auto
qed

lemma ends_at_mark [simp]:
  "ends_number (unit_of (CHR '','') # x)" "ends_number (unit_of (CHR '']'') # x)" "ends_number (unit_of (CHR ''}'') # x)"
  by (simp_all add: ends_number_def digit_unit_def unit_of_def)

text \<open>Items between commas, up to a closing mark, are told apart if each item is.\<close>

lemma items_cancel:
  assumes "\<And>v w x y. v \<in> set vs \<Longrightarrow> p v @ x = p w @ y \<Longrightarrow> ends_number x \<Longrightarrow> ends_number y \<Longrightarrow> v = w \<and> x = y"
    and "m \<in> {unit_of (CHR '']''), unit_of (CHR ''}'')}" and "\<And>v. p v \<noteq> [] \<and> hd (p v) \<notin> {unit_of (CHR '']''), unit_of (CHR ''}'')}"
    and "comma_join (map p vs) @ m # x = comma_join (map p ws) @ m # y"
  shows "vs = ws \<and> x = y"
  using assms(1,4)
proof (induction vs arbitrary: ws)
  case Nil
  have "ws = []"
  proof (rule ccontr)
    assume "ws \<noteq> []"
    then obtain w us where "ws = w # us" by (cases ws) auto
    with Nil(2) assms(2) assms(3) [of w] show False by (cases "p w") (auto simp: comma_join_more)
  qed
  with Nil show ?case by simp
next
  case (Cons v vs)
  obtain w us where ws: "ws = w # us"
    using Cons.prems(2) assms(2) assms(3) [of v] by (cases ws; cases "p v") (auto simp: comma_join_more)
  let ?rest = "\<lambda>us z. (if us = [] then [] else js '','' @ comma_join (map p us)) @ m # z"
  have "p v @ ?rest vs x = p w @ ?rest us y" using Cons.prems(2) by (simp add: ws comma_join_more)
  moreover have "ends_number (?rest us z)" for us :: "'a list" and z
    using assms(2) by (auto simp: js_Cons)
  ultimately have vw: "v = w" and rest: "?rest vs x = ?rest us y" using Cons.prems(1) by (meson list.set_intros(1))+
  show ?case
  proof (cases "vs = [] \<or> us = []")
    case True
    then show ?thesis using rest assms(2) vw ws by (auto simp: js_Cons split: if_splits)
  next
    case False
    then have "comma_join (map p vs) @ m # x = comma_join (map p us) @ m # y" using rest by (simp add: js_Cons)
    from Cons.IH [OF _ this] Cons.prems(1) vw ws show ?thesis by (simp add: Ball_def) blast
  qed
qed

lemma text_no_mark: "py_text v \<noteq> [] \<and> hd (py_text v) \<notin> {unit_of (CHR '']''), unit_of (CHR ''}'')}"
proof -
  obtain c cs where "py_text v = c # cs" "kind_unit v c" using py_text_starts by blast
  then show ?thesis by (cases v) (auto simp: digit_unit_def unit_of_def split: if_splits)
qed

lemma py_text_cancel:
  "py_text v @ x = py_text w @ y \<Longrightarrow> ends_number x \<Longrightarrow> ends_number y \<Longrightarrow> v = w \<and> x = y"
proof (induction v arbitrary: w x y rule: py_text.induct)
  case 1
  have "w = PyNone" using same_kind [OF 1(1)] by simp
  then show ?case using 1(1) by simp
next
  case (2 b)
  have "w = PyBool b" using same_kind [OF 2(1)] by simp
  then show ?case using 2(1) by simp
next
  case (3 i)
  obtain j where "w = PyInt j" using same_kind [OF 3(1)] by auto
  then show ?case using 3 show_int_cancel by simp
next
  case (4 s)
  obtain u where "w = PyStr u" using same_kind [OF 4(1)] by auto
  then show ?case using 4(1) by simp
next
  case (5 vs)
  obtain ws where "w = PyList ws" using same_kind [OF 5(2)] by auto
  with 5 show ?case
    using items_cancel [where p = py_text and m = "unit_of (CHR '']'')" and vs = vs and ws = ws and x = x and y = y] text_no_mark
    by (simp add: js_Cons)
next
  case (6 fs)
  obtain gs where w: "w = PyDict gs" using same_kind [OF 6(2)] by auto
  let ?p = "\<lambda>(k, v). py_quote k @ js '':'' @ py_text v"
  have cancel: "kv = lw \<and> x = y" if "kv \<in> set fs" "?p kv @ x = ?p lw @ y" "ends_number x" "ends_number y" for kv lw x y
  proof -
    obtain k v l u where kl: "kv = (k, v)" "lw = (l, u)" by (cases kv; cases lw) blast
    then have "py_quote k @ (unit_of (CHR '':'') # py_text v @ x) = py_quote l @ (unit_of (CHR '':'') # py_text u @ y)"
      using that(2) by (simp add: js_Cons)
    then show ?thesis using 6(1) [OF that(1) kl(1) [symmetric] _ that(3,4)] kl by simp
  qed
  have heads: "?p kv \<noteq> [] \<and> hd (?p kv) \<notin> {unit_of (CHR '']''), unit_of (CHR ''}'')}" for kv
    by (cases kv) (simp add: py_quote_def unit_of_def)
  have texts: "comma_join (map ?p fs) @ unit_of (CHR ''}'') # x = comma_join (map ?p gs) @ unit_of (CHR ''}'') # y"
    using 6(2) w by (simp add: js_Cons)
  have "fs = gs \<and> x = y" by (rule items_cancel [OF cancel _ heads texts]) simp_all
  with w show ?case by simp
qed

text \<open>Equal texts come from equal values, up to the order of dictionaries.\<close>

theorem dumps_unambiguous: "dumps v = dumps w \<longleftrightarrow> tidy_dicts v = tidy_dicts w"
  using py_text_cancel [of "tidy_dicts v" "[]" "tidy_dicts w" "[]"] by (auto simp: dumps_def ends_number_def)

text \<open>Sorting keeps what a key leads to.\<close>

lemma map_of_sort_key: "distinct (map fst fs) \<Longrightarrow> map_of (sort_key f fs) = map_of fs"
  by (rule map_of_inject_set [THEN iffD2]) (simp_all add: distinct_map inj_on_def)

lemma tidy_dict_fields:
  assumes "tidy_dicts (PyDict fs) = tidy_dicts (PyDict gs)" and "distinct (map fst fs)" and "distinct (map fst gs)"
  shows "map_option tidy_dicts (map_of fs k) = map_option tidy_dicts (map_of gs k)"
proof -
  have sorted: "map_of (sort_key (\<lambda>kv. map code_point_rank (fst kv)) (map (\<lambda>(k, v). (k, tidy_dicts v)) hs)) k =
      map_option tidy_dicts (map_of hs k)" if "distinct (map fst hs)" for hs
  proof -
    have "distinct (map fst (map (\<lambda>(k, v). (k, tidy_dicts v)) hs))" using that by (simp add: comp_def split_def)
    from map_of_sort_key [OF this, of "\<lambda>kv. map code_point_rank (fst kv)"] show ?thesis by (simp add: map_of_map)
  qed
  show ?thesis using assms(1) sorted [OF assms(2)] sorted [OF assms(3)] by simp
qed

end
