(* ===== verification/Backend_Audit.thy ===== *)
theory Backend_Audit
  imports Python_Json
begin

text \<open>
  The audit log of the Python service, \<open>backend/app/kernel/audit.py\<close> and \<open>audit_postgres.py\<close>: entries that
  carry the hash of an earlier entry, the two ways in which they are written while requests run at the
  same time, and the verifier.  \<open>digest\<close> is SHA-256 in hexadecimal; \<open>time\<close> reads a time stamp.
\<close>

section \<open>Entries\<close>

type_synonym digest = "jsstr \<Rightarrow> jsstr"

definition GENESIS_HASH :: jsstr where
  "GENESIS_HASH = replicate 64 (unit_of (CHR ''0''))"

record audit_entry =
  entry_id :: jsstr
  action :: jsstr
  resource_type :: jsstr
  resource_id :: "jsstr option"
  decision :: "jsstr option"
  principal_id :: jsstr
  payload :: "(jsstr \<times> py) list"
  created_at :: jsstr
  prev_hash :: jsstr
  entry_hash :: jsstr

definition py_option :: "jsstr option \<Rightarrow> py" where
  "py_option s = (case s of None \<Rightarrow> PyNone | Some s \<Rightarrow> PyStr s)"

text \<open>The dictionary that is hashed: everything but the hash.\<close>

definition hashed_fields :: "audit_entry \<Rightarrow> (jsstr \<times> py) list" where
  "hashed_fields e =
     [(js ''entry_id'', PyStr (entry_id e)), (js ''action'', PyStr (action e)),
      (js ''resource_type'', PyStr (resource_type e)), (js ''resource_id'', py_option (resource_id e)),
      (js ''decision'', py_option (decision e)), (js ''principal_id'', PyStr (principal_id e)),
      (js ''payload'', PyDict (payload e)), (js ''created_at'', PyStr (created_at e)),
      (js ''prev_hash'', PyStr (prev_hash e))]"

definition canonical :: "audit_entry \<Rightarrow> jsstr" where
  "canonical e = dumps (PyDict (hashed_fields e))"

definition recompute_hash :: "digest \<Rightarrow> audit_entry \<Rightarrow> jsstr" where
  "recompute_hash digest e = digest (canonical e)"

section \<open>The verifier\<close>

text \<open>
  One walk from an entry towards the genesis hash: its result, and the hashes on the way.  The walk
  stops at the genesis hash, at a hash whose result is known, at one it has seen, and where there is no
  entry.
\<close>

abbreviation by_hash :: "audit_entry list \<Rightarrow> jsstr \<rightharpoonup> audit_entry" where
  "by_hash es \<equiv> map_of (map (\<lambda>e. (entry_hash e, e)) es)"

function walk :: "audit_entry list \<Rightarrow> (jsstr \<rightharpoonup> bool) \<Rightarrow> jsstr list \<Rightarrow> jsstr \<Rightarrow> bool \<times> jsstr list" where
  "walk es resolved path current =
     (if current = GENESIS_HASH then (True, path)
      else case resolved current of
        Some result \<Rightarrow> (result, path)
      | None \<Rightarrow>
          if current \<in> set path then (False, path)
          else case by_hash es current of
              None \<Rightarrow> (False, path)
            | Some e \<Rightarrow> walk es resolved (path @ [current]) (prev_hash e))"
  by pat_completeness auto
termination
proof (relation "measure (\<lambda>(es, resolved, path, current). card (entry_hash ` set es - set path))", simp, clarsimp)
  fix es :: "audit_entry list" and path current e
  assume "current \<notin> set path" "by_hash es current = Some e"
  then have "current \<in> entry_hash ` set es - set path" by (auto dest!: map_of_SomeD)
  then show "card (entry_hash ` set es - insert current (set path)) < card (entry_hash ` set es - set path)"
    by (intro psubset_card_mono) auto
qed

declare walk.simps [simp del]

definition reaches_genesis :: "audit_entry list \<Rightarrow> (jsstr \<rightharpoonup> bool) \<Rightarrow> jsstr \<Rightarrow> bool \<times> (jsstr \<rightharpoonup> bool)" where
  "reaches_genesis es resolved start_hash =
     (case walk es resolved [] start_hash of
        (result, path) \<Rightarrow> (result, foldl (\<lambda>m node. m(node \<mapsto> result)) resolved path))"

fun unique_hashes :: "jsstr list \<Rightarrow> audit_entry list \<Rightarrow> bool" where
  "unique_hashes seen [] = True"
| "unique_hashes seen (e # es) = (if entry_hash e \<in> set seen then False else unique_hashes (entry_hash e # seen) es)"

fun hashes_right :: "digest \<Rightarrow> audit_entry list \<Rightarrow> bool" where
  "hashes_right digest [] = True"
| "hashes_right digest (e # es) = (if recompute_hash digest e \<noteq> entry_hash e then False else hashes_right digest es)"

fun all_reach :: "audit_entry list \<Rightarrow> (jsstr \<rightharpoonup> bool) \<Rightarrow> audit_entry list \<Rightarrow> bool" where
  "all_reach all resolved [] = True"
| "all_reach all resolved (e # es) =
     (case reaches_genesis all resolved (entry_hash e) of
        (reached, resolved') \<Rightarrow> if \<not> reached then False else all_reach all resolved' es)"

definition verify_chain :: "digest \<Rightarrow> audit_entry list \<Rightarrow> bool" where
  "verify_chain digest entries =
     (if \<not> unique_hashes [] entries then False
      else if \<not> hashes_right digest entries then False
      else all_reach entries Map.empty entries)"

section \<open>What the verifier decides\<close>

text \<open>The walk without memory: a hash is rooted if following predecessors ends at the genesis hash.\<close>

inductive rooted :: "audit_entry list \<Rightarrow> jsstr \<Rightarrow> bool" for es where
  genesis: "rooted es GENESIS_HASH"
| link: "by_hash es h = Some e \<Longrightarrow> rooted es (prev_hash e) \<Longrightarrow> rooted es h"

inductive_simps rooted_iff: "rooted es h"

definition valid_chain :: "digest \<Rightarrow> audit_entry list \<Rightarrow> bool" where
  "valid_chain digest es \<longleftrightarrow>
     distinct (map entry_hash es) \<and>
     (\<forall>e \<in> set es. recompute_hash digest e = entry_hash e \<and> rooted es (entry_hash e))"

text \<open>No hash of a set that leads from entry to entry, without the genesis hash, is rooted.\<close>

lemma closed_not_rooted:
  assumes "rooted es h" and "GENESIS_HASH \<notin> S" and "\<And>x. x \<in> S \<Longrightarrow> \<exists>e. by_hash es x = Some e \<and> prev_hash e \<in> S"
  shows "h \<notin> S"
  using assms(1)
proof induction
  case genesis
  then show ?case by (rule assms(2))
next
  case (link h e)
  then show ?case using assms(3) [of h] by auto
qed

text \<open>The path of a walk leads from entry to entry, to where the walk stands.\<close>

fun leads :: "audit_entry list \<Rightarrow> jsstr list \<Rightarrow> jsstr \<Rightarrow> bool" where
  "leads es [] current = True"
| "leads es (x # xs) current \<longleftrightarrow>
     x \<noteq> GENESIS_HASH \<and> (\<exists>e. by_hash es x = Some e \<and> prev_hash e = hd (xs @ [current])) \<and> leads es xs current"

lemma leads_snoc:
  "leads es path current \<Longrightarrow> current \<noteq> GENESIS_HASH \<Longrightarrow> by_hash es current = Some e \<Longrightarrow>
   leads es (path @ [current]) (prev_hash e)"
  by (induction path) (auto simp: hd_append split: if_splits)

lemma leads_rooted: "leads es path current \<Longrightarrow> x \<in> set path \<Longrightarrow> rooted es x \<longleftrightarrow> rooted es current"
proof (induction path arbitrary: x)
  case Nil
  then show ?case by simp
next
  case (Cons y ys)
  then obtain e where e: "y \<noteq> GENESIS_HASH" "by_hash es y = Some e" "prev_hash e = hd (ys @ [current])" by auto
  then have "rooted es y \<longleftrightarrow> rooted es (hd (ys @ [current]))" by (subst rooted_iff) simp
  moreover have "rooted es (hd (ys @ [current])) \<longleftrightarrow> rooted es current"
    using Cons by (cases ys) auto
  ultimately show ?case using Cons by auto
qed

lemma leads_next:
  "leads es path current \<Longrightarrow> x \<in> set path \<Longrightarrow> \<exists>e. by_hash es x = Some e \<and> prev_hash e \<in> insert current (set path)"
proof (induction path)
  case Nil
  then show ?case by simp
next
  case (Cons y ys)
  have "hd (ys @ [current]) \<in> insert current (set ys)" by (cases ys) auto
  with Cons show ?case by fastforce
qed

lemma leads_no_genesis: "leads es path current \<Longrightarrow> GENESIS_HASH \<notin> set path"
  by (induction path) auto

definition memo_right :: "audit_entry list \<Rightarrow> (jsstr \<rightharpoonup> bool) \<Rightarrow> bool" where
  "memo_right es resolved \<longleftrightarrow> (\<forall>h b. resolved h = Some b \<longrightarrow> b = rooted es h)"

lemma walk_cases:
  "walk es resolved path GENESIS_HASH = (True, path)"
  "current \<noteq> GENESIS_HASH \<Longrightarrow> resolved current = Some b \<Longrightarrow> walk es resolved path current = (b, path)"
  "current \<noteq> GENESIS_HASH \<Longrightarrow> resolved current = None \<Longrightarrow> current \<in> set path \<Longrightarrow> walk es resolved path current = (False, path)"
  "current \<noteq> GENESIS_HASH \<Longrightarrow> resolved current = None \<Longrightarrow> by_hash es current = None \<Longrightarrow> walk es resolved path current = (False, path)"
  "current \<noteq> GENESIS_HASH \<Longrightarrow> resolved current = None \<Longrightarrow> current \<notin> set path \<Longrightarrow> by_hash es current = Some e \<Longrightarrow>
   walk es resolved path current = walk es resolved (path @ [current]) (prev_hash e)"
  by (simp_all only: walk.simps [of es resolved path] option.case if_True if_False if_cancel simp_thms)

lemma walk_decides:
  assumes "memo_right es resolved"
  shows "leads es path current \<Longrightarrow> fst (walk es resolved path current) = rooted es current \<and>
     (\<forall>x \<in> set (snd (walk es resolved path current)). rooted es x = rooted es current)"
  using assms
proof (induction es resolved path current rule: walk.induct)
  case (1 es resolved path current)
  note here = leads_rooted [OF 1(2)]
  consider "current = GENESIS_HASH" | b where "current \<noteq> GENESIS_HASH" "resolved current = Some b"
    | "current \<noteq> GENESIS_HASH" "resolved current = None" "current \<in> set path"
    | "current \<noteq> GENESIS_HASH" "resolved current = None" "current \<notin> set path" "by_hash es current = None"
    | e where "current \<noteq> GENESIS_HASH" "resolved current = None" "current \<notin> set path" "by_hash es current = Some e"
    by (cases "resolved current"; cases "by_hash es current"; cases "current \<in> set path") blast+
  then show ?case
  proof cases
    case 1
    then show ?thesis using here by (simp add: walk_cases(1) rooted.genesis)
  next
    case (2 b)
    then have "b = rooted es current" using \<open>memo_right es resolved\<close> by (simp add: memo_right_def)
    with 2 here show ?thesis by (simp add: walk_cases(2))
  next
    case 3
    have "\<not> rooted es current"
      using closed_not_rooted [of es current "set path"] leads_no_genesis [OF 1(2)] leads_next [OF 1(2)] 3(3)
      by (auto simp only: insert_absorb)
    with 3 here show ?thesis by (simp add: walk_cases(3))
  next
    case 4
    from 4(1,2,4) have "walk es resolved path current = (False, path)" by (rule walk_cases(4) [where current = current])
    moreover from 4 have "\<not> rooted es current" by (subst rooted_iff) (simp only: option.simps simp_thms)
    ultimately show ?thesis using here by simp
  next
    case (5 e)
    have step: "walk es resolved path current = walk es resolved (path @ [current]) (prev_hash e)"
      using 5 by (rule walk_cases(5) [where current = current])
    have "rooted es current = rooted es (prev_hash e)"
      using 5 by (subst rooted_iff) (simp only: option.inject simp_thms)
    with 1(1) [OF 5(1-4) leads_snoc [OF 1(2) 5(1) 5(4)] 1(3)] show ?thesis by (simp add: step)
  qed
qed

lemma memo_right_extend:
  "memo_right es m \<Longrightarrow> (\<And>x. x \<in> set nodes \<Longrightarrow> b = rooted es x) \<Longrightarrow> memo_right es (foldl (\<lambda>m node. m(node \<mapsto> b)) m nodes)"
proof (induction nodes arbitrary: m)
  case (Cons x xs)
  have "b = rooted es x" using Cons.prems(2) by simp
  then have "memo_right es (m(x \<mapsto> b))" using Cons.prems(1) by (simp add: memo_right_def)
  from Cons.IH [OF this] Cons.prems(2) show ?case by (simp only: foldl_Cons list.set_intros)
qed simp

lemma reaches_genesis_decides:
  assumes "memo_right es resolved" and "reaches_genesis es resolved h = (b, resolved')"
  shows "b = rooted es h" "memo_right es resolved'"
proof -
  obtain nodes where walk: "walk es resolved [] h = (b, nodes)" "resolved' = foldl (\<lambda>m node. m(node \<mapsto> b)) resolved nodes"
    using assms(2) by (cases "walk es resolved [] h") (simp add: reaches_genesis_def)
  from walk_decides [OF assms(1), of "[]" h] walk(1) show b: "b = rooted es h" by simp
  from walk_decides [OF assms(1), of "[]" h] walk(1) have "\<And>x. x \<in> set nodes \<Longrightarrow> b = rooted es x" by simp
  from memo_right_extend [OF assms(1) this] walk(2) show "memo_right es resolved'" by simp
qed

lemma all_reach_decides:
  "memo_right all resolved \<Longrightarrow> all_reach all resolved es \<longleftrightarrow> (\<forall>e \<in> set es. rooted all (entry_hash e))"
proof (induction es arbitrary: resolved)
  case (Cons e es)
  obtain b resolved' where step: "reaches_genesis all resolved (entry_hash e) = (b, resolved')" by (rule prod.exhaust)
  from reaches_genesis_decides [OF Cons.prems step] Cons.IH [of resolved'] step show ?case by simp
qed simp

lemma unique_hashes_distinct:
  "unique_hashes seen es \<longleftrightarrow> distinct (map entry_hash es) \<and> set seen \<inter> entry_hash ` set es = {}"
  by (induction es arbitrary: seen) auto

lemma hashes_right_all: "hashes_right digest es \<longleftrightarrow> (\<forall>e \<in> set es. recompute_hash digest e = entry_hash e)"
  by (induction es) auto

lemma verify_chain_iff: "verify_chain digest es \<longleftrightarrow> valid_chain digest es"
  by (auto simp: verify_chain_def valid_chain_def unique_hashes_distinct hashes_right_all all_reach_decides memo_right_def)

text \<open>C11: 
  \<open>verify_chain\<close> of \<open>audit.py\<close>, with its dictionary by hash, its path set and its memo of resolved
  hashes, answers for every list of entries, rooted, cyclic or broken, whether no hash occurs twice, every
  stored hash is the one recomputed from the contents, and following predecessors leads from every
  entry to the genesis hash.
\<close>

theorem verify_chain_decides:
  "verify_chain digest es \<longleftrightarrow>
     distinct (map entry_hash es) \<and>
     list_all (\<lambda>e. recompute_hash digest e = entry_hash e \<and> rooted es (entry_hash e)) es"
  by (simp add: verify_chain_iff valid_chain_def list_all_iff)

section \<open>What a hash commits to\<close>

text \<open>The entries from a hash back to the genesis hash, and what two entries must share to have one text.\<close>

inductive lineage :: "audit_entry list \<Rightarrow> jsstr \<Rightarrow> audit_entry list \<Rightarrow> bool" for es where
  genesis: "lineage es GENESIS_HASH []"
| link: "h \<noteq> GENESIS_HASH \<Longrightarrow> by_hash es h = Some e \<Longrightarrow> lineage es (prev_hash e) xs \<Longrightarrow> lineage es h (e # xs)"

definition contents :: "audit_entry \<Rightarrow> py" where
  "contents e = tidy_dicts (PyDict (hashed_fields e))"

definition no_collision :: "digest \<Rightarrow> audit_entry list \<Rightarrow> bool" where
  "no_collision digest es \<longleftrightarrow> inj_on digest (canonical ` set es)"

lemma fields_distinct: "distinct (map fst (hashed_fields e))"
  by (simp add: hashed_fields_def js_def unit_of_def)

lemma field_names_differ:
  "js ''prev_hash'' \<noteq> js ''entry_id''" "js ''prev_hash'' \<noteq> js ''action''" "js ''prev_hash'' \<noteq> js ''resource_type''"
  "js ''prev_hash'' \<noteq> js ''resource_id''" "js ''prev_hash'' \<noteq> js ''decision''" "js ''prev_hash'' \<noteq> js ''principal_id''"
  "js ''prev_hash'' \<noteq> js ''payload''" "js ''prev_hash'' \<noteq> js ''created_at''"
  by (simp_all add: js_def unit_of_def)

lemma prev_hash_field: "map_of (hashed_fields e) (js ''prev_hash'') = Some (PyStr (prev_hash e))"
  by (simp only: hashed_fields_def map_of.simps fun_upd_apply fst_conv snd_conv field_names_differ if_False simp_thms if_True)

lemma contents_prev: "contents e = contents f \<Longrightarrow> prev_hash e = prev_hash f"
  using tidy_dict_fields [of "hashed_fields e" "hashed_fields f" "js ''prev_hash''"]
  by (simp add: contents_def fields_distinct prev_hash_field)

lemma by_hash_in: "by_hash es h = Some e \<Longrightarrow> e \<in> set es \<and> entry_hash e = h"
  by (auto dest: map_of_SomeD)

lemma by_hash_entry: "distinct (map entry_hash es) \<Longrightarrow> e \<in> set es \<Longrightarrow> by_hash es (entry_hash e) = Some e"
  by (rule map_of_is_SomeI) (auto simp: comp_def)

lemma same_hash_same_contents:
  assumes "no_collision digest (es @ fs)" and "e \<in> set es" "recompute_hash digest e = h"
    and "f \<in> set fs" "recompute_hash digest f = h"
  shows "contents e = contents f"
proof -
  have "canonical e = canonical f"
    using assms by (auto simp: no_collision_def recompute_hash_def dest: inj_onD)
  then show ?thesis by (simp add: canonical_def dumps_unambiguous contents_def)
qed

lemma rooted_lineages:
  assumes "valid_chain digest es" "valid_chain digest fs" "no_collision digest (es @ fs)"
  shows "rooted es h \<Longrightarrow> rooted fs h \<Longrightarrow> \<exists>xs ys. lineage es h xs \<and> lineage fs h ys \<and> map contents xs = map contents ys"
proof (induction rule: rooted.induct)
  case genesis
  show ?case by (blast intro: lineage.genesis)
next
  case (link h e)
  show ?case
  proof (cases "h = GENESIS_HASH")
    case True
    then show ?thesis by (blast intro: lineage.genesis)
  next
    case False
    with link.prems obtain f where f: "by_hash fs h = Some f" "rooted fs (prev_hash f)" by (auto elim: rooted.cases)
    have same: "contents e = contents f"
      using by_hash_in [OF link.hyps(1)] by_hash_in [OF f(1)] assms same_hash_same_contents [OF assms(3)]
      by (auto simp: valid_chain_def)
    with link.IH f(2) obtain xs ys where
      "lineage es (prev_hash e) xs" "lineage fs (prev_hash f) ys" "map contents xs = map contents ys"
      using contents_prev by metis
    with False link.hyps(1) f(1) same show ?thesis
      by (intro exI [of _ "e # xs"] exI [of _ "f # ys"]) (simp add: lineage.link)
  qed
qed

text \<open>C12: 
  Two logs that both verify and share a hash share the whole history behind it: from that entry back to
  the genesis hash their entries agree, in order, on everything that is hashed, unless the digest
  collides on two of the texts.
\<close>

theorem hash_commits_to_history:
  assumes "verify_chain digest es" and "verify_chain digest fs" and "no_collision digest (es @ fs)"
    and "h \<in> entry_hash ` set es" and "h \<in> entry_hash ` set fs"
  shows "\<exists>xs ys. lineage es h xs \<and> lineage fs h ys \<and> map contents xs = map contents ys"
proof -
  have valid: "valid_chain digest es" "valid_chain digest fs" using assms(1,2) by (simp_all only: verify_chain_iff)
  then have "rooted es h" "rooted fs h" using assms(4,5) by (auto simp: valid_chain_def)
  then show ?thesis by (rule rooted_lineages [OF valid assms(3)])
qed

section \<open>Deleting an entry\<close>

lemma rooted_remove:
  assumes "distinct (map entry_hash es)" and "\<forall>f \<in> set (remove1 e es). prev_hash f \<noteq> entry_hash e"
  shows "rooted es h \<Longrightarrow> h \<noteq> entry_hash e \<Longrightarrow> rooted (remove1 e es) h"
proof (induction rule: rooted.induct)
  case genesis
  show ?case by (rule rooted.genesis)
next
  case (link h f)
  have "f \<in> set es" "entry_hash f = h" using by_hash_in [OF link.hyps(1)] by simp_all
  then have f: "f \<in> set (remove1 e es)" "entry_hash f = h" using link.prems by (auto intro: in_set_remove1 [THEN iffD2])
  have "distinct (map entry_hash (remove1 e es))" using assms(1) by (simp add: distinct_map distinct_remove1 inj_on_def)
  then have "by_hash (remove1 e es) h = Some f" using by_hash_entry f by blast
  moreover have "rooted (remove1 e es) (prev_hash f)" using link.IH f(1) assms(2) by blast
  ultimately show ?case by (rule rooted.link)
qed

text \<open>C13: 
  Deleting one entry of a log that verifies is noticed exactly when an entry that remains follows it;
  deleting an entry that has no successor leaves a log that verifies.
\<close>

theorem deletion_noticed:
  assumes "verify_chain digest es" and "e \<in> set es" and "\<forall>f \<in> set es. entry_hash f \<noteq> GENESIS_HASH"
  shows "verify_chain digest (remove1 e es) \<longleftrightarrow> (\<forall>f \<in> set (remove1 e es). prev_hash f \<noteq> entry_hash e)"
proof -
  let ?rest = "remove1 e es"
  have valid: "distinct (map entry_hash es)" "\<And>f. f \<in> set es \<Longrightarrow> recompute_hash digest f = entry_hash f \<and> rooted es (entry_hash f)"
    using assms(1) by (simp_all add: verify_chain_iff valid_chain_def)
  then have keys: "distinct (map entry_hash ?rest)" "set ?rest = set es - {e}"
    by (simp_all add: distinct_map distinct_remove1 inj_on_def)
  have others: "entry_hash f \<noteq> entry_hash e" if "f \<in> set ?rest" for f
    using that valid(1) keys(2) assms(2) by (auto simp: distinct_map inj_on_def)
  have "prev_hash f \<noteq> entry_hash e" if "verify_chain digest ?rest" "f \<in> set ?rest" for f
  proof
    assume "prev_hash f = entry_hash e"
    have "rooted ?rest (entry_hash f)" "entry_hash f \<noteq> GENESIS_HASH"
      using that assms(3) keys(2) by (auto simp: verify_chain_iff valid_chain_def)
    then have "rooted ?rest (entry_hash e)"
      using by_hash_entry [OF keys(1) that(2)] \<open>prev_hash f = entry_hash e\<close> by (auto elim: rooted.cases)
    then obtain g where "by_hash ?rest (entry_hash e) = Some g" using assms(2,3) by (auto elim: rooted.cases)
    with others show False using by_hash_in by blast
  qed
  moreover have "verify_chain digest ?rest" if "\<forall>f \<in> set ?rest. prev_hash f \<noteq> entry_hash e"
    using rooted_remove [OF valid(1) that] valid(2) keys others
    by (auto simp: verify_chain_iff valid_chain_def)
  ultimately show ?thesis by blast
qed

end
