(* ===== verification/Audit_Writers.thy ===== *)
theory Audit_Writers
  imports Backend_Audit "HOL-Library.Multiset"
begin

text \<open>
  How entries get into the audit log: \<open>audit\<close> (\<open>kernel/audit.py\<close>), which reads the last hash and appends in
  two transactions of its own, and \<open>audit_staged\<close> (\<open>kernel/audit_postgres.py\<close>), whose row lives and
  dies with the transaction of the request.  Requests run at the same time; every schedule of their
  steps leaves a log that verifies.  \<open>jsonb\<close> is the column that stores payloads.
\<close>

section \<open>Building an entry\<close>

record audit_call =
  call_action :: jsstr
  call_resource_type :: jsstr
  call_resource_id :: "jsstr option"
  call_decision :: "jsstr option"
  call_payload :: "(jsstr \<times> py) list option"
  call_entry_id :: "jsstr option"

definition audit_args :: "jsstr \<Rightarrow> audit_call" where
  "audit_args a =
     \<lparr>call_action = a, call_resource_type = js ''unknown'', call_resource_id = None, call_decision = None,
      call_payload = None, call_entry_id = None\<rparr>"

definition build_entry :: "digest \<Rightarrow> jsstr \<Rightarrow> jsstr \<Rightarrow> jsstr \<Rightarrow> jsstr \<Rightarrow> audit_call \<Rightarrow> audit_entry" where
  "build_entry digest previous uuid4_hex now caller c =
     (let e = \<lparr>entry_id = (case call_entry_id c of Some i \<Rightarrow> if i = [] then uuid4_hex else i | None \<Rightarrow> uuid4_hex),
               action = call_action c, resource_type = call_resource_type c, resource_id = call_resource_id c,
               decision = call_decision c, principal_id = caller,
               payload = (case call_payload c of Some p \<Rightarrow> p | None \<Rightarrow> []),
               created_at = now, prev_hash = previous, entry_hash = []\<rparr>
      in e\<lparr>entry_hash := recompute_hash digest e\<rparr>)"

section \<open>Rows\<close>

text \<open>
  \<open>uuid.UUID(value).hex\<close>, for values whose digits are ASCII: \<open>urn:\<close> and \<open>uuid:\<close> go wherever they stand,
  braces at the ends, all hyphens.
\<close>

function remove_all_of :: "jsstr \<Rightarrow> jsstr \<Rightarrow> jsstr" where
  "remove_all_of p [] = []"
| "remove_all_of p (c # cs) =
     (if p \<noteq> [] \<and> take (length p) (c # cs) = p then remove_all_of p (drop (length p) (c # cs))
      else c # remove_all_of p cs)"
  by pat_completeness auto
termination by (relation "measure (\<lambda>(p, s). length s)") (simp_all add: diff_less del: drop_Cons_numeral)

definition brace :: "jschar \<Rightarrow> bool" where
  "brace c \<longleftrightarrow> c = unit_of (CHR 0x7B) \<or> c = unit_of (CHR 0x7D)"

definition hex_lower :: "jschar \<Rightarrow> jschar option" where
  "hex_lower c =
     (if 48 \<le> c \<and> c \<le> 57 \<or> 97 \<le> c \<and> c \<le> 102 then Some c
      else if 65 \<le> c \<and> c \<le> 70 then Some (c + 32) else None)"

definition uuid_hex :: "jsstr \<Rightarrow> jsstr option" where
  "uuid_hex value =
     (let bare = remove_all_of (js ''uuid:'') (remove_all_of (js ''urn:'') value);
          digits = filter (\<lambda>c. c \<noteq> unit_of (CHR ''-'')) (rev (dropWhile brace (rev (dropWhile brace bare))))
      in if length digits = 32 then those (map hex_lower digits) else None)"

text \<open>
  \<open>_to_record\<close>, and the entry that \<open>all_entries\<close> makes of the record: the id comes back as 32 digits,
  the payload as the column returns it.  An id that is none is replaced by another.
\<close>

type_synonym jsonb = "(jsstr \<times> py) list \<Rightarrow> (jsstr \<times> py) list"

definition audit_row :: "jsonb \<Rightarrow> jsstr \<Rightarrow> audit_entry \<Rightarrow> audit_entry" where
  "audit_row jsonb uuid4_hex e =
     e\<lparr>entry_id := (case uuid_hex (entry_id e) of Some h \<Rightarrow> h | None \<Rightarrow> uuid4_hex), payload := jsonb (payload e)\<rparr>"

text \<open>\<open>last_hash\<close>: the hash of one of the latest rows; any of them when there are several.\<close>

definition latest :: "audit_entry list \<Rightarrow> audit_entry \<Rightarrow> bool" where
  "latest rows e \<longleftrightarrow> e \<in> set rows \<and> (\<forall>f \<in> set rows. created_at f \<le> created_at e)"

definition last_hash :: "audit_entry list \<Rightarrow> jsstr \<Rightarrow> bool" where
  "last_hash rows h \<longleftrightarrow>
     (if rows = [] then h = GENESIS_HASH
      else \<exists>e \<in> set rows. latest rows e \<and> h = (if entry_hash e = [] then GENESIS_HASH else entry_hash e))"

section \<open>Schedules\<close>

text \<open>
  The committed rows, newest first; the rows that each open transaction has flushed; the entries that
  \<open>audit\<close> has built and not yet appended.
\<close>

record audit_world =
  table :: "audit_entry list"
  staged :: "nat \<Rightarrow> audit_entry list"
  unsaved :: "audit_entry list"

definition empty_log :: audit_world where
  "empty_log = \<lparr>table = [], staged = (\<lambda>_. []), unsaved = []\<rparr>"

definition all_entries :: "audit_world \<Rightarrow> audit_entry list" where
  "all_entries w = sort_key created_at (rev (table w))"

text \<open>The unique column: a second writer of a hash waits for the first, and is refused if that one commits.\<close>

definition free_hash :: "audit_world \<Rightarrow> audit_entry \<Rightarrow> bool" where
  "free_hash w e \<longleftrightarrow> entry_hash e \<notin> entry_hash ` set (table w) \<and> (\<forall>t. entry_hash e \<notin> entry_hash ` set (staged w t))"

text \<open>The ids of the program: \<open>uuid.uuid4().hex\<close>, from the caller or from \<open>_build_entry\<close>.\<close>

definition plain_id :: "jsstr \<Rightarrow> bool" where
  "plain_id i \<longleftrightarrow> i \<noteq> [] \<and> uuid_hex i = Some i"

inductive audit_step :: "digest \<Rightarrow> jsonb \<Rightarrow> audit_world \<Rightarrow> audit_world \<Rightarrow> bool" for digest jsonb where
  build: "last_hash (table w) h \<Longrightarrow> plain_id i \<Longrightarrow> pred_option plain_id (call_entry_id c) \<Longrightarrow>
    audit_step digest jsonb w (w\<lparr>unsaved := build_entry digest h i now caller c # unsaved w\<rparr>)"
| append: "e \<in> set (unsaved w) \<Longrightarrow> free_hash w e \<Longrightarrow>
    audit_step digest jsonb w (w\<lparr>table := audit_row jsonb i e # table w, unsaved := remove1 e (unsaved w)\<rparr>)"
| refused: "e \<in> set (unsaved w) \<Longrightarrow> entry_hash e \<in> entry_hash ` set (table w) \<Longrightarrow>
    audit_step digest jsonb w (w\<lparr>unsaved := remove1 e (unsaved w)\<rparr>)"
| stage: "last_hash (staged w t @ table w) h \<Longrightarrow> plain_id i \<Longrightarrow> pred_option plain_id (call_entry_id c) \<Longrightarrow>
    e = build_entry digest h i now caller c \<Longrightarrow> free_hash w e \<Longrightarrow>
    audit_step digest jsonb w (w\<lparr>staged := (staged w)(t := audit_row jsonb j e # staged w t)\<rparr>)"
| commit: "audit_step digest jsonb w (w\<lparr>table := staged w t @ table w, staged := (staged w)(t := [])\<rparr>)"
| rollback: "audit_step digest jsonb w (w\<lparr>staged := (staged w)(t := [])\<rparr>)"

section \<open>The invariant\<close>

text \<open>Every row follows the genesis hash, a hash of the base, or that of an older row.\<close>

fun linked :: "jsstr set \<Rightarrow> audit_entry list \<Rightarrow> bool" where
  "linked base [] = True"
| "linked base (e # es) \<longleftrightarrow> prev_hash e \<in> insert GENESIS_HASH (base \<union> entry_hash ` set es) \<and> linked base es"

abbreviation hashes :: "audit_entry list \<Rightarrow> jsstr set" where
  "hashes es \<equiv> entry_hash ` set es"

lemma linked_mono: "linked base es \<Longrightarrow> base \<subseteq> wider \<Longrightarrow> linked wider es"
  by (induction es) auto

lemma linked_append: "linked base (es @ fs) \<longleftrightarrow> linked (base \<union> hashes fs) es \<and> linked base fs"
  by (induction es) (auto simp: image_Un)

lemma linked_rooted: "linked {} es \<Longrightarrow> distinct (map entry_hash es) \<Longrightarrow> e \<in> set es \<Longrightarrow> rooted es (entry_hash e)"
proof (induction es arbitrary: e)
  case (Cons f fs)
  have more: "rooted (f # fs) h" if "rooted fs h" for h
    using that
  proof (induction rule: rooted.induct)
    case (link h g)
    have "h \<noteq> entry_hash f" using by_hash_in [OF link.hyps(1)] Cons.prems(2) by (metis distinct.simps(2) image_eqI list.set_map list.simps(9))
    then have "by_hash (f # fs) h = Some g"
      using link.hyps(1) by (simp only: list.map map_of.simps fst_conv snd_conv fun_upd_apply if_False)
    then show ?case using link.IH by (rule rooted.link)
  qed (rule rooted.genesis)
  show ?case
  proof (cases "e = f")
    case True
    have "by_hash (f # fs) (entry_hash f) = Some f" by simp
    moreover have "rooted fs (prev_hash f)" using Cons by (auto intro: rooted.genesis)
    ultimately show ?thesis unfolding True by (rule rooted.link [OF _ more])
  next
    case False
    then show ?thesis using Cons more by auto
  qed
qed simp

text \<open>What is known of an entry that is written: its hash is right, and that of its row.\<close>

definition right_hash :: "digest \<Rightarrow> audit_entry \<Rightarrow> bool" where
  "right_hash digest e \<longleftrightarrow> recompute_hash digest e = entry_hash e"

definition world_inv :: "digest \<Rightarrow> audit_world \<Rightarrow> bool" where
  "world_inv digest w \<longleftrightarrow>
     linked {} (table w) \<and> distinct (map entry_hash (table w)) \<and> (\<forall>e \<in> set (table w). right_hash digest e) \<and>
     (\<forall>t. linked (hashes (table w)) (staged w t) \<and> distinct (map entry_hash (staged w t @ table w)) \<and>
          (\<forall>e \<in> set (staged w t). right_hash digest e)) \<and>
     (\<forall>t u. t \<noteq> u \<longrightarrow> hashes (staged w t) \<inter> hashes (staged w u) = {}) \<and>
     (\<forall>e \<in> set (unsaved w). right_hash digest e \<and> plain_id (entry_id e) \<and>
          prev_hash e \<in> insert GENESIS_HASH (hashes (table w)))"

lemma last_hash_in: "last_hash rows h \<Longrightarrow> h \<in> insert GENESIS_HASH (hashes rows)"
  by (auto simp: last_hash_def split: if_splits)

lemma build_entry_simps:
  "entry_hash (build_entry digest h i now p c) = recompute_hash digest (build_entry digest h i now p c)"
  "prev_hash (build_entry digest h i now p c) = h"
  "plain_id i \<Longrightarrow> pred_option plain_id (call_entry_id c) \<Longrightarrow> plain_id (entry_id (build_entry digest h i now p c))"
  by (auto simp: build_entry_def Let_def recompute_hash_def canonical_def hashed_fields_def plain_id_def split: option.splits)

lemma row_of_simps [simp]:
  "entry_hash (audit_row jsonb i e) = entry_hash e" "prev_hash (audit_row jsonb i e) = prev_hash e"
  by (simp_all add: audit_row_def)

lemma row_right_hash:
  assumes "\<And>p. tidy_dicts (PyDict (jsonb p)) = tidy_dicts (PyDict p)" and "plain_id (entry_id e)" and "right_hash digest e"
  shows "right_hash digest (audit_row jsonb i e)"
proof -
  have "canonical (audit_row jsonb i e) = canonical e"
  proof -
    have "tidy_dicts (PyDict (hashed_fields (audit_row jsonb i e))) = tidy_dicts (PyDict (hashed_fields e))"
      using assms(1) [of "payload e"] assms(2) by (simp add: hashed_fields_def audit_row_def plain_id_def)
    then show ?thesis by (simp add: canonical_def dumps_def)
  qed
  then show ?thesis using assms(3) by (simp add: right_hash_def recompute_hash_def)
qed

lemma staged_linked: "world_inv digest w \<Longrightarrow> hashes (table w) \<subseteq> wider \<Longrightarrow> linked wider (staged w t)"
  unfolding world_inv_def by (blast intro: linked_mono)

lemma staged_new: "world_inv digest w \<Longrightarrow> h \<in> hashes (staged w t) \<Longrightarrow> h \<notin> hashes (table w)"
  by (auto simp: world_inv_def)

lemma staged_apart: "world_inv digest w \<Longrightarrow> t \<noteq> u \<Longrightarrow> h \<in> hashes (staged w t) \<Longrightarrow> h \<notin> hashes (staged w u)"
  unfolding world_inv_def by (metis disjoint_iff)

lemma staged_inv:
  assumes "world_inv digest w"
  shows "linked {} (staged w t @ table w)" "\<forall>e \<in> set (staged w t @ table w). right_hash digest e"
    "distinct (map entry_hash (staged w t @ table w))"
  using assms by (auto simp: world_inv_def linked_append)

lemma audit_step_inv:
  assumes jsonb: "\<And>p. tidy_dicts (PyDict (jsonb p)) = tidy_dicts (PyDict p)"
    and inv: "world_inv digest w" and step: "audit_step digest jsonb w v"
  shows "world_inv digest v"
  using step
proof cases
  case (build h i c now caller)
  then show ?thesis
    using inv last_hash_in [OF build(2)] build_entry_simps
    by (simp add: world_inv_def right_hash_def)
next
  case (append e i)
  have e: "right_hash digest e" "plain_id (entry_id e)" "prev_hash e \<in> insert GENESIS_HASH (hashes (table w))"
    using inv append(2) by (auto simp: world_inv_def)
  have row: "right_hash digest (audit_row jsonb i e)" using e(1,2) by (intro row_right_hash jsonb)
  have others: "linked (insert (entry_hash e) (hashes (table w))) (staged w t)" for t
    by (rule staged_linked [OF inv]) auto
  have rest: "f \<in> set (unsaved w)" if "f \<in> set (remove1 e (unsaved w))" for f
    using that by (rule set_remove1_subset [THEN subsetD])
  note free = append(3) [unfolded free_hash_def]
  show ?thesis
    unfolding append(1) world_inv_def audit_world.simps
    by (intro conjI allI impI ballI) (use e row others free inv in \<open>auto simp: world_inv_def dest!: rest\<close>)
next
  case (refused e)
  with inv show ?thesis by (auto simp: world_inv_def dest: set_remove1_subset [THEN subsetD])
next
  case (stage t h i c e now caller j)
  have "right_hash digest (audit_row jsonb j e)"
    using stage(3,4,5) build_entry_simps by (intro row_right_hash jsonb) (auto simp: right_hash_def)
  moreover have "prev_hash e \<in> insert GENESIS_HASH (hashes (table w) \<union> hashes (staged w t))"
    using last_hash_in [OF stage(2)] stage(5) build_entry_simps(2) by auto
  ultimately show ?thesis
    using inv stage(1,6) by (auto simp: world_inv_def free_hash_def)
next
  case (commit t)
  have "entry_hash x \<noteq> entry_hash y" if "u \<noteq> t" "x \<in> set (staged w u)" "y \<in> set (staged w t @ table w)" for u x y
    using staged_apart [OF inv that(1) imageI [OF that(2)]] staged_new [OF inv imageI [OF that(2)]] that(3)
    by (metis Un_iff image_eqI set_append)
  moreover have "linked (hashes (staged w t @ table w)) (staged w u)" for u
    by (rule staged_linked [OF inv]) auto
  ultimately show ?thesis
    using staged_inv [OF inv, of t] inv unfolding commit by (auto simp: world_inv_def)
next
  case (rollback t)
  with inv show ?thesis by (auto simp: world_inv_def)
qed

text \<open>A column that sorts the keys keeps what is hashed.\<close>

definition sorted_column :: jsonb where
  "sorted_column p = (case tidy_dicts (PyDict p) of PyDict q \<Rightarrow> q | _ \<Rightarrow> p)"

lemma tidy_tidy: "tidy_dicts (tidy_dicts v) = tidy_dicts v"
proof (induction v rule: tidy_dicts.induct)
  case (2 fs)
  let ?key = "\<lambda>kv :: jsstr \<times> py. map code_point_rank (fst kv)" and ?each = "\<lambda>(k, v). (k, tidy_dicts v)"
  have "?each kv = kv" if "kv \<in> set (map ?each fs)" for kv
    using that 2 by auto
  then have "map ?each (sort_key ?key (map ?each fs)) = sort_key ?key (map ?each fs)"
    by (intro map_idI) (simp only: set_sort)
  then show ?case by (simp add: sort_key_id_if_sorted)
qed (auto intro: map_idI)

lemma sorted_column_keeps: "tidy_dicts (PyDict (sorted_column p)) = tidy_dicts (PyDict p)"
  using tidy_tidy [of "PyDict p"] by (simp add: sorted_column_def)

locale payload_column =
  fixes jsonb :: jsonb
  assumes keeps: "tidy_dicts (PyDict (jsonb p)) = tidy_dicts (PyDict p)"
begin

lemma log_step_inv: "world_inv digest w \<Longrightarrow> audit_step digest jsonb w v \<Longrightarrow> world_inv digest v"
  by (rule audit_step_inv [OF keeps])

end

sublocale payload_column \<subseteq> log: invariant_of "\<lambda>w. w = empty_log" "audit_step digest jsonb" "world_inv digest" for digest
  by unfold_locales (simp add: world_inv_def empty_log_def, rule log_step_inv)

context payload_column
begin

lemma log_inv: "reach (\<lambda>w. w = empty_log) (audit_step digest jsonb) w \<Longrightarrow> world_inv digest w"
  by (rule log.holds)

end

interpretation sorted: payload_column sorted_column
  by unfold_locales (rule sorted_column_keeps)

text \<open>The verifier does not depend on the order in which it gets the entries.\<close>

lemma rooted_cong:
  assumes "by_hash es = by_hash fs"
  shows "rooted es h \<Longrightarrow> rooted fs h"
proof (induction rule: rooted.induct)
  case (link h e)
  from link.hyps(1) have "by_hash fs h = Some e" by (simp only: assms)
  then show ?case using link.IH by (rule rooted.link)
qed (rule rooted.genesis)

lemma valid_chain_order:
  assumes "valid_chain digest es" and "mset fs = mset es"
  shows "valid_chain digest fs"
proof -
  have same: "set fs = set es" using assms(2) by (metis mset_eq_setD)
  have keys: "distinct (map entry_hash fs)"
    using assms by (metis mset_eq_imp_distinct_iff mset_map valid_chain_def)
  have "by_hash es = by_hash fs"
    using assms(1) keys same by (intro map_of_inject_set [THEN iffD2]) (simp_all add: valid_chain_def comp_def)
  then have "rooted fs (entry_hash e)" if "e \<in> set es" for e
    using that assms(1) by (intro rooted_cong [OF \<open>by_hash es = by_hash fs\<close>]) (simp add: valid_chain_def)
  with keys same assms(1) show ?thesis by (simp add: valid_chain_def)
qed

lemma world_inv_valid: "world_inv digest w \<Longrightarrow> valid_chain digest (table w)"
  using linked_rooted by (auto simp: world_inv_def valid_chain_def right_hash_def)

text \<open>C5: 
  Whatever the writers of the audit log do, in any interleaving: entries built on a predecessor that was
  read earlier, appended at once or staged in a transaction that commits or rolls back, refused for a
  hash that exists; the log that is stored verifies, if the payload column gives back an equal object.
\<close>

theorem writers_keep_chain_valid:
  assumes "\<And>p. tidy_dicts (PyDict (jsonb p)) = tidy_dicts (PyDict p)"
    and "reach (\<lambda>w. w = empty_log) (audit_step digest jsonb) w"
  shows "verify_chain digest (all_entries w)"
proof -
  have column: "payload_column jsonb" using assms(1) by (rule payload_column.intro)
  have "world_inv digest w" using assms(2) by (rule payload_column.log_inv [OF column])
  then have "valid_chain digest (all_entries w)"
    by (intro valid_chain_order [OF world_inv_valid]) (simp_all add: all_entries_def)
  then show ?thesis by (simp add: verify_chain_iff)
qed

section \<open>Two entries\<close>

text \<open>A log for the witnesses, whose digest is the text itself.\<close>

definition id_a :: jsstr where "id_a = replicate 32 (unit_of (CHR ''a''))"
definition id_b :: jsstr where "id_b = replicate 32 (unit_of (CHR ''b''))"

definition entry_a :: audit_entry where
  "entry_a = build_entry id GENESIS_HASH id_a (js ''2026'') (js ''u1'') (audit_args (js ''authz.deny''))"

definition entry_b :: "jsstr \<Rightarrow> audit_entry" where
  "entry_b h = build_entry id h id_b (js ''2026'') (js ''u1'') (audit_args (js ''authz.deny''))"

lemma id_digits: "hex_lower (unit_of (CHR ''a'')) = Some (unit_of (CHR ''a''))" "hex_lower (unit_of (CHR ''b'')) = Some (unit_of (CHR ''b''))"
  by (simp_all add: hex_lower_def unit_of_def)

lemma plain_ids: "plain_id id_a" "plain_id id_b"
  by code_simp+

lemma canonical_opens: "\<exists>s. canonical e = unit_of (CHR 0x7B) # s"
  by (simp add: canonical_def dumps_def js_Cons)

lemma canonical_not_genesis: "canonical e \<noteq> GENESIS_HASH"
proof
  obtain s where s: "canonical e = unit_of (CHR 0x7B) # s" using canonical_opens by blast
  assume "canonical e = GENESIS_HASH"
  then have "hd (canonical e) = hd GENESIS_HASH" by (rule arg_cong)
  then show False by (simp add: s GENESIS_HASH_def unit_of_def)
qed

lemma entry_id_field: "map_of (hashed_fields e) (js ''entry_id'') = Some (PyStr (entry_id e))"
  by (simp add: hashed_fields_def)

lemma contents_id: "contents e = contents f \<Longrightarrow> entry_id e = entry_id f"
  using tidy_dict_fields [of "hashed_fields e" "hashed_fields f" "js ''entry_id''"]
  by (simp add: contents_def fields_distinct entry_id_field)

lemma entry_simps:
  "entry_hash entry_a = canonical entry_a" "entry_hash (entry_b h) = canonical (entry_b h)"
  "prev_hash entry_a = GENESIS_HASH" "prev_hash (entry_b h) = h" "entry_id entry_a = id_a" "entry_id (entry_b h) = id_b"
  by (simp_all add: entry_a_def entry_b_def build_entry_simps recompute_hash_def)
     (simp_all add: build_entry_def audit_args_def Let_def)

lemma entries_differ: "canonical entry_a \<noteq> canonical (entry_b h)"
proof
  assume "canonical entry_a = canonical (entry_b h)"
  then have "contents entry_a = contents (entry_b h)" by (simp add: canonical_def dumps_unambiguous contents_def)
  then have "id_a = id_b" by (metis contents_id entry_simps(5,6))
  then show False by (simp add: id_a_def id_b_def unit_of_def)
qed

text \<open>Two writers that read the log at the same time leave two entries with one predecessor.\<close>

theorem writers_keep_chain_valid_witness:
  "\<exists>w. reach (\<lambda>w. w = empty_log) (audit_step id sorted_column) w \<and> map prev_hash (table w) = [GENESIS_HASH, GENESIS_HASH] \<and>
       verify_chain id (all_entries w)"
proof -
  let ?step = "audit_step id sorted_column" and ?b = "entry_b GENESIS_HASH"
  define w1 where "w1 = empty_log\<lparr>unsaved := [entry_a]\<rparr>"
  define w2 where "w2 = w1\<lparr>unsaved := [?b, entry_a]\<rparr>"
  define w3 where "w3 = w2\<lparr>table := [audit_row sorted_column id_a entry_a], unsaved := [?b]\<rparr>"
  define w4 where "w4 = w3\<lparr>table := [audit_row sorted_column id_a ?b, audit_row sorted_column id_a entry_a], unsaved := []\<rparr>"
  have start: "reach (\<lambda>w. w = empty_log) ?step empty_log" by (rule reach_start) simp
  have "?step empty_log w1"
    using audit_step.build [of empty_log GENESIS_HASH id_a "audit_args (js ''authz.deny'')" id sorted_column "js ''2026''" "js ''u1''"]
    by (simp add: w1_def empty_log_def last_hash_def plain_ids audit_args_def entry_a_def)
  note w1 = reach_step [OF start this]
  have "?step w1 w2"
    using audit_step.build [of w1 GENESIS_HASH id_b "audit_args (js ''authz.deny'')" id sorted_column "js ''2026''" "js ''u1''"]
    by (simp add: w1_def w2_def empty_log_def last_hash_def plain_ids audit_args_def entry_b_def)
  note w2 = reach_step [OF w1 this]
  have "?b \<noteq> entry_a" using entries_differ by metis
  then have "?step w2 w3"
    using audit_step.append [of entry_a w2 id sorted_column id_a]
    by (simp add: w1_def w2_def w3_def empty_log_def free_hash_def)
  note w3 = reach_step [OF w2 this]
  have "?step w3 w4"
    using audit_step.append [of ?b w3 id sorted_column id_a] entries_differ [of GENESIS_HASH]
    by (simp add: w1_def w2_def w3_def w4_def empty_log_def free_hash_def entry_simps)
  note w4 = reach_step [OF w3 this]
  have "verify_chain id (all_entries w4)" by (rule writers_keep_chain_valid [OF sorted_column_keeps w4])
  moreover have "map prev_hash (table w4) = [GENESIS_HASH, GENESIS_HASH]" by (simp add: w4_def entry_simps)
  ultimately show ?thesis by (intro exI [of _ w4] conjI w4)
qed

lemma entries_apart: "entry_b h \<noteq> entry_a"
  using entries_differ by metis

lemma one_entry_verifies: "verify_chain id [entry_a]"
proof -
  have "rooted [entry_a] (canonical entry_a)"
    by (rule rooted.link [where e = entry_a]) (simp_all add: entry_simps rooted.genesis)
  then show ?thesis by (simp add: verify_chain_iff valid_chain_def recompute_hash_def entry_simps)
qed

lemma two_entries_verify: "verify_chain id [entry_b (canonical entry_a), entry_a]"
proof -
  let ?b = "entry_b (canonical entry_a)"
  let ?es = "[?b, entry_a]"
  have a: "rooted ?es (canonical entry_a)"
    by (rule rooted.link [where e = entry_a]) (simp_all add: entry_simps entries_differ rooted.genesis)
  have b: "rooted ?es (canonical ?b)"
    by (rule rooted.link [where e = ?b]) (simp_all add: entry_simps a)
  have "distinct (map entry_hash ?es)" by (simp add: entry_simps entries_differ [symmetric])
  moreover have "\<forall>e \<in> set ?es. recompute_hash id e = entry_hash e \<and> rooted ?es (entry_hash e)"
    using a b by (simp add: recompute_hash_def entry_simps)
  ultimately show ?thesis by (simp only: verify_chain_iff valid_chain_def simp_thms)
qed

theorem hash_commits_to_history_witness:
  "\<exists>xs ys. lineage [entry_a] (canonical entry_a) xs \<and> lineage [entry_b (canonical entry_a), entry_a] (canonical entry_a) ys \<and>
     map contents xs = map contents ys"
  by (rule hash_commits_to_history [where digest = id])
     (simp_all add: one_entry_verifies two_entries_verify no_collision_def entry_simps)

theorem deletion_noticed_witness: "\<not> verify_chain id [entry_b (canonical entry_a)]"
  using deletion_noticed [of id "[entry_b (canonical entry_a), entry_a]" entry_a] two_entries_verify
  by (simp add: entry_simps canonical_not_genesis entries_apart entries_apart [symmetric])

end
