(* ===== verification/Backend_Access.thy ===== *)
theory Backend_Access
  imports Audit_Writers
begin

text \<open>
  Who may do what in the Python service: the execution context (\<open>kernel/context.py\<close>), the roles
  (\<open>identity/domain/value_objects.py\<close>), the policy registry and its default policies, the decision
  point and the enforcement point (\<open>kernel/authorization\<close>).  A policy that raises is one that gives no
  answer at all: \<open>None\<close> outside.
\<close>

section \<open>Contexts and roles\<close>

record execution_context =
  ctx_principal_id :: jsstr
  ctx_country :: "jsstr option"
  ctx_tenant_id :: "jsstr option"
  ctx_roles :: "jsstr list"
  ctx_delegated_roles :: "jsstr list"

definition ANONYMOUS_PRINCIPAL_ID :: jsstr where
  "ANONYMOUS_PRINCIPAL_ID = js ''anonymous''"

definition ANONYMOUS :: execution_context where
  "ANONYMOUS = \<lparr>ctx_principal_id = ANONYMOUS_PRINCIPAL_ID, ctx_country = None, ctx_tenant_id = None,
     ctx_roles = [], ctx_delegated_roles = []\<rparr>"

definition is_anonymous :: "execution_context \<Rightarrow> bool" where
  "is_anonymous ctx \<longleftrightarrow> ctx_principal_id ctx = ANONYMOUS_PRINCIPAL_ID"

definition is_authenticated :: "execution_context \<Rightarrow> bool" where
  "is_authenticated ctx \<longleftrightarrow> \<not> is_anonymous ctx"

definition has_any_role :: "execution_context \<Rightarrow> jsstr list \<Rightarrow> bool" where
  "has_any_role ctx wanted \<longleftrightarrow> set (ctx_roles ctx) \<inter> set wanted \<noteq> {}"

definition super_admin :: jsstr where
  "super_admin = js ''super_admin''"

definition GOVERNANCE_ROLES :: "jsstr list" where
  "GOVERNANCE_ROLES = [super_admin, js ''surveyor_general'', js ''compliance_officer'']"

definition PARCEL_REGISTRANT_ROLES :: "jsstr list" where
  "PARCEL_REGISTRANT_ROLES =
     [js ''field_agent'', js ''licensed_surveyor'', js ''surveyor_partner'', js ''surveyor_general'',
      js ''compliance_officer'', super_admin]"

text \<open>A Python string, or none, as a condition.\<close>

definition truthy_py :: "jsstr option \<Rightarrow> bool" where
  "truthy_py s = (case s of None \<Rightarrow> False | Some s \<Rightarrow> s \<noteq> [])"

section \<open>Policies\<close>

datatype decision_effect = PERMIT | DENY

record verdict =
  verdict_effect :: decision_effect
  reason :: jsstr
  obligations :: "(jsstr \<times> (jsstr \<times> py) list) list"
  verdict_policy_id :: "jsstr option"

definition permit :: "jsstr \<Rightarrow> jsstr \<Rightarrow> verdict" where
  "permit r p = \<lparr>verdict_effect = PERMIT, reason = r, obligations = [], verdict_policy_id = Some p\<rparr>"

definition deny :: "jsstr \<Rightarrow> jsstr \<Rightarrow> verdict" where
  "deny r p = \<lparr>verdict_effect = DENY, reason = r, obligations = [], verdict_policy_id = Some p\<rparr>"

definition permitted :: "verdict \<Rightarrow> bool" where
  "permitted d \<longleftrightarrow> verdict_effect d = PERMIT"

type_synonym dict = "jsstr \<rightharpoonup> jsstr"
type_synonym policy_fn = "execution_context \<Rightarrow> jsstr \<Rightarrow> dict \<Rightarrow> dict \<Rightarrow> verdict option option"

record policy =
  policy_id :: jsstr
  priority :: int
  description :: jsstr
  fn :: policy_fn

definition register_policy :: "policy \<Rightarrow> policy list \<Rightarrow> jsstr + policy list" where
  "register_policy p ps =
     (if list_ex (\<lambda>q. policy_id q = policy_id p) ps then Inl (js ''policy already registered: '' @ policy_id p)
      else Inr (sort_key priority (ps @ [p])))"

definition super_admin_allows_everything :: policy_fn where
  "super_admin_allows_everything ctx act target env = Some
     (if has_any_role ctx [super_admin] then Some (permit (js ''super admin'') (js ''platform.super_admin'')) else None)"

definition public_actions :: "jsstr list" where
  "public_actions = [js ''identity.register'', js ''identity.login'', js ''identity.refresh'']"

definition public_action :: "jsstr \<Rightarrow> bool" where
  "public_action act \<longleftrightarrow>
     take (length (js ''platform.public.'')) act = js ''platform.public.'' \<or> act \<in> set public_actions"

definition anonymous_can_only_access_public_actions :: policy_fn where
  "anonymous_can_only_access_public_actions ctx act target env = Some
     (if is_authenticated ctx then None
      else if public_action act then Some (permit (js ''anonymous public action'') (js ''platform.anonymous_public''))
      else Some (deny (js ''anonymous principal not allowed'') (js ''platform.anonymous_default_deny'')))"

definition self_actions :: policy_fn where
  "self_actions ctx act target env = Some
     (if \<not> is_authenticated ctx then None
      else if act \<in> {js ''identity.self.read'', js ''identity.self.logout''}
      then Some (permit (js ''self action'') (js ''identity.self''))
      else if act = js ''identity.user.read'' \<and> target (js ''user_id'') = Some (ctx_principal_id ctx)
      then Some (permit (js ''reading self'') (js ''identity.self.read''))
      else None)"

definition crosses :: "jsstr option \<Rightarrow> jsstr option \<Rightarrow> bool" where
  "crosses wanted own \<longleftrightarrow> truthy_py wanted \<and> truthy_py own \<and> wanted \<noteq> own"

definition tenant_isolation :: policy_fn where
  "tenant_isolation ctx act target env = Some
     (if \<not> is_authenticated ctx then None
      else if crosses (target (js ''tenant_id'')) (ctx_tenant_id ctx) \<and> \<not> has_any_role ctx [super_admin]
      then Some (deny (js ''cross-tenant access denied'') (js ''platform.tenant_isolation''))
      else None)"

definition country_isolation :: policy_fn where
  "country_isolation ctx act target env = Some
     (if \<not> is_authenticated ctx then None
      else if crosses (target (js ''country'')) (ctx_country ctx) \<and> \<not> has_any_role ctx [super_admin]
      then Some (deny (js ''cross-country access denied'') (js ''platform.country_isolation''))
      else None)"

definition default_policies :: "policy list" where
  "default_policies =
     [\<lparr>policy_id = js ''platform.tenant_isolation'', priority = 10,
       description = js ''Deny cross-tenant access unless super_admin'', fn = tenant_isolation\<rparr>,
      \<lparr>policy_id = js ''platform.country_isolation'', priority = 11,
       description = js ''Deny cross-country access unless super_admin'', fn = country_isolation\<rparr>,
      \<lparr>policy_id = js ''platform.super_admin'', priority = 20,
       description = js ''super_admin can do anything within their scope'', fn = super_admin_allows_everything\<rparr>,
      \<lparr>policy_id = js ''platform.anonymous_public'', priority = 30,
       description = js ''Anonymous principals are limited to whitelisted public actions'',
       fn = anonymous_can_only_access_public_actions\<rparr>,
      \<lparr>policy_id = js ''identity.self'', priority = 40,
       description = js ''Any authenticated principal may operate on their own record'', fn = self_actions\<rparr>]"

text \<open>The registry of the process; a registration that fails leaves those before it.\<close>

record policy_registry =
  policies :: "policy list"
  defaults_registered :: bool

fun register_all :: "policy list \<Rightarrow> policy_registry \<Rightarrow> jsstr option \<times> policy_registry" where
  "register_all [] reg = (None, reg\<lparr>defaults_registered := True\<rparr>)"
| "register_all (p # ps) reg =
     (case register_policy p (policies reg) of
        Inl err \<Rightarrow> (Some err, reg)
      | Inr qs \<Rightarrow> register_all ps (reg\<lparr>policies := qs\<rparr>))"

definition register_default_policies :: "policy_registry \<Rightarrow> jsstr option \<times> policy_registry" where
  "register_default_policies reg =
     (if defaults_registered reg then (None, reg) else register_all default_policies reg)"

section \<open>The decision point\<close>

fun decide :: "policy list \<Rightarrow> execution_context \<Rightarrow> jsstr \<Rightarrow> dict \<Rightarrow> dict \<Rightarrow> verdict" where
  "decide [] ctx act target env = deny (js ''no policy granted access (default deny)'') (js ''platform.default_deny'')"
| "decide (p # ps) ctx act target env =
     (case fn p ctx act target env of
        None \<Rightarrow> deny (js ''policy '' @ policy_id p @ js '' crashed'') (policy_id p)
      | Some (Some d) \<Rightarrow> d
      | Some None \<Rightarrow> decide ps ctx act target env)"

definition authorize :: "policy_registry \<Rightarrow> execution_context \<Rightarrow> jsstr \<Rightarrow> dict \<Rightarrow> dict \<Rightarrow> (jsstr + verdict) \<times> policy_registry" where
  "authorize reg ctx act target env =
     (case register_default_policies reg of
        (Some err, reg') \<Rightarrow> (Inl err, reg')
      | (None, reg') \<Rightarrow> (Inr (decide (policies reg') ctx act target env), reg'))"

section \<open>The enforcement point\<close>

text \<open>What a handler raises: an HTTP error with its detail, or any other exception.\<close>

datatype raised = Http nat jsstr | Crash jsstr

definition require_auth :: "execution_context \<Rightarrow> raised + execution_context" where
  "require_auth ctx = (if is_anonymous ctx then Inl (Http 401 (js ''Not authenticated'')) else Inr ctx)"

text \<open>\<open>require_role\<close> writes its denial before it raises.\<close>

definition py_strs :: "jsstr list \<Rightarrow> py" where
  "py_strs ss = PyList (map PyStr ss)"

definition role_denial :: "jsstr list \<Rightarrow> execution_context \<Rightarrow> audit_call" where
  "role_denial wanted ctx = (audit_args (js ''authz.deny''))
     \<lparr>call_resource_type := js ''role_gate'', call_decision := Some (js ''DENY''),
      call_payload := Some [(js ''required'', py_strs wanted), (js ''actual'', py_strs (ctx_roles ctx))]\<rparr>"

definition require_role :: "(jsstr list \<Rightarrow> jsstr) \<Rightarrow> jsstr list \<Rightarrow> execution_context \<Rightarrow> audit_call list \<times> (raised + execution_context)" where
  "require_role show_list wanted ctx =
     (case require_auth ctx of
        Inl e \<Rightarrow> ([], Inl e)
      | Inr _ \<Rightarrow>
          if \<not> has_any_role ctx wanted
          then ([role_denial wanted ctx], Inl (Http 403 (js ''requires one of roles: '' @ show_list wanted)))
          else ([], Inr ctx))"

section \<open>What is permitted\<close>

lemma register_policy_sorted:
  assumes "register_policy p ps = Inr qs" and "distinct (map policy_id ps)"
  shows "sorted (map priority qs)" "distinct (map policy_id qs)" "set qs = insert p (set ps)"
proof -
  have qs: "qs = sort_key priority (ps @ [p])" and new: "policy_id p \<notin> policy_id ` set ps"
    using assms(1) by (auto simp: register_policy_def list_ex_iff split: if_splits)
  show "sorted (map priority qs)" "set qs = insert p (set ps)" by (simp_all add: qs)
  have "distinct (map policy_id (ps @ [p]))" using assms(2) new by simp
  then show "distinct (map policy_id qs)" unfolding qs by (simp add: distinct_map inj_on_def del: map_append)
qed

inductive registered :: "policy list \<Rightarrow> bool" where
  none: "registered []"
| more: "registered ps \<Longrightarrow> register_policy p ps = Inr qs \<Longrightarrow> registered qs"

lemma registered_sorted: "registered ps \<Longrightarrow> sorted (map priority ps) \<and> distinct (map policy_id ps)"
  by (induction rule: registered.induct) (auto dest: register_policy_sorted)

lemma decide_permits:
  "permitted (decide ps ctx act target env) \<Longrightarrow>
     \<exists>before p after d. ps = before @ p # after \<and> fn p ctx act target env = Some (Some d) \<and> permitted d \<and>
       (\<forall>q \<in> set before. fn q ctx act target env = Some None)"
proof (induction ps)
  case Nil
  then show ?case by (simp add: permitted_def deny_def)
next
  case (Cons p ps)
  consider "fn p ctx act target env = None" | d where "fn p ctx act target env = Some (Some d)"
    | "fn p ctx act target env = Some None" by (cases "fn p ctx act target env") auto
  then show ?case
  proof cases
    case 1
    with Cons.prems show ?thesis by (simp add: permitted_def deny_def)
  next
    case (2 d)
    with Cons.prems show ?thesis by (intro exI [of _ "[]"]) simp
  next
    case 3
    with Cons obtain before q after d where
      "ps = before @ q # after" "fn q ctx act target env = Some (Some d)" "permitted d"
      "\<forall>q \<in> set before. fn q ctx act target env = Some None" by auto
    with 3 show ?thesis by (intro exI [of _ "p # before"]) auto
  qed
qed

text \<open>C37: 
  The decision point permits only if a registered policy permits, and every policy with a smaller
  priority number has abstained: no policy that fails, and no order of registration, gives access.
\<close>

theorem permit_needs_a_policy:
  assumes "registered ps" and "permitted (decide ps ctx act target env)"
  shows "\<exists>p \<in> set ps. (\<exists>d. fn p ctx act target env = Some (Some d) \<and> permitted d) \<and>
     (\<forall>q \<in> set ps. priority q < priority p \<longrightarrow> fn q ctx act target env = Some None)"
proof -
  obtain before p after d where ps: "ps = before @ p # after" "fn p ctx act target env = Some (Some d)" "permitted d"
      "\<forall>q \<in> set before. fn q ctx act target env = Some None"
    using decide_permits [OF assms(2)] by blast
  have "sorted (map priority ps)" using registered_sorted [OF assms(1)] by blast
  then have "\<forall>q \<in> set after. priority p \<le> priority q" by (simp add: ps(1) sorted_append)
  then show ?thesis using ps by (intro bexI [of _ p]) (auto simp: not_less [symmetric])
qed

text \<open>With the default policies alone.\<close>

definition no_policies :: policy_registry where
  "no_policies = \<lparr>policies = [], defaults_registered = False\<rparr>"

lemma register_all_registered:
  "register_all ps reg = (e, reg') \<Longrightarrow> registered (policies reg) \<Longrightarrow> registered (policies reg')"
proof (induction ps arbitrary: reg)
  case (Cons p ps)
  show ?case
  proof (cases "register_policy p (policies reg)")
    case (Inr qs)
    with Cons.prems have "registered (policies (reg\<lparr>policies := qs\<rparr>))" by (auto intro: registered.more)
    with Cons.IH Cons.prems(1) Inr show ?thesis by simp
  qed (use Cons.prems in simp)
qed auto

lemma defaults_registered_once:
  "register_default_policies no_policies = (None, \<lparr>policies = default_policies, defaults_registered = True\<rparr>)"
  by (simp add: register_default_policies_def no_policies_def default_policies_def register_policy_def js_def unit_of_def)

text \<open>C16: 
  \<open>authorize\<close> in a fresh process registers the default policies and permits exactly: a super
  administrator, everything; an anonymous caller, the public actions; an authenticated caller whose
  tenant and country the target does not contradict, reading himself and logging out.
\<close>

theorem default_policies_permit:
  "case authorize no_policies ctx act target env of
     (Inl _, _) \<Rightarrow> False
   | (Inr d, reg) \<Rightarrow> reg = \<lparr>policies = default_policies, defaults_registered = True\<rparr> \<and>
       permitted d = (has_any_role ctx [super_admin] \<or> (is_anonymous ctx \<and> public_action act) \<or>
          (is_authenticated ctx \<and> \<not> crosses (target (js ''tenant_id'')) (ctx_tenant_id ctx) \<and>
           \<not> crosses (target (js ''country'')) (ctx_country ctx) \<and>
           (act \<in> {js ''identity.self.read'', js ''identity.self.logout''} \<or>
            act = js ''identity.user.read'' \<and> target (js ''user_id'') = Some (ctx_principal_id ctx))))"
  unfolding authorize_def defaults_registered_once
  by (simp only: prod.case option.case sum.case policy_registry.simps default_policies_def decide.simps policy.simps
        tenant_isolation_def country_isolation_def super_admin_allows_everything_def
        anonymous_can_only_access_public_actions_def self_actions_def)
     (auto simp: is_authenticated_def permit_def deny_def permitted_def split: if_splits)

text \<open>A super administrator who reads a parcel of another tenant.\<close>

lemma defaults_are_registered: "registered default_policies"
  using register_all_registered [of default_policies no_policies None]
  defaults_registered_once by (simp add: register_default_policies_def no_policies_def registered.none)

definition demo_admin :: execution_context where
  "demo_admin = ANONYMOUS\<lparr>ctx_principal_id := js ''admin'', ctx_tenant_id := Some (js ''t1''), ctx_roles := [super_admin]\<rparr>"

theorem permit_needs_a_policy_witness:
  "\<exists>p \<in> set default_policies. (\<exists>d. fn p demo_admin (js ''registry.parcel.read'') [js ''tenant_id'' \<mapsto> js ''t2''] Map.empty = Some (Some d) \<and> permitted d) \<and>
     (\<forall>q \<in> set default_policies. priority q < priority p \<longrightarrow>
        fn q demo_admin (js ''registry.parcel.read'') [js ''tenant_id'' \<mapsto> js ''t2''] Map.empty = Some None)"
  by (rule permit_needs_a_policy [OF defaults_are_registered])
     (simp add: default_policies_def tenant_isolation_def country_isolation_def super_admin_allows_everything_def demo_admin_def
        has_any_role_def permit_def permitted_def)

end
