(* ===== verification/Backend_Registry.thy ===== *)
theory Backend_Registry
  imports Backend_Access
begin

text \<open>
  The parcel registry of the Python service, \<open>backend/app/contexts/registry\<close>: the aggregate
  (\<open>domain/parcel.py\<close>), its histories (\<open>domain/history.py\<close>), the repositories and the number allocator on
  the tables (\<open>adapters/postgres_repositories.py\<close>), the use cases (\<open>application/parcel_service.py\<close>) behind
  the gates of the router, and the transaction around a request (\<open>kernel/uow.py\<close>).  The ten text
  attributes that \<open>setattr\<close> writes are a function of their names.  What a request has audited is part of its
  outcome: \<open>audit\<close> writes through the eager store of the process, in a session of its own that commits at
  once (\<open>main.py\<close>, \<open>uow.py\<close>), so an entry stays whatever becomes of the request's own transaction.
\<close>

section \<open>Data\<close>

record registry_parcel =
  parcel_id :: jsstr
  tenant_id :: jsstr
  country_code :: jsstr
  origin :: jsstr
  created_by :: jsstr
  status :: jsstr
  parcel_number :: "jsstr option"
  details :: "jsstr \<Rightarrow> jsstr option"
  size_sqm :: "jsnum option"
  created_at :: jsstr
  updated_at :: jsstr
  updated_by :: "jsstr option"
  archived_at :: "jsstr option"
  geometry_reference :: "jsstr option"

definition STATUS_ACTIVE :: jsstr where "STATUS_ACTIVE = js ''ACTIVE''"
definition STATUS_ARCHIVED :: jsstr where "STATUS_ARCHIVED = js ''ARCHIVED''"

definition DETAILS :: "jsstr list" where
  "DETAILS = [js ''title'', js ''address'', js ''state'', js ''lga'', js ''ward'', js ''community'', js ''property_type'',
     js ''ownership_type'', js ''current_owner_name'', js ''current_owner_contact'']"

definition UPDATABLE_FIELDS :: "jsstr list" where
  "UPDATABLE_FIELDS = js ''size_sqm'' # DETAILS"

text \<open>A value that an update sets: the request body gives \<open>size_sqm\<close> a number and every other field a text.\<close>

datatype field_change = Text "jsstr option" | Number "jsnum option"

text \<open>\<open>OwnershipAssertion\<close> and \<open>StatusAssertion\<close> have the same fields: what is asserted is a holder or a status.\<close>

record assertion =
  assertion_id :: jsstr
  assertion_tenant_id :: jsstr
  assertion_parcel_id :: jsstr
  asserted :: "jsstr option"
  basis :: jsstr
  recorded_by :: jsstr
  audit_ref :: "jsstr option"
  supersedes_id :: "jsstr option"
  recorded_at :: jsstr

text \<open>The tables, newest row first; their foreign keys to users and tenants are left out, with those tables.\<close>

record parcel_tables =
  parcels :: "registry_parcel list"
  counters :: "jsstr \<rightharpoonup> nat"
  ownership_history :: "assertion list"
  status_history :: "assertion list"

text \<open>
  What a request gets from outside: random ids (one for each call of \<open>uuid4\<close> in the order of the code),
  the clock of the program and that of the transaction, \<open>str.upper\<close>, \<open>repr\<close>, the geometry port.
\<close>

record service_env =
  uuid4 :: "nat \<Rightarrow> jsstr"
  app_now :: jsstr
  db_now :: jsstr
  upper :: "jsstr \<Rightarrow> jsstr"
  repr :: "jsstr \<Rightarrow> jsstr"
  reference_is_valid :: "jsstr \<Rightarrow> jsstr \<Rightarrow> jsstr \<Rightarrow> bool"

text \<open>\<open>str\<close> of a UUID: groups of 8, 4, 4, 4 and 12 digits.\<close>

definition hyphenated :: "jsstr \<Rightarrow> jsstr" where
  "hyphenated h = take 8 h @ js ''-'' @ take 4 (drop 8 h) @ js ''-'' @ take 4 (drop 12 h) @ js ''-'' @
     take 4 (drop 16 h) @ js ''-'' @ drop 20 h"

definition uuid_str :: "jsstr \<Rightarrow> jsstr option" where
  "uuid_str s = map_option hyphenated (uuid_hex s)"

section \<open>The aggregate\<close>

definition new_parcel :: "service_env \<Rightarrow> jsstr \<Rightarrow> jsstr \<Rightarrow> jsstr \<Rightarrow> jsstr \<Rightarrow> (jsstr \<Rightarrow> jsstr option) \<Rightarrow> jsnum option \<Rightarrow> registry_parcel" where
  "new_parcel env tenant country orig creator texts area =
     \<lparr>parcel_id = hyphenated (uuid4 env 0), tenant_id = tenant, country_code = country, origin = orig,
      created_by = creator, status = STATUS_ACTIVE, parcel_number = None, details = texts, size_sqm = area,
      created_at = app_now env, updated_at = app_now env, updated_by = None, archived_at = None,
      geometry_reference = None\<rparr>"

definition is_archived :: "registry_parcel \<Rightarrow> bool" where
  "is_archived p \<longleftrightarrow> status p = STATUS_ARCHIVED"

text \<open>Exceptions of the aggregate: \<open>ParcelArchivedError\<close> and \<open>ValueError\<close>.\<close>

datatype parcel_error = Archived_error jsstr | Value_error jsstr

definition ensure_mutable :: "registry_parcel \<Rightarrow> parcel_error + registry_parcel" where
  "ensure_mutable p = (if is_archived p then Inl (Archived_error (js ''cannot modify an archived parcel'')) else Inr p)"

definition allocate_parcel_number :: "service_env \<Rightarrow> jsstr \<Rightarrow> registry_parcel \<Rightarrow> parcel_error + registry_parcel" where
  "allocate_parcel_number env number p =
     (case ensure_mutable p of
        Inl e \<Rightarrow> Inl e
      | Inr p \<Rightarrow>
          if parcel_number p \<noteq> None then Inl (Value_error (js ''parcel_number already allocated; cannot be reassigned''))
          else Inr (p\<lparr>parcel_number := Some number, updated_at := app_now env\<rparr>))"

definition set_field :: "jsstr \<times> field_change \<Rightarrow> registry_parcel \<Rightarrow> registry_parcel" where
  "set_field kv p =
     (case snd kv of Text s \<Rightarrow> p\<lparr>details := (details p)(fst kv := s)\<rparr> | Number n \<Rightarrow> p\<lparr>size_sqm := n\<rparr>)"

definition update_details :: "service_env \<Rightarrow> jsstr \<Rightarrow> (jsstr \<times> field_change) list \<Rightarrow> registry_parcel \<Rightarrow> parcel_error + registry_parcel" where
  "update_details env updater changes p =
     (case ensure_mutable p of
        Inl e \<Rightarrow> Inl e
      | Inr p \<Rightarrow>
          if \<not> set (map fst changes) \<subseteq> set UPDATABLE_FIELDS then Inl (Value_error (js ''cannot update fields''))
          else Inr ((fold set_field changes p)\<lparr>updated_by := Some updater, updated_at := app_now env\<rparr>))"

definition archive :: "service_env \<Rightarrow> jsstr \<Rightarrow> registry_parcel \<Rightarrow> parcel_error + registry_parcel" where
  "archive env archiver p =
     (case ensure_mutable p of
        Inl e \<Rightarrow> Inl e
      | Inr p \<Rightarrow> Inr (p\<lparr>status := STATUS_ARCHIVED, archived_at := Some (app_now env), updated_by := Some archiver,
          updated_at := app_now env\<rparr>))"

definition set_geometry_reference :: "service_env \<Rightarrow> jsstr option \<Rightarrow> jsstr \<Rightarrow> registry_parcel \<Rightarrow> parcel_error + registry_parcel" where
  "set_geometry_reference env ref updater p =
     (case ensure_mutable p of
        Inl e \<Rightarrow> Inl e
      | Inr p \<Rightarrow> Inr (p\<lparr>geometry_reference := ref, updated_by := Some updater, updated_at := app_now env\<rparr>))"

section \<open>Repositories\<close>

text \<open>The rows that the session sees: \<open>get_db_session\<close> sets the tenant or lifts the restriction.\<close>

definition unrestricted :: "execution_context \<Rightarrow> bool" where
  "unrestricted ctx \<longleftrightarrow> is_anonymous ctx \<or> ctx_tenant_id ctx = None \<or> has_any_role ctx [super_admin]"

definition visible :: "execution_context \<Rightarrow> registry_parcel \<Rightarrow> bool" where
  "visible ctx p \<longleftrightarrow> unrestricted ctx \<or> ctx_tenant_id ctx = Some (tenant_id p)"

definition get_row :: "execution_context \<Rightarrow> jsstr \<Rightarrow> parcel_tables \<Rightarrow> registry_parcel option" where
  "get_row ctx pid reg =
     (case uuid_str pid of None \<Rightarrow> None | Some key \<Rightarrow> find (\<lambda>p. parcel_id p = key \<and> visible ctx p) (parcels reg))"

text \<open>The keys of the table: \<open>id\<close>, and \<open>parcel_number\<close> where there is one.\<close>

definition insertable :: "registry_parcel \<Rightarrow> parcel_tables \<Rightarrow> bool" where
  "insertable p reg \<longleftrightarrow>
     parcel_id p \<notin> parcel_id ` set (parcels reg) \<and>
     (parcel_number p = None \<or> parcel_number p \<notin> parcel_number ` set (parcels reg))"

definition add_row :: "service_env \<Rightarrow> registry_parcel \<Rightarrow> parcel_tables \<Rightarrow> (registry_parcel \<times> parcel_tables) option" where
  "add_row env p reg =
     (case uuid_str (created_by p) of
        None \<Rightarrow> None
      | Some creator \<Rightarrow>
          let row = p\<lparr>parcel_id := (case uuid_str (parcel_id p) of Some i \<Rightarrow> i | None \<Rightarrow> hyphenated (uuid4 env 5)),
                      created_by := creator, created_at := db_now env, updated_at := db_now env, updated_by := None,
                      archived_at := None\<rparr>
          in if insertable row reg then Some (row, reg\<lparr>parcels := row # parcels reg\<rparr>) else None)"

definition list_for_tenant :: "jsstr \<Rightarrow> execution_context \<Rightarrow> parcel_tables \<Rightarrow> registry_parcel list" where
  "list_for_tenant tenant ctx reg =
     rev (sort_key created_at (rev (filter (\<lambda>p. tenant_id p = tenant \<and> visible ctx p) (parcels reg))))"

text \<open>\<open>update\<close> reads the row again and assigns every attribute but the immutable ones.\<close>

definition assign :: "registry_parcel \<Rightarrow> registry_parcel \<Rightarrow> registry_parcel" where
  "assign p row = row\<lparr>status := status p, parcel_number := parcel_number p, details := details p, size_sqm := size_sqm p,
     updated_by := Option.bind (updated_by p) uuid_str, updated_at := updated_at p, archived_at := archived_at p,
     geometry_reference := geometry_reference p\<rparr>"

definition update_row :: "execution_context \<Rightarrow> registry_parcel \<Rightarrow> parcel_tables \<Rightarrow> (registry_parcel \<times> parcel_tables) option" where
  "update_row ctx p reg =
     (case get_row ctx (parcel_id p) reg of
        None \<Rightarrow> None
      | Some row \<Rightarrow>
          if truthy_py (updated_by p) \<and> uuid_str (the (updated_by p)) = None then None
          else Some (assign p row, reg\<lparr>parcels := map (\<lambda>r. if parcel_id r = parcel_id row then assign p r else r) (parcels reg)\<rparr>))"

text \<open>The later of the rows of a history, by the time of their transactions.\<close>

fun newest :: "assertion list \<Rightarrow> assertion option" where
  "newest [] = None"
| "newest (a # as) =
     (case newest as of None \<Rightarrow> Some a | Some b \<Rightarrow> if recorded_at b \<le> recorded_at a then Some a else Some b)"

definition latest_of :: "jsstr \<Rightarrow> assertion list \<Rightarrow> assertion option" where
  "latest_of pid hist = newest (filter (\<lambda>a. assertion_parcel_id a = pid) hist)"

definition new_assertion :: "service_env \<Rightarrow> nat \<Rightarrow> registry_parcel \<Rightarrow> jsstr option \<Rightarrow> jsstr \<Rightarrow> jsstr \<Rightarrow> jsstr \<Rightarrow> assertion option \<Rightarrow> assertion" where
  "new_assertion env i p what why who ref prior =
     \<lparr>assertion_id = hyphenated (uuid4 env i), assertion_tenant_id = tenant_id p, assertion_parcel_id = parcel_id p,
      asserted = what, basis = why, recorded_by = (case uuid_str who of Some u \<Rightarrow> u | None \<Rightarrow> who), audit_ref = Some ref,
      supersedes_id = map_option assertion_id prior, recorded_at = db_now env\<rparr>"

text \<open>\<open>allocate\<close>: one statement that inserts or increments the counter of the country; the column holds two characters.\<close>

definition padded :: "nat \<Rightarrow> jsstr" where
  "padded n = replicate (6 - length (digits_of n)) (unit_of (CHR ''0'')) @ digits_of n"

definition registry_number :: "jsstr \<Rightarrow> nat \<Rightarrow> jsstr" where
  "registry_number country n = js ''LV-'' @ country @ js ''-'' @ padded n"

definition allocate :: "jsstr \<Rightarrow> parcel_tables \<Rightarrow> (jsstr \<times> parcel_tables) option" where
  "allocate country reg =
     (if 2 < length country then None
      else let n = (case counters reg country of None \<Rightarrow> 1 | Some k \<Rightarrow> k + 1)
           in Some (registry_number country n, reg\<lparr>counters := (counters reg)(country \<mapsto> n)\<rparr>))"

section \<open>Use cases\<close>

text \<open>\<open>name or contact or None\<close>, and both when both say something.\<close>

definition asserted_holder_ref :: "jsstr option \<Rightarrow> jsstr option \<Rightarrow> jsstr option" where
  "asserted_holder_ref name contact =
     (if truthy_py name \<and> truthy_py contact then Some (the name @ js '' ('' @ the contact @ js '')'')
      else if truthy_py name then name else if truthy_py contact then contact else None)"

definition holder_of :: "registry_parcel \<Rightarrow> jsstr option" where
  "holder_of p = asserted_holder_ref (details p (js ''current_owner_name'')) (details p (js ''current_owner_contact''))"

definition bad_request :: "jsstr \<Rightarrow> raised" where "bad_request d = Http 400 d"
definition not_found :: raised where "not_found = Http 404 (js ''parcel not found'')"

definition in_scope :: "execution_context \<Rightarrow> jsstr \<Rightarrow> bool" where
  "in_scope ctx tenant \<longleftrightarrow> ctx_tenant_id ctx = Some tenant \<or> has_any_role ctx [super_admin]"

definition can_mutate :: "execution_context \<Rightarrow> registry_parcel \<Rightarrow> bool" where
  "can_mutate ctx p \<longleftrightarrow> created_by p = ctx_principal_id ctx \<or> has_any_role ctx GOVERNANCE_ROLES"

fun joined :: "jsstr \<Rightarrow> jsstr list \<Rightarrow> jsstr" where
  "joined d [] = []"
| "joined d [s] = s"
| "joined d (s # r # rs) = s @ d @ joined d (r # rs)"

text \<open>\<open>sorted\<close> of a set of texts, by code points.\<close>

definition sorted_texts :: "jsstr list \<Rightarrow> jsstr list" where
  "sorted_texts ss = sort_key (map code_point_rank) (remdups ss)"

definition effective_authority :: "execution_context \<Rightarrow> registry_parcel \<Rightarrow> jsstr" where
  "effective_authority ctx p =
     (if created_by p = ctx_principal_id ctx then js ''creator''
      else let granted = sorted_texts (filter (\<lambda>r. r \<in> set GOVERNANCE_ROLES) (ctx_roles ctx))
           in if granted = [] then js ''unknown'' else js ''governance:'' @ joined (js '','') granted)"

definition parcel_view :: "registry_parcel \<Rightarrow> registry_parcel" where
  "parcel_view p = p\<lparr>updated_by := None\<rparr>"

text \<open>An audit entry about a parcel.\<close>

definition parcel_audit :: "jsstr \<Rightarrow> jsstr option \<Rightarrow> registry_parcel \<Rightarrow> jsstr \<Rightarrow> (jsstr \<times> py) list \<Rightarrow> audit_call" where
  "parcel_audit act i p d rest =
     \<lparr>call_action = act, call_resource_type = js ''parcel'', call_resource_id = Some (parcel_id p),
      call_decision = Some d, call_payload = Some ((js ''tenant_id'', PyStr (tenant_id p)) # rest), call_entry_id = i\<rparr>"

text \<open>What an operation leaves: its result or what it raises, the tables of its session, what it has audited.\<close>

type_synonym 'a outcome = "(raised + 'a) \<times> parcel_tables \<times> audit_call list"

fun positive_size :: "jsnum option \<Rightarrow> bool" where
  "positive_size (Some (Fin r)) = (0 < r)"
| "positive_size (Some NegInf) = False"
| "positive_size n = True"

text \<open>The pattern \<open>^[A-Z]{2}$\<close>: \<open>$\<close> matches before a newline at the end, too.\<close>

definition country_code_ok :: "jsstr \<Rightarrow> bool" where
  "country_code_ok s \<longleftrightarrow>
     list_all (\<lambda>c. 65 \<le> c \<and> c \<le> 90) (take 2 s) \<and> (length s = 2 \<or> length s = 3 \<and> s ! 2 = 10)"

definition resolved_country :: "service_env \<Rightarrow> execution_context \<Rightarrow> jsstr option \<Rightarrow> jsstr" where
  "resolved_country env ctx country =
     upper env (if truthy_py country then the country
       else if truthy_py (ctx_country ctx) then the (ctx_country ctx) else js ''NG'')"

definition create_parcel_py ::
  "service_env \<Rightarrow> execution_context \<Rightarrow> jsstr option \<Rightarrow> (jsstr \<Rightarrow> jsstr option) \<Rightarrow> jsnum option \<Rightarrow> parcel_tables \<Rightarrow> registry_parcel outcome" where
  "create_parcel_py env ctx country texts area reg =
     (let cc = resolved_country env ctx country in
      if \<not> truthy_py (ctx_tenant_id ctx)
      then (Inl (bad_request (js ''caller has no tenant to register a parcel within'')), reg, [])
      else if \<not> country_code_ok cc then (Inl (bad_request (js ''invalid country code: '' @ repr env cc)), reg, [])
      else if \<not> positive_size area then (Inl (bad_request (js ''size_sqm must be positive'')), reg, [])
      else let p = new_parcel env (the (ctx_tenant_id ctx)) cc (js ''platform_registration'') (ctx_principal_id ctx) texts area in
        case allocate cc reg of
          None \<Rightarrow> (Inl (Crash (js ''value too long for type character varying(2)'')), reg, [])
        | Some (number, reg) \<Rightarrow>
            (case allocate_parcel_number env number p of
               Inl _ \<Rightarrow> (Inl (Crash (js ''parcel_number'')), reg, [])
             | Inr p \<Rightarrow>
                 (case add_row env p reg of
                    None \<Rightarrow> (Inl (Crash (js ''insert'')), reg, [])
                  | Some (p, reg) \<Rightarrow>
                      let holder = holder_of p;
                          owned = new_assertion env 2 p holder (js ''initial registration'') (ctx_principal_id ctx) (uuid4 env 1) None;
                          reg = (if holder = None then reg else reg\<lparr>ownership_history := owned # ownership_history reg\<rparr>);
                          placed = new_assertion env 4 p (Some (status p)) (js ''initial registration'') (ctx_principal_id ctx)
                            (uuid4 env 3) None;
                          reg = reg\<lparr>status_history := placed # status_history reg\<rparr>
                      in (Inr (parcel_view p), reg,
                          (if holder = None then []
                           else [parcel_audit (js ''registry.parcel_ownership.recorded'') (Some (uuid4 env 1)) p (js ''PERMIT'')
                                   [(js ''asserted_holder_ref'', py_option holder)]]) @
                          [parcel_audit (js ''registry.parcel.created'') (Some (uuid4 env 3)) p (js ''PERMIT'')
                             [(js ''origin'', PyStr (origin p)), (js ''parcel_number'', py_option (parcel_number p))]]))))"

definition get_parcel_py :: "execution_context \<Rightarrow> jsstr \<Rightarrow> parcel_tables \<Rightarrow> registry_parcel outcome" where
  "get_parcel_py ctx pid reg =
     (case get_row ctx pid reg of
        None \<Rightarrow> (Inl not_found, reg, [])
      | Some p \<Rightarrow> if in_scope ctx (tenant_id p) then (Inr (parcel_view p), reg, []) else (Inl not_found, reg, []))"

definition list_parcels_py :: "execution_context \<Rightarrow> parcel_tables \<Rightarrow> registry_parcel list outcome" where
  "list_parcels_py ctx reg =
     (if \<not> truthy_py (ctx_tenant_id ctx) then (Inr [], reg, [])
      else (Inr (map parcel_view (list_for_tenant (the (ctx_tenant_id ctx)) ctx reg)), reg, []))"

definition load_in_scope :: "execution_context \<Rightarrow> jsstr \<Rightarrow> parcel_tables \<Rightarrow> raised + registry_parcel" where
  "load_in_scope ctx pid reg =
     (case get_row ctx pid reg of
        None \<Rightarrow> Inl not_found
      | Some p \<Rightarrow> if in_scope ctx (tenant_id p) then Inr p else Inl not_found)"

definition authorize_mutation :: "execution_context \<Rightarrow> registry_parcel \<Rightarrow> audit_call list \<times> raised option" where
  "authorize_mutation ctx p =
     (if can_mutate ctx p then ([], None)
      else ([parcel_audit (js ''registry.parcel.mutation_denied'') None p (js ''DENY'')
               [(js ''reason'', PyStr (js ''not_creator_and_not_governance'')),
                (js ''delegated_roles'', py_strs (ctx_delegated_roles ctx))]],
            Some (Http 403 (js ''only the parcel's creator or a governance role may modify it''))))"

text \<open>Both checks: what every mutation does first.  The reads of the request end here.\<close>

definition loaded_py :: "execution_context \<Rightarrow> jsstr \<Rightarrow> parcel_tables \<Rightarrow> audit_call list \<times> (raised + registry_parcel)" where
  "loaded_py ctx pid reg =
     (case load_in_scope ctx pid reg of
        Inl e \<Rightarrow> ([], Inl e)
      | Inr p \<Rightarrow> (case authorize_mutation ctx p of (calls, Some e) \<Rightarrow> (calls, Inl e) | (calls, None) \<Rightarrow> (calls, Inr p)))"

definition raised_by :: "parcel_error \<Rightarrow> raised" where
  "raised_by e = (case e of Archived_error d \<Rightarrow> Http 409 d | Value_error d \<Rightarrow> Crash d)"

definition authority :: "execution_context \<Rightarrow> registry_parcel \<Rightarrow> (jsstr \<times> py) list" where
  "authority ctx p =
     [(js ''effective_authority'', PyStr (effective_authority ctx p)),
      (js ''delegated_roles'', py_strs (ctx_delegated_roles ctx))]"

definition finish_update ::
  "service_env \<Rightarrow> execution_context \<Rightarrow> (jsstr \<times> field_change) list \<Rightarrow> registry_parcel \<Rightarrow> parcel_tables \<Rightarrow> registry_parcel outcome" where
  "finish_update env ctx changes p reg =
     (case update_details env (ctx_principal_id ctx) changes p of
        Inl e \<Rightarrow> (Inl (raised_by e), reg, [])
      | Inr q \<Rightarrow>
          (case update_row ctx q reg of
             None \<Rightarrow> (Inl (Crash (js ''parcel not found'')), reg, [])
           | Some (q, reg) \<Rightarrow>
               let holder = holder_of q;
                   owned = new_assertion env 1 q holder (js ''registrant declaration via update_parcel'') (ctx_principal_id ctx)
                     (uuid4 env 0) (latest_of (parcel_id q) (ownership_history reg));
                   changed = (holder \<noteq> holder_of p)
               in if changed \<and> uuid_str (ctx_principal_id ctx) = None
                  then (Inl (Crash (js ''badly formed hexadecimal UUID string'')), reg, [])
                  else
                  (Inr (parcel_view q),
                   (if changed then reg\<lparr>ownership_history := owned # ownership_history reg\<rparr> else reg),
                   (if changed
                    then [parcel_audit (js ''registry.parcel_ownership.changed'') (Some (uuid4 env 0)) q (js ''PERMIT'')
                            [(js ''asserted_holder_ref'', py_option holder)]]
                    else []) @
                   [parcel_audit (js ''registry.parcel.updated'') None q (js ''PERMIT'')
                      (authority ctx q @ [(js ''fields_changed'', py_strs (sorted_texts (map fst changes)))])])))"

definition update_parcel_py ::
  "service_env \<Rightarrow> execution_context \<Rightarrow> jsstr \<Rightarrow> (jsstr \<times> field_change) list \<Rightarrow> parcel_tables \<Rightarrow> registry_parcel outcome" where
  "update_parcel_py env ctx pid changes reg =
     (if changes = [] then (Inl (bad_request (js ''no fields to update'')), reg, [])
      else if \<not> (case map_of changes (js ''size_sqm'') of Some (Number n) \<Rightarrow> positive_size n | _ \<Rightarrow> True)
      then (Inl (bad_request (js ''size_sqm must be positive'')), reg, [])
      else case loaded_py ctx pid reg of
          (calls, Inl e) \<Rightarrow> (Inl e, reg, calls)
        | (calls, Inr p) \<Rightarrow> finish_update env ctx changes p reg)"

definition finish_archive :: "service_env \<Rightarrow> execution_context \<Rightarrow> registry_parcel \<Rightarrow> parcel_tables \<Rightarrow> registry_parcel outcome" where
  "finish_archive env ctx p reg =
     (case archive env (ctx_principal_id ctx) p of
        Inl e \<Rightarrow> (Inl (raised_by e), reg, [])
      | Inr q \<Rightarrow>
          (case update_row ctx q reg of
             None \<Rightarrow> (Inl (Crash (js ''parcel not found'')), reg, [])
           | Some (q, reg) \<Rightarrow>
               let placed = new_assertion env 1 q (Some (status q)) (js ''registrant declaration via archive_parcel'')
                     (ctx_principal_id ctx) (uuid4 env 0) (latest_of (parcel_id q) (status_history reg))
               in if uuid_str (ctx_principal_id ctx) = None
                  then (Inl (Crash (js ''badly formed hexadecimal UUID string'')), reg, [])
                  else
                  (Inr (parcel_view q), reg\<lparr>status_history := placed # status_history reg\<rparr>,
                   [parcel_audit (js ''registry.parcel_status.changed'') (Some (uuid4 env 0)) q (js ''PERMIT'')
                      [(js ''asserted_status'', PyStr (status q))],
                    parcel_audit (js ''registry.parcel.archived'') None q (js ''PERMIT'') (authority ctx q)])))"

definition archive_parcel :: "service_env \<Rightarrow> execution_context \<Rightarrow> jsstr \<Rightarrow> parcel_tables \<Rightarrow> registry_parcel outcome" where
  "archive_parcel env ctx pid reg =
     (case loaded_py ctx pid reg of
        (calls, Inl e) \<Rightarrow> (Inl e, reg, calls)
      | (calls, Inr p) \<Rightarrow> finish_archive env ctx p reg)"

definition set_geometry :: "service_env \<Rightarrow> execution_context \<Rightarrow> jsstr \<Rightarrow> jsstr option \<Rightarrow> parcel_tables \<Rightarrow> registry_parcel outcome" where
  "set_geometry env ctx pid ref reg =
     (case loaded_py ctx pid reg of
        (calls, Inl e) \<Rightarrow> (Inl e, reg, calls)
      | (calls, Inr p) \<Rightarrow>
          if (case ref of None \<Rightarrow> False | Some r \<Rightarrow> \<not> reference_is_valid env r (tenant_id p) pid)
          then (Inl (bad_request (js ''geometry_reference failed validation'')), reg, [])
          else case set_geometry_reference env ref (ctx_principal_id ctx) p of
              Inl e \<Rightarrow> (Inl (raised_by e), reg, [])
            | Inr q \<Rightarrow>
                (case update_row ctx q reg of
                   None \<Rightarrow> (Inl (Crash (js ''parcel not found'')), reg, [])
                 | Some (q, reg) \<Rightarrow>
                     (Inr (parcel_view q), reg,
                      [parcel_audit (if ref = None then js ''registry.parcel.geometry_detached'' else js ''registry.parcel.geometry_attached'')
                         None q (js ''PERMIT'') (authority ctx q)])))"

section \<open>Requests\<close>

datatype registry_request =
    Create_parcel "jsstr option" "jsstr \<Rightarrow> jsstr option" "jsnum option"
  | Get_parcel jsstr
  | List_parcels
  | Update_parcel jsstr "(jsstr \<times> field_change) list"
  | Archive_parcel jsstr
  | Set_geometry jsstr "jsstr option"

definition mutates :: "registry_request \<Rightarrow> bool" where
  "mutates req = (case req of Get_parcel _ \<Rightarrow> False | List_parcels \<Rightarrow> False | _ \<Rightarrow> True)"

text \<open>The gate of the route, then the use case; the views that the reply holds.\<close>

definition one_view :: "registry_parcel outcome \<Rightarrow> registry_parcel list outcome" where
  "one_view r = (case r of (Inl e, rest) \<Rightarrow> (Inl e, rest) | (Inr p, rest) \<Rightarrow> (Inr [p], rest))"

definition run_request :: "service_env \<Rightarrow> execution_context \<Rightarrow> registry_request \<Rightarrow> parcel_tables \<Rightarrow> registry_parcel list outcome" where
  "run_request env ctx req reg =
     (case req of
        Create_parcel country texts area \<Rightarrow> one_view (create_parcel_py env ctx country texts area reg)
      | Get_parcel pid \<Rightarrow> one_view (get_parcel_py ctx pid reg)
      | List_parcels \<Rightarrow> list_parcels_py ctx reg
      | Update_parcel pid changes \<Rightarrow> one_view (update_parcel_py env ctx pid changes reg)
      | Archive_parcel pid \<Rightarrow> one_view (archive_parcel env ctx pid reg)
      | Set_geometry pid ref \<Rightarrow> one_view (set_geometry env ctx pid ref reg))"

definition route_gate :: "(jsstr list \<Rightarrow> jsstr) \<Rightarrow> registry_request \<Rightarrow> execution_context \<Rightarrow> audit_call list \<times> (raised + execution_context)" where
  "route_gate show_list req ctx =
     (if mutates req then require_role show_list PARCEL_REGISTRANT_ROLES ctx else ([], require_auth ctx))"

text \<open>\<open>get_db_session\<close>: an HTTP error commits what the session holds, any other exception rolls it back.\<close>

definition commits :: "raised + 'a \<Rightarrow> bool" where
  "commits r = (case r of Inr _ \<Rightarrow> True | Inl (Http _ _) \<Rightarrow> True | Inl (Crash _) \<Rightarrow> False)"

definition serve :: "(jsstr list \<Rightarrow> jsstr) \<Rightarrow> service_env \<Rightarrow> execution_context \<Rightarrow> registry_request \<Rightarrow> parcel_tables \<Rightarrow> registry_parcel list outcome" where
  "serve show_list env ctx req reg =
     (case route_gate show_list req ctx of
        (calls, Inl e) \<Rightarrow> (Inl e, reg, calls)
      | (calls, Inr ctx) \<Rightarrow>
          (case run_request env ctx req reg of
             (r, reg', calls') \<Rightarrow> (r, if commits r then reg' else reg, calls @ calls')))"

end
