(* ===== verification/Backend_Laws.thy ===== *)
theory Backend_Laws
  imports Backend_Registry
begin

text \<open>
  What the parcel registry of the Python service promises: every request refines a step of a registry
  without gates and transactions, and what follows from that for numbers, histories, tenants and
  archived parcels; and what two requests that overlap can do.
\<close>

section \<open>Identifiers\<close>

definition lower_hex :: "jschar \<Rightarrow> bool" where
  "lower_hex c \<longleftrightarrow> hex_lower c = Some c"

lemma hex_lower_digit: "hex_lower c = Some d \<Longrightarrow> lower_hex d"
  unfolding lower_hex_def hex_lower_def
  by (auto simp: word_le_nat_alt unat_word_ariths split: if_splits)

lemma those_hex: "those (map hex_lower ds) = Some h \<Longrightarrow> list_all lower_hex h \<and> length h = length ds"
  by (induction ds arbitrary: h) (auto simp: hex_lower_digit split: option.splits)

lemma those_digits: "list_all lower_hex h \<Longrightarrow> those (map hex_lower h) = Some h"
  by (induction h) (auto simp: lower_hex_def)

lemma uuid_hex_digits: "uuid_hex s = Some h \<Longrightarrow> list_all lower_hex h \<and> length h = 32"
  by (auto simp: uuid_hex_def Let_def dest: those_hex split: if_splits)

lemma remove_all_of_none: "p \<noteq> [] \<Longrightarrow> hd p \<notin> set s \<Longrightarrow> remove_all_of p s = s"
  by (induction s) (auto simp: neq_Nil_conv)

lemma dropWhile_none: "list_all (\<lambda>c. \<not> P c) s \<Longrightarrow> dropWhile P s = s"
  by (cases s) auto

lemma hex_not: "lower_hex c \<Longrightarrow> c \<noteq> unit_of (CHR ''-'') \<and> c \<noteq> unit_of (CHR ''u'') \<and> \<not> brace c"
  by (auto simp: lower_hex_def hex_lower_def brace_def unit_of_def split: if_splits)

lemma set_hyphenated: "set (hyphenated h) \<subseteq> insert (unit_of (CHR ''-'')) (set h)"
  unfolding hyphenated_def by (auto simp: js_Cons dest: in_set_takeD in_set_dropD)

lemma filter_hyphenated:
  assumes "list_all lower_hex h"
  shows "filter (\<lambda>c. c \<noteq> unit_of (CHR ''-'')) (hyphenated h) = h"
proof -
  have "filter (\<lambda>c. c \<noteq> unit_of (CHR ''-'')) s = s" if "set s \<subseteq> set h" for s
    using that assms hex_not by (intro filter_True) (auto simp: list_all_iff)
  then have "filter (\<lambda>c. c \<noteq> unit_of (CHR ''-'')) (hyphenated h) =
      take 8 h @ take 4 (drop 8 h) @ take 4 (drop 12 h) @ take 4 (drop 16 h) @ drop 20 h"
    unfolding hyphenated_def by (simp add: js_Cons set_take_subset set_drop_subset subset_trans [OF set_take_subset set_drop_subset])
  also have "\<dots> = h"
  proof -
    have "take 4 (drop 16 h) @ drop 20 h = drop 16 h" using append_take_drop_id [of 4 "drop 16 h"] by simp
    moreover have "take 4 (drop 12 h) @ drop 16 h = drop 12 h" using append_take_drop_id [of 4 "drop 12 h"] by simp
    moreover have "take 4 (drop 8 h) @ drop 12 h = drop 8 h" using append_take_drop_id [of 4 "drop 8 h"] by simp
    ultimately show ?thesis by simp
  qed
  finally show ?thesis .
qed

lemma uuid_hex_hyphenated:
  assumes "list_all lower_hex h" and "length h = 32"
  shows "uuid_hex (hyphenated h) = Some h"
proof -
  have each: "c \<noteq> unit_of (CHR ''u'') \<and> \<not> brace c" if "c \<in> set (hyphenated h)" for c
  proof (cases "c = unit_of (CHR ''-'')")
    case True
    then show ?thesis by (simp add: brace_def unit_of_def)
  next
    case False
    then have "lower_hex c" using that set_hyphenated [of h] assms(1) by (auto simp: list_all_iff)
    then show ?thesis using hex_not by blast
  qed
  then have no: "unit_of (CHR ''u'') \<notin> set (hyphenated h)" "list_all (\<lambda>c. \<not> brace c) (hyphenated h)"
    by (auto simp: list_all_iff)
  then have bare: "remove_all_of (js ''uuid:'') (remove_all_of (js ''urn:'') (hyphenated h)) = hyphenated h"
    by (simp add: remove_all_of_none js_Cons)
  have "list_all (\<lambda>c. \<not> brace c) (rev (hyphenated h))" using no(2) by (simp add: list_all_iff)
  with no(2) have strip: "rev (dropWhile brace (rev (dropWhile brace (hyphenated h)))) = hyphenated h"
    by (simp only: dropWhile_none rev_rev_ident)
  show ?thesis
    unfolding uuid_hex_def bare Let_def strip filter_hyphenated [OF assms(1)] using assms by (simp add: those_digits)
qed

lemma uuid_str_again: "uuid_str s = Some k \<Longrightarrow> uuid_str k = Some k"
  using uuid_hex_digits uuid_hex_hyphenated by (auto simp: uuid_str_def)

section \<open>The registry without gates and transactions\<close>

text \<open>
  What a registry of parcels may do: nothing, register a parcel under the next number of its country,
  edit a parcel, archive one.  The last two need the right to, and a parcel that is not archived.
\<close>

definition keeps_identity :: "registry_parcel \<Rightarrow> registry_parcel \<Rightarrow> bool" where
  "keeps_identity p q \<longleftrightarrow> parcel_id q = parcel_id p \<and> tenant_id q = tenant_id p \<and> country_code q = country_code p \<and>
     origin q = origin p \<and> created_by q = created_by p \<and> created_at q = created_at p \<and> parcel_number q = parcel_number p"

definition put :: "registry_parcel \<Rightarrow> parcel_tables \<Rightarrow> parcel_tables" where
  "put q reg = reg\<lparr>parcels := map (\<lambda>r. if parcel_id r = parcel_id q then q else r) (parcels reg)\<rparr>"

definition about :: "assertion \<Rightarrow> registry_parcel \<Rightarrow> jsstr option \<Rightarrow> bool" where
  "about a p what \<longleftrightarrow> assertion_parcel_id a = parcel_id p \<and> assertion_tenant_id a = tenant_id p \<and> asserted a = what"

definition next_number :: "jsstr \<Rightarrow> parcel_tables \<Rightarrow> nat" where
  "next_number cc reg = (case counters reg cc of None \<Rightarrow> 1 | Some k \<Rightarrow> k + 1)"

definition registrant :: "execution_context \<Rightarrow> bool" where
  "registrant ctx \<longleftrightarrow> is_authenticated ctx \<and> has_any_role ctx PARCEL_REGISTRANT_ROLES"

definition may_change :: "execution_context \<Rightarrow> registry_parcel \<Rightarrow> bool" where
  "may_change ctx p \<longleftrightarrow> registrant ctx \<and> in_scope ctx (tenant_id p) \<and> can_mutate ctx p \<and> \<not> is_archived p"

inductive parcel_step :: "execution_context \<Rightarrow> parcel_tables \<Rightarrow> parcel_tables \<Rightarrow> bool" for ctx where
  stays: "parcel_step ctx reg reg"
| registers: "registrant ctx \<Longrightarrow> ctx_tenant_id ctx = Some (tenant_id p) \<Longrightarrow> insertable p reg \<Longrightarrow> status p = STATUS_ACTIVE \<Longrightarrow>
    archived_at p = None \<Longrightarrow> length (country_code p) = 2 \<Longrightarrow>
    parcel_number p = Some (registry_number (country_code p) (next_number (country_code p) reg)) \<Longrightarrow>
    about held p (holder_of p) \<Longrightarrow> about placed p (Some (status p)) \<Longrightarrow>
    parcel_step ctx reg
      \<lparr>parcels = p # parcels reg, counters = (counters reg)(country_code p \<mapsto> next_number (country_code p) reg),
       ownership_history = (if holder_of p = None then ownership_history reg else held # ownership_history reg),
       status_history = placed # status_history reg\<rparr>"
| edits: "p \<in> set (parcels reg) \<Longrightarrow> may_change ctx p \<Longrightarrow> keeps_identity p q \<Longrightarrow> status q = status p \<Longrightarrow>
    archived_at q = archived_at p \<Longrightarrow> about held q (holder_of q) \<Longrightarrow>
    parcel_step ctx reg ((put q reg)\<lparr>ownership_history :=
      (if holder_of q = holder_of p then ownership_history reg else held # ownership_history reg)\<rparr>)"
| archives: "p \<in> set (parcels reg) \<Longrightarrow> may_change ctx p \<Longrightarrow> keeps_identity p q \<Longrightarrow> status q = STATUS_ARCHIVED \<Longrightarrow>
    archived_at q \<noteq> None \<Longrightarrow> details q = details p \<Longrightarrow> about placed q (Some (status q)) \<Longrightarrow>
    parcel_step ctx reg ((put q reg)\<lparr>status_history := placed # status_history reg\<rparr>)"

section \<open>Refinement\<close>

lemma distinct_ids: "distinct (map parcel_id ps) \<Longrightarrow> p \<in> set ps \<Longrightarrow> r \<in> set ps \<Longrightarrow> parcel_id r = parcel_id p \<Longrightarrow> r = p"
  by (auto simp: distinct_map inj_on_def)

lemma get_row_some: "get_row ctx pid reg = Some p \<Longrightarrow> p \<in> set (parcels reg) \<and> visible ctx p \<and> uuid_str pid = Some (parcel_id p)"
  by (auto simp: get_row_def find_Some_iff split: option.splits)

lemma get_row_again: "get_row ctx pid reg = Some p \<Longrightarrow> get_row ctx (parcel_id p) reg = Some p"
  using uuid_str_again by (auto simp: get_row_def find_Some_iff split: option.splits)

lemma loaded_parcel:
  assumes "loaded_py ctx pid reg = (calls, Inr p)"
  shows "calls = []" "p \<in> set (parcels reg)" "in_scope ctx (tenant_id p)" "can_mutate ctx p" "get_row ctx (parcel_id p) reg = Some p"
  using assms get_row_some get_row_again
  by (auto simp: loaded_py_def load_in_scope_def authorize_mutation_def split: option.splits sum.splits if_splits)

lemma update_row_loaded:
  assumes "distinct (map parcel_id (parcels reg))" and "get_row ctx (parcel_id p) reg = Some p" and "parcel_id q = parcel_id p"
    and "update_row ctx q reg = Some (q', reg')"
  shows "q' = assign q p" "reg' = put (assign q p) reg"
proof -
  from assms(2-4) show "q' = assign q p" by (auto simp: update_row_def split: if_splits)
  have "assign q r = assign q p" if "r \<in> set (parcels reg)" "parcel_id r = parcel_id p" for r
    using distinct_ids [OF assms(1) _ that] get_row_some [OF assms(2)] by blast
  with assms(2-4) show "reg' = put (assign q p) reg"
    by (auto simp: update_row_def put_def assign_def split: if_splits)
qed

lemma set_field_keeps:
  "keeps_identity p (set_field kv p)" "status (set_field kv p) = status p" "archived_at (set_field kv p) = archived_at p"
  by (simp_all add: set_field_def keeps_identity_def split: field_change.split)

lemma fold_set_field_keeps:
  "keeps_identity p (fold set_field kvs p) \<and> status (fold set_field kvs p) = status p \<and> archived_at (fold set_field kvs p) = archived_at p"
proof (induction kvs arbitrary: p)
  case (Cons kv kvs)
  with set_field_keeps [where p = p and kv = kv] Cons [of "set_field kv p"] show ?case by (simp add: keeps_identity_def)
qed (simp add: keeps_identity_def)

lemma update_details_keeps:
  "update_details env who changes p = Inr q \<Longrightarrow>
     \<not> is_archived p \<and> keeps_identity p q \<and> status q = status p \<and> archived_at q = archived_at p"
  using fold_set_field_keeps [of p changes]
  by (auto simp: update_details_def ensure_mutable_def keeps_identity_def split: if_splits)

lemma archive_effect:
  "archive env who p = Inr q \<Longrightarrow>
     \<not> is_archived p \<and> keeps_identity p q \<and> status q = STATUS_ARCHIVED \<and> archived_at q \<noteq> None \<and> details q = details p"
  by (auto simp: archive_def ensure_mutable_def keeps_identity_def split: if_splits)

lemma set_geometry_keeps:
  "set_geometry_reference env ref who p = Inr q \<Longrightarrow>
     \<not> is_archived p \<and> keeps_identity p q \<and> status q = status p \<and> archived_at q = archived_at p \<and> details q = details p"
  by (auto simp: set_geometry_reference_def ensure_mutable_def keeps_identity_def split: if_splits)

lemma assign_simps [simp]:
  "parcel_id (assign q p) = parcel_id p" "tenant_id (assign q p) = tenant_id p" "status (assign q p) = status q"
  "archived_at (assign q p) = archived_at q" "details (assign q p) = details q" "holder_of (assign q p) = holder_of q"
  "keeps_identity p (assign q p) \<longleftrightarrow> parcel_number q = parcel_number p"
  by (simp_all add: assign_def keeps_identity_def holder_of_def)

lemma about_new [simp]: "about (new_assertion env i p what why who ref prior) p what"
  by (simp add: about_def new_assertion_def)

text \<open>A loaded parcel that the caller may change, and what is written of it.\<close>

definition held_by :: "execution_context \<Rightarrow> registry_parcel \<Rightarrow> parcel_tables \<Rightarrow> bool" where
  "held_by ctx p reg \<longleftrightarrow> registrant ctx \<and> distinct (map parcel_id (parcels reg)) \<and> p \<in> set (parcels reg) \<and>
     in_scope ctx (tenant_id p) \<and> can_mutate ctx p \<and> get_row ctx (parcel_id p) reg = Some p"

lemma loaded_held:
  "registrant ctx \<Longrightarrow> distinct (map parcel_id (parcels reg)) \<Longrightarrow> loaded_py ctx pid reg = (calls, Inr p) \<Longrightarrow> held_by ctx p reg"
  by (simp add: held_by_def loaded_parcel)

lemma finish_update_step:
  assumes "held_by ctx p reg" and "finish_update env ctx changes p reg = (r, reg', calls)" and "commits r"
  shows "parcel_step ctx reg reg'"
proof (cases "update_details env (ctx_principal_id ctx) changes p")
  case (Inl e)
  with assms(2) show ?thesis by (simp add: finish_update_def parcel_step.stays)
next
  case (Inr q)
  note q = update_details_keeps [OF Inr]
  then have same: "parcel_id q = parcel_id p" "parcel_number q = parcel_number p" by (simp_all add: keeps_identity_def)
  show ?thesis
  proof (cases "update_row ctx q reg")
    case None
    with Inr assms(2) show ?thesis by (simp add: finish_update_def parcel_step.stays)
  next
    case (Some res)
    obtain q' reg1 where res: "res = (q', reg1)" by (rule prod.exhaust)
    have row: "q' = assign q p" "reg1 = put (assign q p) reg"
      using update_row_loaded [of reg ctx p q q' reg1] assms(1) same Some res by (auto simp: held_by_def)
    define held where "held = new_assertion env 1 (assign q p) (holder_of q) (js ''registrant declaration via update_parcel'')
      (ctx_principal_id ctx) (uuid4 env 0) (latest_of (parcel_id p) (ownership_history (put (assign q p) reg)))"
    have "parcel_step ctx reg ((put (assign q p) reg)\<lparr>ownership_history :=
        (if holder_of (assign q p) = holder_of p then ownership_history reg else held # ownership_history reg)\<rparr>)"
      using assms(1) q same by (intro parcel_step.edits) (simp_all add: held_by_def may_change_def held_def)
    moreover have "reg' = \<dots>"
      using assms(2,3) Inr Some res row
      by (auto simp: finish_update_def Let_def held_def put_def commits_def split: if_splits)
    ultimately show ?thesis by simp
  qed
qed

lemma finish_archive_step:
  assumes "held_by ctx p reg" and "finish_archive env ctx p reg = (r, reg', calls)" and "commits r"
  shows "parcel_step ctx reg reg'"
proof (cases "archive env (ctx_principal_id ctx) p")
  case (Inl e)
  with assms(2) show ?thesis by (simp add: finish_archive_def parcel_step.stays)
next
  case (Inr q)
  note q = archive_effect [OF Inr]
  then have same: "parcel_id q = parcel_id p" "parcel_number q = parcel_number p" by (simp_all add: keeps_identity_def)
  show ?thesis
  proof (cases "update_row ctx q reg")
    case None
    with Inr assms(2) show ?thesis by (simp add: finish_archive_def parcel_step.stays)
  next
    case (Some res)
    obtain q' reg1 where res: "res = (q', reg1)" by (rule prod.exhaust)
    have row: "q' = assign q p" "reg1 = put (assign q p) reg"
      using update_row_loaded [of reg ctx p q q' reg1] assms(1) same Some res by (auto simp: held_by_def)
    define placed where "placed = new_assertion env 1 (assign q p) (Some (status q)) (js ''registrant declaration via archive_parcel'')
      (ctx_principal_id ctx) (uuid4 env 0) (latest_of (parcel_id p) (status_history (put (assign q p) reg)))"
    have "parcel_step ctx reg ((put (assign q p) reg)\<lparr>status_history := placed # status_history reg\<rparr>)"
      using assms(1) q same by (intro parcel_step.archives) (simp_all add: held_by_def may_change_def placed_def)
    moreover have "reg' = \<dots>"
      using assms(2,3) Inr Some res row
      by (auto simp: finish_archive_def Let_def placed_def put_def commits_def split: if_splits)
    ultimately show ?thesis by simp
  qed
qed

lemma set_geometry_step:
  assumes "registrant ctx" "distinct (map parcel_id (parcels reg))" and "set_geometry env ctx pid ref reg = (r, reg', calls)"
  shows "parcel_step ctx reg reg'"
proof (cases "reg' = reg")
  case True
  then show ?thesis by (simp add: parcel_step.stays)
next
  case False
  then obtain calls' p q q' where steps: "loaded_py ctx pid reg = (calls', Inr p)"
      "set_geometry_reference env ref (ctx_principal_id ctx) p = Inr q" "update_row ctx q reg = Some (q', reg')"
    using assms(3) by (auto simp: set_geometry_def split: prod.splits sum.splits option.splits if_splits)
  have held: "held_by ctx p reg" using loaded_held [OF assms(1,2) steps(1)] .
  note q = set_geometry_keeps [OF steps(2)]
  then have same: "parcel_id q = parcel_id p" "parcel_number q = parcel_number p" by (simp_all add: keeps_identity_def)
  have "reg' = put (assign q p) reg"
    using update_row_loaded(2) [OF assms(2) _ same(1) steps(3)] held by (simp add: held_by_def)
  moreover have holder: "holder_of q = holder_of p" using q by (simp add: holder_of_def)
  moreover have "parcel_step ctx reg ((put (assign q p) reg)\<lparr>ownership_history :=
      (if holder_of (assign q p) = holder_of p then ownership_history reg else held # ownership_history reg)\<rparr>)"
    if "about held (assign q p) (holder_of (assign q p))" for held
    using held q same that by (intro parcel_step.edits) (simp_all add: held_by_def may_change_def)
  from this [OF about_new] have "parcel_step ctx reg ((put (assign q p) reg)\<lparr>ownership_history := ownership_history reg\<rparr>)"
    by (simp add: holder)
  ultimately show ?thesis by (simp add: put_def)
qed

lemma create_parcel_step:
  assumes "registrant ctx" and "create_parcel_py env ctx country texts area reg = (r, reg', calls)" and "commits r"
  shows "parcel_step ctx reg reg'"
proof (cases "reg' = reg")
  case True
  then show ?thesis by (simp add: parcel_step.stays)
next
  case False
  let ?cc = "resolved_country env ctx country"
  let ?new = "new_parcel env (the (ctx_tenant_id ctx)) ?cc (js ''platform_registration'') (ctx_principal_id ctx) texts area"
  obtain number reg1 p1 p reg2 where steps: "truthy_py (ctx_tenant_id ctx)" "country_code_ok ?cc"
      "allocate ?cc reg = Some (number, reg1)" "allocate_parcel_number env number ?new = Inr p1" "add_row env p1 reg1 = Some (p, reg2)"
    using assms(2,3) False
    by (auto simp: create_parcel_py_def Let_def commits_def split: option.splits sum.splits prod.splits if_splits)
  obtain tenant where tenant: "ctx_tenant_id ctx = Some tenant" using steps(1) by (auto simp: truthy_py_def split: option.splits)
  have two: "length ?cc = 2" using steps(2,3) by (auto simp: country_code_ok_def allocate_def split: if_splits)
  have number: "number = registry_number ?cc (next_number ?cc reg)" "reg1 = reg\<lparr>counters := (counters reg)(?cc \<mapsto> next_number ?cc reg)\<rparr>"
    using steps(3) by (auto simp: allocate_def next_number_def Let_def split: if_splits)
  have p1: "p1 = ?new\<lparr>parcel_number := Some number, updated_at := app_now env\<rparr>"
    using steps(4) by (auto simp: allocate_parcel_number_def ensure_mutable_def split: if_splits sum.splits)
  have row: "insertable p reg1" "reg2 = reg1\<lparr>parcels := p # parcels reg1\<rparr>" "country_code p = ?cc" "tenant_id p = tenant"
      "status p = STATUS_ACTIVE" "archived_at p = None" "parcel_number p = Some number"
    using steps(5) by (auto simp: add_row_def p1 new_parcel_def tenant Let_def split: option.splits if_splits)
  define held where "held = new_assertion env 2 p (holder_of p) (js ''initial registration'') (ctx_principal_id ctx) (uuid4 env 1) None"
  define placed where "placed = new_assertion env 4 p (Some (status p)) (js ''initial registration'') (ctx_principal_id ctx) (uuid4 env 3) None"
  have "parcel_step ctx reg
      \<lparr>parcels = p # parcels reg, counters = (counters reg)(country_code p \<mapsto> next_number (country_code p) reg),
       ownership_history = (if holder_of p = None then ownership_history reg else held # ownership_history reg),
       status_history = placed # status_history reg\<rparr>"
    using assms(1) row two number tenant
    by (intro parcel_step.registers) (simp_all add: insertable_def held_def placed_def)
  moreover have "reg' = \<dots>"
    using assms(2,3) steps row number False
    by (auto simp: create_parcel_py_def Let_def held_def placed_def split: if_splits)
  ultimately show ?thesis by simp
qed

lemma run_request_step:
  assumes "distinct (map parcel_id (parcels reg))" and "mutates req \<Longrightarrow> registrant ctx"
    and "run_request env ctx req reg = (r, reg', calls)" and "commits r"
  shows "parcel_step ctx reg reg'"
proof (cases req)
  case (Create_parcel country texts area)
  then obtain r1 where "create_parcel_py env ctx country texts area reg = (r1, reg', calls)" "commits r1"
    using assms(3,4) by (auto simp: run_request_def one_view_def commits_def split: prod.splits sum.splits)
  then show ?thesis using create_parcel_step assms(2) Create_parcel by (auto simp: mutates_def)
next
  case (Get_parcel pid)
  with assms(3) have "reg' = reg"
    by (auto simp: run_request_def one_view_def get_parcel_py_def split: prod.splits sum.splits option.splits if_splits)
  then show ?thesis by (simp add: parcel_step.stays)
next
  case List_parcels
  with assms(3) have "reg' = reg" by (auto simp: run_request_def list_parcels_py_def split: if_splits)
  then show ?thesis by (simp add: parcel_step.stays)
next
  case (Update_parcel pid changes)
  have "reg' = reg \<or> (\<exists>calls' p r1. loaded_py ctx pid reg = (calls', Inr p) \<and> finish_update env ctx changes p reg = (r1, reg', calls) \<and> commits r1)"
    using assms(3,4) Update_parcel
    by (auto simp: run_request_def one_view_def update_parcel_py_def commits_def split: prod.splits sum.splits if_splits)
  then show ?thesis
    using assms(2) Update_parcel by (auto simp: mutates_def intro: parcel_step.stays finish_update_step loaded_held [OF _ assms(1)])
next
  case (Archive_parcel pid)
  have "reg' = reg \<or> (\<exists>calls' p r1. loaded_py ctx pid reg = (calls', Inr p) \<and> finish_archive env ctx p reg = (r1, reg', calls) \<and> commits r1)"
    using assms(3,4) Archive_parcel
    by (auto simp: run_request_def one_view_def archive_parcel_def commits_def split: prod.splits sum.splits if_splits)
  then show ?thesis
    using assms(2) Archive_parcel by (auto simp: mutates_def intro: parcel_step.stays finish_archive_step loaded_held [OF _ assms(1)])
next
  case (Set_geometry pid ref)
  then obtain r1 where "set_geometry env ctx pid ref reg = (r1, reg', calls)"
    using assms(3) by (auto simp: run_request_def one_view_def split: prod.splits sum.splits)
  then show ?thesis using set_geometry_step [OF _ assms(1)] assms(2) Set_geometry by (auto simp: mutates_def)
qed

lemma gate_passes: "route_gate show_list req ctx = (calls, Inr ctx') \<Longrightarrow> ctx' = ctx \<and> (mutates req \<longrightarrow> registrant ctx)"
  by (auto simp: route_gate_def require_role_def require_auth_def registrant_def is_authenticated_def split: sum.splits if_splits)

lemma serve_registry_step:
  assumes "distinct (map parcel_id (parcels reg))" and "serve show_list env ctx req reg = (r, reg', calls)"
  shows "parcel_step ctx reg reg'"
proof (cases "route_gate show_list req ctx")
  case (Pair calls' res)
  show ?thesis
  proof (cases res)
    case (Inl e)
    with Pair assms(2) show ?thesis by (simp add: serve_def parcel_step.stays)
  next
    case (Inr ctx')
    then have ctx: "ctx' = ctx" "mutates req \<Longrightarrow> registrant ctx" using gate_passes Pair by auto
    obtain r1 reg1 calls1 where run: "run_request env ctx req reg = (r1, reg1, calls1)" by (metis prod_cases3)
    from run_request_step [OF assms(1) ctx(2) run] run Pair Inr ctx(1) assms(2) show ?thesis
      by (cases "commits r1") (auto simp: serve_def parcel_step.stays)
  qed
qed

section \<open>The tables after any requests\<close>

text \<open>What the histories say last of a parcel.\<close>

definition last_asserted :: "jsstr \<Rightarrow> assertion list \<Rightarrow> jsstr option option" where
  "last_asserted pid hist = map_option asserted (find (\<lambda>a. assertion_parcel_id a = pid) hist)"

definition issued :: "jsstr \<Rightarrow> parcel_tables \<Rightarrow> nat" where
  "issued cc reg = (case counters reg cc of None \<Rightarrow> 0 | Some k \<Rightarrow> k)"

definition numbers_right :: "parcel_tables \<Rightarrow> bool" where
  "numbers_right reg \<longleftrightarrow> distinct (map parcel_number (parcels reg)) \<and>
     (\<forall>cc. parcel_number ` {p \<in> set (parcels reg). country_code p = cc} = (\<lambda>n. Some (registry_number cc n)) ` {1..issued cc reg})"

definition histories_right :: "parcel_tables \<Rightarrow> bool" where
  "histories_right reg \<longleftrightarrow>
     (\<forall>p \<in> set (parcels reg). last_asserted (parcel_id p) (status_history reg) = Some (Some (status p)) \<and>
        Option.bind (last_asserted (parcel_id p) (ownership_history reg)) (\<lambda>h. h) = holder_of p) \<and>
     (\<forall>a \<in> set (ownership_history reg). assertion_parcel_id a \<in> parcel_id ` set (parcels reg))"

definition states_right :: "parcel_tables \<Rightarrow> bool" where
  "states_right reg \<longleftrightarrow> (\<forall>p \<in> set (parcels reg).
     if archived_at p = None then status p = STATUS_ACTIVE else status p = STATUS_ARCHIVED)"

definition registry_inv :: "parcel_tables \<Rightarrow> bool" where
  "registry_inv reg \<longleftrightarrow> distinct (map parcel_id (parcels reg)) \<and> numbers_right reg \<and> histories_right reg \<and> states_right reg"

definition empty_registry :: parcel_tables where
  "empty_registry = \<lparr>parcels = [], counters = Map.empty, ownership_history = [], status_history = []\<rparr>"

lemma last_asserted_simps [simp]:
  "last_asserted pid [] = None"
  "last_asserted pid (a # as) = (if assertion_parcel_id a = pid then Some (asserted a) else last_asserted pid as)"
  by (simp_all add: last_asserted_def)

lemma last_asserted_none: "pid \<notin> assertion_parcel_id ` set hist \<Longrightarrow> last_asserted pid hist = None"
  by (induction hist) auto

lemma issued_next: "issued cc (reg\<lparr>counters := (counters reg)(c \<mapsto> next_number c reg)\<rparr>) = (if cc = c then Suc (issued c reg) else issued cc reg)"
  by (simp add: issued_def next_number_def split: option.split)

lemma put_parcels:
  assumes "distinct (map parcel_id (parcels reg))" and "p \<in> set (parcels reg)" and "keeps_identity p q"
  shows "map parcel_id (parcels (put q reg)) = map parcel_id (parcels reg)"
    "map parcel_number (parcels (put q reg)) = map parcel_number (parcels reg)"
    "map country_code (parcels (put q reg)) = map country_code (parcels reg)"
    "set (parcels (put q reg)) = insert q (set (parcels reg) - {p})"
proof -
  have one: "r = p" if "r \<in> set (parcels reg)" "parcel_id r = parcel_id p" for r
    using distinct_ids [OF assms(1,2) that] .
  have p: "parcel_id q = parcel_id p" "parcel_number q = parcel_number p" "country_code q = country_code p"
    using assms(3) by (simp_all add: keeps_identity_def)
  show "map parcel_id (parcels (put q reg)) = map parcel_id (parcels reg)"
    "map parcel_number (parcels (put q reg)) = map parcel_number (parcels reg)"
    "map country_code (parcels (put q reg)) = map country_code (parcels reg)"
    using one p by (auto simp: put_def)
  show "set (parcels (put q reg)) = insert q (set (parcels reg) - {p})"
    using one p assms(2) by (auto simp: put_def image_iff split: if_splits)
qed

lemma numbers_right_put:
  assumes "distinct (map parcel_id (parcels reg))" "p \<in> set (parcels reg)" "keeps_identity p q" and "numbers_right reg"
  shows "numbers_right (put q reg)"
proof -
  have "parcel_number ` {r \<in> set (parcels (put q reg)). country_code r = cc} = parcel_number ` {r \<in> set (parcels reg). country_code r = cc}" for cc
    using assms(2,3) put_parcels(4) [OF assms(1-3)] by (auto simp: keeps_identity_def image_iff) metis
  moreover have "issued cc (put q reg) = issued cc reg" for cc by (simp add: issued_def put_def)
  ultimately show ?thesis
    using assms(4) unfolding numbers_right_def put_parcels(2) [OF assms(1-3)] by simp
qed

lemma numbers_right_register:
  assumes "numbers_right reg" and "insertable p reg"
    and "parcel_number p = Some (registry_number (country_code p) (next_number (country_code p) reg))"
    and "parcels reg' = p # parcels reg" "counters reg' = (counters reg)(country_code p \<mapsto> next_number (country_code p) reg)"
  shows "numbers_right reg'"
proof -
  have issued: "issued cc reg' = (if cc = country_code p then Suc (issued cc reg) else issued cc reg)" for cc
    using assms(5) by (simp add: issued_def next_number_def split: option.split)
  have following: "next_number cc reg = Suc (issued cc reg)" for cc
    by (simp add: issued_def next_number_def split: option.split)
  have "parcel_number ` {r \<in> set (parcels reg'). country_code r = cc} = (\<lambda>n. Some (registry_number cc n)) ` {1..issued cc reg'}" for cc
  proof (cases "cc = country_code p")
    case True
    have "{r \<in> set (parcels reg'). country_code r = cc} = insert p {r \<in> set (parcels reg). country_code r = cc}"
      using True assms(4) by auto
    moreover have "{1..issued cc reg'} = insert (Suc (issued cc reg)) {1..issued cc reg}"
      using True issued by auto
    ultimately show ?thesis using assms(1,3) True by (simp add: numbers_right_def following)
  next
    case False
    then have "{r \<in> set (parcels reg'). country_code r = cc} = {r \<in> set (parcels reg). country_code r = cc}"
      using assms(4) by auto
    with False issued assms(1) show ?thesis by (simp add: numbers_right_def)
  qed
  moreover have "distinct (map parcel_number (parcels reg'))"
    using assms(1-4) by (simp add: numbers_right_def insertable_def)
  ultimately show ?thesis by (simp add: numbers_right_def)
qed

lemma histories_right_put:
  assumes "distinct (map parcel_id (parcels reg))" "p \<in> set (parcels reg)" "keeps_identity p q" and "histories_right reg"
    and "parcels reg' = parcels (put q reg)"
    and "ownership_history reg' = (if holder_of q = holder_of p then ownership_history reg else held # ownership_history reg)"
    and "about held q (holder_of q)"
    and "status_history reg' = (if status q = status p then status_history reg else placed # status_history reg) \<or>
      status_history reg' = placed # status_history reg"
    and "about placed q (Some (status q))"
  shows "histories_right reg'"
proof -
  have ids: "parcel_id ` set (parcels reg') = parcel_id ` set (parcels reg)"
    using put_parcels(1) [OF assms(1-3)] assms(5) by (metis list.set_map)
  have rows: "set (parcels reg') = insert q (set (parcels reg) - {p})" using put_parcels(4) [OF assms(1-3)] assms(5) by simp
  have same: "parcel_id q = parcel_id p" using assms(3) by (simp add: keeps_identity_def)
  have other: "parcel_id r \<noteq> parcel_id q" if "r \<in> set (parcels reg) - {p}" for r
    using that distinct_ids [OF assms(1,2)] same by auto
  have old: "last_asserted (parcel_id r) (status_history reg) = Some (Some (status r))"
      "Option.bind (last_asserted (parcel_id r) (ownership_history reg)) (\<lambda>h. h) = holder_of r"
    if "r \<in> set (parcels reg)" for r
    using assms(4) that by (simp_all add: histories_right_def)
  have q: "last_asserted (parcel_id q) (status_history reg') = Some (Some (status q))"
      "Option.bind (last_asserted (parcel_id q) (ownership_history reg')) (\<lambda>h. h) = holder_of q"
    using assms(6-9) old [OF assms(2)] same by (auto simp: about_def)
  have r: "last_asserted (parcel_id r) (status_history reg') = Some (Some (status r))"
      "Option.bind (last_asserted (parcel_id r) (ownership_history reg')) (\<lambda>h. h) = holder_of r"
    if "r \<in> set (parcels reg) - {p}" for r
    using that assms(6-9) old [of r] other [OF that] by (auto simp: about_def)
  have "assertion_parcel_id a \<in> parcel_id ` set (parcels reg)" if "a \<in> set (ownership_history reg')" for a
    using that assms(4,6,7) same assms(2) by (auto simp: histories_right_def about_def split: if_splits)
  with q r ids show ?thesis by (auto simp: histories_right_def rows)
qed

lemma histories_right_register:
  assumes "histories_right reg" and "insertable p reg" and "parcels reg' = p # parcels reg"
    and "ownership_history reg' = (if holder_of p = None then ownership_history reg else held # ownership_history reg)"
    and "about held p (holder_of p)" and "status_history reg' = placed # status_history reg" and "about placed p (Some (status p))"
  shows "histories_right reg'"
proof -
  have new: "parcel_id r \<noteq> parcel_id p" if "r \<in> set (parcels reg)" for r
    using that assms(2) by (metis image_eqI insertable_def)
  have "parcel_id p \<notin> assertion_parcel_id ` set (ownership_history reg)"
    using assms(1,2) by (auto simp: histories_right_def insertable_def)
  then have "last_asserted (parcel_id p) (ownership_history reg) = None" by (rule last_asserted_none)
  then have p: "last_asserted (parcel_id p) (status_history reg') = Some (Some (status p))"
      "Option.bind (last_asserted (parcel_id p) (ownership_history reg')) (\<lambda>h. h) = holder_of p"
    using assms(4-7) by (auto simp: about_def)
  have r: "last_asserted (parcel_id r) (status_history reg') = Some (Some (status r))"
      "Option.bind (last_asserted (parcel_id r) (ownership_history reg')) (\<lambda>h. h) = holder_of r"
    if "r \<in> set (parcels reg)" for r
    using that assms(1,4-7) new [OF that] by (auto simp: histories_right_def about_def)
  have "assertion_parcel_id a \<in> parcel_id ` set (parcels reg')" if "a \<in> set (ownership_history reg')" for a
    using that assms(1,3-5) by (auto simp: histories_right_def about_def split: if_splits)
  with p r show ?thesis by (auto simp: histories_right_def assms(3))
qed

lemma registry_step_inv:
  assumes "registry_inv reg" and "parcel_step ctx reg reg'"
  shows "registry_inv reg'"
  using assms(2)
proof cases
  case stays
  with assms(1) show ?thesis by simp
next
  case (registers p held placed)
  have "numbers_right reg'"
    by (rule numbers_right_register [of reg p]) (use assms(1) registers in \<open>simp_all add: registry_inv_def\<close>)
  moreover have "histories_right reg'"
    by (rule histories_right_register [of reg p reg' held placed]) (use assms(1) registers in \<open>simp_all add: registry_inv_def\<close>)
  moreover have "distinct (map parcel_id (parcels reg'))" "states_right reg'"
    using assms(1) registers by (auto simp: registry_inv_def insertable_def states_right_def)
  ultimately show ?thesis by (simp add: registry_inv_def)
next
  case (edits p q held)
  note rows = put_parcels [of reg p q]
  have "numbers_right (put q reg)"
    by (rule numbers_right_put [of reg p q]) (use assms(1) edits in \<open>simp_all add: registry_inv_def\<close>)
  then have "numbers_right reg'" unfolding edits(1) by (simp add: numbers_right_def issued_def)
  have "about (new_assertion env 0 q (Some (status q)) [] [] [] None) q (Some (status q))" for env by simp
  then obtain placed where placed: "about placed q (Some (status q))" by blast
  have "histories_right reg'"
    by (rule histories_right_put [of reg p q reg' held placed]) (use assms(1) edits placed in \<open>simp_all add: registry_inv_def put_def\<close>)
  moreover note \<open>numbers_right reg'\<close>
  moreover have "distinct (map parcel_id (parcels reg'))" using assms(1) edits rows(1) by (simp add: registry_inv_def)
  moreover have "states_right reg'"
    using assms(1) edits rows(4) by (auto simp: registry_inv_def states_right_def)
  ultimately show ?thesis by (simp add: registry_inv_def)
next
  case (archives p q placed)
  note rows = put_parcels [of reg p q]
  have "numbers_right (put q reg)"
    by (rule numbers_right_put [of reg p q]) (use assms(1) archives in \<open>simp_all add: registry_inv_def\<close>)
  then have "numbers_right reg'" unfolding archives(1) by (simp add: numbers_right_def issued_def)
  have "about (new_assertion env 0 q (holder_of q) [] [] [] None) q (holder_of q)" for env by simp
  then obtain held where held: "about held q (holder_of q)" by blast
  have holder: "holder_of q = holder_of p" using archives(7) by (simp add: holder_of_def)
  have "histories_right reg'"
    by (rule histories_right_put [of reg p q reg' held placed]) (use assms(1) archives held holder in \<open>simp_all add: registry_inv_def put_def\<close>)
  moreover have "distinct (map parcel_id (parcels reg'))" using assms(1) archives rows(1) by (simp add: registry_inv_def)
  moreover have "states_right reg'"
    using assms(1) archives rows(4) by (auto simp: registry_inv_def states_right_def)
  moreover note \<open>numbers_right reg'\<close>
  ultimately show ?thesis by (simp add: registry_inv_def)
qed

inductive request_step :: "(jsstr list \<Rightarrow> jsstr) \<Rightarrow> parcel_tables \<Rightarrow> parcel_tables \<Rightarrow> bool" for show_list where
  served: "serve show_list env ctx req reg = (r, reg', calls) \<Longrightarrow> request_step show_list reg reg'"

lemma empty_registry_inv: "registry_inv empty_registry"
  by (simp add: registry_inv_def empty_registry_def numbers_right_def histories_right_def states_right_def issued_def)

lemma request_step_inv:
  assumes "registry_inv reg" and "request_step show_list reg reg'"
  shows "registry_inv reg'"
  using assms(2)
proof cases
  case (served env ctx req r calls)
  have "distinct (map parcel_id (parcels reg))" using assms(1) by (simp add: registry_inv_def)
  from registry_step_inv [OF assms(1) serve_registry_step [OF this served]] show ?thesis .
qed

interpretation registry_machine: invariant_of "\<lambda>reg. reg = empty_registry" "request_step show_list" registry_inv for show_list
  by unfold_locales (simp add: empty_registry_inv, rule request_step_inv)

text \<open>C6: 
  Whatever sequence of requests the registry serves, its tables stay consistent: keys and registry
  numbers are unique and below their counters, and the last status asserted in a parcel's history is
  the status of its row.
\<close>

theorem registry_stays_consistent:
  "reach (\<lambda>reg. reg = empty_registry) (request_step show_list) reg \<Longrightarrow> registry_inv reg"
  by (rule registry_machine.holds)

section \<open>Who changes what\<close>

text \<open>C7: 
  A request that changes the row of a parcel comes from a caller who may change it, in the tenant of the
  parcel and as its creator or with a governance role, and the row keeps its identity.
\<close>

theorem changes_need_the_right:
  assumes "distinct (map parcel_id (parcels reg))" and "serve show_list env ctx req reg = (r, reg', calls)"
    and "p \<in> set (parcels reg)" and "p \<notin> set (parcels reg')"
  shows "may_change ctx p \<and> (\<exists>q \<in> set (parcels reg'). keeps_identity p q)"
  using serve_registry_step [OF assms(1,2)]
proof cases
  case (edits p' q held)
  with put_parcels(4) [OF assms(1) edits(2,4)] assms(3,4) show ?thesis by auto
next
  case (archives p' q placed)
  with put_parcels(4) [OF assms(1) archives(2,4)] assms(3,4) show ?thesis by auto
qed (use assms(3,4) in auto)

lemma get_row_visible: "get_row ctx pid reg = Some p \<Longrightarrow> p \<in> set (parcels reg)"
  using get_row_some by blast

lemma parcel_view_tenant [simp]: "tenant_id (parcel_view p) = tenant_id p"
  by (simp add: parcel_view_def)

lemma update_row_tenant: "update_row ctx q reg = Some (q', reg') \<Longrightarrow> \<exists>row. get_row ctx (parcel_id q) reg = Some row \<and> q' = assign q row"
  by (auto simp: update_row_def split: option.splits if_splits)

lemma finished_in_scope:
  assumes "loaded_py ctx pid reg = (calls', Inr p)" and "update_row ctx q reg = Some (q', reg')" and "parcel_id q = parcel_id p"
  shows "in_scope ctx (tenant_id q')"
  using update_row_tenant [OF assms(2)] loaded_parcel [OF assms(1)] assms(3) by auto

lemma one_view_Inr: "one_view res = (Inr ps, reg', calls) \<longleftrightarrow> (\<exists>p. res = (Inr p, reg', calls) \<and> ps = [p])"
  by (auto simp: one_view_def split: prod.splits sum.splits)

lemma ids_kept:
  "update_details env who changes p = Inr q \<Longrightarrow> parcel_id q = parcel_id p"
  "archive env who p = Inr q \<Longrightarrow> parcel_id q = parcel_id p"
  "set_geometry_reference env ref who p = Inr q \<Longrightarrow> parcel_id q = parcel_id p"
  by (drule update_details_keeps archive_effect set_geometry_keeps, simp add: keeps_identity_def)+

lemma updated_in_scope:
  "update_parcel_py env ctx pid changes reg = (Inr q, reg', calls) \<Longrightarrow> in_scope ctx (tenant_id q)"
  by (auto dest!: finished_in_scope simp: ids_kept update_parcel_py_def finish_update_def Let_def
      split: prod.splits sum.splits option.splits if_splits)

lemma archived_in_scope:
  "archive_parcel env ctx pid reg = (Inr q, reg', calls) \<Longrightarrow> in_scope ctx (tenant_id q)"
  by (auto dest!: finished_in_scope simp: ids_kept archive_parcel_def finish_archive_def Let_def
      split: prod.splits sum.splits option.splits if_splits)

lemma geometry_in_scope:
  "set_geometry env ctx pid ref reg = (Inr q, reg', calls) \<Longrightarrow> in_scope ctx (tenant_id q)"
  by (auto dest!: finished_in_scope simp: ids_kept set_geometry_def Let_def
      split: prod.splits sum.splits option.splits if_splits)

lemma created_in_scope:
  assumes "create_parcel_py env ctx country texts area reg = (Inr q, reg', calls)"
  shows "in_scope ctx (tenant_id q)"
  using assms
  by (auto simp: create_parcel_py_def Let_def truthy_py_def add_row_def allocate_parcel_number_def ensure_mutable_def new_parcel_def in_scope_def
      split: prod.splits sum.splits option.splits if_splits)

text \<open>C9: 
  Every parcel that a reply of the registry shows is in the scope of the caller: of his tenant,
  or the caller may see every tenant.
\<close>

theorem replies_stay_in_scope:
  assumes "serve show_list env ctx req reg = (Inr ps, reg', calls)" and "q \<in> set ps"
  shows "in_scope ctx (tenant_id q)"
proof -
  obtain calls' where run: "run_request env ctx req reg = (Inr ps, reg', calls')"
    using assms(1) by (auto simp: serve_def commits_def split: prod.splits sum.splits dest!: gate_passes)
  show ?thesis
  proof (cases req)
    case (Get_parcel pid)
    then show ?thesis using run assms(2) by (auto simp: run_request_def one_view_Inr get_parcel_py_def split: option.splits if_splits)
  next
    case List_parcels
    then show ?thesis using run assms(2)
      by (auto simp: run_request_def list_parcels_py_def list_for_tenant_def in_scope_def truthy_py_def split: option.splits if_splits)
  qed (use run assms(2) updated_in_scope archived_in_scope geometry_in_scope created_in_scope in \<open>auto simp: run_request_def one_view_Inr\<close>)
qed

section \<open>The audit trail of a request\<close>

text \<open>What an operation must have audited, by its result.\<close>

definition trail :: "bool \<Rightarrow> parcel_tables \<Rightarrow> 'a outcome \<Rightarrow> bool" where
  "trail writes reg res = (case res of (r, reg', calls) \<Rightarrow>
     (case r of
        Inl (Http s d) \<Rightarrow> reg' = reg \<and> map call_decision calls = (if s = 403 then [Some (js ''DENY'')] else [])
      | Inl (Crash d) \<Rightarrow> calls = []
      | Inr _ \<Rightarrow>
          if writes then calls \<noteq> [] \<and> list_all (\<lambda>c. call_decision c = Some (js ''PERMIT'')) calls
          else reg' = reg \<and> calls = []))"

lemma parcel_audit_decision [simp]: "call_decision (parcel_audit act i p d rest) = Some d"
  by (simp add: parcel_audit_def)

lemma loaded_refusal:
  "loaded_py ctx pid reg = (calls, Inl e) \<Longrightarrow>
     case e of Http s d \<Rightarrow> map call_decision calls = (if s = 403 then [Some (js ''DENY'')] else []) | Crash _ \<Rightarrow> False"
  by (auto simp: loaded_py_def load_in_scope_def authorize_mutation_def not_found_def
      split: option.splits sum.splits if_splits)

lemma raised_by_trail: "raised_by e = Http s d \<Longrightarrow> s = 409"
  by (auto simp: raised_by_def split: parcel_error.splits)

lemma trail_raised: "trail True reg (Inl (raised_by e), reg, []) \<longleftrightarrow> True"
  by (simp add: trail_def raised_by_def split: parcel_error.split)

lemma trail_permit: "calls \<noteq> [] \<Longrightarrow> list_all (\<lambda>c. call_decision c = Some (js ''PERMIT'')) calls \<Longrightarrow> trail True reg (Inr q, reg', calls)"
  by (simp add: trail_def)

lemma trail_crash: "trail w reg (Inl (Crash d), reg', [])"
  by (simp add: trail_def)

lemma trail_http: "s \<noteq> 403 \<Longrightarrow> trail w reg (Inl (Http s d), reg, [])"
  by (simp add: trail_def)

lemma finish_update_trail: "trail True reg (finish_update env ctx changes p reg)"
  by (simp add: finish_update_def Let_def trail_raised trail_crash trail_permit split: sum.split option.split prod.split)

lemma finish_archive_trail: "trail True reg (finish_archive env ctx p reg)"
  by (simp add: finish_archive_def Let_def trail_raised trail_crash trail_permit split: sum.split option.split prod.split)

lemma trail_loaded: "loaded_py ctx pid reg = (calls, Inl e) \<Longrightarrow> trail True reg (Inl e, reg, calls)"
  by (drule loaded_refusal) (simp add: trail_def split: raised.splits if_splits)

lemma create_parcel_trail: "trail True reg (create_parcel_py env ctx country texts area reg)"
  by (simp add: create_parcel_py_def Let_def bad_request_def trail_http trail_crash trail_permit split: sum.split option.split prod.split)

lemma update_parcel_trail: "trail True reg (update_parcel_py env ctx pid changes reg)"
  by (auto simp: update_parcel_py_def bad_request_def trail_http trail_loaded finish_update_trail split: prod.split sum.split)

lemma archive_parcel_trail: "trail True reg (archive_parcel env ctx pid reg)"
  by (auto simp: archive_parcel_def trail_loaded finish_archive_trail split: prod.split sum.split)

lemma set_geometry_trail: "trail True reg (set_geometry env ctx pid ref reg)"
  by (auto simp: set_geometry_def bad_request_def trail_http trail_crash trail_loaded trail_raised trail_permit
      split: prod.split sum.split option.split)

lemma get_parcel_trail: "trail False reg (get_parcel_py ctx pid reg)"
  by (simp add: get_parcel_py_def trail_def not_found_def split: option.split)

lemma one_view_trail: "trail w reg res \<Longrightarrow> trail w reg (one_view res)"
  by (simp add: one_view_def trail_def split: prod.splits sum.splits)

lemma run_request_trail: "trail (mutates req) reg (run_request env ctx req reg)"
  by (cases req) (simp_all add: run_request_def mutates_def one_view_trail create_parcel_trail get_parcel_trail
      update_parcel_trail archive_parcel_trail set_geometry_trail, simp add: list_parcels_py_def trail_def)

lemma gate_refusal:
  "route_gate show_list req ctx = (calls, Inl e) \<Longrightarrow> case e of Http s d \<Rightarrow> map call_decision calls = (if s = 403 then [Some (js ''DENY'')] else []) | Crash _ \<Rightarrow> False"
  by (auto simp: route_gate_def require_role_def require_auth_def role_denial_def split: sum.splits if_splits)

lemma gate_silent: "route_gate show_list req ctx = (calls, Inr ctx') \<Longrightarrow> calls = []"
  by (auto simp: route_gate_def require_role_def split: sum.splits if_splits)

text \<open>C8: 
  The audit trail of a request follows its outcome: a refusal with 403 changes nothing and audits one
  denial, any other error and any crash changes nothing and audits nothing, a change audits permits only and at least one,
  and a read changes nothing and audits nothing.
\<close>

theorem requests_are_audited:
  "case serve show_list env ctx req reg of (r, reg', calls) \<Rightarrow>
     (case r of
        Inl (Http s d) \<Rightarrow> reg' = reg \<and> map call_decision calls = (if s = 403 then [Some (js ''DENY'')] else [])
      | Inl (Crash d) \<Rightarrow> reg' = reg \<and> calls = []
      | Inr ps \<Rightarrow>
          if mutates req then calls \<noteq> [] \<and> list_all (\<lambda>c. call_decision c = Some (js ''PERMIT'')) calls
          else reg' = reg \<and> calls = [])"
proof (cases "route_gate show_list req ctx")
  case (Pair calls res)
  show ?thesis
  proof (cases res)
    case (Inl e)
    with gate_refusal [of show_list req ctx calls e] Pair show ?thesis by (simp add: serve_def split: raised.splits if_splits)
  next
    case (Inr ctx')
    with Pair gate_silent have "calls = []" by blast
    with Inr Pair run_request_trail [of req reg env ctx'] show ?thesis
      by (cases "run_request env ctx' req reg") (simp add: serve_def trail_def commits_def split: sum.splits raised.splits if_splits)
  qed
qed

section \<open>Two requests at the same time\<close>

text \<open>C10: 
  A request reads its parcel once and writes every attribute later.  When another request archives the
  parcel in between and commits, the first one writes the status it has read: the row is active again,
  while the last assertion of its history is that it is archived.
\<close>

theorem overlapping_update_revives:
  assumes "registry_inv reg" and "loaded_py ctx pid reg = (calls, Inr p)"
    and "archive_parcel env2 ctx2 pid2 reg = (Inr a, reg1, calls2)" and "parcel_id a = parcel_id p"
    and "finish_update env ctx changes p reg1 = (Inr b, reg2, calls3)"
  shows "\<exists>q \<in> set (parcels reg2). parcel_id q = parcel_id p \<and> status q = STATUS_ACTIVE \<and> archived_at q = None \<and>
     last_asserted (parcel_id p) (status_history reg2) = Some (Some STATUS_ARCHIVED)"
proof -
  have p: "p \<in> set (parcels reg)" using loaded_parcel [OF assms(2)] by simp
  obtain q where q: "update_details env (ctx_principal_id ctx) changes p = Inr q"
    using assms(5) by (auto simp: finish_update_def split: sum.splits)
  note kept = update_details_keeps [OF q]
  have active: "status q = STATUS_ACTIVE" "archived_at q = None"
    using kept p assms(1) by (auto simp: registry_inv_def states_right_def is_archived_def split: if_splits)
  obtain q' where row: "update_row ctx q reg1 = Some (q', reg2\<lparr>ownership_history := ownership_history reg1\<rparr>)"
      "status_history reg2 = status_history reg1"
    using assms(5) q by (auto simp: finish_update_def Let_def update_row_def split: option.splits if_splits)
  obtain r where r: "get_row ctx (parcel_id q) reg1 = Some r" "q' = assign q r"
      "parcels reg2 = map (\<lambda>s. if parcel_id s = parcel_id r then assign q s else s) (parcels reg1)"
    using row(1) by (auto simp: update_row_def split: option.splits if_splits dest: arg_cong [of _ _ parcels])
  have ids: "parcel_id r = parcel_id q"
    using get_row_some [OF r(1)] kept get_row_again loaded_parcel(5) [OF assms(2)] get_row_some
    by (auto simp: keeps_identity_def)
  have "last_asserted (parcel_id p) (status_history reg1) = Some (Some STATUS_ARCHIVED)"
    using assms(3,4)
    by (auto simp: archive_parcel_def finish_archive_def archive_def ensure_mutable_def Let_def new_assertion_def parcel_view_def
        update_row_def split: prod.splits sum.splits option.splits if_splits)
  moreover have "q' \<in> set (parcels reg2)"
    using get_row_some [OF r(1)] r(2,3) by (auto simp: image_iff intro: bexI [of _ r])
  moreover have "parcel_id q' = parcel_id p" using ids kept r(2) by (simp add: keeps_identity_def)
  ultimately show ?thesis using active r(2) row(2) by (intro bexI [of _ q']) simp_all
qed

text \<open>A country code with a newline passes the pattern and does not fit the column.\<close>

lemma newline_country_crashes:
  assumes "resolved_country env ctx country = js ''NG'' @ [10]" and "truthy_py (ctx_tenant_id ctx)" and "positive_size area"
  shows "\<exists>d. fst (create_parcel_py env ctx country texts area reg) = Inl (Crash d)"
proof -
  have "country_code_ok (js ''NG'' @ [10])" by code_simp
  then show ?thesis using assms by (simp add: create_parcel_py_def Let_def allocate_def js_def)
qed

section \<open>One surveyor\<close>

definition demo_env :: service_env where
  "demo_env = \<lparr>uuid4 = (\<lambda>_. id_a), app_now = js ''2026'', db_now = js ''2026'', upper = (\<lambda>s. s), repr = (\<lambda>s. s),
     reference_is_valid = (\<lambda>_ _ _. True)\<rparr>"

definition demo_ctx :: execution_context where
  "demo_ctx = \<lparr>ctx_principal_id = hyphenated id_b, ctx_country = None, ctx_tenant_id = Some (js ''t1''),
     ctx_roles = [js ''licensed_surveyor''], ctx_delegated_roles = []\<rparr>"

definition demo_parcel :: registry_parcel where
  "demo_parcel = \<lparr>parcel_id = hyphenated id_a, tenant_id = js ''t1'', country_code = js ''NG'', origin = js ''platform_registration'',
     created_by = hyphenated id_b, status = STATUS_ACTIVE, parcel_number = Some (registry_number (js ''NG'') 1),
     details = Map.empty, size_sqm = None, created_at = js ''2026'', updated_at = js ''2026'', updated_by = None,
     archived_at = None, geometry_reference = None\<rparr>"

definition demo_registry :: parcel_tables where
  "demo_registry = \<lparr>parcels = [demo_parcel], counters = [js ''NG'' \<mapsto> 1], ownership_history = [],
     status_history = [new_assertion demo_env 4 demo_parcel (Some STATUS_ACTIVE) (js ''initial registration'') (hyphenated id_b) id_a None]\<rparr>"

lemma demo_ids: "uuid_str (hyphenated id_a) = Some (hyphenated id_a)" "uuid_str (hyphenated id_b) = Some (hyphenated id_b)"
proof -
  have "list_all lower_hex id_a" "list_all lower_hex id_b" "length id_a = 32" "length id_b = 32"
    by (simp_all add: id_a_def id_b_def lower_hex_def id_digits list_all_iff)
  then show "uuid_str (hyphenated id_a) = Some (hyphenated id_a)" "uuid_str (hyphenated id_b) = Some (hyphenated id_b)"
    by (simp_all add: uuid_str_def uuid_hex_hyphenated)
qed

lemma demo_env_simps:
  "uuid4 demo_env i = id_a" "app_now demo_env = js ''2026''" "db_now demo_env = js ''2026''" "upper demo_env s = s"
  by (simp_all add: demo_env_def)

lemma demo_roles: "has_any_role demo_ctx PARCEL_REGISTRANT_ROLES" "is_authenticated demo_ctx" "\<not> is_anonymous demo_ctx"
  by code_simp+

lemma statuses_differ: "STATUS_ACTIVE \<noteq> STATUS_ARCHIVED"
  by (simp add: STATUS_ACTIVE_def STATUS_ARCHIVED_def)

lemma demo_gate: "mutates req \<Longrightarrow> route_gate concat req demo_ctx = ([], Inr demo_ctx)"
  by (simp add: route_gate_def require_role_def require_auth_def demo_roles)

lemma demo_create:
  "\<exists>q calls. serve concat demo_env demo_ctx (Create_parcel None Map.empty None) empty_registry = (Inr [q], demo_registry, calls)"
proof -
  have route_gate: "route_gate concat (Create_parcel None Map.empty None) demo_ctx = ([], Inr demo_ctx)" by (rule demo_gate) (simp add: mutates_def)
  have cc: "resolved_country demo_env demo_ctx None = js ''NG''"
    by (simp add: resolved_country_def demo_env_simps demo_ctx_def truthy_py_def)
  have ok: "country_code_ok (js ''NG'')" by (simp add: country_code_ok_def js_def unit_of_def)
  have ctx: "ctx_tenant_id demo_ctx = Some (js ''t1'')" "truthy_py (Some (js ''t1''))" "ctx_principal_id demo_ctx = hyphenated id_b"
    by (simp_all add: demo_ctx_def truthy_py_def js_def)
  have holder: "holder_of p = None" if "details p = Map.empty" for p
    using that by (simp add: holder_of_def asserted_holder_ref_def truthy_py_def)
  have number: "allocate (js ''NG'') empty_registry =
      Some (registry_number (js ''NG'') 1, empty_registry\<lparr>counters := [js ''NG'' \<mapsto> 1]\<rparr>)"
    by (simp add: allocate_def empty_registry_def js_def)
  show ?thesis
    unfolding serve_def route_gate run_request_def create_parcel_py_def one_view_def
    by (simp add: cc ok ctx number [unfolded empty_registry_def] statuses_differ Let_def new_parcel_def allocate_parcel_number_def ensure_mutable_def is_archived_def
        add_row_def demo_ids insertable_def empty_registry_def holder commits_def demo_registry_def demo_parcel_def demo_env_simps)
qed

lemma finish_update_succeeds:
  assumes "\<not> is_archived p" and "set (map fst changes) \<subseteq> set UPDATABLE_FIELDS" and "get_row ctx (parcel_id p) reg \<noteq> None"
    and "uuid_str (ctx_principal_id ctx) \<noteq> None"
  shows "\<exists>b reg2 calls. finish_update env ctx changes p reg = (Inr b, reg2, calls)"
proof -
  let ?q = "(fold set_field changes p)\<lparr>updated_by := Some (ctx_principal_id ctx), updated_at := app_now env\<rparr>"
  have q: "update_details env (ctx_principal_id ctx) changes p = Inr ?q"
    using assms(1,2) by (simp add: update_details_def ensure_mutable_def)
  have "parcel_id ?q = parcel_id p" using fold_set_field_keeps [of p changes] by (simp add: keeps_identity_def)
  then obtain row where "get_row ctx (parcel_id ?q) reg = Some row" using assms(3) by auto
  then have "\<exists>res. update_row ctx ?q reg = Some res" using assms(4) by (simp add: update_row_def)
  then show ?thesis using assms(4) by (auto simp: finish_update_def q Let_def)
qed

lemma demo_request: "request_step concat empty_registry demo_registry"
  using demo_create served by blast

lemma demo_inv: "registry_inv demo_registry"
  by (rule request_step_inv [OF empty_registry_inv demo_request])

lemma demo_row: "get_row demo_ctx (hyphenated id_a) (demo_registry\<lparr>parcels := [p], status_history := h\<rparr>) = Some p"
  if "parcel_id p = hyphenated id_a" "tenant_id p = js ''t1''" for p
  using that by (simp add: get_row_def demo_ids visible_def demo_ctx_def)

lemma demo_loaded: "loaded_py demo_ctx (hyphenated id_a) demo_registry = ([], Inr demo_parcel)"
proof -
  have "demo_registry = demo_registry\<lparr>parcels := [demo_parcel], status_history := status_history demo_registry\<rparr>"
    by (simp add: demo_registry_def)
  then have "get_row demo_ctx (hyphenated id_a) demo_registry = Some demo_parcel"
    using demo_row [of demo_parcel "status_history demo_registry"] by (simp add: demo_parcel_def)
  then show ?thesis
    by (simp add: loaded_py_def load_in_scope_def authorize_mutation_def in_scope_def can_mutate_def demo_parcel_def demo_ctx_def)
qed

lemma demo_found: "get_row demo_ctx (hyphenated id_a) demo_registry = Some demo_parcel"
  using loaded_parcel(5) [OF demo_loaded] by (simp add: demo_parcel_def)

lemma demo_principal: "uuid_str (ctx_principal_id demo_ctx) = Some (hyphenated id_b)"
  by (simp add: demo_ctx_def demo_ids)

lemma demo_archive:
  "\<exists>a q reg calls. archive_parcel demo_env demo_ctx (hyphenated id_a) demo_registry = (Inr a, reg, calls) \<and>
     parcel_id a = hyphenated id_a \<and> parcels reg = [q] \<and> status q = STATUS_ARCHIVED \<and>
     get_row demo_ctx (hyphenated id_a) reg = Some q"
proof -
  let ?new = "demo_parcel\<lparr>status := STATUS_ARCHIVED, archived_at := Some (js ''2026''), updated_by := Some (ctx_principal_id demo_ctx),
    updated_at := js ''2026''\<rparr>"
  have archived: "archive demo_env (ctx_principal_id demo_ctx) demo_parcel = Inr ?new"
    using statuses_differ by (simp add: archive_def ensure_mutable_def is_archived_def demo_env_simps demo_parcel_def)
  have id: "parcel_id ?new = hyphenated id_a" "parcel_id demo_parcel = hyphenated id_a" by (simp_all add: demo_parcel_def)
  have written: "update_row demo_ctx ?new demo_registry = Some (assign ?new demo_parcel, demo_registry\<lparr>parcels := [assign ?new demo_parcel]\<rparr>)"
    using demo_principal by (simp add: update_row_def id demo_found) (simp add: demo_registry_def id)
  have found: "get_row demo_ctx (hyphenated id_a) (demo_registry\<lparr>parcels := [assign ?new demo_parcel], status_history := h\<rparr>) =
      Some (assign ?new demo_parcel)" for h
    by (rule demo_row) (simp_all add: id, simp add: demo_parcel_def)
  show ?thesis
    unfolding archive_parcel_def demo_loaded prod.case sum.case finish_archive_def archived written option.case Let_def
    using found id demo_principal by (simp add: parcel_view_def)
qed

text \<open>The witnesses.\<close>

theorem registry_stays_consistent_witness: "registry_inv demo_registry \<and> map status (parcels demo_registry) = [STATUS_ACTIVE]"
proof -
  have "reach (\<lambda>reg. reg = empty_registry) (request_step concat) demo_registry"
    by (rule reach_step, rule reach_start, simp, rule demo_request)
  from registry_stays_consistent [OF this] show ?thesis by (simp add: demo_registry_def demo_parcel_def)
qed

theorem replies_stay_in_scope_witness: "\<exists>q calls.
    serve concat demo_env demo_ctx (Create_parcel None Map.empty None) empty_registry = (Inr [q], demo_registry, calls) \<and>
    in_scope demo_ctx (tenant_id q)"
proof -
  obtain q calls where q: "serve concat demo_env demo_ctx (Create_parcel None Map.empty None) empty_registry = (Inr [q], demo_registry, calls)"
    using demo_create by blast
  from replies_stay_in_scope [OF q, of q] q show ?thesis by auto
qed

theorem changes_need_the_right_witness: "may_change demo_ctx demo_parcel"
proof -
  obtain a q reg calls where a: "archive_parcel demo_env demo_ctx (hyphenated id_a) demo_registry = (Inr a, reg, calls)"
      "parcels reg = [q]" "status q = STATUS_ARCHIVED" using demo_archive by blast
  have "serve concat demo_env demo_ctx (Archive_parcel (hyphenated id_a)) demo_registry = (Inr [a], reg, calls)"
    using a by (simp add: serve_def demo_gate mutates_def run_request_def one_view_def commits_def)
  moreover have rows: "parcels demo_registry = [demo_parcel]" by (simp add: demo_registry_def)
  moreover have "demo_parcel \<noteq> q" using a(3) statuses_differ by (auto simp: demo_parcel_def)
  ultimately show ?thesis using changes_need_the_right [of demo_registry concat demo_env demo_ctx _ _ reg calls demo_parcel] a(2)
    by fastforce
qed

theorem overlapping_update_revives_witness: "\<exists>reg :: parcel_tables. \<exists>q \<in> set (parcels reg). status q = STATUS_ACTIVE \<and>
     last_asserted (parcel_id q) (status_history reg) = Some (Some STATUS_ARCHIVED)"
proof -
  obtain a q reg calls2 where a: "archive_parcel demo_env demo_ctx (hyphenated id_a) demo_registry = (Inr a, reg, calls2)"
      "parcel_id a = hyphenated id_a" "get_row demo_ctx (hyphenated id_a) reg = Some q"
    using demo_archive by blast
  have p: "parcel_id demo_parcel = hyphenated id_a" "\<not> is_archived demo_parcel"
    using statuses_differ by (simp_all add: demo_parcel_def is_archived_def)
  have "\<exists>b reg2 calls. finish_update demo_env demo_ctx [(js ''title'', Text None)] demo_parcel reg = (Inr b, reg2, calls)"
    by (rule finish_update_succeeds) (use p a(3) demo_principal in \<open>simp_all add: UPDATABLE_FIELDS_def DETAILS_def\<close>)
  then obtain b reg2 calls3 where "finish_update demo_env demo_ctx [(js ''title'', Text None)] demo_parcel reg = (Inr b, reg2, calls3)"
    by blast
  from overlapping_update_revives [OF demo_inv demo_loaded a(1) _ this] p(1) a(2)
  obtain q where q: "q \<in> set (parcels reg2)" "parcel_id q = hyphenated id_a" "status q = STATUS_ACTIVE"
      "last_asserted (hyphenated id_a) (status_history reg2) = Some (Some STATUS_ARCHIVED)"
    by auto
  show ?thesis by (rule exI [of _ reg2], rule bexI [of _ q]) (use q in simp_all)
qed

end
