(* ===== verification/Backend_Routes.thy ===== *)
theory Backend_Routes
  imports Backend_Access Url_Path
begin

text \<open>
  The routes of the Python service in the order in which \<open>create_app\<close> (\<open>backend/app/main.py\<close>) includes them,
  what each asks of its caller, and which of them the operations of the generated client reach.
\<close>

section \<open>The table\<close>

datatype piece = Lit string | Var

datatype access = Public | Signed_in | Any_role "jsstr list"

datatype service_route = Route string "piece list" string access

text \<open>FastAPI puts the routes of its documentation first.\<close>

definition documentation_routes :: "service_route list" where
  "documentation_routes =
     [Route ''GET'' [Lit ''openapi.json''] ''openapi'' Public,
      Route ''GET'' [Lit ''docs''] ''swagger_ui_html'' Public,
      Route ''GET'' [Lit ''docs'', Lit ''oauth2-redirect''] ''swagger_ui_redirect'' Public,
      Route ''GET'' [Lit ''redoc''] ''redoc_html'' Public]"

definition health_routes :: "service_route list" where
  "health_routes =
     [Route ''GET'' [Lit ''health'', Lit ''live''] ''livenessCheck'' Public,
      Route ''GET'' [Lit ''health'', Lit ''ready''] ''readinessCheck'' Public]"

definition auth_routes :: "service_route list" where
  "auth_routes =
     [Route ''POST'' [Lit ''v1'', Lit ''auth'', Lit ''register''] ''registerUser'' Public,
      Route ''POST'' [Lit ''v1'', Lit ''auth'', Lit ''login''] ''login'' Public,
      Route ''POST'' [Lit ''v1'', Lit ''auth'', Lit ''invitations'', Lit ''accept''] ''acceptInvitation'' Public,
      Route ''POST'' [Lit ''v1'', Lit ''auth'', Lit ''invitations'', Lit ''accept-supabase''] ''acceptInvitationSupabase'' Signed_in,
      Route ''POST'' [Lit ''v1'', Lit ''auth'', Lit ''refresh''] ''refreshToken'' Public,
      Route ''POST'' [Lit ''v1'', Lit ''auth'', Lit ''logout''] ''logout'' Signed_in,
      Route ''GET'' [Lit ''v1'', Lit ''auth'', Lit ''me''] ''getCurrentUser'' Signed_in,
      Route ''GET'' [Lit ''v1'', Lit ''auth'', Lit ''me'', Lit ''tenant''] ''getCurrentUserTenant'' Signed_in]"

definition admin_routes :: "service_route list" where
  "admin_routes =
     [Route ''POST'' [Lit ''v1'', Lit ''admin'', Lit ''users'', Var, Lit ''roles''] ''assignRole'' (Any_role GOVERNANCE_ROLES),
      Route ''POST'' [Lit ''v1'', Lit ''admin'', Lit ''invitations''] ''createInvitation'' (Any_role GOVERNANCE_ROLES),
      Route ''GET'' [Lit ''v1'', Lit ''admin'', Lit ''invitations''] ''listInvitations'' (Any_role GOVERNANCE_ROLES),
      Route ''POST'' [Lit ''v1'', Lit ''admin'', Lit ''invitations'', Var, Lit ''revoke''] ''revokeInvitation'' (Any_role GOVERNANCE_ROLES),
      Route ''GET'' [Lit ''v1'', Lit ''admin'', Lit ''tenants''] ''listTenants'' (Any_role [super_admin]),
      Route ''GET'' [Lit ''v1'', Lit ''admin'', Lit ''tenants'', Var] ''getTenant'' (Any_role [super_admin]),
      Route ''POST'' [Lit ''v1'', Lit ''admin'', Lit ''tenants'', Var, Lit ''suspend''] ''suspendTenant'' (Any_role [super_admin]),
      Route ''POST'' [Lit ''v1'', Lit ''admin'', Lit ''tenants'', Var, Lit ''reactivate''] ''reactivateTenant'' (Any_role [super_admin]),
      Route ''POST'' [Lit ''v1'', Lit ''admin'', Lit ''tenants'', Var, Lit ''archive''] ''archiveTenant'' (Any_role [super_admin]),
      Route ''POST'' [Lit ''v1'', Lit ''admin'', Lit ''delegations''] ''createDelegation'' (Any_role GOVERNANCE_ROLES),
      Route ''GET'' [Lit ''v1'', Lit ''admin'', Lit ''delegations''] ''listDelegations'' (Any_role GOVERNANCE_ROLES),
      Route ''GET'' [Lit ''v1'', Lit ''admin'', Lit ''delegations'', Var] ''getDelegation'' (Any_role GOVERNANCE_ROLES),
      Route ''POST'' [Lit ''v1'', Lit ''admin'', Lit ''delegations'', Var, Lit ''revoke''] ''revokeDelegation'' (Any_role GOVERNANCE_ROLES),
      Route ''POST'' [Lit ''v1'', Lit ''admin'', Lit ''delegations'', Var, Lit ''extend''] ''extendDelegation'' (Any_role GOVERNANCE_ROLES)]"

definition parcel_routes :: "service_route list" where
  "parcel_routes =
     [Route ''POST'' [Lit ''v1'', Lit ''parcels''] ''createParcel'' (Any_role PARCEL_REGISTRANT_ROLES),
      Route ''PATCH'' [Lit ''v1'', Lit ''parcels'', Var] ''updateParcel'' (Any_role PARCEL_REGISTRANT_ROLES),
      Route ''POST'' [Lit ''v1'', Lit ''parcels'', Var, Lit ''archive''] ''archiveParcel'' (Any_role PARCEL_REGISTRANT_ROLES),
      Route ''PUT'' [Lit ''v1'', Lit ''parcels'', Var, Lit ''geometry''] ''setParcelGeometryReference'' (Any_role PARCEL_REGISTRANT_ROLES),
      Route ''GET'' [Lit ''v1'', Lit ''parcels''] ''listParcels'' Signed_in,
      Route ''GET'' [Lit ''v1'', Lit ''parcels'', Var] ''getParcel'' Signed_in]"

definition spatial_routes :: "service_route list" where
  "spatial_routes =
     [Route ''PUT'' [Lit ''v1'', Lit ''spatial'', Lit ''parcels'', Var, Lit ''geometry''] ''submitParcelGeometry'' (Any_role PARCEL_REGISTRANT_ROLES),
      Route ''GET'' [Lit ''v1'', Lit ''spatial'', Lit ''parcels'', Var, Lit ''geometry''] ''getActiveParcelGeometry'' Signed_in]"

definition evidence_routes :: "service_route list" where
  "evidence_routes =
     [Route ''POST'' [Lit ''v1'', Lit ''parcels'', Var, Lit ''evidence''] ''uploadParcelEvidence'' (Any_role PARCEL_REGISTRANT_ROLES),
      Route ''GET'' [Lit ''v1'', Lit ''parcels'', Var, Lit ''evidence''] ''listParcelEvidence'' Signed_in]"

definition attribution_routes :: "service_route list" where
  "attribution_routes =
     [Route ''POST'' [Lit ''v1'', Lit ''evidence'', Var, Lit ''attributions''] ''recordEvidenceAttribution'' (Any_role PARCEL_REGISTRANT_ROLES),
      Route ''POST'' [Lit ''v1'', Lit ''evidence'', Lit ''attributions'', Var, Lit ''corrections''] ''correctEvidenceAttribution'' (Any_role PARCEL_REGISTRANT_ROLES)]"

definition service_routes :: "service_route list" where
  "service_routes = documentation_routes @ health_routes @ auth_routes @ admin_routes @ parcel_routes @ spatial_routes @
     evidence_routes @ attribution_routes"

lemmas route_tables = documentation_routes_def health_routes_def auth_routes_def admin_routes_def parcel_routes_def
  spatial_routes_def evidence_routes_def attribution_routes_def

section \<open>Dispatch\<close>

text \<open>The path between its slashes; a variable takes one part that is not empty.\<close>

fun parts_of :: "jsstr \<Rightarrow> jsstr list" where
  "parts_of [] = [[]]"
| "parts_of (c # cs) = (if c = 47 then [] # parts_of cs else (c # hd (parts_of cs)) # tl (parts_of cs))"

fun captures :: "piece list \<Rightarrow> jsstr list \<Rightarrow> jsstr list option" where
  "captures [] [] = Some []"
| "captures (Lit l # ps) (s # ss) = (if s = js l then captures ps ss else None)"
| "captures (Var # ps) (s # ss) = (if s = [] then None else map_option ((#) s) (captures ps ss))"
| "captures _ _ = None"

datatype dispatched = Handled string "jsstr list" access | Failed nat

text \<open>The first route whose path and method fit; 405 if a path fits, 404 otherwise.\<close>

fun dispatch_path :: "bool \<Rightarrow> service_route list \<Rightarrow> string \<Rightarrow> jsstr list \<Rightarrow> dispatched" where
  "dispatch_path partial [] m segs = Failed (if partial then 405 else 404)"
| "dispatch_path partial (Route m' pieces name access # routes) m segs =
     (case captures pieces segs of
        None \<Rightarrow> dispatch_path partial routes m segs
      | Some params \<Rightarrow> if m = m' then Handled name params access else dispatch_path True routes m segs)"

text \<open>The path is the one the service receives, already decoded; \<open>Url_Path\<close> says which path a URL has.\<close>

definition receive_path :: "string \<Rightarrow> jsstr \<Rightarrow> dispatched" where
  "receive_path m path =
     (case parts_of path of [] # segs \<Rightarrow> dispatch_path False service_routes m segs | _ \<Rightarrow> Failed 404)"

text \<open>The dependency that guards a route.\<close>

definition enter :: "(jsstr list \<Rightarrow> jsstr) \<Rightarrow> access \<Rightarrow> execution_context \<Rightarrow> audit_call list \<times> (raised + execution_context)" where
  "enter show_list a ctx =
     (case a of Public \<Rightarrow> ([], Inr ctx) | Signed_in \<Rightarrow> ([], require_auth ctx) | Any_role rs \<Rightarrow> require_role show_list rs ctx)"

section \<open>The operations of the client\<close>

text \<open>The \<open>operation_id\<close> that the client was generated from: the name of its function.\<close>

fun operation_id :: "operation \<Rightarrow> string" where
  "operation_id OpLivenessCheck = ''livenessCheck''"
| "operation_id OpReadinessCheck = ''readinessCheck''"
| "operation_id OpRegisterUser = ''registerUser''"
| "operation_id OpLogin = ''login''"
| "operation_id OpAcceptInvitation = ''acceptInvitation''"
| "operation_id OpAcceptInvitationSupabase = ''acceptInvitationSupabase''"
| "operation_id OpRefreshToken = ''refreshToken''"
| "operation_id OpLogout = ''logout''"
| "operation_id OpGetCurrentUser = ''getCurrentUser''"
| "operation_id OpGetCurrentUserTenant = ''getCurrentUserTenant''"
| "operation_id (OpAssignRole i) = ''assignRole''"
| "operation_id OpCreateInvitation = ''createInvitation''"
| "operation_id OpListInvitations = ''listInvitations''"
| "operation_id (OpRevokeInvitation i) = ''revokeInvitation''"
| "operation_id OpListTenants = ''listTenants''"
| "operation_id (OpGetTenant i) = ''getTenant''"
| "operation_id (OpSuspendTenant i) = ''suspendTenant''"
| "operation_id (OpReactivateTenant i) = ''reactivateTenant''"
| "operation_id (OpArchiveTenant i) = ''archiveTenant''"
| "operation_id OpCreateDelegation = ''createDelegation''"
| "operation_id OpListDelegations = ''listDelegations''"
| "operation_id (OpGetDelegation i) = ''getDelegation''"
| "operation_id (OpRevokeDelegation i) = ''revokeDelegation''"
| "operation_id (OpExtendDelegation i) = ''extendDelegation''"
| "operation_id OpCreateParcel = ''createParcel''"
| "operation_id (OpUpdateParcel i) = ''updateParcel''"
| "operation_id (OpArchiveParcel i) = ''archiveParcel''"
| "operation_id (OpSetParcelGeometryReference i) = ''setParcelGeometryReference''"
| "operation_id OpListParcels = ''listParcels''"
| "operation_id (OpGetParcel i) = ''getParcel''"
| "operation_id (OpSubmitParcelGeometry i) = ''submitParcelGeometry''"
| "operation_id (OpGetActiveParcelGeometry i) = ''getActiveParcelGeometry''"
| "operation_id (OpUploadParcelEvidence i) = ''uploadParcelEvidence''"
| "operation_id (OpListParcelEvidence i) = ''listParcelEvidence''"
| "operation_id (OpRecordEvidenceAttribution i) = ''recordEvidenceAttribution''"
| "operation_id (OpCorrectEvidenceAttribution i) = ''correctEvidenceAttribution''"

text \<open>Which operations ask for nothing, and which for a role.\<close>

definition operation_access :: "operation \<Rightarrow> access" where
  "operation_access op =
     (if operation_id op \<in> {''livenessCheck'', ''readinessCheck'', ''registerUser'', ''login'', ''acceptInvitation'', ''refreshToken''}
      then Public
      else if operation_id op \<in> {''acceptInvitationSupabase'', ''logout'', ''getCurrentUser'', ''getCurrentUserTenant'',
        ''listParcels'', ''getParcel'', ''getActiveParcelGeometry'', ''listParcelEvidence''} then Signed_in
      else if operation_id op \<in> {''listTenants'', ''getTenant'', ''suspendTenant'', ''reactivateTenant'', ''archiveTenant''}
      then Any_role [super_admin]
      else if operation_id op \<in> {''assignRole'', ''createInvitation'', ''listInvitations'', ''revokeInvitation'', ''createDelegation'',
        ''listDelegations'', ''getDelegation'', ''revokeDelegation'', ''extendDelegation''} then Any_role GOVERNANCE_ROLES
      else Any_role PARCEL_REGISTRANT_ROLES)"

lemma parts_of_path:
  "\<forall>s \<in> set segs. 47 \<notin> set s \<Longrightarrow> parts_of (path_of_segments segs) = [] # segs"
proof (induction segs)
  case Nil
  show ?case by (simp add: path_of_segments_def)
next
  case (Cons s segs)
  then have rest: "parts_of (path_of_segments segs) = [] # segs" by simp
  have "parts_of (t @ path_of_segments segs) = t # segs" if "47 \<notin> set t" for t
    using that rest by (induction t) auto
  with Cons.prems show ?case by (simp add: path_of_segments_def)
qed

definition given_params :: "operation \<Rightarrow> bool" where
  "given_params op \<longleftrightarrow> operation_param op \<noteq> Some []"

lemma dispatch_operation:
  "given_params op \<Longrightarrow> dispatch_path False service_routes (operation_method op) (operation_segments op) =
     Handled (operation_id op) (case operation_param op of None \<Rightarrow> [] | Some i \<Rightarrow> [i]) (operation_access op)"
  by (cases op) (simp_all add: given_params_def service_routes_def route_tables operation_access_def)

text \<open>C14: 
  Every operation of the generated client whose parameter consists of unreserved characters is routed by the
  service, from the path of its URL, to the handler whose operation it was generated from, with the
  parameter the caller gave, behind the gate that handler declares: no other route takes its method and
  path first.
\<close>

theorem client_operations_are_routed:
  assumes "safe_param op"
  shows "map_option (receive_path (operation_method op)) (request_path (operation_url op)) =
     Some (Handled (operation_id op) (case operation_param op of None \<Rightarrow> [] | Some i \<Rightarrow> [i]) (operation_access op))"
proof -
  note plain = operation_segments_plain [OF assms]
  have "\<forall>s \<in> set (operation_segments op). 47 \<notin> set s"
    using plain unreserved_not(3) by (fastforce simp: plain_segment_def list_all_iff)
  moreover have "given_params op"
    using assms by (auto simp: safe_param_def given_params_def plain_segment_def split: option.splits)
  ultimately show ?thesis
    using parts_of_path dispatch_operation
    by (simp add: receive_path_def operation_url_segments request_path_plain [OF plain])
qed

text \<open>Other parameters are not encoded and may change the path: a question mark ends the parameter, and
  two dots take away the name of the collection.\<close>

lemma reserved_parameters_change_the_path:
  "request_path (operation_url (OpGetParcel (js ''p1?x''))) = request_path (operation_url (OpGetParcel (js ''p1'')))"
  "request_path (operation_url (OpGetParcel (js ''..''))) = Some (js ''/v1/'')"
  by (simp_all add: getGetParcelUrl_def request_path_def url_segments_def printable_def before_sep_def
      double_dot_def single_dot_def lower_ascii_def path_of_segments_def js_def unit_of_def)

text \<open>C15: 
  Of the operations of the client, an anonymous caller enters exactly six: the two health checks,
  registering, logging in, accepting an invitation and refreshing a token; every other one
  is refused with 401 before its handler runs, and nothing is audited.
\<close>

theorem anonymous_callers_enter_six:
  assumes "plain_param op" and "given_params op" and "is_anonymous ctx"
  shows "case receive_path (operation_method op) (operation_url op) of
       Failed _ \<Rightarrow> False
     | Handled name params a \<Rightarrow> name = operation_id op \<and> enter show_list a ctx =
         ([], if name \<in> {''livenessCheck'', ''readinessCheck'', ''registerUser'', ''login'', ''acceptInvitation'', ''refreshToken''}
              then Inr ctx else Inl (Http 401 (js ''Not authenticated'')))"
  using parts_of_path [OF segments_plain [OF assms(1)]] dispatch_operation [OF assms(2)] assms(3)
  by (simp add: receive_path_def operation_url_segments operation_access_def enter_def require_role_def require_auth_def)

text \<open>The witnesses: reading a parcel.\<close>

theorem client_operations_are_routed_witness:
  "map_option (receive_path ''GET'') (request_path (js ''/v1/parcels/p1'')) = Some (Handled ''getParcel'' [js ''p1''] Signed_in)"
proof -
  have "safe_param (OpGetParcel (js ''p1''))"
    by (simp add: safe_param_def literal_plain literal_def literal_letters_def)
  from client_operations_are_routed [OF this] show ?thesis
    by (simp add: operation_access_def getGetParcelUrl_def js_def)
qed

theorem anonymous_callers_enter_six_witness:
  "case receive_path ''GET'' (js ''/v1/parcels/p1'') of
     Failed _ \<Rightarrow> False
   | Handled name params a \<Rightarrow> name = ''getParcel'' \<and> enter concat a ANONYMOUS = ([], Inl (Http 401 (js ''Not authenticated'')))"
proof -
  have op: "plain_param (OpGetParcel (js ''p1''))" "given_params (OpGetParcel (js ''p1''))"
    by (simp_all add: plain_param_def given_params_def js_def unit_of_def)
  have "is_anonymous ANONYMOUS" by (simp add: is_anonymous_def ANONYMOUS_def)
  from anonymous_callers_enter_six [OF op this, of concat] show ?thesis
    by (auto simp: getGetParcelUrl_def js_def split: dispatched.splits)
qed

end
