(* ===== verification/Spec2Isabelle.thy ===== *)
theory Spec2Isabelle
  imports Api_Properties Api_Queries Server_Concurrency Client_Properties Toast_Store Mockup_App
    Web_Parcel Schema_Properties Upload_Schema Api_Registry Store_Refinements Ui_Sidebar Ui_Carousel Ui_Chart Ui_Form Startup
    Client_Server Ui_Properties Ui_Composition Registry_Schema Zod_Types Page_Frontend Page_Properties
    Backend_Laws Backend_Routes Audit_Writers
begin

text \<open>
  LandVault registry: verification library of the TypeScript sources and of the core of the Python service.

  \<^bold>\<open>The program.\<close>  \<open>lib/db\<close> declares two tables (parcels and their evidence documents).
  \<open>artifacts/api-server\<close> is an Express server over them: five parcel handlers, four evidence
  handlers, the dashboard statistics and the health check; handlers await the database statement
  by statement, so requests interleave.  \<open>lib/api-client-react\<close> is the browser client: the fetch
  wrapper \<open>custom-fetch.ts\<close> and the generated operations and react-query hooks of
  \<open>generated/api.ts\<close>.  \<open>artifacts/landvault-web\<close> is the web application that uses the client:
  start-up checks, the Supabase session provider, the router with its gate and error boundary,
  and the pages.  \<open>artifacts/mockup-sandbox\<close> previews components: a Vite plugin generates a module
  map from the files on disk and the preview application loads modules from it.
  \<open>backend/app\<close> is the Python service that the generated client was generated from: its kernel
  (hash-chained audit log, policies, gates, transactions) and the parcel registry on PostgreSQL.

  \<^bold>\<open>Theories.\<close>
  \<^item> \<open>Prelude\<close>: JavaScript strings as UTF-16 units, numbers, values, truthiness and spreading.
    Also machines: \<open>reach\<close> (the states a step relation reaches from the initial ones) and the
    locale \<open>invariant_of\<close>, interpreted in each theory that models state: request bodies, toasts,
    preview plugin and canvas, session, sidebar, carousel and evidence card.
  \<^item> \<open>Registry_Db\<close>, \<open>Registry_Tables\<close>: rows, values of inserts and updates, the statements of the
    handlers, the interface \<open>registry_db\<close> of the database as a locale and its interpretation on
    tables that are lists of rows.
  \<^item> \<open>Trust_Score\<close>, \<open>Api_Base\<close>, \<open>Parcel_Routes\<close>, \<open>Evidence_Routes\<close>, \<open>Api_Server\<close>: the handlers as
    programs whose every await is a constructor, the routers and the dispatch (\<open>routes/*.ts\<close>, \<open>app.ts\<close>).
  \<^item> \<open>Db_Steps\<close>, \<open>Api_Effects\<close>, \<open>Api_Instances\<close>, \<open>Api_Properties\<close>, \<open>Api_Queries\<close>,
    \<open>Server_Concurrency\<close>: one run of a handler, what it may change, and interleavings of runs.
  \<^item> \<open>Api_Registry\<close>: the server as a refinement of a registry that stores no scores.
  \<^item> \<open>Custom_Fetch\<close>, \<open>Custom_Fetch_Properties\<close>, \<open>Json_Text\<close>, \<open>Client_Runtime\<close>, \<open>Api_Client\<close>,
    \<open>Client_Properties\<close>: the client.
  \<^item> \<open>Url_Path\<close>: the path that a server reads from a URL (query, fragment, dot segments, percent escapes).
  \<^item> \<open>Json_Reader\<close>, \<open>Client_Server\<close>: reading JSON text, and the client on top of the API server: calls
    arrive as its requests, replies become responses (the locale \<open>express\<close>), and no operation finds a route.
  \<^item> \<open>Toast_Store\<close>: \<open>hooks/use-toast.ts\<close>, its reducer, timers and subscriptions.
  \<^item> \<open>Mockup_Plugin\<close>, \<open>Mockup_App\<close>: the plugin's refresh machine and the loading of previews.
  \<^item> \<open>Store_Refinements\<close>: the toast store as a slot, and the end of a refresh of the plugin.
  \<^item> \<open>Web_Auth\<close>, \<open>Web_Router\<close>, \<open>Web_Registry\<close>, \<open>Web_Parcel\<close>: sessions and the gate, routes, boundary and
    navigation, the pages that list parcels, the page of one parcel with its evidence dialog, and the
    registration form.
  \<^item> \<open>Zod_Schema\<close>, \<open>Api_Zod\<close>, \<open>Client_Types\<close>, \<open>Schema_Properties\<close>, \<open>Upload_Schema\<close>: schemas and TypeScript types as data,
    the interface \<open>zod_library\<close> of the schema library as a locale with its interpretation on a parser,
    the generated schemas (\<open>lib/api-zod\<close>) and types (\<open>api.schemas.ts\<close>), and how they fit each other
    and their users (server, upload dialog).
  \<^item> \<open>Ui_Sidebar\<close>, \<open>Ui_Carousel\<close>, \<open>Ui_Chart\<close>, \<open>Ui_Form\<close>: the parts of \<open>components/ui\<close> with state or logic.
  \<^item> \<open>Ui_Element\<close>, \<open>Ui_Controls\<close>, \<open>Ui_Overlays\<close>, \<open>Ui_Menus\<close>, \<open>Ui_Layout\<close>, \<open>Ui_Frames\<close>: elements as data, and every
    component of \<open>components/ui\<close> as the element it returns; \<open>Mockup_Controls\<close> to \<open>Mockup_Frames\<close> are the
    copies in the mockup sandbox, translated from their own files.
  \<^item> \<open>Ui_Laws\<close>: what an element's properties are after spreading, and the contract of the class-name
    libraries as the locale \<open>class_library\<close> with an instance; \<open>Ui_Controls_Laws\<close> to \<open>Ui_Frames_Laws\<close> treat
    the components of each theory, \<open>Mockup_Copy\<close> compares most of the copies (locale \<open>class_spacing\<close>),
    \<open>Ui_Properties\<close> collects both, and \<open>Ui_Composition\<close> puts the elements over the state of the hooks.
  \<^item> \<open>Registry_Schema\<close>, \<open>Zod_Types\<close>: the columns that the tables of \<open>lib/db\<close> declare against the rows of
    \<open>Registry_Db\<close>, and the second set of types of \<open>lib/api-zod\<close> against the first.
  \<^item> \<open>Page_Support\<close>, \<open>Page_Frame\<close>, \<open>Page_Registry\<close>, \<open>Page_Parcel\<close>, \<open>Page_Frontend\<close>: the pages of \<open>landvault-web\<close> and
    of the Next.js package \<open>frontend\<close> as the elements they return; \<open>Page_Properties\<close> reads the elements back
    and shows them to be what \<open>Web_Auth\<close>, \<open>Web_Router\<close>, \<open>Web_Registry\<close> and \<open>Web_Parcel\<close> say.
  \<^item> \<open>Startup\<close>: environment checks, logging and the Vite configurations.
  \<^item> \<open>Python_Json\<close>, \<open>Backend_Audit\<close>, \<open>Audit_Writers\<close>: the text that \<open>json.dumps\<close> gives a dictionary, the
    verifier of \<open>kernel/audit.py\<close> against a reference definition of a valid chain, and the writers of
    \<open>kernel/audit_postgres.py\<close> in any interleaving (the locale \<open>payload_column\<close> is the JSONB column).
  \<^item> \<open>Backend_Access\<close>: contexts, policies, the decision point and the gates of \<open>kernel/authorization\<close>.
  \<^item> \<open>Backend_Registry\<close>, \<open>Backend_Laws\<close>: the parcel registry of \<open>contexts/registry\<close>, every request as one
    transaction, its refinement of an abstract step relation and what follows for histories, numbers, rights and audit.
  \<^item> \<open>Backend_Routes\<close>: the routes of \<open>main.py\<close> and the operations of the generated client on them.

  \<^bold>\<open>Correspondence.\<close>  Definitions carry the names of the source where these are free.  A handler is a
  value of type \<open>act\<close>: each statement of the database is a constructor holding its continuation,
  so a run is a sequence of statements and two runs interleave at exactly the awaits of the
  code.  React components are records of their state with one definition per event, and their
  render is a function to a view value; effects, promises and timers are the steps of an
  inductive relation.  The views of pages leave class names, icons and layout out; the pages as elements have
  them.  A component of \<open>components/ui\<close> or a page is a function from its properties to an element, with attributes and spreads in the
  order of the source, so that a later one replaces an earlier one; \<open>React.forwardRef\<close> gives it the
  property \<open>ref\<close>, and a function it writes is a closure named after its place.

  \<^bold>\<open>What is outside.\<close>  Express, drizzle and PostgreSQL, zod, \<open>fetch\<close>, react-query, wouter, Supabase,
  fast-glob and chokidar, clsx, tailwind-merge and cva are not part of the repository: they are arguments of the definitions
  (environments, runtimes, matchers, answers), and what the code relies on is a named
  hypothesis with an instance for which it holds.  No definition uses fuel: loops are recursion
  over their data, and endless processes are step relations.

  \<^bold>\<open>Lemma groups.\<close>  Preservation of the table invariants by every statement and so by every handler;
  the effect of every handler on every branch; page and count queries against the tables; the
  shape of calls and the outcome of responses; injectivity of URLs and of the generated module;
  invariants of the toast store, the plugin, the preview, the session provider, the upload dialog, the
  sidebar and the carousel by rule induction; refinement of the toast store to a slot and termination
  of the refresh; agreement of schemas and types by evaluation over all operations, with the laws of
  the schema library; pages against the lists they are given; JSON text read back as the value that was
  written; properties and classes of callers on the components that wrap an element, and elements against the models of
  the hooks they read; the audit log as a graph of hashes, under every schedule of its writers; the
  tables of the Python registry under every sequence of requests.

  \<^bold>\<open>Not modelled.\<close>  The stateful parts of \<open>components/ui\<close> and \<open>chart.tsx\<close> in \<open>mockup-sandbox\<close> a second
  time (the same code in another quoting style); what radix-ui and the other libraries do with the
  elements; the settings of the code generator and the build scripts; of the
  Python service the identity, evidence and spatial services, tokens, rate limits and configuration
  (\<open>contexts/identity\<close>, \<open>contexts/evidence\<close>, \<open>contexts/spatial\<close>, \<open>kernel/security\<close>), and failures of the database.
\<close>

end
